(* ===== verification/Prelude.thy ===== *)
theory Prelude
  imports Main
begin

text \<open>
  Shared ground of the development: JavaScript strings as character lists with the few
  string methods the source uses, decimal digit strings and their value, first-match and
  guarded-update operations on database tables (lists of rows), and the result type of
  functions that may throw.  The automation collections of the development are declared
  here: \<open>text_simps\<close> for digit strings, \<open>table_simps\<close> for tables.
\<close>

named_theorems text_simps
named_theorems table_simps

section \<open>Characters and strings\<close>

text \<open>
  A source string is a list of characters; literals written here are ASCII.  Dash and
  arrow characters of message texts are spelled as their UTF-8 bytes.
\<close>

definition em_dash :: string where
  "em_dash = [char_of (226::nat), char_of (128::nat), char_of (148::nat)]"

definition char_code :: "char \<Rightarrow> nat" where
  "char_code c = of_char c"

definition is_digit :: "char \<Rightarrow> bool" where
  "is_digit c \<longleftrightarrow> 48 \<le> char_code c \<and> char_code c \<le> 57"

definition digit_of :: "char \<Rightarrow> nat" where
  "digit_of c = char_code c - 48"

definition digit_char :: "nat \<Rightarrow> char" where
  "digit_char n = char_of (48 + n)"

text \<open>White space of \<open>String.prototype.trim\<close>, in the ASCII range.\<close>

definition is_space :: "char \<Rightarrow> bool" where
  "is_space c \<longleftrightarrow> char_code c \<in> {9, 10, 11, 12, 13, 32}"

definition trim :: "string \<Rightarrow> string" where
  "trim s = rev (dropWhile is_space (rev (dropWhile is_space s)))"

definition upper_char :: "char \<Rightarrow> char" where
  "upper_char c = (if 97 \<le> char_code c \<and> char_code c \<le> 122
                   then char_of (char_code c - 32) else c)"

definition lower_char :: "char \<Rightarrow> char" where
  "lower_char c = (if 65 \<le> char_code c \<and> char_code c \<le> 90
                   then char_of (char_code c + 32) else c)"

definition to_upper :: "string \<Rightarrow> string" where
  "to_upper s = map upper_char s"

definition to_lower :: "string \<Rightarrow> string" where
  "to_lower s = map lower_char s"

fun starts_with :: "string \<Rightarrow> string \<Rightarrow> bool" where
  "starts_with [] s = True"
| "starts_with (p # ps) [] = False"
| "starts_with (p # ps) (c # cs) = (p = c \<and> starts_with ps cs)"

definition pad_start :: "nat \<Rightarrow> char \<Rightarrow> string \<Rightarrow> string" where
  "pad_start n c s = replicate (n - length s) c @ s"

definition pad_end :: "nat \<Rightarrow> char \<Rightarrow> string \<Rightarrow> string" where
  "pad_end n c s = s @ replicate (n - length s) c"

section \<open>Decimal digit strings\<close>

text \<open>\<open>BigInt.prototype.toString\<close> and \<open>BigInt(digits)\<close> on non-negative values.\<close>

fun nat_text :: "nat \<Rightarrow> string" where
  "nat_text n = (if n < 10 then [digit_char n] else nat_text (n div 10) @ [digit_char (n mod 10)])"

declare nat_text.simps [simp del]

definition digits_val :: "string \<Rightarrow> nat" where
  "digits_val s = foldl (\<lambda>a c. 10 * a + digit_of c) 0 s"

definition int_text :: "int \<Rightarrow> string" where
  "int_text z = (if z < 0 then ''-'' else []) @ nat_text (nat \<bar>z\<bar>)"

definition all_digits :: "string \<Rightarrow> bool" where
  "all_digits s \<longleftrightarrow> list_all is_digit s"

lemma char_code_digit_char [text_simps]: "n < 10 \<Longrightarrow> char_code (digit_char n) = 48 + n"
  by (simp add: char_code_def digit_char_def)

lemma digit_of_digit_char [text_simps]: "n < 10 \<Longrightarrow> digit_of (digit_char n) = n"
  by (simp add: digit_of_def text_simps)

lemma is_digit_digit_char [text_simps]: "n < 10 \<Longrightarrow> is_digit (digit_char n)"
  by (simp add: is_digit_def text_simps)

lemma digit_char_zero [text_simps]: "digit_char 0 = CHR ''0''"
proof -
  have "char_of (of_char CHR ''0'' :: nat) = CHR ''0''" by (rule char_of_char)
  then show ?thesis by (simp add: digit_char_def)
qed

lemma char_code_inj: "char_code c = char_code d \<longleftrightarrow> c = d"
  by (simp add: char_code_def)

lemma is_digit_zero [simp]: "is_digit CHR ''0''"
  by (simp add: is_digit_def char_code_def)

lemma digit_of_zero [simp]: "digit_of CHR ''0'' = 0"
  by (simp add: digit_of_def char_code_def)

lemma digit_of_eq_zero: "is_digit c \<Longrightarrow> digit_of c = 0 \<longleftrightarrow> c = CHR ''0''"
proof -
  assume d: "is_digit c"
  have "digit_of c = 0 \<longleftrightarrow> char_code c = char_code CHR ''0''"
    using d by (auto simp: is_digit_def digit_of_def char_code_def)
  also have "\<dots> \<longleftrightarrow> c = CHR ''0''"
    by (rule char_code_inj)
  finally show ?thesis .
qed

lemma is_digit_not_dot [simp]: "\<not> is_digit CHR ''.''"
  by (simp add: is_digit_def char_code_def)

lemma is_digit_not_minus [simp]: "\<not> is_digit CHR ''-''" "\<not> is_digit CHR ''+''"
  by (simp_all add: is_digit_def char_code_def)

lemma is_digit_not_space [simp]: "is_digit c \<Longrightarrow> \<not> is_space c"
  by (auto simp: is_digit_def is_space_def)

lemma digits_val_Nil [text_simps]: "digits_val [] = 0"
  by (simp add: digits_val_def)

lemma digits_val_snoc [text_simps]: "digits_val (s @ [c]) = 10 * digits_val s + digit_of c"
  by (simp add: digits_val_def)

lemma digits_val_append: "digits_val (s @ t) = digits_val s * 10 ^ length t + digits_val t"
proof (induction t rule: rev_induct)
  case Nil
  then show ?case by (simp add: text_simps)
next
  case (snoc c t)
  have "digits_val (s @ t @ [c]) = 10 * digits_val (s @ t) + digit_of c"
    using digits_val_snoc[of "s @ t" c] by simp
  then show ?case by (simp add: snoc.IH digits_val_snoc algebra_simps)
qed

lemma digits_val_replicate_zero [text_simps]: "digits_val (replicate k CHR ''0'') = 0"
proof (induction k)
  case 0
  show ?case by (simp add: digits_val_Nil)
next
  case (Suc k)
  have "replicate (Suc k) CHR ''0'' = replicate k CHR ''0'' @ [CHR ''0'']"
    by (simp add: replicate_append_same)
  with Suc show ?case by (simp only: digits_val_snoc) simp
qed

lemma digits_val_pad_start [text_simps]: "digits_val (pad_start n CHR ''0'' s) = digits_val s"
  by (simp add: pad_start_def digits_val_append text_simps)

lemma digits_val_pad_end [text_simps]:
  "digits_val (pad_end n CHR ''0'' s) = digits_val s * 10 ^ (n - length s)"
  by (simp add: pad_end_def digits_val_append text_simps)

lemma digits_val_bound: "all_digits s \<Longrightarrow> digits_val s < 10 ^ length s"
proof (induction s rule: rev_induct)
  case Nil
  then show ?case by (simp add: text_simps)
next
  case (snoc c s)
  then have "digits_val s + 1 \<le> 10 ^ length s" and "digit_of c \<le> 9"
    by (auto simp: all_digits_def is_digit_def digit_of_def)
  then show ?case by (simp add: digits_val_snoc)
qed

lemma digits_val_nat_text [text_simps]: "digits_val (nat_text n) = n"
proof (induction n rule: nat_text.induct)
  case (1 n)
  then show ?case
    by (cases "n < 10") (simp_all add: nat_text.simps[of n] digits_val_snoc text_simps,
        simp add: digits_val_def text_simps)
qed

lemma all_digits_nat_text [text_simps]: "all_digits (nat_text n)"
proof (induction n rule: nat_text.induct)
  case (1 n)
  then show ?case
    by (cases "n < 10") (simp_all add: nat_text.simps[of n] all_digits_def text_simps)
qed

lemma nat_text_not_Nil [simp]: "nat_text n \<noteq> []"
  by (subst nat_text.simps) simp

lemma nat_text_inj [simp]: "nat_text m = nat_text n \<longleftrightarrow> m = n"
  by (metis digits_val_nat_text)

lemma length_nat_text: "n < 10 ^ k \<Longrightarrow> 0 < k \<Longrightarrow> length (nat_text n) \<le> k"
proof (induction n arbitrary: k rule: nat_text.induct)
  case (1 n)
  show ?case
  proof (cases "n < 10")
    case True
    with "1.prems" show ?thesis by (simp add: nat_text.simps[of n])
  next
    case False
    with "1.prems" obtain j where k: "k = Suc j" "0 < j"
      by (cases k; cases "k - 1") auto
    with "1.prems" have "n div 10 < 10 ^ j"
      by (simp add: less_mult_imp_div_less mult.commute)
    with "1.IH"[OF False] k False show ?thesis
      by (simp add: nat_text.simps[of n])
  qed
qed

lemma nat_text_leading: "hd (nat_text n) = CHR ''0'' \<Longrightarrow> n = 0"
proof (induction n rule: nat_text.induct)
  case (1 n)
  show ?case
  proof (cases "n < 10")
    case True
    with "1.prems" have "digit_of (digit_char n) = digit_of CHR ''0''"
      by (simp add: nat_text.simps[of n])
    with True show ?thesis by (simp add: text_simps)
  next
    case False
    then have "hd (nat_text n) = hd (nat_text (n div 10))"
      by (simp add: nat_text.simps[of n])
    with "1.IH"[OF False] "1.prems" False show ?thesis by simp
  qed
qed

lemma nat_text_zero: "nat_text 0 = ''0''"
  by (simp add: nat_text.simps text_simps)

text \<open>Digits of zero padding: the suffix a \<open>padStart\<close> leaves has the padded length.\<close>

lemma length_pad_start: "length s \<le> n \<Longrightarrow> length (pad_start n c s) = n"
  by (simp add: pad_start_def)

lemma all_digits_pad [text_simps]:
  "all_digits (pad_start n CHR ''0'' s) = all_digits s"
  "all_digits (pad_end n CHR ''0'' s) = all_digits s"
  by (auto simp: all_digits_def pad_start_def pad_end_def list_all_iff)

lemma all_digits_append [text_simps]: "all_digits (s @ t) \<longleftrightarrow> all_digits s \<and> all_digits t"
  by (auto simp: all_digits_def)

lemma all_digits_no_char: "all_digits s \<Longrightarrow> \<not> is_digit c \<Longrightarrow> c \<notin> set s"
  by (auto simp: all_digits_def list_all_iff)

lemma takeWhile_digits_sep:
  assumes "all_digits w" "\<not> is_digit c"
  shows "takeWhile (\<lambda>x. x \<noteq> c) (w @ c # r) = w" "dropWhile (\<lambda>x. x \<noteq> c) (w @ c # r) = c # r"
    "takeWhile (\<lambda>x. x \<noteq> c) w = w" "dropWhile (\<lambda>x. x \<noteq> c) w = []"
proof -
  have "\<forall>x \<in> set w. x \<noteq> c" using assms by (auto simp: all_digits_def list_all_iff)
  then show "takeWhile (\<lambda>x. x \<noteq> c) (w @ c # r) = w"
    "dropWhile (\<lambda>x. x \<noteq> c) (w @ c # r) = c # r"
    "takeWhile (\<lambda>x. x \<noteq> c) w = w" "dropWhile (\<lambda>x. x \<noteq> c) w = []"
    by (simp_all add: takeWhile_append2 dropWhile_append2 takeWhile_eq_all_conv)
qed

lemma dropWhile_none: "(\<forall>c \<in> set s. \<not> P c) \<Longrightarrow> dropWhile P s = s"
  by (cases s) auto

lemma trim_no_space: "(\<forall>c \<in> set s. \<not> is_space c) \<Longrightarrow> trim s = s"
  by (simp add: trim_def dropWhile_none)

text \<open>Digit strings of one length are determined by their value.\<close>

lemma digit_of_inj: "is_digit c \<Longrightarrow> is_digit d \<Longrightarrow> digit_of c = digit_of d \<Longrightarrow> c = d"
  by (auto simp: is_digit_def digit_of_def char_code_inj[symmetric])

lemma digits_val_inj:
  "length s = length t \<Longrightarrow> all_digits s \<Longrightarrow> all_digits t \<Longrightarrow> digits_val s = digits_val t \<Longrightarrow> s = t"
proof (induction s arbitrary: t rule: rev_induct)
  case Nil
  then show ?case by simp
next
  case (snoc c s)
  obtain u d where t: "t = u @ [d]" using snoc.prems(1) by (cases t rule: rev_cases) auto
  have dig: "is_digit c" "is_digit d" "all_digits s" "all_digits u"
    using snoc.prems t by (simp_all add: all_digits_def)
  then have "digit_of c < 10" "digit_of d < 10" by (auto simp: is_digit_def digit_of_def)
  moreover have "10 * digits_val s + digit_of c = 10 * digits_val u + digit_of d"
    using snoc.prems(4) t by (simp add: digits_val_snoc)
  ultimately have "digits_val s = digits_val u" "digit_of c = digit_of d" by presburger+
  then show ?case
    using snoc.IH[of u] snoc.prems(1) t dig digit_of_inj[of c d] by simp
qed

text \<open>A digit string without superfluous leading zero is the text of its value.\<close>

lemma digits_val_leading:
  assumes "all_digits s" "s \<noteq> []" "hd s \<noteq> CHR ''0''"
  shows "digits_val s \<noteq> 0"
proof -
  have "digits_val s = digit_of (hd s) * 10 ^ length (tl s) + digits_val (tl s)"
    using digits_val_append[of "[hd s]" "tl s"] assms(2) by (simp add: digits_val_def)
  moreover have "digit_of (hd s) \<noteq> 0"
    using assms by (cases s) (auto simp: all_digits_def digit_of_eq_zero)
  ultimately show ?thesis by simp
qed

lemma nat_text_digits_val:
  "all_digits w \<Longrightarrow> w \<noteq> [] \<Longrightarrow> w = ''0'' \<or> hd w \<noteq> CHR ''0'' \<Longrightarrow> nat_text (digits_val w) = w"
proof (induction w rule: rev_induct)
  case Nil
  then show ?case by simp
next
  case (snoc c s)
  have c: "is_digit c" "digit_of c < 10"
    using snoc.prems by (auto simp: all_digits_def is_digit_def digit_of_def)
  then have dc: "digit_char (digit_of c) = c"
    by (simp add: digit_char_def digit_of_def is_digit_def char_code_def)
  show ?case
  proof (cases "s = []")
    case True
    with c dc show ?thesis by (simp add: digits_val_def nat_text.simps[of "digit_of c"])
  next
    case False
    then have hd: "hd s \<noteq> CHR ''0''" and ad: "all_digits s"
      using snoc.prems by (auto simp: all_digits_def)
    then have "nat_text (10 * digits_val s + digit_of c) = nat_text (digits_val s) @ [digit_char (digit_of c)]"
      using c digits_val_leading[OF ad False hd] by (subst nat_text.simps) simp
    with snoc.IH[OF ad False] hd dc show ?thesis by (simp add: digits_val_snoc)
  qed
qed

end
