(* ===== verification/Money.thy ===== *)
theory Money
  imports Prelude
begin

text \<open>
  Exact money in the source is decimal text: \<open>packages/shared/src/money.ts\<close> and the
  helpers of the settlement, dispute, payout and deposit cores print and parse it with
  BigInt arithmetic.  This theory models those helpers and the values they are applied to:
  JavaScript values of unknown type, and \<open>Decimal\<close> columns.

  A \<open>Decimal\<close> column (PostgreSQL \<open>decimal(65,30)\<close>) is the integer number of
  \<open>10^-30\<close> units it holds; a column value read by the code is an object whose
  \<open>toString\<close> is the plain decimal text (the notation decimal.js uses for values of
  magnitude between \<open>1e-7\<close> and \<open>1e21\<close>, and zero).  The locale \<open>text_codec\<close> is the
  contract every printer/parser pair of the source keeps.
\<close>

section \<open>JavaScript values of unknown type\<close>

text \<open>
  A number is represented by the text \<open>String(number)\<close> gives for it; an object by
  the text of its \<open>toString\<close>.
\<close>

datatype jsval =
    JUndefined
  | JNull
  | JBool bool
  | JNum string
  | JText string
  | JBig int
  | JObj string

fun js_string :: "jsval \<Rightarrow> string" where
  "js_string JUndefined = ''undefined''"
| "js_string JNull = ''null''"
| "js_string (JBool b) = (if b then ''true'' else ''false'')"
| "js_string (JNum t) = t"
| "js_string (JText t) = t"
| "js_string (JBig z) = int_text z"
| "js_string (JObj t) = t"

fun typeof :: "jsval \<Rightarrow> string" where
  "typeof JUndefined = ''undefined''"
| "typeof JNull = ''object''"
| "typeof (JBool b) = ''boolean''"
| "typeof (JNum t) = ''number''"
| "typeof (JText t) = ''string''"
| "typeof (JBig z) = ''bigint''"
| "typeof (JObj t) = ''object''"

definition nullish :: "jsval \<Rightarrow> bool" where
  "nullish v \<longleftrightarrow> v = JUndefined \<or> v = JNull"

text \<open>The nullish-coalescing operator \<open>value ?? fallback\<close>.\<close>

definition coalesce :: "jsval \<Rightarrow> jsval \<Rightarrow> jsval" where
  "coalesce v d = (if nullish v then d else v)"

definition non_finite_texts :: "string list" where
  "non_finite_texts = [''NaN'', ''Infinity'', ''-Infinity'']"

definition MAX_SAFE_INTEGER :: int where
  "MAX_SAFE_INTEGER = 9007199254740991"

text \<open>
  \<open>Number.isSafeInteger\<close> of the number with this text: integers print without a point
  or exponent up to \<open>1e21\<close>.
\<close>

definition safe_integer :: "string \<Rightarrow> int option" where
  "safe_integer t =
     (let neg = starts_with ''-'' t; d = (if neg then tl t else t)
      in if d \<noteq> [] \<and> all_digits d \<and> int (digits_val d) \<le> MAX_SAFE_INTEGER
         then Some (if neg then - int (digits_val d) else int (digits_val d)) else None)"

section \<open>Decimal patterns\<close>

text \<open>
  The regular expressions of the source share one shape: digits, optionally a point and
  digits.  \<open>match_number\<close> is \<open>(\d+)(?:\.(\d+))?\<close> anchored at both ends.
\<close>

definition match_number :: "string \<Rightarrow> (string \<times> string option) option" where
  "match_number s =
     (let w = takeWhile (\<lambda>c. c \<noteq> CHR ''.'') s; r = dropWhile (\<lambda>c. c \<noteq> CHR ''.'') s
      in if w \<noteq> [] \<and> all_digits w
         then (case r of [] \<Rightarrow> Some (w, None)
               | _ # f \<Rightarrow> if f \<noteq> [] \<and> all_digits f then Some (w, Some f) else None)
         else None)"

text \<open>\<open>(0|[1-9]\d*)(?:\.(\d{1,2}))?\<close>: no superfluous leading zero, at most two decimals.\<close>

definition match_cents :: "string \<Rightarrow> (string \<times> string) option" where
  "match_cents s =
     (case match_number s of
        None \<Rightarrow> None
      | Some (w, f) \<Rightarrow>
          if (w = ''0'' \<or> hd w \<noteq> CHR ''0'') \<and> (case f of None \<Rightarrow> True | Some d \<Rightarrow> length d \<le> 2)
          then Some (w, case f of None \<Rightarrow> [] | Some d \<Rightarrow> d) else None)"

definition strip_zeros :: "string \<Rightarrow> string" where
  "strip_zeros s = rev (dropWhile (\<lambda>c. c = CHR ''0'') (rev s))"

definition split_minus :: "string \<Rightarrow> bool \<times> string" where
  "split_minus s = (case s of c # r \<Rightarrow> if c = CHR ''-'' then (True, r) else (False, s) | [] \<Rightarrow> (False, s))"

definition split_sign :: "string \<Rightarrow> bool \<times> string" where
  "split_sign s =
     (case s of c # r \<Rightarrow> if c = CHR ''-'' then (True, r)
                          else if c = CHR ''+'' then (False, r) else (False, s)
      | [] \<Rightarrow> (False, s))"

section \<open>money.ts\<close>

definition isSupportedMoneyCurrency :: "jsval \<Rightarrow> bool" where
  "isSupportedMoneyCurrency currency \<longleftrightarrow> currency = JText ''USD''"

definition normalizePositiveUsdMoney :: "jsval \<Rightarrow> string option" where
  "normalizePositiveUsdMoney value =
     (if nullish value \<or> typeof value = ''boolean'' then None
      else if typeof value = ''number'' \<and> js_string value \<in> set non_finite_texts then None
      else let text = js_string value in
        if text = [] \<or> text \<noteq> trim text then None
        else case match_cents text of
          None \<Rightarrow> None
        | Some (whole, frac) \<Rightarrow>
            let fraction = pad_end 2 CHR ''0'' frac;
                minorUnits = digits_val whole * 100 + digits_val fraction
            in if minorUnits \<le> 0 then None
               else if typeof value = ''number'' \<and> int minorUnits > MAX_SAFE_INTEGER then None
               else Some (whole @ ''.'' @ fraction))"

definition isPositiveWholeCentUsdMoney :: "jsval \<Rightarrow> bool" where
  "isPositiveWholeCentUsdMoney value \<longleftrightarrow> normalizePositiveUsdMoney value \<noteq> None"

section \<open>Exact cents (settlement-auto-release-core.ts)\<close>

definition requireUsd :: "string \<Rightarrow> string \<Rightarrow> string + unit" where
  "requireUsd value label =
     (if value \<noteq> ''USD'' then Inl (label @ '' currency must be exactly USD'') else Inr ())"

definition truthy_text :: "jsval \<Rightarrow> string" where
  "truthy_text value =
     (case value of
        JText t \<Rightarrow> t
      | JNum t \<Rightarrow> t
      | JObj t \<Rightarrow> t
      | JBool b \<Rightarrow> if b then ''true'' else ''''
      | JBig z \<Rightarrow> if z \<noteq> 0 then int_text z else ''''
      | JUndefined \<Rightarrow> ''''
      | JNull \<Rightarrow> '''')"

definition exactUsdCents :: "jsval \<Rightarrow> string \<Rightarrow> string + int" where
  "exactUsdCents value label =
     (let raw = truthy_text value; (neg, digits) = split_minus raw
      in case match_cents digits of
           None \<Rightarrow> Inl (label @ '' is not an exact two-decimal amount'')
         | Some (whole, fraction) \<Rightarrow>
             let cents = int (digits_val whole) * 100
                         + int (digits_val (pad_end 2 CHR ''0'' fraction))
             in Inr (if neg then - cents else cents))"

definition usdAmount :: "int \<Rightarrow> string" where
  "usdAmount cents =
     (let negative = cents < 0; absolute = nat \<bar>cents\<bar>
      in (if negative then ''-'' else []) @ nat_text (absolute div 100) @ ''.''
         @ pad_start 2 CHR ''0'' (nat_text (absolute mod 100)))"

section \<open>Thirty-digit decimals (payment-dispute-core.ts, payout-finalization-core.ts)\<close>

definition MONEY_SCALE :: nat where
  "MONEY_SCALE = 30"

definition MONEY_FACTOR :: int where
  "MONEY_FACTOR = 10 ^ MONEY_SCALE"

text \<open>One cent, in the units of a column.\<close>

definition CENT :: int where
  "CENT = 10 ^ 28"

definition scaledDecimal :: "jsval \<Rightarrow> string + int" where
  "scaledDecimal value =
     (let raw = trim (js_string (coalesce value (JText ''0''))); (negative, digits) = split_sign raw
      in case match_number digits of
           None \<Rightarrow> Inl (''Invalid decimal value: '' @ raw)
         | Some (whole, frac) \<Rightarrow>
             let fraction = take MONEY_SCALE (pad_end MONEY_SCALE CHR ''0''
                              (case frac of None \<Rightarrow> [] | Some f \<Rightarrow> f));
                 scaled = int (digits_val whole) * MONEY_FACTOR + int (digits_val fraction)
             in Inr (if negative then - scaled else scaled))"

definition decimalString :: "int \<Rightarrow> string" where
  "decimalString value =
     (let negative = value < 0; absolute = \<bar>value\<bar>;
          whole = nat (absolute div MONEY_FACTOR);
          fractional = strip_zeros (pad_start MONEY_SCALE CHR ''0''
                         (nat_text (nat (absolute mod MONEY_FACTOR))))
      in (if negative then ''-'' else []) @ nat_text whole
         @ (if fractional = [] then [] else ''.'' @ fractional))"

definition moneyString :: "int \<Rightarrow> string" where
  "moneyString value =
     (let decimal = decimalString value;
          whole = takeWhile (\<lambda>c. c \<noteq> CHR ''.'') decimal;
          rest = dropWhile (\<lambda>c. c \<noteq> CHR ''.'') decimal;
          fraction = (case rest of [] \<Rightarrow> [] | _ # f \<Rightarrow> f)
      in whole @ ''.'' @ take 2 (pad_end 2 CHR ''0'' fraction))"

text \<open>The value of a \<open>Decimal\<close> column as the code reads it.\<close>

definition column :: "int \<Rightarrow> jsval" where
  "column d = JObj (decimalString d)"

definition normalizedCurrency :: "jsval \<Rightarrow> string" where
  "normalizedCurrency value = to_upper (trim (js_string (coalesce value (JText []))))"

definition decimalsEqual :: "jsval \<Rightarrow> jsval \<Rightarrow> bool" where
  "decimalsEqual left right =
     (case (scaledDecimal left, scaledDecimal right) of (Inr l, Inr r) \<Rightarrow> l = r | _ \<Rightarrow> False)"

definition normalizedMinorAmount :: "jsval \<Rightarrow> int option" where
  "normalizedMinorAmount value =
     (case value of
        JBig z \<Rightarrow> if z > 0 then Some z else None
      | JNum t \<Rightarrow> (case safe_integer t of Some z \<Rightarrow> if z > 0 then Some z else None | None \<Rightarrow> None)
      | JText t \<Rightarrow> if t \<noteq> [] \<and> all_digits t \<and> hd t \<noteq> CHR ''0'' then Some (int (digits_val t)) else None
      | _ \<Rightarrow> None)"

definition decimalMinorAmount :: "jsval \<Rightarrow> jsval \<Rightarrow> int option" where
  "decimalMinorAmount value currency =
     (if normalizedCurrency currency \<noteq> ''USD'' then None
      else case scaledDecimal value of
        Inl _ \<Rightarrow> None
      | Inr scaled \<Rightarrow>
          let factor = 10 ^ (MONEY_SCALE - 2)
          in if scaled \<le> 0 \<or> scaled mod factor \<noteq> 0 then None else Some (scaled div factor))"

section \<open>Minor units (deposit-credit-core.ts)\<close>

definition decimalToMinor :: "jsval \<Rightarrow> int option" where
  "decimalToMinor value =
     (let (negative, digits) = split_sign (trim (js_string (coalesce value (JText []))))
      in case match_number digits of
           None \<Rightarrow> None
         | Some (whole, frac) \<Rightarrow>
             let fraction = (case frac of None \<Rightarrow> [] | Some f \<Rightarrow> f)
             in if filter (\<lambda>c. c \<noteq> CHR ''0'') (drop 2 fraction) \<noteq> [] then None
                else let result = int (digits_val whole) * 100
                                  + int (digits_val (take 2 (pad_end 2 CHR ''0'' fraction)))
                     in Some (if negative then - result else result))"

definition minorToMoney :: "int \<Rightarrow> string" where
  "minorToMoney value =
     nat_text (nat (value div 100)) @ ''.'' @ pad_start 2 CHR ''0'' (nat_text (nat (value mod 100)))"

section \<open>Twelve-digit units (settlement-release-evidence.ts)\<close>

definition decimalUnits :: "jsval \<Rightarrow> int option" where
  "decimalUnits value =
     (let text = js_string (coalesce value (JText [])); (negative, digits) = split_minus text
      in case match_number digits of
           None \<Rightarrow> None
         | Some (whole, frac) \<Rightarrow>
             let fraction = (case frac of None \<Rightarrow> [] | Some f \<Rightarrow> f);
                 units = int (digits_val whole) * 1000000000000
                         + int (digits_val (take 12 (fraction @ replicate 12 CHR ''0'')))
             in Some (if negative then - units else units))"

section \<open>The printer/parser contract\<close>

locale text_codec =
  fixes print :: "'v \<Rightarrow> string" and parse :: "string \<Rightarrow> 'v option" and dom :: "'v \<Rightarrow> bool"
  assumes parse_print: "dom v \<Longrightarrow> parse (print v) = Some v"
begin

lemma print_inject: "dom v \<Longrightarrow> dom w \<Longrightarrow> print v = print w \<longleftrightarrow> v = w"
  by (metis option.inject parse_print)

lemma parse_print_distinct:
  "distinct vs \<Longrightarrow> list_all dom vs \<Longrightarrow> distinct (map print vs)"
  by (induction vs) (auto simp: print_inject list_all_iff)

end

section \<open>Facts about the patterns\<close>

lemma MONEY_FACTOR_CENT: "MONEY_FACTOR = 100 * CENT"
  by (simp add: MONEY_FACTOR_def CENT_def MONEY_SCALE_def)

lemma MONEY_FACTOR_pos [simp]: "0 < MONEY_FACTOR"
  by (simp add: MONEY_FACTOR_def)

lemma CENT_pos [simp]: "0 < CENT" "CENT \<noteq> 0"
  by (simp_all add: CENT_def)

lemma match_number_whole [text_simps]:
  "all_digits w \<Longrightarrow> w \<noteq> [] \<Longrightarrow> match_number w = Some (w, None)"
  by (simp add: match_number_def Let_def takeWhile_digits_sep)

lemma match_number_frac [text_simps]:
  assumes "all_digits w" "w \<noteq> []" "all_digits f" "f \<noteq> []"
  shows "match_number (w @ CHR ''.'' # f) = Some (w, Some f)"
  using assms takeWhile_digits_sep(1,2)[of w "CHR ''.''" f]
  by (simp add: match_number_def Let_def)

lemma match_numberD:
  assumes "match_number s = Some (w, f)"
  shows "w \<noteq> []" "all_digits w" "s = w @ (case f of None \<Rightarrow> [] | Some d \<Rightarrow> CHR ''.'' # d)"
    "(case f of None \<Rightarrow> True | Some d \<Rightarrow> d \<noteq> [] \<and> all_digits d)"
proof -
  let ?w = "takeWhile (\<lambda>c. c \<noteq> CHR ''.'') s" and ?r = "dropWhile (\<lambda>c. c \<noteq> CHR ''.'') s"
  have s: "s = ?w @ ?r" by simp
  have m: "?w \<noteq> []" "all_digits ?w" "w = ?w"
    using assms by (auto simp: match_number_def Let_def split: if_splits list.splits)
  then show "w \<noteq> []" "all_digits w" by simp_all
  show "s = w @ (case f of None \<Rightarrow> [] | Some d \<Rightarrow> CHR ''.'' # d)"
  proof (cases ?r)
    case Nil
    with assms m s show ?thesis by (simp add: match_number_def)
  next
    case (Cons c d)
    then have "c = CHR ''.''" using hd_dropWhile[of "\<lambda>c. c \<noteq> CHR ''.''" s] by simp
    with assms m s Cons show ?thesis
      by (auto simp: match_number_def split: if_splits)
  qed
  show "(case f of None \<Rightarrow> True | Some d \<Rightarrow> d \<noteq> [] \<and> all_digits d)"
    using assms m by (cases ?r) (auto simp: match_number_def Let_def split: if_splits)
qed

lemma split_sign_digits [text_simps]:
  "all_digits w \<Longrightarrow> w \<noteq> [] \<Longrightarrow> split_sign (w @ r) = (False, w @ r)"
  "all_digits w \<Longrightarrow> w \<noteq> [] \<Longrightarrow> split_minus (w @ r) = (False, w @ r)"
  by (cases w; force simp: split_sign_def split_minus_def all_digits_def)+

lemma split_sign_minus [text_simps]:
  "split_sign (CHR ''-'' # r) = (True, r)" "split_minus (CHR ''-'' # r) = (True, r)"
  by (simp_all add: split_sign_def split_minus_def)

lemma strip_zeros_split: "\<exists>k. s = strip_zeros s @ replicate k CHR ''0''"
proof -
  let ?t = "takeWhile (\<lambda>c. c = CHR ''0'') (rev s)" and ?d = "dropWhile (\<lambda>c. c = CHR ''0'') (rev s)"
  have t: "?t = replicate (length ?t) CHR ''0''"
    by (rule replicate_eqI[symmetric, THEN sym]) (auto dest: set_takeWhileD)
  have "s = rev (?t @ ?d)" by simp
  also have "\<dots> = rev ?d @ rev ?t" by (rule rev_append)
  also have "rev ?t = replicate (length ?t) CHR ''0''"
    by (subst t) (simp only: rev_replicate)
  finally show ?thesis unfolding strip_zeros_def by blast
qed

lemma strip_zeros_pad: "pad_end (length s) CHR ''0'' (strip_zeros s) = s"
proof -
  obtain k where k: "s = strip_zeros s @ replicate k CHR ''0''"
    using strip_zeros_split by blast
  then have "length s = length (strip_zeros s) + k"
    by (metis length_append length_replicate)
  with k show ?thesis by (simp add: pad_end_def)
qed

lemma all_digits_strip: "all_digits s \<Longrightarrow> all_digits (strip_zeros s)"
  using strip_zeros_split[of s] by (metis all_digits_append)

lemma strip_zeros_length: "length (strip_zeros s) \<le> n \<longleftrightarrow> (\<forall>c \<in> set (drop n s). c = CHR ''0'')"
proof
  assume a: "length (strip_zeros s) \<le> n"
  obtain k where "s = strip_zeros s @ replicate k CHR ''0''" using strip_zeros_split by blast
  with a have "drop n s = drop (n - length (strip_zeros s)) (replicate k CHR ''0'')"
    by (metis append_Nil drop_all drop_append)
  then show "\<forall>c \<in> set (drop n s). c = CHR ''0''" by simp
next
  assume a: "\<forall>c \<in> set (drop n s). c = CHR ''0''"
  have "strip_zeros s = rev (dropWhile (\<lambda>c. c = CHR ''0'') (rev (drop n s) @ rev (take n s)))"
    by (metis append_take_drop_id rev_append strip_zeros_def)
  also have "\<dots> = rev (dropWhile (\<lambda>c. c = CHR ''0'') (rev (take n s)))"
    using a dropWhile_append2[of "rev (drop n s)" "\<lambda>c. c = CHR ''0''"] by simp
  finally have "strip_zeros s = \<dots>" .
  moreover have "length (dropWhile (\<lambda>c. c = CHR ''0'') (rev (take n s))) \<le> length (take n s)"
    by (metis length_dropWhile_le length_rev)
  ultimately show "length (strip_zeros s) \<le> n" by simp
qed

lemma digits_val_zero_iff: "all_digits s \<Longrightarrow> digits_val s = 0 \<longleftrightarrow> (\<forall>c \<in> set s. c = CHR ''0'')"
  by (induction s rule: rev_induct)
     (auto simp: text_simps digits_val_snoc all_digits_def digit_of_eq_zero)

section \<open>Printing and parsing decimals\<close>

text \<open>The two halves of a printed decimal.\<close>

definition decimal_whole :: "int \<Rightarrow> string" where
  "decimal_whole d = nat_text (nat (\<bar>d\<bar> div MONEY_FACTOR))"

definition decimal_digits :: "int \<Rightarrow> string" where
  "decimal_digits d = pad_start MONEY_SCALE CHR ''0'' (nat_text (nat (\<bar>d\<bar> mod MONEY_FACTOR)))"

lemma decimal_digits_props:
  "length (decimal_digits d) = 30" "all_digits (decimal_digits d)"
  "int (digits_val (decimal_digits d)) = \<bar>d\<bar> mod MONEY_FACTOR"
proof -
  have "nat (\<bar>d\<bar> mod MONEY_FACTOR) < 10 ^ 30"
    by (simp add: MONEY_FACTOR_def MONEY_SCALE_def nat_less_iff)
  then have "length (nat_text (nat (\<bar>d\<bar> mod MONEY_FACTOR))) \<le> 30"
    by (intro length_nat_text) simp_all
  then show "length (decimal_digits d) = 30"
    by (simp add: decimal_digits_def length_pad_start MONEY_SCALE_def)
  show "all_digits (decimal_digits d)"
    by (simp add: decimal_digits_def text_simps)
  show "int (digits_val (decimal_digits d)) = \<bar>d\<bar> mod MONEY_FACTOR"
    by (simp add: decimal_digits_def text_simps)
qed

lemma decimalString_parts:
  "decimalString d = (if d < 0 then ''-'' else []) @ decimal_whole d
     @ (if strip_zeros (decimal_digits d) = [] then [] else CHR ''.'' # strip_zeros (decimal_digits d))"
  by (simp add: decimalString_def decimal_whole_def decimal_digits_def Let_def)

lemma decimal_whole_props:
  "all_digits (decimal_whole d)" "decimal_whole d \<noteq> []"
  "int (digits_val (decimal_whole d)) = \<bar>d\<bar> div MONEY_FACTOR"
  by (simp_all add: decimal_whole_def text_simps pos_imp_zdiv_nonneg_iff)

lemma match_number_decimal [text_simps]:
  "match_number (decimal_whole d
     @ (if strip_zeros (decimal_digits d) = [] then [] else CHR ''.'' # strip_zeros (decimal_digits d)))
   = Some (decimal_whole d,
       if strip_zeros (decimal_digits d) = [] then None else Some (strip_zeros (decimal_digits d)))"
  using decimal_whole_props(1,2)[of d] all_digits_strip[OF decimal_digits_props(2)[of d]]
  by (simp add: match_number_whole match_number_frac)

lemma split_decimalString [text_simps]:
  "split_sign (decimalString d) = (d < 0, decimal_whole d
     @ (if strip_zeros (decimal_digits d) = [] then [] else CHR ''.'' # strip_zeros (decimal_digits d)))"
  "split_minus (decimalString d) = (d < 0, decimal_whole d
     @ (if strip_zeros (decimal_digits d) = [] then [] else CHR ''.'' # strip_zeros (decimal_digits d)))"
  using split_sign_digits(1)[OF decimal_whole_props(1,2)[of d]]
    split_sign_digits(2)[OF decimal_whole_props(1,2)[of d]]
    split_sign_digits(1)[OF decimal_whole_props(1,2)[of d], of "[]"]
    split_sign_digits(2)[OF decimal_whole_props(1,2)[of d], of "[]"]
  by (simp_all add: decimalString_parts split_sign_minus)

lemma decimalString_no_space: "c \<in> set (decimalString d) \<Longrightarrow> \<not> is_space c"
proof -
  assume c: "c \<in> set (decimalString d)"
  have "is_digit c \<or> c = CHR ''.'' \<or> c = CHR ''-''"
    using c decimal_whole_props(1)[of d] all_digits_strip[OF decimal_digits_props(2)[of d]]
    by (auto simp: decimalString_parts all_digits_def list_all_iff split: if_splits)
  then show ?thesis by (auto simp: is_space_def char_code_def is_digit_def)
qed

lemma trim_decimalString [simp]: "trim (decimalString d) = decimalString d"
  by (rule trim_no_space) (simp add: decimalString_no_space)

lemma coalesce_column [simp]: "coalesce (column d) v = column d" "js_string (column d) = decimalString d"
  "truthy_text (column d) = decimalString d" "typeof (column d) = ''object''"
  by (simp_all add: coalesce_def nullish_def column_def truthy_text_def)

lemma fraction_pad_strip:
  "take 30 (pad_end 30 CHR ''0'' (strip_zeros (decimal_digits d))) = decimal_digits d"
  using strip_zeros_pad[of "decimal_digits d"] decimal_digits_props(1)[of d] by simp

lemma scaledDecimal_column [simp, code_unfold]: "scaledDecimal (column d) = Inr d"
proof -
  have f: "take MONEY_SCALE (pad_end MONEY_SCALE CHR ''0''
      (case (if strip_zeros (decimal_digits d) = [] then None else Some (strip_zeros (decimal_digits d)))
       of None \<Rightarrow> [] | Some f \<Rightarrow> f)) = decimal_digits d"
    using fraction_pad_strip[of d]
    by (cases "strip_zeros (decimal_digits d) = []") (simp_all add: MONEY_SCALE_def)
  have v: "int (digits_val (decimal_whole d)) * MONEY_FACTOR + int (digits_val (decimal_digits d)) = \<bar>d\<bar>"
    by (simp add: decimal_whole_props(3) decimal_digits_props(3))
  show ?thesis
    by (simp add: scaledDecimal_def Let_def text_simps f v)
qed

lemma decimalsEqual_column [simp]: "decimalsEqual (column a) (column b) \<longleftrightarrow> a = b"
  by (simp add: decimalsEqual_def)

section \<open>Exact cents\<close>

text \<open>
  A column passes the exact-cent parser of the release sweep exactly when it holds a whole
  number of cents, and then the parser returns that number: hidden sub-cent digits are
  always refused, never rounded.
\<close>

lemma decimal_digits_cents:
  "length (strip_zeros (decimal_digits d)) \<le> 2 \<longleftrightarrow> CENT dvd d"
proof -
  let ?s = "decimal_digits d"
  have l: "length (drop 2 ?s) = 28" using decimal_digits_props(1)[of d] by simp
  have ad: "all_digits (take 2 ?s)" "all_digits (drop 2 ?s)"
    using decimal_digits_props(2)[of d] by (metis all_digits_append append_take_drop_id)+
  have sum: "int (digits_val ?s) = int (digits_val (take 2 ?s)) * CENT + int (digits_val (drop 2 ?s))"
    using digits_val_append[of "take 2 ?s" "drop 2 ?s"] l by (simp add: CENT_def)
  have bound: "int (digits_val (drop 2 ?s)) < CENT"
    using digits_val_bound[OF ad(2)] l by (simp add: CENT_def)
  have "CENT dvd d \<longleftrightarrow> CENT dvd \<bar>d\<bar> mod MONEY_FACTOR"
    by (simp add: MONEY_FACTOR_CENT dvd_mod_iff)
  also have "\<dots> \<longleftrightarrow> CENT dvd int (digits_val (drop 2 ?s))"
    using sum by (simp add: decimal_digits_props(3) dvd_add_right_iff)
  also have "\<dots> \<longleftrightarrow> digits_val (drop 2 ?s) = 0"
    using bound zdvd_not_zless[of "int (digits_val (drop 2 ?s))" CENT] by auto
  also have "\<dots> \<longleftrightarrow> length (strip_zeros ?s) \<le> 2"
    by (simp add: digits_val_zero_iff[OF ad(2)] strip_zeros_length)
  finally show ?thesis by simp
qed

lemma hd_decimal_whole: "decimal_whole d = ''0'' \<or> hd (decimal_whole d) \<noteq> CHR ''0''"
  unfolding decimal_whole_def using nat_text_leading nat_text_zero by metis

lemma cents_value:
  assumes "length s = n + 28" "all_digits s" "length (strip_zeros s) \<le> n"
  shows "digits_val s = digits_val (pad_end n CHR ''0'' (strip_zeros s)) * 10 ^ 28"
proof -
  have "s = pad_end (n + 28) CHR ''0'' (strip_zeros s)"
    using strip_zeros_pad[of s] assms(1) by simp
  then have "digits_val s = digits_val (strip_zeros s) * 10 ^ (n + 28 - length (strip_zeros s))"
    by (metis digits_val_pad_end)
  also have "\<dots> = digits_val (strip_zeros s) * 10 ^ (n - length (strip_zeros s)) * 10 ^ 28"
    using assms(3) by (simp only: mult.assoc power_add[symmetric]) simp
  finally show ?thesis by (simp only: digits_val_pad_end)
qed

lemma decimal_cents:
  assumes "CENT dvd d"
  shows "int (digits_val (decimal_whole d)) * 100
       + int (digits_val (pad_end 2 CHR ''0'' (strip_zeros (decimal_digits d)))) = \<bar>d\<bar> div CENT"
proof -
  let ?c = "int (digits_val (pad_end 2 CHR ''0'' (strip_zeros (decimal_digits d))))"
  have "\<bar>d\<bar> mod MONEY_FACTOR = ?c * CENT"
    using cents_value[of "decimal_digits d" 2] decimal_digits_props[of d] assms
    by (simp add: decimal_digits_cents CENT_def)
  then have "\<bar>d\<bar> = (\<bar>d\<bar> div MONEY_FACTOR * 100 + ?c) * CENT"
    using div_mult_mod_eq[of "\<bar>d\<bar>" MONEY_FACTOR] by (simp add: MONEY_FACTOR_CENT algebra_simps)
  then have "\<bar>d\<bar> div CENT = \<bar>d\<bar> div MONEY_FACTOR * 100 + ?c"
    by (metis CENT_pos(2) nonzero_mult_div_cancel_right)
  then show ?thesis by (simp add: decimal_whole_props(3))
qed

lemma exactUsdCents_column [code_unfold]:
  "exactUsdCents (column d) label =
     (if CENT dvd d then Inr (d div CENT) else Inl (label @ '' is not an exact two-decimal amount''))"
proof (cases "CENT dvd d")
  case True
  have m: "match_cents (decimal_whole d
      @ (if strip_zeros (decimal_digits d) = [] then [] else CHR ''.'' # strip_zeros (decimal_digits d)))
      = Some (decimal_whole d, strip_zeros (decimal_digits d))"
    using True hd_decimal_whole[of d] by (simp add: match_cents_def text_simps decimal_digits_cents)
  have n: "(if d < 0 then - (\<bar>d\<bar> div CENT) else \<bar>d\<bar> div CENT) = d div CENT"
    using True CENT_pos by (auto elim!: dvdE simp: minus_mult_right simp del: mult_minus_right)
  show ?thesis
    unfolding exactUsdCents_def Let_def coalesce_column split_decimalString prod.case m option.case
      decimal_cents[OF True] n
    using True by simp
next
  case False
  then have "match_cents (decimal_whole d
      @ (if strip_zeros (decimal_digits d) = [] then [] else CHR ''.'' # strip_zeros (decimal_digits d))) = None"
    using decimal_digits_cents[of d] by (auto simp: match_cents_def text_simps)
  with False show ?thesis
    by (simp add: exactUsdCents_def Let_def text_simps)
qed

lemma exactUsdCents_cents [simp]: "exactUsdCents (column (c * CENT)) label = Inr c"
  using CENT_pos by (auto simp: exactUsdCents_column)

section \<open>Cents as text\<close>

lemma cents_digits:
  "length (pad_start 2 CHR ''0'' (nat_text (n mod 100))) = 2"
  "all_digits (pad_start 2 CHR ''0'' (nat_text (n mod 100)))"
  "digits_val (pad_start 2 CHR ''0'' (nat_text (n mod 100))) = n mod 100"
proof -
  have "length (nat_text (n mod 100)) \<le> 2" by (rule length_nat_text) simp_all
  then show "length (pad_start 2 CHR ''0'' (nat_text (n mod 100))) = 2" by (rule length_pad_start)
  show "all_digits (pad_start 2 CHR ''0'' (nat_text (n mod 100)))"
    "digits_val (pad_start 2 CHR ''0'' (nat_text (n mod 100))) = n mod 100"
    by (simp_all only: text_simps)
qed

text \<open>The text of a non-negative number of cents.\<close>

definition cents_text :: "nat \<Rightarrow> string" where
  "cents_text n = nat_text (n div 100) @ CHR ''.'' # pad_start 2 CHR ''0'' (nat_text (n mod 100))"

lemma usdAmount_cents_text: "usdAmount c = (if c < 0 then ''-'' else []) @ cents_text (nat \<bar>c\<bar>)"
  by (simp add: usdAmount_def cents_text_def Let_def)

lemma minorToMoney_cents_text: "0 \<le> c \<Longrightarrow> minorToMoney c = cents_text (nat c)"
  by (simp add: minorToMoney_def cents_text_def nat_div_distrib nat_mod_distrib)

lemma match_number_cents_text [text_simps]:
  "match_number (cents_text n) =
     Some (nat_text (n div 100), Some (pad_start 2 CHR ''0'' (nat_text (n mod 100))))"
proof -
  have "pad_start 2 CHR ''0'' (nat_text (n mod 100)) \<noteq> []"
    using cents_digits(1)[of n] by force
  then show ?thesis
    unfolding cents_text_def by (intro match_number_frac) (simp_all add: all_digits_nat_text cents_digits)
qed

lemma match_cents_cents_text [text_simps]:
  "match_cents (cents_text n) =
     Some (nat_text (n div 100), pad_start 2 CHR ''0'' (nat_text (n mod 100)))"
  using nat_text_leading[of "n div 100"] nat_text_zero
  by (auto simp: match_cents_def match_number_cents_text cents_digits(1))

lemma cents_text_value:
  "int (digits_val (nat_text (n div 100))) * 100
     + int (digits_val (pad_end 2 CHR ''0'' (pad_start 2 CHR ''0'' (nat_text (n mod 100))))) = int n"
proof -
  have "pad_end 2 CHR ''0'' (pad_start 2 CHR ''0'' (nat_text (n mod 100)))
      = pad_start 2 CHR ''0'' (nat_text (n mod 100))"
    by (simp add: pad_end_def cents_digits(1))
  moreover have "int (n div 100) * 100 + int (n mod 100) = int n"
    by (metis div_mult_mod_eq of_nat_add of_nat_mult of_nat_numeral)
  ultimately show ?thesis by (simp add: digits_val_nat_text cents_digits(3))
qed

lemma split_cents_text [text_simps]:
  "split_minus (cents_text n) = (False, cents_text n)" "split_sign (cents_text n) = (False, cents_text n)"
  unfolding cents_text_def
  by (simp_all only: split_sign_digits all_digits_nat_text nat_text_not_Nil not_False_eq_True)

lemma split_usdAmount [text_simps]: "split_minus (usdAmount c) = (c < 0, cents_text (nat \<bar>c\<bar>))"
  by (simp add: usdAmount_cents_text split_cents_text split_sign_minus)

lemma exactUsdCents_usdAmount [simp]: "exactUsdCents (JText (usdAmount c)) label = Inr c"
  unfolding exactUsdCents_def Let_def truthy_text_def jsval.case split_usdAmount prod.case
    match_cents_cents_text option.case cents_text_value
  by simp

lemma cents_text_no_space: "c \<in> set (cents_text n) \<Longrightarrow> \<not> is_space c"
proof -
  assume "c \<in> set (cents_text n)"
  then have "is_digit c \<or> c = CHR ''.''"
    using all_digits_nat_text[of "n div 100"] cents_digits(2)[of n]
    by (auto simp: cents_text_def all_digits_def list_all_iff)
  then show ?thesis by (auto simp: is_space_def char_code_def is_digit_def)
qed

lemma trim_cents_text [simp]: "trim (cents_text n) = cents_text n"
  by (rule trim_no_space) (simp add: cents_text_no_space)

lemma decimalToMinor_minorToMoney: "0 \<le> c \<Longrightarrow> decimalToMinor (JText (minorToMoney c)) = Some c"
proof -
  assume c: "0 \<le> c"
  have p: "drop 2 (pad_start 2 CHR ''0'' (nat_text (nat c mod 100))) = []"
    "take 2 (pad_end 2 CHR ''0'' (pad_start 2 CHR ''0'' (nat_text (nat c mod 100))))
       = pad_end 2 CHR ''0'' (pad_start 2 CHR ''0'' (nat_text (nat c mod 100)))"
    using cents_digits(1)[of "nat c"] by (simp_all add: pad_end_def)
  have j: "js_string (coalesce (JText (minorToMoney c)) (JText [])) = cents_text (nat c)"
    by (simp add: coalesce_def nullish_def minorToMoney_cents_text[OF c])
  show ?thesis
    unfolding decimalToMinor_def Let_def j trim_cents_text split_cents_text prod.case
      match_number_cents_text option.case p cents_text_value
    by (simp add: c)
qed

lemma match_cents_trim: "match_cents s = Some p \<Longrightarrow> s \<noteq> [] \<and> trim s = s"
proof -
  assume a: "match_cents s = Some p"
  then obtain w f where m: "match_number s = Some (w, f)"
    by (auto simp: match_cents_def split: option.splits)
  have "\<forall>c \<in> set s. is_digit c \<or> c = CHR ''.''"
    using match_numberD[OF m] by (auto simp: all_digits_def list_all_iff split: option.splits)
  then have "\<forall>c \<in> set s. \<not> is_space c" by (auto simp: is_space_def char_code_def is_digit_def)
  then show ?thesis using match_numberD(1,3)[OF m] by (simp add: trim_no_space)
qed

lemma match_cents_minus: "match_cents (CHR ''-'' # r) = None"
  by (auto simp: match_cents_def match_number_def all_digits_def Let_def)

lemma match_cents_text:
  assumes m: "match_cents s = Some (w, f)"
  shows "w @ ''.'' @ pad_end 2 CHR ''0'' f
           = cents_text (digits_val w * 100 + digits_val (pad_end 2 CHR ''0'' f))"
proof -
  obtain g where g: "match_number s = Some (w, g)" and f: "f = (case g of None \<Rightarrow> [] | Some d \<Rightarrow> d)"
    and w: "w = ''0'' \<or> hd w \<noteq> CHR ''0''" and l: "length f \<le> 2"
    using m by (auto simp: match_cents_def split: option.splits if_splits)
  have ad: "all_digits (pad_end 2 CHR ''0'' f)" "length (pad_end 2 CHR ''0'' f) = 2"
    using match_numberD(4)[OF g] f l by (auto simp: all_digits_def pad_end_def list_all_iff split: option.splits)
  let ?v = "digits_val (pad_end 2 CHR ''0'' f)"
  have v: "?v < 100" using digits_val_bound[OF ad(1)] ad(2) by simp
  have "pad_start 2 CHR ''0'' (nat_text (?v mod 100)) = pad_end 2 CHR ''0'' f"
    using cents_digits[of ?v] ad v by (intro digits_val_inj) simp_all
  moreover have "nat_text (digits_val w) = w"
    using match_numberD(1,2)[OF g] w by (intro nat_text_digits_val)
  ultimately show ?thesis using v by (simp add: cents_text_def)
qed

text \<open>
  Normalising a text is parsing it exactly and printing the positive amount: the pattern of
  \<open>normalizePositiveUsdMoney\<close> and the exact-cent parser accept the same texts.
\<close>

lemma normalize_text:
  "normalizePositiveUsdMoney (JText s) =
     (case exactUsdCents (JText s) label of
        Inl _ \<Rightarrow> None | Inr c \<Rightarrow> if 0 < c then Some (usdAmount c) else None)"
proof (cases "match_cents s")
  case (Some p)
  obtain w f where p: "p = (w, f)" by (cases p)
  have s: "s \<noteq> []" "trim s = s" using match_cents_trim[OF Some] by simp_all
  have sm: "split_minus s = (False, s)"
    using Some match_cents_minus s(1) by (cases s) (auto simp: split_minus_def)
  show ?thesis
    using match_cents_text[OF Some[unfolded p]]
    by (simp add: normalizePositiveUsdMoney_def exactUsdCents_def truthy_text_def nullish_def Let_def
        sm s Some p usdAmount_cents_text nat_add_distrib nat_mult_distrib del: digits_val_pad_end)
next
  case None
  have "normalizePositiveUsdMoney (JText s) = None"
    by (simp add: normalizePositiveUsdMoney_def nullish_def Let_def None)
  moreover have "(case exactUsdCents (JText s) label of
        Inl _ \<Rightarrow> None | Inr c \<Rightarrow> if 0 < c then Some (usdAmount c) else None) = None"
    using None
    by (cases s) (auto simp: exactUsdCents_def truthy_text_def split_minus_def Let_def
        split: option.splits prod.splits)
  ultimately show ?thesis by simp
qed

lemma normalize_text_usdAmount: "0 < c \<Longrightarrow> normalizePositiveUsdMoney (JText (usdAmount c)) = Some (usdAmount c)"
  using normalize_text[of "usdAmount c" "[]"] by simp

lemma normalize_column [simp, code_unfold]:
  "normalizePositiveUsdMoney (column d) = (if 0 < d \<and> CENT dvd d then Some (usdAmount (d div CENT)) else None)"
proof -
  have n: "normalizePositiveUsdMoney (column d) = normalizePositiveUsdMoney (JText (decimalString d))"
    by (auto simp: normalizePositiveUsdMoney_def nullish_def column_def Let_def split: option.splits)
  have "exactUsdCents (JText (decimalString d)) [] = exactUsdCents (column d) []"
    by (simp add: exactUsdCents_def truthy_text_def column_def)
  then show ?thesis
    using pos_imp_zdiv_pos_iff[OF CENT_pos(1), of d] zdvd_imp_le[of CENT d]
    by (auto simp: n normalize_text[of _ "[]"] exactUsdCents_column)
qed

section \<open>Columns in minor units\<close>

lemma decimalMinorAmount_column:
  "decimalMinorAmount (column d) (JText ''USD'') = (if 0 < d \<and> CENT dvd d then Some (d div CENT) else None)"
proof -
  have "normalizedCurrency (JText ''USD'') = ''USD''" by code_simp
  moreover have "10 ^ (MONEY_SCALE - 2) = CENT" by (simp add: MONEY_SCALE_def CENT_def)
  ultimately show ?thesis
    by (simp add: decimalMinorAmount_def Let_def dvd_eq_mod_eq_0 not_le)
qed

lemma strip_zeros_idem: "strip_zeros (strip_zeros s) = strip_zeros s"
  by (simp add: strip_zeros_def dropWhile_idem)

lemma decimalToMinor_column [code_unfold]:
  "decimalToMinor (column d) = (if CENT dvd d then Some (d div CENT) else None)"
proof -
  let ?f = "strip_zeros (decimal_digits d)"
  have "filter (\<lambda>c. c \<noteq> CHR ''0'') (drop 2 ?f) = [] \<longleftrightarrow> (\<forall>c \<in> set (drop 2 ?f). c = CHR ''0'')"
    by (auto simp: filter_empty_conv)
  then have sz: "filter (\<lambda>c. c \<noteq> CHR ''0'') (drop 2 ?f) = [] \<longleftrightarrow> CENT dvd d"
    by (simp only: strip_zeros_length[symmetric] strip_zeros_idem decimal_digits_cents)
  have o: "(case (if ?f = [] then None else Some ?f) of None \<Rightarrow> [] | Some f \<Rightarrow> f) = ?f"
    by simp
  note unfold = decimalToMinor_def Let_def coalesce_column trim_decimalString split_decimalString
        prod.case match_number_decimal option.case o
  show ?thesis
  proof (cases "CENT dvd d")
    case True
    then have t: "take 2 (pad_end 2 CHR ''0'' ?f) = pad_end 2 CHR ''0'' ?f"
      by (simp add: decimal_digits_cents[symmetric] pad_end_def)
    have n: "(if d < 0 then - (\<bar>d\<bar> div CENT) else \<bar>d\<bar> div CENT) = d div CENT"
      using True by (auto elim!: dvdE simp: minus_mult_right simp del: mult_minus_right)
    show ?thesis
      unfolding unfold t decimal_cents[OF True] n using True sz by simp
  next
    case False
    then show ?thesis unfolding unfold using sz by simp
  qed
qed

section \<open>The codecs of the source\<close>

interpretation release_cents: text_codec usdAmount
  "\<lambda>s. case exactUsdCents (JText s) [] of Inl _ \<Rightarrow> None | Inr c \<Rightarrow> Some c" "\<lambda>_. True"
  by unfold_locales simp

interpretation scaled_decimals: text_codec decimalString
  "\<lambda>s. case scaledDecimal (JObj s) of Inl _ \<Rightarrow> None | Inr d \<Rightarrow> Some d" "\<lambda>_. True"
  by unfold_locales (simp add: column_def[symmetric])

interpretation deposit_minor: text_codec minorToMoney "\<lambda>s. decimalToMinor (JText s)" "\<lambda>c. 0 \<le> c"
  by unfold_locales (rule decimalToMinor_minorToMoney)

end
