(* ===== verification/Order_Policy.thy ===== *)
theory Order_Policy
  imports Complex_Main Money "HOL-Library.Multiset"
begin

text \<open>
  The order policies every surface shares: the lifecycle stages
  (\<open>lifecycle/order-lifecycle.ts\<close>), list prioritisation (\<open>order-priority.ts\<close>),
  who may cancel an order and what happens then (\<open>order-cancellation-policy.ts\<close>), the
  cancellation windows (\<open>order-cancellation-config.ts\<close>), which refunds may owe the
  publisher (\<open>publisher-compensation-policy.ts\<close>) and deposit status classes
  (\<open>deposit-status.ts\<close>).  Statuses are strings, as in the source.
\<close>

section \<open>Dates\<close>

text \<open>
  A date argument is absent (null, undefined or an empty text), or a Date or date text,
  represented by the time value JavaScript gives it: milliseconds, or \<open>None\<close> for an
  invalid date.
\<close>

type_synonym time_value = "int option"

datatype date_input = NoDate | DateOf time_value

section \<open>Order lifecycle\<close>

text \<open>The union \<open>OrderStatus\<close> of \<open>types.ts\<close>.\<close>

definition order_statuses :: "string list" where
  "order_statuses =
     [''DRAFT'', ''PENDING_PAYMENT'', ''PAID'', ''SUBMITTED'', ''ACCEPTED'', ''CONTENT_REQUESTED'',
      ''CONTENT_CREATION'', ''CONTENT_READY'', ''CUSTOMER_REVIEW'', ''APPROVED'', ''PUBLISHED'',
      ''VERIFIED'', ''DELIVERED'', ''COMPLETED'', ''CANCELLED'', ''REFUNDED'', ''DISPUTED'']"

datatype lifecycle_key = PAYMENT | CONTENT | REVIEW | PUBLICATION | VERIFICATION | DELIVERY | COMPLETION

record lifecycle_stage =
  stage_key :: lifecycle_key
  stage_label :: string
  stage_statuses :: "string list"

definition ORDER_LIFECYCLE_STAGES :: "lifecycle_stage list" where
  "ORDER_LIFECYCLE_STAGES =
     [\<lparr>stage_key = PAYMENT, stage_label = ''Payment'',
        stage_statuses = [''DRAFT'', ''PENDING_PAYMENT'', ''PAID'']\<rparr>,
      \<lparr>stage_key = CONTENT, stage_label = ''Content'',
        stage_statuses = [''SUBMITTED'', ''ACCEPTED'', ''CONTENT_REQUESTED'', ''CONTENT_CREATION'', ''CONTENT_READY'']\<rparr>,
      \<lparr>stage_key = REVIEW, stage_label = ''Review'', stage_statuses = [''CUSTOMER_REVIEW'', ''APPROVED'']\<rparr>,
      \<lparr>stage_key = PUBLICATION, stage_label = ''Published'', stage_statuses = [''PUBLISHED'']\<rparr>,
      \<lparr>stage_key = VERIFICATION, stage_label = ''Verified'', stage_statuses = [''VERIFIED'']\<rparr>,
      \<lparr>stage_key = DELIVERY, stage_label = ''Delivered'', stage_statuses = [''DELIVERED'']\<rparr>,
      \<lparr>stage_key = COMPLETION, stage_label = ''Complete'', stage_statuses = [''COMPLETED'']\<rparr>]"

text \<open>The keys of \<open>ORDER_LIFECYCLE_EXCEPTIONS\<close>, with label and description.\<close>

definition ORDER_LIFECYCLE_EXCEPTIONS :: "(string \<times> string \<times> string) list" where
  "ORDER_LIFECYCLE_EXCEPTIONS =
     [(''CANCELLED'', ''Cancelled'', ''This order was cancelled.''),
      (''REFUNDED'', ''Refunded'', ''This order was refunded.''),
      (''DISPUTED'', ''Disputed'',
       ''A dispute is open. Normal fulfillment and settlement progression is paused while it is reviewed.'')]"

definition isOrderLifecycleException :: "string \<Rightarrow> bool" where
  "isOrderLifecycleException status \<longleftrightarrow> status \<in> set (map fst ORDER_LIFECYCLE_EXCEPTIONS)"

fun find_index :: "('a \<Rightarrow> bool) \<Rightarrow> 'a list \<Rightarrow> nat option" where
  "find_index p [] = None"
| "find_index p (x # xs) = (if p x then Some 0 else map_option Suc (find_index p xs))"

definition getOrderLifecycleStageIndex :: "string \<Rightarrow> nat option" where
  "getOrderLifecycleStageIndex status =
     (if isOrderLifecycleException status then None
      else find_index (\<lambda>stage. status \<in> set (stage_statuses stage)) ORDER_LIFECYCLE_STAGES)"

definition getOrderLifecycleStage :: "string \<Rightarrow> lifecycle_stage option" where
  "getOrderLifecycleStage status =
     (case getOrderLifecycleStageIndex status of None \<Rightarrow> None
      | Some index \<Rightarrow> Some (ORDER_LIFECYCLE_STAGES ! index))"

section \<open>List prioritisation\<close>

definition TERMINAL_ORDER_STATUSES :: "string list" where
  "TERMINAL_ORDER_STATUSES = [''COMPLETED'', ''CANCELLED'', ''REFUNDED'']"

definition ATTENTION_ORDER_STATUSES :: "string list" where
  "ATTENTION_ORDER_STATUSES = [''DISPUTED'', ''PENDING_PAYMENT'']"

definition isActiveOrder :: "string \<Rightarrow> bool" where
  "isActiveOrder status \<longleftrightarrow> status \<notin> set TERMINAL_ORDER_STATUSES"

definition orderPriorityTier :: "string \<Rightarrow> int" where
  "orderPriorityTier status =
     (if status \<in> set ATTENTION_ORDER_STATUSES then 0
      else if status \<in> set TERMINAL_ORDER_STATUSES then 2 else 1)"

text \<open>
  An order to rank: its status and its two dates, as the valid time values they denote.
\<close>

record ranked_order =
  ro_id :: string
  ro_status :: string
  ro_updatedAt :: "int option"
  ro_createdAt :: "int option"

definition activityTime :: "ranked_order \<Rightarrow> int" where
  "activityTime o1 =
     (case ro_updatedAt o1 of Some t \<Rightarrow> t
      | None \<Rightarrow> (case ro_createdAt o1 of Some t \<Rightarrow> t | None \<Rightarrow> 0))"

definition compareOrdersByPriority :: "ranked_order \<Rightarrow> ranked_order \<Rightarrow> int" where
  "compareOrdersByPriority a b =
     (let ta = orderPriorityTier (ro_status a); tb = orderPriorityTier (ro_status b)
      in if ta \<noteq> tb then ta - tb else activityTime b - activityTime a)"

text \<open>\<open>Array.prototype.sort\<close> with a comparator: a stable sort.\<close>

fun insert_by :: "('a \<Rightarrow> 'a \<Rightarrow> int) \<Rightarrow> 'a \<Rightarrow> 'a list \<Rightarrow> 'a list" where
  "insert_by cmp x [] = [x]"
| "insert_by cmp x (y # ys) = (if cmp x y \<le> 0 then x # y # ys else y # insert_by cmp x ys)"

definition sort_by :: "('a \<Rightarrow> 'a \<Rightarrow> int) \<Rightarrow> 'a list \<Rightarrow> 'a list" where
  "sort_by cmp xs = foldr (insert_by cmp) xs []"

definition sortOrdersByPriority :: "ranked_order list \<Rightarrow> ranked_order list" where
  "sortOrdersByPriority orders = sort_by compareOrdersByPriority orders"

section \<open>Cancellation policy\<close>

definition IMMEDIATE_CANCELLATION_STATUSES :: "string list" where
  "IMMEDIATE_CANCELLATION_STATUSES = [''DRAFT'', ''PENDING_PAYMENT'', ''PAID'', ''SUBMITTED'']"

definition CANCELLATION_REQUEST_STATUSES :: "string list" where
  "CANCELLATION_REQUEST_STATUSES =
     [''ACCEPTED'', ''CONTENT_REQUESTED'', ''CONTENT_CREATION'', ''CONTENT_READY'', ''CUSTOMER_REVIEW'', ''APPROVED'']"

definition DISPUTE_CANCELLATION_STATUSES :: "string list" where
  "DISPUTE_CANCELLATION_STATUSES = [''PUBLISHED'', ''VERIFIED'', ''DELIVERED'', ''COMPLETED'']"

definition CANCELLATION_TERMINAL_STATUSES :: "string list" where
  "CANCELLATION_TERMINAL_STATUSES = [''CANCELLED'', ''REFUNDED'', ''DISPUTED'']"

definition ACTIVE_CANCELLATION_REQUEST_STATUSES :: "string list" where
  "ACTIVE_CANCELLATION_REQUEST_STATUSES = [''REQUESTED'', ''UNDER_REVIEW'', ''PENDING_FINANCE'', ''ESCALATED'']"

definition REFUNDABLE_ORDER_STATUSES :: "string list" where
  "REFUNDABLE_ORDER_STATUSES =
     [''PAID'', ''SUBMITTED''] @ CANCELLATION_REQUEST_STATUSES @ DISPUTE_CANCELLATION_STATUSES @ [''DISPUTED'']"

definition FULFILLMENT_WORK_STATUSES :: "string list" where
  "FULFILLMENT_WORK_STATUSES = [''SUBMITTED''] @ CANCELLATION_REQUEST_STATUSES"

datatype cancellation_actor = CUSTOMER | PUBLISHER | STAFF | SYSTEM

datatype cancellation_action = CANCEL_NOW | DECLINE_NOW | REQUEST_CANCELLATION | OPEN_DISPUTE | NOT_ALLOWED

datatype fulfillment_channel = CH_PUBLISHER | CH_PLATFORM

record cancellation_input =
  ci_status :: string
  ci_paymentStatus :: string
  ci_channel :: fulfillment_channel
  ci_actor :: cancellation_actor
  ci_hasActiveRequest :: bool
  ci_hasActiveDispute :: bool
  ci_fulfillmentDueAt :: date_input
  ci_warrantyEndsAt :: date_input
  ci_now :: time_value

record cancellation_decision =
  cd_action :: cancellation_action
  cd_refundRequired :: bool
  cd_requiresCounterpartyResponse :: bool
  cd_requiresStaffReview :: bool
  cd_message :: string

definition denied :: "string \<Rightarrow> cancellation_decision" where
  "denied message =
     \<lparr>cd_action = NOT_ALLOWED, cd_refundRequired = False, cd_requiresCounterpartyResponse = False,
      cd_requiresStaffReview = False, cd_message = message\<rparr>"

definition requestDecision :: "fulfillment_channel \<Rightarrow> bool \<Rightarrow> cancellation_decision" where
  "requestDecision channel fulfillmentDeadlineMissed =
     \<lparr>cd_action = REQUEST_CANCELLATION, cd_refundRequired = False, cd_requiresCounterpartyResponse = True,
      cd_requiresStaffReview = False,
      cd_message =
        (if fulfillmentDeadlineMissed
         then if channel = CH_PLATFORM
           then ''The platform fulfillment deadline was missed. Request cancellation for Operations review.''
           else ''The publisher fulfillment deadline was missed. Request cancellation from the publisher.''
         else if channel = CH_PLATFORM
           then ''Request cancellation from the platform operations team.''
           else ''Request cancellation from the publisher.'')\<rparr>"

definition deadlineExpired :: "date_input \<Rightarrow> time_value \<Rightarrow> bool" where
  "deadlineExpired d now =
     (case d of NoDate \<Rightarrow> False
      | DateOf t \<Rightarrow> (case (t, now) of (Some timestamp, Some n) \<Rightarrow> timestamp \<le> n | _ \<Rightarrow> False))"

definition decideCustomer :: "cancellation_input \<Rightarrow> cancellation_decision option" where
  "decideCustomer i =
     (if ci_status i \<in> set IMMEDIATE_CANCELLATION_STATUSES then
        Some \<lparr>cd_action = CANCEL_NOW, cd_refundRequired = (ci_paymentStatus i = ''PAID''),
              cd_requiresCounterpartyResponse = False, cd_requiresStaffReview = False,
              cd_message = (if ci_paymentStatus i = ''PAID''
                then ''Cancel now and return the full amount to the customer wallet.''
                else ''Cancel this unpaid draft now.'')\<rparr>
      else if ci_status i \<in> set CANCELLATION_REQUEST_STATUSES then
        Some (requestDecision (ci_channel i) (deadlineExpired (ci_fulfillmentDueAt i) (ci_now i)))
      else if ci_status i \<in> set DISPUTE_CANCELLATION_STATUSES then
        if ci_status i = ''COMPLETED'' \<and> ci_warrantyEndsAt i = NoDate then
          Some (denied ''This completed order has no post-completion warranty. Contact support if further review is required.'')
        else if ci_status i = ''COMPLETED'' \<and> deadlineExpired (ci_warrantyEndsAt i) (ci_now i) then
          Some (denied ''The post-completion warranty has expired. Contact support if further review is required.'')
        else
          Some \<lparr>cd_action = OPEN_DISPUTE, cd_refundRequired = False, cd_requiresCounterpartyResponse = False,
                cd_requiresStaffReview = True,
                cd_message = ''Open a dispute so delivery evidence and settlement can be reviewed.''\<rparr>
      else None)"

definition decidePublisher :: "cancellation_input \<Rightarrow> cancellation_decision option" where
  "decidePublisher i =
     (if ci_channel i \<noteq> CH_PUBLISHER then
        Some (denied ''Publisher actions are not available for platform-fulfilled orders.'')
      else if ci_status i = ''SUBMITTED'' then
        Some \<lparr>cd_action = DECLINE_NOW, cd_refundRequired = True, cd_requiresCounterpartyResponse = False,
              cd_requiresStaffReview = False,
              cd_message = ''Decline the unaccepted order and issue a full wallet refund.''\<rparr>
      else if ci_status i \<in> set CANCELLATION_REQUEST_STATUSES then
        Some (requestDecision (ci_channel i) (deadlineExpired (ci_fulfillmentDueAt i) (ci_now i)))
      else None)"

definition decideStaff :: "cancellation_input \<Rightarrow> cancellation_decision option" where
  "decideStaff i =
     (if ci_channel i = CH_PLATFORM \<and> ci_status i = ''SUBMITTED'' then
        Some \<lparr>cd_action = DECLINE_NOW, cd_refundRequired = True, cd_requiresCounterpartyResponse = False,
              cd_requiresStaffReview = False,
              cd_message = ''Decline the unaccepted platform order and issue a full wallet refund.''\<rparr>
      else if ci_status i \<in> set CANCELLATION_REQUEST_STATUSES then
        Some (requestDecision (ci_channel i) (deadlineExpired (ci_fulfillmentDueAt i) (ci_now i)))
      else None)"

definition decideOrderCancellation :: "cancellation_input \<Rightarrow> cancellation_decision" where
  "decideOrderCancellation i =
     (if ci_hasActiveRequest i then denied ''A cancellation request is already active for this order.''
      else if ci_hasActiveDispute i \<or> ci_status i = ''DISPUTED'' then
        denied ''This order is already in dispute review.''
      else if ci_status i \<in> set CANCELLATION_TERMINAL_STATUSES then
        denied ''This order is already in a terminal state.''
      else case (case ci_actor i of
                   CUSTOMER \<Rightarrow> decideCustomer i
                 | PUBLISHER \<Rightarrow> decidePublisher i
                 | STAFF \<Rightarrow> decideStaff i
                 | SYSTEM \<Rightarrow> None) of
             Some d \<Rightarrow> d
           | None \<Rightarrow> denied ''Cancellation is not available to this actor at the current stage.'')"

definition computeFraudHandoffDeadline :: "int \<Rightarrow> int \<Rightarrow> int" where
  "computeFraudHandoffDeadline now fraudReviewWindowHours = now + fraudReviewWindowHours * 3600000"

definition caseStalledDays :: "time_value \<Rightarrow> time_value \<Rightarrow> int" where
  "caseStalledDays updatedAt now =
     (case (now, updatedAt) of
        (Some n, Some u) \<Rightarrow> if n - u \<le> 0 then 0 else (n - u) div 86400000
      | _ \<Rightarrow> 0)"

definition isCaseStallReminderDue :: "int \<Rightarrow> int \<Rightarrow> int \<Rightarrow> bool" where
  "isCaseStallReminderDue stalledDays firstReminderDays intervalDays \<longleftrightarrow>
     \<not> stalledDays < firstReminderDays \<and> intervalDays \<noteq> 0
     \<and> (stalledDays - firstReminderDays) mod intervalDays = 0"

section \<open>Cancellation windows\<close>

text \<open>
  The first argument is \<open>Number(raw)\<close>: \<open>None\<close> where it is not finite.
\<close>

definition js_trunc :: "rat \<Rightarrow> int" where
  "js_trunc q = (if q < 0 then \<lceil>q\<rceil> else \<lfloor>q\<rfloor>)"

definition parseBoundedPositiveInteger :: "rat option \<Rightarrow> int \<Rightarrow> int \<Rightarrow> int \<Rightarrow> int" where
  "parseBoundedPositiveInteger parsed fallback lo hi =
     (case parsed of None \<Rightarrow> fallback | Some q \<Rightarrow> min (max (js_trunc q) lo) hi)"

record cancellation_config =
  acceptanceWindowHours :: int
  responseWindowHours :: int
  acceptanceSweepMinutes :: int
  responseSweepMinutes :: int
  fraudReviewWindowHours :: int
  caseStallFirstReminderDays :: int
  caseStallReminderIntervalDays :: int

definition ORDER_CANCELLATION_DEFAULTS :: cancellation_config where
  "ORDER_CANCELLATION_DEFAULTS =
     \<lparr>acceptanceWindowHours = 24, responseWindowHours = 24, acceptanceSweepMinutes = 15,
      responseSweepMinutes = 15, fraudReviewWindowHours = 48, caseStallFirstReminderDays = 3,
      caseStallReminderIntervalDays = 7\<rparr>"

text \<open>The environment maps a variable's name to the number its text converts to.\<close>

definition resolveOrderCancellationConfig :: "(string \<Rightarrow> rat option) \<Rightarrow> cancellation_config" where
  "resolveOrderCancellationConfig env =
     \<lparr>acceptanceWindowHours = parseBoundedPositiveInteger (env ''ORDER_ACCEPTANCE_WINDOW_HOURS'')
        (acceptanceWindowHours ORDER_CANCELLATION_DEFAULTS) 1 (24 * 30),
      responseWindowHours = parseBoundedPositiveInteger (env ''CANCELLATION_RESPONSE_WINDOW_HOURS'')
        (responseWindowHours ORDER_CANCELLATION_DEFAULTS) 1 (24 * 30),
      acceptanceSweepMinutes = parseBoundedPositiveInteger (env ''ORDER_ACCEPTANCE_SWEEP_MINUTES'')
        (acceptanceSweepMinutes ORDER_CANCELLATION_DEFAULTS) 1 (24 * 60),
      responseSweepMinutes = parseBoundedPositiveInteger (env ''CANCELLATION_TIMEOUT_SWEEP_MINUTES'')
        (responseSweepMinutes ORDER_CANCELLATION_DEFAULTS) 1 (24 * 60),
      fraudReviewWindowHours = parseBoundedPositiveInteger (env ''FRAUD_REVIEW_WINDOW_HOURS'')
        (fraudReviewWindowHours ORDER_CANCELLATION_DEFAULTS) 1 (24 * 30),
      caseStallFirstReminderDays = parseBoundedPositiveInteger (env ''CASE_STALL_FIRST_REMINDER_DAYS'')
        (caseStallFirstReminderDays ORDER_CANCELLATION_DEFAULTS) 1 90,
      caseStallReminderIntervalDays = parseBoundedPositiveInteger (env ''CASE_STALL_REMINDER_INTERVAL_DAYS'')
        (caseStallReminderIntervalDays ORDER_CANCELLATION_DEFAULTS) 1 30\<rparr>"

section \<open>Publisher compensation and deposit classes\<close>

definition POST_PUBLICATION_PUBLISHER_ORDER_STATUSES :: "string list" where
  "POST_PUBLICATION_PUBLISHER_ORDER_STATUSES = [''PUBLISHED'', ''VERIFIED'', ''DELIVERED'', ''COMPLETED'']"

record compensation_input =
  pc_channel :: "string option"
  pc_websiteOwnershipType :: "string option"
  pc_effectiveOrderStatus :: "string option"
  pc_hasSettlement :: bool

definition isPostPublicationPublisherOrder :: "compensation_input \<Rightarrow> bool" where
  "isPostPublicationPublisherOrder i =
     (let channel = (case pc_channel i of Some c \<Rightarrow> c
                     | None \<Rightarrow> if pc_websiteOwnershipType i = Some ''PLATFORM'' then ''PLATFORM'' else ''PUBLISHER'')
      in channel = ''PUBLISHER'' \<and>
         (pc_hasSettlement i \<or>
          (case pc_effectiveOrderStatus i of Some s \<Rightarrow> s | None \<Rightarrow> [])
             \<in> set POST_PUBLICATION_PUBLISHER_ORDER_STATUSES))"

definition WALLET_CREDIT_BACKED_DEPOSIT_STATUSES :: "string list" where
  "WALLET_CREDIT_BACKED_DEPOSIT_STATUSES =
     [''SUCCEEDED'', ''PARTIALLY_REFUNDED'', ''REFUNDED'', ''DISPUTED'', ''CHARGEBACK'']"

definition isWalletCreditBackedDepositStatus :: "string \<Rightarrow> bool" where
  "isWalletCreditBackedDepositStatus status \<longleftrightarrow> status \<in> set WALLET_CREDIT_BACKED_DEPOSIT_STATUSES"

definition CREDITABLE_PRE_CREDIT_DEPOSIT_STATUSES :: "string list" where
  "CREDITABLE_PRE_CREDIT_DEPOSIT_STATUSES =
     [''CREATED'', ''PENDING_CUSTOMER_ACTION'', ''PROCESSING'', ''FAILED'', ''EXPIRED'']"

definition isCreditablePreCreditDepositStatus :: "string \<Rightarrow> bool" where
  "isCreditablePreCreditDepositStatus status \<longleftrightarrow> status \<in> set CREDITABLE_PRE_CREDIT_DEPOSIT_STATUSES"

section \<open>Stable sorting with a comparator\<close>

text \<open>
  \<open>Array.prototype.sort\<close> asks its comparator to be consistent: a total preorder.  Its
  guarantees follow from that contract alone.
\<close>

locale comparator =
  fixes cmp :: "'a \<Rightarrow> 'a \<Rightarrow> int"
  assumes antisym: "cmp x y \<le> 0 \<or> cmp y x \<le> 0"
    and trans: "cmp x y \<le> 0 \<Longrightarrow> cmp y z \<le> 0 \<Longrightarrow> cmp x z \<le> 0"
begin

lemma mset_insert_by [simp]: "mset (insert_by cmp x ys) = add_mset x (mset ys)"
  by (induction ys) auto

lemma mset_sort_by: "mset (sort_by cmp xs) = mset xs"
  by (induction xs) (simp_all add: sort_by_def)

lemma set_insert_by [simp]: "set (insert_by cmp x ys) = insert x (set ys)"
  by (induction ys) auto

lemma sorted_insert_by:
  "sorted_wrt (\<lambda>a b. cmp a b \<le> 0) ys \<Longrightarrow> sorted_wrt (\<lambda>a b. cmp a b \<le> 0) (insert_by cmp x ys)"
proof (induction ys)
  case (Cons y ys)
  show ?case
  proof (cases "cmp x y \<le> 0")
    case True
    then show ?thesis using Cons.prems trans by auto
  next
    case False
    then show ?thesis using Cons antisym[of x y] by auto
  qed
qed simp

lemma sorted_sort_by: "sorted_wrt (\<lambda>a b. cmp a b \<le> 0) (sort_by cmp xs)"
  by (induction xs) (simp_all add: sort_by_def sorted_insert_by)

text \<open>Elements that tie with \<open>a\<close> keep their order.\<close>

abbreviation ties :: "'a \<Rightarrow> 'a \<Rightarrow> bool" where
  "ties a x \<equiv> cmp a x \<le> 0 \<and> cmp x a \<le> 0"

lemma ties_insert_by:
  "sorted_wrt (\<lambda>a b. cmp a b \<le> 0) ys \<Longrightarrow>
    filter (ties a) (insert_by cmp x ys) = (if ties a x then [x] else []) @ filter (ties a) ys"
proof (induction ys)
  case (Cons y ys)
  have "\<not> ties a y" if "\<not> cmp x y \<le> 0" "ties a x"
    using that trans[of x a y] by blast
  with Cons show ?case by auto
qed simp

lemma stable_sort_by: "filter (ties a) (sort_by cmp xs) = filter (ties a) xs"
  by (induction xs) (simp_all add: sort_by_def ties_insert_by[OF sorted_sort_by[unfolded sort_by_def]])

end

interpretation priority: comparator compareOrdersByPriority
  by unfold_locales (auto simp: compareOrdersByPriority_def Let_def split: if_splits)

section \<open>Facts about the policy\<close>

lemmas cancellation_lists = IMMEDIATE_CANCELLATION_STATUSES_def CANCELLATION_REQUEST_STATUSES_def
  DISPUTE_CANCELLATION_STATUSES_def CANCELLATION_TERMINAL_STATUSES_def

lemmas decide_defs = decideCustomer_def decidePublisher_def decideStaff_def

lemma denied_sel [simp]:
  "cd_action (denied m) = NOT_ALLOWED" "\<not> cd_refundRequired (denied m)"
  "\<not> cd_requiresCounterpartyResponse (denied m)" "\<not> cd_requiresStaffReview (denied m)"
  by (simp_all add: denied_def)

lemma requestDecision_sel [simp]:
  "cd_action (requestDecision c b) = REQUEST_CANCELLATION" "\<not> cd_refundRequired (requestDecision c b)"
  "cd_requiresCounterpartyResponse (requestDecision c b)" "\<not> cd_requiresStaffReview (requestDecision c b)"
  by (simp_all add: requestDecision_def)

text \<open>An order is open to a cancellation decision when nothing about it is under way or final.\<close>

definition cancellation_open :: "cancellation_input \<Rightarrow> bool" where
  "cancellation_open i \<longleftrightarrow>
     \<not> ci_hasActiveRequest i \<and> \<not> ci_hasActiveDispute i
     \<and> ci_status i \<notin> set CANCELLATION_TERMINAL_STATUSES"


lemma decide_open:
  "cancellation_open i \<Longrightarrow> decideOrderCancellation i =
     (case (case ci_actor i of CUSTOMER \<Rightarrow> decideCustomer i | PUBLISHER \<Rightarrow> decidePublisher i
              | STAFF \<Rightarrow> decideStaff i | SYSTEM \<Rightarrow> None) of
        Some d \<Rightarrow> d | None \<Rightarrow> denied ''Cancellation is not available to this actor at the current stage.'')"
  by (auto simp: decideOrderCancellation_def cancellation_open_def CANCELLATION_TERMINAL_STATUSES_def)

lemma find_index_Some:
  "find_index p xs = Some n \<Longrightarrow> n < length xs \<and> p (xs ! n) \<and> (\<forall>m < n. \<not> p (xs ! m))"
proof (induction xs arbitrary: n)
  case (Cons x xs)
  show ?case
  proof (cases "p x")
    case False
    then obtain k where "find_index p xs = Some k" "n = Suc k" using Cons.prems by auto
    with Cons.IH[of k] False show ?thesis by (auto simp: less_Suc_eq_0_disj)
  qed (use Cons.prems in simp)
qed simp

lemma find_index_None: "find_index p xs = None \<longleftrightarrow> (\<forall>x \<in> set xs. \<not> p x)"
  by (induction xs) auto

lemma parseBounded_range: "lo \<le> hi \<Longrightarrow> lo \<le> fb \<Longrightarrow> fb \<le> hi \<Longrightarrow>
    lo \<le> parseBoundedPositiveInteger p fb lo hi \<and> parseBoundedPositiveInteger p fb lo hi \<le> hi"
  by (auto simp: parseBoundedPositiveInteger_def split: option.splits)

section \<open>Properties\<close>


text \<open>What each party may do at each stage.  On an order open to a decision, an immediate
  cancellation is the customer's before acceptance, a decline is the fulfilling party's while
  SUBMITTED, a cancellation request (which always needs the counterparty's answer) is open to
  everyone but the system between acceptance and publication, publishers only on their own
  orders, and a dispute is the customer's after publication, for a completed order only within
  its warranty; everything else is refused.\<close>

theorem cancellation_action_spec:
  assumes "cancellation_open i"
  shows "cd_action (decideOrderCancellation i) =
     (if ci_actor i = CUSTOMER \<and> ci_status i \<in> set IMMEDIATE_CANCELLATION_STATUSES then CANCEL_NOW
      else if ci_status i = ''SUBMITTED''
           \<and> (ci_actor i = PUBLISHER \<and> ci_channel i = CH_PUBLISHER \<or> ci_actor i = STAFF \<and> ci_channel i = CH_PLATFORM)
        then DECLINE_NOW
      else if ci_status i \<in> set CANCELLATION_REQUEST_STATUSES
           \<and> (ci_actor i \<in> {CUSTOMER, STAFF} \<or> ci_actor i = PUBLISHER \<and> ci_channel i = CH_PUBLISHER)
        then REQUEST_CANCELLATION
      else if ci_actor i = CUSTOMER \<and> ci_status i \<in> set DISPUTE_CANCELLATION_STATUSES
           \<and> \<not> (ci_status i = ''COMPLETED''
               \<and> (ci_warrantyEndsAt i = NoDate \<or> deadlineExpired (ci_warrantyEndsAt i) (ci_now i)))
        then OPEN_DISPUTE
      else NOT_ALLOWED)"
  using assms
  by (cases "ci_actor i") (auto simp: decide_open decide_defs cancellation_lists)

theorem cancellation_action_spec_witness:
  "cd_action (decideOrderCancellation
     \<lparr>ci_status = ''ACCEPTED'', ci_paymentStatus = ''PAID'', ci_channel = CH_PUBLISHER, ci_actor = PUBLISHER,
      ci_hasActiveRequest = False, ci_hasActiveDispute = False, ci_fulfillmentDueAt = NoDate,
      ci_warrantyEndsAt = NoDate, ci_now = Some 0\<rparr>) = REQUEST_CANCELLATION"
  by (subst cancellation_action_spec) (simp_all add: cancellation_open_def cancellation_lists)

text \<open>The four status lists of the cancellation policy partition the order statuses, each
  status in one list once; the refundable statuses are the ones where a paid order may still be
  refunded, that is all but the unpaid and the final ones.\<close>

theorem cancellation_status_partition:
  "mset order_statuses =
     mset (IMMEDIATE_CANCELLATION_STATUSES @ CANCELLATION_REQUEST_STATUSES @ DISPUTE_CANCELLATION_STATUSES
           @ CANCELLATION_TERMINAL_STATUSES)
   \<and> distinct order_statuses
   \<and> mset order_statuses = mset REFUNDABLE_ORDER_STATUSES
       + {#''DRAFT'', ''PENDING_PAYMENT'', ''CANCELLED'', ''REFUNDED''#}"
  by (simp add: order_statuses_def cancellation_lists REFUNDABLE_ORDER_STATUSES_def)

text \<open>The lifecycle covers every order status once: only an exception
  or a text that is no order status has no stage, and the stage it has lists it and is the only one that does.\<close>

theorem lifecycle_stage_total:
  "case getOrderLifecycleStage status of
     None \<Rightarrow> status \<notin> set (filter (\<lambda>s. \<not> isOrderLifecycleException s) order_statuses)
   | Some stage \<Rightarrow> \<not> isOrderLifecycleException status \<and> status \<in> set order_statuses
       \<and> filter (\<lambda>s. status \<in> set (stage_statuses s)) ORDER_LIFECYCLE_STAGES = [stage]"
proof (cases "status \<in> set order_statuses")
  case True
  then show ?thesis
    by (auto simp: order_statuses_def getOrderLifecycleStage_def getOrderLifecycleStageIndex_def
        isOrderLifecycleException_def ORDER_LIFECYCLE_EXCEPTIONS_def ORDER_LIFECYCLE_STAGES_def)
next
  case False
  then have "getOrderLifecycleStage status = None"
    by (auto simp: order_statuses_def getOrderLifecycleStage_def getOrderLifecycleStageIndex_def
        ORDER_LIFECYCLE_STAGES_def split: option.splits)
  with False show ?thesis by simp
qed

text \<open>Prioritised lists are stable sorts: \<open>sortOrdersByPriority\<close> permutes its input, puts
  attention before active before terminal orders and recent activity first within a tier, and
  leaves orders that tie in the order they came.\<close>

theorem sortOrdersByPriority_stable_sort:
  "mset (sortOrdersByPriority orders) = mset orders
   \<and> sorted_wrt (\<lambda>a b. orderPriorityTier (ro_status a) < orderPriorityTier (ro_status b)
        \<or> orderPriorityTier (ro_status a) = orderPriorityTier (ro_status b) \<and> activityTime b \<le> activityTime a)
       (sortOrdersByPriority orders)
   \<and> filter (priority.ties a) (sortOrdersByPriority orders) = filter (priority.ties a) orders"
proof -
  have "(compareOrdersByPriority a b \<le> 0) = (orderPriorityTier (ro_status a) < orderPriorityTier (ro_status b)
        \<or> orderPriorityTier (ro_status a) = orderPriorityTier (ro_status b) \<and> activityTime b \<le> activityTime a)" for a b
    by (auto simp: compareOrdersByPriority_def Let_def)
  then show ?thesis
    unfolding sortOrdersByPriority_def
    using priority.mset_sort_by priority.sorted_sort_by[of orders] priority.stable_sort_by by simp
qed

text \<open>Whatever the environment holds, every resolved cancellation window is within its bounds,
  and an environment that sets none of them gives the defaults.\<close>

theorem resolveOrderCancellationConfig_bounds:
  "1 \<le> acceptanceWindowHours (resolveOrderCancellationConfig env)
   \<and> acceptanceWindowHours (resolveOrderCancellationConfig env) \<le> 720
   \<and> 1 \<le> responseWindowHours (resolveOrderCancellationConfig env)
   \<and> responseWindowHours (resolveOrderCancellationConfig env) \<le> 720
   \<and> 1 \<le> acceptanceSweepMinutes (resolveOrderCancellationConfig env)
   \<and> acceptanceSweepMinutes (resolveOrderCancellationConfig env) \<le> 1440
   \<and> 1 \<le> responseSweepMinutes (resolveOrderCancellationConfig env)
   \<and> responseSweepMinutes (resolveOrderCancellationConfig env) \<le> 1440
   \<and> 1 \<le> fraudReviewWindowHours (resolveOrderCancellationConfig env)
   \<and> fraudReviewWindowHours (resolveOrderCancellationConfig env) \<le> 720
   \<and> 1 \<le> caseStallFirstReminderDays (resolveOrderCancellationConfig env)
   \<and> caseStallFirstReminderDays (resolveOrderCancellationConfig env) \<le> 90
   \<and> 1 \<le> caseStallReminderIntervalDays (resolveOrderCancellationConfig env)
   \<and> caseStallReminderIntervalDays (resolveOrderCancellationConfig env) \<le> 30
   \<and> resolveOrderCancellationConfig (\<lambda>_. None) = ORDER_CANCELLATION_DEFAULTS"
  using parseBounded_range
  by (simp add: resolveOrderCancellationConfig_def ORDER_CANCELLATION_DEFAULTS_def
      parseBoundedPositiveInteger_def split: option.split)

end
