(* ===== verification/Publisher_Policy.thy ===== *)
theory Publisher_Policy
  imports Complex_Main Money Order_Policy
begin

text \<open>
  Policies about publishers, listings and the platform's finance switches: listing phases
  (\<open>lifecycle/listing-phase.ts\<close>), tier windows and holds (\<open>publisher-tier-policy.ts\<close>), which
  payout methods may execute (\<open>payout-method-eligibility.ts\<close>), the finance runtime mode
  (\<open>finance-runtime-mode.ts\<close>), webhook freshness (\<open>webhook-timestamp.ts\<close>) and the platform
  fee policy (\<open>platform-fee-core.ts\<close>).  Numbers that are fractions in the source (seconds,
  percentages) are rational numbers here, without binary rounding.
\<close>

section \<open>Listing phases\<close>

datatype listing_status = L_DRAFT | L_PENDING_REVIEW | L_APPROVED | L_REJECTED | L_PAUSED | L_ARCHIVED

datatype listing_owner = O_PUBLISHER | O_PLATFORM

datatype website_verification = W_PENDING_VERIFICATION | W_VERIFIED | W_VERIFICATION_FAILED | W_REVOKED

datatype listing_phase =
    AWAITING_VERIFICATION | AWAITING_SERVICES | READY_FOR_REVIEW | IN_REVIEW | READY_TO_PUBLISH
  | PH_PUBLISHED | PH_PAUSED | PH_REJECTED | PH_ARCHIVED

record listing_phase_input =
  lp_status :: listing_status
  lp_ownerType :: listing_owner
  lp_websiteVerificationStatus :: "website_verification option"
  lp_availableServiceCount :: int

definition computeListingPhase :: "listing_phase_input \<Rightarrow> listing_phase" where
  "computeListingPhase i =
     (if lp_status i = L_ARCHIVED then PH_ARCHIVED
      else if lp_status i = L_REJECTED then PH_REJECTED
      else if lp_status i = L_PAUSED then PH_PAUSED
      else if lp_status i = L_APPROVED then PH_PUBLISHED
      else if lp_status i = L_PENDING_REVIEW then IN_REVIEW
      else if lp_ownerType i = O_PLATFORM then
        (if lp_availableServiceCount i > 0 then READY_TO_PUBLISH else AWAITING_SERVICES)
      else if lp_websiteVerificationStatus i \<noteq> Some W_VERIFIED then AWAITING_VERIFICATION
      else if lp_availableServiceCount i = 0 then AWAITING_SERVICES
      else READY_FOR_REVIEW)"

definition isListingLive :: "listing_phase \<Rightarrow> bool" where
  "isListingLive phase \<longleftrightarrow> phase = PH_PUBLISHED"

definition canSubmitForReview :: "listing_phase \<Rightarrow> bool" where
  "canSubmitForReview phase \<longleftrightarrow> phase = READY_FOR_REVIEW"

definition canPause :: "listing_phase \<Rightarrow> bool" where
  "canPause phase \<longleftrightarrow> phase = PH_PUBLISHED"

definition canUnpause :: "listing_phase \<Rightarrow> bool" where
  "canUnpause phase \<longleftrightarrow> phase = PH_PAUSED"

definition canArchive :: "listing_phase \<Rightarrow> bool" where
  "canArchive phase \<longleftrightarrow> phase \<noteq> PH_ARCHIVED"

section \<open>Publisher tiers\<close>

datatype publisher_tier = T_NEW | T_TRUSTED | T_VERIFIED

fun TIER_SETTLEMENT_REVIEW_DAYS :: "publisher_tier \<Rightarrow> rat" where
  "TIER_SETTLEMENT_REVIEW_DAYS T_NEW = 30"
| "TIER_SETTLEMENT_REVIEW_DAYS T_TRUSTED = 14"
| "TIER_SETTLEMENT_REVIEW_DAYS T_VERIFIED = 7"

fun TIER_WITHDRAWAL_HOLD_DAYS :: "publisher_tier \<Rightarrow> rat" where
  "TIER_WITHDRAWAL_HOLD_DAYS T_NEW = 30"
| "TIER_WITHDRAWAL_HOLD_DAYS T_TRUSTED = 14"
| "TIER_WITHDRAWAL_HOLD_DAYS T_VERIFIED = 7"

text \<open>
  The module state: the value last warned about for each variable, and the warnings logged,
  newest first.  \<open>to_number\<close> is the conversion \<open>Number(text)\<close>, \<open>None\<close> where not finite.
\<close>

record tier_warnings =
  warnedInvalidOverrides :: "string \<rightharpoonup> string"
  warn_log :: "(string \<times> string) list"

definition parseEnvOverride ::
    "(string \<Rightarrow> rat option) \<Rightarrow> string option \<Rightarrow> string \<Rightarrow> tier_warnings \<Rightarrow> rat option \<times> tier_warnings" where
  "parseEnvOverride to_number envValue envKeyName st =
     (let trimmed = (case envValue of None \<Rightarrow> [] | Some v \<Rightarrow> trim v)
      in if trimmed = [] then (None, st)
         else case to_number trimmed of
           Some parsed \<Rightarrow> (Some (max parsed 0), st)
         | None \<Rightarrow>
             if warnedInvalidOverrides st envKeyName \<noteq> Some trimmed then
               (None, st\<lparr>warnedInvalidOverrides := (warnedInvalidOverrides st)(envKeyName \<mapsto> trimmed),
                        warn_log := (envKeyName, trimmed) # warn_log st\<rparr>)
             else (None, st))"

definition getSettlementReviewDays ::
    "(string \<Rightarrow> rat option) \<Rightarrow> publisher_tier \<Rightarrow> string option \<Rightarrow> tier_warnings \<Rightarrow> rat \<times> tier_warnings" where
  "getSettlementReviewDays to_number tier envOverride st =
     (let (parsed, st') = parseEnvOverride to_number envOverride ''SETTLEMENT_REVIEW_DAYS'' st
      in (case parsed of Some d \<Rightarrow> d | None \<Rightarrow> TIER_SETTLEMENT_REVIEW_DAYS tier, st'))"

definition getWithdrawalHoldDays ::
    "(string \<Rightarrow> rat option) \<Rightarrow> publisher_tier \<Rightarrow> string option \<Rightarrow> tier_warnings \<Rightarrow> rat \<times> tier_warnings" where
  "getWithdrawalHoldDays to_number tier envOverride st =
     (let (parsed, st') = parseEnvOverride to_number envOverride ''WITHDRAWAL_HOLD_DAYS'' st
      in (case parsed of Some d \<Rightarrow> d | None \<Rightarrow> TIER_WITHDRAWAL_HOLD_DAYS tier, st'))"

definition resetTierPolicyWarnCache :: "tier_warnings \<Rightarrow> tier_warnings" where
  "resetTierPolicyWarnCache st = st\<lparr>warnedInvalidOverrides := Map.empty\<rparr>"

section \<open>Payout methods\<close>

definition CERTIFIED_WITHDRAWAL_METHOD_TYPES :: "string list" where
  "CERTIFIED_WITHDRAWAL_METHOD_TYPES = [''bank_transfer'', ''stripe_connect'']"

datatype payout_eligibility_code =
    READY | INACTIVE | FINANCE_OPERATIONS_PAUSED | METHOD_NOT_CERTIFIED | MANUAL_BANK_DISABLED
  | STRIPE_CONNECT_DISABLED | PROVIDER_BINDING_INVALID | STRIPE_ACCOUNT_NOT_READY

record payout_eligibility =
  pe_executable :: bool
  pe_canReactivate :: bool
  pe_code :: payout_eligibility_code
  pe_message :: string

record payout_capabilities =
  newLiabilityOperationsEnabled :: bool
  manualBankPayoutsEnabled :: bool
  stripeConnectPayoutsEnabled :: bool

record provider_account =
  pa_publisherId :: jsval
  pa_provider :: jsval
  pa_isActive :: jsval
  pa_status :: jsval
  pa_transfersEnabled :: jsval
  pa_payoutsEnabled :: jsval
  pa_detailsSubmitted :: jsval
  pa_payoutScheduleConfigured :: jsval
  pa_defaultCurrency :: jsval

record payout_method_input =
  pm_publisherId :: string
  pm_type :: jsval
  pm_isActive :: bool
  pm_providerAccountId :: "string option"
  pm_providerAccount :: "provider_account option"

text \<open>Truthiness of an optional text.\<close>

definition truthy :: "string option \<Rightarrow> bool" where
  "truthy s \<longleftrightarrow> s \<noteq> None \<and> s \<noteq> Some []"

definition isCertifiedWithdrawalMethodType :: "jsval \<Rightarrow> bool" where
  "isCertifiedWithdrawalMethodType value \<longleftrightarrow> value \<in> JText ` set CERTIFIED_WITHDRAWAL_METHOD_TYPES"

definition ineligible :: "payout_eligibility_code \<Rightarrow> string \<Rightarrow> payout_eligibility" where
  "ineligible code message =
     \<lparr>pe_executable = False, pe_canReactivate = False, pe_code = code, pe_message = message\<rparr>"

definition accountNotReady :: "provider_account \<Rightarrow> bool" where
  "accountNotReady account \<longleftrightarrow>
     pa_isActive account \<noteq> JBool True \<or> pa_status account \<noteq> JText ''ENABLED''
     \<or> pa_transfersEnabled account \<noteq> JBool True \<or> pa_payoutsEnabled account \<noteq> JBool True
     \<or> pa_detailsSubmitted account \<noteq> JBool True \<or> pa_payoutScheduleConfigured account \<noteq> JBool True
     \<or> pa_defaultCurrency account \<noteq> JText ''USD''"

definition bankIssue :: "payout_method_input \<Rightarrow> payout_capabilities \<Rightarrow> payout_eligibility option" where
  "bankIssue method runtime =
     (if truthy (pm_providerAccountId method) then
        Some (ineligible PROVIDER_BINDING_INVALID
          ''This manual bank method has an invalid provider binding and requires support review.'')
      else if \<not> manualBankPayoutsEnabled runtime \<or> stripeConnectPayoutsEnabled runtime then
        Some (ineligible MANUAL_BANK_DISABLED
          ''Manual bank payouts are not currently enabled. Connect Stripe or contact support before requesting a withdrawal.'')
      else None)"

definition stripeIssue :: "payout_method_input \<Rightarrow> payout_capabilities \<Rightarrow> payout_eligibility option" where
  "stripeIssue method runtime =
     (if \<not> stripeConnectPayoutsEnabled runtime then
        Some (ineligible STRIPE_CONNECT_DISABLED
          ''Stripe payouts are not currently enabled. No withdrawal can be submitted through this method.'')
      else if \<not> truthy (pm_providerAccountId method) \<or>
         (case pm_providerAccount method of None \<Rightarrow> True
          | Some account \<Rightarrow> pa_publisherId account \<noteq> JText (pm_publisherId method)
                           \<or> pa_provider account \<noteq> JText ''stripe_connect'') then
        Some (ineligible PROVIDER_BINDING_INVALID
          ''This Stripe payout method is not bound to the publisher's verified account and requires support review.'')
      else if (case pm_providerAccount method of None \<Rightarrow> False | Some account \<Rightarrow> accountNotReady account) then
        Some (ineligible STRIPE_ACCOUNT_NOT_READY
          ''Stripe setup is incomplete or restricted. Continue setup and refresh the provider status before withdrawing.'')
      else None)"

definition evaluatePayoutMethodEligibility ::
    "payout_method_input \<Rightarrow> payout_capabilities \<Rightarrow> payout_eligibility" where
  "evaluatePayoutMethodEligibility method runtime =
     (if \<not> isCertifiedWithdrawalMethodType (pm_type method) then
        ineligible METHOD_NOT_CERTIFIED
          ''This legacy payout method is not certified for new withdrawals. Disable it and connect a supported payout method.''
      else if \<not> newLiabilityOperationsEnabled runtime then
        ineligible FINANCE_OPERATIONS_PAUSED
          ''New withdrawals are temporarily paused by operations. Retry later or contact support.''
      else case (if pm_type method = JText ''bank_transfer'' then bankIssue method runtime else None) of
        Some e \<Rightarrow> e
      | None \<Rightarrow>
        case (if pm_type method = JText ''stripe_connect'' then stripeIssue method runtime else None) of
          Some e \<Rightarrow> e
        | None \<Rightarrow>
          if \<not> pm_isActive method then
            \<lparr>pe_executable = False, pe_canReactivate = True, pe_code = INACTIVE,
             pe_message = ''This payout method is disabled. Enable it before withdrawing.''\<rparr>
          else
            \<lparr>pe_executable = True, pe_canReactivate = False, pe_code = READY,
             pe_message = ''This payout method is ready for withdrawals.''\<rparr>)"

record listed_payout_method =
  lm_type :: jsval
  lm_isActive :: bool
  lm_executable :: "bool option"

definition selectExecutablePayoutMethods :: "listed_payout_method list option \<Rightarrow> listed_payout_method list" where
  "selectExecutablePayoutMethods methods =
     filter (\<lambda>m. isCertifiedWithdrawalMethodType (lm_type m) \<and> lm_isActive m \<and> lm_executable m = Some True)
       (case methods of None \<Rightarrow> [] | Some ms \<Rightarrow> ms)"

section \<open>Finance runtime mode\<close>

datatype finance_mode = M_NORMAL | M_RECOVERY_ONLY | M_LOCKED

datatype finance_operation =
    F_READ | F_NEW_LIABILITY | F_OPERATOR_DECISION | F_EXTERNAL_SEND | F_MANUAL_COMPLETION
  | F_INBOUND_EVIDENCE | F_RECOVERY | F_RECONCILIATION

record mode_resolution =
  mr_mode :: finance_mode
  mr_configured :: bool
  mr_valid :: bool

definition resolveFinanceRuntimeMode :: "string option \<Rightarrow> string option \<Rightarrow> mode_resolution" where
  "resolveFinanceRuntimeMode rawMode nodeEnv =
     (let normalized = map_option (\<lambda>m. to_lower (trim m)) rawMode
      in if normalized = Some ''normal'' then \<lparr>mr_mode = M_NORMAL, mr_configured = True, mr_valid = True\<rparr>
         else if normalized = Some ''recovery_only'' then
           \<lparr>mr_mode = M_RECOVERY_ONLY, mr_configured = True, mr_valid = True\<rparr>
         else if normalized = Some ''locked'' then \<lparr>mr_mode = M_LOCKED, mr_configured = True, mr_valid = True\<rparr>
         else if \<not> truthy normalized \<and> nodeEnv \<noteq> Some ''production'' then
           \<lparr>mr_mode = M_NORMAL, mr_configured = False, mr_valid = True\<rparr>
         else \<lparr>mr_mode = M_LOCKED, mr_configured = truthy normalized, mr_valid = False\<rparr>)"

definition isFinanceOperationAllowed :: "finance_mode \<Rightarrow> finance_operation \<Rightarrow> bool" where
  "isFinanceOperationAllowed mode operation =
     (if operation = F_READ \<or> operation = F_INBOUND_EVIDENCE then True
      else if operation = F_RECONCILIATION then mode \<noteq> M_LOCKED
      else if mode = M_NORMAL then True
      else if mode = M_RECOVERY_ONLY then operation = F_RECOVERY
      else False)"

text \<open>
  The optional inputs are \<open>None\<close> when undefined, \<open>Some None\<close> when null.  The error carries
  the mode and the operation.
\<close>

definition assertFinanceOperationAllowed ::
    "(string \<Rightarrow> string option) \<Rightarrow> finance_operation \<Rightarrow> string option option \<Rightarrow> string option option
     \<Rightarrow> (finance_mode \<times> finance_operation) + finance_mode" where
  "assertFinanceOperationAllowed process_env operation rawMode nodeEnv =
     (let resolution = resolveFinanceRuntimeMode
            (case rawMode of None \<Rightarrow> process_env ''FINANCE_RUNTIME_MODE'' | Some r \<Rightarrow> r)
            (case nodeEnv of None \<Rightarrow> process_env ''NODE_ENV'' | Some n \<Rightarrow> n)
      in if \<not> isFinanceOperationAllowed (mr_mode resolution) operation
         then Inl (mr_mode resolution, operation) else Inr (mr_mode resolution))"

section \<open>Webhook freshness\<close>

text \<open>
  A timestamp is missing, a number, a text (what \<open>Number\<close> gives for it, and the time value
  of \<open>new Date\<close>), or a Date; \<open>None\<close> stands for a number that is not finite.
\<close>

datatype timestamp_input =
    TsMissing
  | TsNumber "rat option"
  | TsText "rat option" time_value
  | TsDate time_value

datatype webhook_timestamp_error =
    MissingTimestamp
  | InvalidTimestamp
  | OutsideTolerance rat rat
  | TooFarInFuture rat

definition MAX_FUTURE_TIMESTAMP_SKEW_SECONDS :: rat where
  "MAX_FUTURE_TIMESTAMP_SKEW_SECONDS = 60"

definition epochSeconds :: "timestamp_input \<Rightarrow> rat option" where
  "epochSeconds timestamp =
     (let seconds = map_option (\<lambda>t. of_int t / 1000)
      in case timestamp of
        TsMissing \<Rightarrow> None
      | TsNumber n \<Rightarrow> n
      | TsText n d \<Rightarrow> (case n of Some asNumber \<Rightarrow> Some asNumber | None \<Rightarrow> seconds d)
      | TsDate d \<Rightarrow> seconds d)"

definition assertWebhookTimestampFresh ::
    "int \<Rightarrow> timestamp_input \<Rightarrow> rat \<Rightarrow> webhook_timestamp_error + unit" where
  "assertWebhookTimestampFresh date_now timestamp toleranceSeconds =
     (if timestamp = TsMissing then Inl MissingTimestamp
      else case epochSeconds timestamp of
        None \<Rightarrow> Inl InvalidTimestamp
      | Some e \<Rightarrow>
          let ageSeconds = of_int date_now / 1000 - e
          in if ageSeconds > toleranceSeconds then Inl (OutsideTolerance ageSeconds toleranceSeconds)
             else if ageSeconds < - MAX_FUTURE_TIMESTAMP_SKEW_SECONDS then Inl (TooFarInFuture (- ageSeconds))
             else Inr ())"

section \<open>Platform fee policy\<close>

record fee_snapshot =
  fs_basisPoints :: int
  fs_fraction :: rat
  fs_policyVersion :: string
  fs_settingsId :: string
  fs_settingsVersion :: int

text \<open>
  The rows of \<open>PlatformSettings\<close>: an id, the percentage, and \<open>Number(version)\<close> where it is
  a safe integer.
\<close>

record settings_row =
  ps_id :: jsval
  ps_platformFeePct :: jsval
  ps_version :: "int option"

definition platformFeePercentToBasisPoints :: "jsval \<Rightarrow> string + int" where
  "platformFeePercentToBasisPoints value =
     (case match_number (js_string value) of
        None \<Rightarrow> Inl ''Platform fee percentage must have at most two decimals''
      | Some (whole, decimals) \<Rightarrow>
          let fraction = (case decimals of None \<Rightarrow> [] | Some f \<Rightarrow> f);
              basisPoints = int (digits_val whole) * 100 + int (digits_val (pad_end 2 CHR ''0'' fraction))
          in if length whole > 3 \<or> length fraction > 2
             then Inl ''Platform fee percentage must have at most two decimals''
             else if basisPoints > MAX_SAFE_INTEGER \<or> basisPoints > 10000
             then Inl ''Platform fee percentage must be between 0 and 100''
             else Inr basisPoints)"

text \<open>The argument is the table in the order of its ids.\<close>

definition resolvePlatformFeePolicyCore :: "settings_row list \<Rightarrow> string + fee_snapshot" where
  "resolvePlatformFeePolicyCore table =
     (case take 2 table of
        [settings] \<Rightarrow>
          (let settingsId = (case ps_id settings of JText t \<Rightarrow> t | _ \<Rightarrow> [])
           in case ps_version settings of
                None \<Rightarrow> Inl ''Versioned PlatformSettings policy is unavailable''
              | Some settingsVersion \<Rightarrow>
                  if settingsId = [] \<or> settingsVersion < 1
                  then Inl ''Versioned PlatformSettings policy is unavailable''
                  else case platformFeePercentToBasisPoints (ps_platformFeePct settings) of
                    Inl e \<Rightarrow> Inl e
                  | Inr basisPoints \<Rightarrow>
                      let policyVersion = ''platform-settings:'' @ settingsId @ '':v'' @ int_text settingsVersion
                      in if length policyVersion > 128
                         then Inl ''Versioned PlatformSettings policy identity is invalid''
                         else Inr \<lparr>fs_basisPoints = basisPoints, fs_fraction = of_int basisPoints / 10000,
                                   fs_policyVersion = policyVersion, fs_settingsId = settingsId,
                                   fs_settingsVersion = settingsVersion\<rparr>)
      | _ \<Rightarrow> Inl ''Versioned PlatformSettings policy is unavailable'')"

text \<open>
  The older fraction helper: \<open>Number(envPercent)\<close>, and \<open>Number(settings?.platformFeePct)\<close>
  with \<open>None\<close> for a query that throws, finds no row or holds no finite number.
\<close>

definition resolvePlatformFeeFractionCore :: "rat option \<Rightarrow> rat option \<Rightarrow> rat" where
  "resolvePlatformFeeFractionCore parsedEnv databasePercent =
     (let percent0 = (case parsedEnv of Some p \<Rightarrow> p | None \<Rightarrow> 20);
          percent = (case databasePercent of Some p \<Rightarrow> p | None \<Rightarrow> percent0)
      in min (max percent 0) 100 / 100)"

section \<open>The order of finance modes\<close>

text \<open>Modes are ordered by what they allow: locked, recovery only, normal.\<close>

fun mode_rank :: "finance_mode \<Rightarrow> nat" where
  "mode_rank M_LOCKED = 0"
| "mode_rank M_RECOVERY_ONLY = 1"
| "mode_rank M_NORMAL = 2"

instantiation finance_mode :: linorder
begin

definition less_eq_finance_mode :: "finance_mode \<Rightarrow> finance_mode \<Rightarrow> bool" where
  "less_eq_finance_mode a b \<longleftrightarrow> mode_rank a \<le> mode_rank b"

definition less_finance_mode :: "finance_mode \<Rightarrow> finance_mode \<Rightarrow> bool" where
  "less_finance_mode a b \<longleftrightarrow> mode_rank a < mode_rank b"

instance
proof
  fix a b c :: finance_mode
  show "a < b \<longleftrightarrow> a \<le> b \<and> \<not> b \<le> a" by (auto simp: less_eq_finance_mode_def less_finance_mode_def)
  show "a \<le> a" by (simp add: less_eq_finance_mode_def)
  show "a \<le> b \<Longrightarrow> b \<le> c \<Longrightarrow> a \<le> c" by (simp add: less_eq_finance_mode_def)
  show "a \<le> b \<Longrightarrow> b \<le> a \<Longrightarrow> a = b"
    by (cases a; cases b) (simp_all add: less_eq_finance_mode_def)
  show "a \<le> b \<or> b \<le> a" by (auto simp: less_eq_finance_mode_def)
qed

end

lemma allowed_mono: "m \<le> n \<Longrightarrow> isFinanceOperationAllowed m op \<Longrightarrow> isFinanceOperationAllowed n op"
  by (cases m; cases n) (auto simp: isFinanceOperationAllowed_def less_eq_finance_mode_def split: if_splits)

lemma allowed_max:
  "isFinanceOperationAllowed (max m n) op = (isFinanceOperationAllowed m op \<or> isFinanceOperationAllowed n op)"
proof (cases "m \<le> n")
  case True
  then show ?thesis using allowed_mono by (auto simp: max_def)
next
  case False
  then have "n \<le> m" by simp
  then show ?thesis using False allowed_mono by (auto simp: max_def)
qed

lemma take_two_single: "take 2 xs = [x] \<longleftrightarrow> xs = [x]"
  by (cases xs; cases "tl xs") auto

lemma allowed_locked: "isFinanceOperationAllowed M_LOCKED op \<longleftrightarrow> op \<in> {F_READ, F_INBOUND_EVIDENCE}"
  by (auto simp: isFinanceOperationAllowed_def)

section \<open>Facts about payout methods\<close>

lemma ineligible_sel [simp]: "\<not> pe_executable (ineligible c m)" "\<not> pe_canReactivate (ineligible c m)"
  by (simp_all add: ineligible_def)

lemma certified_iff: "isCertifiedWithdrawalMethodType v \<longleftrightarrow> v = JText ''bank_transfer'' \<or> v = JText ''stripe_connect''"
  by (auto simp: isCertifiedWithdrawalMethodType_def CERTIFIED_WITHDRAWAL_METHOD_TYPES_def)

lemma bankIssue_not_executable: "bankIssue m r = Some e \<Longrightarrow> \<not> pe_executable e"
  by (auto simp: bankIssue_def split: if_splits)

lemma stripeIssue_not_executable: "stripeIssue m r = Some e \<Longrightarrow> \<not> pe_executable e"
  by (auto simp: stripeIssue_def split: if_splits)

lemma bankIssue_None:
  "bankIssue m r = None \<longleftrightarrow> \<not> truthy (pm_providerAccountId m) \<and> manualBankPayoutsEnabled r
     \<and> \<not> stripeConnectPayoutsEnabled r"
  by (auto simp: bankIssue_def)

definition stripe_ready :: "string \<Rightarrow> provider_account option \<Rightarrow> bool" where
  "stripe_ready publisherId account \<longleftrightarrow>
     account = Some \<lparr>pa_publisherId = JText publisherId, pa_provider = JText ''stripe_connect'',
        pa_isActive = JBool True, pa_status = JText ''ENABLED'', pa_transfersEnabled = JBool True,
        pa_payoutsEnabled = JBool True, pa_detailsSubmitted = JBool True,
        pa_payoutScheduleConfigured = JBool True, pa_defaultCurrency = JText ''USD''\<rparr>"

lemma stripeIssue_None:
  "stripeIssue m r = None \<longleftrightarrow> stripeConnectPayoutsEnabled r \<and> truthy (pm_providerAccountId m)
     \<and> stripe_ready (pm_publisherId m) (pm_providerAccount m)"
  by (cases "pm_providerAccount m")
     (auto simp: stripeIssue_def stripe_ready_def accountNotReady_def)

lemma executable_cases:
  "pe_executable (evaluatePayoutMethodEligibility m r) \<longleftrightarrow>
     newLiabilityOperationsEnabled r \<and> pm_isActive m
     \<and> (pm_type m = JText ''bank_transfer'' \<and> bankIssue m r = None
        \<or> pm_type m = JText ''stripe_connect'' \<and> stripeIssue m r = None)"
  by (auto simp: evaluatePayoutMethodEligibility_def certified_iff
      dest: bankIssue_not_executable stripeIssue_not_executable split: option.splits)

section \<open>Properties\<close>

text \<open>When a payout method may carry a withdrawal.  A method is executable exactly when new
  liabilities are enabled, the method is active, and it is either an unbound manual bank method
  with manual payouts on and Stripe off, or a Stripe method with Stripe on, bound to an account
  of the same publisher that is active, enabled, fully set up and in USD.\<close>

theorem payout_method_executable_iff:
  "pe_executable (evaluatePayoutMethodEligibility method runtime) \<longleftrightarrow>
     newLiabilityOperationsEnabled runtime \<and> pm_isActive method
     \<and> (pm_type method = JText ''bank_transfer'' \<and> \<not> truthy (pm_providerAccountId method)
          \<and> manualBankPayoutsEnabled runtime \<and> \<not> stripeConnectPayoutsEnabled runtime
        \<or> pm_type method = JText ''stripe_connect'' \<and> stripeConnectPayoutsEnabled runtime
          \<and> truthy (pm_providerAccountId method)
          \<and> stripe_ready (pm_publisherId method) (pm_providerAccount method))"
  by (auto simp: executable_cases bankIssue_None stripeIssue_None)

text \<open>Under one runtime configuration the manual and the Stripe payout route are never both
  open: two executable methods always have the same type.\<close>

theorem payout_routes_exclusive:
  assumes "pe_executable (evaluatePayoutMethodEligibility m1 runtime)"
    and "pe_executable (evaluatePayoutMethodEligibility m2 runtime)"
  shows "pm_type m1 = pm_type m2"
  using assms by (auto simp: executable_cases bankIssue_None stripeIssue_None)

definition example_bank_method :: payout_method_input where
  "example_bank_method = \<lparr>pm_publisherId = ''p1'', pm_type = JText ''bank_transfer'', pm_isActive = True,
     pm_providerAccountId = None, pm_providerAccount = None\<rparr>"

definition example_capabilities :: payout_capabilities where
  "example_capabilities = \<lparr>newLiabilityOperationsEnabled = True, manualBankPayoutsEnabled = True,
     stripeConnectPayoutsEnabled = False\<rparr>"

theorem payout_routes_exclusive_witness:
  "pm_type example_bank_method = pm_type (example_bank_method\<lparr>pm_publisherId := ''p2''\<rparr>)"
  by (rule payout_routes_exclusive[of _ example_capabilities])
     (simp_all add: executable_cases bankIssue_def truthy_def example_bank_method_def example_capabilities_def)

text \<open>The finance switch fails closed.  In production an operation that writes money passes only
  when the variable says one of the known modes and that mode allows it; whatever a lower mode
  allows a higher mode allows; a locked platform still reads and takes in evidence.\<close>

theorem finance_mode_fail_closed:
  "(assertFinanceOperationAllowed env op (Some raw) (Some (Some ''production'')) = Inr m) =
     (isFinanceOperationAllowed m op
      \<and> (case map_option (\<lambda>t. to_lower (trim t)) raw of
           None \<Rightarrow> m = M_LOCKED
         | Some t \<Rightarrow> m = (if t = ''normal'' then M_NORMAL else if t = ''recovery_only'' then M_RECOVERY_ONLY
                         else M_LOCKED)))
   \<and> (isFinanceOperationAllowed (max m n) op = (isFinanceOperationAllowed m op \<or> isFinanceOperationAllowed n op))
   \<and> (isFinanceOperationAllowed M_LOCKED op = (op \<in> {F_READ, F_INBOUND_EVIDENCE}))"
  by (auto simp: assertFinanceOperationAllowed_def resolveFinanceRuntimeMode_def allowed_locked allowed_max
      Let_def split: option.splits)

lemma basisPoints_bounds: "platformFeePercentToBasisPoints v = Inr n \<Longrightarrow> 0 \<le> n \<and> n \<le> 10000"
  by (auto simp: platformFeePercentToBasisPoints_def Let_def split: option.splits prod.splits if_splits)

lemma basisPoints_text:
  assumes "n \<le> 10000"
  shows "platformFeePercentToBasisPoints (JText (cents_text n)) = Inr (int n)"
proof -
  have "n div 100 < 10 ^ 3" using assms by simp
  then have "length (nat_text (n div 100)) \<le> 3" by (rule length_nat_text) simp
  then show ?thesis
    using assms
    by (simp add: platformFeePercentToBasisPoints_def Let_def match_number_cents_text cents_digits(1)
        cents_text_value MAX_SAFE_INTEGER_def del: digits_val_pad_end)
qed

text \<open>Fee percentages convert to basis points without drift.  The percentage text of \<open>n\<close> basis
  points parses to \<open>n\<close> exactly when \<open>n\<close> is at most the whole, and a resolved fee policy comes
  from the one settings row, holds basis points between none and the whole, the matching
  fraction, and a settings id and version.\<close>

theorem fee_policy_exact:
  "(platformFeePercentToBasisPoints (JText (usdAmount (int n))) = Inr (int n)) = (n \<le> 10000)
   \<and> (case resolvePlatformFeePolicyCore table of
        Inl e \<Rightarrow> True
      | Inr s \<Rightarrow> length table = 1 \<and> 0 \<le> fs_basisPoints s \<and> fs_basisPoints s \<le> 10000
          \<and> fs_fraction s * 10000 = of_int (fs_basisPoints s)
          \<and> fs_settingsId s \<noteq> [] \<and> 1 \<le> fs_settingsVersion s)"
proof
  show "(platformFeePercentToBasisPoints (JText (usdAmount (int n))) = Inr (int n)) = (n \<le> 10000)"
    using basisPoints_text[of n] basisPoints_bounds[of "JText (usdAmount (int n))" "int n"]
    by (auto simp: usdAmount_cents_text)
  show "case resolvePlatformFeePolicyCore table of
        Inl e \<Rightarrow> True
      | Inr s \<Rightarrow> length table = 1 \<and> 0 \<le> fs_basisPoints s \<and> fs_basisPoints s \<le> 10000
          \<and> fs_fraction s * 10000 = of_int (fs_basisPoints s)
          \<and> fs_settingsId s \<noteq> [] \<and> 1 \<le> fs_settingsVersion s"
    by (auto simp: resolvePlatformFeePolicyCore_def Let_def take_two_single
        dest: basisPoints_bounds split: sum.splits list.splits option.splits if_splits jsval.splits)
qed

text \<open>A listing can be submitted for review exactly when it is a publisher's draft on a verified
  website with a service to offer; platform listings are never submitted, and a listing is live
  exactly when it is approved, whatever became of its website since.\<close>

theorem listing_submit_iff:
  "canSubmitForReview (computeListingPhase i) =
     (lp_status i = L_DRAFT \<and> lp_ownerType i = O_PUBLISHER
      \<and> lp_websiteVerificationStatus i = Some W_VERIFIED \<and> lp_availableServiceCount i \<noteq> 0)
   \<and> isListingLive (computeListingPhase i) = (lp_status i = L_APPROVED)
   \<and> canArchive (computeListingPhase i) = (lp_status i \<noteq> L_ARCHIVED)"
  by (cases "lp_status i"; cases "lp_ownerType i")
     (auto simp: computeListingPhase_def canSubmitForReview_def isListingLive_def canArchive_def)

text \<open>A webhook timestamp is accepted exactly when it denotes a time at most the tolerance
  behind and at most a minute ahead of the clock.\<close>

theorem webhook_fresh_iff:
  "(assertWebhookTimestampFresh date_now timestamp tolerance = Inr ()) =
     (case epochSeconds timestamp of
        None \<Rightarrow> False
      | Some e \<Rightarrow> of_int date_now / 1000 - tolerance \<le> e \<and> e \<le> of_int date_now / 1000 + 60)"
  by (cases timestamp)
     (auto simp: assertWebhookTimestampFresh_def epochSeconds_def MAX_FUTURE_TIMESTAMP_SKEW_SECONDS_def
       Let_def split: option.splits)

text \<open>Tier windows never go negative, and a variable that holds no number warns once: after
  a call the same value changes nothing, and the answer is the same.\<close>

theorem tier_override_idempotent:
  "0 \<le> fst (getSettlementReviewDays num tier env st)
   \<and> getSettlementReviewDays num tier env (snd (getSettlementReviewDays num tier env st))
       = getSettlementReviewDays num tier env st"
  by (cases tier) (auto simp: getSettlementReviewDays_def parseEnvOverride_def Let_def split: option.splits)

end
