(* ===== verification/Store.thy ===== *)
theory Store
  imports Complex_Main Money Publisher_Policy
begin

text \<open>
  The database the cores run on, and the transactions they run in.  A table is the list of its
  rows, a row a record of the columns the modelled code reads or writes, under the names of
  \<open>schema.prisma\<close> with a letter for the table.  A \<open>Decimal\<close> column holds units of
  \<open>10^-30\<close> (see Money), a \<open>DateTime\<close> milliseconds.

  A transaction is a function from the database to a failure, which rolls everything back, or
  a result and the database it commits.  What the code takes from outside its sources - the
  clock, generated identifiers, SHA-256, the process environment, the communication outbox -
  is the record \<open>env\<close>.
\<close>

section \<open>JSON values\<close>

text \<open>\<open>DecJ\<close> is a number given by a \<open>Decimal\<close>, in its units: \<open>Number\<close> of an amount.\<close>

datatype json = NullJ | BoolJ bool | NumJ int | DecJ int | TextJ string | ListJ "json list" | ObjJ "(string \<times> json) list"

definition opt_json :: "string option \<Rightarrow> json" where
  "opt_json s = (case s of None \<Rightarrow> NullJ | Some t \<Rightarrow> TextJ t)"

text \<open>Object spread: later members replace earlier ones of the same key.\<close>

definition spread :: "(string \<times> json) list \<Rightarrow> (string \<times> json) list \<Rightarrow> (string \<times> json) list" where
  "spread members extra = filter (\<lambda>m. fst m \<notin> fst ` set extra) members @ extra"

fun obj_get :: "json \<Rightarrow> string \<Rightarrow> json option" where
  "obj_get (ObjJ ms) k = map_of ms k"
| "obj_get _ k = None"

section \<open>Rows\<close>

record order_row =
  o_id :: string
  o_type :: string
  o_status :: string
  o_amount :: "int option"
  o_currency :: string
  o_paymentStatus :: string
  o_verifyMethod :: "string option"
  o_customerId :: string
  o_organizationId :: string
  o_websiteId :: "string option"
  o_listingId :: "string option"
  o_listingServiceId :: "string option"
  o_fulfillmentChannel :: "string option"
  o_activeDeliveryVersionId :: "string option"
  o_refundResponsibility :: "string option"
  o_version :: int
  o_submittedAt :: "int option"
  o_warrantyDays :: "int option"
  o_deliveredAt :: "int option"
  o_warrantyEndsAt :: "int option"

record wallet_row =
  w_id :: string
  w_availableBalance :: int
  w_reservedBalance :: int
  w_currency :: string
  w_organizationId :: "string option"
  w_userId :: "string option"
  w_version :: int

record transaction_row =
  t_id :: string
  t_amount :: int
  t_currency :: string
  t_type :: string
  t_reference :: "string option"
  t_provider :: "string option"
  t_providerRef :: "string option"
  t_description :: "string option"
  t_walletId :: "string option"
  t_orderId :: "string option"
  t_publisherId :: "string option"
  t_settlementId :: "string option"
  t_createdAt :: int

record settlement_row =
  s_id :: string
  s_orderId :: string
  s_publisherId :: string
  s_currency :: string
  s_publisherAmount :: int
  s_status :: string
  s_reviewEndsAt :: "int option"
  s_releasePolicy :: string
  s_settledAt :: "int option"
  s_version :: int
  s_updatedAt :: int
  s_serviceType :: "string option"
  s_grossAmount :: int
  s_platformFee :: int
  s_platformFeeBps :: "int option"
  s_feePolicyVersion :: "string option"
  s_listingServiceId :: "string option"
  s_ownerType :: "string option"
  s_fulfillmentChannel :: "string option"
  s_unitPrice :: "int option"
  s_createdAt :: int

record approval_row =
  a_settlementId :: string
  a_type :: string
  a_approvedBy :: string
  a_roleAtTime :: string
  a_id :: string
  a_approvedAt :: int

record balance_row =
  b_publisherId :: string
  b_currency :: string
  b_withdrawableBalance :: int
  b_debtBalance :: int
  b_lifetimeEarnings :: int
  b_lifetimePaid :: int
  b_version :: int
  b_allocationCarryForward :: int
  b_allocationCarryForwardUsed :: int
  b_allocationCutoverAt :: "int option"

record publisher_row =
  p_id :: string
  p_tier :: string
  p_organizationId :: string

record assignment_row =
  f_orderId :: string
  f_status :: string
  f_version :: int

record order_event =
  e_orderId :: string
  e_settlementId :: "string option"
  e_eventType :: string
  e_actorId :: "string option"
  e_message :: string
  e_metadata :: json

record audit_row =
  l_action :: string
  l_entityType :: string
  l_entityId :: string
  l_metadata :: "(string \<times> json) list"
  l_userId :: "string option"
  l_organizationId :: "string option"
  l_requestId :: "string option"

record delivery_row =
  v_id :: string
  v_orderId :: string
  v_normalizedUrl :: string
  v_verificationStatus :: string
  v_interventionStatus :: string
  v_supersededByVersion :: "int option"
  v_submittedByUserId :: string

record evidence_row =
  ev_id :: string
  ev_deliveryVersionId :: string
  ev_checkedAt :: int
  ev_createdAt :: int
  ev_httpStatus :: int
  ev_linkFound :: bool
  ev_targetUrlMatched :: bool
  ev_anchorFound :: bool

record order_dispute_row =
  d_orderId :: string
  d_status :: string

record revision_row =
  r_orderId :: string
  r_status :: string

record cancellation_row =
  c_orderId :: string
  c_status :: string
  c_resolution :: "string option"

record fraud_resolution =
  fr_kind :: string
  fr_resolvedByUserId :: "string option"
  fr_resolvedByRole :: json
  fr_evidence :: json

record fraud_flag_row =
  x_id :: string
  x_orderId :: string
  x_deliveryVersionId :: string
  x_type :: string
  x_details :: json
  x_resolution :: "fraud_resolution option"

record fraud_hold_row =
  h_fraudFlagId :: string
  h_orderId :: string
  h_deliveryVersionId :: string
  h_type :: string

record staff_row =
  st_userId :: string
  st_role :: string
  st_banned :: bool
  st_userType :: string

text \<open>A request to the communication outbox, and the events it has recorded with their ids.\<close>

record outbox_request =
  ob_type :: string
  ob_aggregateType :: string
  ob_aggregateId :: string
  ob_organizationId :: "string option"
  ob_title :: string
  ob_message :: string
  ob_actionPath :: string
  ob_payload :: json
  ob_dedupKey :: string
  ob_recipientUserIds :: "string list"
  ob_actorUserId :: "string option"

type_synonym outbox_table = "(string \<times> outbox_request) list"

record payment_dispute_row =
  pd_id :: string
  pd_provider :: string
  pd_providerDisputeId :: string
  pd_providerPaymentId :: string
  pd_providerChargeId :: "string option"
  pd_depositAttemptId :: string
  pd_depositTransactionId :: string
  pd_walletId :: string
  pd_amount :: int
  pd_currency :: string
  pd_heldAmount :: int
  pd_shortfallAmount :: int
  pd_currentExposureAmount :: int
  pd_status :: string
  pd_providerStatus :: string
  pd_openedByEventId :: "string option"
  pd_resolvedByEventId :: "string option"
  pd_holdTransactionId :: "string option"
  pd_resolutionTransactionId :: "string option"
  pd_version :: int
  pd_openedAt :: "int option"
  pd_resolvedAt :: "int option"

record deposit_row =
  da_id :: string
  da_publicReference :: string
  da_walletId :: string
  da_organizationId :: "string option"
  da_createdByUserId :: string
  da_method :: string
  da_provider :: string
  da_amount :: int
  da_walletCredit :: int
  da_customerFee :: int
  da_currency :: string
  da_status :: string
  da_providerSessionId :: "string option"
  da_providerPaymentId :: "string option"
  da_providerChargeId :: "string option"
  da_ledgerTransactionId :: "string option"
  da_completedAt :: "int option"
  da_failedAt :: "int option"
  da_failureCode :: "string option"

text \<open>
  What Stripe says of a deposit, as the webhook or the retrieval states it: a checkout session, its
  payment intent and its charge.  The evidence of a retrieval is stored with its claim.
\<close>

datatype deposit_source = SignedWebhook | ProviderRetrieval

record deposit_facts =
  df_source :: deposit_source
  df_provider :: string
  df_providerSessionId :: string
  df_providerPaymentId :: "string option"
  df_providerChargeId :: "string option"
  df_clientReferenceId :: "string option"
  df_checkoutStatus :: "string option"
  df_checkoutPaymentStatus :: "string option"
  df_checkoutMode :: "string option"
  df_checkoutAmountTotalMinor :: "int option"
  df_checkoutCurrency :: "string option"
  df_checkoutLivemode :: bool
  df_checkoutMetadataAttemptId :: "string option"
  df_checkoutMetadataReference :: "string option"
  df_checkoutMetadataWalletId :: "string option"
  df_checkoutMetadataUserId :: "string option"
  df_checkoutMetadataOrgId :: "string option"
  df_paymentIntentStatus :: "string option"
  df_paymentIntentAmountMinor :: "int option"
  df_paymentIntentReceivedMinor :: "int option"
  df_paymentIntentCurrency :: "string option"
  df_paymentIntentLivemode :: "bool option"
  df_paymentMetadataAttemptId :: "string option"
  df_paymentMetadataReference :: "string option"
  df_paymentMetadataWalletId :: "string option"
  df_chargePaid :: "bool option"
  df_chargeCaptured :: "bool option"
  df_chargeRefunded :: "bool option"
  df_chargeAmountMinor :: "int option"
  df_chargeAmountCapturedMinor :: "int option"
  df_chargeCurrency :: "string option"
  df_chargeLivemode :: "bool option"

record credit_evidence_row =
  ce_id :: string
  ce_recoveryId :: string
  ce_depositAttemptId :: string
  ce_claimAttempt :: int
  ce_claimLockedAt :: int
  ce_facts :: deposit_facts
  ce_evidenceFingerprint :: string

record recovery_row =
  rv_id :: string
  rv_depositAttemptId :: string
  rv_status :: string
  rv_attempts :: int
  rv_lockedAt :: "int option"
  rv_processedAt :: "int option"
  rv_evidenceId :: "string option"
  rv_lastError :: "string option"

text \<open>The inbox of payment events, and the payout side.\<close>

record provider_event_row =
  pv_id :: string
  pv_provider :: string
  pv_providerEventId :: string
  pv_eventType :: string
  pv_objectId :: "string option"
  pv_depositAttemptId :: "string option"
  pv_paymentDisputeId :: "string option"
  pv_providerPaymentId :: "string option"
  pv_providerChargeId :: "string option"
  pv_disputeAmountMinor :: "int option"
  pv_disputeCurrency :: "string option"
  pv_providerStatus :: "string option"
  pv_livemode :: "bool option"
  pv_eventFingerprint :: "string option"
  pv_status :: string
  pv_attempts :: int
  pv_lockedAt :: "int option"
  pv_processedAt :: "int option"
  pv_lastError :: "string option"
  pv_receivedAt :: int

record payout_event_row =
  y_id :: string
  y_provider :: string
  y_eventType :: string
  y_providerExecutionId :: "string option"
  y_providerAccountExternalId :: "string option"
  y_payoutAmountMinor :: "int option"
  y_payoutCurrency :: "string option"
  y_livemode :: "bool option"
  y_providerStatus :: "string option"
  y_status :: string
  y_attempts :: int
  y_lockedAt :: "int option"
  y_processedAt :: "int option"
  y_lastError :: "string option"
  y_receivedAt :: int

record withdrawal_row =
  wd_id :: string
  wd_publisherId :: string
  wd_amount :: int
  wd_currency :: string
  wd_publicReference :: "string option"
  wd_netAmount :: "int option"
  wd_status :: string
  wd_requestedBy :: "string option"
  wd_approvedBy :: "string option"
  wd_approvedAt :: "int option"
  wd_version :: int
  wd_payoutFee :: int
  wd_feePolicyVersion :: "string option"
  wd_method :: string
  wd_availableAt :: "int option"
  wd_idempotencyKey :: "string option"
  wd_payoutMethodId :: "string option"
  wd_rejectedBy :: "string option"
  wd_rejectedAt :: "int option"

record allocation_row =
  al_withdrawalId :: string
  al_amount :: int
  al_currency :: string
  al_releasedAt :: "int option"
  al_id :: string
  al_sourceType :: string
  al_sourceTransactionId :: "string option"
  al_settlementId :: "string option"
  al_orderId :: "string option"
  al_sequence :: int
  al_serviceType :: "string option"

text \<open>A payout method with its provider account, and a credit that compensates a publisher.\<close>

record provider_account_row =
  va_id :: string
  va_publisherId :: string
  va_provider :: string
  va_status :: string
  va_defaultCurrency :: "string option"
  va_transfersEnabled :: bool
  va_payoutsEnabled :: bool
  va_detailsSubmitted :: bool
  va_payoutScheduleConfigured :: bool
  va_isActive :: bool

record payout_method_row =
  m_id :: string
  m_publisherId :: string
  m_type :: string
  m_isActive :: bool
  m_providerAccountId :: "string option"

record compensation_row =
  pc_id :: string
  pc_orderId :: string
  pc_compensationTransactionId :: "string option"
  pc_debtRepaymentTransactionId :: "string option"
  pc_publisherId :: string
  pc_refundTransactionId :: string
  pc_disposition :: string
  pc_amount :: int
  pc_platformFeeAmount :: int
  pc_platformFeeBps :: "int option"
  pc_platformFeePolicyVersion :: "string option"
  pc_currency :: string
  pc_responsibility :: string
  pc_reason :: string
  pc_effectiveOrderStatus :: string
  pc_decidedByUserId :: string

text \<open>A membership, with the two columns of its user the code asks for.\<close>

record member_row =
  mb_userId :: string
  mb_groupId :: string
  mb_role :: string
  mb_status :: string
  mb_banned :: bool
  mb_userType :: string

text \<open>The cart and the catalog.\<close>

record item_row =
  i_id :: string
  i_orderId :: string
  i_websiteId :: "string option"
  i_price :: "int option"
  i_status :: string

record listing_service_row =
  ls_id :: string
  ls_listingId :: string
  ls_serviceType :: string
  ls_price :: int
  ls_currency :: string
  ls_availability :: string

record listing_row =
  li_id :: string
  li_status :: string
  li_currency :: string
  li_websiteId :: "string option"

record website_row =
  ws_id :: string
  ws_publisherId :: "string option"
  ws_isActive :: bool
  ws_verificationStatus :: string
  ws_ownershipType :: string

record payout_provider_row =
  pr_id :: string
  pr_name :: string

record execution_row =
  px_id :: string
  px_withdrawalId :: string
  px_providerId :: string
  px_status :: string
  px_stage :: string
  px_providerExecutionId :: "string option"
  px_providerTransferId :: "string option"
  px_providerPayoutId :: "string option"
  px_amount :: int
  px_fee :: int
  px_sourceCurrency :: string
  px_destinationCurrency :: string
  px_destinationAmount :: "int option"
  px_acceptedReference :: "string option"
  px_bankTraceReference :: "string option"
  px_errorMessage :: "string option"
  px_providerMetadata :: json
  px_livemode :: "bool option"
  px_initiatedByUserId :: "string option"
  px_completionSource :: "string option"
  px_completionEvidenceRef :: "string option"
  px_completionEvidenceAt :: "int option"
  px_completedAt :: "int option"
  px_completionActorUserId :: "string option"
  px_completionWebhookEventId :: "string option"
  px_createdAt :: int
  px_version :: int
  px_cancellationSource :: "string option"

record execution_claim_row =
  xc_executionId :: string
  xc_kind :: string

text \<open>The revenue of a platform order, and a confirmed finding of fraud on an order.\<close>

record revenue_row =
  pl_orderId :: string
  pl_reversedAt :: "int option"

record finding_row =
  fi_id :: string
  fi_orderId :: string

record notification_row =
  n_userId :: "string option"
  n_organizationId :: "string option"
  n_type :: string
  n_message :: string
  n_dedupKey :: "string option"

section \<open>The database\<close>

record db =
  orders :: "order_row list"
  wallets :: "wallet_row list"
  transactions :: "transaction_row list"
  settlements :: "settlement_row list"
  approvals :: "approval_row list"
  balances :: "balance_row list"
  publishers :: "publisher_row list"
  assignments :: "assignment_row list"
  order_events :: "order_event list"
  audit_logs :: "audit_row list"
  deliveries :: "delivery_row list"
  delivery_evidence :: "evidence_row list"
  order_disputes :: "order_dispute_row list"
  revisions :: "revision_row list"
  cancellations :: "cancellation_row list"
  fraud_flags :: "fraud_flag_row list"
  fraud_holds :: "fraud_hold_row list"
  staff :: "staff_row list"
  outbox :: outbox_table
  payment_disputes :: "payment_dispute_row list"
  deposits :: "deposit_row list"
  recoveries :: "recovery_row list"
  credit_evidence :: "credit_evidence_row list"
  provider_events :: "provider_event_row list"
  payout_events :: "payout_event_row list"
  withdrawals :: "withdrawal_row list"
  allocations :: "allocation_row list"
  payout_providers :: "payout_provider_row list"
  executions :: "execution_row list"
  notifications :: "notification_row list"
  id_supply :: nat
  order_items :: "item_row list"
  listing_services :: "listing_service_row list"
  listings :: "listing_row list"
  websites :: "website_row list"
  memberships :: "member_row list"
  publisher_members :: "member_row list"
  payout_methods :: "payout_method_row list"
  provider_accounts :: "provider_account_row list"
  compensations :: "compensation_row list"
  execution_claims :: "execution_claim_row list"
  platform_settings :: "settings_row list"
  platform_revenues :: "revenue_row list"
  fraud_findings :: "finding_row list"

definition empty_db :: db where
  "empty_db = \<lparr>orders = [], wallets = [], transactions = [], settlements = [], approvals = [], balances = [],
     publishers = [], assignments = [], order_events = [], audit_logs = [], deliveries = [], delivery_evidence = [],
     order_disputes = [], revisions = [], cancellations = [], fraud_flags = [], fraud_holds = [], staff = [],
     outbox = [], payment_disputes = [], deposits = [], recoveries = [], credit_evidence = [], provider_events = [], payout_events = [],
     withdrawals = [], allocations = [], payout_providers = [], executions = [], notifications = [], id_supply = 0,
     order_items = [], listing_services = [], listings = [], websites = [], memberships = [], publisher_members = [],
     payout_methods = [], provider_accounts = [], compensations = [], execution_claims = [],
     platform_settings = [], platform_revenues = [], fraud_findings = []\<rparr>"

section \<open>Failures\<close>

text \<open>
  What a transaction may throw: an error of the code with its class and message, one that also
  carries a \<open>code\<close>, one of a core with its code, message and \<open>retryable\<close> bit
  (\<open>PaymentDisputeTransitionError\<close>, \<open>DepositCreditFinalizationError\<close>, \<open>StripeDepositRecoveryError\<close>), or a structured error of Prisma or PostgreSQL.
\<close>

record prisma_error =
  pe_error_code :: "string option"
  pe_error_name :: "string option"
  pe_cause_originalCode :: "string option"
  pe_meta_code :: "string option"
  pe_meta_originalCode :: "string option"

datatype failure =
    Failure string string
  | CodedFailure string string string
  | TransitionFailure string string bool
  | DbFailure prisma_error

definition opt_list :: "'a option \<Rightarrow> 'a list" where
  "opt_list x = (case x of None \<Rightarrow> [] | Some y \<Rightarrow> [y])"

definition trustedPrismaErrorCodes :: "failure \<Rightarrow> string set" where
  "trustedPrismaErrorCodes error =
     (case error of
        Failure n m \<Rightarrow> {}
      | CodedFailure n code m \<Rightarrow> {code}
      | TransitionFailure code m retry \<Rightarrow> {code}
      | DbFailure e \<Rightarrow>
          set (opt_list (pe_error_code e)
               @ (if pe_error_name e = Some ''DriverAdapterError'' then opt_list (pe_cause_originalCode e) else [])
               @ opt_list (pe_meta_code e) @ opt_list (pe_meta_originalCode e)))"

definition isRetryablePrismaTransactionError :: "failure \<Rightarrow> bool" where
  "isRetryablePrismaTransactionError error =
     (let codes = trustedPrismaErrorCodes error
      in ''P2034'' \<in> codes \<or> ''40001'' \<in> codes \<or> ''40P01'' \<in> codes)"

definition isPrismaUniqueConstraintError :: "failure \<Rightarrow> bool" where
  "isPrismaUniqueConstraintError error =
     (let codes = trustedPrismaErrorCodes error in ''P2002'' \<in> codes \<or> ''23505'' \<in> codes)"

text \<open>The unique-constraint failure of Prisma, and a write conflict of the database.\<close>

definition prisma_code :: "string \<Rightarrow> failure" where
  "prisma_code code = DbFailure \<lparr>pe_error_code = Some code, pe_error_name = None, pe_cause_originalCode = None,
     pe_meta_code = None, pe_meta_originalCode = None\<rparr>"

definition unique_violation :: failure where
  "unique_violation = prisma_code ''P2002''"

text \<open>
  The delay before attempt \<open>attempt + 1\<close>, with the sample of \<open>random\<close> as a fraction.
\<close>

definition prismaTransactionRetryDelayMs :: "int \<Rightarrow> rat \<Rightarrow> int \<Rightarrow> int \<Rightarrow> int" where
  "prismaTransactionRetryDelayMs attempt random baseMs capMs =
     (let safeAttempt = max 1 attempt;
          ceilingMs = min capMs (baseMs * 2 ^ nat (safeAttempt - 1));
          floorMs = (ceilingMs + 1) div 2;
          sample = min (max random 0) (999999999999 / 1000000000000)
      in floorMs + \<lfloor>sample * of_int (ceilingMs - floorMs + 1)\<rfloor>)"

section \<open>The world outside\<close>

record env =
  env_now :: int
  env_cuid :: "nat \<Rightarrow> string"
  env_sha256 :: "string \<Rightarrow> string"
  env_outbox :: "outbox_request \<Rightarrow> outbox_table \<Rightarrow> failure + (string \<times> outbox_table)"
  env_process :: "string \<Rightarrow> string option"
  env_requestId :: "string option"

section \<open>Transactions\<close>

type_synonym 'a tx = "db \<Rightarrow> failure + ('a \<times> db)"

definition ret :: "'a \<Rightarrow> 'a tx" where
  "ret x s = Inr (x, s)"

definition throw :: "failure \<Rightarrow> 'a tx" where
  "throw e s = Inl e"

definition andThen :: "'a tx \<Rightarrow> ('a \<Rightarrow> 'b tx) \<Rightarrow> 'b tx" where
  "andThen m k s = (case m s of Inl e \<Rightarrow> Inl e | Inr (x, s') \<Rightarrow> k x s')"

definition query :: "(db \<Rightarrow> 'a) \<Rightarrow> 'a tx" where
  "query g s = Inr (g s, s)"

definition modify :: "(db \<Rightarrow> db) \<Rightarrow> unit tx" where
  "modify f s = Inr ((), f s)"

definition require :: "bool \<Rightarrow> failure \<Rightarrow> unit tx" where
  "require b e = (if b then ret () else throw e)"

text \<open>A fallible computation that does not touch the database.\<close>

definition lift_sum :: "('e \<Rightarrow> failure) \<Rightarrow> 'e + 'a \<Rightarrow> 'a tx" where
  "lift_sum f r = (case r of Inl e \<Rightarrow> throw (f e) | Inr x \<Rightarrow> ret x)"

definition fresh_id :: "env \<Rightarrow> string tx" where
  "fresh_id env s = Inr (env_cuid env (id_supply s), s\<lparr>id_supply := id_supply s + 1\<rparr>)"

section \<open>Tables\<close>

definition count_where :: "('r \<Rightarrow> bool) \<Rightarrow> 'r list \<Rightarrow> nat" where
  "count_where p rows = length (filter p rows)"

definition update_where :: "('r \<Rightarrow> bool) \<Rightarrow> ('r \<Rightarrow> 'r) \<Rightarrow> 'r list \<Rightarrow> 'r list" where
  "update_where p f rows = map (\<lambda>r. if p r then f r else r) rows"

text \<open>
  \<open>updateMany\<close> on the tables of the database: it returns the number of rows it changed.
\<close>

definition update_orders :: "(order_row \<Rightarrow> bool) \<Rightarrow> (order_row \<Rightarrow> order_row) \<Rightarrow> nat tx" where
  "update_orders p f s = Inr (count_where p (orders s), s\<lparr>orders := update_where p f (orders s)\<rparr>)"

definition update_wallets :: "(wallet_row \<Rightarrow> bool) \<Rightarrow> (wallet_row \<Rightarrow> wallet_row) \<Rightarrow> nat tx" where
  "update_wallets p f s = Inr (count_where p (wallets s), s\<lparr>wallets := update_where p f (wallets s)\<rparr>)"

definition update_settlements :: "(settlement_row \<Rightarrow> bool) \<Rightarrow> (settlement_row \<Rightarrow> settlement_row) \<Rightarrow> nat tx" where
  "update_settlements p f s =
     Inr (count_where p (settlements s), s\<lparr>settlements := update_where p f (settlements s)\<rparr>)"

definition update_balances :: "(balance_row \<Rightarrow> bool) \<Rightarrow> (balance_row \<Rightarrow> balance_row) \<Rightarrow> nat tx" where
  "update_balances p f s = Inr (count_where p (balances s), s\<lparr>balances := update_where p f (balances s)\<rparr>)"

definition update_assignments ::
    "(assignment_row \<Rightarrow> bool) \<Rightarrow> (assignment_row \<Rightarrow> assignment_row) \<Rightarrow> nat tx" where
  "update_assignments p f s =
     Inr (count_where p (assignments s), s\<lparr>assignments := update_where p f (assignments s)\<rparr>)"

definition update_deposits :: "(deposit_row \<Rightarrow> bool) \<Rightarrow> (deposit_row \<Rightarrow> deposit_row) \<Rightarrow> nat tx" where
  "update_deposits p f s = Inr (count_where p (deposits s), s\<lparr>deposits := update_where p f (deposits s)\<rparr>)"

definition update_recoveries :: "(recovery_row \<Rightarrow> bool) \<Rightarrow> (recovery_row \<Rightarrow> recovery_row) \<Rightarrow> nat tx" where
  "update_recoveries p f s = Inr (count_where p (recoveries s), s\<lparr>recoveries := update_where p f (recoveries s)\<rparr>)"

definition update_payment_disputes ::
    "(payment_dispute_row \<Rightarrow> bool) \<Rightarrow> (payment_dispute_row \<Rightarrow> payment_dispute_row) \<Rightarrow> nat tx" where
  "update_payment_disputes p f s =
     Inr (count_where p (payment_disputes s), s\<lparr>payment_disputes := update_where p f (payment_disputes s)\<rparr>)"

definition update_provider_events ::
    "(provider_event_row \<Rightarrow> bool) \<Rightarrow> (provider_event_row \<Rightarrow> provider_event_row) \<Rightarrow> nat tx" where
  "update_provider_events p f s =
     Inr (count_where p (provider_events s), s\<lparr>provider_events := update_where p f (provider_events s)\<rparr>)"

definition update_payout_events ::
    "(payout_event_row \<Rightarrow> bool) \<Rightarrow> (payout_event_row \<Rightarrow> payout_event_row) \<Rightarrow> nat tx" where
  "update_payout_events p f s =
     Inr (count_where p (payout_events s), s\<lparr>payout_events := update_where p f (payout_events s)\<rparr>)"

definition update_withdrawals :: "(withdrawal_row \<Rightarrow> bool) \<Rightarrow> (withdrawal_row \<Rightarrow> withdrawal_row) \<Rightarrow> nat tx" where
  "update_withdrawals p f s =
     Inr (count_where p (withdrawals s), s\<lparr>withdrawals := update_where p f (withdrawals s)\<rparr>)"

definition update_executions :: "(execution_row \<Rightarrow> bool) \<Rightarrow> (execution_row \<Rightarrow> execution_row) \<Rightarrow> nat tx" where
  "update_executions p f s =
     Inr (count_where p (executions s), s\<lparr>executions := update_where p f (executions s)\<rparr>)"

definition create_event :: "order_event \<Rightarrow> unit tx" where
  "create_event e = modify (\<lambda>s. s\<lparr>order_events := order_events s @ [e]\<rparr>)"

definition create_audit :: "audit_row \<Rightarrow> unit tx" where
  "create_audit l = modify (\<lambda>s. s\<lparr>audit_logs := audit_logs s @ [l]\<rparr>)"

text \<open>
  A ledger row with the columns a creation leaves out.  Creating one generates its id and
  checks the unique constraints on \<open>reference\<close> and on the pair of provider columns.
\<close>

definition new_transaction :: transaction_row where
  "new_transaction = \<lparr>t_id = [], t_amount = 0, t_currency = ''USD'', t_type = [], t_reference = None,
     t_provider = None, t_providerRef = None, t_description = None, t_walletId = None, t_orderId = None,
     t_publisherId = None, t_settlementId = None, t_createdAt = 0\<rparr>"

definition transaction_unique :: "transaction_row \<Rightarrow> transaction_row list \<Rightarrow> bool" where
  "transaction_unique t rows \<longleftrightarrow>
     list_all (\<lambda>r. (t_reference t = None \<or> t_reference r \<noteq> t_reference t)
                 \<and> (t_provider t = None \<or> t_providerRef t = None
                    \<or> t_provider r \<noteq> t_provider t \<or> t_providerRef r \<noteq> t_providerRef t)) rows"

definition create_transaction :: "env \<Rightarrow> transaction_row \<Rightarrow> string tx" where
  "create_transaction env t =
     andThen (query transactions) (\<lambda>rows.
     andThen (require (transaction_unique t rows) unique_violation) (\<lambda>_.
     andThen (fresh_id env) (\<lambda>i.
     andThen (modify (\<lambda>s. s\<lparr>transactions := transactions s @ [t\<lparr>t_id := i, t_createdAt := env_now env\<rparr>]\<rparr>)) (\<lambda>_. ret i))))"

text \<open>
  An approval, one of each type for a settlement: its creation checks that, \<open>upsert\<close> updates the
  one that is there.
\<close>

definition create_approval :: "env \<Rightarrow> approval_row \<Rightarrow> unit tx" where
  "create_approval env a =
     andThen (query approvals) (\<lambda>rows.
     andThen (require (\<not> list_ex (\<lambda>r. a_settlementId r = a_settlementId a \<and> a_type r = a_type a) rows)
       unique_violation) (\<lambda>_.
     andThen (fresh_id env) (\<lambda>i.
     andThen (require (list_all (\<lambda>r. a_id r \<noteq> i) rows) unique_violation) (\<lambda>_.
     modify (\<lambda>s. s\<lparr>approvals := approvals s @ [a\<lparr>a_id := i, a_approvedAt := env_now env\<rparr>]\<rparr>)))))"

definition upsert_approval :: "env \<Rightarrow> (approval_row \<Rightarrow> approval_row) \<Rightarrow> approval_row \<Rightarrow> unit tx" where
  "upsert_approval env f a =
     andThen (query approvals) (\<lambda>rows.
     if list_ex (\<lambda>r. a_settlementId r = a_settlementId a \<and> a_type r = a_type a) rows
     then modify (\<lambda>s. s\<lparr>approvals := update_where
       (\<lambda>r. a_settlementId r = a_settlementId a \<and> a_type r = a_type a) f (approvals s)\<rparr>)
     else create_approval env a)"

text \<open>An approval before its creation.\<close>

definition new_approval :: "string \<Rightarrow> string \<Rightarrow> string \<Rightarrow> string \<Rightarrow> approval_row" where
  "new_approval settlementId approval_type approvedBy roleAtTime =
     \<lparr>a_settlementId = settlementId, a_type = approval_type, a_approvedBy = approvedBy, a_roleAtTime = roleAtTime,
      a_id = [], a_approvedAt = 0\<rparr>"

text \<open>The value PostgreSQL stores for a decimal text.\<close>

definition db_decimal :: "string \<Rightarrow> int" where
  "db_decimal text = (case scaledDecimal (JText text) of Inr d \<Rightarrow> d | Inl _ \<Rightarrow> 0)"

section \<open>Serializable transactions with retries (settlement-transaction.ts)\<close>

text \<open>
  What happens around attempt \<open>n\<close>: the changes other transactions commit before it, and the
  failure with which the database aborts it, if it does.  A failed attempt is rolled back.
\<close>

type_synonym weather = "nat \<Rightarrow> (db \<Rightarrow> db) \<times> failure option"

definition calm :: weather where
  "calm n = (\<lambda>s. s, None)"

definition attempt_tx :: "failure option \<Rightarrow> 'a tx \<Rightarrow> 'a tx" where
  "attempt_tx abort op s = (case abort of Some e \<Rightarrow> Inl e | None \<Rightarrow> op s)"

text \<open>
  The loop every core runs: \<open>left\<close> attempts remain, \<open>n\<close> is the number of this one; a failure
  ends it on the last attempt or when it is not one to retry.
\<close>

fun retry_loop ::
    "(failure \<Rightarrow> bool) \<Rightarrow> weather \<Rightarrow> 'a tx \<Rightarrow> nat \<Rightarrow> nat \<Rightarrow> db \<Rightarrow> (failure + 'a) \<times> db" where
  "retry_loop retryable w op 0 n s = (Inl (Failure ''Error'' ''Serializable transaction retry budget exhausted''), s)"
| "retry_loop retryable w op (Suc left) n s =
     (let s1 = fst (w n) s
      in case attempt_tx (snd (w n)) op s1 of
           Inr (x, s2) \<Rightarrow> (Inr x, s2)
         | Inl e \<Rightarrow> if left = 0 \<or> \<not> retryable e then (Inl e, s1)
                    else retry_loop retryable w op left (n + 1) s1)"

definition MAX_SERIALIZABLE_TRANSACTION_ATTEMPTS :: nat where
  "MAX_SERIALIZABLE_TRANSACTION_ATTEMPTS = 3"

definition runSerializableTransactionWithRetry :: "weather \<Rightarrow> 'a tx \<Rightarrow> db \<Rightarrow> (failure + 'a) \<times> db" where
  "runSerializableTransactionWithRetry w op s =
     retry_loop isRetryablePrismaTransactionError w op MAX_SERIALIZABLE_TRANSACTION_ATTEMPTS 1 s"

section \<open>Stripe key modes (stripe-key-mode.ts)\<close>

datatype stripe_key_mode = KeyTest | KeyLive | KeyNone | KeyInvalid

definition classifyStripeKeyMode :: "string option \<Rightarrow> stripe_key_mode" where
  "classifyStripeKeyMode rawKey =
     (let key = (case rawKey of None \<Rightarrow> [] | Some k \<Rightarrow> trim k)
      in if key = [] then KeyNone
         else if starts_with ''sk_test_'' key \<or> starts_with ''rk_test_'' key then KeyTest
         else if starts_with ''sk_live_'' key \<or> starts_with ''rk_live_'' key then KeyLive
         else KeyInvalid)"

definition stripe_failure :: "string \<Rightarrow> string \<Rightarrow> failure" where
  "stripe_failure code message = CodedFailure ''StripeConfigurationError'' code message"

text \<open>
  \<open>livemode\<close> is \<open>None\<close> unless a boolean; the mode returned is live or not.
\<close>

definition assertStripeFinancialObjectMode ::
    "bool option \<Rightarrow> string option \<Rightarrow> string option \<Rightarrow> failure + bool" where
  "assertStripeFinancialObjectMode livemode secretKey liveModeEnabled =
     (let keyMode = classifyStripeKeyMode secretKey
      in if keyMode = KeyNone then
           Inl (stripe_failure ''STRIPE_KEY_MISSING''
             ''Durable Stripe evidence cannot be applied without a configured secret or restricted key'')
         else if keyMode = KeyInvalid then
           Inl (stripe_failure ''STRIPE_KEY_INVALID''
             ''Durable Stripe evidence requires a valid Stripe secret or restricted key'')
         else if keyMode = KeyLive
              \<and> map_option (\<lambda>t. to_lower (trim t)) liveModeEnabled \<noteq> Some ''true'' then
           Inl (stripe_failure ''STRIPE_LIVE_MODE_DISABLED''
             ''Live Stripe evidence is refused while the live-money gate is disabled'')
         else if livemode \<noteq> Some (keyMode = KeyLive) then
           Inl (stripe_failure ''STRIPE_PROVIDER_MODE_MISMATCH''
             ''Durable Stripe evidence mode does not match the currently configured Stripe key'')
         else Inr (keyMode = KeyLive))"

section \<open>Audit metadata of an order (audit/order-event-metadata.ts)\<close>

definition orderEventMetadata :: "order_row \<Rightarrow> (string \<times> json) list" where
  "orderEventMetadata ord =
     (let channel = o_fulfillmentChannel ord;
          ownerType = (if channel = Some ''PLATFORM'' then Some ''PLATFORM''
                       else if channel = Some ''PUBLISHER'' then Some ''PUBLISHER'' else None);
          amount = map_option decimalString (o_amount ord)
      in [(''listingId'', opt_json (o_listingId ord)),
          (''listingServiceId'', opt_json (o_listingServiceId ord)),
          (''serviceType'', TextJ (o_type ord)),
          (''fulfillmentChannel'', opt_json channel),
          (''ownerType'', opt_json ownerType),
          (''websiteId'', opt_json (o_websiteId ord)),
          (''amount'', opt_json amount)])"

section \<open>Reasoning about transactions\<close>

named_theorems tx_simps

lemma andThen_Inr [tx_simps]:
  "andThen m k s = Inr r \<longleftrightarrow> (\<exists>x s'. m s = Inr (x, s') \<and> k x s' = Inr r)"
  by (auto simp: andThen_def split: sum.splits)

lemma ret_Inr [tx_simps]: "ret x s = Inr r \<longleftrightarrow> r = (x, s)"
  by (auto simp: ret_def)

lemma throw_Inr [tx_simps]: "throw e s = Inr r \<longleftrightarrow> False"
  by (simp add: throw_def)

lemma query_Inr [tx_simps]: "query g s = Inr r \<longleftrightarrow> r = (g s, s)"
  by (auto simp: query_def)

lemma modify_Inr [tx_simps]: "modify f s = Inr r \<longleftrightarrow> r = ((), f s)"
  by (auto simp: modify_def)

lemma require_Inr [tx_simps]: "require b e s = Inr r \<longleftrightarrow> b \<and> r = ((), s)"
  by (auto simp: require_def ret_def throw_def)

lemma lift_sum_Inr [tx_simps]: "lift_sum f x s = Inr r \<longleftrightarrow> (\<exists>y. x = Inr y \<and> r = (y, s))"
  by (auto simp: lift_sum_def ret_def throw_def split: sum.splits)

lemma fresh_id_Inr [tx_simps]:
  "fresh_id env s = Inr r \<longleftrightarrow> r = (env_cuid env (id_supply s), s\<lparr>id_supply := id_supply s + 1\<rparr>)"
  by (auto simp: fresh_id_def)

lemma if_Inr [tx_simps]:
  "(if b then m else m') s = Inr r \<longleftrightarrow> (b \<and> m s = Inr r \<or> \<not> b \<and> m' s = Inr r)"
  by auto

lemma update_Inr [tx_simps]:
  "update_orders p1 f1 s = Inr r \<longleftrightarrow>
     r = (count_where p1 (orders s), s\<lparr>orders := update_where p1 f1 (orders s)\<rparr>)"
  "update_wallets p2 f2 s = Inr r \<longleftrightarrow>
     r = (count_where p2 (wallets s), s\<lparr>wallets := update_where p2 f2 (wallets s)\<rparr>)"
  "update_settlements p3 f3 s = Inr r \<longleftrightarrow>
     r = (count_where p3 (settlements s), s\<lparr>settlements := update_where p3 f3 (settlements s)\<rparr>)"
  "update_balances p4 f4 s = Inr r \<longleftrightarrow>
     r = (count_where p4 (balances s), s\<lparr>balances := update_where p4 f4 (balances s)\<rparr>)"
  "update_assignments p5 f5 s = Inr r \<longleftrightarrow>
     r = (count_where p5 (assignments s), s\<lparr>assignments := update_where p5 f5 (assignments s)\<rparr>)"
  "update_deposits p6 f6 s = Inr r \<longleftrightarrow>
     r = (count_where p6 (deposits s), s\<lparr>deposits := update_where p6 f6 (deposits s)\<rparr>)"
  "update_payment_disputes p7 f7 s = Inr r \<longleftrightarrow>
     r = (count_where p7 (payment_disputes s), s\<lparr>payment_disputes := update_where p7 f7 (payment_disputes s)\<rparr>)"
  "update_provider_events p8 f8 s = Inr r \<longleftrightarrow>
     r = (count_where p8 (provider_events s), s\<lparr>provider_events := update_where p8 f8 (provider_events s)\<rparr>)"
  "update_payout_events p9 f9 s = Inr r \<longleftrightarrow>
     r = (count_where p9 (payout_events s), s\<lparr>payout_events := update_where p9 f9 (payout_events s)\<rparr>)"
  "update_withdrawals p10 f10 s = Inr r \<longleftrightarrow>
     r = (count_where p10 (withdrawals s), s\<lparr>withdrawals := update_where p10 f10 (withdrawals s)\<rparr>)"
  "update_executions p11 f11 s = Inr r \<longleftrightarrow>
     r = (count_where p11 (executions s), s\<lparr>executions := update_where p11 f11 (executions s)\<rparr>)"
  "update_recoveries p12 f12 s = Inr r \<longleftrightarrow>
     r = (count_where p12 (recoveries s), s\<lparr>recoveries := update_where p12 f12 (recoveries s)\<rparr>)"
  by (auto simp: update_orders_def update_wallets_def update_settlements_def update_balances_def
      update_assignments_def update_deposits_def update_payment_disputes_def update_provider_events_def
      update_payout_events_def update_withdrawals_def update_executions_def update_recoveries_def)

lemma create_Inr [tx_simps]:
  "create_event e s = Inr r \<longleftrightarrow> r = ((), s\<lparr>order_events := order_events s @ [e]\<rparr>)"
  "create_audit l s = Inr r \<longleftrightarrow> r = ((), s\<lparr>audit_logs := audit_logs s @ [l]\<rparr>)"
  by (auto simp: create_event_def create_audit_def modify_def)

lemma create_transaction_Inr [tx_simps]:
  "create_transaction env t s = Inr r \<longleftrightarrow>
     transaction_unique t (transactions s)
     \<and> r = (env_cuid env (id_supply s),
            s\<lparr>id_supply := id_supply s + 1,
              transactions := transactions s @ [t\<lparr>t_id := env_cuid env (id_supply s), t_createdAt := env_now env\<rparr>]\<rparr>)"
  by (auto simp: create_transaction_def tx_simps)

section \<open>What a transaction keeps\<close>

definition preserves :: "(db \<Rightarrow> bool) \<Rightarrow> 'a tx \<Rightarrow> bool" where
  "preserves P m \<longleftrightarrow> (\<forall>s x s'. P s \<longrightarrow> m s = Inr (x, s') \<longrightarrow> P s')"

named_theorems keeps

lemma preservesD: "preserves P m \<Longrightarrow> P s \<Longrightarrow> m s = Inr (x, s') \<Longrightarrow> P s'"
  by (auto simp: preserves_def)

lemma preserves_andThen [keeps]:
  "preserves P m \<Longrightarrow> (\<And>x. preserves P (k x)) \<Longrightarrow> preserves P (andThen m k)"
  unfolding preserves_def andThen_Inr by blast

lemma preserves_pure [keeps]:
  "preserves P (ret x)" "preserves P (throw e)" "preserves P (query g)" "preserves P (require b e)"
  "preserves P (lift_sum f r)"
  by (auto simp: preserves_def tx_simps)

lemma preserves_if [keeps]: "preserves P m \<Longrightarrow> preserves P m' \<Longrightarrow> preserves P (if b then m else m')"
  by simp

lemma preserves_case_option [keeps]:
  "preserves P m \<Longrightarrow> (\<And>x. preserves P (k x)) \<Longrightarrow> preserves P (case opt of None \<Rightarrow> m | Some x \<Rightarrow> k x)"
  by (cases opt) auto

lemma preserves_modify [keeps]: "(\<And>s. P s \<Longrightarrow> P (f s)) \<Longrightarrow> preserves P (modify f)"
  by (auto simp: preserves_def tx_simps)

section \<open>Guarded updates\<close>

lemma count_where_simps [table_simps, simp]:
  "count_where p [] = 0" "count_where p (r # rs) = (if p r then Suc (count_where p rs) else count_where p rs)"
  by (simp_all add: count_where_def)

lemma update_where_simps [table_simps, simp]:
  "update_where p f [] = []" "update_where p f (r # rs) = (if p r then f r else r) # update_where p f rs"
  by (simp_all add: update_where_def)

lemma count_where_zero: "count_where p rows = 0 \<longleftrightarrow> (\<forall>r \<in> set rows. \<not> p r)"
  by (induction rows) auto

lemma count_where_pos: "0 < count_where p rows \<longleftrightarrow> (\<exists>r \<in> set rows. p r)"
  using count_where_zero[of p rows] by auto

lemma update_where_none: "count_where p rows = 0 \<Longrightarrow> update_where p f rows = rows"
  by (induction rows) (auto split: if_splits)

lemma length_update_where [simp]: "length (update_where p f rows) = length rows"
  by (simp add: update_where_def)

lemma map_update_where: "(\<And>r. g (f r) = g r) \<Longrightarrow> map g (update_where p f rows) = map g rows"
  by (simp add: update_where_def)

text \<open>With distinct keys a guard that fixes the key matches one row at most.\<close>

lemma distinct_key_eq:
  "distinct (map key rows) \<Longrightarrow> x \<in> set rows \<Longrightarrow> r \<in> set rows \<Longrightarrow> key x = key r \<Longrightarrow> x = r"
  by (simp add: distinct_map inj_on_def)

lemma filter_unique: "distinct rows \<Longrightarrow> r \<in> set rows \<Longrightarrow> p r \<Longrightarrow> (\<forall>x \<in> set rows. p x \<longrightarrow> x = r) \<Longrightarrow> filter p rows = [r]"
proof (induction rows)
  case (Cons x xs)
  show ?case
  proof (cases "x = r")
    case True
    have "\<not> p y" if "y \<in> set xs" for y
      using that Cons.prems(1,4) True by (metis distinct.simps(2) list.set_intros(2))
    then have "filter p xs = []" unfolding filter_empty_conv by blast
    then show ?thesis using True Cons.prems(3) by simp
  next
    case False
    have "distinct xs" using Cons.prems(1) by simp
    moreover have "r \<in> set xs" using Cons.prems(2) False by simp
    moreover have "\<forall>x \<in> set xs. p x \<longrightarrow> x = r" using Cons.prems(4) by (meson list.set_intros(2))
    ultimately have "filter p xs = [r]" by (rule Cons.IH[OF _ _ Cons.prems(3)])
    moreover have "\<not> p x" using Cons.prems(4) False by (meson list.set_intros(1))
    ultimately show ?thesis by simp
  qed
qed simp

lemma filter_key:
  assumes "distinct (map key rows)" "r \<in> set rows" "p r" "\<And>x. p x \<Longrightarrow> key x = k"
  shows "filter p rows = [r]"
proof (rule filter_unique)
  show "distinct rows" using assms(1) by (simp add: distinct_map)
  show "\<forall>x \<in> set rows. p x \<longrightarrow> x = r"
  proof (intro ballI impI)
    fix x assume "x \<in> set rows" "p x"
    then show "x = r"
      using assms(4)[OF \<open>p x\<close>] assms(4)[OF assms(3)] by (intro distinct_key_eq[OF assms(1) _ assms(2)]) simp_all
  qed
qed (fact assms)+

lemma count_key:
  assumes "distinct (map key rows)" "\<And>x. p x \<Longrightarrow> key x = k"
  shows "count_where p rows \<le> 1"
proof (cases "\<exists>r \<in> set rows. p r")
  case True
  then obtain r where "r \<in> set rows" "p r" by blast
  then have "filter p rows = [r]" by (rule filter_key[OF assms(1) _ _ assms(2)])
  then show ?thesis by (simp add: count_where_def)
next
  case False
  then show ?thesis using count_where_zero[of p rows] by simp
qed

lemma sum_update_where:
  fixes g :: "'r \<Rightarrow> int"
  assumes "\<And>r. p r \<Longrightarrow> g (f r) = g r + c"
  shows "sum_list (map g (update_where p f rows)) = sum_list (map g rows) + int (count_where p rows) * c"
  by (induction rows) (auto simp: assms algebra_simps)

lemma find_key:
  "find p rows = Some r \<Longrightarrow> r \<in> set rows \<and> p r"
  by (induction rows) (auto split: if_splits)

lemma find_none: "find p rows = None \<longleftrightarrow> (\<forall>r \<in> set rows. \<not> p r)"
  by (induction rows) auto

text \<open>An update that keeps keys commutes with looking a key up.\<close>

lemma find_update_where:
  "(\<And>r. key (f r) = key r) \<Longrightarrow> find (\<lambda>r. key r = k) (update_where p f rows)
     = map_option (\<lambda>r. if p r then f r else r) (find (\<lambda>r. key r = k) rows)"
  by (induction rows) auto

lemma find_append: "find p (xs @ ys) = (case find p xs of None \<Rightarrow> find p ys | Some x \<Rightarrow> Some x)"
  by (induction xs) auto

lemma find_distinct:
  "distinct (map key rows) \<Longrightarrow> r \<in> set rows \<Longrightarrow> key r = k \<Longrightarrow> find (\<lambda>r. key r = k) rows = Some r"
  by (induction rows) auto

lemma count_found:
  assumes "distinct (map key rows)" "find (\<lambda>r. key r = k) rows = Some r"
  shows "count_where (\<lambda>x. key x = k \<and> p x) rows = (if p r then 1 else 0)"
proof -
  have r: "r \<in> set rows" "key r = k" using find_key[OF assms(2)] by auto
  show ?thesis
  proof (cases "p r")
    case True
    then have "filter (\<lambda>x. key x = k \<and> p x) rows = [r]"
      using r by (intro filter_key[OF assms(1) r(1), where k = k]) auto
    with True show ?thesis by (simp add: count_where_def)
  next
    case False
    have "\<not> (key x = k \<and> p x)" if "x \<in> set rows" for x
      using distinct_key_eq[OF assms(1) that r(1)] r(2) False by metis
    then have "count_where (\<lambda>x. key x = k \<and> p x) rows = 0" unfolding count_where_zero by blast
    with False show ?thesis by simp
  qed
qed

lemma count_not_found: "find (\<lambda>r. key r = k) rows = None \<Longrightarrow> count_where (\<lambda>x. key x = k \<and> p x) rows = 0"
  by (auto simp: find_none count_where_zero)

lemma update_where_cong: "(\<And>x. x \<in> set rows \<Longrightarrow> p x = q x) \<Longrightarrow> update_where p f rows = update_where q f rows"
  by (simp add: update_where_def)

lemma count_one_sum:
  fixes g :: "'r \<Rightarrow> int"
  assumes "distinct (map key rows)" "r \<in> set rows" "\<And>x. g (f x) = g x + c"
  shows "sum_list (map g (update_where (\<lambda>x. x = r) f rows)) = sum_list (map g rows) + c"
proof -
  have "filter (\<lambda>x. x = r) rows = [r]" using assms(1,2) by (intro filter_key[where k = "key r"]) auto
  then have "count_where (\<lambda>x. x = r) rows = 1" by (simp add: count_where_def)
  with sum_update_where[of "\<lambda>x. x = r" g f c rows] assms(3) show ?thesis by simp
qed

lemma sum_update_key:
  fixes g :: "'r \<Rightarrow> int"
  assumes "distinct (map key rows)" "r \<in> set rows" "p r" "\<And>x. p x \<Longrightarrow> key x = key r"
  shows "sum_list (map g (update_where p f rows)) = sum_list (map g rows) + (g (f r) - g r)"
  using assms
proof (induction rows)
  case (Cons x xs)
  show ?case
  proof (cases "x = r")
    case True
    have "\<not> p y" if "y \<in> set xs" for y
    proof
      assume "p y"
      then have "key y = key x" using Cons.prems(4) True by simp
      moreover have "key y \<in> set (map key xs)" using that by simp
      moreover have "key x \<notin> set (map key xs)" using Cons.prems(1) by simp
      ultimately show False by simp
    qed
    then have "count_where p xs = 0" unfolding count_where_zero by blast
    then show ?thesis using True Cons.prems(3) by (simp add: update_where_none)
  next
    case False
    then have r: "r \<in> set xs" using Cons.prems(2) by simp
    have "\<not> p x"
    proof
      assume "p x"
      then have "key x = key r" by (rule Cons.prems(4))
      with distinct_key_eq[OF Cons.prems(1), of x r] r False show False by simp
    qed
    then show ?thesis using Cons.IH[OF _ r Cons.prems(3,4)] Cons.prems(1) by simp
  qed
qed simp

text \<open>A guard that fixes the key and holds of one row selects that row alone.\<close>

lemma guard_row:
  assumes d: "distinct (map key rows)" and r: "r \<in> set rows" and g: "\<And>x. g x \<Longrightarrow> key x = key r"
    and c: "count_where g rows = 1"
  shows "g r \<and> update_where g f rows = update_where (\<lambda>x. key x = key r) f rows"
proof -
  obtain x where x: "x \<in> set rows" "g x" using c count_where_pos[of g rows] by auto
  then have "x = r" using distinct_key_eq[OF d x(1) r] g by blast
  with x have gr: "g r" by simp
  have "g y = (key y = key r)" if "y \<in> set rows" for y
    using g[of y] distinct_key_eq[OF d that r] gr by blast
  then have "update_where g f rows = update_where (\<lambda>x. key x = key r) f rows" by (rule update_where_cong)
  with gr show ?thesis ..
qed

lemma find_one:
  assumes "find (\<lambda>r. key r = k) rows = Some r" "\<And>x. key (f x) = key x"
  shows "find (\<lambda>x. key x = j) (update_where (\<lambda>x. key x = k) f rows)
     = (if j = k then Some (f r) else find (\<lambda>x. key x = j) rows)"
proof -
  have "map_option (\<lambda>x. if key x = k then f x else x) (find (\<lambda>x. key x = j) rows)
      = (if j = k then Some (f r) else find (\<lambda>x. key x = j) rows)"
  proof (cases "j = k")
    case True
    then show ?thesis using assms(1) find_key[OF assms(1)] by simp
  next
    case False
    then show ?thesis using find_key[of "\<lambda>x. key x = j" rows] by (cases "find (\<lambda>x. key x = j) rows") simp_all
  qed
  then show ?thesis using find_update_where[of key f j "\<lambda>x. key x = k" rows] assms(2) by simp
qed

lemma count_one:
  assumes "distinct (map key rows)" "r \<in> set rows" "\<And>x. g x \<Longrightarrow> key x = key r" "g r"
  shows "count_where g rows = 1"
proof -
  have "filter g rows = [r]"
  proof (rule filter_key[where key = key and k = "key r"])
  qed (fact assms)+
  then show ?thesis by (simp add: count_where_def)
qed

text \<open>
  The optimistic lock of every versioned table: an update guarded by key and version bumps the
  version, so a writer that read the same version finds no row any more.
\<close>

locale versioned_table =
  fixes key :: "'r \<Rightarrow> string" and version :: "'r \<Rightarrow> int" and bump :: "'r \<Rightarrow> 'r"
  assumes key_bump [simp]: "key (bump r) = key r"
    and version_bump [simp]: "version (bump r) = version r + 1"
begin

definition row_at :: "string \<Rightarrow> int \<Rightarrow> 'r \<Rightarrow> bool" where
  "row_at k v r \<longleftrightarrow> key r = k \<and> version r = v"

lemma keys_kept: "(\<And>r. key (f r) = key (bump r)) \<Longrightarrow> map key (update_where p f rows) = map key rows"
  by (rule map_update_where) simp

lemma guarded_find:
  assumes "\<And>r. key (f r) = key r" "find (\<lambda>r. key r = k) rows = Some r" "version r = v"
  shows "find (\<lambda>r. key r = i) (update_where (row_at k v) f rows)
     = (if i = k then Some (f r) else find (\<lambda>r. key r = i) rows)"
proof -
  have "map_option (\<lambda>x. if row_at k v x then f x else x) (find (\<lambda>r. key r = i) rows) = find (\<lambda>r. key r = i) rows"
    if "i \<noteq> k"
    using that find_key[of "\<lambda>r. key r = i" rows]
    by (cases "find (\<lambda>r. key r = i) rows") (auto simp: row_at_def)
  with assms find_key[OF assms(2)] show ?thesis
    by (auto simp: find_update_where row_at_def)
qed

lemma guarded_sum:
  fixes g :: "'r \<Rightarrow> int"
  assumes "distinct (map key rows)" "find (\<lambda>r. key r = k) rows = Some r" "version r = v"
  shows "sum_list (map g (update_where (row_at k v) f rows)) = sum_list (map g rows) + (g (f r) - g r)"
  using assms find_key[OF assms(2)]
  by (intro sum_update_key[where key = key]) (auto simp: row_at_def)

lemma stale_writer_refused:
  assumes d: "distinct (map key rows)" and f: "\<And>r. key (f r) = key r" "\<And>r. version (f r) = version (bump r)"
    and c: "count_where (\<lambda>r. row_at k v r \<and> p r) rows \<noteq> 0"
  shows "count_where (\<lambda>r. row_at k v r \<and> q r) (update_where (\<lambda>r. row_at k v r \<and> p r) f rows) = 0"
proof -
  obtain r where r: "r \<in> set rows" "row_at k v r" "p r"
    using c by (auto simp: count_where_zero)
  have "\<not> row_at k v (if row_at k v x \<and> p x then f x else x)" if x: "x \<in> set rows" for x
  proof (cases "row_at k v x")
    case True
    then have "x = r" using distinct_key_eq[OF d x r(1)] r(2) by (simp add: row_at_def)
    with r f show ?thesis by (simp add: row_at_def)
  next
    case False
    then show ?thesis by simp
  qed
  then have "\<forall>y \<in> set (update_where (\<lambda>r. row_at k v r \<and> p r) f rows). \<not> row_at k v y"
    unfolding update_where_def set_map by blast
  then show ?thesis unfolding count_where_zero by blast
qed

end

interpretation versioned_wallets: versioned_table w_id w_version "\<lambda>r. r\<lparr>w_version := w_version r + 1\<rparr>"
  by unfold_locales simp_all

interpretation versioned_orders: versioned_table o_id o_version "\<lambda>r. r\<lparr>o_version := o_version r + 1\<rparr>"
  by unfold_locales simp_all

interpretation versioned_settlements: versioned_table s_id s_version "\<lambda>r. r\<lparr>s_version := s_version r + 1\<rparr>"
  by unfold_locales simp_all

interpretation versioned_balances: versioned_table b_publisherId b_version
    "\<lambda>r. r\<lparr>b_version := b_version r + 1\<rparr>"
  by unfold_locales simp_all

lemma trim_usdAmount: "trim (usdAmount c) = usdAmount c"
proof -
  have "\<not> is_space CHR ''-''" by (simp add: is_space_def char_code_def)
  then show ?thesis by (intro trim_no_space) (auto simp: usdAmount_cents_text cents_text_no_space)
qed

lemma split_sign_usdAmount: "split_sign (usdAmount c) = (c < 0, cents_text (nat \<bar>c\<bar>))"
  by (simp add: usdAmount_cents_text split_cents_text split_sign_minus)

lemma scaledDecimal_usdAmount: "scaledDecimal (JText (usdAmount c)) = Inr (c * CENT)"
proof -
  let ?n = "nat \<bar>c\<bar>"
  let ?f = "pad_start 2 CHR ''0'' (nat_text (?n mod 100))"
  have j: "js_string (coalesce (JText (usdAmount c)) (JText ''0'')) = usdAmount c"
    by (simp add: coalesce_def nullish_def)
  have l: "length (pad_end MONEY_SCALE CHR ''0'' ?f) = MONEY_SCALE"
    by (simp add: pad_end_def cents_digits(1) MONEY_SCALE_def)
  have v: "digits_val (take MONEY_SCALE (pad_end MONEY_SCALE CHR ''0'' ?f)) = (?n mod 100) * 10 ^ 28"
    using l by (simp add: digits_val_pad_end cents_digits MONEY_SCALE_def)
  have n: "int (?n div 100) * MONEY_FACTOR + int ((?n mod 100) * 10 ^ 28) = \<bar>c\<bar> * CENT"
  proof -
    have "int (?n div 100) * 100 + int (?n mod 100) = \<bar>c\<bar>"
      by (metis abs_ge_zero div_mult_mod_eq int_nat_eq of_nat_add of_nat_mult of_nat_numeral)
    then have "(int (?n div 100) * 100 + int (?n mod 100)) * CENT = \<bar>c\<bar> * CENT" by simp
    then show ?thesis by (simp add: MONEY_FACTOR_CENT CENT_def algebra_simps)
  qed
  show ?thesis
    unfolding scaledDecimal_def Let_def j trim_usdAmount split_sign_usdAmount prod.case
      match_number_cents_text option.case v digits_val_nat_text n
    by auto
qed

lemma db_decimal_usdAmount [simp, code_unfold]: "db_decimal (usdAmount c) = c * CENT"
  by (simp add: db_decimal_def scaledDecimal_usdAmount)

lemma db_decimal_decimalString [simp, code_unfold]: "db_decimal (decimalString d) = d"
  using scaledDecimal_column[of d]
  by (simp add: db_decimal_def scaledDecimal_def column_def coalesce_def nullish_def)

section \<open>The retry loop commits at most once\<close>

text \<open>
  In calm weather: a result is the one of a single run on the starting database, and a failure
  changes nothing.
\<close>

lemma retry_loop_calm:
  assumes "\<And>n. fst (w n) = (\<lambda>s. s)"
  shows "case retry_loop retryable w op left n s of
           (Inr x, s') \<Rightarrow> op s = Inr (x, s')
         | (Inl e, s') \<Rightarrow> s' = s"
proof (induction left arbitrary: n)
  case 0
  then show ?case by simp
next
  case (Suc left)
  show ?case
    using Suc[of "n + 1"]
    by (auto simp: assms Let_def attempt_tx_def split: sum.splits option.splits prod.splits)
qed

text \<open>
  In any weather: the database after the loop is one the other transactions left, or the one a
  single run committed on it; attempts that failed left nothing.
\<close>

fun interfere :: "weather \<Rightarrow> nat \<Rightarrow> nat \<Rightarrow> db \<Rightarrow> db" where
  "interfere w n 0 s = s"
| "interfere w n (Suc k) s = interfere w (n + 1) k (fst (w n) s)"

lemma retry_loop_trace:
  assumes "retry_loop retryable w op (Suc left) n s = (r, s')"
  shows "\<exists>k. 1 \<le> k \<and> k \<le> Suc left \<and> (case r of
           Inr x \<Rightarrow> snd (w (n + k - 1)) = None \<and> op (interfere w n k s) = Inr (x, s')
         | Inl e \<Rightarrow> s' = interfere w n k s \<and> (snd (w (n + k - 1)) = Some e \<or> op s' = Inl e)
             \<and> (retryable e \<longrightarrow> k = Suc left))"
  using assms
proof (induction left arbitrary: n s)
  case 0
  then show ?case
    by (intro exI[of _ 1]) (auto simp: Let_def attempt_tx_def split: sum.splits option.splits prod.splits)
next
  case (Suc left)
  let ?s1 = "fst (w n) s"
  show ?case
  proof (cases "attempt_tx (snd (w n)) op ?s1")
    case (Inr p)
    with Suc.prems show ?thesis
      by (intro exI[of _ 1]) (auto simp: Let_def attempt_tx_def split: option.splits prod.splits)
  next
    case (Inl e)
    show ?thesis
    proof (cases "retryable e")
      case False
      with Suc.prems Inl show ?thesis
        by (intro exI[of _ 1]) (auto simp: Let_def attempt_tx_def split: option.splits)
    next
      case True
      with Suc.prems Inl have "retry_loop retryable w op (Suc left) (n + 1) ?s1 = (r, s')"
        by (simp only: retry_loop.simps Let_def) simp
      from Suc.IH[OF this] obtain k where k: "1 \<le> k" "k \<le> Suc left" "case r of
           Inr x \<Rightarrow> snd (w (n + 1 + k - 1)) = None \<and> op (interfere w (n + 1) k ?s1) = Inr (x, s')
         | Inl e \<Rightarrow> s' = interfere w (n + 1) k ?s1 \<and> (snd (w (n + 1 + k - 1)) = Some e \<or> op s' = Inl e)
             \<and> (retryable e \<longrightarrow> k = Suc left)"
        by blast
      then show ?thesis by (intro exI[of _ "Suc k"]) (auto split: sum.splits)
    qed
  qed
qed

section \<open>Well-formed databases\<close>

text \<open>The primary keys the updates rely on.\<close>

definition db_wf :: "db \<Rightarrow> bool" where
  "db_wf s \<longleftrightarrow> distinct (map o_id (orders s)) \<and> distinct (map w_id (wallets s))
     \<and> distinct (map s_id (settlements s)) \<and> distinct (map b_publisherId (balances s))"

lemma db_wfD: "db_wf s \<Longrightarrow> distinct (map o_id (orders s))" "db_wf s \<Longrightarrow> distinct (map w_id (wallets s))"
  "db_wf s \<Longrightarrow> distinct (map s_id (settlements s))" "db_wf s \<Longrightarrow> distinct (map b_publisherId (balances s))"
  by (simp_all add: db_wf_def)

section \<open>An example database\<close>

text \<open>
  One delivered order of 3 USD with its wallet, its AUTO settlement of 2 USD awaiting
  release, a verified delivery checked an hour ago, and a publisher who owes 1 USD.
\<close>

definition example_env :: env where
  "example_env = \<lparr>env_now = 100000000, env_cuid = (\<lambda>n. CHR ''c'' # nat_text n), env_sha256 = (\<lambda>t. t),
     env_outbox = (\<lambda>req t. Inr (ob_dedupKey req, t @ [(ob_dedupKey req, req)])),
     env_process = (\<lambda>k. if k = ''STRIPE_SECRET_KEY'' then Some ''sk_test_1'' else None),
     env_requestId = None\<rparr>"

definition example_order :: order_row where
  "example_order = \<lparr>o_id = ''o1'', o_type = ''GUEST_POST'', o_status = ''DELIVERED'', o_amount = Some (300 * CENT),
     o_currency = ''USD'', o_paymentStatus = ''PAID'', o_verifyMethod = Some ''AUTOMATED'', o_customerId = ''u1'',
     o_organizationId = ''g1'', o_websiteId = Some ''s1'', o_listingId = Some ''l1'', o_listingServiceId = Some ''ls1'',
     o_fulfillmentChannel = Some ''PUBLISHER'', o_activeDeliveryVersionId = Some ''v1'',
     o_refundResponsibility = None, o_version = 4, o_submittedAt = None, o_warrantyDays = Some 30,
     o_deliveredAt = Some 80000000, o_warrantyEndsAt = None\<rparr>"

definition example_wallet :: wallet_row where
  "example_wallet = \<lparr>w_id = ''w1'', w_availableBalance = 500 * CENT, w_reservedBalance = 0, w_currency = ''USD'',
     w_organizationId = Some ''g1'', w_userId = None, w_version = 7\<rparr>"

definition example_settlement :: settlement_row where
  "example_settlement = \<lparr>s_id = ''t1'', s_orderId = ''o1'', s_publisherId = ''p1'', s_currency = ''USD'',
     s_publisherAmount = 200 * CENT, s_status = ''CUSTOMER_APPROVED'', s_reviewEndsAt = Some 90000000,
     s_releasePolicy = ''AUTO'', s_settledAt = None, s_version = 2, s_updatedAt = 90000000, s_serviceType = Some ''GUEST_POST'',
     s_grossAmount = 300 * CENT, s_platformFee = 100 * CENT, s_platformFeeBps = Some 3333,
     s_feePolicyVersion = Some ''platform-settings:default:v1'', s_listingServiceId = Some ''ls1'',
     s_ownerType = Some ''PUBLISHER'', s_fulfillmentChannel = Some ''PUBLISHER'', s_unitPrice = Some (300 * CENT),
     s_createdAt = 80000000\<rparr>"

definition example_delivery :: delivery_row where
  "example_delivery = \<lparr>v_id = ''v1'', v_orderId = ''o1'', v_normalizedUrl = ''https://a.example/post'',
     v_verificationStatus = ''VERIFIED'', v_interventionStatus = ''NONE'', v_supersededByVersion = None,
     v_submittedByUserId = ''u9''\<rparr>"

definition example_balance :: balance_row where
  "example_balance = \<lparr>b_publisherId = ''p1'', b_currency = ''USD'', b_withdrawableBalance = 200 * CENT,
     b_debtBalance = 100 * CENT, b_lifetimeEarnings = 500 * CENT, b_lifetimePaid = 0, b_version = 3,
     b_allocationCarryForward = 0, b_allocationCarryForwardUsed = 0, b_allocationCutoverAt = None\<rparr>"

definition example_db :: db where
  "example_db = empty_db\<lparr>orders := [example_order], wallets := [example_wallet],
     settlements := [example_settlement], deliveries := [example_delivery],
     delivery_evidence := [\<lparr>ev_id = ''e1'', ev_deliveryVersionId = ''v1'', ev_checkedAt = 96400000,
       ev_createdAt = 96400000, ev_httpStatus = 200, ev_linkFound = True, ev_targetUrlMatched = True,
       ev_anchorFound = True\<rparr>],
     publishers := [\<lparr>p_id = ''p1'', p_tier = ''TRUSTED'', p_organizationId = ''g2''\<rparr>], balances := [example_balance]\<rparr>"

lemmas example_defs = example_env_def example_order_def example_wallet_def example_settlement_def
  example_delivery_def example_balance_def example_db_def empty_db_def

section \<open>Properties\<close>

text \<open>Serializable transactions commit at most once and stop for a reason.  Whatever other
  transactions do between the attempts and whichever attempts the database aborts, a result was
  committed by one attempt, on the database as the others left it; a failure left nothing of any
  attempt behind, is one an attempt raised, and when it is a retryable one all three attempts
  were used.\<close>

theorem transaction_commits_once:
  assumes "runSerializableTransactionWithRetry w op s = (r, s')"
  shows "\<exists>k. 1 \<le> k \<and> k \<le> MAX_SERIALIZABLE_TRANSACTION_ATTEMPTS \<and> (case r of
           Inr x \<Rightarrow> snd (w k) = None \<and> op (interfere w 1 k s) = Inr (x, s')
         | Inl e \<Rightarrow> s' = interfere w 1 k s \<and> (snd (w k) = Some e \<or> op s' = Inl e)
             \<and> (isRetryablePrismaTransactionError e \<longrightarrow> k = MAX_SERIALIZABLE_TRANSACTION_ATTEMPTS))"
proof -
  have m: "MAX_SERIALIZABLE_TRANSACTION_ATTEMPTS = Suc 2"
    by (simp add: MAX_SERIALIZABLE_TRANSACTION_ATTEMPTS_def)
  have n: "1 + k - 1 = k" for k :: nat by simp
  show ?thesis
    using retry_loop_trace[of isRetryablePrismaTransactionError w op 2 1 s r s'] assms
    unfolding runSerializableTransactionWithRetry_def m n by blast
qed

definition rough_weather :: weather where
  "rough_weather n = (\<lambda>s. s\<lparr>id_supply := id_supply s + 10\<rparr>,
     if n = 1 then Some (prisma_code ''P2034'') else None)"

theorem transaction_commits_once_witness:
  "\<exists>k. 1 \<le> k \<and> k \<le> MAX_SERIALIZABLE_TRANSACTION_ATTEMPTS \<and> snd (rough_weather k) = None
     \<and> fresh_id example_env (interfere rough_weather 1 k empty_db) = Inr (''c20'', empty_db\<lparr>id_supply := 21\<rparr>)"
proof -
  have run: "runSerializableTransactionWithRetry rough_weather (fresh_id example_env) empty_db
    = (Inr ''c20'', empty_db\<lparr>id_supply := 21\<rparr>)" by code_simp
  show ?thesis using transaction_commits_once[OF run] by simp
qed

text \<open>Stripe evidence is applied only in its own mode: it is accepted exactly when its mode bit
  is known and a key of that very mode is configured, and in live mode only with the live-money
  gate switched on.\<close>

theorem stripe_evidence_accepted_iff:
  "assertStripeFinancialObjectMode livemode secretKey gate = Inr live \<longleftrightarrow>
     livemode = Some live
     \<and> (if live then classifyStripeKeyMode secretKey = KeyLive
              \<and> map_option (\<lambda>t. to_lower (trim t)) gate = Some ''true''
        else classifyStripeKeyMode secretKey = KeyTest)"
  by (cases "classifyStripeKeyMode secretKey")
    (auto simp: assertStripeFinancialObjectMode_def Let_def)

text \<open>The delay before another attempt is at least half the ceiling, which doubles with every
  attempt up to the cap, and never above it, whatever the random sample.\<close>

theorem retry_delay_bounds:
  fixes baseMs capMs attempt :: int
  assumes "0 \<le> baseMs" "0 \<le> capMs"
  defines "roof \<equiv> min capMs (baseMs * 2 ^ nat (max 1 attempt - 1))"
  shows "(roof + 1) div 2 \<le> prismaTransactionRetryDelayMs attempt random baseMs capMs
    \<and> prismaTransactionRetryDelayMs attempt random baseMs capMs \<le> roof \<and> roof \<le> capMs"
proof -
  define sample where "sample = min (max random 0) (999999999999 / 1000000000000 :: rat)"
  define d where "d = roof - (roof + 1) div 2"
  have s: "0 \<le> sample" "sample < 1" by (simp_all add: sample_def)
  have c: "0 \<le> roof" using assms(1,2) by (simp add: roof_def)
  then have d: "0 \<le> d" by (simp add: d_def)
  have "sample * of_int (d + 1) < of_int (d + 1)" using s d by (simp add: mult_less_cancel_right1)
  then have "\<lfloor>sample * of_int (d + 1)\<rfloor> < d + 1" by (simp only: floor_less_iff)
  moreover have "0 \<le> \<lfloor>sample * of_int (d + 1)\<rfloor>" using s d by simp
  moreover have "prismaTransactionRetryDelayMs attempt random baseMs capMs
      = (roof + 1) div 2 + \<lfloor>sample * of_int (d + 1)\<rfloor>"
    by (simp add: prismaTransactionRetryDelayMs_def Let_def roof_def sample_def d_def)
  moreover have "roof \<le> capMs" by (simp add: roof_def)
  ultimately show ?thesis unfolding d_def by linarith
qed

theorem retry_delay_bounds_witness: "40 \<le> prismaTransactionRetryDelayMs 3 (1/2) 20 500
    \<and> prismaTransactionRetryDelayMs 3 (1/2) 20 500 \<le> 80"
  using retry_delay_bounds[of 20 500 3 "1/2"] by simp

end
