(* ===== verification/Settlement_Gating.thy ===== *)
theory Settlement_Gating
  imports Store Order_Policy Publisher_Policy
begin

text \<open>
  When money of an order may move on to the publisher: the eligibility snapshot, its pure
  evaluation and the locked evaluation inside a transaction (\<open>settlement-gating.ts\<close>), with the
  refresh of delivery-URL reuse evidence it performs (\<open>delivery-url-claim-core.ts\<close>).  Row and
  advisory locks order transactions and do not change the database, so they leave no trace in
  the model; the trigger that projects a fraud hold from a new flag does.
\<close>

section \<open>Canonical JSON\<close>

definition hex_digit :: "nat \<Rightarrow> char" where
  "hex_digit n = (if n < 10 then digit_char n else char_of (87 + n))"

definition json_escape :: "char \<Rightarrow> string" where
  "json_escape c =
     (let n = char_code c; slash = CHR 0x5C
      in if n = 34 \<or> n = 92 then [slash, c]
         else if n = 8 then [slash, CHR ''b''] else if n = 9 then [slash, CHR ''t'']
         else if n = 10 then [slash, CHR ''n''] else if n = 12 then [slash, CHR ''f'']
         else if n = 13 then [slash, CHR ''r'']
         else if n < 32 then [slash, CHR ''u'', CHR ''0'', CHR ''0'', hex_digit (n div 16), hex_digit (n mod 16)]
         else [c])"

definition json_quote :: "string \<Rightarrow> string" where
  "json_quote s = CHR 0x22 # concat (map json_escape s) @ [CHR 0x22]"

fun join :: "string \<Rightarrow> string list \<Rightarrow> string" where
  "join sep [] = []"
| "join sep [x] = x"
| "join sep (x # y # ys) = x @ sep @ join sep (y # ys)"

fun codes_compare :: "nat list \<Rightarrow> nat list \<Rightarrow> int" where
  "codes_compare [] [] = 0"
| "codes_compare [] (y # ys) = -1"
| "codes_compare (x # xs) [] = 1"
| "codes_compare (x # xs) (y # ys) = (if x < y then -1 else if y < x then 1 else codes_compare xs ys)"

text \<open>The order of \<open>Array.prototype.sort\<close> and of the database on texts.\<close>

definition text_compare :: "string \<Rightarrow> string \<Rightarrow> int" where
  "text_compare s t = codes_compare (map char_code s) (map char_code t)"

text \<open>
  \<open>localeCompare\<close> on ASCII letters and digits: by letter regardless of case, then lower before
  upper case.
\<close>

definition locale_compare :: "string \<Rightarrow> string \<Rightarrow> int" where
  "locale_compare s t =
     (let c = codes_compare (map char_code (to_lower s)) (map char_code (to_lower t))
      in if c \<noteq> 0 then c
         else codes_compare (map (\<lambda>x. if lower_char x \<noteq> x then 1 else 0) s)
                            (map (\<lambda>x. if lower_char x \<noteq> x then 1 else 0) t))"

primrec canonicalJson :: "json \<Rightarrow> string" where
  "canonicalJson NullJ = ''null''"
| "canonicalJson (BoolJ b) = (if b then ''true'' else ''false'')"
| "canonicalJson (NumJ z) = int_text z"
| "canonicalJson (DecJ d) = decimalString d"
| "canonicalJson (TextJ t) = json_quote t"
| "canonicalJson (ListJ js) = ''['' @ join '','' (map canonicalJson js) @ '']''"
| "canonicalJson (ObjJ ms) =
     CHR 0x7B # join '','' (map (\<lambda>(k, t). json_quote k @ '':'' @ t)
       (sort_by (\<lambda>l r. locale_compare (fst l) (fst r)) (map (map_prod id canonicalJson) ms))) @ [CHR 0x7D]"

section \<open>Delivery URL claims\<close>

definition CLAIM_FINGERPRINT_SAMPLE_LIMIT :: nat where
  "CLAIM_FINGERPRINT_SAMPLE_LIMIT = 128"

record url_candidate =
  uc_otherOrderId :: string
  uc_otherVersionId :: string
  uc_reuseCount :: int
  uc_claimFingerprint :: string

definition candidate_details :: "url_candidate \<Rightarrow> json" where
  "candidate_details c = ObjJ
     [(''otherOrderId'', TextJ (uc_otherOrderId c)), (''otherVersionId'', TextJ (uc_otherVersionId c)),
      (''reuseCount'', NumJ (uc_reuseCount c)), (''claimFingerprintVersion'', NumJ 1),
      (''claimFingerprint'', TextJ (uc_claimFingerprint c))]"

record url_freshness =
  uf_requiresReview :: bool
  uf_createdFlagId :: "string option"
  uf_activeFlagId :: "string option"
  uf_candidate :: "url_candidate option"
  uf_communicationEventId :: "string option"
  uf_communicationDedupKey :: "string option"

record refresh_input =
  ri_orderId :: string
  ri_deliveryVersionId :: string
  ri_normalizedUrl :: string
  ri_organizationId :: "string option"
  ri_actorUserId :: "string option"
  ri_source :: string

definition error :: "string \<Rightarrow> failure" where
  "error message = Failure ''Error'' message"

definition lockDeliveryUrlClaim :: "string \<Rightarrow> unit tx" where
  "lockDeliveryUrlClaim normalizedUrl =
     require (normalizedUrl \<noteq> []) (error ''Delivery URL claim lock requires a normalized URL'')"

definition other_claims :: "string \<Rightarrow> string \<Rightarrow> db \<Rightarrow> delivery_row list" where
  "other_claims orderId normalizedUrl s =
     filter (\<lambda>v. v_normalizedUrl v = normalizedUrl \<and> v_orderId v \<noteq> orderId) (deliveries s)"

definition claim_json :: "delivery_row \<Rightarrow> json" where
  "claim_json v = ObjJ [(''orderId'', TextJ (v_orderId v)), (''deliveryVersionId'', TextJ (v_id v))]"

definition buildDeliveryUrlReuseCandidate :: "env \<Rightarrow> string \<Rightarrow> string \<Rightarrow> url_candidate option tx" where
  "buildDeliveryUrlReuseCandidate env orderId normalizedUrl =
     andThen (query (other_claims orderId normalizedUrl)) (\<lambda>claimed.
       let sample = take CLAIM_FINGERPRINT_SAMPLE_LIMIT (sort_by (\<lambda>a b. text_compare (v_id a) (v_id b)) claimed);
           reuseCount = int (length claimed)
       in if reuseCount = 0 then ret None
          else andThen (require (\<not> (sample = [] \<or> int (length sample) > reuseCount))
                 (error ''Delivery URL reuse evidence is inconsistent'')) (\<lambda>_.
               andThen (require (v_orderId (hd sample) \<noteq> [] \<and> v_id (hd sample) \<noteq> [])
                 (error ''Delivery URL reuse evidence is incomplete'')) (\<lambda>_.
               ret (Some \<lparr>uc_otherOrderId = v_orderId (hd sample), uc_otherVersionId = v_id (hd sample),
                      uc_reuseCount = reuseCount,
                      uc_claimFingerprint = env_sha256 env (canonicalJson (ObjJ
                        [(''version'', NumJ 1), (''reuseCount'', NumJ reuseCount),
                         (''sampledClaims'', ListJ (map claim_json sample)),
                         (''sampleTruncated'', BoolJ (reuseCount > int (length sample)))]))\<rparr>))))"

definition deliveryUrlReuseEvidenceMatches :: "json \<Rightarrow> url_candidate \<Rightarrow> bool" where
  "deliveryUrlReuseEvidenceMatches persisted candidate =
     (case persisted of
        ObjJ details \<Rightarrow>
          if map_of details ''claimFingerprint'' \<noteq> None
          then canonicalJson persisted = canonicalJson (candidate_details candidate)
          else join '','' (sort_by text_compare (map fst details)) = ''otherOrderId,otherVersionId,reuseCount''
            \<and> map_of details ''otherOrderId'' = Some (TextJ (uc_otherOrderId candidate))
            \<and> map_of details ''otherVersionId'' = Some (TextJ (uc_otherVersionId candidate))
            \<and> map_of details ''reuseCount'' = Some (NumJ (uc_reuseCount candidate))
      | _ \<Rightarrow> False)"

definition CLASSIFIED_FRAUD_DISPOSITIONS :: "string list" where
  "CLASSIFIED_FRAUD_DISPOSITIONS = [''FALSE_POSITIVE'', ''AUTHORIZED_REUSE'', ''RISK_ACCEPTED'']"

text \<open>A reference is a text with something in it, at most 200 characters.\<close>

definition valid_reference :: "json \<Rightarrow> bool" where
  "valid_reference reference =
     (case reference of TextJ t \<Rightarrow> trim t \<noteq> [] \<and> length t \<le> 200 | _ \<Rightarrow> False)"

definition classifiedUrlReuseDisposition :: "fraud_resolution option \<Rightarrow> string \<Rightarrow> string option" where
  "classifiedUrlReuseDisposition resolution deliveryVersionId =
     (case resolution of None \<Rightarrow> None
      | Some r \<Rightarrow>
        (if fr_kind r \<noteq> ''STAFF_CLEARED'' then None
         else case fr_evidence r of
           ObjJ evidence \<Rightarrow>
             (case map_of evidence ''disposition'' of
                Some (TextJ disposition) \<Rightarrow>
                  let reference = (case map_of evidence ''evidenceReference'' of None \<Rightarrow> NullJ | Some j \<Rightarrow> j)
                  in if disposition \<notin> set CLASSIFIED_FRAUD_DISPOSITIONS
                        \<or> \<not> truthy (fr_resolvedByUserId r)
                        \<or> map_of evidence ''fraudType'' \<noteq> Some (TextJ ''URL_REUSED'')
                        \<or> map_of evidence ''adjudicatedDeliveryVersionId'' \<noteq> Some (TextJ deliveryVersionId)
                        \<or> map_of evidence ''roleAtTime'' \<noteq> Some (fr_resolvedByRole r)
                     then None
                     else if reference \<noteq> NullJ \<and> \<not> valid_reference reference then None
                     else if disposition = ''AUTHORIZED_REUSE'' \<or> disposition = ''RISK_ACCEPTED'' then
                       (if fr_resolvedByRole r \<noteq> TextJ ''FINANCE'' \<and> fr_resolvedByRole r \<noteq> TextJ ''SUPER_ADMIN''
                           \<or> \<not> valid_reference reference
                        then None else Some disposition)
                     else if fr_resolvedByRole r \<noteq> TextJ ''OPERATIONS'' \<and> fr_resolvedByRole r \<noteq> TextJ ''FINANCE''
                             \<and> fr_resolvedByRole r \<noteq> TextJ ''SUPER_ADMIN''
                     then None else Some disposition
              | _ \<Rightarrow> None)
         | _ \<Rightarrow> None))"

text \<open>
  Creating a flag: the database projects its hold, one per delivery version and type.
\<close>

definition create_fraud_flag :: "env \<Rightarrow> string \<Rightarrow> string \<Rightarrow> string \<Rightarrow> json \<Rightarrow> string tx" where
  "create_fraud_flag env orderId deliveryVersionId flag_type details =
     andThen (query fraud_holds) (\<lambda>holds.
     andThen (require (\<not> list_ex (\<lambda>h. h_deliveryVersionId h = deliveryVersionId \<and> h_type h = flag_type) holds)
       unique_violation) (\<lambda>_.
     andThen (fresh_id env) (\<lambda>i.
     andThen (modify (\<lambda>s. s\<lparr>
       fraud_flags := fraud_flags s @ [\<lparr>x_id = i, x_orderId = orderId, x_deliveryVersionId = deliveryVersionId,
         x_type = flag_type, x_details = details, x_resolution = None\<rparr>],
       fraud_holds := fraud_holds s @ [\<lparr>h_fraudFlagId = i, h_orderId = orderId,
         h_deliveryVersionId = deliveryVersionId, h_type = flag_type\<rparr>]\<rparr>)) (\<lambda>_.
     ret i))))"

definition recordCommunicationOutbox :: "env \<Rightarrow> outbox_request \<Rightarrow> string tx" where
  "recordCommunicationOutbox env req s =
     (case env_outbox env req (outbox s) of Inl e \<Rightarrow> Inl e | Inr (i, t) \<Rightarrow> Inr (i, s\<lparr>outbox := t\<rparr>))"

definition alerted_staff :: "db \<Rightarrow> string list" where
  "alerted_staff s = map st_userId
     (filter (\<lambda>m. st_role m \<in> {''SUPER_ADMIN'', ''OPERATIONS'', ''FINANCE''} \<and> \<not> st_banned m) (staff s))"

text \<open>The part of the refresh that records changed evidence: flag, audit row and staff alert.\<close>

definition flagUrlReuse :: "env \<Rightarrow> refresh_input \<Rightarrow> url_candidate \<Rightarrow> nat \<Rightarrow> url_freshness tx" where
  "flagUrlReuse env i candidate history_length =
     andThen (create_fraud_flag env (ri_orderId i) (ri_deliveryVersionId i) ''URL_REUSED''
       (candidate_details candidate)) (\<lambda>created.
     andThen (create_audit \<lparr>l_action = ''ORDER_DELIVERY_URL_REUSE_FRESHNESS_FLAGGED'',
       l_entityType = ''OrderDeliveryVersion'', l_entityId = ri_deliveryVersionId i,
       l_metadata = [(''orderId'', TextJ (ri_orderId i)), (''deliveryVersionId'', TextJ (ri_deliveryVersionId i)),
         (''fraudFlagId'', TextJ created), (''fraudType'', TextJ ''URL_REUSED''), (''source'', TextJ (ri_source i)),
         (''details'', candidate_details candidate)],
       l_userId = ri_actorUserId i, l_organizationId = ri_organizationId i, l_requestId = None\<rparr>) (\<lambda>_.
     andThen (query alerted_staff) (\<lambda>recipients.
     let dedupKey = ''order:'' @ ri_orderId i @ '':delivery:'' @ ri_deliveryVersionId i @ '':url-reuse:''
           @ nat_text history_length @ '':'' @ uc_claimFingerprint candidate
     in andThen (recordCommunicationOutbox env \<lparr>ob_type = ''STAFF_FRAUD_ALERT'', ob_aggregateType = ''Order'',
          ob_aggregateId = ri_orderId i, ob_organizationId = None, ob_title = ''Delivery fraud review required'',
          ob_message = ''Order '' @ ri_orderId i @ '' has new URL-reuse evidence and requires review.'',
          ob_actionPath = ''/dashboard/verification/delivery'',
          ob_payload = ObjJ [(''deliveryVersionId'', TextJ (ri_deliveryVersionId i)),
            (''fraudFlags'', ListJ [ObjJ [(''id'', TextJ created), (''type'', TextJ ''URL_REUSED'')]])],
          ob_dedupKey = dedupKey, ob_recipientUserIds = recipients, ob_actorUserId = None\<rparr>) (\<lambda>eventId.
        ret \<lparr>uf_requiresReview = True, uf_createdFlagId = Some created, uf_activeFlagId = Some created,
             uf_candidate = Some candidate, uf_communicationEventId = Some eventId,
             uf_communicationDedupKey = Some dedupKey\<rparr>))))"

definition no_flag :: "bool \<Rightarrow> string option \<Rightarrow> url_candidate option \<Rightarrow> url_freshness" where
  "no_flag review active candidate = \<lparr>uf_requiresReview = review, uf_createdFlagId = None,
     uf_activeFlagId = active, uf_candidate = candidate, uf_communicationEventId = None,
     uf_communicationDedupKey = None\<rparr>"

definition refreshDeliveryUrlReuseEvidenceUnderLock :: "env \<Rightarrow> refresh_input \<Rightarrow> url_freshness tx" where
  "refreshDeliveryUrlReuseEvidenceUnderLock env i =
     andThen (lockDeliveryUrlClaim (ri_normalizedUrl i)) (\<lambda>_.
     andThen (buildDeliveryUrlReuseCandidate env (ri_orderId i) (ri_normalizedUrl i)) (\<lambda>candidate.
     andThen (query (\<lambda>s. filter (\<lambda>x. x_deliveryVersionId x = ri_deliveryVersionId i \<and> x_type x = ''URL_REUSED'')
       (fraud_flags s))) (\<lambda>history.
     case find (\<lambda>x. x_resolution x = None) history of
       Some unresolved \<Rightarrow> ret (no_flag True (Some (x_id unresolved)) candidate)
     | None \<Rightarrow>
         (case candidate of
            None \<Rightarrow> ret (no_flag False None None)
          | Some c \<Rightarrow>
              if list_ex (\<lambda>x. deliveryUrlReuseEvidenceMatches (x_details x) c
                    \<and> classifiedUrlReuseDisposition (x_resolution x) (ri_deliveryVersionId i) \<noteq> None) history
              then ret (no_flag False None (Some c))
              else flagUrlReuse env i c (length history)))))"

section \<open>Settlement eligibility\<close>

datatype blocker_code =
    ORDER_STATUS | ORDER_CURRENCY | ORDER_PAYMENT_STATUS | ACTIVE_DELIVERY_MISSING
  | ACTIVE_DELIVERY_ORDER_MISMATCH | ACTIVE_DELIVERY_SUPERSEDED | ACTIVE_DELIVERY_REJECTED
  | ACTIVE_DELIVERY_UNVERIFIED | ACTIVE_DISPUTE | ACTIVE_REVISION | ACTIVE_CANCELLATION
  | UNRESOLVED_FRAUD

record blocker =
  bl_code :: blocker_code
  bl_message :: string

record eligibility =
  el_eligible :: bool
  el_reasons :: "string list"
  el_blockers :: "blocker list"

record eligibility_snapshot =
  sn_orderStatus :: string
  sn_orderVersion :: int
  sn_orderCurrency :: string
  sn_orderPaymentStatus :: string
  sn_activeDeliveryVersionId :: "string option"
  sn_activeDeliveryMatchesOrder :: bool
  sn_activeDeliveryIsCurrent :: bool
  sn_activeDeliveryVerificationStatus :: "string option"
  sn_activeDeliveryInterventionStatus :: "string option"
  sn_hasActiveDispute :: bool
  sn_hasActiveRevision :: bool
  sn_hasActiveCancellationRequest :: bool
  sn_fraudFlagCount :: int

definition TERMINAL_REVISION_STATUSES :: "string list" where
  "TERMINAL_REVISION_STATUSES = [''APPROVED'', ''REJECTED'']"

definition SETTLEMENT_SAFE_DISPUTE_STATUSES :: "string list" where
  "SETTLEMENT_SAFE_DISPUTE_STATUSES = [''RESOLVED_REJECTED'', ''RESOLVED_RESTORED'']"

definition block_if :: "bool \<Rightarrow> blocker_code \<Rightarrow> string \<Rightarrow> blocker list" where
  "block_if b code message = (if b then [\<lparr>bl_code = code, bl_message = message\<rparr>] else [])"

definition null_text :: "string option \<Rightarrow> string" where
  "null_text s = (case s of None \<Rightarrow> ''null'' | Some t \<Rightarrow> t)"

definition deliveryBlockers :: "eligibility_snapshot \<Rightarrow> blocker list" where
  "deliveryBlockers sn =
     (if \<not> truthy (sn_activeDeliveryVersionId sn)
      then block_if True ACTIVE_DELIVERY_MISSING ''No active delivery version''
      else
        let explicitlyRejected = (sn_activeDeliveryInterventionStatus sn = Some ''REJECTED'');
            verified = (sn_activeDeliveryVerificationStatus sn = Some ''VERIFIED'');
            manuallyApproved = (sn_activeDeliveryInterventionStatus sn = Some ''APPROVED''
              \<or> sn_activeDeliveryInterventionStatus sn = Some ''OVERRIDDEN'')
        in block_if (\<not> sn_activeDeliveryMatchesOrder sn) ACTIVE_DELIVERY_ORDER_MISMATCH
             ''Active delivery version does not belong to the order''
         @ block_if (\<not> sn_activeDeliveryIsCurrent sn) ACTIVE_DELIVERY_SUPERSEDED
             ''Active delivery version is superseded''
         @ (if explicitlyRejected
            then block_if True ACTIVE_DELIVERY_REJECTED ''Active delivery was explicitly rejected''
            else block_if (\<not> verified \<and> \<not> manuallyApproved) ACTIVE_DELIVERY_UNVERIFIED
              (''Active delivery is '' @ null_text (sn_activeDeliveryVerificationStatus sn)
               @ '' and not manually approved'')))"

definition evaluateSettlementEligibility :: "eligibility_snapshot \<Rightarrow> eligibility" where
  "evaluateSettlementEligibility sn =
     (let blockers =
        block_if (sn_orderStatus sn \<noteq> ''DELIVERED'') ORDER_STATUS
          (''Order status is '' @ sn_orderStatus sn @ '', expected DELIVERED'')
        @ block_if (sn_orderCurrency sn \<noteq> ''USD'') ORDER_CURRENCY
          (''Order currency is '' @ sn_orderCurrency sn @ '', expected USD'')
        @ block_if (sn_orderPaymentStatus sn \<noteq> ''PAID'') ORDER_PAYMENT_STATUS
          (''Order payment status is '' @ sn_orderPaymentStatus sn @ '', expected PAID'')
        @ deliveryBlockers sn
        @ block_if (sn_hasActiveDispute sn) ACTIVE_DISPUTE ''Order has an active dispute''
        @ block_if (sn_hasActiveRevision sn) ACTIVE_REVISION ''Order has an active revision in progress''
        @ block_if (sn_hasActiveCancellationRequest sn) ACTIVE_CANCELLATION
          ''Order has an active cancellation request''
        @ block_if (sn_fraudFlagCount sn > 0) UNRESOLVED_FRAUD
          (''Order has '' @ int_text (sn_fraudFlagCount sn) @ '' active fraud hold(s)'')
      in \<lparr>el_eligible = (blockers = []), el_reasons = map bl_message blockers, el_blockers = blockers\<rparr>)"

definition not_found_snapshot :: eligibility_snapshot where
  "not_found_snapshot = \<lparr>sn_orderStatus = ''NOT_FOUND'', sn_orderVersion = -1, sn_orderCurrency = ''NOT_FOUND'',
     sn_orderPaymentStatus = ''NOT_FOUND'', sn_activeDeliveryVersionId = None,
     sn_activeDeliveryMatchesOrder = False, sn_activeDeliveryIsCurrent = False,
     sn_activeDeliveryVerificationStatus = None, sn_activeDeliveryInterventionStatus = None,
     sn_hasActiveDispute = False, sn_hasActiveRevision = False, sn_hasActiveCancellationRequest = False,
     sn_fraudFlagCount = 0\<rparr>"

definition activeCancellation :: "cancellation_row \<Rightarrow> bool" where
  "activeCancellation c \<longleftrightarrow>
     c_status c \<notin> {''REJECTED'', ''WITHDRAWN'', ''APPROVED''}
     \<or> c_status c = ''APPROVED'' \<and> c_resolution c = None
     \<or> c_status c = ''APPROVED'' \<and> c_resolution c \<noteq> None \<and> c_resolution c \<noteq> Some ''CONTINUE_ORDER''"

definition active_delivery_row :: "db \<Rightarrow> string option \<Rightarrow> delivery_row option" where
  "active_delivery_row s deliveryId =
     (if truthy deliveryId then find (\<lambda>v. Some (v_id v) = deliveryId) (deliveries s) else None)"

definition buildSnapshotForOrder :: "string \<Rightarrow> order_row option \<Rightarrow> db \<Rightarrow> eligibility_snapshot" where
  "buildSnapshotForOrder orderId ord s =
     (case ord of None \<Rightarrow> not_found_snapshot
      | Some r \<Rightarrow>
        let active = active_delivery_row s (o_activeDeliveryVersionId r)
        in \<lparr>sn_orderStatus = o_status r, sn_orderVersion = o_version r, sn_orderCurrency = o_currency r,
            sn_orderPaymentStatus = o_paymentStatus r,
            sn_activeDeliveryVersionId = o_activeDeliveryVersionId r,
            sn_activeDeliveryMatchesOrder = (case active of None \<Rightarrow> False | Some v \<Rightarrow> v_orderId v = orderId),
            sn_activeDeliveryIsCurrent = (case active of None \<Rightarrow> False | Some v \<Rightarrow> v_supersededByVersion v = None),
            sn_activeDeliveryVerificationStatus = map_option v_verificationStatus active,
            sn_activeDeliveryInterventionStatus = map_option v_interventionStatus active,
            sn_hasActiveDispute = list_ex (\<lambda>d. d_orderId d = orderId
              \<and> d_status d \<notin> set SETTLEMENT_SAFE_DISPUTE_STATUSES) (order_disputes s),
            sn_hasActiveRevision = list_ex (\<lambda>r. r_orderId r = orderId
              \<and> r_status r \<notin> set TERMINAL_REVISION_STATUSES) (revisions s),
            sn_hasActiveCancellationRequest = list_ex (\<lambda>c. c_orderId c = orderId \<and> activeCancellation c)
              (cancellations s),
            sn_fraudFlagCount = int (count_where (\<lambda>h. h_orderId h = orderId) (fraud_holds s))\<rparr>)"

definition find_order :: "string \<Rightarrow> db \<Rightarrow> order_row option" where
  "find_order orderId s = find (\<lambda>r. o_id r = orderId) (orders s)"

definition buildSettlementEligibilitySnapshot :: "string \<Rightarrow> eligibility_snapshot tx" where
  "buildSettlementEligibilitySnapshot orderId =
     andThen (query (find_order orderId)) (\<lambda>ord. query (buildSnapshotForOrder orderId ord))"

text \<open>The lock on the order row has no effect of its own.\<close>

definition lockOrderAggregate :: "string \<Rightarrow> unit tx" where
  "lockOrderAggregate orderId = ret ()"

definition refreshForOrder :: "env \<Rightarrow> string \<Rightarrow> order_row option \<Rightarrow> url_freshness option tx" where
  "refreshForOrder env orderId ord =
     (case ord of None \<Rightarrow> ret None
      | Some r \<Rightarrow>
        andThen (query (\<lambda>s. active_delivery_row s (o_activeDeliveryVersionId r))) (\<lambda>active.
        case active of None \<Rightarrow> ret None
        | Some v \<Rightarrow>
          if v_orderId v = orderId \<and> v_supersededByVersion v = None then
            andThen (refreshDeliveryUrlReuseEvidenceUnderLock env
              \<lparr>ri_orderId = orderId, ri_deliveryVersionId = v_id v, ri_normalizedUrl = v_normalizedUrl v,
               ri_organizationId = Some (o_organizationId r), ri_actorUserId = None,
               ri_source = ''SETTLEMENT_ELIGIBILITY''\<rparr>) (\<lambda>f. ret (Some f))
          else ret None))"

definition buildLockedSettlementEligibilityState ::
    "env \<Rightarrow> string \<Rightarrow> (eligibility_snapshot \<times> url_freshness option) tx" where
  "buildLockedSettlementEligibilityState env orderId =
     andThen (lockOrderAggregate orderId) (\<lambda>_.
     andThen (query (find_order orderId)) (\<lambda>ord.
     andThen (refreshForOrder env orderId ord) (\<lambda>urlReuseFreshness.
     andThen (query (buildSnapshotForOrder orderId ord)) (\<lambda>snapshot.
     ret (snapshot, urlReuseFreshness)))))"

definition buildLockedSettlementEligibilitySnapshot :: "env \<Rightarrow> string \<Rightarrow> eligibility_snapshot tx" where
  "buildLockedSettlementEligibilitySnapshot env orderId =
     andThen (buildLockedSettlementEligibilityState env orderId) (\<lambda>state. ret (fst state))"

record locked_eligibility =
  le_eligibility :: eligibility
  le_snapshot :: eligibility_snapshot
  le_urlReuseEvidenceCreated :: bool
  le_urlReuseCommunicationEventId :: "string option"
  le_urlReuseCommunicationDedupKey :: "string option"

definition evaluateLockedSettlementEligibility :: "env \<Rightarrow> string \<Rightarrow> locked_eligibility tx" where
  "evaluateLockedSettlementEligibility env orderId =
     andThen (buildLockedSettlementEligibilityState env orderId) (\<lambda>(snapshot, freshness).
     ret \<lparr>le_eligibility = evaluateSettlementEligibility snapshot, le_snapshot = snapshot,
          le_urlReuseEvidenceCreated = (case freshness of None \<Rightarrow> False | Some f \<Rightarrow> uf_createdFlagId f \<noteq> None),
          le_urlReuseCommunicationEventId =
            (case freshness of None \<Rightarrow> None | Some f \<Rightarrow> uf_communicationEventId f),
          le_urlReuseCommunicationDedupKey =
            (case freshness of None \<Rightarrow> None | Some f \<Rightarrow> uf_communicationDedupKey f)\<rparr>)"

definition checkSeparationOfDuties :: "string \<Rightarrow> string option \<Rightarrow> string \<Rightarrow> string option" where
  "checkSeparationOfDuties ownershipType fulfilledByUserId releasedByUserId =
     (if ownershipType \<noteq> ''PLATFORM'' then None
      else if truthy fulfilledByUserId \<and> fulfilledByUserId = Some releasedByUserId then
        Some ''Separation of duties: the user who fulfilled this platform order cannot release its settlement''
      else None)"

section \<open>Facts about the gate\<close>

lemma block_if_Nil [simp]: "block_if b c m = [] \<longleftrightarrow> \<not> b"
  by (simp add: block_if_def)

lemma block_if_code: "bl_code ` set (block_if b c m) = (if b then {c} else {})"
  by (simp add: block_if_def)

text \<open>The conditions of the gate, over the rows of the database.\<close>

definition delivery_accepted :: "delivery_row \<Rightarrow> bool" where
  "delivery_accepted v \<longleftrightarrow> v_interventionStatus v \<noteq> ''REJECTED''
     \<and> (v_verificationStatus v = ''VERIFIED'' \<or> v_interventionStatus v \<in> {''APPROVED'', ''OVERRIDDEN''})"

definition settleable :: "db \<Rightarrow> string \<Rightarrow> order_row \<Rightarrow> delivery_row \<Rightarrow> bool" where
  "settleable s orderId r v \<longleftrightarrow>
     o_status r = ''DELIVERED'' \<and> o_currency r = ''USD'' \<and> o_paymentStatus r = ''PAID''
     \<and> o_activeDeliveryVersionId r = Some (v_id v) \<and> v_orderId v = orderId
     \<and> v_supersededByVersion v = None \<and> delivery_accepted v
     \<and> (\<forall>d \<in> set (order_disputes s). d_orderId d = orderId \<longrightarrow> d_status d \<in> {''RESOLVED_REJECTED'', ''RESOLVED_RESTORED''})
     \<and> (\<forall>x \<in> set (revisions s). r_orderId x = orderId \<longrightarrow> r_status x \<in> {''APPROVED'', ''REJECTED''})
     \<and> (\<forall>c \<in> set (cancellations s). c_orderId c = orderId \<longrightarrow>
          c_status c \<in> {''REJECTED'', ''WITHDRAWN''}
          \<or> c_status c = ''APPROVED'' \<and> c_resolution c = Some ''CONTINUE_ORDER'')
     \<and> (\<forall>h \<in> set (fraud_holds s). h_orderId h \<noteq> orderId)"

lemma eligible_snapshot_iff:
  "el_eligible (evaluateSettlementEligibility sn) \<longleftrightarrow>
     sn_orderStatus sn = ''DELIVERED'' \<and> sn_orderCurrency sn = ''USD'' \<and> sn_orderPaymentStatus sn = ''PAID''
     \<and> truthy (sn_activeDeliveryVersionId sn) \<and> sn_activeDeliveryMatchesOrder sn \<and> sn_activeDeliveryIsCurrent sn
     \<and> sn_activeDeliveryInterventionStatus sn \<noteq> Some ''REJECTED''
     \<and> (sn_activeDeliveryVerificationStatus sn = Some ''VERIFIED''
        \<or> sn_activeDeliveryInterventionStatus sn \<in> {Some ''APPROVED'', Some ''OVERRIDDEN''})
     \<and> \<not> sn_hasActiveDispute sn \<and> \<not> sn_hasActiveRevision sn \<and> \<not> sn_hasActiveCancellationRequest sn
     \<and> sn_fraudFlagCount sn \<le> 0"
  by (auto simp: evaluateSettlementEligibility_def deliveryBlockers_def Let_def not_less)

lemma activeCancellation_iff:
  "\<not> activeCancellation c \<longleftrightarrow> c_status c \<in> {''REJECTED'', ''WITHDRAWN''}
     \<or> c_status c = ''APPROVED'' \<and> c_resolution c = Some ''CONTINUE_ORDER''"
  by (auto simp: activeCancellation_def)

lemma active_delivery_rowD: "active_delivery_row s d = Some v \<Longrightarrow> d = Some (v_id v) \<and> v \<in> set (deliveries s)"
  by (auto simp: active_delivery_row_def dest: find_key split: if_splits)

lemma active_delivery_row_truthy: "active_delivery_row s d = Some v \<Longrightarrow> truthy d"
  by (auto simp: active_delivery_row_def split: if_splits)

lemma eligible_found:
  "el_eligible (evaluateSettlementEligibility (buildSnapshotForOrder orderId ord s)) \<longleftrightarrow>
     (\<exists>r v. ord = Some r \<and> active_delivery_row s (o_activeDeliveryVersionId r) = Some v
        \<and> settleable s orderId r v)"
proof (cases ord)
  case None
  then show ?thesis by (simp add: eligible_snapshot_iff buildSnapshotForOrder_def not_found_snapshot_def)
next
  case (Some r)
  show ?thesis
  proof (cases "active_delivery_row s (o_activeDeliveryVersionId r)")
    case None
    with Some show ?thesis by (simp add: eligible_snapshot_iff buildSnapshotForOrder_def)
  next
    case (Some v)
    note rows = \<open>ord = Some r\<close> Some active_delivery_rowD[OF Some] active_delivery_row_truthy[OF Some]
    have "(\<not> list_ex (\<lambda>d. d_orderId d = orderId \<and> d_status d \<notin> set SETTLEMENT_SAFE_DISPUTE_STATUSES) (order_disputes s))
      = (\<forall>d \<in> set (order_disputes s). d_orderId d = orderId \<longrightarrow> d_status d \<in> {''RESOLVED_REJECTED'', ''RESOLVED_RESTORED''})"
      by (auto simp: list_ex_iff SETTLEMENT_SAFE_DISPUTE_STATUSES_def)
    moreover have "(\<not> list_ex (\<lambda>x. r_orderId x = orderId \<and> r_status x \<notin> set TERMINAL_REVISION_STATUSES) (revisions s))
      = (\<forall>x \<in> set (revisions s). r_orderId x = orderId \<longrightarrow> r_status x \<in> {''APPROVED'', ''REJECTED''})"
      by (auto simp: list_ex_iff TERMINAL_REVISION_STATUSES_def)
    moreover have "(\<not> list_ex (\<lambda>c. c_orderId c = orderId \<and> activeCancellation c) (cancellations s))
      = (\<forall>c \<in> set (cancellations s). c_orderId c = orderId \<longrightarrow>
          c_status c \<in> {''REJECTED'', ''WITHDRAWN''}
          \<or> c_status c = ''APPROVED'' \<and> c_resolution c = Some ''CONTINUE_ORDER'')"
      unfolding list_ex_iff activeCancellation_iff[symmetric] by blast
    moreover have "(int (count_where (\<lambda>h. h_orderId h = orderId) (fraud_holds s)) \<le> 0)
      = (\<forall>h \<in> set (fraud_holds s). h_orderId h \<noteq> orderId)"
      by (simp add: count_where_zero)
    ultimately show ?thesis
      using rows
      by (simp add: eligible_snapshot_iff buildSnapshotForOrder_def Let_def settleable_def delivery_accepted_def)
  qed
qed

section \<open>What the locked evaluation keeps\<close>

text \<open>
  The tables that carry money and decisions: the refresh of URL evidence reads them only.
\<close>

definition same_books :: "db \<Rightarrow> db \<Rightarrow> bool" where
  "same_books s t \<longleftrightarrow> orders t = orders s \<and> wallets t = wallets s \<and> transactions t = transactions s
     \<and> settlements t = settlements s \<and> approvals t = approvals s \<and> balances t = balances s
     \<and> publishers t = publishers s \<and> order_events t = order_events s \<and> deliveries t = deliveries s
     \<and> delivery_evidence t = delivery_evidence s \<and> order_disputes t = order_disputes s
     \<and> revisions t = revisions s \<and> cancellations t = cancellations s
     \<and> payment_disputes t = payment_disputes s \<and> deposits t = deposits s"

lemma same_books_refl [simp]: "same_books s s"
  by (simp add: same_books_def)

lemma recordCommunicationOutbox_Inr [tx_simps]:
  "recordCommunicationOutbox env req s = Inr r \<longleftrightarrow>
     (\<exists>i t. env_outbox env req (outbox s) = Inr (i, t) \<and> r = (i, s\<lparr>outbox := t\<rparr>))"
  by (auto simp: recordCommunicationOutbox_def split: sum.splits prod.splits)

lemma candidate_state:
  "buildDeliveryUrlReuseCandidate env orderId url s = Inr (c, s') \<Longrightarrow> s' = s"
  by (auto simp: buildDeliveryUrlReuseCandidate_def tx_simps Let_def split: if_splits)

lemma flagUrlReuse_books:
  "flagUrlReuse env i c n s = Inr (f, s') \<Longrightarrow> same_books s s' \<and> uf_requiresReview f
     \<and> (\<exists>h. fraud_holds s' = fraud_holds s @ [h] \<and> h_orderId h = ri_orderId i)"
  by (auto simp: flagUrlReuse_def create_fraud_flag_def tx_simps Let_def same_books_def)

lemma refresh_books:
  assumes "refreshDeliveryUrlReuseEvidenceUnderLock env i s = Inr (f, s')"
  shows "same_books s s' \<and> (uf_createdFlagId f = None \<and> s' = s
      \<or> uf_requiresReview f \<and> (\<exists>h \<in> set (fraud_holds s'). h_orderId h = ri_orderId i))"
  using assms
  by (auto simp: refreshDeliveryUrlReuseEvidenceUnderLock_def lockDeliveryUrlClaim_def tx_simps no_flag_def
      dest!: candidate_state flagUrlReuse_books split: option.splits if_splits)

lemma refreshForOrder_books:
  assumes "refreshForOrder env orderId ord s = Inr (f, s')"
  shows "same_books s s' \<and> (s' = s \<or> (\<exists>h \<in> set (fraud_holds s'). h_orderId h = orderId))"
  using assms
  by (auto simp: refreshForOrder_def tx_simps dest!: refresh_books split: option.splits if_splits)

lemma evaluateLocked_Inr:
  "evaluateLockedSettlementEligibility env orderId s = Inr (l, s') \<longleftrightarrow>
     (\<exists>f. refreshForOrder env orderId (find_order orderId s) s = Inr (f, s')
        \<and> l = \<lparr>le_eligibility = evaluateSettlementEligibility (buildSnapshotForOrder orderId (find_order orderId s) s'),
               le_snapshot = buildSnapshotForOrder orderId (find_order orderId s) s',
               le_urlReuseEvidenceCreated = (case f of None \<Rightarrow> False | Some f \<Rightarrow> uf_createdFlagId f \<noteq> None),
               le_urlReuseCommunicationEventId = (case f of None \<Rightarrow> None | Some f \<Rightarrow> uf_communicationEventId f),
               le_urlReuseCommunicationDedupKey = (case f of None \<Rightarrow> None | Some f \<Rightarrow> uf_communicationDedupKey f)\<rparr>)"
  by (auto simp: evaluateLockedSettlementEligibility_def buildLockedSettlementEligibilityState_def
      lockOrderAggregate_def tx_simps)

lemma evaluateLocked_spec:
  assumes "evaluateLockedSettlementEligibility env orderId s = Inr (l, s')"
  shows "same_books s s'" "le_snapshot l = buildSnapshotForOrder orderId (find_order orderId s) s'"
    "le_eligibility l = evaluateSettlementEligibility (le_snapshot l)"
    "el_eligible (le_eligibility l) \<Longrightarrow> s' = s"
proof -
  obtain f where f: "refreshForOrder env orderId (find_order orderId s) s = Inr (f, s')"
    and l: "le_snapshot l = buildSnapshotForOrder orderId (find_order orderId s) s'"
      "le_eligibility l = evaluateSettlementEligibility (buildSnapshotForOrder orderId (find_order orderId s) s')"
    using assms unfolding evaluateLocked_Inr by auto
  note b = refreshForOrder_books[OF f]
  show "same_books s s'" "le_snapshot l = buildSnapshotForOrder orderId (find_order orderId s) s'"
    "le_eligibility l = evaluateSettlementEligibility (le_snapshot l)"
    using b l by simp_all
  show "el_eligible (le_eligibility l) \<Longrightarrow> s' = s"
    unfolding l eligible_found using b by (auto simp: settleable_def)
qed

text \<open>An order the gate lets through, as a fact about the rows.\<close>

lemma evaluateLocked_eligible:
  assumes "evaluateLockedSettlementEligibility env orderId s = Inr (l, s')" "el_eligible (le_eligibility l)"
  obtains r v where "s' = s" "find_order orderId s = Some r" "settleable s orderId r v"
    "le_snapshot l = buildSnapshotForOrder orderId (Some r) s"
    "sn_orderVersion (le_snapshot l) = o_version r"
    "sn_orderCurrency (le_snapshot l) = ''USD''"
    "sn_activeDeliveryVersionId (le_snapshot l) = Some (v_id v)"
proof -
  note sp = evaluateLocked_spec[OF assms(1)]
  have s': "s' = s" using sp(4) assms(2) by simp
  have "el_eligible (evaluateSettlementEligibility (buildSnapshotForOrder orderId (find_order orderId s) s))"
    using assms(2) sp(2,3) s' by simp
  then obtain r v where r: "find_order orderId s = Some r"
    "active_delivery_row s (o_activeDeliveryVersionId r) = Some v" "settleable s orderId r v"
    unfolding eligible_found by blast
  show ?thesis
    by (rule that[OF s' r(1,3)])
       (use sp(2) s' r in \<open>simp_all add: buildSnapshotForOrder_def Let_def settleable_def\<close>)
qed

lemma block_if_simps [simp]:
  "distinct (map bl_code (block_if b c m))" "(x \<in> bl_code ` set (block_if b c m)) = (b \<and> x = c)"
  by (auto simp: block_if_def)

lemma deliveryBlockers_codes:
  "distinct (map bl_code (deliveryBlockers sn))"
  "x \<in> bl_code ` set (deliveryBlockers sn) \<Longrightarrow> x \<in> {ACTIVE_DELIVERY_MISSING, ACTIVE_DELIVERY_ORDER_MISMATCH,
     ACTIVE_DELIVERY_SUPERSEDED, ACTIVE_DELIVERY_REJECTED, ACTIVE_DELIVERY_UNVERIFIED}"
  by (auto simp: deliveryBlockers_def Let_def block_if_def split: if_splits)

lemma deliveryBlockers_only:
  "ORDER_STATUS \<notin> bl_code ` set (deliveryBlockers sn)" "ORDER_CURRENCY \<notin> bl_code ` set (deliveryBlockers sn)"
  "ORDER_PAYMENT_STATUS \<notin> bl_code ` set (deliveryBlockers sn)" "ACTIVE_DISPUTE \<notin> bl_code ` set (deliveryBlockers sn)"
  "ACTIVE_REVISION \<notin> bl_code ` set (deliveryBlockers sn)" "ACTIVE_CANCELLATION \<notin> bl_code ` set (deliveryBlockers sn)"
  "UNRESOLVED_FRAUD \<notin> bl_code ` set (deliveryBlockers sn)"
  using deliveryBlockers_codes(2) by blast+

lemma disjoint_mem: "(A \<inter> B = {}) = (\<forall>x. x \<in> A \<longrightarrow> x \<notin> B)"
  by blast

section \<open>Properties\<close>

text \<open>C26: The settlement gate lets an order through exactly when its row and its active delivery are
  there and in order: delivered, paid, in USD, the delivery its own, current and verified or
  approved by hand but never rejected, every dispute, revision and cancellation request of the
  order in one of the few safe final states, and no fraud hold on it.\<close>

theorem settlement_gate_iff:
  "el_eligible (evaluateSettlementEligibility (buildSnapshotForOrder orderId (find_order orderId s) s)) \<longleftrightarrow>
     (\<exists>r v. find_order orderId s = Some r \<and> active_delivery_row s (o_activeDeliveryVersionId r) = Some v
        \<and> settleable s orderId r v)"
  by (rule eligible_found)

text \<open>C38: Every refusal is explained and every explanation is a refusal: the order is eligible exactly
  when no blocker is listed, there is one reason per blocker in the same order, no blocker is
  listed twice, and each of the four hold blockers is listed exactly when its condition holds.\<close>

theorem settlement_blockers_complete:
  "el_eligible (evaluateSettlementEligibility sn) = (el_blockers (evaluateSettlementEligibility sn) = [])
   \<and> el_reasons (evaluateSettlementEligibility sn) = map bl_message (el_blockers (evaluateSettlementEligibility sn))
   \<and> distinct (map bl_code (el_blockers (evaluateSettlementEligibility sn)))
   \<and> (ACTIVE_DISPUTE \<in> bl_code ` set (el_blockers (evaluateSettlementEligibility sn))) = sn_hasActiveDispute sn
   \<and> (ACTIVE_REVISION \<in> bl_code ` set (el_blockers (evaluateSettlementEligibility sn))) = sn_hasActiveRevision sn
   \<and> (ACTIVE_CANCELLATION \<in> bl_code ` set (el_blockers (evaluateSettlementEligibility sn)))
       = sn_hasActiveCancellationRequest sn
   \<and> (UNRESOLVED_FRAUD \<in> bl_code ` set (el_blockers (evaluateSettlementEligibility sn)))
       = (0 < sn_fraudFlagCount sn)"
  unfolding evaluateSettlementEligibility_def Let_def
  using deliveryBlockers_only[of sn]
  by (auto simp: image_Un disjoint_mem deliveryBlockers_codes(1) simp del: image_set) (metis imageI)+

text \<open>The locked evaluation only decides.  It leaves every table of money and decisions as it
  was; when it lets the order through it has changed nothing at all, and when it finds new
  reuse evidence it records a fraud hold on the order, so that its own answer is a refusal.\<close>

theorem locked_evaluation_frame:
  assumes "evaluateLockedSettlementEligibility env orderId s = Inr (l, s')"
  shows "same_books s s'
    \<and> (if el_eligible (le_eligibility l) then s' = s
       else s' = s \<or> (\<exists>h \<in> set (fraud_holds s'). h_orderId h = orderId))"
proof -
  obtain f where "refreshForOrder env orderId (find_order orderId s) s = Inr (f, s')"
    using assms unfolding evaluateLocked_Inr by blast
  from refreshForOrder_books[OF this] show ?thesis
    using evaluateLocked_spec(4)[OF assms] by simp
qed

definition reused_url_db :: db where
  "reused_url_db = example_db\<lparr>deliveries := [example_delivery, example_delivery\<lparr>v_id := ''v0'', v_orderId := ''o0''\<rparr>]\<rparr>"

definition reused_url_result :: "locked_eligibility \<times> db" where
  "reused_url_result = projr (evaluateLockedSettlementEligibility example_env ''o1'' reused_url_db)"

lemma reused_url_run:
  "evaluateLockedSettlementEligibility example_env ''o1'' reused_url_db
     = Inr (fst reused_url_result, snd reused_url_result)"
proof -
  have "\<not> isl (evaluateLockedSettlementEligibility example_env ''o1'' reused_url_db)" by code_simp
  then show ?thesis by (simp add: reused_url_result_def)
qed

theorem locked_evaluation_frame_witness:
  "same_books reused_url_db (snd reused_url_result)
   \<and> (if el_eligible (le_eligibility (fst reused_url_result)) then snd reused_url_result = reused_url_db
      else snd reused_url_result = reused_url_db
        \<or> (\<exists>h \<in> set (fraud_holds (snd reused_url_result)). h_orderId h = ''o1''))"
  by (rule locked_evaluation_frame[OF reused_url_run])

end
