(* ===== verification/Workflow.thy ===== *)
theory Workflow
  imports Settlement_Gating
begin

text \<open>
  The decisions the settlement sweeps rest on: the workflow configuration and decision service
  (\<open>workflow/workflow-config.ts\<close>, \<open>workflow/decision-service.ts\<close>), the customer history they read
  (\<open>workflow/settlement-risk.ts\<close>) and the ISO texts of dates.  \<open>Number\<close> of a \<open>Decimal\<close> is the
  rational number it denotes, without binary rounding.
\<close>

section \<open>Configuration\<close>

record workflow_config =
  reviewWindowDays :: int
  verificationRetries :: int
  verificationBackoffMinutes :: "int list"
  verificationSlaHours :: int
  reminderDays :: "int list"
  autoReleaseMaxAmount :: rat
  enableAutoRelease :: bool
  newPublisherHoldDays :: int

definition defaultWorkflowConfig :: workflow_config where
  "defaultWorkflowConfig = \<lparr>reviewWindowDays = 7, verificationRetries = 3,
     verificationBackoffMinutes = [5, 15, 60], verificationSlaHours = 48, reminderDays = [3, 6],
     autoReleaseMaxAmount = 100000, enableAutoRelease = True, newPublisherHoldDays = 30\<rparr>"

section \<open>Decisions\<close>

datatype priority_label = P_CRITICAL | P_HIGH | P_MEDIUM | P_LOW

datatype release_policy = AUTO | MANUAL

datatype risk_label = R_LOW | R_MEDIUM | R_HIGH

record customer_history =
  ch_chargebackCount :: int
  ch_disputeCount :: int

text \<open>
  The amount is \<open>Number(order?.amount ?? 0)\<close>, \<open>None\<close> where not finite; \<open>queueTimeMs\<close> whole
  milliseconds, so that the twelve-hour steps are an integer division.
\<close>

definition computeVerificationPriority ::
    "workflow_config \<Rightarrow> rat option \<Rightarrow> bool \<Rightarrow> string option \<Rightarrow> bool \<Rightarrow> int \<Rightarrow> int \<times> priority_label" where
  "computeVerificationPriority config amount isEnterprise tier isVip queueTimeMs =
     (let score = (if isEnterprise then 50 else 0) + (if isVip then 30 else 0)
            + (if (case amount of Some a \<Rightarrow> a > autoReleaseMaxAmount config | None \<Rightarrow> False) then 20 else 0)
            + (queueTimeMs div 43200000) * 15 + (if tier = Some ''TRUSTED'' then 5 else 0)
      in (score, if score > 80 then P_CRITICAL else if score > 50 then P_HIGH
                 else if score > 20 then P_MEDIUM else P_LOW))"

definition bad_count :: "int \<Rightarrow> bool" where
  "bad_count n \<longleftrightarrow> \<not> (- MAX_SAFE_INTEGER \<le> n \<and> n \<le> MAX_SAFE_INTEGER) \<or> n < 0"

text \<open>\<open>publisherTier\<close> is \<open>None\<close> for no publisher or a publisher without tier.\<close>

definition computeSettlementReleasePolicy ::
    "workflow_config \<Rightarrow> string option \<Rightarrow> rat option \<Rightarrow> string option \<Rightarrow> string list
     \<Rightarrow> customer_history option \<Rightarrow> release_policy" where
  "computeSettlementReleasePolicy config verifyMethod amount publisherTier fraudFlags customerHistory =
     (if verifyMethod = Some ''MANUAL_ADMIN'' then MANUAL
      else if length fraudFlags > 0 then MANUAL
      else if publisherTier \<notin> {Some ''TRUSTED'', Some ''VERIFIED''} then MANUAL
      else case amount of None \<Rightarrow> MANUAL
      | Some a \<Rightarrow>
          if a \<le> 0 then MANUAL
          else if a > autoReleaseMaxAmount config then MANUAL
          else case customerHistory of None \<Rightarrow> MANUAL
          | Some h \<Rightarrow>
              if bad_count (ch_chargebackCount h) \<or> bad_count (ch_disputeCount h) then MANUAL
              else if ch_chargebackCount h > 0 then MANUAL
              else AUTO)"

definition computeReviewWindowDays :: "workflow_config \<Rightarrow> int" where
  "computeReviewWindowDays config = reviewWindowDays config"

definition computeAutoReleaseEligibility :: "workflow_config \<Rightarrow> string \<Rightarrow> bool" where
  "computeAutoReleaseEligibility config policy \<longleftrightarrow> policy = ''AUTO'' \<and> enableAutoRelease config"

definition computeRiskLevel ::
    "workflow_config \<Rightarrow> rat option \<Rightarrow> string option \<Rightarrow> customer_history option \<Rightarrow> risk_label \<times> string list" where
  "computeRiskLevel config amount tier history =
     (let factors =
        (if (case amount of Some a \<Rightarrow> a > autoReleaseMaxAmount config | None \<Rightarrow> False)
         then [''high-order-amount''] else [])
        @ (if tier = Some ''NEW'' then [''new-publisher''] else [])
        @ (if (case history of Some h \<Rightarrow> ch_chargebackCount h > 0 | None \<Rightarrow> False)
           then [''customer-chargeback-history''] else [])
        @ (if (case history of Some h \<Rightarrow> ch_disputeCount h > 0 | None \<Rightarrow> False)
           then [''customer-dispute-history''] else [])
      in (if length factors > 1 then R_HIGH else if length factors = 1 then R_MEDIUM else R_LOW, factors))"

section \<open>Customer history\<close>

definition requireCount :: "int \<Rightarrow> string \<Rightarrow> int tx" where
  "requireCount value label = (if bad_count value then throw (error (label @ '' history count is invalid'')) else ret value)"

definition trimmed_scope :: "string option \<Rightarrow> string option" where
  "trimmed_scope v = (case v of None \<Rightarrow> None | Some t \<Rightarrow> if trim t = [] then None else Some (trim t))"

definition same_some :: "string option \<Rightarrow> string option \<Rightarrow> bool" where
  "same_some x y \<longleftrightarrow> x \<noteq> None \<and> y = x"

definition paymentDisputeInScope :: "string option \<Rightarrow> string option \<Rightarrow> db \<Rightarrow> payment_dispute_row \<Rightarrow> bool" where
  "paymentDisputeInScope organizationId customerId s d \<longleftrightarrow>
     (let attempts = filter (\<lambda>a. da_id a = pd_depositAttemptId d) (deposits s);
          ws = filter (\<lambda>w. w_id w = pd_walletId d) (wallets s)
      in list_ex (\<lambda>a. same_some organizationId (da_organizationId a)
              \<or> same_some customerId (Some (da_createdByUserId a))) attempts
         \<or> list_ex (\<lambda>w. same_some organizationId (w_organizationId w)
              \<or> same_some customerId (w_userId w)) ws)"

definition orderDisputeInScope :: "string option \<Rightarrow> string option \<Rightarrow> db \<Rightarrow> order_dispute_row \<Rightarrow> bool" where
  "orderDisputeInScope organizationId customerId s d \<longleftrightarrow>
     list_ex (\<lambda>r. o_id r = d_orderId d
        \<and> (same_some organizationId (Some (o_organizationId r)) \<or> same_some customerId (Some (o_customerId r))))
       (orders s)"

definition loadSettlementCustomerHistory :: "string option \<Rightarrow> string option \<Rightarrow> customer_history tx" where
  "loadSettlementCustomerHistory scopeOrganization scopeCustomer =
     (let organizationId = trimmed_scope scopeOrganization; customerId = trimmed_scope scopeCustomer
      in andThen (require (organizationId \<noteq> None \<or> customerId \<noteq> None)
           (error ''Settlement customer risk scope is unavailable'')) (\<lambda>_.
         andThen (query (\<lambda>s. (int (count_where (paymentDisputeInScope organizationId customerId s) (payment_disputes s)),
                              int (count_where (orderDisputeInScope organizationId customerId s) (order_disputes s)))))
           (\<lambda>(chargebackCount, disputeCount).
         andThen (requireCount chargebackCount ''Chargeback'') (\<lambda>c.
         andThen (requireCount disputeCount ''Order dispute'') (\<lambda>d.
         ret \<lparr>ch_chargebackCount = c, ch_disputeCount = d\<rparr>)))))"

section \<open>ISO texts of dates\<close>

text \<open>
  \<open>Date.prototype.toISOString\<close> for the years 0 to 9999: the civil date of a day number since
  1970 in the proleptic Gregorian calendar, and the time of day.
\<close>

definition civil_date :: "int \<Rightarrow> int \<times> int \<times> int" where
  "civil_date days =
     (let z = days + 719468; era = z div 146097; doe = z mod 146097;
          yoe = (doe - doe div 1460 + doe div 36524 - doe div 146096) div 365;
          doy = doe - (365 * yoe + yoe div 4 - yoe div 100);
          mp = (5 * doy + 2) div 153;
          d = doy - (153 * mp + 2) div 5 + 1;
          m = (if mp < 10 then mp + 3 else mp - 9)
      in (yoe + era * 400 + (if m \<le> 2 then 1 else 0), m, d))"

definition pad_int :: "nat \<Rightarrow> int \<Rightarrow> string" where
  "pad_int n z = pad_start n CHR ''0'' (nat_text (nat z))"

definition iso_text :: "int \<Rightarrow> string" where
  "iso_text t =
     (let (y, m, d) = civil_date (t div 86400000); r = t mod 86400000
      in pad_int 4 y @ ''-'' @ pad_int 2 m @ ''-'' @ pad_int 2 d @ ''T'' @ pad_int 2 (r div 3600000) @ '':''
         @ pad_int 2 (r div 60000 mod 60) @ '':'' @ pad_int 2 (r div 1000 mod 60) @ ''.''
         @ pad_int 3 (r mod 1000) @ ''Z'')"

section \<open>Facts\<close>

lemma release_policy_AUTO:
  "computeSettlementReleasePolicy config verifyMethod amount tier flags history = AUTO \<longleftrightarrow>
     verifyMethod \<noteq> Some ''MANUAL_ADMIN'' \<and> flags = [] \<and> tier \<in> {Some ''TRUSTED'', Some ''VERIFIED''}
     \<and> (\<exists>a h. amount = Some a \<and> 0 < a \<and> a \<le> autoReleaseMaxAmount config \<and> history = Some h
          \<and> ch_chargebackCount h = 0 \<and> 0 \<le> ch_disputeCount h \<and> ch_disputeCount h \<le> MAX_SAFE_INTEGER)"
  by (auto simp: computeSettlementReleasePolicy_def bad_count_def MAX_SAFE_INTEGER_def not_less not_le
      split: option.splits)

lemma history_Inr [tx_simps]:
  "loadSettlementCustomerHistory org cust s = Inr r \<longleftrightarrow>
     (trimmed_scope org \<noteq> None \<or> trimmed_scope cust \<noteq> None)
     \<and> \<not> bad_count (int (count_where (paymentDisputeInScope (trimmed_scope org) (trimmed_scope cust) s) (payment_disputes s)))
     \<and> \<not> bad_count (int (count_where (orderDisputeInScope (trimmed_scope org) (trimmed_scope cust) s) (order_disputes s)))
     \<and> r = (\<lparr>ch_chargebackCount = int (count_where (paymentDisputeInScope (trimmed_scope org) (trimmed_scope cust) s) (payment_disputes s)),
            ch_disputeCount = int (count_where (orderDisputeInScope (trimmed_scope org) (trimmed_scope cust) s) (order_disputes s))\<rparr>, s)"
  by (auto simp: loadSettlementCustomerHistory_def requireCount_def tx_simps Let_def)

section \<open>Properties\<close>

text \<open>Automatic release is decided fail-closed: the policy is AUTO exactly when delivery was not
  verified by hand, no fraud flag is listed, the publisher is trusted or verified, the amount is
  a positive number up to the maximum, and the customer's history is known, in range and free
  of chargebacks; and no risk factor but customer disputes is then present for the order.\<close>

theorem auto_policy_iff:
  "(computeSettlementReleasePolicy config verifyMethod amount tier flags history = AUTO) =
     (verifyMethod \<noteq> Some ''MANUAL_ADMIN'' \<and> flags = [] \<and> tier \<in> {Some ''TRUSTED'', Some ''VERIFIED''}
      \<and> (\<exists>a h. amount = Some a \<and> 0 < a \<and> a \<le> autoReleaseMaxAmount config \<and> history = Some h
          \<and> ch_chargebackCount h = 0 \<and> 0 \<le> ch_disputeCount h \<and> ch_disputeCount h \<le> MAX_SAFE_INTEGER))
   \<and> (if computeSettlementReleasePolicy config verifyMethod amount tier flags history = AUTO
      then set (snd (computeRiskLevel config amount tier history)) \<subseteq> {''customer-dispute-history''} else True)"
  unfolding release_policy_AUTO by (auto simp: computeRiskLevel_def Let_def)

end
