(* ===== verification/Release_Evidence.thy ===== *)
theory Release_Evidence
  imports Store Publisher_Policy
begin

text \<open>
  Proofs of past money movements from the rows they left: the release triple of a settlement
  (\<open>settlement-release-evidence.ts\<close>) and the funding of platform revenue
  (\<open>platform-revenue-evidence.ts\<close>).
\<close>

section \<open>The release triple\<close>

datatype release_issue =
    SETTLEMENT_NOT_RELEASED | SETTLEMENT_SETTLED_AT_MISSING
  | SETTLEMENT_RELEASE_LEDGER_COUNT | SETTLEMENT_RELEASE_LEDGER_IDENTITY
  | SETTLEMENT_RELEASE_EVENT_COUNT | SETTLEMENT_RELEASE_EVENT_IDENTITY

record release_evidence =
  re_valid :: bool
  re_stateValid :: bool
  re_ledgerValid :: bool
  re_eventValid :: bool
  re_issues :: "(release_issue \<times> string) list"

definition stateIssues :: "settlement_row \<Rightarrow> (release_issue \<times> string) list" where
  "stateIssues st =
     (if s_status st \<noteq> ''RELEASED''
      then [(SETTLEMENT_NOT_RELEASED, ''Settlement status is '' @ s_status st @ '', expected RELEASED'')] else [])
     @ (if s_settledAt st = None
        then [(SETTLEMENT_SETTLED_AT_MISSING, ''Released settlement is missing its release timestamp'')] else [])"

definition releaseLedgerMismatch :: "settlement_row \<Rightarrow> transaction_row \<Rightarrow> bool" where
  "releaseLedgerMismatch st t \<longleftrightarrow>
     (let exactAmount = (decimalUnits (column (t_amount t)) \<noteq> None
            \<and> decimalUnits (column (t_amount t)) = decimalUnits (column (s_publisherAmount st)))
      in t_settlementId t \<noteq> Some (s_id st) \<or> t_orderId t \<noteq> Some (s_orderId st)
         \<or> t_publisherId t \<noteq> Some (s_publisherId st) \<or> t_currency t \<noteq> s_currency st \<or> \<not> exactAmount
         \<or> t_walletId t \<noteq> None \<or> t_provider t \<noteq> None \<or> t_providerRef t \<noteq> None)"

definition ledgerIssues :: "settlement_row \<Rightarrow> transaction_row list \<Rightarrow> (release_issue \<times> string) list" where
  "ledgerIssues st rows =
     (case filter (\<lambda>t. t_type t = ''SETTLEMENT_RELEASE'') rows of
        [t] \<Rightarrow> if releaseLedgerMismatch st t
               then [(SETTLEMENT_RELEASE_LEDGER_IDENTITY,
                 ''Settlement release ledger row does not match the settlement identity and amount'')]
               else []
      | found \<Rightarrow> [(SETTLEMENT_RELEASE_LEDGER_COUNT,
                   ''Expected one settlement release ledger row, found '' @ nat_text (length found))])"

definition eventIssues :: "settlement_row \<Rightarrow> order_event list \<Rightarrow> (release_issue \<times> string) list" where
  "eventIssues st events =
     (case filter (\<lambda>e. e_eventType e = ''SETTLEMENT_RELEASED'') events of
        [e] \<Rightarrow> if e_settlementId e \<noteq> Some (s_id st) \<or> e_orderId e \<noteq> s_orderId st
               then [(SETTLEMENT_RELEASE_EVENT_IDENTITY,
                 ''Settlement release event does not match the settlement and order'')]
               else []
      | found \<Rightarrow> [(SETTLEMENT_RELEASE_EVENT_COUNT,
                   ''Expected one settlement release event, found '' @ nat_text (length found))])"

definition evaluateSettlementReleaseEvidence ::
    "settlement_row \<Rightarrow> transaction_row list \<Rightarrow> order_event list \<Rightarrow> release_evidence" where
  "evaluateSettlementReleaseEvidence st rows events =
     (let issues = stateIssues st @ ledgerIssues st rows @ eventIssues st events;
          codes = fst ` set issues;
          stateValid = (SETTLEMENT_NOT_RELEASED \<notin> codes \<and> SETTLEMENT_SETTLED_AT_MISSING \<notin> codes);
          ledgerValid = (SETTLEMENT_RELEASE_LEDGER_COUNT \<notin> codes \<and> SETTLEMENT_RELEASE_LEDGER_IDENTITY \<notin> codes);
          eventValid = (SETTLEMENT_RELEASE_EVENT_COUNT \<notin> codes \<and> SETTLEMENT_RELEASE_EVENT_IDENTITY \<notin> codes)
      in \<lparr>re_valid = (stateValid \<and> ledgerValid \<and> eventValid), re_stateValid = stateValid,
          re_ledgerValid = ledgerValid, re_eventValid = eventValid, re_issues = issues\<rparr>)"

section \<open>Funding of platform revenue\<close>

record revenue_order =
  ro_orderId :: string
  ro_amount :: jsval
  ro_currency :: jsval
  ro_paymentStatus :: jsval
  ro_fulfillmentChannel :: jsval
  ro_organizationId :: jsval

definition revenue_failure :: "string \<Rightarrow> string \<Rightarrow> failure" where
  "revenue_failure code message = CodedFailure ''PlatformRevenueEvidenceError'' code message"

definition find_wallet_row :: "string option \<Rightarrow> db \<Rightarrow> wallet_row option" where
  "find_wallet_row wid s = find (\<lambda>w. Some (w_id w) = wid) (wallets s)"

definition purchases_of :: "string \<Rightarrow> db \<Rightarrow> transaction_row list" where
  "purchases_of orderId s = filter (\<lambda>t. t_orderId t = Some orderId \<and> t_type t = ''PURCHASE'') (transactions s)"

definition purchaseMismatch :: "db \<Rightarrow> string \<Rightarrow> jsval \<Rightarrow> transaction_row \<Rightarrow> bool" where
  "purchaseMismatch s gross organizationId t \<longleftrightarrow>
     (let purchaseText = js_string (column (t_amount t));
          purchasedGross = (if starts_with ''-'' purchaseText
                            then normalizePositiveUsdMoney (JText (tl purchaseText)) else None)
      in purchasedGross \<noteq> Some gross \<or> t_currency t \<noteq> ''USD'' \<or> \<not> truthy (t_walletId t)
         \<or> t_publisherId t \<noteq> None \<or> t_settlementId t \<noteq> None \<or> t_provider t \<noteq> None \<or> t_providerRef t \<noteq> None
         \<or> (case find_wallet_row (t_walletId t) s of None \<Rightarrow> True
            | Some w \<Rightarrow> w_currency w \<noteq> ''USD''
                \<or> (case w_organizationId w of None \<Rightarrow> JNull | Some g \<Rightarrow> JText g) \<noteq> organizationId))"

text \<open>Two purchases suffice to refuse, whatever the order of their ids.\<close>

definition assertCanonicalPlatformRevenueFundingCore :: "revenue_order \<Rightarrow> unit tx" where
  "assertCanonicalPlatformRevenueFundingCore ord =
     (case normalizePositiveUsdMoney (ro_amount ord) of
        None \<Rightarrow> throw (revenue_failure ''INVALID_PLATFORM_ORDER''
          ''Platform revenue requires a paid exact-USD PLATFORM order'')
      | Some gross \<Rightarrow>
          andThen (require (\<not> (ro_currency ord \<noteq> JText ''USD'' \<or> ro_paymentStatus ord \<noteq> JText ''PAID''
              \<or> ro_fulfillmentChannel ord \<noteq> JText ''PLATFORM''
              \<or> (case ro_organizationId ord of JText g \<Rightarrow> g = [] | _ \<Rightarrow> True)))
            (revenue_failure ''INVALID_PLATFORM_ORDER''
              ''Platform revenue requires a paid exact-USD PLATFORM order'')) (\<lambda>_.
          andThen (query (\<lambda>s. case take 2 (purchases_of (ro_orderId ord) s) of
                [t] \<Rightarrow> \<not> purchaseMismatch s gross (ro_organizationId ord) t
              | _ \<Rightarrow> False)) (\<lambda>exact.
          require exact (revenue_failure ''INVALID_PURCHASE_EVIDENCE''
            ''Platform revenue requires one exact canonical PURCHASE ledger row''))))"

section \<open>Facts\<close>

text \<open>
  What the release triple proves, in terms of the rows alone.  The code compares amounts to twelve
  decimal places: the rest of a column is cut off.
\<close>

definition twelve_places :: "int \<Rightarrow> int" where
  "twelve_places d = sgn d * (\<bar>d\<bar> div 10 ^ 18)"

definition release_booked :: "settlement_row \<Rightarrow> transaction_row \<Rightarrow> bool" where
  "release_booked st t \<longleftrightarrow> t_settlementId t = Some (s_id st) \<and> t_orderId t = Some (s_orderId st)
     \<and> t_publisherId t = Some (s_publisherId st) \<and> t_currency t = s_currency st
     \<and> twelve_places (t_amount t) = twelve_places (s_publisherAmount st)
     \<and> t_walletId t = None \<and> t_provider t = None \<and> t_providerRef t = None"

definition release_triple :: "settlement_row \<Rightarrow> transaction_row list \<Rightarrow> order_event list \<Rightarrow> bool" where
  "release_triple st rows events \<longleftrightarrow>
     s_status st = ''RELEASED'' \<and> s_settledAt st \<noteq> None
     \<and> (\<exists>t. filter (\<lambda>t. t_type t = ''SETTLEMENT_RELEASE'') rows = [t] \<and> release_booked st t)
     \<and> (\<exists>e. filter (\<lambda>e. e_eventType e = ''SETTLEMENT_RELEASED'') events = [e]
            \<and> e_settlementId e = Some (s_id st) \<and> e_orderId e = s_orderId st)"

lemma take_stripped: "take 12 (strip_zeros (decimal_digits d) @ replicate 12 CHR ''0'') = take 12 (decimal_digits d)"
proof -
  have "length (strip_zeros (decimal_digits d)) \<le> 30"
    using length_dropWhile_le[of _ "rev (decimal_digits d)"] decimal_digits_props(1)[of d] by (simp add: strip_zeros_def)
  then show ?thesis
    using arg_cong[OF fraction_pad_strip[of d], of "take 12"] by (simp add: pad_end_def min_def split: if_splits)
qed

lemma digits_val_take:
  assumes "all_digits ds" "m \<le> length ds"
  shows "digits_val (take m ds) = digits_val ds div 10 ^ (length ds - m)"
proof -
  have "digits_val ds = digits_val (take m ds) * 10 ^ length (drop m ds) + digits_val (drop m ds)"
    using digits_val_append[of "take m ds" "drop m ds"] by simp
  moreover have "all_digits (drop m ds)"
    using assms(1) set_drop_subset[of m ds] by (auto simp: all_digits_def list_all_iff)
  then have "digits_val (drop m ds) < 10 ^ length (drop m ds)" by (rule digits_val_bound)
  ultimately show ?thesis by simp
qed

lemma decimalUnits_column: "decimalUnits (column d) = Some (twelve_places d)"
proof -
  let ?f = "case (if strip_zeros (decimal_digits d) = [] then None else Some (strip_zeros (decimal_digits d)))
       of None \<Rightarrow> [] | Some f \<Rightarrow> f"
  have f: "take 12 (?f @ replicate 12 CHR ''0'') = take 12 (decimal_digits d)"
    using take_stripped[of d] by (cases "strip_zeros (decimal_digits d) = []") simp_all
  have "int (digits_val (take 12 (decimal_digits d))) = \<bar>d\<bar> mod 10 ^ 30 div 10 ^ 18"
    using decimal_digits_props[of d] digits_val_take[OF decimal_digits_props(2), of 12 d]
    by (simp add: MONEY_FACTOR_def MONEY_SCALE_def zdiv_int)
  moreover have "(\<bar>d\<bar> div 10 ^ 30 * 10 ^ 12 * 10 ^ 18 + \<bar>d\<bar> mod 10 ^ 30) div 10 ^ 18
      = \<bar>d\<bar> div 10 ^ 30 * 10 ^ 12 + \<bar>d\<bar> mod 10 ^ 30 div 10 ^ 18"
    by (rule div_mult_self3) simp
  moreover have "\<bar>d\<bar> div 10 ^ 30 * 10 ^ 12 * 10 ^ 18 + \<bar>d\<bar> mod 10 ^ 30 = \<bar>d\<bar>"
    using div_mult_mod_eq[of "\<bar>d\<bar>" "10 ^ 30"] by simp
  ultimately have "int (digits_val (decimal_whole d)) * 1000000000000 + int (digits_val (take 12 (decimal_digits d))) = \<bar>d\<bar> div 10 ^ 18"
    by (simp add: decimal_whole_props(3) MONEY_FACTOR_def MONEY_SCALE_def)
  then show ?thesis
    unfolding decimalUnits_def Let_def coalesce_column split_decimalString prod.case match_number_decimal option.case f
    by (simp add: twelve_places_def sgn_if)
qed

lemma twelve_places_cents:
  assumes "CENT dvd a" "CENT dvd b"
  shows "twelve_places a = twelve_places b \<longleftrightarrow> a = b"
proof -
  have exact: "twelve_places d * 10 ^ 18 = d" if "CENT dvd d" for d
  proof -
    have "(10 ^ 18 :: int) dvd CENT" by (simp add: CENT_def)
    then have "10 ^ 18 dvd \<bar>d\<bar>" using that by (auto intro: dvd_trans)
    then have "\<bar>d\<bar> div 10 ^ 18 * 10 ^ 18 = \<bar>d\<bar>" by (rule dvd_div_mult_self)
    then show ?thesis by (simp add: twelve_places_def mult.assoc sgn_mult_abs del: power_numeral)
  qed
  show ?thesis using exact[OF assms(1)] exact[OF assms(2)] by metis
qed

lemma amounts_agree:
  "(if CENT dvd a \<and> CENT dvd b then a = b else sgn a * (\<bar>a\<bar> div 10 ^ 18) = sgn b * (\<bar>b\<bar> div 10 ^ 18))
     \<longleftrightarrow> twelve_places a = twelve_places b"
  using twelve_places_cents[of a b] by (simp add: twelve_places_def)

lemma releaseLedgerMismatch_iff: "releaseLedgerMismatch st t \<longleftrightarrow> \<not> release_booked st t"
  by (auto simp: releaseLedgerMismatch_def release_booked_def decimalUnits_column Let_def)

lemma stateIssues_Nil: "stateIssues st = [] \<longleftrightarrow> s_status st = ''RELEASED'' \<and> s_settledAt st \<noteq> None"
  by (auto simp: stateIssues_def)

lemma ledgerIssues_Nil: "ledgerIssues st rows = [] \<longleftrightarrow>
    (\<exists>t. filter (\<lambda>t. t_type t = ''SETTLEMENT_RELEASE'') rows = [t] \<and> release_booked st t)"
  by (auto simp: ledgerIssues_def releaseLedgerMismatch_iff split: list.splits)

lemma eventIssues_Nil: "eventIssues st events = [] \<longleftrightarrow>
    (\<exists>e. filter (\<lambda>e. e_eventType e = ''SETTLEMENT_RELEASED'') events = [e]
       \<and> e_settlementId e = Some (s_id st) \<and> e_orderId e = s_orderId st)"
  by (auto simp: eventIssues_def split: list.splits)

lemma issue_codes:
  "fst ` set (stateIssues st) \<subseteq> {SETTLEMENT_NOT_RELEASED, SETTLEMENT_SETTLED_AT_MISSING}"
  "fst ` set (ledgerIssues st rows) \<subseteq> {SETTLEMENT_RELEASE_LEDGER_COUNT, SETTLEMENT_RELEASE_LEDGER_IDENTITY}"
  "fst ` set (eventIssues st events) \<subseteq> {SETTLEMENT_RELEASE_EVENT_COUNT, SETTLEMENT_RELEASE_EVENT_IDENTITY}"
  by (auto simp: stateIssues_def ledgerIssues_def eventIssues_def split: list.splits if_splits)

lemma no_codes:
  fixes ys :: "(release_issue \<times> string) list"
  shows "ys = [] \<longleftrightarrow> SETTLEMENT_NOT_RELEASED \<notin> fst ` set ys \<and> SETTLEMENT_SETTLED_AT_MISSING \<notin> fst ` set ys
    \<and> SETTLEMENT_RELEASE_LEDGER_COUNT \<notin> fst ` set ys \<and> SETTLEMENT_RELEASE_LEDGER_IDENTITY \<notin> fst ` set ys
    \<and> SETTLEMENT_RELEASE_EVENT_COUNT \<notin> fst ` set ys \<and> SETTLEMENT_RELEASE_EVENT_IDENTITY \<notin> fst ` set ys"
  by (cases ys; cases "fst (hd ys)") auto

lemma valid_no_issues: "re_valid (evaluateSettlementReleaseEvidence st rows events) \<longleftrightarrow>
    re_issues (evaluateSettlementReleaseEvidence st rows events) = []"
  unfolding evaluateSettlementReleaseEvidence_def Let_def release_evidence.simps
  by (simp only: conj_assoc no_codes[of "stateIssues st @ ledgerIssues st rows @ eventIssues st events"])

lemma release_triple_iff:
  "re_valid (evaluateSettlementReleaseEvidence st rows events) = release_triple st rows events"
  unfolding valid_no_issues
  by (simp add: evaluateSettlementReleaseEvidence_def Let_def release_triple_def stateIssues_Nil
      ledgerIssues_Nil eventIssues_Nil conj_assoc)

section \<open>Properties\<close>

text \<open>C39: The evidence of a release is valid exactly when the settlement is RELEASED with a release
  time, exactly one ledger row of the release type exists and names this settlement, its order, its
  publisher and its currency, has its amount to twelve places and no wallet or provider, and exactly one
  release event exists and names the settlement and the order; where both amounts are whole cents,
  as the release writes them, they are then equal.  It is valid exactly when no issue is reported.\<close>

theorem release_evidence_iff:
  "(re_valid (evaluateSettlementReleaseEvidence st rows events) \<longleftrightarrow>
     s_status st = ''RELEASED'' \<and> s_settledAt st \<noteq> None
     \<and> (\<exists>t. filter (\<lambda>t. t_type t = ''SETTLEMENT_RELEASE'') rows = [t]
          \<and> t_settlementId t = Some (s_id st) \<and> t_orderId t = Some (s_orderId st) \<and> t_publisherId t = Some (s_publisherId st)
          \<and> t_currency t = s_currency st \<and> t_walletId t = None \<and> t_provider t = None \<and> t_providerRef t = None
          \<and> (if CENT dvd t_amount t \<and> CENT dvd s_publisherAmount st then t_amount t = s_publisherAmount st
             else sgn (t_amount t) * (\<bar>t_amount t\<bar> div 10 ^ 18) = sgn (s_publisherAmount st) * (\<bar>s_publisherAmount st\<bar> div 10 ^ 18)))
     \<and> (\<exists>e. filter (\<lambda>e. e_eventType e = ''SETTLEMENT_RELEASED'') events = [e]
          \<and> e_settlementId e = Some (s_id st) \<and> e_orderId e = s_orderId st))
   \<and> (re_valid (evaluateSettlementReleaseEvidence st rows events)
        \<longleftrightarrow> re_issues (evaluateSettlementReleaseEvidence st rows events) = [])"
  unfolding valid_no_issues[symmetric] release_triple_iff release_triple_def release_booked_def amounts_agree by blast

text \<open>Text and sign of a column.\<close>

lemma starts_with_minus: "starts_with ''-'' s = fst (split_minus s)"
  by (cases s) (auto simp: split_minus_def)

lemma tl_minus: "fst (split_minus s) \<Longrightarrow> tl s = snd (split_minus s)"
  by (cases s) (auto simp: split_minus_def split: if_splits)

lemma normalize_decimalString:
  "normalizePositiveUsdMoney (JText (decimalString d))
     = (if 0 < d \<and> CENT dvd d then Some (usdAmount (d div CENT)) else None)"
proof -
  have "exactUsdCents (JText (decimalString d)) [] = exactUsdCents (column d) []"
    by (simp add: exactUsdCents_def truthy_text_def column_def)
  moreover have "0 < d div CENT \<longleftrightarrow> 0 < d" if "CENT dvd d"
  proof -
    have "\<not> CENT < 0" by (simp add: CENT_def)
    with that show ?thesis by (auto elim!: dvdE simp: zero_less_mult_iff)
  qed
  ultimately show ?thesis
    using normalize_text[of "decimalString d" "[]"] by (simp add: exactUsdCents_column)
qed

lemma tl_decimalString: "d < 0 \<Longrightarrow> tl (decimalString d) = decimalString (- d)"
  by (simp add: decimalString_def Let_def)

lemma starts_with_decimalString: "starts_with ''-'' (decimalString d) \<longleftrightarrow> d < 0"
  by (simp add: starts_with_minus split_decimalString)

lemma purchaseMismatch_iff:
  assumes "0 < c"
  shows "\<not> purchaseMismatch s (usdAmount c) (JText g) t \<longleftrightarrow>
     t_amount t = - (c * CENT) \<and> t_currency t = ''USD'' \<and> truthy (t_walletId t) \<and> t_publisherId t = None
     \<and> t_settlementId t = None \<and> t_provider t = None \<and> t_providerRef t = None
     \<and> (\<exists>w. find_wallet_row (t_walletId t) s = Some w \<and> w_currency w = ''USD'' \<and> w_organizationId w = Some g)"
proof -
  have "(if starts_with ''-'' (js_string (column (t_amount t)))
         then normalizePositiveUsdMoney (JText (tl (js_string (column (t_amount t))))) else None) = Some (usdAmount c)
    \<longleftrightarrow> t_amount t = - (c * CENT)"
  proof (cases "t_amount t < 0")
    case True
    then have "(CENT dvd t_amount t \<and> usdAmount (- t_amount t div CENT) = usdAmount c) \<longleftrightarrow> t_amount t = - (c * CENT)"
      using CENT_pos(2) by (auto simp: release_cents.print_inject elim!: dvdE)
    with True show ?thesis
      by (simp add: column_def starts_with_decimalString tl_decimalString normalize_decimalString) blast
  next
    case False
    moreover have "0 < c * CENT" using assms CENT_pos(1) by simp
    ultimately show ?thesis by (simp add: column_def starts_with_decimalString)
  qed
  then show ?thesis
    by (auto simp: purchaseMismatch_def Let_def split: option.splits)
qed

text \<open>C40: Platform revenue is booked only against its exact purchase.  For an order of a positive
  whole number of cents the check passes exactly when the order is a paid USD platform order of
  some organization and the ledger has one PURCHASE row of the order, for exactly the negated
  amount in USD, on a USD wallet of that organization and with no publisher, settlement or
  provider on it.\<close>

theorem revenue_funding_exact:
  assumes "0 < c" "ro_amount ord = column (c * CENT)"
  shows "assertCanonicalPlatformRevenueFundingCore ord s = Inr ((), s) \<longleftrightarrow>
     ro_currency ord = JText ''USD'' \<and> ro_paymentStatus ord = JText ''PAID''
     \<and> ro_fulfillmentChannel ord = JText ''PLATFORM''
     \<and> (\<exists>g t w. ro_organizationId ord = JText g \<and> g \<noteq> [] \<and> purchases_of (ro_orderId ord) s = [t]
          \<and> t_amount t = - (c * CENT) \<and> t_currency t = ''USD'' \<and> truthy (t_walletId t)
          \<and> t_publisherId t = None \<and> t_settlementId t = None \<and> t_provider t = None \<and> t_providerRef t = None
          \<and> find_wallet_row (t_walletId t) s = Some w \<and> w_currency w = ''USD'' \<and> w_organizationId w = Some g)"
proof -
  have n: "normalizePositiveUsdMoney (ro_amount ord) = Some (usdAmount c)"
    using assms CENT_pos by simp
  have exact: "(case take 2 (purchases_of (ro_orderId ord) s) of
        [t] \<Rightarrow> \<not> purchaseMismatch s (usdAmount c) g t | _ \<Rightarrow> False) \<longleftrightarrow>
      (\<exists>t. purchases_of (ro_orderId ord) s = [t] \<and> \<not> purchaseMismatch s (usdAmount c) g t)" for g
    by (auto simp: take_two_single split: list.splits)
  show ?thesis
    unfolding assertCanonicalPlatformRevenueFundingCore_def n option.case andThen_Inr require_Inr query_Inr
    by (cases "ro_organizationId ord") (auto simp: exact purchaseMismatch_iff[OF assms(1)])
qed

definition example_revenue_order :: revenue_order where
  "example_revenue_order = \<lparr>ro_orderId = ''o1'', ro_amount = column (300 * CENT), ro_currency = JText ''USD'',
     ro_paymentStatus = JText ''PAID'', ro_fulfillmentChannel = JText ''PLATFORM'',
     ro_organizationId = JText ''g1''\<rparr>"

theorem revenue_funding_exact_witness:
  "assertCanonicalPlatformRevenueFundingCore example_revenue_order
     (example_db\<lparr>transactions := [new_transaction\<lparr>t_amount := - (300 * CENT), t_type := ''PURCHASE'',
        t_orderId := Some ''o1'', t_walletId := Some ''w1''\<rparr>]\<rparr>) = Inr ((), example_db\<lparr>transactions :=
     [new_transaction\<lparr>t_amount := - (300 * CENT), t_type := ''PURCHASE'',
        t_orderId := Some ''o1'', t_walletId := Some ''w1''\<rparr>]\<rparr>)"
  by (subst revenue_funding_exact[of 300])
     (simp_all add: example_revenue_order_def example_defs new_transaction_def purchases_of_def
       find_wallet_row_def truthy_def)

end
