(* ===== verification/Settlement_Sweeps.thy ===== *)
theory Settlement_Sweeps
  imports Workflow Release_Evidence
begin

text \<open>
  The two sweeps that move settlements forward without a person: the approval at the end of the
  review window (\<open>settlement-auto-approve-core.ts\<close>) and the release of AUTO settlements to the
  publisher's balance (\<open>settlement-auto-release-core.ts\<close>).  Each settlement is handled in a
  serializable transaction of its own, retried at most three times; \<open>weathers i\<close> is what happens
  around the attempts for the \<open>i\<close>-th settlement.  A sweep returns its counters and the calls it
  makes to its hooks; the wall-clock duration is left out.
\<close>

section \<open>Common parts\<close>

datatype hook_call =
    CommunicationEvents "string list"
  | ReleaseHook string string string
  | ErrorHook failure string

definition find_settlement :: "string \<Rightarrow> db \<Rightarrow> settlement_row option" where
  "find_settlement i s = find (\<lambda>r. s_id r = i) (settlements s)"

definition find_balance :: "string \<Rightarrow> db \<Rightarrow> balance_row option" where
  "find_balance i s = find (\<lambda>r. b_publisherId r = i) (balances s)"

text \<open>The settlements a sweep picks up, each with its order as read at the same time.\<close>

definition due_settlements :: "(settlement_row \<Rightarrow> bool) \<Rightarrow> nat \<Rightarrow> db \<Rightarrow> (settlement_row \<times> order_row) list" where
  "due_settlements p batchSize s =
     concat (map (\<lambda>st. case find_order (s_orderId st) s of None \<Rightarrow> [] | Some r \<Rightarrow> [(st, r)])
       (take batchSize (filter p (settlements s))))"

section \<open>Automatic approval\<close>

record approve_outcome =
  ao_committed :: bool
  ao_communicationEventIds :: "string list"

definition in_review :: "settlement_row \<Rightarrow> bool" where
  "in_review st \<longleftrightarrow> s_status st = ''PENDING'' \<or> s_status st = ''UNDER_REVIEW''"

definition autoApproveTx :: "env \<Rightarrow> settlement_row \<Rightarrow> order_row \<Rightarrow> approve_outcome tx" where
  "autoApproveTx env st ord =
     andThen (evaluateLockedSettlementEligibility env (s_orderId st)) (\<lambda>eligibility.
     if \<not> el_eligible (le_eligibility eligibility) then
       ret \<lparr>ao_committed = False,
            ao_communicationEventIds = opt_list (le_urlReuseCommunicationEventId eligibility)\<rparr>
     else
     andThen (require (s_currency st = ''USD'') (error ''Settlement currency must be exactly USD'')) (\<lambda>_.
     andThen (update_settlements
       (\<lambda>r. s_id r = s_id st \<and> in_review r \<and> s_version r = s_version st \<and> s_currency r = ''USD'')
       (\<lambda>r. r\<lparr>s_status := ''CUSTOMER_APPROVED'', s_currency := ''USD'', s_version := s_version r + 1,
              s_updatedAt := env_now env\<rparr>)) (\<lambda>updated.
     if updated = 0 then ret \<lparr>ao_committed = False, ao_communicationEventIds = []\<rparr>
     else
     andThen (upsert_approval env id (new_approval (s_id st) ''CUSTOMER'' ''SYSTEM_AUTO_APPROVE'' ''SYSTEM'')) (\<lambda>_.
     andThen (create_event \<lparr>e_orderId = s_orderId st, e_settlementId = Some (s_id st),
       e_eventType = ''SETTLEMENT_CUSTOMER_APPROVED'', e_actorId = None,
       e_message = ''Settlement auto-approved '' @ em_dash @ '' review window ended ''
         @ (case s_reviewEndsAt st of None \<Rightarrow> ''undefined'' | Some t \<Rightarrow> iso_text t),
       e_metadata = ObjJ [(''settlementId'', TextJ (s_id st)), (''auto'', BoolJ True)]\<rparr>) (\<lambda>_.
     andThen (create_audit \<lparr>l_action = ''SETTLEMENT_AUTO_APPROVED'', l_entityType = ''Settlement'',
       l_entityId = s_id st,
       l_metadata = spread (orderEventMetadata ord)
         ((''orderId'', TextJ (s_orderId st))
          # (case s_reviewEndsAt st of None \<Rightarrow> [] | Some t \<Rightarrow> [(''reviewEndsAt'', TextJ (iso_text t))])),
       l_userId = None, l_organizationId = Some (o_organizationId ord), l_requestId = None\<rparr>) (\<lambda>_.
     ret \<lparr>ao_committed = True, ao_communicationEventIds = []\<rparr>))))))"

record approve_result =
  ar_scanned :: nat
  ar_approved :: nat
  ar_skipped :: nat
  ar_hooks :: "hook_call list"

definition count_approve :: "approve_result \<Rightarrow> string \<Rightarrow> failure + approve_outcome \<Rightarrow> approve_result" where
  "count_approve acc settlementId outcome =
     (case outcome of
        Inl e \<Rightarrow> acc\<lparr>ar_skipped := ar_skipped acc + 1, ar_hooks := ar_hooks acc @ [ErrorHook e settlementId]\<rparr>
      | Inr oc \<Rightarrow>
          (let acc' = acc\<lparr>ar_hooks := ar_hooks acc @ [CommunicationEvents (ao_communicationEventIds oc)]\<rparr>
           in if ao_committed oc then acc'\<lparr>ar_approved := ar_approved acc + 1\<rparr>
              else acc'\<lparr>ar_skipped := ar_skipped acc + 1\<rparr>))"

fun approveRows :: "env \<Rightarrow> (nat \<Rightarrow> weather) \<Rightarrow> nat \<Rightarrow> (settlement_row \<times> order_row) list \<Rightarrow> approve_result
    \<Rightarrow> db \<Rightarrow> approve_result \<times> db" where
  "approveRows env weathers i [] acc s = (acc, s)"
| "approveRows env weathers i ((st, ord) # rest) acc s =
     (let (outcome, s') = runSerializableTransactionWithRetry (weathers i) (autoApproveTx env st ord) s
      in approveRows env weathers (i + 1) rest (count_approve acc (s_id st) outcome) s')"

definition runSettlementAutoApprove ::
    "env \<Rightarrow> (nat \<Rightarrow> weather) \<Rightarrow> nat option \<Rightarrow> int option \<Rightarrow> db \<Rightarrow> approve_result \<times> db" where
  "runSettlementAutoApprove env weathers batchSize now s =
     (let n = (case now of None \<Rightarrow> env_now env | Some t \<Rightarrow> t);
          due = due_settlements (\<lambda>st. in_review st \<and> (case s_reviewEndsAt st of None \<Rightarrow> False | Some t \<Rightarrow> t \<le> n))
            (case batchSize of None \<Rightarrow> 100 | Some b \<Rightarrow> b) s
      in approveRows env weathers 0 due
           \<lparr>ar_scanned = length due, ar_approved = 0, ar_skipped = 0, ar_hooks = []\<rparr> s)"

text \<open>The handler of the worker: what it logs and what it captures for one failure.\<close>

record auto_approve_report =
  rp_message :: string
  rp_settlementId :: string
  rp_err :: string
  rp_sweepRunId :: "string option"
  rp_tags :: "(string \<times> string) list"
  rp_fingerprint :: "string list"

definition failure_message :: "failure \<Rightarrow> string" where
  "failure_message e = (case e of Failure n m \<Rightarrow> m | CodedFailure n c m \<Rightarrow> m
     | TransitionFailure c m r \<Rightarrow> m
     | DbFailure d \<Rightarrow> (case pe_error_code d of None \<Rightarrow> [] | Some c \<Rightarrow> c))"

definition makeAutoApproveOnError :: "string \<Rightarrow> string option \<Rightarrow> failure \<Rightarrow> string \<Rightarrow> auto_approve_report" where
  "makeAutoApproveOnError jobName sweepRunId err settlementId =
     \<lparr>rp_message = ''per-settlement transaction failed in auto-approve sweep'', rp_settlementId = settlementId,
      rp_err = failure_message err, rp_sweepRunId = sweepRunId,
      rp_tags = [(''queue'', ''settlement''), (''job'', jobName),
        (''sweepRunId'', case sweepRunId of None \<Rightarrow> ''unknown'' | Some r \<Rightarrow> r)],
      rp_fingerprint = [''settlement-auto-approve'', settlementId]\<rparr>"

definition countStaleReviewSettlements :: "env \<Rightarrow> int option \<Rightarrow> int option \<Rightarrow> db \<Rightarrow> nat" where
  "countStaleReviewSettlements env now staleThresholdHours s =
     (let n = (case now of None \<Rightarrow> env_now env | Some t \<Rightarrow> t);
          threshold = n - (case staleThresholdHours of None \<Rightarrow> 24 | Some h \<Rightarrow> h) * 60 * 60 * 1000
      in count_where (\<lambda>st. in_review st \<and> (case s_reviewEndsAt st of None \<Rightarrow> False | Some t \<Rightarrow> t < threshold))
           (settlements s))"

section \<open>Automatic release\<close>

definition AUTO_RELEASE_RECHECK_MAX_AGE_MS :: int where
  "AUTO_RELEASE_RECHECK_MAX_AGE_MS = 12 * 60 * 60 * 1000"

definition isFreshSuccessfulAutoReleaseEvidence :: "evidence_row option \<Rightarrow> int \<Rightarrow> bool" where
  "isFreshSuccessfulAutoReleaseEvidence row releaseAt =
     (case row of None \<Rightarrow> False
      | Some e \<Rightarrow>
          (if ev_checkedAt e > releaseAt \<or> ev_createdAt e > releaseAt
              \<or> releaseAt - ev_checkedAt e > AUTO_RELEASE_RECHECK_MAX_AGE_MS then False
           else ev_httpStatus e \<in> {200, 301, 302} \<and> ev_linkFound e \<and> ev_targetUrlMatched e \<and> ev_anchorFound e))"

definition newest_first :: "evidence_row \<Rightarrow> evidence_row \<Rightarrow> int" where
  "newest_first a b =
     (if ev_checkedAt a \<noteq> ev_checkedAt b then ev_checkedAt b - ev_checkedAt a
      else if ev_createdAt a \<noteq> ev_createdAt b then ev_createdAt b - ev_createdAt a
      else text_compare (ev_id b) (ev_id a))"

definition latest_evidence :: "string option \<Rightarrow> db \<Rightarrow> evidence_row option" where
  "latest_evidence deliveryVersionId s =
     (case sort_by newest_first (filter (\<lambda>e. Some (ev_deliveryVersionId e) = deliveryVersionId) (delivery_evidence s)) of
        [] \<Rightarrow> None | e # _ \<Rightarrow> Some e)"

definition number_of_column :: "int option \<Rightarrow> rat" where
  "number_of_column d = (case d of None \<Rightarrow> 0 | Some z \<Rightarrow> of_int z / of_int MONEY_FACTOR)"

definition race_failure :: failure where
  "race_failure = Failure ''SettlementAutoReleaseRaceError'' []"

text \<open>The risk of the order now; \<open>None\<close> when the order is gone.\<close>

definition currentRiskPolicy :: "settlement_row \<Rightarrow> release_policy option tx" where
  "currentRiskPolicy st =
     andThen (query (find_order (s_orderId st))) (\<lambda>currentOrder.
     case currentOrder of None \<Rightarrow> ret None
     | Some r \<Rightarrow>
         andThen (query (\<lambda>s. map_option p_tier (find (\<lambda>p. p_id p = s_publisherId st) (publishers s)))) (\<lambda>tier.
         andThen (loadSettlementCustomerHistory (Some (o_organizationId r)) (Some (o_customerId r))) (\<lambda>history.
         ret (Some (computeSettlementReleasePolicy defaultWorkflowConfig (o_verifyMethod r)
           (Some (number_of_column (o_amount r))) tier [] (Some history))))))"

text \<open>The claims on settlement and order, with the administrator's approval.\<close>

definition claimRelease :: "env \<Rightarrow> int \<Rightarrow> settlement_row \<Rightarrow> settlement_row \<Rightarrow> int \<Rightarrow> unit tx" where
  "claimRelease env releaseAt st fresh orderVersion =
     andThen (upsert_approval env id (new_approval (s_id st) ''ADMIN'' ''SYSTEM_AUTO_RELEASE'' ''SYSTEM'')) (\<lambda>_.
     andThen (update_settlements
       (\<lambda>r. s_id r = s_id st \<and> s_status r = ''CUSTOMER_APPROVED'' \<and> s_version r = s_version fresh)
       (\<lambda>r. r\<lparr>s_status := ''RELEASED'', s_currency := ''USD'', s_settledAt := Some releaseAt,
              s_version := s_version r + 1, s_updatedAt := env_now env\<rparr>)) (\<lambda>updated.
     andThen (require (updated \<noteq> 0) race_failure) (\<lambda>_.
     andThen (update_orders
       (\<lambda>r. o_id r = s_orderId st \<and> o_version r = orderVersion \<and> o_status r = ''DELIVERED''
          \<and> o_currency r = ''USD'' \<and> o_paymentStatus r = ''PAID'')
       (\<lambda>r. r\<lparr>o_status := ''COMPLETED'', o_version := o_version r + 1\<rparr>)) (\<lambda>orderUpdate.
     require (orderUpdate \<noteq> 0) race_failure))))"

text \<open>The split of the publisher's amount: what repays debt and what is credited, in cents.\<close>

definition nettedAmounts :: "settlement_row \<Rightarrow> balance_row option \<Rightarrow> (int \<times> int) tx" where
  "nettedAmounts fresh balance =
     andThen (case balance of None \<Rightarrow> ret ()
       | Some b \<Rightarrow> lift_sum error (requireUsd (b_currency b) ''Publisher balance'')) (\<lambda>_.
     andThen (lift_sum error (exactUsdCents (column (s_publisherAmount fresh)) ''Settlement publisher amount''))
       (\<lambda>publisherAmount.
     andThen (require (publisherAmount > 0) (error ''Settlement publisher amount must be positive'')) (\<lambda>_.
     andThen (lift_sum error (exactUsdCents
       (case balance of None \<Rightarrow> JNum ''0'' | Some b \<Rightarrow> column (b_debtBalance b)) ''Publisher debt balance'')) (\<lambda>debt.
     andThen (require (\<not> debt < 0) (error ''Publisher debt balance cannot be negative'')) (\<lambda>_.
     ret (publisherAmount, if debt < publisherAmount then debt else publisherAmount))))))"

definition invariant_failure :: "string \<Rightarrow> int \<Rightarrow> int \<Rightarrow> failure" where
  "invariant_failure publisherId withdrawable debt =
     error (''Balance invariant violation: withdrawable='' @ usdAmount withdrawable @ '' debt='' @ usdAmount debt
       @ '' for publisher '' @ publisherId)"

definition creditBalance :: "settlement_row \<Rightarrow> balance_row option \<Rightarrow> int \<Rightarrow> int \<Rightarrow> unit tx" where
  "creditBalance st balance publisherAmount debtApplied =
     (case balance of
        Some b \<Rightarrow>
          andThen (update_balances (\<lambda>r. b_publisherId r = s_publisherId st \<and> b_version r = b_version b)
            (\<lambda>r. r\<lparr>b_currency := ''USD'',
                  b_withdrawableBalance := b_withdrawableBalance r + db_decimal (usdAmount (publisherAmount - debtApplied)),
                  b_debtBalance := b_debtBalance r - db_decimal (usdAmount debtApplied),
                  b_lifetimeEarnings := b_lifetimeEarnings r + db_decimal (usdAmount publisherAmount),
                  b_version := b_version r + 1\<rparr>)) (\<lambda>balUpdated.
          andThen (require (balUpdated \<noteq> 0) race_failure) (\<lambda>_.
          andThen (query (find_balance (s_publisherId st))) (\<lambda>freshBal.
          case freshBal of None \<Rightarrow> ret ()
          | Some f \<Rightarrow>
              andThen (lift_sum error (exactUsdCents (column (b_withdrawableBalance f)) ''Publisher withdrawable balance''))
                (\<lambda>withdrawable.
              andThen (lift_sum error (exactUsdCents (column (b_debtBalance f)) ''Publisher debt balance'')) (\<lambda>freshDebt.
              require (\<not> (withdrawable < 0 \<or> freshDebt < 0))
                (invariant_failure (s_publisherId st) withdrawable freshDebt))))))
      | None \<Rightarrow>
          modify (\<lambda>s. s\<lparr>balances := balances s @ [\<lparr>b_publisherId = s_publisherId st, b_currency = ''USD'',
            b_withdrawableBalance = db_decimal (usdAmount publisherAmount), b_debtBalance = 0,
            b_lifetimeEarnings = db_decimal (usdAmount publisherAmount), b_lifetimePaid = 0, b_version = 0,
            b_allocationCarryForward = 0, b_allocationCarryForwardUsed = 0, b_allocationCutoverAt = None\<rparr>]\<rparr>))"

definition recordRelease :: "env \<Rightarrow> settlement_row \<Rightarrow> order_row \<Rightarrow> int \<Rightarrow> int \<Rightarrow> unit tx" where
  "recordRelease env st ord publisherAmount debtApplied =
     andThen (create_transaction env (new_transaction\<lparr>t_amount := db_decimal (usdAmount publisherAmount),
       t_currency := ''USD'', t_type := ''SETTLEMENT_RELEASE'', t_orderId := Some (s_orderId st),
       t_publisherId := Some (s_publisherId st), t_settlementId := Some (s_id st),
       t_description := Some (''Auto-release of '' @ usdAmount publisherAmount @ '' for order '' @ s_orderId st)\<rparr>)) (\<lambda>_.
     andThen (if debtApplied > 0 then
         andThen (create_transaction env (new_transaction\<lparr>t_amount := db_decimal (usdAmount (- debtApplied)),
           t_currency := ''USD'', t_type := ''DEBT_REPAYMENT'', t_orderId := Some (s_orderId st),
           t_publisherId := Some (s_publisherId st), t_settlementId := Some (s_id st),
           t_description := Some (''Debt repayment of '' @ usdAmount debtApplied @ '' netted from auto-release'')\<rparr>))
           (\<lambda>_. ret ())
       else ret ()) (\<lambda>_.
     andThen (create_event \<lparr>e_orderId = s_orderId st, e_settlementId = Some (s_id st),
       e_eventType = ''SETTLEMENT_RELEASED'', e_actorId = None,
       e_message = ''Settlement auto-released '' @ em_dash @ '' '' @ usdAmount publisherAmount
         @ '' added to publisher balance'',
       e_metadata = ObjJ [(''settlementId'', TextJ (s_id st)), (''publisherAmount'', TextJ (usdAmount publisherAmount)),
         (''auto'', BoolJ True)]\<rparr>) (\<lambda>_.
     create_audit \<lparr>l_action = ''SETTLEMENT_AUTO_RELEASED'', l_entityType = ''Settlement'', l_entityId = s_id st,
       l_metadata = spread (orderEventMetadata ord)
         [(''orderId'', TextJ (s_orderId st)), (''publisherAmount'', TextJ (usdAmount publisherAmount)),
          (''debtApplied'', TextJ (usdAmount debtApplied))],
       l_userId = None, l_organizationId = Some (o_organizationId ord), l_requestId = None\<rparr>)))"

datatype release_outcome =
    EligibilityBlocked "string list" | NotReleasable | RiskBlocked | FreshnessBlocked | Released

definition releaseMoney ::
    "env \<Rightarrow> int \<Rightarrow> settlement_row \<Rightarrow> order_row \<Rightarrow> settlement_row \<Rightarrow> eligibility_snapshot \<Rightarrow> release_outcome tx" where
  "releaseMoney env releaseAt st ord fresh snapshot =
     andThen (lift_sum error (requireUsd (sn_orderCurrency snapshot) ''Order'')) (\<lambda>_.
     andThen (lift_sum error (requireUsd (s_currency fresh) ''Settlement'')) (\<lambda>_.
     andThen (claimRelease env releaseAt st fresh (sn_orderVersion snapshot)) (\<lambda>_.
     andThen (query (find_balance (s_publisherId st))) (\<lambda>balance.
     andThen (nettedAmounts fresh balance) (\<lambda>(publisherAmount, debtApplied).
     andThen (creditBalance st balance publisherAmount debtApplied) (\<lambda>_.
     andThen (recordRelease env st ord publisherAmount debtApplied) (\<lambda>_.
     ret Released)))))))"

definition autoReleaseTx :: "env \<Rightarrow> int option \<Rightarrow> settlement_row \<Rightarrow> order_row \<Rightarrow> release_outcome tx" where
  "autoReleaseTx env now st ord =
     andThen (evaluateLockedSettlementEligibility env (s_orderId st)) (\<lambda>eligibility.
     if \<not> el_eligible (le_eligibility eligibility) then
       ret (EligibilityBlocked (opt_list (le_urlReuseCommunicationEventId eligibility)))
     else
     andThen (query (find_settlement (s_id st))) (\<lambda>found.
     case found of None \<Rightarrow> ret NotReleasable
     | Some fresh \<Rightarrow>
       if s_status fresh \<noteq> ''CUSTOMER_APPROVED'' \<or> s_releasePolicy fresh \<noteq> ''AUTO'' then ret NotReleasable
       else
       andThen (currentRiskPolicy st) (\<lambda>policy.
       if policy \<noteq> Some AUTO then ret RiskBlocked
       else
       let releaseAt = (case now of None \<Rightarrow> env_now env | Some t \<Rightarrow> t)
       in andThen (query (latest_evidence (sn_activeDeliveryVersionId (le_snapshot eligibility)))) (\<lambda>latest.
          if \<not> isFreshSuccessfulAutoReleaseEvidence latest releaseAt then ret FreshnessBlocked
          else releaseMoney env releaseAt st ord fresh (le_snapshot eligibility)))))"

record release_result =
  rr_scanned :: nat
  rr_released :: nat
  rr_skipped :: nat
  rr_freshnessBlocked :: nat
  rr_riskBlocked :: nat
  rr_hooks :: "hook_call list"

definition count_release :: "release_result \<Rightarrow> settlement_row \<Rightarrow> failure + release_outcome \<Rightarrow> release_result" where
  "count_release acc st outcome =
     (case outcome of
        Inl e \<Rightarrow> acc\<lparr>rr_skipped := rr_skipped acc + 1, rr_hooks := rr_hooks acc @ [ErrorHook e (s_id st)]\<rparr>
      | Inr (EligibilityBlocked ids) \<Rightarrow>
          acc\<lparr>rr_skipped := rr_skipped acc + 1, rr_hooks := rr_hooks acc @ [CommunicationEvents ids]\<rparr>
      | Inr Released \<Rightarrow>
          acc\<lparr>rr_released := rr_released acc + 1,
              rr_hooks := rr_hooks acc @ [ReleaseHook (s_publisherId st) (s_orderId st) (s_id st)]\<rparr>
      | Inr FreshnessBlocked \<Rightarrow>
          acc\<lparr>rr_freshnessBlocked := rr_freshnessBlocked acc + 1, rr_skipped := rr_skipped acc + 1\<rparr>
      | Inr RiskBlocked \<Rightarrow>
          acc\<lparr>rr_riskBlocked := rr_riskBlocked acc + 1, rr_skipped := rr_skipped acc + 1\<rparr>
      | Inr NotReleasable \<Rightarrow> acc\<lparr>rr_skipped := rr_skipped acc + 1\<rparr>)"

fun releaseRows :: "env \<Rightarrow> int option \<Rightarrow> (nat \<Rightarrow> weather) \<Rightarrow> nat \<Rightarrow> (settlement_row \<times> order_row) list
    \<Rightarrow> release_result \<Rightarrow> db \<Rightarrow> release_result \<times> db" where
  "releaseRows env now weathers i [] acc s = (acc, s)"
| "releaseRows env now weathers i ((st, ord) # rest) acc s =
     (let (outcome, s') = runSerializableTransactionWithRetry (weathers i) (autoReleaseTx env now st ord) s
      in releaseRows env now weathers (i + 1) rest (count_release acc st outcome) s')"

definition runSettlementAutoRelease ::
    "env \<Rightarrow> (nat \<Rightarrow> weather) \<Rightarrow> nat option \<Rightarrow> int option \<Rightarrow> db \<Rightarrow> release_result \<times> db" where
  "runSettlementAutoRelease env weathers batchSize now s =
     (let due = due_settlements (\<lambda>st. s_status st = ''CUSTOMER_APPROVED'' \<and> s_releasePolicy st = ''AUTO'')
            (case batchSize of None \<Rightarrow> 100 | Some b \<Rightarrow> b) s;
          eligible = filter (\<lambda>p. computeAutoReleaseEligibility defaultWorkflowConfig (s_releasePolicy (fst p))) due
      in releaseRows env now weathers 0 eligible
           \<lparr>rr_scanned = length due, rr_released = 0, rr_skipped = 0, rr_freshnessBlocked = 0, rr_riskBlocked = 0,
            rr_hooks = []\<rparr> s)"

definition countStaleReleaseSettlements :: "env \<Rightarrow> int option \<Rightarrow> int option \<Rightarrow> db \<Rightarrow> nat" where
  "countStaleReleaseSettlements env now staleThresholdHours s =
     (let n = (case now of None \<Rightarrow> env_now env | Some t \<Rightarrow> t);
          staleCutoff = n - (case staleThresholdHours of None \<Rightarrow> 24 | Some h \<Rightarrow> h) * 60 * 60 * 1000
      in count_where (\<lambda>st. (s_status st = ''CUSTOMER_APPROVED'' \<or> s_status st = ''ADMIN_APPROVED'')
            \<and> s_releasePolicy st = ''AUTO'' \<and> s_settledAt st = None \<and> s_updatedAt st < staleCutoff) (settlements s))"

section \<open>The phases of a release\<close>

text \<open>An approval touches nothing but its table and the supply of identifiers.\<close>

definition approval_given :: "string \<Rightarrow> string \<Rightarrow> db \<Rightarrow> bool" where
  "approval_given sid approval_type s \<longleftrightarrow> list_ex (\<lambda>r. a_settlementId r = sid \<and> a_type r = approval_type) (approvals s)"

lemma create_approval_Inr:
  "create_approval env a s = Inr r \<longleftrightarrow> \<not> approval_given (a_settlementId a) (a_type a) s
     \<and> list_all (\<lambda>x. a_id x \<noteq> env_cuid env (id_supply s)) (approvals s)
     \<and> r = ((), s\<lparr>id_supply := id_supply s + 1,
                approvals := approvals s @ [a\<lparr>a_id := env_cuid env (id_supply s), a_approvedAt := env_now env\<rparr>]\<rparr>)"
  by (auto simp: create_approval_def approval_given_def tx_simps)

lemma upsert_approval_Inr:
  assumes "upsert_approval env f a s = Inr (u, s')"
    and f: "\<And>r. a_settlementId (f r) = a_settlementId r \<and> a_type (f r) = a_type r"
  obtains rows n where "s' = s\<lparr>approvals := rows, id_supply := n\<rparr>" "approval_given (a_settlementId a) (a_type a) s'"
    "\<And>i ty. approval_given i ty s' \<longleftrightarrow> approval_given i ty s \<or> i = a_settlementId a \<and> ty = a_type a"
proof (cases "approval_given (a_settlementId a) (a_type a) s")
  case True
  then have s': "s' = s\<lparr>approvals := update_where
      (\<lambda>r. a_settlementId r = a_settlementId a \<and> a_type r = a_type a) f (approvals s)\<rparr>"
    using assms(1) by (auto simp: upsert_approval_def approval_given_def tx_simps)
  have "approval_given i ty s' = approval_given i ty s" for i ty
    using f by (auto simp: s' approval_given_def update_where_def list_ex_iff)
  with True s' show thesis by (intro that[where rows = "approvals s'" and n = "id_supply s"]) auto
next
  case False
  then have "create_approval env a s = Inr (u, s')"
    using assms(1) by (auto simp: upsert_approval_def approval_given_def tx_simps)
  then have s': "s' = s\<lparr>id_supply := id_supply s + 1,
      approvals := approvals s @ [a\<lparr>a_id := env_cuid env (id_supply s), a_approvedAt := env_now env\<rparr>]\<rparr>"
    by (simp add: create_approval_Inr)
  show thesis
    by (rule that[where rows = "approvals s'" and n = "id_supply s'"]) (auto simp: s' approval_given_def)
qed

lemma CENT_nonneg [simp]: "0 \<le> CENT"
  by (simp add: CENT_def)

lemma requireUsd_Inr [simp]: "requireUsd v l = Inr u \<longleftrightarrow> v = ''USD''"
  by (auto simp: requireUsd_def)

lemma exactUsdCents_Inr: "exactUsdCents (column d) l = Inr c \<longleftrightarrow> d = c * CENT"
  using CENT_pos(2) by (auto simp: exactUsdCents_column elim!: dvdE)

lemma exactUsdCents_zero: "exactUsdCents (JNum ''0'') l = Inr 0"
  by (simp add: exactUsdCents_def truthy_text_def split_minus_def match_cents_def match_number_def
      all_digits_def pad_end_def digits_val_def Let_def numeral_2_eq_2)

definition withdrawable_of :: "string \<Rightarrow> db \<Rightarrow> int" where
  "withdrawable_of pid s = (case find_balance pid s of None \<Rightarrow> 0 | Some b \<Rightarrow> b_withdrawableBalance b)"

definition debt_of :: "string \<Rightarrow> db \<Rightarrow> int" where
  "debt_of pid s = (case find_balance pid s of None \<Rightarrow> 0 | Some b \<Rightarrow> b_debtBalance b)"

definition earned_of :: "string \<Rightarrow> db \<Rightarrow> int" where
  "earned_of pid s = (case find_balance pid s of None \<Rightarrow> 0 | Some b \<Rightarrow> b_lifetimeEarnings b)"

lemma claimRelease_Inr:
  assumes wf: "db_wf s" and o: "find_order (s_orderId st) s = Some r"
    and f: "find_settlement (s_id st) s = Some fresh"
    and c: "claimRelease env t st fresh v s = Inr (u, s')"
  shows "v = o_version r \<and> o_status r = ''DELIVERED'' \<and> o_currency r = ''USD'' \<and> o_paymentStatus r = ''PAID''
    \<and> s_status fresh = ''CUSTOMER_APPROVED''"
    "find_order (s_orderId st) s' = Some (r\<lparr>o_status := ''COMPLETED'', o_version := o_version r + 1\<rparr>)"
    "find_settlement (s_id st) s' = Some (fresh\<lparr>s_status := ''RELEASED'', s_currency := ''USD'',
       s_settledAt := Some t, s_version := s_version fresh + 1, s_updatedAt := env_now env\<rparr>)"
    "balances s' = balances s" "transactions s' = transactions s" "order_events s' = order_events s"
    "wallets s' = wallets s" "db_wf s'"
proof -
  let ?ps = "\<lambda>r. s_id r = s_id st \<and> s_status r = ''CUSTOMER_APPROVED'' \<and> s_version r = s_version fresh"
  let ?fs = "\<lambda>r. r\<lparr>s_status := ''RELEASED'', s_currency := ''USD'', s_settledAt := Some t,
              s_version := s_version r + 1, s_updatedAt := env_now env\<rparr>"
  let ?po = "\<lambda>r. o_id r = s_orderId st \<and> o_version r = v \<and> o_status r = ''DELIVERED''
          \<and> o_currency r = ''USD'' \<and> o_paymentStatus r = ''PAID''"
  let ?fo = "\<lambda>r. r\<lparr>o_status := ''COMPLETED'', o_version := o_version r + 1\<rparr>"
  obtain s0 where up: "upsert_approval env id (new_approval (s_id st) ''ADMIN'' ''SYSTEM_AUTO_RELEASE'' ''SYSTEM'') s = Inr ((), s0)"
    and rest: "s' = s0\<lparr>settlements := update_where ?ps ?fs (settlements s0), orders := update_where ?po ?fo (orders s0)\<rparr>"
    "count_where ?ps (settlements s0) \<noteq> 0" "count_where ?po (orders s0) \<noteq> 0"
    using c by (auto simp: claimRelease_def tx_simps)
  obtain a n where s0: "s0 = s\<lparr>approvals := a, id_supply := n\<rparr>"
    by (rule upsert_approval_Inr[OF up]) simp_all
  have s': "s' = s\<lparr>approvals := a, id_supply := n, settlements := update_where ?ps ?fs (settlements s),
      orders := update_where ?po ?fo (orders s)\<rparr>"
    and cs: "count_where ?ps (settlements s) \<noteq> 0" and co: "count_where ?po (orders s) \<noteq> 0"
    using rest by (simp_all add: s0)
  have ps: "?ps fresh"
    using cs count_found[OF db_wfD(3)[OF wf] f[unfolded find_settlement_def]]
      find_key[OF f[unfolded find_settlement_def]] by (auto split: if_splits)
  have po: "?po r"
    using co count_found[OF db_wfD(1)[OF wf] o[unfolded find_order_def]]
      find_key[OF o[unfolded find_order_def]] by (auto split: if_splits)
  show "v = o_version r \<and> o_status r = ''DELIVERED'' \<and> o_currency r = ''USD'' \<and> o_paymentStatus r = ''PAID''
    \<and> s_status fresh = ''CUSTOMER_APPROVED''" using ps po by auto
  show "find_order (s_orderId st) s' = Some (r\<lparr>o_status := ''COMPLETED'', o_version := o_version r + 1\<rparr>)"
    using o po by (simp add: s' find_order_def find_update_where)
  show "find_settlement (s_id st) s' = Some (fresh\<lparr>s_status := ''RELEASED'', s_currency := ''USD'',
       s_settledAt := Some t, s_version := s_version fresh + 1, s_updatedAt := env_now env\<rparr>)"
    using f ps by (simp add: s' find_settlement_def find_update_where)
  show "db_wf s'" using wf by (simp add: s' db_wf_def map_update_where)
  show "balances s' = balances s" "transactions s' = transactions s" "order_events s' = order_events s"
    "wallets s' = wallets s" by (simp_all add: s')
qed

lemma nettedAmounts_Inr:
  "nettedAmounts fresh balance s = Inr ((p, d), s') \<longleftrightarrow>
     s' = s \<and> 0 < p \<and> s_publisherAmount fresh = p * CENT
     \<and> (case balance of None \<Rightarrow> d = 0
        | Some b \<Rightarrow> b_currency b = ''USD'' \<and> (\<exists>debt \<ge> 0. b_debtBalance b = debt * CENT \<and> d = min debt p))"
proof (cases balance)
  case None
  have "nettedAmounts fresh None s = Inr ((p, d), s') \<longleftrightarrow>
      (\<exists>x. s_publisherAmount fresh = x * CENT \<and> 0 < x \<and> p = x \<and> d = 0 \<and> s' = s)"
    by (simp add: nettedAmounts_def tx_simps exactUsdCents_Inr exactUsdCents_zero)
  then show ?thesis using None by auto
next
  case (Some b)
  have "nettedAmounts fresh (Some b) s = Inr ((p, d), s') \<longleftrightarrow> b_currency b = ''USD'' \<and>
      (\<exists>x. s_publisherAmount fresh = x * CENT \<and> 0 < x \<and>
         (\<exists>debt. b_debtBalance b = debt * CENT \<and> \<not> debt < 0 \<and> p = x
            \<and> d = (if debt < x then debt else x) \<and> s' = s))"
    by (simp add: nettedAmounts_def tx_simps exactUsdCents_Inr)
  moreover have "(if debt < x then debt else x) = min debt x" for debt x :: int by (simp add: min_def)
  ultimately show ?thesis unfolding Some option.case not_less by auto
qed

lemma creditBalance_Inr:
  assumes wf: "db_wf s" and b: "balance = find_balance (s_publisherId st) s"
    and c: "creditBalance st balance p d s = Inr (u, s')" and p: "0 < p" and d: "balance = None \<longrightarrow> d = 0"
  shows "withdrawable_of (s_publisherId st) s' = withdrawable_of (s_publisherId st) s + (p - d) * CENT
    \<and> debt_of (s_publisherId st) s' = debt_of (s_publisherId st) s - d * CENT
    \<and> earned_of (s_publisherId st) s' = earned_of (s_publisherId st) s + p * CENT
    \<and> 0 \<le> withdrawable_of (s_publisherId st) s' \<and> 0 \<le> debt_of (s_publisherId st) s'
    \<and> orders s' = orders s \<and> settlements s' = settlements s \<and> transactions s' = transactions s
    \<and> order_events s' = order_events s \<and> wallets s' = wallets s \<and> id_supply s' = id_supply s \<and> db_wf s'
    \<and> (\<forall>pid. pid \<noteq> s_publisherId st \<longrightarrow> find_balance pid s' = find_balance pid s)"
proof (cases "find_balance (s_publisherId st) s")
  case None
  with b d have d0: "d = 0" and bn: "balance = None" by simp_all
  let ?new = "\<lparr>b_publisherId = s_publisherId st, b_currency = ''USD'', b_withdrawableBalance = p * CENT,
    b_debtBalance = 0, b_lifetimeEarnings = p * CENT, b_lifetimePaid = 0, b_version = 0,
    b_allocationCarryForward = 0, b_allocationCarryForwardUsed = 0, b_allocationCutoverAt = None\<rparr>"
  have s': "s' = s\<lparr>balances := balances s @ [?new]\<rparr>"
    using c by (simp add: creditBalance_def bn tx_simps)
  have fb: "find_balance pid s' = (case find_balance pid s of
      None \<Rightarrow> if s_publisherId st = pid then Some ?new else None | Some r \<Rightarrow> Some r)" for pid
    by (simp add: s' find_balance_def find_append split: option.split)
  have wf': "db_wf s'"
    using wf None by (auto simp: s' db_wf_def find_balance_def find_none)
  have pos: "0 \<le> p * CENT" using p CENT_pos(1) by (intro mult_nonneg_nonneg less_imp_le) simp_all
  show ?thesis
    using wf' pos None unfolding withdrawable_of_def debt_of_def earned_of_def fb
    by (simp add: s' d0 split: option.split)
next
  case (Some bal)
  let ?p = "\<lambda>r. b_publisherId r = s_publisherId st \<and> b_version r = b_version bal"
  let ?f = "\<lambda>r. r\<lparr>b_currency := ''USD'',
                  b_withdrawableBalance := b_withdrawableBalance r + (p - d) * CENT,
                  b_debtBalance := b_debtBalance r - d * CENT,
                  b_lifetimeEarnings := b_lifetimeEarnings r + p * CENT,
                  b_version := b_version r + 1\<rparr>"
  have fb: "find_balance pid (s\<lparr>balances := update_where ?p ?f (balances s)\<rparr>)
      = map_option (\<lambda>r. if ?p r then ?f r else r) (find_balance pid s)" for pid
    by (simp add: find_balance_def find_update_where)
  have id: "b_publisherId r = pid" if "find_balance pid s = Some r" for pid r
    using find_key[OF that[unfolded find_balance_def]] by simp
  have bal: "b_publisherId bal = s_publisherId st" by (rule id[OF Some])
  have other: "find_balance pid (s\<lparr>balances := update_where ?p ?f (balances s)\<rparr>) = find_balance pid s"
    if "pid \<noteq> s_publisherId st" for pid
    unfolding fb using that id by (cases "find_balance pid s") fastforce+
  have s': "s' = s\<lparr>balances := update_where ?p ?f (balances s)\<rparr>"
    and nn: "\<exists>w dd. 0 \<le> w \<and> 0 \<le> dd \<and> b_withdrawableBalance (?f bal) = w * CENT \<and> b_debtBalance (?f bal) = dd * CENT"
  proof -
    have fbS: "find_balance (s_publisherId st) (s\<lparr>balances := update_where ?p ?f (balances s)\<rparr>) = Some (?f bal)"
      using fb[of "s_publisherId st"] Some bal by simp
    show "s' = s\<lparr>balances := update_where ?p ?f (balances s)\<rparr>"
      "\<exists>w dd. 0 \<le> w \<and> 0 \<le> dd \<and> b_withdrawableBalance (?f bal) = w * CENT \<and> b_debtBalance (?f bal) = dd * CENT"
      using c unfolding creditBalance_def b Some option.case
      by (auto simp: tx_simps exactUsdCents_Inr fbS not_less)
  qed
  have wf': "db_wf s'" using wf by (simp add: s' db_wf_def map_update_where)
  show ?thesis
  proof -
    obtain w dd where wd: "0 \<le> w" "0 \<le> dd" "b_withdrawableBalance (?f bal) = w * CENT"
      "b_debtBalance (?f bal) = dd * CENT" using nn by blast
    have "0 \<le> b_withdrawableBalance (?f bal)" "0 \<le> b_debtBalance (?f bal)"
      unfolding wd(3,4) using wd(1,2) by simp_all
    then show ?thesis
      using bal Some other wf' unfolding withdrawable_of_def debt_of_def earned_of_def
      by (simp add: s' fb)
  qed
qed

text \<open>The ledger rows of a release of \<open>p\<close> cents of which \<open>d\<close> repay debt.\<close>

definition release_rows :: "env \<Rightarrow> nat \<Rightarrow> settlement_row \<Rightarrow> int \<Rightarrow> int \<Rightarrow> transaction_row list" where
  "release_rows env n st p d =
     new_transaction\<lparr>t_amount := p * CENT, t_currency := ''USD'', t_type := ''SETTLEMENT_RELEASE'',
       t_orderId := Some (s_orderId st), t_publisherId := Some (s_publisherId st), t_settlementId := Some (s_id st),
       t_description := Some (''Auto-release of '' @ usdAmount p @ '' for order '' @ s_orderId st), t_id := env_cuid env n, t_createdAt := env_now env\<rparr>
     # (if 0 < d then [new_transaction\<lparr>t_amount := (- d) * CENT, t_currency := ''USD'', t_type := ''DEBT_REPAYMENT'',
       t_orderId := Some (s_orderId st), t_publisherId := Some (s_publisherId st), t_settlementId := Some (s_id st),
       t_description := Some (''Debt repayment of '' @ usdAmount d @ '' netted from auto-release''),
       t_id := env_cuid env (n + 1), t_createdAt := env_now env\<rparr>] else [])"

lemma recordRelease_Inr:
  assumes "recordRelease env st ord p d s = Inr (u, s')"
  shows "transactions s' = transactions s @ release_rows env (id_supply s) st p d"
    "\<exists>e. order_events s' = order_events s @ [e] \<and> e_eventType e = ''SETTLEMENT_RELEASED''
       \<and> e_settlementId e = Some (s_id st) \<and> e_orderId e = s_orderId st"
    "orders s' = orders s" "settlements s' = settlements s" "balances s' = balances s" "wallets s' = wallets s"
  using assms
  by (auto simp: recordRelease_def tx_simps release_rows_def)

text \<open>What a release did, between two databases.\<close>

record release_facts =
  lf_order :: order_row
  lf_delivery :: delivery_row
  lf_settlement :: settlement_row
  lf_evidence :: evidence_row
  lf_paid :: int
  lf_netted :: int
  lf_supply :: nat

definition released_between ::
    "env \<Rightarrow> int option \<Rightarrow> settlement_row \<Rightarrow> db \<Rightarrow> db \<Rightarrow> release_facts \<Rightarrow> bool" where
  "released_between env now st s s' f \<longleftrightarrow>
     (let t = (case now of None \<Rightarrow> env_now env | Some t \<Rightarrow> t); pid = s_publisherId st
      in find_order (s_orderId st) s = Some (lf_order f) \<and> settleable s (s_orderId st) (lf_order f) (lf_delivery f)
       \<and> find_settlement (s_id st) s = Some (lf_settlement f)
       \<and> s_status (lf_settlement f) = ''CUSTOMER_APPROVED'' \<and> s_releasePolicy (lf_settlement f) = ''AUTO''
       \<and> s_currency (lf_settlement f) = ''USD''
       \<and> latest_evidence (Some (v_id (lf_delivery f))) s = Some (lf_evidence f)
       \<and> isFreshSuccessfulAutoReleaseEvidence (Some (lf_evidence f)) t
       \<and> 0 < lf_paid f \<and> s_publisherAmount (lf_settlement f) = lf_paid f * CENT
       \<and> lf_netted f * CENT = min (debt_of pid s) (lf_paid f * CENT) \<and> 0 \<le> lf_netted f
       \<and> find_order (s_orderId st) s' =
           Some ((lf_order f)\<lparr>o_status := ''COMPLETED'', o_version := o_version (lf_order f) + 1\<rparr>)
       \<and> find_settlement (s_id st) s' =
           Some ((lf_settlement f)\<lparr>s_status := ''RELEASED'', s_currency := ''USD'', s_settledAt := Some t,
             s_version := s_version (lf_settlement f) + 1, s_updatedAt := env_now env\<rparr>)
       \<and> withdrawable_of pid s' = withdrawable_of pid s + (lf_paid f - lf_netted f) * CENT
       \<and> debt_of pid s' = debt_of pid s - lf_netted f * CENT
       \<and> earned_of pid s' = earned_of pid s + lf_paid f * CENT
       \<and> 0 \<le> withdrawable_of pid s' \<and> 0 \<le> debt_of pid s'
       \<and> (\<forall>other. other \<noteq> pid \<longrightarrow> find_balance other s' = find_balance other s)
       \<and> wallets s' = wallets s
       \<and> transactions s' = transactions s @ release_rows env (lf_supply f) st (lf_paid f) (lf_netted f)
       \<and> (\<exists>e. order_events s' = order_events s @ [e] \<and> e_eventType e = ''SETTLEMENT_RELEASED''
            \<and> e_settlementId e = Some (s_id st) \<and> e_orderId e = s_orderId st))"

lemma currentRiskPolicy_state: "currentRiskPolicy st s = Inr (p, s') \<Longrightarrow> s' = s"
  by (auto simp: currentRiskPolicy_def tx_simps split: option.splits)

lemma netted_debt:
  assumes "nettedAmounts fresh (find_balance pid s) s1 = Inr ((p, d), s2)"
  shows "d * CENT = min (debt_of pid s) (p * CENT) \<and> 0 \<le> d"
proof (cases "find_balance pid s")
  case None
  have "0 \<le> p * CENT" using assms CENT_pos(1)
    by (intro mult_nonneg_nonneg less_imp_le) (simp_all add: nettedAmounts_Inr)
  with None assms show ?thesis by (simp add: nettedAmounts_Inr debt_of_def)
next
  case (Some b)
  then obtain debt where debt: "0 \<le> debt" "b_debtBalance b = debt * CENT" "d = min debt p" "0 < p"
    using assms by (auto simp: nettedAmounts_Inr)
  have "min debt p * CENT = min (debt * CENT) (p * CENT)"
    by (rule min_mult_distrib_right[THEN trans]) simp
  with debt Some show ?thesis by (simp add: debt_of_def)
qed

lemma releaseMoney_Inr:
  assumes wf: "db_wf s" and o: "find_order (s_orderId st) s = Some r" and sv: "settleable s (s_orderId st) r v"
    and f: "find_settlement (s_id st) s = Some fresh" and pol: "s_releasePolicy fresh = ''AUTO''"
    and ev: "latest_evidence (Some (v_id v)) s = Some e" "isFreshSuccessfulAutoReleaseEvidence (Some e) t"
    and t: "t = (case now of None \<Rightarrow> env_now env | Some t \<Rightarrow> t)"
    and m: "releaseMoney env t st ord fresh sn s = Inr (oc, s')"
  shows "oc = Released \<and> db_wf s' \<and> (\<exists>g. released_between env now st s s' g)"
proof -
  obtain s1 p d s3 s4 u where c: "claimRelease env t st fresh (sn_orderVersion sn) s = Inr (u, s1)"
    and n: "nettedAmounts fresh (find_balance (s_publisherId st) s1) s1 = Inr ((p, d), s1)"
    and b: "creditBalance st (find_balance (s_publisherId st) s1) p d s1 = Inr (u, s3)"
    and w: "recordRelease env st ord p d s3 = Inr (u, s4)" and s': "s' = s4" "oc = Released"
    and usd: "s_currency fresh = ''USD''"
    using m by (auto simp: releaseMoney_def tx_simps nettedAmounts_Inr)
  note C = claimRelease_Inr[OF wf o f c]
  have p: "0 < p" "s_publisherAmount fresh = p * CENT"
    "find_balance (s_publisherId st) s1 = None \<longrightarrow> d = 0"
    using n by (auto simp: nettedAmounts_Inr split: option.splits)
  have bal: "find_balance pid s1 = find_balance pid s" for pid
    by (simp add: find_balance_def C(4))
  note nd = netted_debt[OF n[unfolded bal]]
  note B = creditBalance_Inr[OF C(8) refl b p(1,3)]
  note W = recordRelease_Inr[OF w]
  let ?g = "\<lparr>lf_order = r, lf_delivery = v, lf_settlement = fresh, lf_evidence = e, lf_paid = p, lf_netted = d, lf_supply = id_supply s1\<rparr>"
  have same: "withdrawable_of pid s1 = withdrawable_of pid s" "debt_of pid s1 = debt_of pid s"
    "earned_of pid s1 = earned_of pid s" "withdrawable_of pid s4 = withdrawable_of pid s3"
    "debt_of pid s4 = debt_of pid s3" "earned_of pid s4 = earned_of pid s3"
    "find_balance pid s4 = find_balance pid s3" for pid
    by (simp_all add: withdrawable_of_def debt_of_def earned_of_def bal) (simp_all add: find_balance_def W(5))
  have orders4: "find_order i s4 = find_order i s1" "find_settlement i s4 = find_settlement i s1" for i
    using B by (simp_all add: find_order_def find_settlement_def W(3,4))
  have "released_between env now st s s4 ?g"
    using o sv f pol usd ev t p nd B C W same bal orders4
    by (simp add: released_between_def Let_def)
  moreover have "db_wf s3" using B by simp
  then have "db_wf s4" by (simp add: db_wf_def W(3-6))
  ultimately show ?thesis using s' by blast
qed

text \<open>A sweep's transaction, taken apart by its outcome.\<close>

lemma autoReleaseTx_Inr:
  assumes wf: "db_wf s" and r: "autoReleaseTx env now st ord s = Inr (oc, s')"
  shows "db_wf s' \<and> (if oc = Released then \<exists>g. released_between env now st s s' g else same_books s s')"
proof -
  let ?t = "case now of None \<Rightarrow> env_now env | Some t \<Rightarrow> t"
  obtain l s1 where l: "evaluateLockedSettlementEligibility env (s_orderId st) s = Inr (l, s1)"
    using r by (auto simp: autoReleaseTx_def tx_simps)
  note sp = evaluateLocked_spec[OF l]
  have keep: "db_wf s1" using wf sp(1) by (simp add: db_wf_def same_books_def)
  show ?thesis
  proof (cases "el_eligible (le_eligibility l)")
    case False
    then have "s' = s1" "oc \<noteq> Released" using r l by (auto simp: autoReleaseTx_def tx_simps andThen_def)
    with keep sp(1) show ?thesis by simp
  next
    case True
    obtain ord_row v where o: "s1 = s" "find_order (s_orderId st) s = Some ord_row"
      "settleable s (s_orderId st) ord_row v" "sn_activeDeliveryVersionId (le_snapshot l) = Some (v_id v)"
      using evaluateLocked_eligible[OF l True] by metis
    have run: "andThen (query (find_settlement (s_id st))) (\<lambda>found.
       case found of None \<Rightarrow> ret NotReleasable
       | Some fresh \<Rightarrow>
         if s_status fresh \<noteq> ''CUSTOMER_APPROVED'' \<or> s_releasePolicy fresh \<noteq> ''AUTO'' then ret NotReleasable
         else
         andThen (currentRiskPolicy st) (\<lambda>policy.
         if policy \<noteq> Some AUTO then ret RiskBlocked
         else
         let releaseAt = ?t
         in andThen (query (latest_evidence (sn_activeDeliveryVersionId (le_snapshot l)))) (\<lambda>latest.
            if \<not> isFreshSuccessfulAutoReleaseEvidence latest releaseAt then ret FreshnessBlocked
            else releaseMoney env releaseAt st ord fresh (le_snapshot l)))) s = Inr (oc, s')"
    proof -
      have e: "evaluateLockedSettlementEligibility env (s_orderId st) s = Inr (l, s)" using l o(1) by simp
      show ?thesis
        using r unfolding autoReleaseTx_def andThen_def[of "evaluateLockedSettlementEligibility env (s_orderId st)"]
        by (simp only: e sum.case prod.case True not_True_eq_False if_False)
    qed
    show ?thesis
    proof (cases "s' = s \<and> oc \<noteq> Released")
      case True
      with wf show ?thesis by simp
    next
      case False
      with run o(4) obtain fresh where f: "find_settlement (s_id st) s = Some fresh"
        "s_releasePolicy fresh = ''AUTO''"
        "isFreshSuccessfulAutoReleaseEvidence (latest_evidence (Some (v_id v)) s) ?t"
        "releaseMoney env ?t st ord fresh (le_snapshot l) s = Inr (oc, s')"
        by (cases "find_settlement (s_id st) s")
           (auto simp: tx_simps Let_def simp del: option.case_cong split: if_splits dest!: currentRiskPolicy_state)
      obtain e where e: "latest_evidence (Some (v_id v)) s = Some e"
        using f(3) by (cases "latest_evidence (Some (v_id v)) s")
          (auto simp: isFreshSuccessfulAutoReleaseEvidence_def)
      from releaseMoney_Inr[OF wf o(2,3) f(1,2) e f(3)[unfolded e] refl f(4)] show ?thesis by simp
    qed
  qed
qed

section \<open>The phases of an approval\<close>

definition approved_between :: "env \<Rightarrow> settlement_row \<Rightarrow> db \<Rightarrow> db \<Rightarrow> settlement_row \<Rightarrow> bool" where
  "approved_between env st s s' fresh \<longleftrightarrow>
     (\<exists>r v. find_order (s_orderId st) s = Some r \<and> settleable s (s_orderId st) r v)
     \<and> find_settlement (s_id st) s = Some fresh \<and> in_review fresh \<and> s_version fresh = s_version st
     \<and> s_currency fresh = ''USD''
     \<and> find_settlement (s_id st) s' = Some (fresh\<lparr>s_status := ''CUSTOMER_APPROVED'', s_currency := ''USD'',
         s_version := s_version fresh + 1, s_updatedAt := env_now env\<rparr>)
     \<and> approval_given (s_id st) ''CUSTOMER'' s'
     \<and> orders s' = orders s \<and> wallets s' = wallets s \<and> balances s' = balances s
     \<and> transactions s' = transactions s"

lemma autoApproveTx_Inr:
  assumes wf: "db_wf s" and r: "autoApproveTx env st ord s = Inr (oc, s')"
  shows "db_wf s' \<and> (if ao_committed oc then \<exists>fresh. approved_between env st s s' fresh
                     else transactions s' = transactions s \<and> balances s' = balances s \<and> wallets s' = wallets s
                       \<and> orders s' = orders s \<and> settlements s' = settlements s)"
proof -
  obtain l s1 where l: "evaluateLockedSettlementEligibility env (s_orderId st) s = Inr (l, s1)"
    using r by (auto simp: autoApproveTx_def tx_simps)
  note sp = evaluateLocked_spec[OF l]
  have keep: "db_wf s1" using wf sp(1) by (simp add: db_wf_def same_books_def)
  show ?thesis
  proof (cases "el_eligible (le_eligibility l)")
    case False
    then have "s' = s1 \<and> \<not> ao_committed oc" using r l by (auto simp: autoApproveTx_def tx_simps andThen_def)
    with keep sp(1) show ?thesis by (simp add: same_books_def)
  next
    case True
    obtain ro v where o: "s1 = s" "find_order (s_orderId st) s = Some ro" "settleable s (s_orderId st) ro v"
      using evaluateLocked_eligible[OF l True] by metis
    let ?p = "\<lambda>r. s_id r = s_id st \<and> in_review r \<and> s_version r = s_version st \<and> s_currency r = ''USD''"
    let ?f = "\<lambda>r. r\<lparr>s_status := ''CUSTOMER_APPROVED'', s_currency := ''USD'', s_version := s_version r + 1,
              s_updatedAt := env_now env\<rparr>"
    show ?thesis
    proof (cases "count_where ?p (settlements s) = 0")
      case none: True
      then have "settlements s' = settlements s \<and> \<not> ao_committed oc \<and> db_wf s' \<and> transactions s' = transactions s
          \<and> balances s' = balances s \<and> wallets s' = wallets s \<and> orders s' = orders s"
        using r l True o(1) wf
        by (auto simp: autoApproveTx_def tx_simps update_where_none db_wf_def)
      then show ?thesis by simp
    next
      case some: False
      obtain s2 e au where up: "upsert_approval env id (new_approval (s_id st) ''CUSTOMER'' ''SYSTEM_AUTO_APPROVE'' ''SYSTEM'')
            (s\<lparr>settlements := update_where ?p ?f (settlements s)\<rparr>) = Inr ((), s2)"
        and s2: "s' = s2\<lparr>order_events := e, audit_logs := au\<rparr>" and oc: "ao_committed oc"
        using r l True o(1) some by (auto simp: autoApproveTx_def tx_simps)
      obtain a n where s': "s' = s\<lparr>settlements := update_where ?p ?f (settlements s), approvals := a, id_supply := n,
          order_events := e, audit_logs := au\<rparr>" and a: "approval_given (s_id st) ''CUSTOMER'' s'"
        by (rule upsert_approval_Inr[OF up]) (simp_all add: s2 new_approval_def approval_given_def)
      obtain fresh where f: "find_settlement (s_id st) s = Some fresh" "?p fresh"
      proof (cases "find_settlement (s_id st) s")
        case None
        then show ?thesis using some count_not_found[of s_id "s_id st" "settlements s"]
          by (simp add: find_settlement_def)
      next
        case (Some fresh)
        then have "?p fresh"
          using some count_found[OF db_wfD(3)[OF wf] Some[unfolded find_settlement_def]]
            find_key[OF Some[unfolded find_settlement_def]] by (auto split: if_splits)
        with Some show ?thesis by (rule that)
      qed
      have "find_settlement (s_id st) s' = Some (?f fresh)"
        using f by (simp add: s' find_settlement_def find_update_where)
      then have "approved_between env st s s' fresh"
        unfolding approved_between_def using o(2,3) f a by (auto simp: s')
      moreover have "db_wf s'" using wf by (simp add: s' db_wf_def map_update_where)
      ultimately show ?thesis using oc by auto
    qed
  qed
qed

section \<open>Sweeps\<close>

definition releases :: "db \<Rightarrow> nat" where
  "releases s = count_where (\<lambda>t. t_type t = ''SETTLEMENT_RELEASE'') (transactions s)"

lemma count_where_append [simp]: "count_where p (xs @ ys) = count_where p xs + count_where p ys"
  by (simp add: count_where_def)

lemma released_count: "released_between env now st s s' f \<Longrightarrow> releases s' = releases s + 1"
  by (auto simp: released_between_def releases_def release_rows_def new_transaction_def Let_def)

lemma run_calm:
  assumes "\<And>n. fst (w n) = (\<lambda>s. s)" "runSerializableTransactionWithRetry w op s = (r, s')"
  shows "case r of Inr x \<Rightarrow> op s = Inr (x, s') | Inl e \<Rightarrow> s' = s"
proof -
  have "case (r, s') of (Inr x, s') \<Rightarrow> op s = Inr (x, s') | (Inl e, s') \<Rightarrow> s' = s"
    using retry_loop_calm[where w = w and op = op and s = s and n = 1 and
        left = MAX_SERIALIZABLE_TRANSACTION_ATTEMPTS and retryable = isRetryablePrismaTransactionError,
        OF assms(1)] assms(2)
    unfolding runSerializableTransactionWithRetry_def by simp
  then show ?thesis by (cases r) simp_all
qed

lemma releaseRows_calm:
  assumes "\<And>i n. fst (weathers i n) = (\<lambda>s. s)" "db_wf s"
    "releaseRows env now weathers i rows acc s = (res, s')"
  shows "db_wf s' \<and> rr_scanned res = rr_scanned acc
    \<and> rr_released res + rr_skipped res = rr_released acc + rr_skipped acc + length rows
    \<and> releases s' + rr_released acc = releases s + rr_released res
    \<and> rr_freshnessBlocked res + rr_riskBlocked res + rr_skipped acc
        \<le> rr_freshnessBlocked acc + rr_riskBlocked acc + rr_skipped res"
  using assms(2,3)
proof (induction rows arbitrary: i acc s)
  case Nil
  then show ?case by simp
next
  case (Cons p rest)
  obtain st ord where p: "p = (st, ord)" by (cases p)
  obtain out s1 where o: "runSerializableTransactionWithRetry (weathers i) (autoReleaseTx env now st ord) s = (out, s1)"
    by (cases "runSerializableTransactionWithRetry (weathers i) (autoReleaseTx env now st ord) s")
  have rest: "releaseRows env now weathers (i + 1) rest (count_release acc st out) s1 = (res, s')"
    using Cons.prems(2) by (simp add: p o)
  have run: "case out of Inr x \<Rightarrow> autoReleaseTx env now st ord s = Inr (x, s1) | Inl e \<Rightarrow> s1 = s"
    by (rule run_calm[OF assms(1) o])
  have one: "db_wf s1 \<and> releases s1 = releases s + (if out = Inr Released then 1 else 0)"
  proof (cases out)
    case (Inl e)
    with run Cons.prems(1) show ?thesis by simp
  next
    case (Inr oc)
    with run have "autoReleaseTx env now st ord s = Inr (oc, s1)" by simp
    from autoReleaseTx_Inr[OF Cons.prems(1) this] Inr show ?thesis
      by (auto simp: same_books_def releases_def[symmetric] dest: released_count split: if_splits)
         (simp add: releases_def)
  qed
  note IH = Cons.IH[OF conjunct1[OF one] rest]
  show ?case
    using IH one
    by (cases out) (auto simp: count_release_def split: release_outcome.splits)
qed

definition approvals_made :: "db \<Rightarrow> nat" where
  "approvals_made s = count_where (\<lambda>r. s_status r = ''CUSTOMER_APPROVED'') (settlements s)"

section \<open>Properties\<close>

text \<open>C1: What an automatic release does to the books.  A transaction that ends with Released
  started from an order the gate lets through, a settlement approved by the customer with policy
  AUTO, and a fresh successful check of its delivery; it completes that order and releases that
  settlement once, and the publisher's amount is split exactly: as much as possible repays the
  publisher's debt, the rest is credited, both balances stay non-negative, no other publisher's
  balance moves, no wallet moves, and the ledger gains exactly the rows of the two parts.\<close>

theorem auto_release_exact:
  assumes "db_wf s" "autoReleaseTx env now st ord s = Inr (Released, s')"
  shows "db_wf s' \<and> (\<exists>f. released_between env now st s s' f)"
  using autoReleaseTx_Inr[OF assms] by simp

definition example_release :: "release_outcome \<times> db" where
  "example_release = projr (autoReleaseTx example_env None example_settlement example_order example_db)"

lemma example_db_wf: "db_wf example_db"
  by (simp add: db_wf_def example_defs)

lemma example_release_run:
  "autoReleaseTx example_env None example_settlement example_order example_db = Inr (Released, snd example_release)"
proof -
  have "\<not> isl (autoReleaseTx example_env None example_settlement example_order example_db)" by code_simp
  moreover have "fst example_release = Released" by code_simp
  ultimately show ?thesis unfolding example_release_def by (metis prod.collapse sum.collapse(2))
qed

theorem auto_release_exact_witness:
  "db_wf (snd example_release)
   \<and> (\<exists>f. released_between example_env None example_settlement example_db (snd example_release) f)"
  by (rule auto_release_exact[OF example_db_wf example_release_run])

text \<open>C24: An order is released at most once: after a release of a settlement of the order, every
  later run of the release transaction for that order, with any settlement, time or outside
  world, finds the order not eligible and moves nothing.\<close>

theorem auto_release_once:
  assumes "db_wf s" "autoReleaseTx env now st ord s = Inr (Released, s')"
    "autoReleaseTx env2 now2 st2 ord2 s' = Inr (oc, s2)" "s_orderId st2 = s_orderId st"
  shows "(\<exists>ids. oc = EligibilityBlocked ids) \<and> same_books s' s2"
proof -
  obtain f where f: "released_between env now st s s' f" and wf: "db_wf s'"
    using autoReleaseTx_Inr[OF assms(1,2)] by auto
  obtain l s1 where l: "evaluateLockedSettlementEligibility env2 (s_orderId st2) s' = Inr (l, s1)"
    using assms(3) by (auto simp: autoReleaseTx_def tx_simps)
  have "\<not> el_eligible (le_eligibility l)"
  proof
    assume "el_eligible (le_eligibility l)"
    then obtain r v where "find_order (s_orderId st2) s' = Some r" "settleable s' (s_orderId st2) r v"
      using evaluateLocked_eligible[OF l] by metis
    with f assms(4) show False by (auto simp: released_between_def settleable_def Let_def)
  qed
  with assms(3) l have "\<exists>ids. oc = EligibilityBlocked ids"
    by (auto simp: autoReleaseTx_def tx_simps andThen_def)
  with autoReleaseTx_Inr[OF wf assms(3)] show ?thesis by auto
qed

definition example_release_again :: "release_outcome \<times> db" where
  "example_release_again = projr (autoReleaseTx example_env None example_settlement example_order (snd example_release))"

lemma example_release_again_run:
  "autoReleaseTx example_env None example_settlement example_order (snd example_release)
     = Inr (fst example_release_again, snd example_release_again)"
proof -
  have "\<not> isl (autoReleaseTx example_env None example_settlement example_order (snd example_release))" by code_simp
  then show ?thesis unfolding example_release_again_def by simp
qed

theorem auto_release_once_witness:
  "(\<exists>ids. fst example_release_again = EligibilityBlocked ids)
   \<and> same_books (snd example_release) (snd example_release_again)"
  by (rule auto_release_once[OF example_db_wf example_release_run example_release_again_run refl])

text \<open>The rows a release leaves prove it.  When no release row or event of the settlement was
  there before, and the settlement still belongs to the order and publisher it was read with, the
  evidence check on the rows of the settlement finds the release valid.\<close>

theorem auto_release_leaves_evidence:
  assumes "db_wf s" "autoReleaseTx env now st ord s = Inr (Released, s')"
    and before: "find_settlement (s_id st) s = Some fresh" "s_orderId fresh = s_orderId st"
      "s_publisherId fresh = s_publisherId st"
      "filter (\<lambda>t. t_settlementId t = Some (s_id st) \<and> t_type t = ''SETTLEMENT_RELEASE'') (transactions s) = []"
      "filter (\<lambda>e. e_settlementId e = Some (s_id st) \<and> e_eventType e = ''SETTLEMENT_RELEASED'') (order_events s) = []"
    and after: "find_settlement (s_id st) s' = Some released"
  shows "re_valid (evaluateSettlementReleaseEvidence released
           (filter (\<lambda>t. t_settlementId t = Some (s_id st)) (transactions s'))
           (filter (\<lambda>e. e_settlementId e = Some (s_id st)) (order_events s')))"
proof -
  obtain f where f: "released_between env now st s s' f" using autoReleaseTx_Inr[OF assms(1,2)] by auto
  let ?t = "case now of None \<Rightarrow> env_now env | Some t \<Rightarrow> t"
  have id: "s_id fresh = s_id st" using find_key[OF before(1)[unfolded find_settlement_def]] by simp
  have rel: "released = fresh\<lparr>s_status := ''RELEASED'', s_currency := ''USD'', s_settledAt := Some ?t,
      s_version := s_version fresh + 1, s_updatedAt := env_now env\<rparr>"
    and amount: "s_publisherAmount fresh = lf_paid f * CENT"
    and tx: "transactions s' = transactions s @ release_rows env (lf_supply f) st (lf_paid f) (lf_netted f)"
    using f before(1) after by (auto simp: released_between_def Let_def)
  obtain e where ev: "order_events s' = order_events s @ [e]" "e_eventType e = ''SETTLEMENT_RELEASED''"
    "e_settlementId e = Some (s_id st)" "e_orderId e = s_orderId st"
    using f by (auto simp: released_between_def Let_def)
  have ledger: "filter (\<lambda>t. t_type t = ''SETTLEMENT_RELEASE'') (filter (\<lambda>t. t_settlementId t = Some (s_id st)) (transactions s'))
      = [hd (release_rows env (lf_supply f) st (lf_paid f) (lf_netted f))]"
    using before(4) by (simp add: tx release_rows_def new_transaction_def)
  have "release_booked released (hd (release_rows env (lf_supply f) st (lf_paid f) (lf_netted f)))"
    by (simp add: release_booked_def rel release_rows_def new_transaction_def id before(2,3) amount)
  moreover have "filter (\<lambda>e. e_eventType e = ''SETTLEMENT_RELEASED'') (filter (\<lambda>e. e_settlementId e = Some (s_id st)) (order_events s')) = [e]"
    using before(5) ev by simp
  ultimately have "release_triple released (filter (\<lambda>t. t_settlementId t = Some (s_id st)) (transactions s'))
      (filter (\<lambda>e. e_settlementId e = Some (s_id st)) (order_events s'))"
    unfolding release_triple_def using ledger ev id by (simp add: rel before(2))
  then show ?thesis unfolding release_triple_iff .
qed

definition example_released :: settlement_row where
  "example_released = the (find_settlement ''t1'' (snd example_release))"

theorem auto_release_leaves_evidence_witness:
  "re_valid (evaluateSettlementReleaseEvidence example_released
     (filter (\<lambda>t. t_settlementId t = Some (s_id example_settlement)) (transactions (snd example_release)))
     (filter (\<lambda>e. e_settlementId e = Some (s_id example_settlement)) (order_events (snd example_release))))"
proof (rule auto_release_leaves_evidence[OF example_db_wf example_release_run, of example_settlement])
  have "find_settlement ''t1'' (snd example_release) \<noteq> None" by code_simp
  then show "find_settlement (s_id example_settlement) (snd example_release) = Some example_released"
    by (auto simp: example_released_def example_settlement_def)
qed (simp_all add: example_defs find_settlement_def)

text \<open>In calm weather a release sweep accounts for every settlement it scans: released plus
  skipped is scanned, the ledger holds exactly as many new release rows as releases counted, the
  blocked counters are part of the skipped one, and the database stays well-formed.\<close>

theorem release_sweep_accounts:
  assumes "db_wf s" "\<And>i n. fst (weathers i n) = (\<lambda>s. s)"
    "runSettlementAutoRelease env weathers batchSize now s = (res, s')"
  shows "rr_released res + rr_skipped res = rr_scanned res \<and> releases s' = releases s + rr_released res
    \<and> rr_freshnessBlocked res + rr_riskBlocked res \<le> rr_skipped res \<and> db_wf s'"
proof -
  let ?due = "due_settlements (\<lambda>st. s_status st = ''CUSTOMER_APPROVED'' \<and> s_releasePolicy st = ''AUTO'')
            (case batchSize of None \<Rightarrow> 100 | Some b \<Rightarrow> b) s"
  have "\<forall>p \<in> set ?due. computeAutoReleaseEligibility defaultWorkflowConfig (s_releasePolicy (fst p))"
    by (auto simp: due_settlements_def computeAutoReleaseEligibility_def defaultWorkflowConfig_def
        dest!: in_set_takeD split: option.splits)
  then have "filter (\<lambda>p. computeAutoReleaseEligibility defaultWorkflowConfig (s_releasePolicy (fst p))) ?due = ?due"
    by (simp add: filter_id_conv)
  then have "releaseRows env now weathers 0 ?due
      \<lparr>rr_scanned = length ?due, rr_released = 0, rr_skipped = 0, rr_freshnessBlocked = 0, rr_riskBlocked = 0,
       rr_hooks = []\<rparr> s = (res, s')"
    using assms(3) by (simp add: runSettlementAutoRelease_def Let_def)
  from releaseRows_calm[OF assms(2,1) this] show ?thesis by simp
qed

theorem release_sweep_accounts_witness:
  "rr_released (fst (runSettlementAutoRelease example_env (\<lambda>_. calm) None None example_db))
     + rr_skipped (fst (runSettlementAutoRelease example_env (\<lambda>_. calm) None None example_db))
     = rr_scanned (fst (runSettlementAutoRelease example_env (\<lambda>_. calm) None None example_db))
   \<and> releases (snd (runSettlementAutoRelease example_env (\<lambda>_. calm) None None example_db))
     = releases example_db + rr_released (fst (runSettlementAutoRelease example_env (\<lambda>_. calm) None None example_db))
   \<and> rr_freshnessBlocked (fst (runSettlementAutoRelease example_env (\<lambda>_. calm) None None example_db))
     + rr_riskBlocked (fst (runSettlementAutoRelease example_env (\<lambda>_. calm) None None example_db))
     \<le> rr_skipped (fst (runSettlementAutoRelease example_env (\<lambda>_. calm) None None example_db))
   \<and> db_wf (snd (runSettlementAutoRelease example_env (\<lambda>_. calm) None None example_db))"
  by (rule release_sweep_accounts[where env = example_env and batchSize = None and now = None
        and weathers = "\<lambda>_. calm", OF example_db_wf]) (simp_all add: calm_def)

text \<open>An automatic approval only advances a settlement under review of an eligible order, at the
  version it was read with, and records the customer approval; it never moves money: orders,
  wallets, balances and the ledger are as before, and without a commit so are the settlements.\<close>

theorem auto_approve_exact:
  assumes "db_wf s" "autoApproveTx env st ord s = Inr (oc, s')"
  shows "db_wf s' \<and> (if ao_committed oc then \<exists>fresh. approved_between env st s s' fresh
                     else transactions s' = transactions s \<and> balances s' = balances s \<and> wallets s' = wallets s
                       \<and> orders s' = orders s \<and> settlements s' = settlements s)"
  by (rule autoApproveTx_Inr[OF assms])

definition in_review_db :: db where
  "in_review_db = example_db\<lparr>settlements := [example_settlement\<lparr>s_status := ''PENDING''\<rparr>]\<rparr>"

definition example_approval :: "approve_outcome \<times> db" where
  "example_approval = projr (autoApproveTx example_env (example_settlement\<lparr>s_status := ''PENDING''\<rparr>)
     example_order in_review_db)"

theorem auto_approve_exact_witness:
  "db_wf (snd example_approval)
   \<and> (if ao_committed (fst example_approval)
      then \<exists>fresh. approved_between example_env (example_settlement\<lparr>s_status := ''PENDING''\<rparr>) in_review_db
             (snd example_approval) fresh
      else transactions (snd example_approval) = transactions in_review_db
        \<and> balances (snd example_approval) = balances in_review_db \<and> wallets (snd example_approval) = wallets in_review_db
        \<and> orders (snd example_approval) = orders in_review_db \<and> settlements (snd example_approval) = settlements in_review_db)"
proof (rule auto_approve_exact[where ord = example_order])
  show "db_wf in_review_db" by (simp add: db_wf_def in_review_db_def example_defs)
  have "\<not> isl (autoApproveTx example_env (example_settlement\<lparr>s_status := ''PENDING''\<rparr>) example_order in_review_db)"
    by code_simp
  then show "autoApproveTx example_env (example_settlement\<lparr>s_status := ''PENDING''\<rparr>) example_order in_review_db
      = Inr (fst example_approval, snd example_approval)"
    by (simp add: example_approval_def)
qed

end
