(* ===== verification/Payment_Dispute.thy ===== *)
theory Payment_Dispute
  imports Settlement_Gating
begin

text \<open>
  The transition of a payment dispute (\<open>payment-dispute-core.ts\<close>): a signed Stripe event, held
  in the inbox under a lease, opens a case and holds what the wallet has of the disputed amount,
  or closes it, which gives the hold back (WON) or takes it (LOST).  The hooks of the caller -
  audit, the notices to finance and customer - are arguments.  Instants are milliseconds, so the
  ISO text of the lease is the instant itself.
\<close>

section \<open>Events, hooks and errors\<close>

record dispute_event =
  de_provider :: string
  de_providerEventRowId :: string
  de_claimAttempt :: int
  de_claimLockedAt :: int
  de_providerEventId :: string
  de_eventType :: string
  de_providerDisputeId :: string
  de_providerPaymentId :: string
  de_providerChargeId :: "string option"
  de_amountMinor :: int
  de_amount :: string
  de_currency :: string
  de_providerStatus :: string
  de_livemode :: bool
  de_eventFingerprint :: string

record dispute_outcome =
  do_status :: string
  do_held :: string
  do_shortfall :: string
  do_walletId :: string
  do_paymentDisputeId :: string
  do_created :: bool
  do_resolved :: bool

record finance_notice =
  fn_type :: string
  fn_message :: string
  fn_dedupKeyPrefix :: string

record dispute_hooks =
  dh_audit :: "audit_row \<Rightarrow> unit tx"
  dh_notifyFinance :: "finance_notice \<Rightarrow> unit tx"
  dh_notifyCustomer :: "(string \<Rightarrow> unit tx) option"

definition dispute_race :: failure where
  "dispute_race = Failure ''PaymentDisputeRaceError'' []"

text \<open>The deposit a dispute is about: its ledger row with its wallet, and its attempt.\<close>

record linked_deposit =
  ld_transaction :: transaction_row
  ld_walletId :: string
  ld_attempt :: deposit_row

definition PAYMENT_DISPUTE_MAX_ATTEMPTS :: nat where
  "PAYMENT_DISPUTE_MAX_ATTEMPTS = 4"

definition STRIPE_OPEN_DISPUTE_STATUSES :: "string list" where
  "STRIPE_OPEN_DISPUTE_STATUSES =
     [''needs_response'', ''under_review'', ''warning_needs_response'', ''warning_under_review'']"

definition REFUND_PROJECTED_DEPOSIT_STATUSES :: "string list" where
  "REFUND_PROJECTED_DEPOSIT_STATUSES = [''PARTIALLY_REFUNDED'', ''REFUNDED'']"

definition reference :: "dispute_event \<Rightarrow> string \<Rightarrow> string" where
  "reference i phase = ''payment-dispute:'' @ de_provider i @ '':'' @ de_providerDisputeId i @ '':'' @ phase"

definition paymentDisputeEventFingerprint :: "env \<Rightarrow> dispute_event \<Rightarrow> string" where
  "paymentDisputeEventFingerprint env i =
     env_sha256 env (canonicalJson (ListJ (map TextJ
       [''payment-dispute-envelope:v1'', de_provider i, de_providerEventId i, de_eventType i,
        de_providerDisputeId i, de_providerPaymentId i,
        case de_providerChargeId i of None \<Rightarrow> [] | Some c \<Rightarrow> c,
        int_text (de_amountMinor i), de_amount i, de_currency i, de_providerStatus i,
        if de_livemode i then ''live'' else ''test''])))"

definition paymentDisputeTargetStatus :: "dispute_event \<Rightarrow> failure + string" where
  "paymentDisputeTargetStatus i =
     (if de_eventType i = ''charge.dispute.created'' then
        if de_providerStatus i \<in> set STRIPE_OPEN_DISPUTE_STATUSES then Inr ''OPEN''
        else Inl (TransitionFailure ''EVENT_ENVELOPE_MISMATCH''
               ''A dispute-created event does not contain a supported open status'' False)
      else if de_providerStatus i = ''won'' \<or> de_providerStatus i = ''prevented''
            \<or> de_providerStatus i = ''warning_closed'' then Inr ''WON''
      else if de_providerStatus i = ''lost'' then Inr ''LOST''
      else Inl (TransitionFailure ''EVENT_ENVELOPE_MISMATCH''
             ''A dispute-closed event does not contain a supported terminal status'' False))"

section \<open>Reading the event from its stored row\<close>

definition evidence_missing :: failure where
  "evidence_missing = TransitionFailure ''EVENT_EVIDENCE_MISSING''
     ''Stored payment dispute event is missing normalized signed facts'' False"

definition stored_amount_text :: "int \<Rightarrow> string" where
  "stored_amount_text amountMinor =
     int_text (amountMinor div 100) @ ''.'' @ pad_start 2 CHR ''0'' (int_text (amountMinor mod 100))"

text \<open>The checks that only concern the type of a column are the types of the row.\<close>

definition paymentDisputeEventFromStoredRow :: "env \<Rightarrow> provider_event_row option \<Rightarrow> failure + dispute_event" where
  "paymentDisputeEventFromStoredRow env row =
     (case row of None \<Rightarrow> Inl evidence_missing
      | Some e \<Rightarrow>
        (case (pv_objectId e, pv_providerPaymentId e, pv_disputeAmountMinor e, pv_providerStatus e, pv_livemode e,
               pv_eventFingerprint e, pv_lockedAt e) of
           (Some objectId, Some paymentId, Some amountMinor, Some providerStatus, Some livemode,
            Some fingerprint, Some lockedAt) \<Rightarrow>
             if pv_provider e \<noteq> ''stripe''
                \<or> pv_eventType e \<notin> {''charge.dispute.created'', ''charge.dispute.closed''}
                \<or> pv_disputeCurrency e \<noteq> Some ''USD''
                \<or> \<not> (pv_attempts e \<le> MAX_SAFE_INTEGER) \<or> pv_attempts e \<le> 0
             then Inl evidence_missing
             else if amountMinor \<le> 0 then
               Inl (TransitionFailure ''EVENT_ENVELOPE_MISMATCH'' ''Stored payment dispute amount is invalid'' False)
             else
               (let i = \<lparr>de_provider = ''stripe'', de_providerEventRowId = pv_id e, de_claimAttempt = pv_attempts e,
                      de_claimLockedAt = lockedAt, de_providerEventId = pv_providerEventId e,
                      de_eventType = pv_eventType e, de_providerDisputeId = objectId,
                      de_providerPaymentId = paymentId, de_providerChargeId = pv_providerChargeId e,
                      de_amountMinor = amountMinor, de_amount = stored_amount_text amountMinor,
                      de_currency = ''USD'', de_providerStatus = providerStatus, de_livemode = livemode,
                      de_eventFingerprint = fingerprint\<rparr>
                in case paymentDisputeTargetStatus i of Inl f \<Rightarrow> Inl f
                   | Inr _ \<Rightarrow>
                     if de_eventFingerprint i \<noteq> paymentDisputeEventFingerprint env i then
                       Inl (TransitionFailure ''EVENT_ENVELOPE_MISMATCH''
                         ''Stored payment dispute fingerprint does not match its normalized facts'' False)
                     else Inr i)
         | _ \<Rightarrow> Inl evidence_missing))"

section \<open>The checks before a transition\<close>

definition find_provider_event :: "string \<Rightarrow> db \<Rightarrow> provider_event_row option" where
  "find_provider_event i s = find (\<lambda>e. pv_id e = i) (provider_events s)"

definition event_exact :: "dispute_event \<Rightarrow> provider_event_row \<Rightarrow> bool" where
  "event_exact i e \<longleftrightarrow>
     pv_status e = ''PROCESSING'' \<and> pv_attempts e = de_claimAttempt i \<and> pv_lockedAt e = Some (de_claimLockedAt i)
     \<and> pv_provider e = de_provider i \<and> pv_providerEventId e = de_providerEventId i
     \<and> pv_eventType e = de_eventType i \<and> pv_objectId e = Some (de_providerDisputeId i)
     \<and> pv_providerPaymentId e = Some (de_providerPaymentId i) \<and> pv_providerChargeId e = de_providerChargeId i
     \<and> pv_disputeAmountMinor e = Some (de_amountMinor i) \<and> pv_disputeCurrency e = Some (de_currency i)
     \<and> pv_providerStatus e = Some (de_providerStatus i) \<and> pv_livemode e = Some (de_livemode i)
     \<and> pv_eventFingerprint e = Some (de_eventFingerprint i)"

definition readAndAssertEvent :: "dispute_event \<Rightarrow> unit tx" where
  "readAndAssertEvent i =
     andThen (query (find_provider_event (de_providerEventRowId i))) (\<lambda>event.
     require (case event of None \<Rightarrow> False | Some e \<Rightarrow> event_exact i e)
       (TransitionFailure (if event \<noteq> None then ''EVENT_ENVELOPE_MISMATCH'' else ''EVENT_EVIDENCE_MISSING'')
         ''Payment dispute event evidence is missing or does not match its signed normalized envelope'' False))"

text \<open>The row lock of the wallet: transactions of the model already run one at a time.\<close>

definition lockWalletForUpdate :: "string \<Rightarrow> unit tx" where
  "lockWalletForUpdate walletId = ret ()"

definition deposit_mismatch :: failure where
  "deposit_mismatch = TransitionFailure ''DEPOSIT_EVIDENCE_MISMATCH''
     ''Stripe dispute does not match an eligible originating deposit state, amount, currency, or identity'' False"

definition findLinkedDeposit :: "dispute_event \<Rightarrow> linked_deposit tx" where
  "findLinkedDeposit i =
     andThen (query (\<lambda>s. find (\<lambda>t. t_provider t = Some (de_provider i)
        \<and> t_providerRef t = Some (de_providerPaymentId i) \<and> t_type t = ''DEPOSIT'') (transactions s))) (\<lambda>row.
     andThen (query (\<lambda>s. case row of None \<Rightarrow> None
        | Some t \<Rightarrow> find (\<lambda>d. da_ledgerTransactionId d = Some (t_id t)) (deposits s))) (\<lambda>attempt.
     case (row, attempt) of
       (Some t, Some d) \<Rightarrow>
         if \<not> truthy (t_walletId t) then throw (TransitionFailure ''DEPOSIT_NOT_LINKED''
             ''Stripe dispute is not yet linked to a durable deposit attempt'' True)
         else
         andThen (lift_sum error (scaledDecimal (column (t_amount t)))) (\<lambda>amount.
         andThen (lift_sum error (scaledDecimal (column (da_walletCredit d)))) (\<lambda>walletCredit.
         andThen (require (\<not> (to_upper (t_currency t) \<noteq> de_currency i
             \<or> to_upper (da_currency d) \<noteq> de_currency i
             \<or> da_provider d \<noteq> de_provider i
             \<or> Some (da_walletId d) \<noteq> t_walletId t
             \<or> da_providerPaymentId d \<noteq> Some (de_providerPaymentId i)
             \<or> da_ledgerTransactionId d \<noteq> Some (t_id t)
             \<or> \<not> isWalletCreditBackedDepositStatus (da_status d)
             \<or> amount \<noteq> walletCredit)) deposit_mismatch) (\<lambda>_.
         andThen (lift_sum error (scaledDecimal (JText (de_amount i)))) (\<lambda>disputed.
         andThen (require (\<not> disputed > amount) deposit_mismatch) (\<lambda>_.
         ret \<lparr>ld_transaction = t, ld_walletId = the (t_walletId t), ld_attempt = d\<rparr>)))))
     | _ \<Rightarrow> throw (TransitionFailure ''DEPOSIT_NOT_LINKED''
         ''Stripe dispute is not yet linked to a durable deposit attempt'' True)))"

definition stripe_transition_failure :: "failure \<Rightarrow> failure" where
  "stripe_transition_failure e =
     (case e of
        CodedFailure n code m \<Rightarrow>
          if n = ''StripeConfigurationError''
             \<and> code \<in> {''STRIPE_KEY_MISSING'', ''STRIPE_KEY_INVALID'', ''STRIPE_LIVE_MODE_DISABLED'',
                       ''STRIPE_PROVIDER_MODE_MISMATCH''}
          then TransitionFailure code m False else e
      | _ \<Rightarrow> e)"

definition assertCurrentStripeMode :: "env \<Rightarrow> dispute_event \<Rightarrow> unit tx" where
  "assertCurrentStripeMode env i =
     andThen (lift_sum stripe_transition_failure
       (assertStripeFinancialObjectMode (Some (de_livemode i)) (env_process env ''STRIPE_SECRET_KEY'')
         (env_process env ''STRIPE_LIVE_MODE_ENABLED''))) (\<lambda>_. ret ())"

definition identity_reused :: failure where
  "identity_reused = TransitionFailure ''DISPUTE_IDENTITY_REUSED''
     ''A provider dispute identity was reused with different immutable financial inputs'' False"

definition assertExactCase :: "payment_dispute_row \<Rightarrow> dispute_event \<Rightarrow> linked_deposit \<Rightarrow> failure + unit" where
  "assertExactCase existing i deposit =
     (if pd_provider existing \<noteq> de_provider i
         \<or> pd_providerDisputeId existing \<noteq> de_providerDisputeId i
         \<or> pd_providerPaymentId existing \<noteq> de_providerPaymentId i
         \<or> pd_providerChargeId existing \<noteq> de_providerChargeId i
         \<or> pd_depositAttemptId existing \<noteq> da_id (ld_attempt deposit)
         \<or> pd_depositTransactionId existing \<noteq> t_id (ld_transaction deposit)
         \<or> pd_walletId existing \<noteq> ld_walletId deposit
      then Inl identity_reused
      else (case scaledDecimal (column (pd_amount existing)) of Inl m \<Rightarrow> Inl (error m)
            | Inr existingAmount \<Rightarrow>
        (case scaledDecimal (JText (de_amount i)) of Inl m \<Rightarrow> Inl (error m)
         | Inr amount \<Rightarrow>
           if existingAmount \<noteq> amount \<or> to_upper (pd_currency existing) \<noteq> de_currency i
           then Inl identity_reused else Inr ())))"

section \<open>Completing the event\<close>

definition find_deposit :: "string \<Rightarrow> db \<Rightarrow> deposit_row option" where
  "find_deposit i s = find (\<lambda>d. da_id d = i) (deposits s)"

text \<open>The status of the deposit its dispute cases project to.\<close>

definition projected_status :: "string \<Rightarrow> string list \<Rightarrow> string" where
  "projected_status current statuses =
     (if current \<in> set REFUND_PROJECTED_DEPOSIT_STATUSES then current
      else if ''LOST'' \<in> set statuses then ''CHARGEBACK''
      else if ''OPEN'' \<in> set statuses then ''DISPUTED''
      else ''SUCCEEDED'')"

definition completeEvent :: "env \<Rightarrow> string \<Rightarrow> string \<Rightarrow> dispute_event \<Rightarrow> unit tx" where
  "completeEvent env depositAttemptId paymentDisputeId i =
     andThen (query (\<lambda>s. map pd_status (filter (\<lambda>d. pd_depositAttemptId d = depositAttemptId) (payment_disputes s))))
       (\<lambda>statuses.
     andThen (query (find_deposit depositAttemptId)) (\<lambda>found.
     case found of None \<Rightarrow> throw (prisma_code ''P2025'')
     | Some attempt \<Rightarrow>
         let attemptStatus = projected_status (da_status attempt) statuses
         in andThen (if da_status attempt \<noteq> attemptStatus then
                andThen (update_deposits (\<lambda>r. da_id r = depositAttemptId \<and> da_status r = da_status attempt)
                  (\<lambda>r. r\<lparr>da_status := attemptStatus\<rparr>)) (\<lambda>projected.
                require (projected = 1) dispute_race)
              else ret ()) (\<lambda>_.
            andThen (update_provider_events
              (\<lambda>e. pv_id e = de_providerEventRowId i \<and> pv_status e = ''PROCESSING''
                 \<and> pv_attempts e = de_claimAttempt i \<and> pv_lockedAt e = Some (de_claimLockedAt i)
                 \<and> (pv_paymentDisputeId e = None \<or> pv_paymentDisputeId e = Some paymentDisputeId))
              (\<lambda>e. e\<lparr>pv_status := ''PROCESSED'', pv_processedAt := Some (env_now env), pv_lockedAt := None,
                     pv_depositAttemptId := Some depositAttemptId, pv_paymentDisputeId := Some paymentDisputeId,
                     pv_lastError := None\<rparr>)) (\<lambda>completed.
            require (completed = 1) dispute_race))))"

section \<open>Cases\<close>

text \<open>
  The unique constraints of \<open>PaymentDispute\<close>: the provider's dispute id, and the event and ledger
  row of the opening and of the resolution.
\<close>

definition dispute_unique :: "payment_dispute_row \<Rightarrow> payment_dispute_row list \<Rightarrow> bool" where
  "dispute_unique d rows \<longleftrightarrow>
     list_all (\<lambda>r. (pd_provider r \<noteq> pd_provider d \<or> pd_providerDisputeId r \<noteq> pd_providerDisputeId d)
       \<and> (pd_openedByEventId d = None \<or> pd_openedByEventId r \<noteq> pd_openedByEventId d)
       \<and> (pd_resolvedByEventId d = None \<or> pd_resolvedByEventId r \<noteq> pd_resolvedByEventId d)
       \<and> (pd_holdTransactionId d = None \<or> pd_holdTransactionId r \<noteq> pd_holdTransactionId d)
       \<and> (pd_resolutionTransactionId d = None \<or> pd_resolutionTransactionId r \<noteq> pd_resolutionTransactionId d)) rows"

definition create_dispute :: "env \<Rightarrow> payment_dispute_row \<Rightarrow> string tx" where
  "create_dispute env d =
     andThen (fresh_id env) (\<lambda>i.
     andThen (query payment_disputes) (\<lambda>rows.
     andThen (require (list_all (\<lambda>r. pd_id r \<noteq> i) rows \<and> dispute_unique d rows) unique_violation) (\<lambda>_.
     andThen (modify (\<lambda>s. s\<lparr>payment_disputes := payment_disputes s @ [d\<lparr>pd_id := i\<rparr>]\<rparr>)) (\<lambda>_. ret i))))"

text \<open>An update of one case, under its guard; the changed row keeps the constraints.\<close>

definition update_case ::
    "payment_dispute_row \<Rightarrow> (payment_dispute_row \<Rightarrow> bool) \<Rightarrow> (payment_dispute_row \<Rightarrow> payment_dispute_row) \<Rightarrow> nat tx" where
  "update_case existing p f =
     andThen (query payment_disputes) (\<lambda>rows.
     andThen (require (list_all (\<lambda>r. pd_id r = pd_id existing \<or> \<not> p existing \<or> dispute_unique (f existing) [r]) rows)
       unique_violation) (\<lambda>_.
     update_payment_disputes (\<lambda>r. pd_id r = pd_id existing \<and> p r) f))"

definition find_case :: "dispute_event \<Rightarrow> db \<Rightarrow> payment_dispute_row option" where
  "find_case i s = find (\<lambda>d. pd_provider d = de_provider i \<and> pd_providerDisputeId d = de_providerDisputeId i)
     (payment_disputes s)"

definition find_wallet :: "string \<Rightarrow> db \<Rightarrow> wallet_row option" where
  "find_wallet i s = find (\<lambda>w. w_id w = i) (wallets s)"

definition replay_outcome :: "payment_dispute_row \<Rightarrow> dispute_outcome" where
  "replay_outcome existing =
     \<lparr>do_status = pd_status existing, do_held = moneyString (pd_heldAmount existing),
      do_shortfall = moneyString (pd_currentExposureAmount existing), do_walletId = pd_walletId existing,
      do_paymentDisputeId = pd_id existing, do_created = False, do_resolved = False\<rparr>"

text \<open>An opening event for a case that is already there: its evidence is attached once.\<close>

definition attachOpenEvidence :: "env \<Rightarrow> dispute_hooks \<Rightarrow> dispute_event \<Rightarrow> payment_dispute_row \<Rightarrow> unit tx" where
  "attachOpenEvidence env hooks i existing =
     (if truthy (pd_openedByEventId existing) then ret ()
      else
      andThen (update_case existing
        (\<lambda>r. pd_version r = pd_version existing \<and> pd_openedByEventId r = None \<and> pd_openedAt r = None)
        (\<lambda>r. r\<lparr>pd_openedByEventId := Some (de_providerEventRowId i), pd_openedAt := Some (env_now env),
               pd_version := pd_version r + 1\<rparr>)) (\<lambda>attached.
      andThen (require (attached = 1) dispute_race) (\<lambda>_.
      dh_audit hooks \<lparr>l_action = ''STRIPE_CHARGEBACK_OPEN_EVIDENCE_ATTACHED'', l_entityType = ''PaymentDispute'',
        l_entityId = pd_id existing,
        l_metadata = [(''providerDisputeId'', TextJ (de_providerDisputeId i)),
          (''providerPaymentId'', TextJ (de_providerPaymentId i)),
          (''providerEventRowId'', TextJ (de_providerEventRowId i)),
          (''terminalStatus'', TextJ (pd_status existing))],
        l_userId = None, l_organizationId = None, l_requestId = None\<rparr>)))"

definition replayOpen ::
    "env \<Rightarrow> dispute_hooks \<Rightarrow> dispute_event \<Rightarrow> linked_deposit \<Rightarrow> payment_dispute_row \<Rightarrow> dispute_outcome tx" where
  "replayOpen env hooks i deposit existing =
     andThen (attachOpenEvidence env hooks i existing) (\<lambda>_.
     andThen (if pd_status existing = ''OPEN'' then
         (case dh_notifyCustomer hooks of None \<Rightarrow> ret () | Some notify \<Rightarrow> notify (da_id (ld_attempt deposit)))
       else ret ()) (\<lambda>_.
     andThen (completeEvent env (da_id (ld_attempt deposit)) (pd_id existing) i) (\<lambda>_.
     ret (replay_outcome existing))))"

definition replayTerminal ::
    "env \<Rightarrow> dispute_event \<Rightarrow> string \<Rightarrow> linked_deposit \<Rightarrow> payment_dispute_row \<Rightarrow> dispute_outcome tx" where
  "replayTerminal env i desired deposit existing =
     (if pd_status existing \<noteq> desired then
        throw (TransitionFailure ''TERMINAL_CONTRADICTION''
          (''Stripe dispute is already terminal as '' @ pd_status existing @ ''; refusing conflicting '' @ desired
            @ '' outcome'') False)
      else
      andThen (completeEvent env (da_id (ld_attempt deposit)) (pd_id existing) i) (\<lambda>_.
      ret (replay_outcome existing)))"

text \<open>Money texts in messages.\<close>

definition uncovered :: "int \<Rightarrow> string" where
  "uncovered exposure = (if exposure > 0 then '', '' @ moneyString exposure @ '' uncovered'' else [])"

definition dispute_metadata ::
    "dispute_event \<Rightarrow> bool \<Rightarrow> linked_deposit \<Rightarrow> wallet_row \<Rightarrow> int \<Rightarrow> int \<Rightarrow> int \<Rightarrow> (string \<times> json) list" where
  "dispute_metadata i withCharge deposit wallet held bookedShortfall currentExposure =
     [(''providerDisputeId'', TextJ (de_providerDisputeId i)), (''providerPaymentId'', TextJ (de_providerPaymentId i))]
     @ (if withCharge then [(''providerChargeId'', opt_json (de_providerChargeId i))] else [])
     @ [(''depositTransactionId'', TextJ (t_id (ld_transaction deposit))), (''walletId'', TextJ (w_id wallet)),
        (''amount'', TextJ (de_amount i)), (''heldAmount'', TextJ (moneyString held)),
        (''bookedShortfallAmount'', TextJ (moneyString bookedShortfall)),
        (''currentExposureAmount'', TextJ (moneyString currentExposure)),
        (''currency'', TextJ (de_currency i)), (''providerStatus'', TextJ (de_providerStatus i))]"

definition dispute_audit :: "string \<Rightarrow> string \<Rightarrow> (string \<times> json) list \<Rightarrow> wallet_row \<Rightarrow> audit_row" where
  "dispute_audit action disputeId metadata wallet =
     \<lparr>l_action = action, l_entityType = ''PaymentDispute'', l_entityId = disputeId, l_metadata = metadata,
      l_userId = None, l_organizationId = w_organizationId wallet, l_requestId = None\<rparr>"

section \<open>Resolving an open case\<close>

definition releaseHold :: "string \<Rightarrow> wallet_row \<Rightarrow> int \<Rightarrow> unit tx" where
  "releaseHold desired wallet held =
     (if held > 0 then
        andThen (update_wallets (\<lambda>r. w_id r = w_id wallet \<and> w_version r = w_version wallet)
          (if desired = ''WON'' then
             (\<lambda>r. r\<lparr>w_reservedBalance := w_reservedBalance r - db_decimal (decimalString held),
                    w_availableBalance := w_availableBalance r + db_decimal (decimalString held),
                    w_version := w_version r + 1\<rparr>)
           else
             (\<lambda>r. r\<lparr>w_reservedBalance := w_reservedBalance r - db_decimal (decimalString held),
                    w_version := w_version r + 1\<rparr>))) (\<lambda>updated.
        require (updated = 1) dispute_race)
      else ret ())"

definition recordResolution :: "env \<Rightarrow> dispute_event \<Rightarrow> string \<Rightarrow> wallet_row \<Rightarrow> int \<Rightarrow> string option tx" where
  "recordResolution env i desired wallet held =
     (if held > 0 then
        andThen (create_transaction env (new_transaction\<lparr>t_walletId := Some (w_id wallet),
          t_amount := db_decimal (if desired = ''WON'' then decimalString held else decimalString (- held)),
          t_currency := de_currency i, t_type := (if desired = ''WON'' then ''RESERVATION'' else ''CHARGEBACK''),
          t_reference := Some (reference i (if desired = ''WON'' then ''won'' else ''lost'')),
          t_description := Some (''Provider dispute '' @ de_providerDisputeId i
            @ (if desired = ''WON'' then '' won '' @ em_dash @ '' '' @ moneyString held @ '' released''
               else '' lost '' @ em_dash @ '' '' @ moneyString held @ '' debited''))\<rparr>)) (\<lambda>resolution.
        ret (Some resolution))
      else ret None)"

definition closeCase ::
    "env \<Rightarrow> dispute_event \<Rightarrow> string \<Rightarrow> payment_dispute_row \<Rightarrow> string option \<Rightarrow> int \<Rightarrow> unit tx" where
  "closeCase env i desired existing resolutionTransactionId currentExposure =
     andThen (update_case existing
       (\<lambda>r. pd_status r = ''OPEN'' \<and> pd_version r = pd_version existing \<and> pd_resolutionTransactionId r = None)
       (\<lambda>r. r\<lparr>pd_status := desired, pd_providerStatus := de_providerStatus i,
              pd_resolvedByEventId := Some (de_providerEventRowId i),
              pd_resolutionTransactionId := resolutionTransactionId,
              pd_currentExposureAmount := db_decimal (decimalString currentExposure),
              pd_resolvedAt := Some (env_now env), pd_version := pd_version r + 1\<rparr>)) (\<lambda>transitioned.
     require (transitioned = 1) dispute_race)"

definition resolveCase ::
    "env \<Rightarrow> dispute_hooks \<Rightarrow> dispute_event \<Rightarrow> string \<Rightarrow> linked_deposit \<Rightarrow> payment_dispute_row \<Rightarrow> dispute_outcome tx" where
  "resolveCase env hooks i desired deposit existing =
     (let held = pd_heldAmount existing; bookedShortfall = pd_shortfallAmount existing;
          currentExposure = (if desired = ''WON'' then 0 else bookedShortfall)
      in andThen (query (find_wallet (pd_walletId existing))) (\<lambda>found.
         case found of None \<Rightarrow> throw (prisma_code ''P2025'')
         | Some wallet \<Rightarrow>
           andThen (require (to_upper (w_currency wallet) = de_currency i)
             (TransitionFailure ''WALLET_CURRENCY_MISMATCH''
               ''Wallet currency changed after the dispute hold was created'' False)) (\<lambda>_.
           andThen (require (\<not> (held > 0 \<and> w_reservedBalance wallet < held))
             (TransitionFailure ''HOLD_MISSING''
               ''Dispute hold is no longer present in the wallet reserved balance'' False)) (\<lambda>_.
           andThen (releaseHold desired wallet held) (\<lambda>_.
           andThen (recordResolution env i desired wallet held) (\<lambda>resolutionTransactionId.
           andThen (closeCase env i desired existing resolutionTransactionId currentExposure) (\<lambda>_.
           andThen (dh_audit hooks (dispute_audit
             (if desired = ''WON'' then ''STRIPE_CHARGEBACK_WON_RELEASED'' else ''STRIPE_CHARGEBACK_LOST_DEBITED'')
             (pd_id existing)
             (dispute_metadata i False deposit wallet held bookedShortfall currentExposure) wallet)) (\<lambda>_.
           andThen (dh_notifyFinance hooks \<lparr>fn_type = ''STRIPE_CHARGEBACK'',
             fn_message = ''Chargeback '' @ de_providerDisputeId i
               @ (if desired = ''WON''
                  then '' WON '' @ em_dash @ '' '' @ moneyString held @ '' released back to the wallet''
                  else '' LOST '' @ em_dash @ '' '' @ moneyString held @ '' debited'' @ uncovered currentExposure),
             fn_dedupKeyPrefix = ''chargeback:'' @ de_providerDisputeId i @ '':'' @ to_lower desired\<rparr>) (\<lambda>_.
           andThen (completeEvent env (da_id (ld_attempt deposit)) (pd_id existing) i) (\<lambda>_.
           ret \<lparr>do_status = desired, do_held = moneyString held, do_shortfall = moneyString currentExposure,
                do_walletId = w_id wallet, do_paymentDisputeId = pd_id existing, do_created = False,
                do_resolved = True\<rparr>))))))))))"

section \<open>Booking a new case\<close>

definition holdFunds :: "string \<Rightarrow> wallet_row \<Rightarrow> int \<Rightarrow> unit tx" where
  "holdFunds desired wallet held =
     (if held > 0 then
        andThen (update_wallets (\<lambda>r. w_id r = w_id wallet \<and> w_version r = w_version wallet)
          (if desired = ''OPEN'' then
             (\<lambda>r. r\<lparr>w_availableBalance := w_availableBalance r - db_decimal (decimalString held),
                    w_reservedBalance := w_reservedBalance r + db_decimal (decimalString held),
                    w_version := w_version r + 1\<rparr>)
           else
             (\<lambda>r. r\<lparr>w_availableBalance := w_availableBalance r - db_decimal (decimalString held),
                    w_version := w_version r + 1\<rparr>))) (\<lambda>updated.
        require (updated = 1) dispute_race)
      else ret ())"

definition case_row ::
    "dispute_event \<Rightarrow> linked_deposit \<Rightarrow> wallet_row \<Rightarrow> string \<Rightarrow> int \<Rightarrow> int \<Rightarrow> int \<Rightarrow> payment_dispute_row" where
  "case_row i deposit wallet status held bookedShortfall currentExposure =
     \<lparr>pd_id = [], pd_provider = de_provider i, pd_providerDisputeId = de_providerDisputeId i,
      pd_providerPaymentId = de_providerPaymentId i, pd_providerChargeId = de_providerChargeId i,
      pd_depositAttemptId = da_id (ld_attempt deposit), pd_depositTransactionId = t_id (ld_transaction deposit),
      pd_walletId = w_id wallet, pd_amount = db_decimal (de_amount i), pd_currency = de_currency i,
      pd_heldAmount = db_decimal (decimalString held),
      pd_shortfallAmount = db_decimal (decimalString bookedShortfall),
      pd_currentExposureAmount = db_decimal (decimalString currentExposure), pd_status = status,
      pd_providerStatus = de_providerStatus i, pd_openedByEventId = None, pd_resolvedByEventId = None,
      pd_holdTransactionId = None, pd_resolutionTransactionId = None, pd_version = 0, pd_openedAt = None,
      pd_resolvedAt = None\<rparr>"

definition openCase ::
    "env \<Rightarrow> dispute_hooks \<Rightarrow> dispute_event \<Rightarrow> linked_deposit \<Rightarrow> wallet_row \<Rightarrow> int \<Rightarrow> int \<Rightarrow> int \<Rightarrow> dispute_outcome tx" where
  "openCase env hooks i deposit wallet held bookedShortfall currentExposure =
     andThen (if held > 0 then
         andThen (create_transaction env (new_transaction\<lparr>t_walletId := Some (w_id wallet),
           t_amount := db_decimal (decimalString (- held)), t_currency := de_currency i, t_type := ''RESERVATION'',
           t_reference := Some (reference i ''hold''),
           t_description := Some (''Provider dispute hold '' @ de_providerDisputeId i @ '': '' @ moneyString held
             @ (if currentExposure > 0 then '' ('' @ moneyString currentExposure @ '' uncovered)'' else []))\<rparr>)) (\<lambda>hold.
         ret (Some hold))
       else ret None) (\<lambda>holdTransactionId.
     andThen (create_dispute env ((case_row i deposit wallet ''OPEN'' held bookedShortfall currentExposure)
       \<lparr>pd_openedByEventId := Some (de_providerEventRowId i), pd_holdTransactionId := holdTransactionId,
        pd_openedAt := Some (env_now env)\<rparr>)) (\<lambda>created.
     andThen (dh_audit hooks (dispute_audit ''STRIPE_CHARGEBACK_HOLD_PLACED'' created
       (dispute_metadata i True deposit wallet held bookedShortfall currentExposure) wallet)) (\<lambda>_.
     andThen (dh_notifyFinance hooks \<lparr>fn_type = ''STRIPE_CHARGEBACK'',
       fn_message = ''Chargeback '' @ de_providerDisputeId i @ '' for '' @ de_amount i @ '' '' @ de_currency i @ '' ''
         @ em_dash @ '' '' @ moneyString held @ '' held'' @ uncovered currentExposure
         @ ''. Respond in Stripe dashboard.'',
       fn_dedupKeyPrefix = ''chargeback:'' @ de_providerDisputeId i @ '':opened''\<rparr>) (\<lambda>_.
     andThen (case dh_notifyCustomer hooks of None \<Rightarrow> ret () | Some notify \<Rightarrow> notify (da_id (ld_attempt deposit))) (\<lambda>_.
     andThen (completeEvent env (da_id (ld_attempt deposit)) created i) (\<lambda>_.
     ret \<lparr>do_status = ''OPEN'', do_held = moneyString held, do_shortfall = moneyString currentExposure,
          do_walletId = w_id wallet, do_paymentDisputeId = created, do_created = True, do_resolved = False\<rparr>))))))"

definition terminalCase ::
    "env \<Rightarrow> dispute_hooks \<Rightarrow> dispute_event \<Rightarrow> string \<Rightarrow> linked_deposit \<Rightarrow> wallet_row \<Rightarrow> int \<Rightarrow> int \<Rightarrow> int
      \<Rightarrow> dispute_outcome tx" where
  "terminalCase env hooks i desired deposit wallet held bookedShortfall currentExposure =
     andThen (if held > 0 then
         andThen (create_transaction env (new_transaction\<lparr>t_walletId := Some (w_id wallet),
           t_amount := db_decimal (decimalString (- held)), t_currency := de_currency i, t_type := ''CHARGEBACK'',
           t_reference := Some (reference i ''lost''),
           t_description := Some (''Provider dispute '' @ de_providerDisputeId i
             @ '' lost before an open event was applied '' @ em_dash @ '' '' @ moneyString held @ '' debited'')\<rparr>))
           (\<lambda>resolution. ret (Some resolution))
       else ret None) (\<lambda>resolutionTransactionId.
     andThen (create_dispute env ((case_row i deposit wallet desired held bookedShortfall currentExposure)
       \<lparr>pd_resolvedByEventId := Some (de_providerEventRowId i),
        pd_resolutionTransactionId := resolutionTransactionId, pd_resolvedAt := Some (env_now env)\<rparr>)) (\<lambda>created.
     andThen (dh_audit hooks (dispute_audit
       (if desired = ''WON'' then ''STRIPE_CHARGEBACK_WON_BEFORE_OPEN'' else ''STRIPE_CHARGEBACK_LOST_BEFORE_OPEN'')
       created (dispute_metadata i False deposit wallet held bookedShortfall currentExposure) wallet)) (\<lambda>_.
     andThen (dh_notifyFinance hooks \<lparr>fn_type = ''STRIPE_CHARGEBACK'',
       fn_message = ''Chargeback '' @ de_providerDisputeId i
         @ (if desired = ''WON''
            then '' WON before the open event was applied '' @ em_dash @ '' no wallet funds moved''
            else '' LOST before the open event was applied '' @ em_dash @ '' '' @ moneyString held @ '' debited''
              @ uncovered currentExposure),
       fn_dedupKeyPrefix = ''chargeback:'' @ de_providerDisputeId i @ '':'' @ to_lower desired\<rparr>) (\<lambda>_.
     andThen (completeEvent env (da_id (ld_attempt deposit)) created i) (\<lambda>_.
     ret \<lparr>do_status = desired, do_held = moneyString held, do_shortfall = moneyString currentExposure,
          do_walletId = w_id wallet, do_paymentDisputeId = created, do_created = True, do_resolved = True\<rparr>)))))"

definition bookCase ::
    "env \<Rightarrow> dispute_hooks \<Rightarrow> dispute_event \<Rightarrow> string \<Rightarrow> linked_deposit \<Rightarrow> dispute_outcome tx" where
  "bookCase env hooks i desired deposit =
     andThen (query (\<lambda>s. sum_list (map pd_amount
       (filter (\<lambda>d. pd_depositTransactionId d = t_id (ld_transaction deposit)) (payment_disputes s))))) (\<lambda>aggregate.
     andThen (lift_sum error (scaledDecimal (column aggregate))) (\<lambda>booked.
     andThen (lift_sum error (scaledDecimal (JText (de_amount i)))) (\<lambda>amount.
     andThen (lift_sum error (scaledDecimal (column (t_amount (ld_transaction deposit))))) (\<lambda>credit.
     andThen (require (\<not> booked + amount > credit)
       (TransitionFailure ''CUMULATIVE_AMOUNT_EXCEEDED''
         ''Cumulative disputes exceed the originating deposit credit'' False)) (\<lambda>_.
     andThen (query (find_wallet (ld_walletId deposit))) (\<lambda>found.
     case found of None \<Rightarrow> throw (prisma_code ''P2025'')
     | Some wallet \<Rightarrow>
       andThen (require (to_upper (w_currency wallet) = de_currency i)
         (TransitionFailure ''WALLET_CURRENCY_MISMATCH''
           ''Stripe dispute currency does not match the wallet'' False)) (\<lambda>_.
       andThen (lift_sum error (scaledDecimal (column (w_availableBalance wallet)))) (\<lambda>available.
       andThen (require (\<not> available < 0)
         (TransitionFailure ''WALLET_NEGATIVE''
           ''Wallet available balance is negative; reconcile before applying a dispute'' False)) (\<lambda>_.
       let held = (if desired = ''WON'' then 0 else if available < amount then available else amount);
           bookedShortfall = amount - held;
           currentExposure = (if desired = ''WON'' then 0 else bookedShortfall)
       in andThen (holdFunds desired wallet held) (\<lambda>_.
          if desired = ''OPEN'' then openCase env hooks i deposit wallet held bookedShortfall currentExposure
          else terminalCase env hooks i desired deposit wallet held bookedShortfall currentExposure))))))))))"

section \<open>The transition\<close>

definition validateEvent :: "dispute_event \<Rightarrow> linked_deposit tx" where
  "validateEvent i = andThen (readAndAssertEvent i) (\<lambda>_. findLinkedDeposit i)"

definition paymentDisputeTx :: "env \<Rightarrow> dispute_hooks \<Rightarrow> dispute_event \<Rightarrow> string \<Rightarrow> dispute_outcome tx" where
  "paymentDisputeTx env hooks i desired =
     andThen (validateEvent i) (\<lambda>deposit.
     andThen (assertCurrentStripeMode env i) (\<lambda>_.
     andThen (lockWalletForUpdate (ld_walletId deposit)) (\<lambda>_.
     andThen (query (find_case i)) (\<lambda>found.
     case found of
       Some existing \<Rightarrow>
         andThen (lift_sum id (assertExactCase existing i deposit)) (\<lambda>_.
         if desired = ''OPEN'' then replayOpen env hooks i deposit existing
         else if pd_status existing \<noteq> ''OPEN'' then replayTerminal env i desired deposit existing
         else resolveCase env hooks i desired deposit existing)
     | None \<Rightarrow> bookCase env hooks i desired deposit))))"

text \<open>
  The retry loop.  \<open>w n\<close> is what happens around attempt \<open>n\<close>: the changes other transactions commit
  after it, and the failure with which the database aborts it, if it does.
  \<open>validated\<close> is the deposit the last attempt that got so far has validated.  A violated unique
  constraint is retried only when the case found then is exactly the one of the event.
\<close>

definition concurrent_change :: "bool \<Rightarrow> failure" where
  "concurrent_change raced = TransitionFailure ''CONCURRENT_CHANGE''
     (if raced then ''Payment dispute changed concurrently; the durable inbox will retry it''
      else ''Payment dispute could not be processed'') True"

fun transition_loop ::
    "env \<Rightarrow> dispute_hooks \<Rightarrow> dispute_event \<Rightarrow> string \<Rightarrow> weather \<Rightarrow> nat \<Rightarrow> nat \<Rightarrow> bool \<Rightarrow> linked_deposit option \<Rightarrow> db
      \<Rightarrow> (failure + dispute_outcome) \<times> db" where
  "transition_loop env hooks i desired w 0 n raced validated s = (Inl (concurrent_change raced), s)"
| "transition_loop env hooks i desired w (Suc left) n raced validated s =
     (case attempt_tx (snd (w n)) (paymentDisputeTx env hooks i desired) s of
        Inr (outcome, s') \<Rightarrow> (Inr outcome, s')
      | Inl e \<Rightarrow>
          (let s1 = fst (w n) s;
               validated' = (case validateEvent i s of Inr (d, _) \<Rightarrow> Some d | Inl _ \<Rightarrow> validated)
           in if e = dispute_race \<or> isRetryablePrismaTransactionError e then
                transition_loop env hooks i desired w left (n + 1) True validated' s1
              else if isPrismaUniqueConstraintError e then
                (case (find_case i s1, validated') of
                   (Some existing, Some d) \<Rightarrow>
                     (case assertExactCase existing i d of
                        Inl e' \<Rightarrow> (Inl e', s1)
                      | Inr _ \<Rightarrow> transition_loop env hooks i desired w left (n + 1) True validated' s1)
                 | _ \<Rightarrow> (Inl e, s1))
              else (Inl e, s1)))"

definition transitionPaymentDispute ::
    "env \<Rightarrow> dispute_hooks \<Rightarrow> weather \<Rightarrow> dispute_event \<Rightarrow> db \<Rightarrow> (failure + dispute_outcome) \<times> db" where
  "transitionPaymentDispute env hooks w i s =
     (if de_eventFingerprint i \<noteq> paymentDisputeEventFingerprint env i then
        (Inl (TransitionFailure ''EVENT_ENVELOPE_MISMATCH''
          ''Payment dispute event fingerprint does not match its normalized signed facts'' False), s)
      else
        (case paymentDisputeTargetStatus i of
           Inl f \<Rightarrow> (Inl f, s)
         | Inr desired \<Rightarrow> transition_loop env hooks i desired w PAYMENT_DISPUTE_MAX_ATTEMPTS 0 False None s))"

end
