(* ===== verification/Books.thy ===== *)
theory Books
  imports Payment_Dispute
begin

text \<open>
  The books of the customers: what a wallet has and holds, and how a transaction moves one wallet
  and appends to the ledger.  Dispute_Safety and Deposit_Safety state the effect of a dispute and
  of a deposit in these terms.
\<close>

section \<open>Side tables\<close>

text \<open>What hooks may write: the audit log, the outbox, notifications and generated ids.\<close>

definition aside :: "db \<Rightarrow> db \<Rightarrow> bool" where
  "aside s s' \<longleftrightarrow> (\<exists>a b n k. s' = s\<lparr>audit_logs := a, outbox := b, notifications := n, id_supply := k\<rparr>)"

lemma aside_refl [simp]: "aside s s"
proof -
  have "s = s\<lparr>audit_logs := audit_logs s, outbox := outbox s, notifications := notifications s,
      id_supply := id_supply s\<rparr>" by simp
  then show ?thesis unfolding aside_def by blast
qed

lemma aside_audit [simp]: "aside s (s\<lparr>audit_logs := l\<rparr>)"
  unfolding aside_def by (intro exI[of _ l] exI[of _ "outbox s"] exI[of _ "notifications s"] exI[of _ "id_supply s"]) simp

section \<open>Wallet moves and ledger rows\<close>

definition available_of :: "string \<Rightarrow> db \<Rightarrow> int" where
  "available_of i s = (case find_wallet i s of None \<Rightarrow> 0 | Some w \<Rightarrow> w_availableBalance w)"

definition reserved_of :: "string \<Rightarrow> db \<Rightarrow> int" where
  "reserved_of i s = (case find_wallet i s of None \<Rightarrow> 0 | Some w \<Rightarrow> w_reservedBalance w)"

definition wallet_total :: "db \<Rightarrow> int" where
  "wallet_total s = sum_list (map (\<lambda>w. w_availableBalance w + w_reservedBalance w) (wallets s))"

text \<open>Only wallet \<open>wid\<close> moves: by \<open>a\<close> available and \<open>r\<close> reserved.\<close>

definition wallet_moved :: "string \<Rightarrow> int \<Rightarrow> int \<Rightarrow> db \<Rightarrow> db \<Rightarrow> bool" where
  "wallet_moved wid a r s s' \<longleftrightarrow>
     map w_id (wallets s') = map w_id (wallets s)
     \<and> (\<forall>i. available_of i s' = available_of i s + (if i = wid then a else 0))
     \<and> (\<forall>i. reserved_of i s' = reserved_of i s + (if i = wid then r else 0))
     \<and> wallet_total s' = wallet_total s + a + r"

text \<open>The ledger gains exactly rows of these types and amounts, all on wallet \<open>wid\<close>.\<close>

definition ledger_gains :: "string \<Rightarrow> (string \<times> int) list \<Rightarrow> db \<Rightarrow> db \<Rightarrow> bool" where
  "ledger_gains wid rows s s' \<longleftrightarrow>
     (\<exists>ts. transactions s' = transactions s @ ts \<and> map (\<lambda>t. (t_type t, t_amount t)) ts = rows
        \<and> (\<forall>t \<in> set ts. t_walletId t = Some wid \<and> t_orderId t = None \<and> t_settlementId t = None
          \<and> t_publisherId t = None))"

lemma moved_same: "wallets s' = wallets s \<Longrightarrow> wallet_moved wid 0 0 s s'"
  by (simp add: wallet_moved_def available_of_def reserved_of_def find_wallet_def wallet_total_def)

lemma moved_wallets:
  "wallets t = wallets s \<Longrightarrow> wallets t' = wallets s' \<Longrightarrow> wallet_moved wid a r t t' = wallet_moved wid a r s s'"
  by (simp add: wallet_moved_def available_of_def reserved_of_def find_wallet_def wallet_total_def)

lemma gains_ledger:
  "transactions t = transactions s \<Longrightarrow> transactions t' = transactions s' \<Longrightarrow>
     ledger_gains wid rows t t' = ledger_gains wid rows s s'"
  by (simp add: ledger_gains_def)

lemma gains_none: "transactions s' = transactions s \<Longrightarrow> ledger_gains wid [] s s'"
  by (simp add: ledger_gains_def)

lemma guarded_wallet:
  assumes d: "distinct (map w_id (wallets s))" and w: "find_wallet wid s = Some w"
    and f: "\<And>x. w_id (f x) = w_id x" "w_availableBalance (f w) = w_availableBalance w + a"
      "w_reservedBalance (f w) = w_reservedBalance w + r"
  shows "wallet_moved wid a r s (s\<lparr>wallets := update_where (\<lambda>x. w_id x = wid \<and> w_version x = w_version w) f (wallets s)\<rparr>)"
proof -
  let ?s = "s\<lparr>wallets := update_where (\<lambda>x. w_id x = wid \<and> w_version x = w_version w) f (wallets s)\<rparr>"
  have w': "find (\<lambda>x. w_id x = wid) (wallets s) = Some w" using w by (simp add: find_wallet_def)
  have at: "(\<lambda>x. w_id x = wid \<and> w_version x = w_version w) = versioned_wallets.row_at wid (w_version w)"
    by (simp add: fun_eq_iff versioned_wallets.row_at_def)
  have "find_wallet i ?s = (if i = wid then Some (f w) else find_wallet i s)" for i
    using versioned_wallets.guarded_find[OF _ w' refl, where f = f] f(1)
    by (simp add: find_wallet_def at)
  moreover have "wallet_total ?s = wallet_total s + a + r"
    using versioned_wallets.guarded_sum[OF d w' refl, where g = "\<lambda>x. w_availableBalance x + w_reservedBalance x" and f = f] f
    by (simp add: wallet_total_def at)
  ultimately show ?thesis
    using w f by (simp add: wallet_moved_def available_of_def reserved_of_def map_update_where)
qed

lemma find_wallet_in: "distinct (map w_id (wallets s)) \<Longrightarrow> w \<in> set (wallets s) \<Longrightarrow> find_wallet (w_id w) s = Some w"
  unfolding find_wallet_def by (rule find_distinct) simp_all

text \<open>The sum of the ledger rows of one type.\<close>

definition ledger_sum :: "string \<Rightarrow> db \<Rightarrow> int" where
  "ledger_sum k s = sum_list (map t_amount (filter (\<lambda>t. t_type t = k) (transactions s)))"

lemma ledger_sum_gain:
  assumes "ledger_gains wid rows s s'"
  shows "ledger_sum k s' = ledger_sum k s + sum_list (map snd (filter (\<lambda>r. fst r = k) rows))"
proof -
  obtain ts where ts: "transactions s' = transactions s @ ts" "map (\<lambda>t. (t_type t, t_amount t)) ts = rows"
    using assms by (auto simp: ledger_gains_def)
  have "sum_list (map t_amount (filter (\<lambda>t. t_type t = k) ts)) = sum_list (map snd (filter (\<lambda>r. fst r = k) rows))"
    unfolding ts(2)[symmetric] by (simp add: filter_map o_def)
  with ts(1) show ?thesis by (simp add: ledger_sum_def)
qed

end
