(* ===== verification/Order_Refund.thy ===== *)
theory Order_Refund
  imports Settlement_Gating
begin

text \<open>
  The full wallet refund of a paid order nobody has accepted (\<open>order-refund-core.ts\<close>), inside the
  transaction of its caller.  The audit writer is the caller's: a parameter.
\<close>

datatype refund_responsibility = RR_CUSTOMER | RR_PUBLISHER | RR_PLATFORM | RR_SHARED | RR_SYSTEM

fun responsibility_text :: "refund_responsibility \<Rightarrow> string" where
  "responsibility_text RR_CUSTOMER = ''CUSTOMER''"
| "responsibility_text RR_PUBLISHER = ''PUBLISHER''"
| "responsibility_text RR_PLATFORM = ''PLATFORM''"
| "responsibility_text RR_SHARED = ''SHARED''"
| "responsibility_text RR_SYSTEM = ''SYSTEM''"

record unaccepted_order =
  uo_id :: string
  uo_organizationId :: string
  uo_status :: string
  uo_paymentStatus :: string
  uo_currency :: string
  uo_amount :: "int option"
  uo_version :: int

record refund_input =
  rf_reference :: string
  rf_reason :: string
  rf_responsibility :: refund_responsibility
  rf_actorUserId :: "string option"
  rf_auditAction :: string
  rf_auditMetadata :: "(string \<times> json) list"

definition conflict :: "string \<Rightarrow> failure" where
  "conflict message = Failure ''OrderRefundConflictError'' message"

definition refund_amount :: "unaccepted_order \<Rightarrow> int" where
  "refund_amount ord = (case uo_amount ord of None \<Rightarrow> 0 | Some a \<Rightarrow> a)"

definition find_org_wallet :: "string \<Rightarrow> db \<Rightarrow> wallet_row option" where
  "find_org_wallet organizationId s = find (\<lambda>w. w_organizationId w = Some organizationId) (wallets s)"

text \<open>The checks on the order and on its wallet.\<close>

definition refundableWallet :: "unaccepted_order \<Rightarrow> wallet_row tx" where
  "refundableWallet ord =
     andThen (require (uo_status ord = ''PAID'' \<or> uo_status ord = ''SUBMITTED'')
       (conflict (''Unaccepted refund cannot run from '' @ uo_status ord))) (\<lambda>_.
     andThen (require (uo_paymentStatus ord = ''PAID'')
       (conflict ''Unaccepted refund requires captured payment'')) (\<lambda>_.
     andThen (require (uo_currency ord = ''USD'')
       (conflict (''Unaccepted refund requires exact USD order currency, received '' @ uo_currency ord))) (\<lambda>_.
     andThen (query (find_org_wallet (uo_organizationId ord))) (\<lambda>wallet.
     case wallet of
       None \<Rightarrow> throw (conflict (''Wallet missing for paid order '' @ uo_id ord))
     | Some w \<Rightarrow>
         andThen (require (\<not> (w_currency w \<noteq> ''USD'' \<or> w_currency w \<noteq> uo_currency ord))
           (conflict ''Unaccepted refund wallet currency does not match the USD order'')) (\<lambda>_. ret w)))))"

text \<open>The two versioned claims: the wallet gets the amount, the order becomes refunded.\<close>

definition claimRefund :: "unaccepted_order \<Rightarrow> refund_responsibility \<Rightarrow> wallet_row \<Rightarrow> unit tx" where
  "claimRefund ord responsibility wallet =
     andThen (update_wallets (\<lambda>r. w_id r = w_id wallet \<and> w_version r = w_version wallet)
       (\<lambda>r. r\<lparr>w_availableBalance := w_availableBalance r + refund_amount ord, w_version := w_version r + 1\<rparr>))
       (\<lambda>walletUpdated.
     andThen (require (walletUpdated \<noteq> 0) (conflict (''Wallet changed during refund '' @ uo_id ord))) (\<lambda>_.
     andThen (update_orders
       (\<lambda>r. o_id r = uo_id ord \<and> o_version r = uo_version ord \<and> o_status r = uo_status ord
          \<and> o_paymentStatus r = ''PAID'')
       (\<lambda>r. r\<lparr>o_status := ''REFUNDED'', o_paymentStatus := ''REFUNDED'',
              o_refundResponsibility := Some (responsibility_text responsibility), o_version := o_version r + 1\<rparr>))
       (\<lambda>orderUpdated.
     require (orderUpdated \<noteq> 0) (conflict (''Order changed during refund '' @ uo_id ord)))))"

definition refundUnacceptedPaidOrderInTransaction ::
    "env \<Rightarrow> (audit_row \<Rightarrow> unit tx) \<Rightarrow> unaccepted_order \<Rightarrow> refund_input \<Rightarrow> (order_row \<times> string) tx" where
  "refundUnacceptedPaidOrderInTransaction env writeAudit ord i =
     andThen (refundableWallet ord) (\<lambda>wallet.
     andThen (claimRefund ord (rf_responsibility i) wallet) (\<lambda>_.
     andThen (update_assignments
       (\<lambda>r. f_orderId r = uo_id ord \<and> (f_status r = ''ASSIGNED'' \<or> f_status r = ''IN_PROGRESS''))
       (\<lambda>r. r\<lparr>f_status := ''CANCELLED'', f_version := f_version r + 1\<rparr>)) (\<lambda>_.
     andThen (create_transaction env (new_transaction\<lparr>t_amount := refund_amount ord, t_currency := ''USD'',
       t_type := ''REFUND'', t_orderId := Some (uo_id ord), t_walletId := Some (w_id wallet),
       t_reference := Some (rf_reference i), t_description := Some (''Refund for order '' @ uo_id ord)\<rparr>)) (\<lambda>transaction.
     andThen (create_event \<lparr>e_orderId = uo_id ord, e_settlementId = None, e_eventType = ''REFUND_ISSUED'',
       e_actorId = rf_actorUserId i, e_message = ''Order refunded: '' @ rf_reason i,
       e_metadata = ObjJ [(''reason'', TextJ (rf_reason i)),
         (''responsibility'', TextJ (responsibility_text (rf_responsibility i))),
         (''refundTransactionId'', TextJ transaction)]\<rparr>) (\<lambda>_.
     andThen (writeAudit \<lparr>l_action = rf_auditAction i, l_entityType = ''Order'', l_entityId = uo_id ord,
       l_metadata = spread (spread [(''fromStatus'', TextJ (uo_status ord)),
           (''responsibility'', TextJ (responsibility_text (rf_responsibility i))),
           (''refundTransactionId'', TextJ transaction)] (rf_auditMetadata i))
         [(''reason'', TextJ (rf_reason i))],
       l_userId = rf_actorUserId i, l_organizationId = Some (uo_organizationId ord), l_requestId = None\<rparr>) (\<lambda>_.
     andThen (query (find_order (uo_id ord))) (\<lambda>refunded.
     case refunded of None \<Rightarrow> throw (prisma_code ''P2025'') | Some r \<Rightarrow> ret (r, transaction))))))))"

section \<open>What a refund does\<close>

text \<open>A writer of audit rows: it changes nothing but the audit log.\<close>

definition audit_writer :: "(audit_row \<Rightarrow> unit tx) \<Rightarrow> bool" where
  "audit_writer write \<longleftrightarrow> (\<forall>a s u s'. write a s = Inr (u, s') \<longrightarrow> (\<exists>logs. s' = s\<lparr>audit_logs := logs\<rparr>))"

lemma audit_writer_create: "audit_writer create_audit"
  by (auto simp: audit_writer_def tx_simps)

lemma refundableWallet_Inr [tx_simps]:
  "refundableWallet ord s = Inr r \<longleftrightarrow>
     (\<exists>w. r = (w, s) \<and> find_org_wallet (uo_organizationId ord) s = Some w \<and> w_currency w = ''USD''
        \<and> uo_status ord \<in> {''PAID'', ''SUBMITTED''} \<and> uo_paymentStatus ord = ''PAID'' \<and> uo_currency ord = ''USD'')"
  by (cases "find_org_wallet (uo_organizationId ord) s") (auto simp: refundableWallet_def tx_simps)

definition refund_row :: "env \<Rightarrow> nat \<Rightarrow> unaccepted_order \<Rightarrow> refund_input \<Rightarrow> wallet_row \<Rightarrow> transaction_row" where
  "refund_row env n ord i w = new_transaction\<lparr>t_amount := refund_amount ord, t_currency := ''USD'',
     t_type := ''REFUND'', t_orderId := Some (uo_id ord), t_walletId := Some (w_id w),
     t_reference := Some (rf_reference i), t_description := Some (''Refund for order '' @ uo_id ord),
     t_id := env_cuid env n, t_createdAt := env_now env\<rparr>"

definition refunded_between ::
    "env \<Rightarrow> unaccepted_order \<Rightarrow> refund_input \<Rightarrow> db \<Rightarrow> db \<Rightarrow> order_row \<Rightarrow> wallet_row \<Rightarrow> bool" where
  "refunded_between env ord i s s' r w \<longleftrightarrow>
     find_order (uo_id ord) s = Some r \<and> o_version r = uo_version ord \<and> o_status r = uo_status ord
     \<and> o_paymentStatus r = ''PAID'' \<and> o_status r \<in> {''PAID'', ''SUBMITTED''}
     \<and> find_org_wallet (uo_organizationId ord) s = Some w \<and> w_currency w = ''USD''
     \<and> find_order (uo_id ord) s' = Some (r\<lparr>o_status := ''REFUNDED'', o_paymentStatus := ''REFUNDED'',
          o_refundResponsibility := Some (responsibility_text (rf_responsibility i)), o_version := o_version r + 1\<rparr>)
     \<and> wallets s' = update_where (\<lambda>x. x = w)
          (\<lambda>x. x\<lparr>w_availableBalance := w_availableBalance x + refund_amount ord, w_version := w_version x + 1\<rparr>) (wallets s)
     \<and> sum_list (map w_availableBalance (wallets s')) = sum_list (map w_availableBalance (wallets s)) + refund_amount ord
     \<and> transactions s' = transactions s @ [refund_row env (id_supply s) ord i w]
     \<and> (\<forall>a \<in> set (assignments s'). f_orderId a \<noteq> uo_id ord \<or> f_status a \<notin> {''ASSIGNED'', ''IN_PROGRESS''})
     \<and> settlements s' = settlements s \<and> balances s' = balances s"

lemma refund_Inr:
  assumes wf: "db_wf s" and wr: "audit_writer write"
    and run: "refundUnacceptedPaidOrderInTransaction env write ord i s = Inr ((row, txid), s')"
  shows "db_wf s' \<and> find_order (uo_id ord) s' = Some row
    \<and> (\<exists>r w. refunded_between env ord i s s' r w)"
proof -
  let ?pw = "\<lambda>w r. w_id r = w_id w \<and> w_version r = w_version w"
  let ?fw = "\<lambda>r. r\<lparr>w_availableBalance := w_availableBalance r + refund_amount ord, w_version := w_version r + 1\<rparr>"
  let ?po = "\<lambda>r. o_id r = uo_id ord \<and> o_version r = uo_version ord \<and> o_status r = uo_status ord \<and> o_paymentStatus r = ''PAID''"
  let ?fo = "\<lambda>r. r\<lparr>o_status := ''REFUNDED'', o_paymentStatus := ''REFUNDED'',
              o_refundResponsibility := Some (responsibility_text (rf_responsibility i)), o_version := o_version r + 1\<rparr>"
  let ?pf = "\<lambda>r. f_orderId r = uo_id ord \<and> (f_status r = ''ASSIGNED'' \<or> f_status r = ''IN_PROGRESS'')"
  let ?ff = "\<lambda>r. r\<lparr>f_status := ''CANCELLED'', f_version := f_version r + 1\<rparr>"
  obtain w e a where w: "find_org_wallet (uo_organizationId ord) s = Some w" "w_currency w = ''USD''"
      "uo_status ord \<in> {''PAID'', ''SUBMITTED''}"
    and co: "count_where ?po (orders s) \<noteq> 0"
    and wa: "write a (s\<lparr>wallets := update_where (?pw w) ?fw (wallets s), orders := update_where ?po ?fo (orders s),
        assignments := update_where ?pf ?ff (assignments s), id_supply := id_supply s + 1,
        transactions := transactions s @ [refund_row env (id_supply s) ord i w], order_events := e\<rparr>) = Inr ((), s')"
    and row: "find_order (uo_id ord) s' = Some row"
    using run
    by (auto simp: refundUnacceptedPaidOrderInTransaction_def claimRefund_def tx_simps refund_row_def
        split: option.splits)
  then obtain logs where s': "s' = s\<lparr>wallets := update_where (?pw w) ?fw (wallets s), orders := update_where ?po ?fo (orders s),
        assignments := update_where ?pf ?ff (assignments s), id_supply := id_supply s + 1,
        transactions := transactions s @ [refund_row env (id_supply s) ord i w], order_events := e, audit_logs := logs\<rparr>"
    using wr unfolding audit_writer_def by blast
  obtain r where r: "find_order (uo_id ord) s = Some r" "?po r"
  proof (cases "find_order (uo_id ord) s")
    case None
    then show ?thesis using co count_not_found[of o_id "uo_id ord" "orders s"] by (simp add: find_order_def)
  next
    case (Some r)
    then have "?po r"
      using co count_found[OF db_wfD(1)[OF wf] Some[unfolded find_order_def]]
        find_key[OF Some[unfolded find_order_def]] by (auto split: if_splits)
    with Some show ?thesis by (rule that)
  qed
  have win: "w \<in> set (wallets s)" using w(1) find_key[of _ "wallets s"] by (simp add: find_org_wallet_def)
  have only: "update_where (?pw w) ?fw (wallets s) = update_where (\<lambda>x. x = w) ?fw (wallets s)"
  proof (rule update_where_cong)
    fix x assume "x \<in> set (wallets s)"
    then show "?pw w x = (x = w)" using distinct_key_eq[OF db_wfD(2)[OF wf] _ win] by blast
  qed
  have sum: "sum_list (map w_availableBalance (update_where (\<lambda>x. x = w) ?fw (wallets s)))
      = sum_list (map w_availableBalance (wallets s)) + refund_amount ord"
    by (rule count_one_sum[OF db_wfD(2)[OF wf] win]) simp
  have facts: "find_order (uo_id ord) s' = Some (?fo r)"
    "\<forall>a \<in> set (assignments s'). f_orderId a \<noteq> uo_id ord \<or> f_status a \<notin> {''ASSIGNED'', ''IN_PROGRESS''}"
    "wallets s' = update_where (\<lambda>x. x = w) ?fw (wallets s)"
    "transactions s' = transactions s @ [refund_row env (id_supply s) ord i w]"
    "settlements s' = settlements s" "balances s' = balances s"
    using r by (auto simp: s' find_order_def find_update_where update_where_def[of ?pf] only)
  have order: "o_version r = uo_version ord" "o_status r = uo_status ord" "o_paymentStatus r = ''PAID''"
    "o_status r \<in> {''PAID'', ''SUBMITTED''}" using r(2) w(3) by auto
  have total: "sum_list (map w_availableBalance (wallets s')) = sum_list (map w_availableBalance (wallets s)) + refund_amount ord"
    unfolding facts(3) by (rule sum)
  have "refunded_between env ord i s s' r w"
    unfolding refunded_between_def by (intro conjI) (fact r(1) w(1,2) facts order total)+
  moreover have "db_wf s'" using wf by (simp add: s' db_wf_def map_update_where)
  ultimately show ?thesis using row by blast
qed

section \<open>Properties\<close>

text \<open>C30: A refund returns exactly the order's amount, once.  It runs only on an order still PAID or
  SUBMITTED, paid, at the version it was read with; the order becomes refunded, only the
  organization's USD wallet moves and by exactly the amount, the ledger gains the one refund
  row, open fulfillment assignments are cancelled, and settlements and balances stay.\<close>

theorem refund_exact:
  assumes "db_wf s" "audit_writer write"
    "refundUnacceptedPaidOrderInTransaction env write ord i s = Inr ((row, txid), s')"
  shows "db_wf s' \<and> find_order (uo_id ord) s' = Some row \<and> (\<exists>r w. refunded_between env ord i s s' r w)"
  by (rule refund_Inr[OF assms])

definition refundable_db :: db where
  "refundable_db = example_db\<lparr>orders := [example_order\<lparr>o_status := ''SUBMITTED''\<rparr>],
     assignments := [\<lparr>f_orderId = ''o1'', f_status = ''ASSIGNED'', f_version = 0\<rparr>]\<rparr>"

definition example_unaccepted :: unaccepted_order where
  "example_unaccepted = \<lparr>uo_id = ''o1'', uo_organizationId = ''g1'', uo_status = ''SUBMITTED'',
     uo_paymentStatus = ''PAID'', uo_currency = ''USD'', uo_amount = Some (300 * CENT), uo_version = 4\<rparr>"

definition example_refund_input :: refund_input where
  "example_refund_input = \<lparr>rf_reference = ''refund:o1'', rf_reason = ''declined'', rf_responsibility = RR_PUBLISHER,
     rf_actorUserId = None, rf_auditAction = ''ORDER_DECLINED'', rf_auditMetadata = []\<rparr>"

definition example_refund :: "(order_row \<times> string) \<times> db" where
  "example_refund = projr (refundUnacceptedPaidOrderInTransaction example_env create_audit example_unaccepted
     example_refund_input refundable_db)"

lemma refundable_db_wf: "db_wf refundable_db"
  by (simp add: db_wf_def refundable_db_def example_defs)

lemma example_refund_run:
  "refundUnacceptedPaidOrderInTransaction example_env create_audit example_unaccepted example_refund_input refundable_db
     = Inr ((fst (fst example_refund), snd (fst example_refund)), snd example_refund)"
proof -
  have "\<not> isl (refundUnacceptedPaidOrderInTransaction example_env create_audit example_unaccepted
      example_refund_input refundable_db)" by code_simp
  then show ?thesis by (simp add: example_refund_def)
qed

theorem refund_exact_witness:
  "db_wf (snd example_refund) \<and> find_order (uo_id example_unaccepted) (snd example_refund) = Some (fst (fst example_refund))
   \<and> (\<exists>r w. refunded_between example_env example_unaccepted example_refund_input refundable_db (snd example_refund) r w)"
  by (rule refund_exact[OF refundable_db_wf audit_writer_create example_refund_run])

text \<open>No second refund: once an order is refunded, every later run of the refund for that order,
  whatever snapshot, input or outside world it is given, fails and so changes nothing.\<close>

theorem refund_once:
  assumes "db_wf s" "audit_writer write"
    "refundUnacceptedPaidOrderInTransaction env write ord i s = Inr ((row, txid), s')"
    "uo_id ord2 = uo_id ord"
  shows "\<exists>e. refundUnacceptedPaidOrderInTransaction env2 write2 ord2 i2 s' = Inl e"
proof (rule ccontr)
  assume "\<not> ?thesis"
  then obtain p where p: "refundUnacceptedPaidOrderInTransaction env2 write2 ord2 i2 s' = Inr p"
    by (cases "refundUnacceptedPaidOrderInTransaction env2 write2 ord2 i2 s'") auto
  obtain r w where rb: "refunded_between env ord i s s' r w" and wf: "db_wf s'" using refund_Inr[OF assms(1-3)] by blast
  then have found: "find (\<lambda>x. o_id x = uo_id ord2) (orders s') = Some (r\<lparr>o_status := ''REFUNDED'',
      o_paymentStatus := ''REFUNDED'', o_refundResponsibility := Some (responsibility_text (rf_responsibility i)),
      o_version := o_version r + 1\<rparr>)"
    using assms(4) by (simp add: refunded_between_def find_order_def)
  have "count_where (\<lambda>x. o_id x = uo_id ord2 \<and> o_version x = uo_version ord2 \<and> o_status x = uo_status ord2
      \<and> o_paymentStatus x = ''PAID'') (orders s') \<noteq> 0"
    using p by (auto simp: refundUnacceptedPaidOrderInTransaction_def claimRefund_def tx_simps)
  then show False
    using count_found[OF db_wfD(1)[OF wf] found] by simp
qed

theorem refund_once_witness:
  "\<exists>e. refundUnacceptedPaidOrderInTransaction example_env create_audit example_unaccepted example_refund_input
     (snd example_refund) = Inl e"
  by (rule refund_once[OF refundable_db_wf audit_writer_create example_refund_run refl])

end
