(* ===== verification/Billing.thy ===== *)
theory Billing
  imports Books Order_Refund
begin

text \<open>
  What the services of \<open>apps/api\<close> share when they move money: the exceptions they throw, the
  finance gate, the audit writer, the recipients of a communication, and the two movements of
  customer funds of \<open>billing.service.ts\<close>, \<open>reserve\<close> and \<open>payFromReserved\<close>.
  Sums of \<open>Decimal\<close> amounts are exact: decimal.js rounds results of more than twenty
  significant digits only.
\<close>

section \<open>What the table operations keep\<close>

lemma preserves_updates [keeps]:
  "(\<And>s. P s \<Longrightarrow> P (s\<lparr>orders := update_where po fo (orders s)\<rparr>)) \<Longrightarrow> preserves P (update_orders po fo)"
  "(\<And>s. P s \<Longrightarrow> P (s\<lparr>wallets := update_where pw fw (wallets s)\<rparr>)) \<Longrightarrow> preserves P (update_wallets pw fw)"
  "(\<And>s. P s \<Longrightarrow> P (s\<lparr>settlements := update_where ps fs (settlements s)\<rparr>)) \<Longrightarrow> preserves P (update_settlements ps fs)"
  "(\<And>s. P s \<Longrightarrow> P (s\<lparr>balances := update_where pb fb (balances s)\<rparr>)) \<Longrightarrow> preserves P (update_balances pb fb)"
  "(\<And>s. P s \<Longrightarrow> P (s\<lparr>assignments := update_where pa fa (assignments s)\<rparr>)) \<Longrightarrow> preserves P (update_assignments pa fa)"
  "(\<And>s. P s \<Longrightarrow> P (s\<lparr>deposits := update_where pd fd (deposits s)\<rparr>)) \<Longrightarrow> preserves P (update_deposits pd fd)"
  "(\<And>s. P s \<Longrightarrow> P (s\<lparr>provider_events := update_where pe fe (provider_events s)\<rparr>)) \<Longrightarrow> preserves P (update_provider_events pe fe)"
  by (auto simp: preserves_def tx_simps)

lemma preserves_creates [keeps]:
  "(\<And>s. P s \<Longrightarrow> P (s\<lparr>order_events := order_events s @ [e]\<rparr>)) \<Longrightarrow> preserves P (create_event e)"
  "(\<And>s. P s \<Longrightarrow> P (s\<lparr>audit_logs := audit_logs s @ [l]\<rparr>)) \<Longrightarrow> preserves P (create_audit l)"
  "(\<And>s. P s \<Longrightarrow> P (s\<lparr>id_supply := id_supply s + 1\<rparr>)) \<Longrightarrow> preserves P (fresh_id env)"
  "(\<And>s i. P s \<Longrightarrow> P (s\<lparr>id_supply := id_supply s + 1, transactions := transactions s @ [t\<lparr>t_id := i, t_createdAt := env_now env\<rparr>]\<rparr>)) \<Longrightarrow>
     preserves P (create_transaction env t)"
  "(\<And>s b. P s \<Longrightarrow> P (s\<lparr>outbox := b\<rparr>)) \<Longrightarrow> preserves P (recordCommunicationOutbox env req)"
  by (auto simp: preserves_def tx_simps)

lemma preserves_case_prod [keeps]: "(\<And>x y. preserves P (k x y)) \<Longrightarrow> preserves P (case r of (x, y) \<Rightarrow> k x y)"
  by (cases r) auto

section \<open>Exceptions\<close>

definition bad_request :: "string \<Rightarrow> failure" where
  "bad_request message = Failure ''BadRequestException'' message"

definition not_found :: "string \<Rightarrow> failure" where
  "not_found message = Failure ''NotFoundException'' message"

definition forbidden :: "string \<Rightarrow> failure" where
  "forbidden message = Failure ''ForbiddenException'' message"

definition http_conflict :: "string \<Rightarrow> failure" where
  "http_conflict message = Failure ''ConflictException'' message"

definition coded_conflict :: "string \<Rightarrow> string \<Rightarrow> failure" where
  "coded_conflict code message = CodedFailure ''ConflictException'' code message"

definition coded_request :: "string \<Rightarrow> string \<Rightarrow> failure" where
  "coded_request code message = CodedFailure ''BadRequestException'' code message"

text \<open>\<open>findUniqueOrThrow\<close>.\<close>

definition found_or_throw :: "'r option \<Rightarrow> 'r tx" where
  "found_or_throw r = (case r of None \<Rightarrow> throw (prisma_code ''P2025'') | Some x \<Rightarrow> ret x)"

section \<open>The finance gate, the audit writer and money texts\<close>

definition assertApiFinanceOperationAllowed :: "env \<Rightarrow> finance_operation \<Rightarrow> unit tx" where
  "assertApiFinanceOperationAllowed env operation =
     (case assertFinanceOperationAllowed (env_process env) operation None None of
        Inl e \<Rightarrow> throw (CodedFailure ''ServiceUnavailableException'' ''FINANCE_OPERATION_BLOCKED''
          ''This financial action is temporarily unavailable. Retry later or contact support.'')
      | Inr mode \<Rightarrow> ret ())"

text \<open>\<open>AuditService.log\<close> inside a transaction.\<close>

definition audit_log ::
    "env \<Rightarrow> string \<Rightarrow> string \<Rightarrow> string \<Rightarrow> (string \<times> json) list \<Rightarrow> string option \<Rightarrow> string option \<Rightarrow> unit tx" where
  "audit_log env action entityType entityId metadata userId organizationId =
     create_audit \<lparr>l_action = action, l_entityType = entityType, l_entityId = entityId,
       l_metadata = (if truthy (env_requestId env)
                     then spread metadata [(''requestId'', opt_json (env_requestId env))] else metadata),
       l_userId = userId, l_organizationId = organizationId, l_requestId = env_requestId env\<rparr>"

text \<open>\<open>toFixed(2)\<close> of an amount.\<close>

definition to_fixed2 :: "int \<Rightarrow> string" where
  "to_fixed2 d = usdAmount (sgn d * ((\<bar>d\<bar> + CENT div 2) div CENT))"

definition assertUsd :: "string \<Rightarrow> string \<Rightarrow> string \<Rightarrow> unit tx" where
  "assertUsd currency code message =
     require (isSupportedMoneyCurrency (JText currency)) (coded_conflict code message)"

section \<open>Recipients (communications.service.ts)\<close>

text \<open>\<open>[...new Set(xs)]\<close> keeps the first of equal members.\<close>

definition unique_texts :: "string list \<Rightarrow> string list" where
  "unique_texts xs = rev (remdups (rev xs))"

definition customerOrderRecipients :: "string \<Rightarrow> db \<Rightarrow> string list" where
  "customerOrderRecipients orderId s =
     (case find_order orderId s of
        None \<Rightarrow> []
      | Some ord \<Rightarrow> unique_texts (o_customerId ord # map mb_userId
          (filter (\<lambda>m. mb_groupId m = o_organizationId ord \<and> mb_status m = ''ACTIVE'' \<and> mb_role m = ''OWNER'')
            (memberships s))))"

definition publisherRecipients :: "string option \<Rightarrow> bool \<Rightarrow> db \<Rightarrow> string list" where
  "publisherRecipients publisherId ownersOnly s =
     (if \<not> truthy publisherId then []
      else unique_texts (map mb_userId (filter (\<lambda>m. Some (mb_groupId m) = publisherId
             \<and> (ownersOnly \<longrightarrow> mb_role m = ''PUBLISHER_OWNER'')) (publisher_members s))))"

definition organizationRecipients :: "string option \<Rightarrow> bool \<Rightarrow> db \<Rightarrow> string list" where
  "organizationRecipients organizationId ownersOnly s =
     (if \<not> truthy organizationId then []
      else unique_texts (map mb_userId (filter (\<lambda>m. Some (mb_groupId m) = organizationId \<and> mb_status m = ''ACTIVE''
             \<and> (ownersOnly \<longrightarrow> mb_role m = ''OWNER'')) (memberships s))))"

definition staffRecipients :: "string list \<Rightarrow> db \<Rightarrow> string list" where
  "staffRecipients roles s = map st_userId
     (filter (\<lambda>m. st_role m \<in> set roles \<and> \<not> st_banned m \<and> st_userType m = ''STAFF'') (staff s))"

text \<open>A numeric threshold of the environment; \<open>to_number\<close> is what \<open>Number\<close> gives a text, if finite.\<close>

definition notificationThreshold :: "(string \<Rightarrow> rat option) \<Rightarrow> env \<Rightarrow> string \<Rightarrow> rat \<Rightarrow> rat" where
  "notificationThreshold to_number env key fallback =
     (case env_process env key of
        None \<Rightarrow> fallback
      | Some raw \<Rightarrow>
          if trim raw = [] then fallback
          else case to_number raw of
            None \<Rightarrow> fallback
          | Some parsed \<Rightarrow> if 0 \<le> parsed \<and> parsed \<le> of_int MAX_SAFE_INTEGER then parsed else fallback)"

text \<open>An amount as a number, and a number as an amount.\<close>

definition amount_number :: "int \<Rightarrow> rat" where
  "amount_number d = of_int d / of_int MONEY_FACTOR"

definition number_amount :: "rat \<Rightarrow> int" where
  "number_amount r = \<lfloor>r * of_int MONEY_FACTOR\<rfloor>"

section \<open>Spending from a wallet (billing.service.ts)\<close>

text \<open>The user of a call: an id and an organization.\<close>

record api_user =
  us_id :: string
  us_organizationId :: "string option"

definition assertWalletOwned :: "wallet_row \<Rightarrow> api_user \<Rightarrow> unit tx" where
  "assertWalletOwned wallet user =
     require ((truthy (w_organizationId wallet) \<and> w_organizationId wallet = us_organizationId user)
              \<or> (\<not> truthy (w_organizationId wallet) \<and> w_userId wallet = Some (us_id user)))
       (forbidden ''Wallet does not belong to this account'')"

definition canonicalMoneyAmount :: "int \<Rightarrow> string \<Rightarrow> unit tx" where
  "canonicalMoneyAmount amount operation =
     require (\<not> (amount \<le> 0 \<or> amount * 100 mod MONEY_FACTOR \<noteq> 0))
       (coded_request ''MONEY_AMOUNT_INVALID''
         (operation @ '' amount must be positive with no more than two decimal places''))"

definition assertOrderMatchesWallet :: "string \<Rightarrow> wallet_row \<Rightarrow> unit tx" where
  "assertOrderMatchesWallet orderId wallet =
     andThen (query (find_order orderId)) (\<lambda>found.
     case found of
       None \<Rightarrow> throw (not_found ''Order not found'')
     | Some ord \<Rightarrow>
         andThen (assertUsd (o_currency ord) ''ORDER_CURRENCY_UNSUPPORTED''
           ''Order currency is not supported by USD-only wallet movements'') (\<lambda>_.
         require (\<not> (\<not> truthy (w_organizationId wallet) \<or> Some (o_organizationId ord) \<noteq> w_organizationId wallet))
           (coded_conflict ''ORDER_WALLET_OWNERSHIP_MISMATCH''
             ''Order and wallet do not belong to the same organization'')))"

definition uncovered_dispute :: "string \<Rightarrow> db \<Rightarrow> bool" where
  "uncovered_dispute walletId s \<longleftrightarrow>
     list_ex (\<lambda>d. pd_walletId d = walletId \<and> pd_status d \<in> {''OPEN'', ''LOST''} \<and> 0 < pd_currentExposureAmount d)
       (payment_disputes s)"

definition lockOwnedSpendableWallet :: "string \<Rightarrow> api_user \<Rightarrow> wallet_row tx" where
  "lockOwnedSpendableWallet walletId user =
     andThen (lockWalletForUpdate walletId) (\<lambda>_.
     andThen (query (find_wallet walletId)) (\<lambda>found.
     andThen (found_or_throw found) (\<lambda>wallet.
     andThen (assertWalletOwned wallet user) (\<lambda>_.
     andThen (assertUsd (w_currency wallet) ''WALLET_CURRENCY_UNSUPPORTED''
       ''Wallet spending requires a canonical USD wallet'') (\<lambda>_.
     andThen (query (uncovered_dispute walletId)) (\<lambda>uncoveredDispute.
     andThen (require (\<not> uncoveredDispute) (coded_conflict ''WALLET_SPEND_BLOCKED_BY_DISPUTE''
       ''Wallet spending is unavailable while a payment dispute has uncovered exposure'')) (\<lambda>_.
     ret wallet)))))))"

definition reserve :: "env \<Rightarrow> string \<Rightarrow> int \<Rightarrow> string \<Rightarrow> api_user \<Rightarrow> wallet_row tx" where
  "reserve env walletId amount orderId user =
     andThen (assertApiFinanceOperationAllowed env F_NEW_LIABILITY) (\<lambda>_.
     andThen (canonicalMoneyAmount amount ''Reservation'') (\<lambda>_.
     andThen (lockOwnedSpendableWallet walletId user) (\<lambda>wallet.
     andThen (assertOrderMatchesWallet orderId wallet) (\<lambda>_.
     andThen (require (\<not> w_availableBalance wallet < amount)
       (bad_request ''Insufficient available balance to reserve'')) (\<lambda>_.
     andThen (update_wallets (\<lambda>r. w_id r = walletId \<and> w_version r = w_version wallet)
       (\<lambda>r. r\<lparr>w_availableBalance := w_availableBalance r - amount, w_reservedBalance := w_reservedBalance r + amount,
              w_version := w_version r + 1\<rparr>)) (\<lambda>updated.
     andThen (require (updated \<noteq> 0) (http_conflict ''Wallet was modified by another request. Retry.'')) (\<lambda>_.
     andThen (query (find_wallet walletId)) (\<lambda>found.
     andThen (found_or_throw found) (\<lambda>fresh.
     andThen (create_transaction env (new_transaction\<lparr>t_walletId := Some walletId, t_amount := - amount,
       t_type := ''RESERVATION'', t_currency := ''USD'', t_orderId := Some orderId,
       t_description := Some (''Reservation of '' @ to_fixed2 amount @ '' USD for order '' @ orderId)\<rparr>)) (\<lambda>_.
     ret fresh))))))))))"

definition payFromReserved :: "env \<Rightarrow> string \<Rightarrow> int \<Rightarrow> string \<Rightarrow> api_user \<Rightarrow> wallet_row tx" where
  "payFromReserved env walletId amount orderId user =
     andThen (assertApiFinanceOperationAllowed env F_NEW_LIABILITY) (\<lambda>_.
     andThen (canonicalMoneyAmount amount ''Payment'') (\<lambda>_.
     andThen (lockOwnedSpendableWallet walletId user) (\<lambda>wallet.
     andThen (assertOrderMatchesWallet orderId wallet) (\<lambda>_.
     andThen (require (\<not> w_reservedBalance wallet < amount) (bad_request ''Insufficient reserved balance'')) (\<lambda>_.
     andThen (update_wallets (\<lambda>r. w_id r = walletId \<and> w_version r = w_version wallet)
       (\<lambda>r. r\<lparr>w_reservedBalance := w_reservedBalance r - amount, w_version := w_version r + 1\<rparr>)) (\<lambda>updated.
     andThen (require (updated \<noteq> 0) (http_conflict ''Wallet was modified by another request. Retry.'')) (\<lambda>_.
     andThen (query (find_wallet walletId)) (\<lambda>found.
     andThen (found_or_throw found) (\<lambda>fresh.
     andThen (create_transaction env (new_transaction\<lparr>t_walletId := Some walletId, t_amount := - amount,
       t_type := ''PURCHASE'', t_currency := ''USD'', t_orderId := Some orderId,
       t_description := Some (''Payment of '' @ to_fixed2 amount @ '' USD from reserved funds for order '' @ orderId)\<rparr>)) (\<lambda>_.
     ret fresh))))))))))"

section \<open>What the steps do\<close>

lemma assertApi_Inr [tx_simps]:
  "assertApiFinanceOperationAllowed env operation s = Inr r \<longleftrightarrow>
     r = ((), s) \<and> isFinanceOperationAllowed
       (mr_mode (resolveFinanceRuntimeMode (env_process env ''FINANCE_RUNTIME_MODE'') (env_process env ''NODE_ENV''))) operation"
  by (auto simp: assertApiFinanceOperationAllowed_def assertFinanceOperationAllowed_def Let_def tx_simps)

lemma audit_log_Inr [tx_simps]:
  "audit_log env a ty i m u g s = Inr r \<longleftrightarrow> (\<exists>l. r = ((), s\<lparr>audit_logs := audit_logs s @ [l]\<rparr>) \<and> l =
     \<lparr>l_action = a, l_entityType = ty, l_entityId = i,
       l_metadata = (if truthy (env_requestId env) then spread m [(''requestId'', opt_json (env_requestId env))] else m),
       l_userId = u, l_organizationId = g, l_requestId = env_requestId env\<rparr>)"
  by (auto simp: audit_log_def tx_simps)

lemma found_or_throw_Inr [tx_simps]: "found_or_throw x s = Inr r \<longleftrightarrow> (\<exists>y. x = Some y \<and> r = (y, s))"
  by (auto simp: found_or_throw_def tx_simps split: option.splits)

lemma assertUsd_Inr [tx_simps]: "assertUsd c code m s = Inr r \<longleftrightarrow> c = ''USD'' \<and> r = ((), s)"
  by (auto simp: assertUsd_def isSupportedMoneyCurrency_def tx_simps)

lemma canonicalMoneyAmount_Inr [tx_simps]:
  "canonicalMoneyAmount a op s = Inr r \<longleftrightarrow> 0 < a \<and> CENT dvd a \<and> r = ((), s)"
proof -
  have "a * 100 mod MONEY_FACTOR = 0 \<longleftrightarrow> CENT dvd a"
    by (simp add: MONEY_FACTOR_CENT mult.commute[of a] mod_eq_0_iff_dvd)
  then show ?thesis by (auto simp: canonicalMoneyAmount_def tx_simps)
qed

lemma assertOrderMatchesWallet_Inr [tx_simps]:
  "assertOrderMatchesWallet orderId w s = Inr r \<longleftrightarrow>
     r = ((), s) \<and> (\<exists>ord. find_order orderId s = Some ord \<and> o_currency ord = ''USD''
       \<and> truthy (w_organizationId w) \<and> w_organizationId w = Some (o_organizationId ord))"
  by (auto simp: assertOrderMatchesWallet_def tx_simps split: option.splits)

lemma lockOwnedSpendableWallet_Inr [tx_simps]:
  "lockOwnedSpendableWallet wid user s = Inr r \<longleftrightarrow>
     (\<exists>w. r = (w, s) \<and> find_wallet wid s = Some w \<and> w_currency w = ''USD'' \<and> \<not> uncovered_dispute wid s
        \<and> (truthy (w_organizationId w) \<and> w_organizationId w = us_organizationId user
           \<or> \<not> truthy (w_organizationId w) \<and> w_userId w = Some (us_id user)))"
  by (auto simp: lockOwnedSpendableWallet_def lockWalletForUpdate_def assertWalletOwned_def tx_simps)

text \<open>A wallet of this user that may pay for this order.\<close>

definition pays :: "api_user \<Rightarrow> string \<Rightarrow> wallet_row \<Rightarrow> db \<Rightarrow> bool" where
  "pays user orderId w s \<longleftrightarrow> find_wallet (w_id w) s = Some w \<and> w_currency w = ''USD'' \<and> \<not> uncovered_dispute (w_id w) s
     \<and> truthy (w_organizationId w) \<and> w_organizationId w = us_organizationId user
     \<and> (\<exists>ord. find_order orderId s = Some ord \<and> o_currency ord = ''USD'' \<and> w_organizationId w = Some (o_organizationId ord))"

lemma found_wallet: "find_wallet i s = Some w \<Longrightarrow> w_id w = i \<and> w \<in> set (wallets s)"
  unfolding find_wallet_def by (drule find_key) simp

lemma paysI:
  assumes "find_wallet wid s = Some w" "w_currency w = ''USD''" "\<not> uncovered_dispute wid s"
    "truthy (w_organizationId w) \<and> w_organizationId w = us_organizationId user
       \<or> \<not> truthy (w_organizationId w) \<and> w_userId w = Some (us_id user)"
    "\<exists>ord. find_order orderId s = Some ord \<and> o_currency ord = ''USD'' \<and> truthy (w_organizationId w)
       \<and> w_organizationId w = Some (o_organizationId ord)"
  shows "pays user orderId w s \<and> w_id w = wid"
  using assms found_wallet[OF assms(1)] by (auto simp: pays_def)

definition spend_row :: "env \<Rightarrow> nat \<Rightarrow> string \<Rightarrow> string \<Rightarrow> int \<Rightarrow> string \<Rightarrow> string \<Rightarrow> transaction_row" where
  "spend_row env n wid kind amount orderId description = new_transaction\<lparr>t_walletId := Some wid, t_amount := - amount,
     t_type := kind, t_currency := ''USD'', t_orderId := Some orderId, t_description := Some description,
     t_id := env_cuid env n, t_createdAt := env_now env\<rparr>"

definition reservation_row :: "env \<Rightarrow> nat \<Rightarrow> string \<Rightarrow> int \<Rightarrow> string \<Rightarrow> transaction_row" where
  "reservation_row env n wid amount orderId = spend_row env n wid ''RESERVATION'' amount orderId
     (''Reservation of '' @ to_fixed2 amount @ '' USD for order '' @ orderId)"

definition purchase_row :: "env \<Rightarrow> nat \<Rightarrow> string \<Rightarrow> int \<Rightarrow> string \<Rightarrow> transaction_row" where
  "purchase_row env n wid amount orderId = spend_row env n wid ''PURCHASE'' amount orderId
     (''Payment of '' @ to_fixed2 amount @ '' USD from reserved funds for order '' @ orderId)"

lemma reserve_Inr:
  assumes "reserve env wid amount orderId user s = Inr (fresh, s')"
  obtains w where "pays user orderId w s" "w_id w = wid" "0 < amount" "CENT dvd amount" "amount \<le> w_availableBalance w"
    "s' = s\<lparr>wallets := update_where (\<lambda>r. w_id r = wid \<and> w_version r = w_version w)
          (\<lambda>r. r\<lparr>w_availableBalance := w_availableBalance r - amount, w_reservedBalance := w_reservedBalance r + amount,
              w_version := w_version r + 1\<rparr>) (wallets s),
        id_supply := id_supply s + 1,
        transactions := transactions s @ [reservation_row env (id_supply s) wid amount orderId]\<rparr>"
  using assms paysI[of wid s _ user orderId] that unfolding reserve_def
  by (simp add: tx_simps reservation_row_def purchase_row_def spend_row_def not_less) blast

lemma payFromReserved_Inr:
  assumes "payFromReserved env wid amount orderId user s = Inr (fresh, s')"
  obtains w where "pays user orderId w s" "w_id w = wid" "0 < amount" "CENT dvd amount" "amount \<le> w_reservedBalance w"
    "s' = s\<lparr>wallets := update_where (\<lambda>r. w_id r = wid \<and> w_version r = w_version w)
          (\<lambda>r. r\<lparr>w_reservedBalance := w_reservedBalance r - amount, w_version := w_version r + 1\<rparr>) (wallets s),
        id_supply := id_supply s + 1,
        transactions := transactions s @ [purchase_row env (id_supply s) wid amount orderId]\<rparr>"
  using assms paysI[of wid s _ user orderId] that unfolding payFromReserved_def
  by (simp add: tx_simps reservation_row_def purchase_row_def spend_row_def not_less) blast

lemma moved_trans: "wallet_moved i a r s s1 \<Longrightarrow> wallet_moved i b q s1 s2 \<Longrightarrow> wallet_moved i (a + b) (r + q) s s2"
  by (auto simp: wallet_moved_def)

lemma guarded_moved:
  assumes "distinct (map w_id (wallets s))" "find_wallet wid s = Some w"
    "wallets s' = update_where (\<lambda>x. w_id x = wid \<and> w_version x = w_version w) f (wallets s)"
    "\<And>x. w_id (f x) = w_id x" "w_availableBalance (f w) = w_availableBalance w + a"
    "w_reservedBalance (f w) = w_reservedBalance w + r"
  shows "wallet_moved wid a r s s'"
  using guarded_wallet[OF assms(1,2,4-6)] moved_wallets[of s s "s\<lparr>wallets := wallets s'\<rparr>" s'] assms(3) by simp

text \<open>Reserving an amount and paying it from the reservation takes it out of the wallet, with both rows in the ledger.\<close>

lemma reserve_then_pay:
  assumes d: "distinct (map w_id (wallets s))" and r: "reserve env wid amount orderId user s = Inr (f1, s1)"
    and p: "payFromReserved env wid amount orderId user s1 = Inr (f2, s2)"
  obtains w ws where "pays user orderId w s" "w_id w = wid" "0 < amount" "CENT dvd amount" "amount \<le> w_availableBalance w"
    "wallet_moved wid (- amount) 0 s s2"
    "s2 = s\<lparr>wallets := ws, id_supply := id_supply s + 2, transactions := transactions s
        @ [reservation_row env (id_supply s) wid amount orderId,
           purchase_row env (id_supply s + 1) wid amount orderId]\<rparr>"
proof (rule reserve_Inr[OF r])
  let ?fr = "\<lambda>x. x\<lparr>w_availableBalance := w_availableBalance x - amount, w_reservedBalance := w_reservedBalance x + amount,
              w_version := w_version x + 1\<rparr>"
  let ?fp = "\<lambda>x. x\<lparr>w_reservedBalance := w_reservedBalance x - amount, w_version := w_version x + 1\<rparr>"
  fix w assume w: "pays user orderId w s" "w_id w = wid" "0 < amount" "CENT dvd amount" "amount \<le> w_availableBalance w"
    and s1: "s1 = s\<lparr>wallets := update_where (\<lambda>x. w_id x = wid \<and> w_version x = w_version w) ?fr (wallets s),
        id_supply := id_supply s + 1,
        transactions := transactions s @ [reservation_row env (id_supply s) wid amount orderId]\<rparr>"
  have m1: "wallet_moved wid (- amount) amount s s1"
    by (rule guarded_moved[OF d, of wid w _ ?fr]) (use w s1 in \<open>auto simp: pays_def\<close>)
  have d1: "distinct (map w_id (wallets s1))" using d s1 by (simp add: map_update_where)
  show thesis
  proof (rule payFromReserved_Inr[OF p])
    fix w1 assume w1: "pays user orderId w1 s1" "w_id w1 = wid"
      and s2: "s2 = s1\<lparr>wallets := update_where (\<lambda>x. w_id x = wid \<and> w_version x = w_version w1) ?fp (wallets s1),
        id_supply := id_supply s1 + 1,
        transactions := transactions s1 @ [purchase_row env (id_supply s1) wid amount orderId]\<rparr>"
    have "wallet_moved wid 0 (- amount) s1 s2"
      by (rule guarded_moved[OF d1, of wid w1 _ ?fp]) (use w1 s2 in \<open>auto simp: pays_def\<close>)
    with m1 have "wallet_moved wid (- amount) 0 s s2" using moved_trans by fastforce
    then show thesis using that[OF w] s1 s2 by simp
  qed
qed

end
