(* ===== verification/Payout_Finalization.thy ===== *)
theory Payout_Finalization
  imports Workflow
begin

text \<open>
  The completion of a payout (\<open>payout-finalization-core.ts\<close>): provider responses, status polls,
  leased webhook events and the confirmation of a bank transfer by hand all end here.  The
  checks only read; either one of them names a conflict, which is audited and for a webhook
  quarantines the event, or the execution, its withdrawal and the publisher's paid total move
  together.  What a provider says about itself goes through \<open>payout-provider-metadata.ts\<close>.
\<close>

section \<open>Provider metadata (payout-provider-metadata.ts)\<close>

datatype field_rule = MaxLength nat | NumberField | BooleanField

definition SAFE_PROVIDER_FIELDS :: "(string \<times> field_rule) list" where
  "SAFE_PROVIDER_FIELDS =
     [(''stage'', MaxLength 64), (''connectedAccountId'', MaxLength 191), (''arrivalDate'', NumberField),
      (''stripePayoutStatus'', MaxLength 32), (''stripeStatus'', MaxLength 32), (''wiseTransferId'', MaxLength 191),
      (''wiseStatus'', MaxLength 32), (''estimatedDelivery'', MaxLength 100), (''note'', MaxLength 250),
      (''outcome'', MaxLength 64), (''fee'', NumberField), (''provider'', MaxLength 32), (''event'', MaxLength 191),
      (''rawStatus'', MaxLength 100), (''providerAmountMinor'', NumberField), (''providerCurrency'', MaxLength 3),
      (''providerPublicReference'', MaxLength 64), (''livemode'', BooleanField)]"

text \<open>
  The members every object inherits: the table, an ordinary object, has a value for these keys
  too, which is no rule; \<open>null\<close> is kept before the rule is looked at.  (\<open>__proto__\<close> is not among
  them: assigning it stores nothing.)
\<close>

definition INHERITED_KEYS :: "string list" where
  "INHERITED_KEYS =
     [''constructor'', ''__defineGetter__'', ''__defineSetter__'', ''hasOwnProperty'', ''__lookupGetter__'',
      ''__lookupSetter__'', ''isPrototypeOf'', ''propertyIsEnumerable'', ''toString'', ''valueOf'', ''toLocaleString'']"

definition safe_value :: "string \<Rightarrow> json \<Rightarrow> json option" where
  "safe_value key v =
     (case map_of SAFE_PROVIDER_FIELDS key of
        None \<Rightarrow> if key \<in> set INHERITED_KEYS \<and> v = NullJ then Some NullJ else None
      | Some rule \<Rightarrow>
          (case v of
             NullJ \<Rightarrow> Some NullJ
           | NumJ n \<Rightarrow> if rule = NumberField then Some (NumJ n) else None
           | DecJ d \<Rightarrow> if rule = NumberField then Some (DecJ d) else None
           | BoolJ b \<Rightarrow> if rule = BooleanField then Some (BoolJ b) else None
           | TextJ t \<Rightarrow> (case rule of MaxLength n \<Rightarrow> Some (TextJ (take n t)) | _ \<Rightarrow> None)
           | _ \<Rightarrow> None))"

definition sanitizePayoutProviderMetadata :: "(string \<times> json) list option \<Rightarrow> (string \<times> json) list" where
  "sanitizePayoutProviderMetadata incoming =
     (case incoming of None \<Rightarrow> []
      | Some members \<Rightarrow> List.map_filter (\<lambda>(key, v). map_option (Pair key) (safe_value key v)) members)"

fun record_members :: "json \<Rightarrow> (string \<times> json) list" where
  "record_members (ObjJ members) = members"
| "record_members _ = []"

definition mergePayoutProviderMetadata :: "json \<Rightarrow> (string \<times> json) list option \<Rightarrow> (string \<times> json) list" where
  "mergePayoutProviderMetadata existing incoming =
     (let base = record_members existing;
          previousEvidence = (case map_of base ''providerEvidence'' of None \<Rightarrow> [] | Some e \<Rightarrow> record_members e);
          nextEvidence = spread previousEvidence (sanitizePayoutProviderMetadata incoming)
      in if nextEvidence \<noteq> [] then spread base [(''providerEvidence'', ObjJ nextEvidence)] else base)"

section \<open>Inputs and results\<close>

text \<open>An instant is \<open>None\<close> when the date is invalid.\<close>

datatype completion_evidence =
    ProviderResponse "int option" jsval jsval
  | ProviderStatusPoll "int option" jsval jsval
  | ProviderWebhook string int "int option"
  | ManualConfirmation string "int option" string string

record payout_input =
  pi_executionId :: string
  pi_withdrawalId :: string
  pi_providerName :: string
  pi_providerReference :: string
  pi_metadata :: "(string \<times> json) list option"
  pi_fee :: "int option"
  pi_evidence :: completion_evidence

definition source_text :: "payout_input \<Rightarrow> string" where
  "source_text i = (case pi_evidence i of
     ProviderResponse _ _ _ \<Rightarrow> ''PROVIDER_RESPONSE'' | ProviderStatusPoll _ _ _ \<Rightarrow> ''PROVIDER_STATUS_POLL''
   | ProviderWebhook _ _ _ \<Rightarrow> ''PROVIDER_WEBHOOK'' | ManualConfirmation _ _ _ _ \<Rightarrow> ''MANUAL_BANK_CONFIRMATION'')"

definition webhook_id :: "payout_input \<Rightarrow> string option" where
  "webhook_id i = (case pi_evidence i of ProviderWebhook e _ _ \<Rightarrow> Some e | _ \<Rightarrow> None)"

definition manual_actor :: "payout_input \<Rightarrow> string option" where
  "manual_actor i = (case pi_evidence i of ManualConfirmation _ _ actor _ \<Rightarrow> Some actor | _ \<Rightarrow> None)"

datatype completion_kind = Completed | Replayed | Corroborated

datatype payout_result =
    PayoutDone completion_kind string string bool
  | PayoutConflict string string string string

definition conflict_result :: "payout_input \<Rightarrow> string \<Rightarrow> string \<Rightarrow> payout_result" where
  "conflict_result i code message = PayoutConflict (pi_executionId i) (pi_withdrawalId i) code message"

definition PAYOUT_SERIALIZABLE_ATTEMPTS :: nat where
  "PAYOUT_SERIALIZABLE_ATTEMPTS = 7"

definition MANUAL_CLOCK_TOLERANCE_MS :: int where
  "MANUAL_CLOCK_TOLERANCE_MS = 5 * 60 * 1000"

definition ACTIVE_EXECUTION_STATUSES :: "string list" where
  "ACTIVE_EXECUTION_STATUSES = [''PENDING'', ''PROCESSING'']"

text \<open>Every run of white space becomes one blank.\<close>

fun collapse_spaces :: "bool \<Rightarrow> string \<Rightarrow> string" where
  "collapse_spaces inside [] = []"
| "collapse_spaces inside (c # cs) =
     (if is_space c then (if inside then [] else '' '') @ collapse_spaces True cs
      else c # collapse_spaces False cs)"

definition normalizedEvidenceReference :: "payout_input \<Rightarrow> string" where
  "normalizedEvidenceReference i =
     (let trimmed = trim (pi_providerReference i)
      in if manual_actor i \<noteq> None then to_upper (collapse_spaces False trimmed) else trimmed)"

definition persistedManualReason :: "execution_row \<Rightarrow> string option" where
  "persistedManualReason e =
     (case obj_get (px_providerMetadata e) ''completion'' of None \<Rightarrow> None
      | Some c \<Rightarrow> (case obj_get c ''reason'' of Some (TextJ t) \<Rightarrow> Some (trim t) | _ \<Rightarrow> None))"

definition safeMetadata :: "json \<Rightarrow> (string \<times> json) list option \<Rightarrow> (string \<times> json) list \<Rightarrow> json" where
  "safeMetadata existing incoming completion =
     ObjJ (spread (mergePayoutProviderMetadata existing incoming) [(''completion'', ObjJ completion)])"

section \<open>The webhook lease\<close>

definition find_payout_event :: "string \<Rightarrow> db \<Rightarrow> payout_event_row option" where
  "find_payout_event k s = find (\<lambda>e. y_id e = k) (payout_events s)"

definition updateWebhookTerminalState :: "payout_input \<Rightarrow> string \<Rightarrow> int \<Rightarrow> string option \<Rightarrow> bool tx" where
  "updateWebhookTerminalState i status now lastError =
     (case pi_evidence i of
        ProviderWebhook eventId claimAttempt claimLockedAt \<Rightarrow>
          andThen (update_payout_events
            (\<lambda>e. y_id e = eventId \<and> y_status e = ''PROCESSING'' \<and> y_attempts e = claimAttempt
               \<and> y_lockedAt e = claimLockedAt \<and> claimLockedAt \<noteq> None)
            (\<lambda>e. e\<lparr>y_status := status, y_lockedAt := None, y_processedAt := Some now, y_lastError := lastError\<rparr>))
            (\<lambda>updated. ret (updated = 1))
      | _ \<Rightarrow> ret True)"

definition webhookLeaseLost :: "payout_input \<Rightarrow> payout_result" where
  "webhookLeaseLost i = conflict_result i ''WEBHOOK_LEASE_LOST''
     ''Payout webhook processing lease changed; the stale claimant cannot mutate financial state''"

definition lockAndOwnWebhookLease :: "payout_input \<Rightarrow> db \<Rightarrow> bool" where
  "lockAndOwnWebhookLease i s =
     (case pi_evidence i of
        ProviderWebhook eventId claimAttempt claimLockedAt \<Rightarrow>
          (case find_payout_event eventId s of None \<Rightarrow> False
           | Some e \<Rightarrow> y_status e = ''PROCESSING'' \<and> claimAttempt \<le> MAX_SAFE_INTEGER \<and> claimAttempt > 0
               \<and> claimLockedAt \<noteq> None \<and> y_attempts e = claimAttempt \<and> y_lockedAt e = claimLockedAt)
      | _ \<Rightarrow> True)"

section \<open>Conflicts\<close>

text \<open>Members of an object that are present only under a condition.\<close>

definition with_members :: "bool \<Rightarrow> (string \<times> json) list \<Rightarrow> (string \<times> json) list" where
  "with_members b members = (if b then members else [])"

definition payout_audit ::
    "env \<Rightarrow> string \<Rightarrow> string \<Rightarrow> string option \<Rightarrow> string option \<Rightarrow> (string \<times> json) list \<Rightarrow> unit tx" where
  "payout_audit env action executionId organizationId userId metadata =
     create_audit \<lparr>l_action = action, l_entityType = ''PayoutExecution'', l_entityId = executionId,
       l_metadata = (if truthy (env_requestId env)
         then spread metadata [(''requestId'', opt_json (env_requestId env))] else metadata),
       l_userId = userId, l_organizationId = organizationId, l_requestId = env_requestId env\<rparr>"

text \<open>
  \<open>createMany\<close> with \<open>skipDuplicates\<close>: the unique constraint of \<open>Notification\<close> is on the user and
  the deduplication key.
\<close>

definition notification_taken :: "notification_row \<Rightarrow> notification_row list \<Rightarrow> bool" where
  "notification_taken n rows \<longleftrightarrow>
     n_userId n \<noteq> None \<and> n_dedupKey n \<noteq> None
     \<and> list_ex (\<lambda>r. n_userId r = n_userId n \<and> n_dedupKey r = n_dedupKey n) rows"

definition create_notifications :: "notification_row list \<Rightarrow> unit tx" where
  "create_notifications new = modify (\<lambda>s. s\<lparr>notifications :=
     foldl (\<lambda>rows n. if notification_taken n rows then rows else rows @ [n]) (notifications s) new\<rparr>)"

definition quarantine_notice :: "payout_input \<Rightarrow> string \<Rightarrow> string \<Rightarrow> staff_row \<Rightarrow> notification_row" where
  "quarantine_notice i eventId code member =
     \<lparr>n_userId = Some (st_userId member), n_organizationId = None, n_type = ''PAYOUT_WEBHOOK_QUARANTINED'',
      n_message = ''Critical payout webhook conflict for execution '' @ pi_executionId i @ '': '' @ code,
      n_dedupKey = Some (''payout-webhook-quarantine:'' @ eventId @ '':'' @ code @ '':'' @ st_userId member)\<rparr>"

definition notifyQuarantine :: "payout_input \<Rightarrow> string \<Rightarrow> unit tx" where
  "notifyQuarantine i code =
     (case webhook_id i of None \<Rightarrow> ret ()
      | Some eventId \<Rightarrow>
          andThen (query (\<lambda>s. filter (\<lambda>m. st_role m \<in> {''FINANCE'', ''SUPER_ADMIN''}) (staff s))) (\<lambda>members.
          if members \<noteq> [] then create_notifications (map (quarantine_notice i eventId code) members) else ret ()))"

definition auditConflict :: "env \<Rightarrow> payout_input \<Rightarrow> string option \<Rightarrow> string \<Rightarrow> string \<Rightarrow> unit tx" where
  "auditConflict env i organizationId code message =
     payout_audit env
       (if webhook_id i \<noteq> None then ''PAYOUT_COMPLETION_EVIDENCE_QUARANTINED''
        else ''PAYOUT_COMPLETION_EVIDENCE_CONFLICT'')
       (pi_executionId i) organizationId (manual_actor i)
       ([(''withdrawalId'', TextJ (pi_withdrawalId i)), (''source'', TextJ (source_text i)),
         (''provider'', TextJ (pi_providerName i)), (''providerReference'', TextJ (pi_providerReference i)),
         (''code'', TextJ code), (''message'', TextJ message)]
        @ with_members (webhook_id i \<noteq> None) [(''payoutWebhookEventId'', opt_json (webhook_id i))])"

definition deterministicConflict ::
    "env \<Rightarrow> payout_input \<Rightarrow> string option \<Rightarrow> string \<times> string \<Rightarrow> payout_result tx" where
  "deterministicConflict env i organizationId conflict =
     (let code = fst conflict; message = snd conflict
      in andThen (updateWebhookTerminalState i
           (if webhook_id i \<noteq> None then ''QUARANTINED'' else ''IGNORED'') (env_now env) (Some code)) (\<lambda>terminalized.
         if \<not> terminalized then ret (webhookLeaseLost i)
         else
           andThen (notifyQuarantine i code) (\<lambda>_.
           andThen (auditConflict env i organizationId code message) (\<lambda>_.
           ret (conflict_result i code message)))))"

section \<open>Loading the execution\<close>

record loaded_payout =
  lp_execution :: execution_row
  lp_provider :: payout_provider_row
  lp_withdrawal :: withdrawal_row
  lp_organizationId :: string
  lp_allocations :: "allocation_row list"

definition find_execution :: "string \<Rightarrow> db \<Rightarrow> execution_row option" where
  "find_execution k s = find (\<lambda>e. px_id e = k) (executions s)"

definition find_withdrawal :: "string \<Rightarrow> db \<Rightarrow> withdrawal_row option" where
  "find_withdrawal k s = find (\<lambda>w. wd_id w = k) (withdrawals s)"

definition find_publisher :: "string \<Rightarrow> db \<Rightarrow> publisher_row option" where
  "find_publisher k s = find (\<lambda>p. p_id p = k) (publishers s)"

definition find_paid_balance :: "string \<Rightarrow> db \<Rightarrow> balance_row option" where
  "find_paid_balance k s = find (\<lambda>b. b_publisherId b = k) (balances s)"

text \<open>
  \<open>findUnique\<close> with \<open>include\<close>: the included relations are required columns, and Prisma refuses a
  row whose required relation is missing.
\<close>

definition inconsistent_result :: failure where
  "inconsistent_result = Failure ''PrismaClientUnknownRequestError'' ''Inconsistent query result''"

definition load_payout :: "db \<Rightarrow> execution_row \<Rightarrow> loaded_payout option" where
  "load_payout s e =
     (case find_withdrawal (px_withdrawalId e) s of None \<Rightarrow> None
      | Some w \<Rightarrow>
        (case find (\<lambda>p. pr_id p = px_providerId e) (payout_providers s) of None \<Rightarrow> None
         | Some p \<Rightarrow>
           (case find_publisher (wd_publisherId w) s of None \<Rightarrow> None
            | Some o' \<Rightarrow> Some \<lparr>lp_execution = e, lp_provider = p, lp_withdrawal = w,
                 lp_organizationId = p_organizationId o',
                 lp_allocations = filter (\<lambda>a. al_withdrawalId a = wd_id w) (allocations s)\<rparr>)))"

definition loadAndLock :: "payout_input \<Rightarrow> loaded_payout option tx" where
  "loadAndLock i =
     andThen (query (find_execution (pi_executionId i))) (\<lambda>found.
     case found of None \<Rightarrow> ret None
     | Some e \<Rightarrow>
         andThen (query (\<lambda>s. load_payout s e)) (\<lambda>loaded.
         case loaded of None \<Rightarrow> throw inconsistent_result | Some lp \<Rightarrow> ret (Some lp)))"

definition providerReferenceForExecution :: "loaded_payout \<Rightarrow> string option" where
  "providerReferenceForExecution lp =
     (if pr_name (lp_provider lp) = ''stripe_connect'' then px_providerPayoutId (lp_execution lp)
      else if px_providerPayoutId (lp_execution lp) \<noteq> None then px_providerPayoutId (lp_execution lp)
      else px_providerExecutionId (lp_execution lp))"

definition destinationProviderAccountId :: "execution_row \<Rightarrow> string option" where
  "destinationProviderAccountId e =
     (case obj_get (px_providerMetadata e) ''destinationSnapshot'' of None \<Rightarrow> None
      | Some d \<Rightarrow> (case obj_get d ''providerAccountExternalId'' of
            Some (TextJ t) \<Rightarrow> if t \<noteq> [] then Some t else None
          | _ \<Rightarrow> None))"

definition completedWebhookEnvelopeMatches :: "loaded_payout \<Rightarrow> payout_event_row \<Rightarrow> bool" where
  "completedWebhookEnvelopeMatches lp ev =
     (let e = lp_execution lp; provider = pr_name (lp_provider lp)
      in if provider = ''stripe_connect'' then
           y_eventType ev = ''payout.paid'' \<and> destinationProviderAccountId e \<noteq> None
           \<and> y_providerAccountExternalId ev = destinationProviderAccountId e \<and> y_livemode ev = px_livemode e
         else if provider = ''wise'' then
           y_eventType ev = ''transfers#state-change'' \<and> y_providerAccountExternalId ev = None
           \<and> y_livemode ev = None \<and> px_livemode e = None
         else False)"

definition validateStage :: "execution_row \<Rightarrow> payout_input \<Rightarrow> bool" where
  "validateStage e i =
     (if px_stage e = ''CANCEL_REQUESTED'' then False
      else if manual_actor i \<noteq> None then px_stage e = ''PROVIDER_SENT''
      else if pi_providerName i = ''stripe_connect'' then
        px_stage e \<in> {''BANK_PAID'', ''BANK_PAYOUT_CREATED'', ''BANK_PAYOUT_PENDING'',
          ''BANK_PAYOUT_RECOVERY_REQUIRED'', ''PROVIDER_COMPLETION_RECOVERY_REQUIRED''}
      else px_stage e \<in> {''PROVIDER_SENT'', ''PROVIDER_OUTCOME_UNKNOWN'', ''PROVIDER_COMPLETION_RECOVERY_REQUIRED''})"

section \<open>The checks\<close>

text \<open>A conflict is its code and message; the first one found is the one reported.\<close>

type_synonym conflict = "(string \<times> string) option"

definition conflict_if :: "bool \<Rightarrow> string \<Rightarrow> string \<Rightarrow> conflict" where
  "conflict_if b code message = (if b then Some (code, message) else None)"

fun firstConflict :: "conflict list \<Rightarrow> conflict" where
  "firstConflict [] = None"
| "firstConflict (c # cs) = (case c of Some x \<Rightarrow> Some x | None \<Rightarrow> firstConflict cs)"

definition manual_reference :: "payout_input \<Rightarrow> string option" where
  "manual_reference i = (case pi_evidence i of ManualConfirmation r _ _ _ \<Rightarrow> Some r | _ \<Rightarrow> None)"

definition stripe_mode_refused :: "env \<Rightarrow> bool option \<Rightarrow> bool" where
  "stripe_mode_refused env livemode \<longleftrightarrow>
     isl (assertStripeFinancialObjectMode livemode (env_process env ''STRIPE_SECRET_KEY'')
       (env_process env ''STRIPE_LIVE_MODE_ENABLED''))"

definition identityConflict :: "env \<Rightarrow> payout_input \<Rightarrow> loaded_payout \<Rightarrow> conflict" where
  "identityConflict env i lp =
     (let e = lp_execution lp; w = lp_withdrawal lp; provider = pr_name (lp_provider lp)
      in firstConflict
        [conflict_if (px_withdrawalId e \<noteq> pi_withdrawalId i) ''EXECUTION_WITHDRAWAL_MISMATCH''
           ''Execution does not belong to the requested withdrawal'',
         conflict_if (manual_actor i \<noteq> None \<and> (\<not> truthy (wd_publicReference w) \<or> manual_reference i \<noteq> wd_publicReference w))
           ''WITHDRAWAL_REFERENCE_MISMATCH'' ''Manual completion confirmation does not match the locked withdrawal reference'',
         conflict_if (provider \<noteq> pi_providerName i) ''PROVIDER_MISMATCH''
           ''Completion provider does not match the persisted execution provider'',
         (if provider = ''stripe_connect'' then
           conflict_if (stripe_mode_refused env (px_livemode e)) ''PROVIDER_MODE_MISMATCH''
             ''Stripe payout execution mode does not match the current credential and live-money gate''
         else conflict_if (px_livemode e \<noteq> None) ''PROVIDER_MODE_MISMATCH''
             ''Non-Stripe payout execution contains unexpected Stripe mode evidence'')])"

text \<open>What the evidence says: when, how much in minor units, and in which currency.\<close>

record completion_facts =
  cf_evidenceAt :: int
  cf_amountMinor :: "int option"
  cf_currency :: "string option"

definition nonempty :: "string \<Rightarrow> string option" where
  "nonempty t = (if t = [] then None else Some t)"

definition statedFacts :: "payout_input \<Rightarrow> int option \<times> int option \<times> string option" where
  "statedFacts i = (case pi_evidence i of
     ProviderResponse instant amount currency \<Rightarrow> (instant, normalizedMinorAmount amount, nonempty (normalizedCurrency currency))
   | ProviderStatusPoll instant amount currency \<Rightarrow> (instant, normalizedMinorAmount amount, nonempty (normalizedCurrency currency))
   | ManualConfirmation _ instant _ _ \<Rightarrow> (instant, None, None)
   | ProviderWebhook _ _ _ \<Rightarrow> (None, None, None))"

definition webhookMatches :: "payout_input \<Rightarrow> loaded_payout \<Rightarrow> payout_event_row \<Rightarrow> bool" where
  "webhookMatches i lp ev \<longleftrightarrow>
     y_provider ev = pi_providerName i \<and> y_providerStatus ev = Some ''COMPLETED''
     \<and> y_providerExecutionId ev = Some (normalizedEvidenceReference i)
     \<and> completedWebhookEnvelopeMatches lp ev \<and> y_status ev \<in> {''PROCESSING'', ''PROCESSED''}"

definition evidence_code :: "payout_input \<Rightarrow> string" where
  "evidence_code i = (if manual_actor i \<noteq> None then ''MANUAL_EVIDENCE_INVALID'' else ''COMPLETION_EVIDENCE_CONFLICT'')"

definition completionFacts ::
    "env \<Rightarrow> payout_input \<Rightarrow> loaded_payout \<Rightarrow> db \<Rightarrow> (string \<times> string) + completion_facts" where
  "completionFacts env i lp s =
     (case webhook_id i of
        Some eventId \<Rightarrow>
          (case find_payout_event eventId s of
             Some ev \<Rightarrow>
               if webhookMatches i lp ev then
                 Inr \<lparr>cf_evidenceAt = y_receivedAt ev,
                      cf_amountMinor = normalizedMinorAmount
                        (case y_payoutAmountMinor ev of None \<Rightarrow> JNull | Some m \<Rightarrow> JBig m),
                      cf_currency = y_payoutCurrency ev\<rparr>
               else Inl (''WEBHOOK_EVIDENCE_MISMATCH'', ''Verified webhook evidence does not match this payout completion'')
           | None \<Rightarrow> Inl (''WEBHOOK_EVIDENCE_MISMATCH'', ''Verified webhook evidence does not match this payout completion''))
      | None \<Rightarrow>
          (case statedFacts i of
             (None, _) \<Rightarrow> Inl (evidence_code i, ''Completion evidence timestamp is invalid'')
           | (Some instant, amount, currency) \<Rightarrow>
               if instant > env_now env + MANUAL_CLOCK_TOLERANCE_MS then
                 Inl (evidence_code i, ''Completion evidence timestamp is implausibly in the future'')
               else Inr \<lparr>cf_evidenceAt = instant, cf_amountMinor = amount, cf_currency = currency\<rparr>))"

definition actorConflict :: "payout_input \<Rightarrow> db \<Rightarrow> conflict" where
  "actorConflict i s =
     (case manual_actor i of None \<Rightarrow> None
      | Some actor \<Rightarrow>
          conflict_if (\<not> list_ex (\<lambda>m. st_userId m = actor \<and> st_role m \<in> {''FINANCE'', ''SUPER_ADMIN''}
              \<and> st_userType m = ''STAFF'' \<and> \<not> st_banned m) (staff s))
            ''MANUAL_ACTOR_UNAUTHORIZED''
            ''Manual payout confirmation requires a current unbanned Finance or Super Admin staff member'')"

definition destination_units :: "execution_row \<Rightarrow> int" where
  "destination_units e = (case px_destinationAmount e of None \<Rightarrow> px_amount e | Some a \<Rightarrow> a)"

definition referenceConflict :: "payout_input \<Rightarrow> loaded_payout \<Rightarrow> completion_facts \<Rightarrow> conflict" where
  "referenceConflict i lp facts =
     (let e = lp_execution lp; persisted = providerReferenceForExecution lp;
          evidenceReference = normalizedEvidenceReference i;
          expected = decimalMinorAmount (column (destination_units e)) (JText (px_destinationCurrency e))
      in if manual_actor i \<noteq> None then None
         else firstConflict
          [conflict_if (\<not> truthy persisted \<or> persisted \<noteq> Some evidenceReference) ''PROVIDER_REFERENCE_MISMATCH''
             ''Terminal evidence does not match the persisted provider object'',
           conflict_if (pi_providerName i = ''stripe_connect''
               \<and> (\<not> truthy (px_providerPayoutId e) \<or> \<not> starts_with ''po_'' evidenceReference
                  \<or> Some evidenceReference = px_providerTransferId e))
             ''PROVIDER_REFERENCE_MISMATCH''
             ''Stripe completion requires the persisted bank Payout ID, never a Transfer ID'',
           conflict_if (expected = None \<or> cf_amountMinor facts \<noteq> expected
               \<or> cf_currency facts \<noteq> Some (px_destinationCurrency e))
             ''PROVIDER_AMOUNT_CURRENCY_MISMATCH''
             ''Provider payout amount or currency does not match the immutable execution destination''])"

definition stateConflict :: "payout_input \<Rightarrow> loaded_payout \<Rightarrow> conflict" where
  "stateConflict i lp =
     (let e = lp_execution lp; w = lp_withdrawal lp
      in firstConflict
        [conflict_if (px_stage e = ''CANCEL_REQUESTED'') ''CANCELLATION_IN_PROGRESS''
           ''Payout execution is claimed for cancellation'',
         conflict_if (px_status e \<notin> {''PROCESSING'', ''FAILED''}) ''INVALID_LOCAL_STATE''
           (''Execution is '' @ px_status e @ '', not completable''),
         conflict_if (wd_status w \<notin> {''PROCESSING'', ''FAILED''}) ''INVALID_LOCAL_STATE''
           (''Withdrawal is '' @ wd_status w @ '', not completable''),
         conflict_if (\<not> validateStage e i) ''INVALID_PROVIDER_STAGE''
           (''Execution stage '' @ px_stage e @ '' cannot be completed from '' @ source_text i)])"

definition amountConflict :: "loaded_payout \<Rightarrow> conflict" where
  "amountConflict lp =
     (let e = lp_execution lp; w = lp_withdrawal lp;
          expected = (case wd_netAmount w of None \<Rightarrow> wd_amount w | Some n \<Rightarrow> n)
      in conflict_if
        (wd_currency w \<noteq> ''USD'' \<or> px_sourceCurrency e \<noteq> ''USD'' \<or> px_destinationCurrency e \<noteq> ''USD''
         \<or> \<not> decimalsEqual (column (px_amount e)) (column (wd_amount w))
         \<or> \<not> decimalsEqual (column (destination_units e)) (column expected)
         \<or> normalizedCurrency (JText (px_sourceCurrency e)) \<noteq> normalizedCurrency (JText (wd_currency w))
         \<or> normalizedCurrency (JText (px_destinationCurrency e)) \<noteq> normalizedCurrency (JText (wd_currency w)))
        ''AMOUNT_CURRENCY_MISMATCH'' ''Execution amount or currency does not match its withdrawal'')"

text \<open>The allocations must be unreleased, positive and add up to the payout.\<close>

fun sumAllocations :: "int \<Rightarrow> allocation_row list \<Rightarrow> string + int" where
  "sumAllocations acc [] = Inr acc"
| "sumAllocations acc (a # as) =
     (case scaledDecimal (column (al_amount a)) of Inl e \<Rightarrow> Inl e | Inr d \<Rightarrow> sumAllocations (acc + d) as)"

definition allocation_refused :: "withdrawal_row \<Rightarrow> allocation_row \<Rightarrow> bool" where
  "allocation_refused w a \<longleftrightarrow>
     al_currency a \<noteq> ''USD'' \<or> al_currency a \<noteq> wd_currency w
     \<or> (case scaledDecimal (column (al_amount a)) of Inl _ \<Rightarrow> False | Inr d \<Rightarrow> d \<le> 0)"

definition reservationConflict :: "loaded_payout \<Rightarrow> conflict tx" where
  "reservationConflict lp =
     (let w = lp_withdrawal lp; active = filter (\<lambda>a. al_releasedAt a = None) (lp_allocations lp)
      in andThen (lift_sum error (sumAllocations 0 active)) (\<lambda>allocationTotal.
         andThen (lift_sum error (scaledDecimal (column (wd_amount w)))) (\<lambda>amount.
         ret (conflict_if (active = [] \<or> allocationTotal \<noteq> amount \<or> list_ex (allocation_refused w) active)
           ''RESERVATION_MISMATCH'' ''Unreleased withdrawal allocations do not exactly cover the payout''))))"

definition manualConflict :: "env \<Rightarrow> payout_input \<Rightarrow> loaded_payout \<Rightarrow> completion_facts \<Rightarrow> conflict" where
  "manualConflict env i lp facts =
     (let e = lp_execution lp; w = lp_withdrawal lp; instant = cf_evidenceAt facts
      in case pi_evidence i of
        ManualConfirmation _ _ actor reason \<Rightarrow> firstConflict
          [conflict_if
             (pi_providerName i \<noteq> ''manual'' \<or> actor = [] \<or> length (normalizedEvidenceReference i) < 6
              \<or> wd_approvedAt w = None \<or> \<not> truthy (px_providerExecutionId e)
              \<or> instant < px_createdAt e - MANUAL_CLOCK_TOLERANCE_MS \<or> instant > env_now env + MANUAL_CLOCK_TOLERANCE_MS
              \<or> length (trim reason) < 10 \<or> length (trim reason) > 2000)
             ''MANUAL_EVIDENCE_INVALID''
             ''Manual completion requires an existing sent execution and valid bank evidence'',
           conflict_if
             (\<not> truthy (wd_requestedBy w) \<or> \<not> truthy (wd_approvedBy w) \<or> \<not> truthy (px_initiatedByUserId e)
              \<or> wd_requestedBy w = Some actor \<or> wd_approvedBy w = Some actor \<or> px_initiatedByUserId e = Some actor)
             ''MAKER_CHECKER_VIOLATION''
             ''Manual completion requires known requester, approver, and execution initiator provenance, with the payment checker distinct from each'']
      | _ \<Rightarrow> conflict_if (pi_providerName i = ''manual'') ''PROVIDER_MISMATCH''
          ''Manual executions cannot be completed from automated provider evidence'')"

definition competitionConflict :: "payout_input \<Rightarrow> loaded_payout \<Rightarrow> db \<Rightarrow> conflict" where
  "competitionConflict i lp s =
     (let e = lp_execution lp; w = lp_withdrawal lp; evidenceReference = normalizedEvidenceReference i
      in firstConflict
        [conflict_if (list_ex (\<lambda>r. px_withdrawalId r = wd_id w \<and> px_id r \<noteq> px_id e
             \<and> px_status r \<in> set (ACTIVE_EXECUTION_STATUSES @ [''COMPLETED''])) (executions s))
           ''COMPETING_EXECUTION'' ''Another execution is active or completed for this withdrawal'',
         conflict_if (list_ex (\<lambda>r. px_providerId r = px_providerId e \<and> px_id r \<noteq> px_id e
             \<and> (px_completionEvidenceRef r = Some evidenceReference
                \<or> manual_actor i \<noteq> None \<and> px_bankTraceReference r = Some evidenceReference)) (executions s))
           ''EVIDENCE_ALREADY_USED'' ''Completion evidence is already attached to another payout''])"

section \<open>Completed executions\<close>

text \<open>Evidence for an execution that is already completed: the same once more, or other evidence for it.\<close>

definition canonicalReference :: "loaded_payout \<Rightarrow> string option" where
  "canonicalReference lp =
     (if px_completionEvidenceRef (lp_execution lp) \<noteq> None then px_completionEvidenceRef (lp_execution lp)
      else if providerReferenceForExecution lp \<noteq> None then providerReferenceForExecution lp
      else px_bankTraceReference (lp_execution lp))"

definition sameManualEvidence :: "payout_input \<Rightarrow> execution_row \<Rightarrow> completion_facts \<Rightarrow> bool" where
  "sameManualEvidence i e facts =
     (case pi_evidence i of
        ManualConfirmation _ _ actor reason \<Rightarrow>
          px_completionSource e = Some ''MANUAL_BANK_CONFIRMATION'' \<and> px_completionActorUserId e = Some actor
          \<and> px_completionEvidenceAt e = Some (cf_evidenceAt facts) \<and> persistedManualReason e = Some (trim reason)
      | _ \<Rightarrow> True)"

definition completedConflict :: "payout_input \<Rightarrow> loaded_payout \<Rightarrow> completion_facts \<Rightarrow> conflict" where
  "completedConflict i lp facts = firstConflict
     [conflict_if (wd_status (lp_withdrawal lp) \<noteq> ''COMPLETED'') ''COMPLETION_STATE_MISMATCH''
        ''Execution is completed but its withdrawal is not completed'',
      conflict_if (canonicalReference lp \<noteq> Some (normalizedEvidenceReference i)
          \<or> \<not> sameManualEvidence i (lp_execution lp) facts)
        ''COMPLETION_EVIDENCE_CONFLICT'' ''Payout was already completed from different evidence'']"

definition exactReplay :: "payout_input \<Rightarrow> execution_row \<Rightarrow> bool" where
  "exactReplay i e \<longleftrightarrow> px_completionSource e = Some (source_text i)
     \<and> (webhook_id i = None \<or> px_completionWebhookEventId e = webhook_id i)"

definition replay_disposition :: "payout_input \<Rightarrow> execution_row \<Rightarrow> string" where
  "replay_disposition i e = (if exactReplay i e then ''PROCESSED'' else ''IGNORED'')"

definition auditReplay :: "env \<Rightarrow> payout_input \<Rightarrow> loaded_payout \<Rightarrow> unit tx" where
  "auditReplay env i lp =
     (let e = lp_execution lp; w = lp_withdrawal lp
      in payout_audit env
        (if exactReplay i e then ''PAYOUT_COMPLETION_REPLAYED'' else ''PAYOUT_COMPLETION_CORROBORATED'')
        (px_id e) (Some (lp_organizationId lp)) (manual_actor i)
        ([(''withdrawalId'', TextJ (wd_id w)), (''source'', TextJ (source_text i)),
          (''canonicalSource'', opt_json (px_completionSource e)),
          (''providerReference'', TextJ (normalizedEvidenceReference i))]
         @ with_members (webhook_id i \<noteq> None)
             [(''payoutWebhookEventId'', opt_json (webhook_id i)),
              (''inboxDisposition'', TextJ (replay_disposition i e))]))"

definition replayCompletion :: "env \<Rightarrow> payout_input \<Rightarrow> loaded_payout \<Rightarrow> payout_result tx" where
  "replayCompletion env i lp =
     (let e = lp_execution lp
      in andThen (updateWebhookTerminalState i (replay_disposition i e) (env_now env)
           (if exactReplay i e then None else Some ''CorroboratesExistingCompletion'')) (\<lambda>terminalized.
         if \<not> terminalized then ret (webhookLeaseLost i)
         else
           andThen (auditReplay env i lp) (\<lambda>_.
           ret (PayoutDone (if exactReplay i e then Replayed else Corroborated) (px_id e)
             (wd_id (lp_withdrawal lp)) False))))"

section \<open>The completion\<close>

text \<open>
  The unique constraints of \<open>PayoutExecution\<close> that a completion can violate: the completing
  webhook event, the provider's evidence and bank references, and the one execution that may
  move a withdrawal's money.
\<close>

definition same_some :: "'a option \<Rightarrow> 'a option \<Rightarrow> bool" where
  "same_some a b \<longleftrightarrow> a \<noteq> None \<and> a = b"

definition moves_money :: "execution_row \<Rightarrow> bool" where
  "moves_money e \<longleftrightarrow> px_status e \<in> {''PENDING'', ''PROCESSING'', ''COMPLETED''}"

definition executions_clash :: "execution_row \<Rightarrow> execution_row \<Rightarrow> bool" where
  "executions_clash e r \<longleftrightarrow> px_id e \<noteq> px_id r
     \<and> (same_some (px_completionWebhookEventId e) (px_completionWebhookEventId r)
        \<or> px_providerId e = px_providerId r
          \<and> (same_some (px_bankTraceReference e) (px_bankTraceReference r)
             \<or> same_some (px_completionEvidenceRef e) (px_completionEvidenceRef r))
        \<or> px_withdrawalId e = px_withdrawalId r \<and> moves_money e \<and> moves_money r)"

definition execution_unique :: "execution_row \<Rightarrow> execution_row list \<Rightarrow> bool" where
  "execution_unique e rows \<longleftrightarrow> list_all (\<lambda>r. \<not> executions_clash e r) rows"

definition update_execution_unique :: "(execution_row \<Rightarrow> bool) \<Rightarrow> (execution_row \<Rightarrow> execution_row) \<Rightarrow> nat tx" where
  "update_execution_unique p f =
     andThen (update_executions p f) (\<lambda>n.
     andThen (query executions) (\<lambda>rows.
     andThen (require (n = 0 \<or> list_all (\<lambda>e. execution_unique e rows) rows) unique_violation) (\<lambda>_.
     ret n)))"

definition completed_at :: "env \<Rightarrow> completion_facts \<Rightarrow> int" where
  "completed_at env facts = (if cf_evidenceAt facts > env_now env then cf_evidenceAt facts else env_now env)"

definition completion_metadata ::
    "env \<Rightarrow> payout_input \<Rightarrow> loaded_payout \<Rightarrow> completion_facts \<Rightarrow> (string \<times> json) list" where
  "completion_metadata env i lp facts =
     [(''source'', TextJ (source_text i)), (''evidenceReference'', TextJ (normalizedEvidenceReference i)),
      (''evidenceAt'', TextJ (iso_text (cf_evidenceAt facts))), (''completedAt'', TextJ (iso_text (completed_at env facts)))]
     @ with_members (manual_actor i = None)
         [(''providerAmountMinor'', TextJ (int_text (case cf_amountMinor facts of None \<Rightarrow> 0 | Some m \<Rightarrow> m))),
          (''providerCurrency'', opt_json (cf_currency facts)),
          (''livemode'', (case px_livemode (lp_execution lp) of None \<Rightarrow> NullJ | Some b \<Rightarrow> BoolJ b))]
     @ (case pi_evidence i of
          ManualConfirmation _ _ actor reason \<Rightarrow> [(''actorUserId'', TextJ actor), (''reason'', TextJ (trim reason))]
        | ProviderWebhook eventId claimAttempt claimLockedAt \<Rightarrow>
            [(''payoutWebhookEventId'', TextJ eventId), (''webhookClaimAttempt'', NumJ claimAttempt)]
            @ (case claimLockedAt of None \<Rightarrow> [] | Some t \<Rightarrow> [(''webhookClaimLockedAt'', TextJ (iso_text t))])
        | _ \<Rightarrow> [])"

definition completed_row :: "env \<Rightarrow> payout_input \<Rightarrow> loaded_payout \<Rightarrow> completion_facts \<Rightarrow> execution_row \<Rightarrow> execution_row" where
  "completed_row env i lp facts r =
     (let e = lp_execution lp; evidenceReference = normalizedEvidenceReference i; manual = (manual_actor i \<noteq> None)
      in r\<lparr>px_status := ''COMPLETED'',
           px_stage := (if manual then ''MANUAL_CONFIRMED''
             else if pi_providerName i = ''stripe_connect'' then ''BANK_PAID'' else px_stage e),
           px_completionSource := Some (source_text i), px_completionEvidenceRef := Some evidenceReference,
           px_completionEvidenceAt := Some (cf_evidenceAt facts), px_completedAt := Some (completed_at env facts),
           px_completionActorUserId := manual_actor i, px_completionWebhookEventId := webhook_id i,
           px_bankTraceReference := (if manual then Some evidenceReference else px_bankTraceReference r),
           px_acceptedReference := (if manual then Some evidenceReference else px_acceptedReference r),
           px_fee := (case pi_fee i of None \<Rightarrow> px_fee r | Some f \<Rightarrow> f), px_errorMessage := None,
           px_providerMetadata := safeMetadata (px_providerMetadata e) (pi_metadata i) (completion_metadata env i lp facts),
           px_version := px_version r + 1\<rparr>)"

definition markCompleted :: "env \<Rightarrow> payout_input \<Rightarrow> loaded_payout \<Rightarrow> completion_facts \<Rightarrow> unit tx" where
  "markCompleted env i lp facts =
     (let e = lp_execution lp; w = lp_withdrawal lp
      in andThen (update_execution_unique
           (\<lambda>r. px_id r = px_id e \<and> px_withdrawalId r = wd_id w \<and> px_status r = px_status e \<and> px_stage r = px_stage e
              \<and> px_version r = px_version e \<and> px_completionSource r = None)
           (completed_row env i lp facts)) (\<lambda>executionUpdated.
         andThen (require (executionUpdated = 1) (error ''Payout execution changed during canonical completion'')) (\<lambda>_.
         andThen (update_withdrawals
           (\<lambda>r. wd_id r = wd_id w \<and> wd_status r = wd_status w \<and> wd_version r = wd_version w)
           (\<lambda>r. r\<lparr>wd_status := ''COMPLETED'', wd_version := wd_version r + 1\<rparr>)) (\<lambda>withdrawalUpdated.
         andThen (require (withdrawalUpdated = 1) (error ''Withdrawal changed during canonical completion'')) (\<lambda>_.
         andThen (update_balances (\<lambda>b. b_publisherId b = wd_publisherId w)
           (\<lambda>b. b\<lparr>b_lifetimePaid := b_lifetimePaid b + wd_amount w, b_version := b_version b + 1\<rparr>)) (\<lambda>paid.
         require (paid \<noteq> 0) (prisma_code ''P2025'')))))))"

definition auditCompletion :: "env \<Rightarrow> payout_input \<Rightarrow> loaded_payout \<Rightarrow> completion_facts \<Rightarrow> unit tx" where
  "auditCompletion env i lp facts =
     (let w = lp_withdrawal lp
      in payout_audit env ''PAYOUT_EXECUTION_COMPLETED'' (px_id (lp_execution lp)) (Some (lp_organizationId lp))
        (manual_actor i)
        ([(''withdrawalId'', TextJ (wd_id w)), (''publisherId'', TextJ (wd_publisherId w)),
          (''amount'', TextJ (decimalString (wd_amount w))), (''currency'', TextJ (wd_currency w)),
          (''source'', TextJ (source_text i)), (''provider'', TextJ (pi_providerName i)),
          (''providerReference'', TextJ (normalizedEvidenceReference i)),
          (''evidenceAt'', TextJ (iso_text (cf_evidenceAt facts))),
          (''completedAt'', TextJ (iso_text (completed_at env facts)))]
         @ with_members (webhook_id i \<noteq> None) [(''payoutWebhookEventId'', opt_json (webhook_id i))]))"

definition completePayout :: "env \<Rightarrow> payout_input \<Rightarrow> loaded_payout \<Rightarrow> completion_facts \<Rightarrow> payout_result tx" where
  "completePayout env i lp facts =
     (let e = lp_execution lp; w = lp_withdrawal lp
      in andThen (query (find_paid_balance (wd_publisherId w))) (\<lambda>balance.
         andThen (require (balance \<noteq> None) (error ''Publisher balance missing during payout completion'')) (\<lambda>_.
         andThen (markCompleted env i lp facts) (\<lambda>_.
         andThen (updateWebhookTerminalState i ''PROCESSED'' (completed_at env facts) None) (\<lambda>terminalized.
         andThen (require terminalized (error ''Payout webhook lease changed during canonical completion'')) (\<lambda>_.
         andThen (auditCompletion env i lp facts) (\<lambda>_.
         ret (PayoutDone Completed (px_id e) (wd_id w) True))))))))"

text \<open>After the state of a completable execution is established, the rest of the checks and the writes.\<close>

definition completeExecution :: "env \<Rightarrow> payout_input \<Rightarrow> loaded_payout \<Rightarrow> completion_facts \<Rightarrow> payout_result tx" where
  "completeExecution env i lp facts =
     (let refuse = deterministicConflict env i (Some (lp_organizationId lp))
      in case firstConflict [stateConflict i lp, amountConflict lp] of Some c \<Rightarrow> refuse c
      | None \<Rightarrow>
          andThen (reservationConflict lp) (\<lambda>reservation.
          andThen (query (competitionConflict i lp)) (\<lambda>competition.
          case firstConflict [reservation, manualConflict env i lp facts, competition] of Some c \<Rightarrow> refuse c
          | None \<Rightarrow> completePayout env i lp facts)))"

definition decideCompletion :: "env \<Rightarrow> payout_input \<Rightarrow> loaded_payout \<Rightarrow> payout_result tx" where
  "decideCompletion env i lp =
     (let refuse = deterministicConflict env i (Some (lp_organizationId lp))
      in case identityConflict env i lp of Some c \<Rightarrow> refuse c
      | None \<Rightarrow>
          andThen (query (completionFacts env i lp)) (\<lambda>evidence.
          case evidence of Inl c \<Rightarrow> refuse c
          | Inr facts \<Rightarrow>
              andThen (query (actorConflict i)) (\<lambda>actor.
              case firstConflict [actor, referenceConflict i lp facts] of Some c \<Rightarrow> refuse c
              | None \<Rightarrow>
                  if px_status (lp_execution lp) = ''COMPLETED'' then
                    (case completedConflict i lp facts of Some c \<Rightarrow> refuse c
                     | None \<Rightarrow> replayCompletion env i lp)
                  else completeExecution env i lp facts)))"

definition finalizeInTransaction :: "env \<Rightarrow> payout_input \<Rightarrow> payout_result tx" where
  "finalizeInTransaction env i =
     andThen (query (lockAndOwnWebhookLease i)) (\<lambda>leaseOwned.
     if \<not> leaseOwned then ret (webhookLeaseLost i)
     else
       andThen (query (find_withdrawal (pi_withdrawalId i))) (\<lambda>withdrawal.
       if withdrawal = None then
         deterministicConflict env i None (''WITHDRAWAL_NOT_FOUND'', ''Withdrawal does not exist'')
       else
         andThen (loadAndLock i) (\<lambda>loaded.
         case loaded of
           None \<Rightarrow> deterministicConflict env i None (''EXECUTION_NOT_FOUND'', ''Payout execution does not exist'')
         | Some lp \<Rightarrow> decideCompletion env i lp)))"

section \<open>The retry loop\<close>

type_synonym payout_hooks = "payout_result \<Rightarrow> unit tx"

definition finalizeTx :: "env \<Rightarrow> payout_hooks option \<Rightarrow> payout_input \<Rightarrow> payout_result tx" where
  "finalizeTx env hooks i =
     andThen (finalizeInTransaction env i) (\<lambda>result.
     andThen (case hooks of None \<Rightarrow> ret () | Some afterTransition \<Rightarrow> afterTransition result) (\<lambda>_.
     ret result))"

definition auditUniqueCollision :: "env \<Rightarrow> payout_input \<Rightarrow> unit tx" where
  "auditUniqueCollision env i =
     andThen (query (lockAndOwnWebhookLease i)) (\<lambda>leaseOwned.
     if \<not> leaseOwned then ret ()
     else
       andThen (query (find_execution (pi_executionId i))) (\<lambda>found.
       andThen (case found of None \<Rightarrow> ret None
         | Some e \<Rightarrow>
             andThen (query (\<lambda>s. case find_withdrawal (px_withdrawalId e) s of None \<Rightarrow> None
               | Some w \<Rightarrow> find_publisher (wd_publisherId w) s)) (\<lambda>publisher.
             case publisher of None \<Rightarrow> throw inconsistent_result | Some p \<Rightarrow> ret (Some (p_organizationId p))))
         (\<lambda>organizationId.
       andThen (deterministicConflict env i organizationId (''EVIDENCE_ALREADY_USED'',
         ''A database uniqueness backstop rejected reused payout evidence or a duplicate completion'')) (\<lambda>_.
       ret ()))))"

text \<open>
  Attempts are numbered from one; index 0 of the weather is what happens around the forensic
  transaction after a uniqueness failure, whose own failure is ignored.
\<close>

definition finalizePayoutExecution ::
    "env \<Rightarrow> payout_hooks option \<Rightarrow> weather \<Rightarrow> payout_input \<Rightarrow> db \<Rightarrow> (failure + payout_result) \<times> db" where
  "finalizePayoutExecution env hooks w i s =
     (case retry_loop isRetryablePrismaTransactionError w (finalizeTx env hooks i) PAYOUT_SERIALIZABLE_ATTEMPTS 1 s of
        (Inr result, s') \<Rightarrow> (Inr result, s')
      | (Inl e, s1) \<Rightarrow>
          if isPrismaUniqueConstraintError e then
            (let s2 = fst (w 0) s1;
                 s3 = (case attempt_tx (snd (w 0)) (auditUniqueCollision env i) s2 of Inr (_, s') \<Rightarrow> s' | Inl _ \<Rightarrow> s2)
             in (Inr (conflict_result i ''EVIDENCE_ALREADY_USED''
                   ''Payout completion evidence or completed execution is already in use''), s3))
          else (Inl e, s1))"

end
