(* ===== verification/Withdrawals.thy ===== *)
theory Withdrawals
  imports Billing Payout_Finalization Settlement_Sweeps
begin

text \<open>
  The withdrawals of a publisher (\<open>publisher-payouts.service.ts\<close> of \<open>apps/api\<close>): the request
  that reserves the amount out of the balance and allocates it to its sources, the approval, and
  the rejection or abandonment that gives it back.
\<close>

section \<open>Payout methods\<close>

text \<open>\<open>payout-method-runtime.ts\<close> and \<open>isStripeFeatureEnabled("connect")\<close>.\<close>

definition areManualBankPayoutsEnabled :: "env \<Rightarrow> bool" where
  "areManualBankPayoutsEnabled env \<longleftrightarrow> env_process env ''PAYOUT_LEGACY_METHODS_ENABLED'' = Some ''true''
     \<or> env_process env ''NODE_ENV'' = Some ''development'' \<or> env_process env ''NODE_ENV'' = Some ''test''"

definition stripeConnectEnabled :: "env \<Rightarrow> bool" where
  "stripeConnectEnabled env \<longleftrightarrow>
     map_option (\<lambda>v. to_lower (trim v)) (env_process env ''STRIPE_CONNECT_ENABLED'') = Some ''true''"

definition currentPayoutMethodRuntime :: "env \<Rightarrow> payout_capabilities" where
  "currentPayoutMethodRuntime env =
     \<lparr>newLiabilityOperationsEnabled = isFinanceOperationAllowed
        (mr_mode (resolveFinanceRuntimeMode (env_process env ''FINANCE_RUNTIME_MODE'') (env_process env ''NODE_ENV'')))
        F_NEW_LIABILITY,
      manualBankPayoutsEnabled = areManualBankPayoutsEnabled env, stripeConnectPayoutsEnabled = stripeConnectEnabled env\<rparr>"

text \<open>A stored method as the eligibility policy reads it, with its provider account.\<close>

definition account_view :: "provider_account_row \<Rightarrow> provider_account" where
  "account_view a = \<lparr>pa_publisherId = JText (va_publisherId a), pa_provider = JText (va_provider a),
     pa_isActive = JBool (va_isActive a), pa_status = JText (va_status a),
     pa_transfersEnabled = JBool (va_transfersEnabled a), pa_payoutsEnabled = JBool (va_payoutsEnabled a),
     pa_detailsSubmitted = JBool (va_detailsSubmitted a), pa_payoutScheduleConfigured = JBool (va_payoutScheduleConfigured a),
     pa_defaultCurrency = (case va_defaultCurrency a of None \<Rightarrow> JNull | Some c \<Rightarrow> JText c)\<rparr>"

definition find_account :: "string option \<Rightarrow> db \<Rightarrow> provider_account_row option" where
  "find_account i s = (case i of None \<Rightarrow> None | Some k \<Rightarrow> find (\<lambda>a. va_id a = k) (provider_accounts s))"

definition method_view :: "string \<Rightarrow> payout_method_row \<Rightarrow> db \<Rightarrow> payout_method_input" where
  "method_view publisherId m s = \<lparr>pm_publisherId = publisherId, pm_type = JText (m_type m), pm_isActive = m_isActive m,
     pm_providerAccountId = m_providerAccountId m, pm_providerAccount = map_option account_view (find_account (m_providerAccountId m) s)\<rparr>"

definition method_eligibility :: "env \<Rightarrow> string \<Rightarrow> payout_method_row \<Rightarrow> db \<Rightarrow> payout_eligibility" where
  "method_eligibility env publisherId m s =
     evaluatePayoutMethodEligibility (method_view publisherId m s) (currentPayoutMethodRuntime env)"

definition assertPayoutMethodExecutable :: "env \<Rightarrow> payout_method_row \<Rightarrow> string \<Rightarrow> unit tx" where
  "assertPayoutMethodExecutable env m publisherId =
     andThen (query (method_eligibility env publisherId m)) (\<lambda>eligibility.
     if pe_executable eligibility then ret ()
     else if pe_code eligibility = STRIPE_ACCOUNT_NOT_READY then
       throw (coded_conflict ''PAYOUT_METHOD_PROVIDER_NOT_READY'' (pe_message eligibility))
     else if pe_code eligibility = PROVIDER_BINDING_INVALID then
       throw (coded_conflict ''PAYOUT_METHOD_PROVIDER_BINDING_INVALID'' (pe_message eligibility))
     else throw (coded_request ''PAYOUT_METHOD_NOT_EXECUTABLE'' (pe_message eligibility)))"

text \<open>An owner of the publisher who may act: neither banned nor of another kind of user.\<close>

definition active_owner :: "string \<Rightarrow> string \<Rightarrow> db \<Rightarrow> bool" where
  "active_owner userId publisherId s \<longleftrightarrow>
     list_ex (\<lambda>m. mb_userId m = userId \<and> mb_groupId m = publisherId \<and> mb_role m = ''PUBLISHER_OWNER''
        \<and> \<not> mb_banned m \<and> mb_userType m = ''PUBLISHER'') (publisher_members s)"

definition assertPublisherMember :: "string \<Rightarrow> string \<Rightarrow> unit tx" where
  "assertPublisherMember userId publisherId =
     andThen (query (active_owner userId publisherId)) (\<lambda>membership.
     require membership (forbidden ''An active publisher owner account is required''))"

section \<open>The sources of a withdrawal\<close>

text \<open>
  A ledger row of the publisher with its settlement, the compensation it credits or repays, and
  the amounts other withdrawals have taken from it.
\<close>

record source_view =
  sv_row :: transaction_row
  sv_settlement :: "settlement_row option"
  sv_credit :: "compensation_row option"
  sv_debt :: "compensation_row option"
  sv_creditOrderType :: "string option"
  sv_allocated :: "int list"

definition SOURCE_TYPES :: "string list" where
  "SOURCE_TYPES = [''SETTLEMENT_RELEASE'', ''PUBLISHER_COMPENSATION'', ''DEBT_REPAYMENT'']"

definition taken_from :: "string \<Rightarrow> db \<Rightarrow> int list" where
  "taken_from i s = map al_amount
     (filter (\<lambda>a. al_sourceTransactionId a = Some i \<and> al_releasedAt a = None) (allocations s))"

definition source_of :: "db \<Rightarrow> transaction_row \<Rightarrow> source_view" where
  "source_of s t =
     (let credit = find (\<lambda>c. pc_compensationTransactionId c = Some (t_id t)) (compensations s)
      in \<lparr>sv_row = t,
          sv_settlement = (case t_settlementId t of None \<Rightarrow> None | Some i \<Rightarrow> find_settlement i s),
          sv_credit = credit,
          sv_debt = find (\<lambda>c. pc_debtRepaymentTransactionId c = Some (t_id t)) (compensations s),
          sv_creditOrderType = (case credit of None \<Rightarrow> None
            | Some c \<Rightarrow> map_option o_type (find_order (pc_orderId c) s)),
          sv_allocated = taken_from (t_id t) s\<rparr>)"

definition oldest_first :: "transaction_row \<Rightarrow> transaction_row \<Rightarrow> int" where
  "oldest_first t u = (if t_createdAt t < t_createdAt u then -1 else if t_createdAt t > t_createdAt u then 1
     else text_compare (t_id t) (t_id u))"

definition source_rows :: "string \<Rightarrow> int option \<Rightarrow> db \<Rightarrow> source_view list" where
  "source_rows publisherId cutover s = map (source_of s) (sort_by oldest_first
     (filter (\<lambda>t. t_publisherId t = Some publisherId \<and> t_type t \<in> set SOURCE_TYPES
        \<and> (case cutover of None \<Rightarrow> True | Some c \<Rightarrow> c \<le> t_createdAt t)) (transactions s)))"

definition settlement_key :: "source_view \<Rightarrow> string" where
  "settlement_key v = ''settlement:'' @ (case t_settlementId (sv_row v) of None \<Rightarrow> [] | Some i \<Rightarrow> i)"

definition debt_key :: "source_view \<Rightarrow> string option" where
  "debt_key v = (if truthy (t_settlementId (sv_row v)) then Some (settlement_key v)
     else case sv_debt v of None \<Rightarrow> None
     | Some c \<Rightarrow> if pc_id c = [] then None else Some (''compensation:'' @ pc_id c))"

definition debtBySource :: "source_view list \<Rightarrow> string \<Rightarrow> int" where
  "debtBySource views key = sum_list (map (\<lambda>v. t_amount (sv_row v))
     (filter (\<lambda>v. t_type (sv_row v) = ''DEBT_REPAYMENT'' \<and> debt_key v = Some key) views))"

definition settlementSource :: "source_view \<Rightarrow> bool" where
  "settlementSource v \<longleftrightarrow> t_type (sv_row v) = ''SETTLEMENT_RELEASE'' \<and> truthy (t_settlementId (sv_row v))"

definition compensationSource :: "source_view \<Rightarrow> bool" where
  "compensationSource v \<longleftrightarrow> t_type (sv_row v) = ''PUBLISHER_COMPENSATION'' \<and> sv_credit v \<noteq> None"

definition source_key :: "source_view \<Rightarrow> string" where
  "source_key v = (if settlementSource v then settlement_key v
     else ''compensation:'' @ (case sv_credit v of None \<Rightarrow> [] | Some c \<Rightarrow> pc_id c))"

definition sourceAvailable :: "source_view list \<Rightarrow> source_view \<Rightarrow> int" where
  "sourceAvailable views v = t_amount (sv_row v) + debtBySource views (source_key v) - sum_list (sv_allocated v)"

definition first_text_of :: "string option list \<Rightarrow> string option" where
  "first_text_of xs = (case filter (\<lambda>x. x \<noteq> None) xs of [] \<Rightarrow> None | x # _ \<Rightarrow> x)"

text \<open>Creating an allocation generates its id and checks the key and the two unique constraints.\<close>

definition create_allocation :: "env \<Rightarrow> allocation_row \<Rightarrow> unit tx" where
  "create_allocation env a =
     andThen (query allocations) (\<lambda>rows.
     andThen (require (list_all (\<lambda>r. al_withdrawalId r \<noteq> al_withdrawalId a \<or> (al_sequence r \<noteq> al_sequence a
          \<and> (al_sourceTransactionId a = None \<or> al_sourceTransactionId r \<noteq> al_sourceTransactionId a))) rows)
       unique_violation) (\<lambda>_.
     andThen (fresh_id env) (\<lambda>i.
     andThen (require (list_all (\<lambda>r. al_id r \<noteq> i) rows) unique_violation) (\<lambda>_.
     modify (\<lambda>s. s\<lparr>allocations := allocations s @ [a\<lparr>al_id := i\<rparr>]\<rparr>)))))"

definition carry_allocation :: "string \<Rightarrow> int \<Rightarrow> allocation_row" where
  "carry_allocation withdrawalId amount = \<lparr>al_withdrawalId = withdrawalId, al_amount = amount, al_currency = ''USD'',
     al_releasedAt = None, al_id = [], al_sourceType = ''CARRY_FORWARD'', al_sourceTransactionId = None,
     al_settlementId = None, al_orderId = None, al_sequence = 0, al_serviceType = None\<rparr>"

definition source_allocation :: "string \<Rightarrow> source_view \<Rightarrow> int \<Rightarrow> int \<Rightarrow> allocation_row" where
  "source_allocation withdrawalId v amount sequence =
     \<lparr>al_withdrawalId = withdrawalId, al_amount = amount, al_currency = ''USD'', al_releasedAt = None, al_id = [],
      al_sourceType = (if settlementSource v then ''SETTLEMENT_RELEASE'' else ''PUBLISHER_COMPENSATION''),
      al_sourceTransactionId = Some (t_id (sv_row v)),
      al_settlementId = (if settlementSource v then t_settlementId (sv_row v) else None),
      al_orderId = first_text_of [map_option s_orderId (sv_settlement v), map_option pc_orderId (sv_credit v), t_orderId (sv_row v)],
      al_sequence = sequence,
      al_serviceType = first_text_of [(case sv_settlement v of None \<Rightarrow> None | Some st \<Rightarrow> s_serviceType st), sv_creditOrderType v]\<rparr>"

text \<open>The loop over the sources, oldest first: what remains to be covered, and the next sequence number.\<close>

fun allocate_sources :: "env \<Rightarrow> string \<Rightarrow> source_view list \<Rightarrow> source_view list \<Rightarrow> int \<Rightarrow> int \<Rightarrow> int tx" where
  "allocate_sources env withdrawalId views [] remaining sequence = ret remaining"
| "allocate_sources env withdrawalId views (v # vs) remaining sequence =
     (if remaining \<le> 0 then ret remaining
      else if \<not> settlementSource v \<and> \<not> compensationSource v then allocate_sources env withdrawalId views vs remaining sequence
      else if sourceAvailable views v \<le> 0 then allocate_sources env withdrawalId views vs remaining sequence
      else let taken = min (sourceAvailable views v) remaining
           in andThen (create_allocation env (source_allocation withdrawalId v taken sequence)) (\<lambda>_.
              allocate_sources env withdrawalId views vs (remaining - taken) (sequence + 1)))"

definition carry_used :: "balance_row \<Rightarrow> int \<Rightarrow> int" where
  "carry_used b amount = (let carryAvailable = b_allocationCarryForward b - b_allocationCarryForwardUsed b
     in if 0 < carryAvailable then min carryAvailable amount else 0)"

definition allocateWithdrawalSources :: "env \<Rightarrow> string \<Rightarrow> string \<Rightarrow> int \<Rightarrow> balance_row \<Rightarrow> int tx" where
  "allocateWithdrawalSources env withdrawalId publisherId amount b =
     (let carryUsed = carry_used b amount; sequence = (if 0 < carryUsed then 1 else 0)
      in andThen (if 0 < carryUsed then create_allocation env (carry_allocation withdrawalId carryUsed) else ret ()) (\<lambda>_.
         andThen (if 0 < amount - carryUsed then
             andThen (query (source_rows publisherId (b_allocationCutoverAt b))) (\<lambda>views.
             andThen (require (list_all (\<lambda>v. isSupportedMoneyCurrency (JText (t_currency (sv_row v)))) views)
               (coded_conflict ''WITHDRAWAL_SOURCE_CURRENCY_INVALID''
                 ''Publisher liability contains a non-USD source; Finance reconciliation is required'')) (\<lambda>_.
             allocate_sources env withdrawalId views views (amount - carryUsed) sequence))
           else ret (amount - carryUsed)) (\<lambda>remaining.
         andThen (require (\<not> 0 < remaining) (http_conflict
           ''Withdrawal source allocation does not match the publisher balance. Finance reconciliation is required.'')) (\<lambda>_.
         ret carryUsed))))"

section \<open>Requesting a withdrawal\<close>

text \<open>The amount is a number of the request: its decimal value, \<open>None\<close> when it is not finite.\<close>

record withdrawal_request =
  rq_publisherId :: string
  rq_amount :: "int option"
  rq_method :: string
  rq_userId :: string
  rq_idempotencyKey :: string
  rq_payoutMethodId :: string

definition key_char :: "char \<Rightarrow> bool" where
  "key_char c \<longleftrightarrow> is_digit c \<or> (65 \<le> char_code c \<and> char_code c \<le> 90) \<or> (97 \<le> char_code c \<and> char_code c \<le> 122)
     \<or> c = CHR ''_'' \<or> c = CHR ''-''"

definition requested_amount :: "withdrawal_request \<Rightarrow> int" where
  "requested_amount rq = (case rq_amount rq of None \<Rightarrow> 0 | Some a \<Rightarrow> a)"

definition validRequest :: "withdrawal_request \<Rightarrow> unit tx" where
  "validRequest rq =
     (let a = requested_amount rq
      in andThen (require (\<not> (rq_idempotencyKey rq = [] \<or> length (rq_idempotencyKey rq) > 191
             \<or> \<not> list_all key_char (rq_idempotencyKey rq)))
           (bad_request ''A valid withdrawal idempotency key is required'')) (\<lambda>_.
         andThen (require (\<not> (rq_amount rq = None \<or> a < MONEY_FACTOR \<or> a > 1000000 * MONEY_FACTOR
             \<or> a * 100 mod MONEY_FACTOR \<noteq> 0))
           (bad_request ''Withdrawal amount must be between 1 and 1,000,000 with no more than two decimal places'')) (\<lambda>_.
         require (rq_payoutMethodId rq \<noteq> [])
           (bad_request ''Select an active payout method before requesting a withdrawal''))))"

definition find_request :: "withdrawal_request \<Rightarrow> db \<Rightarrow> withdrawal_row option" where
  "find_request rq s = find (\<lambda>w. wd_publisherId w = rq_publisherId rq
     \<and> wd_idempotencyKey w = Some (rq_idempotencyKey rq)) (withdrawals s)"

definition assertMatchingWithdrawalRequest :: "withdrawal_request \<Rightarrow> withdrawal_row \<Rightarrow> unit tx" where
  "assertMatchingWithdrawalRequest rq existing =
     require (\<not> (wd_amount existing \<noteq> requested_amount rq \<or> wd_method existing \<noteq> rq_method rq
          \<or> wd_payoutMethodId existing \<noteq> Some (rq_payoutMethodId rq)
          \<or> \<not> isSupportedMoneyCurrency (JText (wd_currency existing)) \<or> wd_requestedBy existing \<noteq> Some (rq_userId rq)))
       (http_conflict ''This withdrawal request key was already used for different payout details'')"

definition STRIPE_INITIAL_FEE_POLICY_VERSION :: string where
  "STRIPE_INITIAL_FEE_POLICY_VERSION = ''stripe-initial-v1''"

fun tier_of :: "string \<Rightarrow> publisher_tier" where
  "tier_of t = (if t = ''VERIFIED'' then T_VERIFIED else if t = ''TRUSTED'' then T_TRUSTED else T_NEW)"

text \<open>The moment the hold of a publisher ends, in milliseconds, and the days of the hold.\<close>

definition hold_days :: "(string \<Rightarrow> rat option) \<Rightarrow> env \<Rightarrow> publisher_row \<Rightarrow> rat" where
  "hold_days to_number env p = fst (getWithdrawalHoldDays to_number (tier_of (p_tier p))
     (env_process env ''WITHDRAWAL_HOLD_DAYS'') \<lparr>warnedInvalidOverrides = Map.empty, warn_log = []\<rparr>)"

definition hold_ends :: "(string \<Rightarrow> rat option) \<Rightarrow> env \<Rightarrow> publisher_row \<Rightarrow> int" where
  "hold_ends to_number env p = \<lfloor>of_int (env_now env) + hold_days to_number env p * 86400000\<rfloor>"

text \<open>The eligibility checks of the transaction: publisher, requester, payout method and balance.\<close>

definition eligibleRequest :: "env \<Rightarrow> withdrawal_request \<Rightarrow> (publisher_row \<times> balance_row) tx" where
  "eligibleRequest env rq =
     andThen (query (find_publisher (rq_publisherId rq))) (\<lambda>found.
     case found of None \<Rightarrow> throw (not_found ''Publisher not found'') | Some p \<Rightarrow>
     andThen (query (active_owner (rq_userId rq) (rq_publisherId rq))) (\<lambda>requester.
     andThen (require requester (forbidden ''Publisher owner eligibility changed; review and retry'')) (\<lambda>_.
     andThen (query (\<lambda>s. find (\<lambda>m. m_id m = rq_payoutMethodId rq \<and> m_publisherId m = rq_publisherId rq) (payout_methods s)))
       (\<lambda>method_row.
     case method_row of
       None \<Rightarrow> throw (bad_request ''Payout method no longer exists; review your payout settings and retry'')
     | Some m \<Rightarrow>
     andThen (require (m_type m = rq_method rq)
       (bad_request ''Payout method type changed or does not match the request'')) (\<lambda>_.
     andThen (assertPayoutMethodExecutable env m (rq_publisherId rq)) (\<lambda>_.
     andThen (query (find_balance (rq_publisherId rq))) (\<lambda>balance.
     case balance of None \<Rightarrow> throw (not_found ''Publisher balance not found'') | Some b \<Rightarrow>
     andThen (assertUsd (b_currency b) ''PUBLISHER_BALANCE_CURRENCY_INVALID''
       ''Publisher balance is not denominated in canonical USD; Finance reconciliation is required'') (\<lambda>_.
     andThen (require (\<not> b_withdrawableBalance b < requested_amount rq)
       (bad_request (''Insufficient withdrawable balance. Available: '' @ decimalString (b_withdrawableBalance b)
          @ '', requested: '' @ decimalString (requested_amount rq)))) (\<lambda>_.
     andThen (require (\<not> 0 < b_debtBalance b)
       (bad_request (''Cannot withdraw while outstanding debt of '' @ to_fixed2 (b_debtBalance b)
          @ '' exists. Repay through future settlements.''))) (\<lambda>_.
     ret (p, b)))))))))))"

text \<open>The row created, with the unique constraints of its table.\<close>

definition requested_row :: "(string \<Rightarrow> rat option) \<Rightarrow> env \<Rightarrow> withdrawal_request \<Rightarrow> string \<Rightarrow> publisher_row \<Rightarrow> string \<Rightarrow> withdrawal_row" where
  "requested_row to_number env rq publicReference p i =
     \<lparr>wd_id = i, wd_publisherId = rq_publisherId rq, wd_amount = requested_amount rq, wd_currency = ''USD'',
      wd_publicReference = Some publicReference, wd_netAmount = Some (requested_amount rq), wd_status = ''PENDING'',
      wd_requestedBy = Some (rq_userId rq), wd_approvedBy = None, wd_approvedAt = None, wd_version = 0, wd_payoutFee = 0,
      wd_feePolicyVersion = Some STRIPE_INITIAL_FEE_POLICY_VERSION, wd_method = rq_method rq,
      wd_availableAt = Some (hold_ends to_number env p), wd_idempotencyKey = Some (rq_idempotencyKey rq),
      wd_payoutMethodId = Some (rq_payoutMethodId rq), wd_rejectedBy = None, wd_rejectedAt = None\<rparr>"

definition create_withdrawal :: "env \<Rightarrow> (string \<Rightarrow> withdrawal_row) \<Rightarrow> withdrawal_row tx" where
  "create_withdrawal env row =
     andThen (fresh_id env) (\<lambda>i.
     andThen (query withdrawals) (\<lambda>rows.
     andThen (require (list_all (\<lambda>r. wd_id r \<noteq> i
          \<and> (wd_publicReference r = None \<or> wd_publicReference r \<noteq> wd_publicReference (row i))
          \<and> (wd_publisherId r \<noteq> wd_publisherId (row i) \<or> wd_idempotencyKey r = None
             \<or> wd_idempotencyKey r \<noteq> wd_idempotencyKey (row i))) rows) unique_violation) (\<lambda>_.
     andThen (modify (\<lambda>s. s\<lparr>withdrawals := withdrawals s @ [row i]\<rparr>)) (\<lambda>_. ret (row i)))))"

definition withdrawal_message ::
    "string \<Rightarrow> string \<Rightarrow> string \<Rightarrow> string \<Rightarrow> string \<Rightarrow> string \<Rightarrow> string list \<Rightarrow> string option \<Rightarrow> outbox_request" where
  "withdrawal_message kind withdrawalId organizationId title message dedupKey recipients actor =
     \<lparr>ob_type = kind, ob_aggregateType = ''Withdrawal'', ob_aggregateId = withdrawalId, ob_organizationId = Some organizationId,
      ob_title = title, ob_message = message, ob_actionPath = ''/dashboard/withdrawals'', ob_payload = NullJ,
      ob_dedupKey = dedupKey, ob_recipientUserIds = recipients, ob_actorUserId = actor\<rparr>"

definition balance_violation :: "balance_row \<Rightarrow> int \<Rightarrow> bool" where
  "balance_violation b withdrawable \<longleftrightarrow> withdrawable < 0 \<or> b_debtBalance b < 0"

text \<open>The audit row of a request, and the message to the members of the publisher.\<close>

definition announceRequest ::
    "(string \<Rightarrow> rat option) \<Rightarrow> env \<Rightarrow> bool \<Rightarrow> withdrawal_request \<Rightarrow> string \<Rightarrow> publisher_row \<Rightarrow> withdrawal_row \<Rightarrow> unit tx" where
  "announceRequest to_number env communications rq publicReference p created =
     (let amount = requested_amount rq; publisherId = rq_publisherId rq
      in andThen (audit_log env ''WITHDRAWAL_REQUESTED'' ''Withdrawal'' (wd_id created)
           [(''publisherId'', TextJ publisherId), (''amount'', DecJ amount), (''method'', TextJ (rq_method rq)),
            (''publicReference'', TextJ publicReference), (''payoutFee'', NumJ 0), (''netAmount'', DecJ amount),
            (''feePolicyVersion'', TextJ STRIPE_INITIAL_FEE_POLICY_VERSION),
            (''holdDays'', DecJ (number_amount (hold_days to_number env p))),
            (''availableAt'', TextJ (iso_text (hold_ends to_number env p)))]
           (Some (rq_userId rq)) (Some (p_organizationId p))) (\<lambda>_.
         if \<not> communications then ret ()
         else andThen (query (publisherRecipients (Some publisherId) False)) (\<lambda>recipients.
              andThen (recordCommunicationOutbox env (withdrawal_message ''PAYOUT_WITHDRAWAL_REQUESTED'' (wd_id created)
                (p_organizationId p) ''Withdrawal requested''
                (''Withdrawal of '' @ decimalString (wd_amount created) @ '' '' @ wd_currency created
                  @ '' was requested and is now under review.'')
                (''withdrawal:'' @ wd_id created @ '':withdrawal_requested'') recipients (Some (rq_userId rq)))) (\<lambda>_. ret ()))))"

definition reserveRequested :: "(string \<Rightarrow> rat option) \<Rightarrow> env \<Rightarrow> bool \<Rightarrow> withdrawal_request \<Rightarrow> string \<Rightarrow> publisher_row \<Rightarrow> balance_row \<Rightarrow> withdrawal_row tx" where
  "reserveRequested to_number env communications rq publicReference p b =
     (let amount = requested_amount rq; publisherId = rq_publisherId rq
      in andThen (create_withdrawal env (requested_row to_number env rq publicReference p)) (\<lambda>created.
         andThen (allocateWithdrawalSources env (wd_id created) publisherId amount b) (\<lambda>carryUsed.
         andThen (update_balances (\<lambda>r. b_publisherId r = publisherId \<and> b_version r = b_version b)
           (\<lambda>r. r\<lparr>b_withdrawableBalance := b_withdrawableBalance r - amount,
                  b_allocationCarryForwardUsed := b_allocationCarryForwardUsed r + carryUsed,
                  b_version := b_version r + 1\<rparr>)) (\<lambda>updated.
         andThen (require (updated \<noteq> 0)
           (http_conflict ''Publisher balance was modified by another request. Retry.'')) (\<lambda>_.
         andThen (require (\<not> balance_violation b (b_withdrawableBalance b - amount))
           (Failure ''PublisherBalanceInvariantError'' ''Publisher balance invariant failed in requestWithdrawal'')) (\<lambda>_.
         andThen (create_transaction env (new_transaction\<lparr>t_amount := - amount, t_type := ''WITHDRAWAL'', t_currency := ''USD'',
           t_publisherId := Some publisherId, t_reference := Some (''withdrawal-'' @ wd_id created),
           t_description := Some (''Withdrawal '' @ publicReference @ '' of '' @ decimalString amount @ '' USD via '' @ rq_method rq)\<rparr>)) (\<lambda>_.
         andThen (announceRequest to_number env communications rq publicReference p created) (\<lambda>_.
         ret created))))))))"

definition requestWithdrawalTx :: "(string \<Rightarrow> rat option) \<Rightarrow> env \<Rightarrow> bool \<Rightarrow> withdrawal_request \<Rightarrow> string \<Rightarrow> withdrawal_row tx" where
  "requestWithdrawalTx to_number env communications rq publicReference =
     andThen (query (find_request rq)) (\<lambda>existing.
     case existing of
       Some w \<Rightarrow> andThen (assertMatchingWithdrawalRequest rq w) (\<lambda>_. ret w)
     | None \<Rightarrow>
         andThen (eligibleRequest env rq) (\<lambda>(p, b).
         reserveRequested to_number env communications rq publicReference p b))"

definition PAYOUT_SERVICE_ATTEMPTS :: nat where
  "PAYOUT_SERVICE_ATTEMPTS = 7"

definition runPayoutSerializable :: "weather \<Rightarrow> 'a tx \<Rightarrow> db \<Rightarrow> (failure + 'a) \<times> db" where
  "runPayoutSerializable w operation s =
     (case retry_loop isRetryablePrismaTransactionError w operation PAYOUT_SERVICE_ATTEMPTS 1 s of
        (Inl e, s') \<Rightarrow> (Inl (if isRetryablePrismaTransactionError e
          then http_conflict ''Financial state changed concurrently. Retry the operation.'' else e), s')
      | r \<Rightarrow> r)"

text \<open>What is checked before the transaction: a request already committed is answered from its row.\<close>

definition precheckRequest :: "env \<Rightarrow> withdrawal_request \<Rightarrow> withdrawal_row option tx" where
  "precheckRequest env rq =
     andThen (assertPublisherMember (rq_userId rq) (rq_publisherId rq)) (\<lambda>_.
     andThen (validRequest rq) (\<lambda>_.
     andThen (query (find_request rq)) (\<lambda>committed.
     case committed of
       Some x \<Rightarrow> andThen (assertMatchingWithdrawalRequest rq x) (\<lambda>_. ret (Some x))
     | None \<Rightarrow>
         andThen (require (isCertifiedWithdrawalMethodType (JText (rq_method rq)))
           (coded_request ''PAYOUT_METHOD_NOT_EXECUTABLE''
             ''Unsupported payout method: this route is not certified for new withdrawals. Select a supported payout method.'')) (\<lambda>_.
         andThen (assertApiFinanceOperationAllowed env F_NEW_LIABILITY) (\<lambda>_. ret None)))))"

definition requestWithdrawal ::
    "(string \<Rightarrow> rat option) \<Rightarrow> env \<Rightarrow> bool \<Rightarrow> weather \<Rightarrow> withdrawal_request \<Rightarrow> string \<Rightarrow> db \<Rightarrow> (failure + withdrawal_row) \<times> db" where
  "requestWithdrawal to_number env communications w rq publicReference s =
     (case precheckRequest env rq s of
        Inl e \<Rightarrow> (Inl e, s)
      | Inr (Some x, _) \<Rightarrow> (Inr x, s)
      | Inr (None, _) \<Rightarrow>
          (case runPayoutSerializable w (requestWithdrawalTx to_number env communications rq publicReference) s of
             (Inr x, s') \<Rightarrow> (Inr x, s')
           | (Inl e, s') \<Rightarrow>
               if \<not> isPrismaUniqueConstraintError e then (Inl e, s')
               else (case find_request rq s' of
                       None \<Rightarrow> (Inl e, s')
                     | Some x \<Rightarrow> (case assertMatchingWithdrawalRequest rq x s' of Inl f \<Rightarrow> (Inl f, s') | Inr _ \<Rightarrow> (Inr x, s')))))"

section \<open>Approving a withdrawal\<close>

definition eligible_staff :: "string \<Rightarrow> db \<Rightarrow> bool" where
  "eligible_staff userId s \<longleftrightarrow> list_ex (\<lambda>m. st_userId m = userId \<and> st_role m \<in> {''FINANCE'', ''SUPER_ADMIN''}
     \<and> st_userType m = ''STAFF'' \<and> \<not> st_banned m) (staff s)"

definition owner_memberships :: "string \<Rightarrow> db \<Rightarrow> member_row list" where
  "owner_memberships publisherId s =
     filter (\<lambda>m. mb_groupId m = publisherId \<and> mb_role m = ''PUBLISHER_OWNER'') (publisher_members s)"

definition acting_owner :: "member_row \<Rightarrow> bool" where
  "acting_owner m \<longleftrightarrow> \<not> mb_banned m \<and> mb_userType m = ''PUBLISHER''"

definition withdrawal_allocations :: "string \<Rightarrow> db \<Rightarrow> allocation_row list" where
  "withdrawal_allocations i s = filter (\<lambda>a. al_withdrawalId a = i) (allocations s)"

definition reservation_valid :: "withdrawal_row \<Rightarrow> db \<Rightarrow> bool" where
  "reservation_valid w s \<longleftrightarrow> (let rows = withdrawal_allocations (wd_id w) s
     in rows \<noteq> [] \<and> list_all (\<lambda>a. al_releasedAt a = None \<and> 0 < al_amount a \<and> al_currency a = ''USD'') rows
        \<and> sum_list (map al_amount rows) = wd_amount w)"

definition withdrawal_method :: "withdrawal_row \<Rightarrow> db \<Rightarrow> payout_method_row option" where
  "withdrawal_method w s = (if \<not> truthy (wd_payoutMethodId w) then None
     else find (\<lambda>m. Some (m_id m) = wd_payoutMethodId w \<and> m_publisherId m = wd_publisherId w \<and> m_isActive m
            \<and> m_type m = wd_method w) (payout_methods s))"

text \<open>Why an approval is blocked: the reason, in the order the code asks.\<close>

definition approval_block :: "env \<Rightarrow> string \<Rightarrow> withdrawal_row \<Rightarrow> db \<Rightarrow> string option" where
  "approval_block env approvedBy w s =
     (let owners = owner_memberships (wd_publisherId w) s
      in if wd_status w \<noteq> ''PENDING'' then Some ''NOT_PENDING''
         else if \<not> isSupportedMoneyCurrency (JText (wd_currency w)) then Some ''CURRENCY_INVALID''
         else if \<not> eligible_staff approvedBy s then Some ''APPROVER_INELIGIBLE''
         else if (case wd_availableAt w of None \<Rightarrow> False | Some t \<Rightarrow> t > env_now env) then Some ''TIER_HOLD_ACTIVE''
         else if owners = [] then Some ''MEMBERSHIP_REVOKED''
         else if list_all mb_banned owners then Some ''PUBLISHER_BANNED''
         else if \<not> list_ex acting_owner owners then Some ''MEMBERSHIP_INELIGIBLE''
         else if \<not> truthy (wd_requestedBy w) then Some ''REQUESTER_PROVENANCE_MISSING''
         else if \<not> list_ex (\<lambda>m. Some (mb_userId m) = wd_requestedBy w \<and> acting_owner m) owners then Some ''REQUESTER_INELIGIBLE''
         else if \<not> reservation_valid w s then Some ''RESERVATION_INVALID''
         else case withdrawal_method w s of
           None \<Rightarrow> Some ''PAYOUT_METHOD_INVALID''
         | Some m \<Rightarrow>
             if \<not> pe_executable (method_eligibility env (wd_publisherId w) m s) then Some ''PAYOUT_METHOD_INVALID''
             else if list_ex (\<lambda>x. px_withdrawalId x = wd_id w) (executions s) then Some ''ALREADY_EXECUTING''
             else None)"

definition APPROVAL_BLOCK_REASONS :: "(string \<times> string) list" where
  "APPROVAL_BLOCK_REASONS =
     [(''NOT_PENDING'', ''Withdrawal is no longer pending''),
      (''APPROVER_INELIGIBLE'', ''Withdrawal approval requires a current unbanned Finance or Super Admin staff member''),
      (''TIER_HOLD_ACTIVE'', ''Withdrawal tier hold has not elapsed''),
      (''PUBLISHER_BANNED'', ''Every publisher owner is banned''),
      (''MEMBERSHIP_REVOKED'', ''Publisher owner membership no longer exists''),
      (''MEMBERSHIP_INELIGIBLE'', ''No eligible publisher owner remains''),
      (''REQUESTER_PROVENANCE_MISSING'', ''Withdrawal requester provenance is missing and requires finance review''),
      (''REQUESTER_INELIGIBLE'', ''The withdrawal requester is no longer an eligible publisher owner''),
      (''RESERVATION_INVALID'', ''Withdrawal reservation no longer exactly covers the requested amount''),
      (''CURRENCY_INVALID'', ''Withdrawal or its reservation is not denominated in canonical USD''),
      (''PAYOUT_METHOD_INVALID'', ''Payout method is missing, inactive, or does not match the withdrawal''),
      (''ALREADY_EXECUTING'', ''A payout execution is already in flight'')]"

definition block_message :: "string \<Rightarrow> string" where
  "block_message reason = (case map_of APPROVAL_BLOCK_REASONS reason of None \<Rightarrow> [] | Some m \<Rightarrow> m)"

datatype approval_outcome = Blocked string | Approved withdrawal_row "string option"

text \<open>
  A communication of a withdrawal to its publisher: its event type, and its title out of the type -
  the first word, then the rest in lower case.
\<close>

definition PAYOUT_EVENT_TYPES :: "(string \<times> string) list" where
  "PAYOUT_EVENT_TYPES =
     [(''WITHDRAWAL_REQUESTED'', ''PAYOUT_WITHDRAWAL_REQUESTED''), (''WITHDRAWAL_APPROVED'', ''PAYOUT_WITHDRAWAL_APPROVED''),
      (''WITHDRAWAL_PROCESSING'', ''PAYOUT_WITHDRAWAL_PROCESSING''), (''WITHDRAWAL_COMPLETED'', ''PAYOUT_WITHDRAWAL_COMPLETED''),
      (''WITHDRAWAL_REJECTED'', ''PAYOUT_WITHDRAWAL_FAILED''), (''WITHDRAWAL_FAILED'', ''PAYOUT_WITHDRAWAL_FAILED''),
      (''WITHDRAWAL_REVERSED'', ''PAYOUT_WITHDRAWAL_REVERSED'')]"

definition event_title :: "string \<Rightarrow> string" where
  "event_title kind =
     (let spaced = map (\<lambda>c. if c = CHR ''_'' then CHR '' '' else c) kind; low = to_lower spaced
      in case low of [] \<Rightarrow> [] | c # cs \<Rightarrow> upper_char c # cs)"

definition recordPublisherCommunication ::
    "env \<Rightarrow> bool \<Rightarrow> string \<Rightarrow> string \<Rightarrow> string \<Rightarrow> string \<Rightarrow> string \<Rightarrow> string option tx" where
  "recordPublisherCommunication env communications publisherId organizationId withdrawalId kind message =
     (if \<not> communications then ret None
      else case map_of PAYOUT_EVENT_TYPES kind of
        None \<Rightarrow> ret None
      | Some eventType \<Rightarrow>
          andThen (query (publisherRecipients (Some publisherId) False)) (\<lambda>recipients.
          andThen (recordCommunicationOutbox env (withdrawal_message eventType withdrawalId organizationId (event_title kind) message
            (''withdrawal:'' @ withdrawalId @ '':'' @ to_lower kind) recipients None)) (\<lambda>i. ret (Some i))))"

text \<open>The organization of a publisher; the relation is a foreign key.\<close>

definition organization_of :: "string \<Rightarrow> db \<Rightarrow> string" where
  "organization_of publisherId s = (case find_publisher publisherId s of None \<Rightarrow> [] | Some p \<Rightarrow> p_organizationId p)"

definition blockApproval :: "env \<Rightarrow> string \<Rightarrow> withdrawal_row \<Rightarrow> string \<Rightarrow> string \<Rightarrow> approval_outcome tx" where
  "blockApproval env approvedBy w organizationId reason =
     andThen (audit_log env ''WITHDRAWAL_APPROVAL_BLOCKED'' ''Withdrawal'' (wd_id w)
       [(''withdrawalId'', TextJ (wd_id w)), (''publisherId'', TextJ (wd_publisherId w)), (''reason'', TextJ reason),
        (''message'', TextJ (block_message reason)), (''amount'', DecJ (wd_amount w))]
       (Some approvedBy) (Some organizationId)) (\<lambda>_. ret (Blocked reason))"

definition approveWithdrawalTx :: "env \<Rightarrow> bool \<Rightarrow> string \<Rightarrow> string \<Rightarrow> approval_outcome tx" where
  "approveWithdrawalTx env communications withdrawalId approvedBy =
     andThen (query (find_withdrawal withdrawalId)) (\<lambda>found.
     case found of None \<Rightarrow> throw (not_found ''Withdrawal not found'') | Some w \<Rightarrow>
     andThen (query (organization_of (wd_publisherId w))) (\<lambda>organizationId.
     andThen (query (approval_block env approvedBy w)) (\<lambda>blocked.
     case blocked of Some reason \<Rightarrow> blockApproval env approvedBy w organizationId reason | None \<Rightarrow>
     andThen (update_withdrawals (\<lambda>r. wd_id r = withdrawalId \<and> wd_status r = ''PENDING'' \<and> wd_version r = wd_version w)
       (\<lambda>r. r\<lparr>wd_status := ''APPROVED'', wd_approvedBy := Some approvedBy, wd_approvedAt := Some (env_now env),
              wd_version := wd_version r + 1\<rparr>)) (\<lambda>transitioned.
     if transitioned = 0 then blockApproval env approvedBy w organizationId ''NOT_PENDING''
     else
       andThen (query (find_withdrawal withdrawalId)) (\<lambda>fresh.
       andThen (found_or_throw fresh) (\<lambda>updated.
       andThen (audit_log env ''WITHDRAWAL_APPROVED'' ''Withdrawal'' withdrawalId
         [(''publisherId'', TextJ (wd_publisherId w)), (''amount'', DecJ (wd_amount w))]
         (Some approvedBy) (Some organizationId)) (\<lambda>_.
       andThen (recordPublisherCommunication env communications (wd_publisherId w) organizationId withdrawalId
         ''WITHDRAWAL_APPROVED'' (''Withdrawal of '' @ decimalString (wd_amount w) @ '' has been approved.'')) (\<lambda>eventId.
       ret (Approved updated eventId)))))))))"

definition approveWithdrawal ::
    "env \<Rightarrow> bool \<Rightarrow> weather \<Rightarrow> string \<Rightarrow> string \<Rightarrow> db \<Rightarrow> (failure + withdrawal_row) \<times> db" where
  "approveWithdrawal env communications w withdrawalId approvedBy s =
     (case assertApiFinanceOperationAllowed env F_OPERATOR_DECISION s of
        Inl e \<Rightarrow> (Inl e, s)
      | Inr _ \<Rightarrow>
          (case runPayoutSerializable w (approveWithdrawalTx env communications withdrawalId approvedBy) s of
             (Inl e, s') \<Rightarrow> (Inl e, s')
           | (Inr (Blocked reason), s') \<Rightarrow> (Inl (coded_request reason (block_message reason)), s')
           | (Inr (Approved updated eventId), s') \<Rightarrow> (Inr updated, s')))"

section \<open>Rejecting or abandoning a withdrawal\<close>

definition update_allocations :: "(allocation_row \<Rightarrow> bool) \<Rightarrow> (allocation_row \<Rightarrow> allocation_row) \<Rightarrow> nat tx" where
  "update_allocations p f s = Inr (count_where p (allocations s), s\<lparr>allocations := update_where p f (allocations s)\<rparr>)"

text \<open>The release returns how much of the carry-forward comes back.\<close>

definition releaseWithdrawalSources :: "env \<Rightarrow> string \<Rightarrow> int \<Rightarrow> string \<Rightarrow> int tx" where
  "releaseWithdrawalSources env withdrawalId expectedAmount expectedCurrency =
     andThen (assertUsd expectedCurrency ''WITHDRAWAL_CURRENCY_INVALID'' ''Withdrawal is not denominated in canonical USD'') (\<lambda>_.
     andThen (query (\<lambda>s. filter (\<lambda>a. al_releasedAt a = None) (withdrawal_allocations withdrawalId s))) (\<lambda>active.
     andThen (require (\<not> (active = [] \<or> sum_list (map al_amount active) \<noteq> expectedAmount
          \<or> list_ex (\<lambda>a. al_amount a \<le> 0 \<or> al_currency a \<noteq> ''USD'') active))
       (http_conflict ''Withdrawal allocations do not exactly cover the reserved amount'')) (\<lambda>_.
     andThen (update_allocations (\<lambda>a. al_id a \<in> al_id ` set active \<and> al_releasedAt a = None)
       (\<lambda>a. a\<lparr>al_releasedAt := Some (env_now env)\<rparr>)) (\<lambda>released.
     andThen (require (released = length active)
       (http_conflict ''Withdrawal allocation release lost a concurrent race'')) (\<lambda>_.
     ret (sum_list (map al_amount (filter (\<lambda>a. al_sourceType a = ''CARRY_FORWARD'') active))))))))"

definition unsafe_execution :: "execution_row \<Rightarrow> bool" where
  "unsafe_execution x \<longleftrightarrow> px_status x \<noteq> ''CANCELLED'' \<or> px_stage x \<noteq> ''PRE_PROVIDER_ABORTED''
     \<or> px_cancellationSource x \<noteq> Some ''PRE_PROVIDER_ABORT'' \<or> px_providerExecutionId x \<noteq> None
     \<or> px_providerTransferId x \<noteq> None \<or> px_providerPayoutId x \<noteq> None \<or> px_acceptedReference x \<noteq> None
     \<or> px_bankTraceReference x \<noteq> None"

definition withdrawal_executions :: "string \<Rightarrow> db \<Rightarrow> execution_row list" where
  "withdrawal_executions i s = filter (\<lambda>x. px_withdrawalId x = i) (executions s)"

definition claim_count :: "string \<Rightarrow> db \<Rightarrow> nat" where
  "claim_count i s = count_where (\<lambda>c. list_ex (\<lambda>x. px_id x = xc_executionId c) (withdrawal_executions i s)) (execution_claims s)"

text \<open>The checks: the withdrawal, the rejector, and a history that has not reached a provider.\<close>

definition rejectable :: "string \<Rightarrow> string \<Rightarrow> string \<Rightarrow> (withdrawal_row \<times> balance_row) tx" where
  "rejectable withdrawalId rejectedBy expectedStatus =
     andThen (query (find_withdrawal withdrawalId)) (\<lambda>found.
     case found of None \<Rightarrow> throw (not_found ''Withdrawal not found'') | Some w \<Rightarrow>
     andThen (require (wd_status w = expectedStatus) (http_conflict (if expectedStatus = ''PENDING''
       then ''Only pending withdrawals can be rejected''
       else ''Only approved withdrawals can use safe pre-provider abandonment''))) (\<lambda>_.
     andThen (assertUsd (wd_currency w) ''WITHDRAWAL_CURRENCY_INVALID'' ''Withdrawal is not denominated in canonical USD'') (\<lambda>_.
     andThen (query (eligible_staff rejectedBy)) (\<lambda>eligible.
     andThen (require eligible (CodedFailure ''ForbiddenException'' ''WITHDRAWAL_REJECTOR_INELIGIBLE''
       ''Withdrawal rejection requires a current unbanned Finance or Super Admin staff member'')) (\<lambda>_.
     andThen (query (withdrawal_executions withdrawalId)) (\<lambda>history.
     andThen (query (claim_count withdrawalId)) (\<lambda>claims.
     andThen (require (\<not> (expectedStatus = ''PENDING'' \<and> history \<noteq> []))
       (http_conflict ''A withdrawal with payout execution history cannot be rejected'')) (\<lambda>_.
     andThen (require (\<not> (expectedStatus = ''APPROVED'' \<and> (claims \<noteq> 0 \<or> list_ex unsafe_execution history)))
       (coded_conflict ''WITHDRAWAL_ABANDONMENT_NOT_PROVABLY_PRE_PROVIDER''
         ''Approved withdrawal abandonment requires claim-free pre-provider-aborted execution history'')) (\<lambda>_.
     andThen (query (find_balance (wd_publisherId w))) (\<lambda>balance.
     case balance of
       None \<Rightarrow> throw (http_conflict ''Publisher balance is missing; rejection cannot restore funds'')
     | Some b \<Rightarrow>
     andThen (assertUsd (b_currency b) ''PUBLISHER_BALANCE_CURRENCY_INVALID''
       ''Publisher balance is not denominated in canonical USD; rejection cannot restore funds'') (\<lambda>_.
     ret (w, b))))))))))))"

definition restoreFunds :: "env \<Rightarrow> string \<Rightarrow> string \<Rightarrow> withdrawal_row \<Rightarrow> balance_row \<Rightarrow> unit tx" where
  "restoreFunds env withdrawalId expectedStatus w b =
     andThen (releaseWithdrawalSources env withdrawalId (wd_amount w) (wd_currency w)) (\<lambda>releasedCarry.
     andThen (update_balances (\<lambda>r. b_publisherId r = wd_publisherId w \<and> b_version r = b_version b)
       (\<lambda>r. r\<lparr>b_withdrawableBalance := b_withdrawableBalance r + wd_amount w,
              b_allocationCarryForwardUsed := b_allocationCarryForwardUsed r - releasedCarry,
              b_version := b_version r + 1\<rparr>)) (\<lambda>restored.
     andThen (require (restored = 1) (http_conflict ''Publisher balance changed during rejection'')) (\<lambda>_.
     andThen (create_transaction env (new_transaction\<lparr>t_amount := wd_amount w, t_type := ''WITHDRAWAL_REVERSAL'',
       t_currency := ''USD'', t_publisherId := Some (wd_publisherId w),
       t_reference := Some (''withdrawal-reject-'' @ withdrawalId),
       t_description := Some (''Withdrawal '' @ withdrawalId @ '' rejected '' @ em_dash @ '' funds restored'')\<rparr>)) (\<lambda>_.
     ret ()))))"

definition rejectOrAbandonTx :: "env \<Rightarrow> bool \<Rightarrow> string \<Rightarrow> string \<Rightarrow> string \<Rightarrow> string \<Rightarrow> (withdrawal_row \<times> string option) tx" where
  "rejectOrAbandonTx env communications withdrawalId rejectedBy normalizedReason expectedStatus =
     andThen (rejectable withdrawalId rejectedBy expectedStatus) (\<lambda>(w, b).
     andThen (query (organization_of (wd_publisherId w))) (\<lambda>organizationId.
     andThen (update_withdrawals
       (\<lambda>r. wd_id r = withdrawalId \<and> wd_status r = expectedStatus \<and> wd_version r = wd_version w)
       (\<lambda>r. r\<lparr>wd_status := ''REJECTED'', wd_rejectedBy := Some rejectedBy, wd_rejectedAt := Some (env_now env),
              wd_version := wd_version r + 1\<rparr>)) (\<lambda>transitioned.
     andThen (require (transitioned = 1) (http_conflict ''Withdrawal changed while rejection was being recorded'')) (\<lambda>_.
     andThen (restoreFunds env withdrawalId expectedStatus w b) (\<lambda>_.
     andThen (audit_log env
       (if expectedStatus = ''APPROVED'' then ''WITHDRAWAL_PRE_PROVIDER_ABANDONED'' else ''WITHDRAWAL_REJECTED'')
       ''Withdrawal'' withdrawalId
       [(''publisherId'', TextJ (wd_publisherId w)), (''amount'', TextJ (decimalString (wd_amount w))),
        (''currency'', TextJ ''USD''), (''reason'', TextJ normalizedReason), (''rejectedAt'', TextJ (iso_text (env_now env))),
        (''decision'', TextJ (if expectedStatus = ''APPROVED'' then ''PRE_PROVIDER_ABANDONMENT'' else ''PENDING_REJECTION'')),
        (''preservedApproverUserId'', opt_json (wd_approvedBy w))]
       (Some rejectedBy) (Some organizationId)) (\<lambda>_.
     andThen (query (find_withdrawal withdrawalId)) (\<lambda>fresh.
     andThen (found_or_throw fresh) (\<lambda>updated.
     andThen (recordPublisherCommunication env communications (wd_publisherId w) organizationId withdrawalId
       ''WITHDRAWAL_REJECTED'' (''Withdrawal of '' @ decimalString (wd_amount w)
         @ '' was rejected. Contact support if you need more information.'')) (\<lambda>eventId.
     ret (updated, eventId))))))))))"

definition rejectOrAbandonWithdrawal ::
    "env \<Rightarrow> bool \<Rightarrow> weather \<Rightarrow> string \<Rightarrow> string \<Rightarrow> string option \<Rightarrow> string \<Rightarrow> db \<Rightarrow> (failure + withdrawal_row) \<times> db" where
  "rejectOrAbandonWithdrawal env communications w withdrawalId rejectedBy reason expectedStatus s =
     (let normalizedReason = (case reason of None \<Rightarrow> [] | Some r \<Rightarrow> trim r)
      in if length normalizedReason < 10 \<or> length normalizedReason > 2000
         then (Inl (bad_request ''A rejection reason between 10 and 2000 characters is required''), s)
         else case runPayoutSerializable w
             (rejectOrAbandonTx env communications withdrawalId rejectedBy normalizedReason expectedStatus) s of
           (Inl e, s') \<Rightarrow> (Inl e, s')
         | (Inr (updated, eventId), s') \<Rightarrow> (Inr updated, s'))"

definition rejectWithdrawal ::
    "env \<Rightarrow> bool \<Rightarrow> weather \<Rightarrow> string \<Rightarrow> string \<Rightarrow> string option \<Rightarrow> db \<Rightarrow> (failure + withdrawal_row) \<times> db" where
  "rejectWithdrawal env communications w withdrawalId rejectedBy reason s =
     (case assertApiFinanceOperationAllowed env F_OPERATOR_DECISION s of
        Inl e \<Rightarrow> (Inl e, s)
      | Inr _ \<Rightarrow> rejectOrAbandonWithdrawal env communications w withdrawalId rejectedBy reason ''PENDING'' s)"

definition abandonApprovedWithdrawal ::
    "env \<Rightarrow> bool \<Rightarrow> weather \<Rightarrow> string \<Rightarrow> string \<Rightarrow> string option \<Rightarrow> db \<Rightarrow> (failure + withdrawal_row) \<times> db" where
  "abandonApprovedWithdrawal env communications w withdrawalId rejectedBy reason s =
     (case assertApiFinanceOperationAllowed env F_OPERATOR_DECISION s of
        Inl e \<Rightarrow> (Inl e, s)
      | Inr _ \<Rightarrow> rejectOrAbandonWithdrawal env communications w withdrawalId rejectedBy reason ''APPROVED'' s)"

text \<open>The former shortcut from FAILED to REVERSED only reports what evidence it would need.\<close>

definition reverseFailedWithdrawal :: "string \<Rightarrow> string option \<Rightarrow> unit tx" where
  "reverseFailedWithdrawal withdrawalId reason =
     (let normalizedReason = (case reason of None \<Rightarrow> [] | Some r \<Rightarrow> trim r)
      in andThen (require (\<not> (length normalizedReason < 10 \<or> length normalizedReason > 2000))
           (bad_request ''A reversal reason between 10 and 2000 characters is required'')) (\<lambda>_.
         andThen (query (find_withdrawal withdrawalId)) (\<lambda>found.
         case found of
           None \<Rightarrow> throw (not_found ''Withdrawal not found'')
         | Some w \<Rightarrow> throw (coded_conflict ''PAYOUT_REVERSAL_EVIDENCE_REQUIRED''
             ''Automatic failed-withdrawal reversal is disabled. Durable provider-confirmed failure or cancellation evidence must be revalidated atomically before reserved funds can be restored.''))))"

end
