(* ===== verification/Order_Payment.thy ===== *)
theory Order_Payment
  imports Billing
begin

text \<open>
  The payment of a cart from the wallet (\<open>order-payment.service.ts\<close> of \<open>apps/api\<close>, with the
  compare-and-swap of \<open>order-transition-cas.ts\<close> and the rule of \<open>owner-or-creator.ts\<close>): the
  checks of the order, its items and the catalog, the re-price when the catalog has moved, and the
  capture that submits the order and takes the money.
\<close>

section \<open>Who may act, and the status swap\<close>

definition assertOwnerOrCreator :: "string \<Rightarrow> string \<Rightarrow> string option \<Rightarrow> string option \<Rightarrow> unit tx" where
  "assertOwnerOrCreator customerId actorUserId actorRole action =
     require (customerId = actorUserId \<or> actorRole = Some ''OWNER'')
       (forbidden (if truthy action
          then ''Only the order's creator or organization OWNER can '' @ (case action of None \<Rightarrow> [] | Some a \<Rightarrow> a)
          else ''Only the order's creator or organization OWNER can perform this action''))"

definition transitionOrderCas ::
    "string \<Rightarrow> int \<Rightarrow> string \<Rightarrow> string \<Rightarrow> (string \<times> string) option \<Rightarrow> (order_row \<Rightarrow> order_row) \<Rightarrow> order_row tx" where
  "transitionOrderCas orderId expectedVersion fromStatus toStatus payment patch =
     andThen (update_orders
       (\<lambda>r. o_id r = orderId \<and> o_version r = expectedVersion \<and> o_status r = fromStatus
          \<and> (case payment of None \<Rightarrow> True | Some (fromPayment, _) \<Rightarrow> o_paymentStatus r = fromPayment))
       (\<lambda>r. (patch r)\<lparr>o_status := toStatus,
          o_paymentStatus := (case payment of None \<Rightarrow> o_paymentStatus r | Some (_, toPayment) \<Rightarrow> toPayment),
          o_version := o_version r + 1\<rparr>)) (\<lambda>updated.
     andThen (require (updated = 1) (http_conflict ''Order was modified by another request. Retry.'')) (\<lambda>_.
     andThen (query (find_order orderId)) found_or_throw))"

section \<open>The command\<close>

text \<open>
  What the buyer confirmed: the version (\<open>None\<close> when it is no integer), the amount and the
  currency, as the request states them.
\<close>

record submit_command =
  sc_expectedVersion :: "int option"
  sc_expectedAmount :: jsval
  sc_expectedCurrency :: jsval

definition validateSubmitPaymentCommand :: "submit_command option \<Rightarrow> failure + string" where
  "validateSubmitPaymentCommand command =
     (let invalid = coded_request ''CHECKOUT_EVIDENCE_INVALID''
            ''Payment requires the exact canonical order version, USD amount, and currency that were reviewed''
      in case command of
        None \<Rightarrow> Inl invalid
      | Some c \<Rightarrow>
          (case (sc_expectedVersion c, normalizePositiveUsdMoney (sc_expectedAmount c)) of
             (Some v, Some amount) \<Rightarrow>
               if v < 0 \<or> v > 2147483647 \<or> sc_expectedAmount c \<noteq> JText amount
                  \<or> \<not> isSupportedMoneyCurrency (sc_expectedCurrency c)
               then Inl invalid else Inr amount
           | _ \<Rightarrow> Inl invalid))"

text \<open>A nullable amount as the code reads it.\<close>

definition amount_value :: "int option \<Rightarrow> jsval" where
  "amount_value a = (case a of None \<Rightarrow> JNull | Some d \<Rightarrow> column d)"

definition amount_or_zero :: "int option \<Rightarrow> int" where
  "amount_or_zero a = (case a of None \<Rightarrow> 0 | Some d \<Rightarrow> d)"

section \<open>Order, wallet and cart\<close>

definition payableOrder :: "string \<Rightarrow> string \<Rightarrow> string \<Rightarrow> string option \<Rightarrow> submit_command \<Rightarrow> string \<Rightarrow> order_row tx" where
  "payableOrder orderId userId userOrgId actorRole command expectedAmount =
     andThen (lockOrderAggregate orderId) (\<lambda>_.
     andThen (query (\<lambda>s. find (\<lambda>r. o_id r = orderId \<and> o_organizationId r = userOrgId) (orders s))) (\<lambda>found.
     case found of
       None \<Rightarrow> throw (not_found ''Order not found'')
     | Some ord \<Rightarrow>
         andThen (assertOwnerOrCreator (o_customerId ord) userId actorRole (Some ''submit payment'')) (\<lambda>_.
         andThen (require (\<not> (Some (o_version ord) \<noteq> sc_expectedVersion command
                \<or> normalizePositiveUsdMoney (amount_value (o_amount ord)) \<noteq> Some expectedAmount
                \<or> JText (o_currency ord) \<noteq> sc_expectedCurrency command))
           (coded_conflict ''ORDER_CHECKOUT_STATE_CHANGED''
             ''Order price or contents changed after review. Refresh checkout and confirm the current total.'')) (\<lambda>_.
         andThen (require (\<not> (o_status ord \<noteq> ''DRAFT'' \<or> o_paymentStatus ord \<noteq> ''PENDING''))
           (bad_request ''Order must be DRAFT to submit payment'')) (\<lambda>_.
         andThen (assertUsd (o_currency ord) ''ORDER_CURRENCY_UNSUPPORTED''
           ''Order currency is not supported by USD-only checkout'') (\<lambda>_.
         ret ord))))))"

definition payingWallet :: "string \<Rightarrow> wallet_row tx" where
  "payingWallet userOrgId =
     andThen (query (find_org_wallet userOrgId)) (\<lambda>found.
     case found of
       None \<Rightarrow> throw (bad_request ''No wallet found for organization'')
     | Some wallet \<Rightarrow>
         andThen (assertUsd (w_currency wallet) ''WALLET_CURRENCY_MISMATCH''
           ''Organization wallet is not a canonical USD wallet'') (\<lambda>_. ret wallet))"

definition items_invalid :: failure where
  "items_invalid = coded_conflict ''ORDER_ITEMS_INVALID''
     ''Every checkout item must be pending payment with a positive whole-cent price''"

fun itemTotal :: "order_row \<Rightarrow> item_row list \<Rightarrow> int \<Rightarrow> failure + int" where
  "itemTotal ord [] total_so_far = Inr total_so_far"
| "itemTotal ord (item # items) total_so_far =
     (case normalizePositiveUsdMoney (amount_value (i_price item)) of
        None \<Rightarrow> Inl items_invalid
      | Some itemPrice \<Rightarrow>
          if i_status item \<noteq> ''PENDING_PAYMENT'' then Inl items_invalid
          else if \<not> truthy (o_websiteId ord) \<or> i_websiteId item \<noteq> o_websiteId ord
          then Inl (coded_conflict ''ORDER_ITEM_WEBSITE_MISMATCH'' ''Order item website identity does not match its order'')
          else itemTotal ord items (total_so_far + db_decimal itemPrice))"

definition checkedCart :: "string \<Rightarrow> order_row \<Rightarrow> wallet_row \<Rightarrow> item_row list tx" where
  "checkedCart orderId ord wallet =
     (let amount = amount_or_zero (o_amount ord)
      in andThen (require (\<not> amount \<le> 0) (bad_request (''Order has zero amount '' @ em_dash @ '' add items first''))) (\<lambda>_.
         andThen (require (normalizePositiveUsdMoney (column amount) \<noteq> None)
           (coded_conflict ''ORDER_AMOUNT_INVALID'' ''Order amount is not a valid USD amount'')) (\<lambda>_.
         andThen (query (\<lambda>s. filter (\<lambda>i. i_orderId i = orderId) (order_items s))) (\<lambda>items.
         andThen (require (items \<noteq> [])
           (coded_conflict ''ORDER_ITEMS_INVALID'' ''Order has no priced placement items'')) (\<lambda>_.
         andThen (lift_sum id (itemTotal ord items 0)) (\<lambda>sum_of_items.
         andThen (require (sum_of_items = amount)
           (coded_conflict ''ORDER_TOTAL_MISMATCH'' ''Order total does not match its immutable placement-item total'')) (\<lambda>_.
         andThen (require (\<not> w_availableBalance wallet < amount) (bad_request ''Insufficient available balance'')) (\<lambda>_.
         ret items))))))))"

section \<open>The catalog\<close>

text \<open>A listing service with its listing and the listing's website.\<close>

definition catalog_row :: "string \<Rightarrow> db \<Rightarrow> (listing_service_row \<times> listing_row \<times> website_row option) option" where
  "catalog_row serviceId s =
     (case find (\<lambda>r. ls_id r = serviceId) (listing_services s) of
        None \<Rightarrow> None
      | Some service \<Rightarrow>
          (case find (\<lambda>l. li_id l = ls_listingId service) (listings s) of
             None \<Rightarrow> None
           | Some listing \<Rightarrow> Some (service, listing,
               (case li_websiteId listing of None \<Rightarrow> None | Some w \<Rightarrow> find (\<lambda>x. ws_id x = w) (websites s)))))"

definition attribution_exact :: "order_row \<Rightarrow> listing_service_row \<Rightarrow> listing_row \<Rightarrow> website_row option \<Rightarrow> bool" where
  "attribution_exact ord service listing website \<longleftrightarrow>
     truthy (o_listingId ord) \<and> Some (ls_listingId service) = o_listingId ord \<and> Some (li_id listing) = o_listingId ord
     \<and> truthy (o_websiteId ord) \<and> li_websiteId listing = o_websiteId ord \<and> map_option ws_id website = o_websiteId ord
     \<and> ls_serviceType service = o_type ord"

definition serverPrice :: "order_row \<Rightarrow> int tx" where
  "serverPrice ord =
     andThen (require (truthy (o_listingServiceId ord))
       (bad_request (''Order has no listingServiceId snapshot '' @ em_dash @ '' cannot price''))) (\<lambda>_.
     andThen (query (\<lambda>s. case o_listingServiceId ord of None \<Rightarrow> None | Some i \<Rightarrow> catalog_row i s)) (\<lambda>found.
     case found of
       None \<Rightarrow> throw (bad_request ''Listing service no longer available'')
     | Some (service, listing, website) \<Rightarrow>
         andThen (require (ls_availability service = ''AVAILABLE'')
           (coded_conflict ''SERVICE_UNAVAILABLE'' (''Service is no longer available '' @ em_dash @ '' refresh and try again''))) (\<lambda>_.
         andThen (require (attribution_exact ord service listing website)
           (coded_conflict ''CATALOG_CONTRACT_MISMATCH''
             ''Order catalog and website attribution do not match the selected service'')) (\<lambda>_.
         andThen (require (li_status listing = ''APPROVED'')
           (coded_conflict ''LISTING_UNAVAILABLE'' ''Marketplace listing is no longer approved for checkout'')) (\<lambda>_.
         andThen (require (case website of None \<Rightarrow> False | Some w \<Rightarrow> ws_isActive w \<and> ws_verificationStatus w = ''VERIFIED'')
           (coded_conflict ''WEBSITE_UNAVAILABLE'' ''Marketplace website is inactive or no longer ownership-verified'')) (\<lambda>_.
         andThen (assertUsd (ls_currency service) ''LISTING_SERVICE_CURRENCY_MISMATCH''
           ''Listing service is not priced in canonical USD'') (\<lambda>_.
         andThen (assertUsd (li_currency listing) ''MARKETPLACE_LISTING_CURRENCY_MISMATCH''
           ''Marketplace listing is not priced in canonical USD'') (\<lambda>_.
         case normalizePositiveUsdMoney (column (ls_price service)) of
           None \<Rightarrow> throw (coded_conflict ''LISTING_SERVICE_PRICE_INVALID'' ''Listing service price is not a valid USD amount'')
         | Some text \<Rightarrow> ret (db_decimal text)))))))))"

section \<open>The re-price\<close>

definition update_items :: "(item_row \<Rightarrow> bool) \<Rightarrow> (item_row \<Rightarrow> item_row) \<Rightarrow> nat tx" where
  "update_items p f s = Inr (count_where p (order_items s), s\<lparr>order_items := update_where p f (order_items s)\<rparr>)"

definition driftedItems :: "int \<Rightarrow> item_row list \<Rightarrow> item_row list" where
  "driftedItems price items = filter (\<lambda>i. amount_or_zero (i_price i) \<noteq> price) items"

text \<open>The items with their old and new price.\<close>

definition requote :: "string \<Rightarrow> order_row \<Rightarrow> int \<Rightarrow> item_row list \<Rightarrow> (string \<times> int \<times> int) list tx" where
  "requote orderId ord price items =
     (let drifted = driftedItems price items; ids = map i_id drifted
      in andThen (update_items (\<lambda>r. i_orderId r = orderId \<and> i_id r \<in> set ids \<and> i_status r = ''PENDING_PAYMENT'')
           (\<lambda>r. r\<lparr>i_price := Some price\<rparr>)) (\<lambda>repriced.
         andThen (require (repriced = length drifted)
           (http_conflict ''Order items were modified by another request. Refresh and retry.'')) (\<lambda>_.
         andThen (update_orders
           (\<lambda>r. o_id r = orderId \<and> o_version r = o_version ord \<and> o_status r = ''DRAFT'' \<and> o_paymentStatus r = ''PENDING'')
           (\<lambda>r. r\<lparr>o_amount := Some (price * int (length items)), o_version := o_version r + 1\<rparr>)) (\<lambda>updated.
         andThen (require (updated = 1) (http_conflict ''Order was modified by another request. Refresh and retry.'')) (\<lambda>_.
         ret (map (\<lambda>i. (i_id i, amount_or_zero (i_price i), price)) drifted))))))"

section \<open>The capture\<close>

definition paid_event ::
    "string \<Rightarrow> string \<Rightarrow> string \<Rightarrow> string \<Rightarrow> (string \<times> json) list \<Rightarrow> order_event" where
  "paid_event orderId actor kind message metadata =
     \<lparr>e_orderId = orderId, e_settlementId = None, e_eventType = kind, e_actorId = Some actor, e_message = message,
      e_metadata = ObjJ metadata\<rparr>"

definition captureEvents :: "env \<Rightarrow> order_row \<Rightarrow> int \<Rightarrow> string \<Rightarrow> string \<Rightarrow> order_row \<Rightarrow> unit tx" where
  "captureEvents env ord amount userId userOrgId captured =
     (let moves = [(''fromStatus'', TextJ ''DRAFT''), (''toStatus'', TextJ ''SUBMITTED'')]
      in andThen (create_event (paid_event (o_id ord) userId ''PAYMENT_CAPTURED''
           (''Payment captured '' @ em_dash @ '' order submitted'')
           ([(''capturedAmount'', TextJ (to_fixed2 amount)), (''aggregateVersion'', NumJ (o_version captured)),
             (''milestoneSequence'', NumJ 1)] @ moves
            @ [(''fromPaymentStatus'', TextJ ''PENDING''), (''toPaymentStatus'', TextJ ''PAID'')]))) (\<lambda>_.
         andThen (create_event (paid_event (o_id ord) userId ''ORDER_SUBMITTED'' ''Order submitted after payment capture''
           ([(''aggregateVersion'', NumJ (o_version captured)), (''milestoneSequence'', NumJ 2)] @ moves
            @ [(''command'', TextJ ''SUBMIT_PAYMENT'')]))) (\<lambda>_.
         audit_log env ''PAYMENT_CAPTURED'' ''Order'' (o_id ord)
           (spread (orderEventMetadata ord)
             [(''amount'', TextJ (to_fixed2 amount)), (''from'', TextJ ''DRAFT''), (''to'', TextJ ''SUBMITTED''),
              (''fromVersion'', NumJ (o_version ord)), (''toVersion'', NumJ (o_version captured)),
              (''fromPaymentStatus'', TextJ ''PENDING''), (''toPaymentStatus'', TextJ ''PAID''),
              (''milestones'', ListJ [TextJ ''PAYMENT_CAPTURED'', TextJ ''ORDER_SUBMITTED''])])
           (Some userId) (Some userOrgId))))"

text \<open>A communication of the order, and one to the staff when its condition holds.\<close>

definition order_message ::
    "string \<Rightarrow> string \<Rightarrow> string option \<Rightarrow> string \<Rightarrow> string \<Rightarrow> json \<Rightarrow> string \<Rightarrow> string list \<Rightarrow> string \<Rightarrow> outbox_request" where
  "order_message kind orderId organizationId title message payload dedupKey recipients actor =
     \<lparr>ob_type = kind, ob_aggregateType = ''Order'', ob_aggregateId = orderId, ob_organizationId = organizationId,
      ob_title = title, ob_message = message, ob_actionPath = ''/dashboard/orders/'' @ orderId, ob_payload = payload,
      ob_dedupKey = dedupKey, ob_recipientUserIds = recipients, ob_actorUserId = Some actor\<rparr>"

definition staffNotice :: "env \<Rightarrow> bool \<Rightarrow> string list \<Rightarrow> (string list \<Rightarrow> outbox_request) \<Rightarrow> string list tx" where
  "staffNotice env wanted roles message =
     (if \<not> wanted then ret []
      else andThen (query (staffRecipients roles)) (\<lambda>recipients.
           andThen (recordCommunicationOutbox env (message recipients)) (\<lambda>i. ret [i])))"

definition captureNotices ::
    "(string \<Rightarrow> rat option) \<Rightarrow> env \<Rightarrow> order_row \<Rightarrow> wallet_row \<Rightarrow> int \<Rightarrow> string \<Rightarrow> string \<Rightarrow> string list tx" where
  "captureNotices to_number env ord wallet amount userId userOrgId =
     (let orderId = o_id ord; fixed = to_fixed2 amount;
          highValue = notificationThreshold to_number env ''ADMIN_HIGH_VALUE_ORDER_THRESHOLD'' 500;
          lowBalance = notificationThreshold to_number env ''ADMIN_WALLET_LOW_BALANCE_THRESHOLD'' 100;
          previousBalance = w_availableBalance wallet; remainingBalance = previousBalance - amount
      in andThen (query (customerOrderRecipients orderId)) (\<lambda>customerRecipients.
         andThen (recordCommunicationOutbox env (order_message ''ORDER_PAYMENT_CAPTURED'' orderId (Some userOrgId)
           ''Payment received and order submitted''
           (''Your payment of '' @ fixed @ '' USD was received. Order '' @ orderId @ '' is now awaiting acceptance.'') NullJ
           (''order:'' @ orderId @ '':payment-captured'') customerRecipients userId)) (\<lambda>customerEvent.
         andThen (query (\<lambda>s. case o_websiteId ord of None \<Rightarrow> None
           | Some w \<Rightarrow> (case find (\<lambda>x. ws_id x = w) (websites s) of None \<Rightarrow> None | Some x \<Rightarrow> ws_publisherId x))) (\<lambda>publisherId.
         andThen (query (publisherRecipients publisherId False)) (\<lambda>publisherMembers.
         andThen (recordCommunicationOutbox env (order_message ''ORDER_SUBMITTED'' orderId (Some userOrgId)
           ''New order awaiting acceptance'' (''Order '' @ orderId @ '' has been paid and is ready for your review.'') NullJ
           (''order:'' @ orderId @ '':submitted:publisher'') publisherMembers userId)) (\<lambda>publisherEvent.
         andThen (staffNotice env (highValue < amount_number amount) [''SUPER_ADMIN'', ''OPERATIONS'', ''FINANCE'']
           (\<lambda>recipients. order_message ''STAFF_HIGH_VALUE_ORDER'' orderId (Some userOrgId) ''High-value order paid''
             (''Order '' @ orderId @ '' was paid for '' @ fixed @ '' '' @ o_currency ord @ ''.'')
             (ObjJ [(''amount'', DecJ amount), (''currency'', TextJ (o_currency ord))])
             (''staff:order:'' @ orderId @ '':high-value'') recipients userId)) (\<lambda>valueEvent.
         andThen (staffNotice env (lowBalance \<le> amount_number previousBalance \<and> amount_number remainingBalance < lowBalance)
           [''SUPER_ADMIN'', ''FINANCE'']
           (\<lambda>recipients. (order_message ''STAFF_WALLET_LOW_BALANCE'' orderId (Some userOrgId) ''Customer wallet balance is low''
             (''Wallet '' @ w_id wallet @ '' fell below the configured balance threshold after order '' @ orderId @ ''.'')
             (ObjJ [(''balance'', DecJ remainingBalance), (''threshold'', DecJ (number_amount lowBalance)),
               (''currency'', TextJ (w_currency wallet)), (''orderId'', TextJ orderId)])
             (''staff:wallet:'' @ w_id wallet @ '':low-balance:order:'' @ orderId) recipients userId)
             \<lparr>ob_aggregateType := ''Wallet'', ob_aggregateId := w_id wallet, ob_actionPath := ''/dashboard/finance''\<rparr>)) (\<lambda>lowEvent.
         ret ([customerEvent, publisherEvent] @ valueEvent @ lowEvent)))))))))"

definition capture ::
    "(string \<Rightarrow> rat option) \<Rightarrow> env \<Rightarrow> bool \<Rightarrow> order_row \<Rightarrow> wallet_row \<Rightarrow> string \<Rightarrow> string \<Rightarrow> (order_row \<times> string list) tx" where
  "capture to_number env communications ord wallet userId userOrgId =
     (let amount = amount_or_zero (o_amount ord); user = \<lparr>us_id = userId, us_organizationId = Some userOrgId\<rparr>
      in andThen (transitionOrderCas (o_id ord) (o_version ord) ''DRAFT'' ''SUBMITTED'' (Some (''PENDING'', ''PAID''))
           (\<lambda>r. r\<lparr>o_submittedAt := Some (env_now env)\<rparr>)) (\<lambda>captured.
         andThen (reserve env (w_id wallet) amount (o_id ord) user) (\<lambda>_.
         andThen (payFromReserved env (w_id wallet) amount (o_id ord) user) (\<lambda>_.
         andThen (captureEvents env ord amount userId userOrgId captured) (\<lambda>_.
         andThen (if communications then captureNotices to_number env ord wallet amount userId userOrgId else ret [])
           (\<lambda>eventIds. ret (captured, eventIds)))))))"

section \<open>Submitting a payment\<close>

datatype submit_outcome = Requote "(string \<times> int \<times> int) list" | Captured order_row "string list"

definition submitPaymentTx ::
    "(string \<Rightarrow> rat option) \<Rightarrow> env \<Rightarrow> bool \<Rightarrow> string \<Rightarrow> string \<Rightarrow> string \<Rightarrow> string option \<Rightarrow> submit_command \<Rightarrow> string
     \<Rightarrow> submit_outcome tx" where
  "submitPaymentTx to_number env communications orderId userId userOrgId actorRole command expectedAmount =
     andThen (payableOrder orderId userId userOrgId actorRole command expectedAmount) (\<lambda>ord.
     andThen (payingWallet userOrgId) (\<lambda>wallet.
     andThen (checkedCart orderId ord wallet) (\<lambda>items.
     andThen (serverPrice ord) (\<lambda>price.
     if driftedItems price items \<noteq> [] then
       andThen (requote orderId ord price items) (\<lambda>drifted. ret (Requote drifted))
     else
       andThen (capture to_number env communications ord wallet userId userOrgId)
         (\<lambda>r. ret (Captured (fst r) (snd r)))))))"

text \<open>The retries of the service: five attempts, then a conflict.\<close>

definition runPaymentSerializable :: "weather \<Rightarrow> 'a tx \<Rightarrow> db \<Rightarrow> (failure + 'a) \<times> db" where
  "runPaymentSerializable w operation s =
     (case retry_loop isRetryablePrismaTransactionError w operation 5 1 s of
        (Inl e, s') \<Rightarrow> (Inl (if isRetryablePrismaTransactionError e
          then coded_conflict ''ORDER_PAYMENT_CONCURRENCY_CONFLICT''
            ''Financial state changed concurrently. Refresh and retry payment.'' else e), s')
      | r \<Rightarrow> r)"

text \<open>
  The order the caller gets, before its projection for the customer; a committed re-price is
  reported as a conflict.
\<close>

definition submitPayment ::
    "(string \<Rightarrow> rat option) \<Rightarrow> env \<Rightarrow> bool \<Rightarrow> weather \<Rightarrow> string \<Rightarrow> string \<Rightarrow> string \<Rightarrow> string option \<Rightarrow> submit_command option
     \<Rightarrow> db \<Rightarrow> (failure + order_row) \<times> db" where
  "submitPayment to_number env communications w orderId userId userOrgId actorRole command s =
     (case validateSubmitPaymentCommand command of
        Inl e \<Rightarrow> (Inl e, s)
      | Inr expectedAmount \<Rightarrow>
          (case command of
             None \<Rightarrow> (Inl (error ''unreachable''), s)
           | Some c \<Rightarrow>
               (case runPaymentSerializable w
                  (submitPaymentTx to_number env communications orderId userId userOrgId actorRole c expectedAmount) s of
                  (Inl e, s') \<Rightarrow> (Inl e, s')
                | (Inr (Requote drifted), s') \<Rightarrow>
                    (Inl (coded_conflict ''REQUOTE_REQUIRED''
                      ''Prices changed since the order was created. Review the updated total and submit payment again.''), s')
                | (Inr (Captured ord eventIds), s') \<Rightarrow> (Inr ord, s'))))"

section \<open>What the checks establish\<close>

lemma update_items_Inr [tx_simps]:
  "update_items p f s = Inr r \<longleftrightarrow> r = (count_where p (order_items s), s\<lparr>order_items := update_where p f (order_items s)\<rparr>)"
  by (auto simp: update_items_def)

lemma payableOrder_Inr [tx_simps]:
  "payableOrder orderId userId userOrgId actorRole c expected s = Inr r \<longleftrightarrow>
     (\<exists>ord. r = (ord, s) \<and> find (\<lambda>r. o_id r = orderId \<and> o_organizationId r = userOrgId) (orders s) = Some ord
        \<and> (o_customerId ord = userId \<or> actorRole = Some ''OWNER'') \<and> sc_expectedVersion c = Some (o_version ord)
        \<and> normalizePositiveUsdMoney (amount_value (o_amount ord)) = Some expected
        \<and> sc_expectedCurrency c = JText ''USD'' \<and> o_status ord = ''DRAFT'' \<and> o_paymentStatus ord = ''PENDING''
        \<and> o_currency ord = ''USD'')"
  unfolding payableOrder_def assertOwnerOrCreator_def lockOrderAggregate_def
  by (auto simp: tx_simps split: option.splits)

lemma payingWallet_Inr [tx_simps]:
  "payingWallet userOrgId s = Inr r \<longleftrightarrow>
     (\<exists>w. r = (w, s) \<and> find_org_wallet userOrgId s = Some w \<and> w_currency w = ''USD'')"
  unfolding payingWallet_def by (auto simp: tx_simps split: option.splits)

text \<open>An item that waits for payment at a price of whole cents, on the website of the order.\<close>

definition priced :: "order_row \<Rightarrow> item_row \<Rightarrow> bool" where
  "priced ord i \<longleftrightarrow> (\<exists>p. i_price i = Some p \<and> 0 < p \<and> CENT dvd p) \<and> i_status i = ''PENDING_PAYMENT''
     \<and> truthy (o_websiteId ord) \<and> i_websiteId i = o_websiteId ord"

lemma normalize_amount:
  "normalizePositiveUsdMoney (amount_value a) = Some t \<longleftrightarrow>
     (\<exists>d. a = Some d \<and> 0 < d \<and> CENT dvd d \<and> t = usdAmount (d div CENT))"
proof -
  have "normalizePositiveUsdMoney JNull = None" by (simp add: normalizePositiveUsdMoney_def nullish_def)
  then show ?thesis by (auto simp: amount_value_def split: option.splits if_splits)
qed

lemma itemTotal_Inr:
  "itemTotal ord items t = Inr u \<longleftrightarrow>
     list_all (priced ord) items \<and> u = t + sum_list (map (\<lambda>i. amount_or_zero (i_price i)) items)"
proof (induction ord items t rule: itemTotal.induct)
  case (1 ord t)
  then show ?case by auto
next
  case (2 ord i items t)
  show ?case
  proof (cases "normalizePositiveUsdMoney (amount_value (i_price i))")
    case None
    then have "\<not> priced ord i" by (auto simp: priced_def amount_value_def)
    with None show ?thesis by simp
  next
    case (Some shown)
    then obtain d where d: "i_price i = Some d" "0 < d" "CENT dvd d" "db_decimal shown = d"
      using normalize_amount by auto
    then have "priced ord i \<longleftrightarrow> i_status i = ''PENDING_PAYMENT'' \<and> truthy (o_websiteId ord) \<and> i_websiteId i = o_websiteId ord"
      by (simp add: priced_def)
    then show ?thesis using 2[OF Some] Some d by (auto simp: amount_or_zero_def)
  qed
qed

lemma checkedCart_Inr [tx_simps]:
  "checkedCart orderId ord w s = Inr r \<longleftrightarrow>
     (let amount = amount_or_zero (o_amount ord); items = filter (\<lambda>i. i_orderId i = orderId) (order_items s)
      in r = (items, s) \<and> 0 < amount \<and> CENT dvd amount \<and> items \<noteq> [] \<and> list_all (priced ord) items
         \<and> amount = sum_list (map (\<lambda>i. amount_or_zero (i_price i)) items) \<and> amount \<le> w_availableBalance w)"
  unfolding checkedCart_def Let_def by (auto simp: tx_simps itemTotal_Inr not_le not_less)

text \<open>The service the order bought is on offer, on an approved listing of a verified website, at this price.\<close>

definition on_offer :: "order_row \<Rightarrow> int \<Rightarrow> db \<Rightarrow> bool" where
  "on_offer ord price s \<longleftrightarrow> (\<exists>i service listing w. o_listingServiceId ord = Some i
     \<and> catalog_row i s = Some (service, listing, Some w) \<and> ls_availability service = ''AVAILABLE''
     \<and> attribution_exact ord service listing (Some w) \<and> li_status listing = ''APPROVED'' \<and> ws_isActive w
     \<and> ws_verificationStatus w = ''VERIFIED'' \<and> ls_currency service = ''USD'' \<and> li_currency listing = ''USD''
     \<and> price = ls_price service \<and> 0 < price \<and> CENT dvd price)"

lemma serverPrice_Inr:
  assumes "serverPrice ord s = Inr r"
  shows "\<exists>price. r = (price, s) \<and> on_offer ord price s"
proof -
  obtain i where i: "o_listingServiceId ord = Some i"
    using assms by (auto simp: serverPrice_def tx_simps truthy_def)
  obtain service listing website where c: "catalog_row i s = Some (service, listing, website)"
    using assms i by (auto simp: serverPrice_def tx_simps split: option.splits)
  obtain w where "website = Some w"
    using assms i c by (auto simp: serverPrice_def tx_simps split: option.splits)
  then show ?thesis
    using assms i c by (auto simp: serverPrice_def on_offer_def tx_simps split: option.splits if_splits)
qed

section \<open>What the swap and the capture do\<close>

definition swapped ::
    "string \<Rightarrow> (string \<times> string) option \<Rightarrow> (order_row \<Rightarrow> order_row) \<Rightarrow> order_row \<Rightarrow> order_row" where
  "swapped toStatus payment patch r = (patch r)\<lparr>o_status := toStatus,
     o_paymentStatus := (case payment of None \<Rightarrow> o_paymentStatus r | Some (_, toPayment) \<Rightarrow> toPayment),
     o_version := o_version r + 1\<rparr>"

lemma transitionOrderCas_Inr:
  assumes d: "distinct (map o_id (orders s))" and f: "find_order i s = Some ord" and p: "\<And>r. o_id (patch r) = o_id r"
    and run: "transitionOrderCas i v from_status to_status payment patch s = Inr (row, s')"
  shows "o_version ord = v \<and> o_status ord = from_status
    \<and> (case payment of None \<Rightarrow> True | Some (fromPayment, _) \<Rightarrow> o_paymentStatus ord = fromPayment)
    \<and> s' = s\<lparr>orders := update_where (\<lambda>r. o_id r = i) (swapped to_status payment patch) (orders s)\<rparr>
    \<and> row = swapped to_status payment patch ord \<and> find_order i s' = Some row"
proof -
  let ?g = "\<lambda>r. o_id r = i \<and> o_version r = v \<and> o_status r = from_status
          \<and> (case payment of None \<Rightarrow> True | Some (fromPayment, _) \<Rightarrow> o_paymentStatus r = fromPayment)"
  let ?f = "swapped to_status payment patch"
  have ord: "ord \<in> set (orders s)" "o_id ord = i" using find_key[OF f[unfolded find_order_def]] by auto
  have r: "count_where ?g (orders s) = 1" "s' = s\<lparr>orders := update_where ?g ?f (orders s)\<rparr>" "find_order i s' = Some row"
    using run unfolding transitionOrderCas_def swapped_def by (auto simp: tx_simps)
  have g: "?g ord \<and> update_where ?g ?f (orders s) = update_where (\<lambda>x. o_id x = o_id ord) ?f (orders s)"
    by (rule guard_row[OF d ord(1) _ r(1)]) (use ord in auto)
  have "find_order i s' = Some (?f ord)"
    using g f r(2) ord find_one[of o_id i "orders s" ord ?f i] p by (simp add: find_order_def swapped_def)
  with g r ord show ?thesis by auto
qed

abbreviation captured_row :: "env \<Rightarrow> order_row \<Rightarrow> order_row" where
  "captured_row env \<equiv> swapped ''SUBMITTED'' (Some (''PENDING'', ''PAID'')) (\<lambda>r. r\<lparr>o_submittedAt := Some (env_now env)\<rparr>)"

text \<open>
  The order is submitted and paid, its amount has left the wallet, both rows are in the ledger; beside
  that only events, audit rows and the outbox have changed.
\<close>

definition captured_between :: "env \<Rightarrow> order_row \<Rightarrow> wallet_row \<Rightarrow> int \<Rightarrow> db \<Rightarrow> db \<Rightarrow> bool" where
  "captured_between env ord w amount s s' \<longleftrightarrow>
     wallet_moved (w_id w) (- amount) 0 s s'
     \<and> (\<exists>ws evs logs out. s' = s\<lparr>orders := update_where (\<lambda>r. o_id r = o_id ord) (captured_row env) (orders s),
          wallets := ws, id_supply := id_supply s + 2, order_events := order_events s @ evs, audit_logs := logs, outbox := out,
          transactions := transactions s
            @ [reservation_row env (id_supply s) (w_id w) amount (o_id ord),
               purchase_row env (id_supply s + 1) (w_id w) amount (o_id ord)]\<rparr>)"

lemma captureNotices_Inr:
  assumes "captureNotices to_number env ord w amount u g s = Inr (ids, s')"
  shows "\<exists>out. s' = s\<lparr>outbox := out\<rparr>"
proof -
  have k: "\<exists>out. t\<lparr>outbox := b\<rparr> = s\<lparr>outbox := out\<rparr>" if "\<exists>out. t = s\<lparr>outbox := out\<rparr>" for t b
    using that by auto
  have "preserves (\<lambda>t. \<exists>out. t = s\<lparr>outbox := out\<rparr>) (captureNotices to_number env ord w amount u g)"
    unfolding captureNotices_def staffNotice_def Let_def by (intro keeps) (auto intro: k)
  moreover have "\<exists>out. s = s\<lparr>outbox := out\<rparr>" by (rule exI[of _ "outbox s"]) simp
  ultimately show ?thesis using assms unfolding preserves_def by blast
qed

lemma capture_Inr:
  assumes wf: "db_wf s" and f: "find_order (o_id ord) s = Some ord"
    and run: "capture to_number env comms ord w u g s = Inr ((row, ids), s')"
  shows "o_status ord = ''DRAFT'' \<and> o_paymentStatus ord = ''PENDING'' \<and> row = captured_row env ord
    \<and> amount_or_zero (o_amount ord) \<le> available_of (w_id w) s \<and> \<not> uncovered_dispute (w_id w) s
    \<and> captured_between env ord w (amount_or_zero (o_amount ord)) s s'"
proof -
  let ?a = "amount_or_zero (o_amount ord)"
  obtain s1 s2 s3 s4 f1 f2 where t: "transitionOrderCas (o_id ord) (o_version ord) ''DRAFT'' ''SUBMITTED''
        (Some (''PENDING'', ''PAID'')) (\<lambda>r. r\<lparr>o_submittedAt := Some (env_now env)\<rparr>) s = Inr (row, s1)"
    and r: "reserve env (w_id w) ?a (o_id ord) \<lparr>us_id = u, us_organizationId = Some g\<rparr> s1 = Inr (f1, s2)"
    and p: "payFromReserved env (w_id w) ?a (o_id ord) \<lparr>us_id = u, us_organizationId = Some g\<rparr> s2 = Inr (f2, s3)"
    and e: "captureEvents env ord ?a u g row s3 = Inr ((), s4)"
    and n: "(if comms then captureNotices to_number env ord w ?a u g else ret []) s4 = Inr (ids, s')"
    using run unfolding capture_def Let_def by (auto simp: tx_simps)
  note T = transitionOrderCas_Inr[OF db_wfD(1)[OF wf] f _ t, simplified]
  have d1: "distinct (map w_id (wallets s1))" using T db_wfD(2)[OF wf] by simp
  obtain x ws where x: "pays \<lparr>us_id = u, us_organizationId = Some g\<rparr> (o_id ord) x s1" "w_id x = w_id w"
      "?a \<le> w_availableBalance x" and m: "wallet_moved (w_id w) (- ?a) 0 s1 s3"
    and s3: "s3 = s1\<lparr>wallets := ws, id_supply := id_supply s1 + 2, transactions := transactions s1
        @ [reservation_row env (id_supply s1) (w_id w) ?a (o_id ord),
           purchase_row env (id_supply s1 + 1) (w_id w) ?a (o_id ord)]\<rparr>"
    by (rule reserve_then_pay[OF d1 r p])
  obtain evs l where s4: "s4 = s3\<lparr>order_events := order_events s3 @ evs, audit_logs := audit_logs s3 @ [l]\<rparr>"
    using e unfolding captureEvents_def Let_def by (auto simp: tx_simps)
  obtain out where s': "s' = s4\<lparr>outbox := out\<rparr>"
  proof (cases comms)
    case True
    then show thesis using n captureNotices_Inr that by fastforce
  next
    case False
    then have "s' = s4\<lparr>outbox := outbox s4\<rparr>" using n by (simp add: tx_simps)
    then show thesis by (rule that)
  qed
  have s1: "s1 = s\<lparr>orders := update_where (\<lambda>r. o_id r = o_id ord) (captured_row env) (orders s)\<rparr>" using T by simp
  have m': "wallet_moved (w_id w) (- ?a) 0 s s'"
    using m moved_wallets[of s1 s s3 s' "w_id w" "- ?a" 0] s1 s3 s4 s' by simp
  have "available_of (w_id w) s = w_availableBalance x" "\<not> uncovered_dispute (w_id w) s"
    using x s1 by (auto simp: pays_def available_of_def find_wallet_def uncovered_dispute_def)
  moreover have "captured_between env ord w ?a s s'"
  proof -
    have "s' = s\<lparr>orders := update_where (\<lambda>r. o_id r = o_id ord) (captured_row env) (orders s),
          wallets := ws, id_supply := id_supply s + 2, order_events := order_events s @ evs,
          audit_logs := audit_logs s @ [l], outbox := out,
          transactions := transactions s @ [reservation_row env (id_supply s) (w_id w) ?a (o_id ord),
            purchase_row env (id_supply s + 1) (w_id w) ?a (o_id ord)]\<rparr>"
      using s1 s3 s4 s' by simp
    with m' show ?thesis unfolding captured_between_def by blast
  qed
  ultimately show ?thesis using T x(3) by simp
qed

section \<open>What a submission does\<close>

lemma find_own: 
  assumes "distinct (map o_id (orders s))" "find (\<lambda>r. o_id r = i \<and> o_organizationId r = g) (orders s) = Some ord"
  shows "find_order i s = Some ord \<and> o_id ord = i \<and> o_organizationId ord = g"
  using find_key[OF assms(2)] find_distinct[OF assms(1), of ord i] by (simp add: find_order_def)

lemma validateSubmitPaymentCommand_Inr:
  "validateSubmitPaymentCommand (Some c) = Inr t \<Longrightarrow> sc_expectedAmount c = JText t"
  by (auto simp: validateSubmitPaymentCommand_def Let_def split: option.splits if_splits)

text \<open>The order, the wallet and the cart a submission works on, and the price on offer.\<close>

definition checked_out ::
    "string \<Rightarrow> string \<Rightarrow> string \<Rightarrow> string option \<Rightarrow> submit_command \<Rightarrow> order_row \<Rightarrow> wallet_row \<Rightarrow> item_row list \<Rightarrow> int \<Rightarrow> int \<Rightarrow> db \<Rightarrow> bool" where
  "checked_out orderId userId userOrgId actorRole c ord w items amount price s \<longleftrightarrow>
     find_order orderId s = Some ord \<and> o_id ord = orderId \<and> o_organizationId ord = userOrgId
     \<and> (o_customerId ord = userId \<or> actorRole = Some ''OWNER'') \<and> o_status ord = ''DRAFT'' \<and> o_paymentStatus ord = ''PENDING''
     \<and> sc_expectedVersion c = Some (o_version ord) \<and> sc_expectedAmount c = JText (usdAmount (amount div CENT))
     \<and> o_amount ord = Some amount \<and> 0 < amount \<and> CENT dvd amount
     \<and> find_org_wallet userOrgId s = Some w \<and> amount \<le> w_availableBalance w
     \<and> items = filter (\<lambda>i. i_orderId i = orderId) (order_items s) \<and> items \<noteq> [] \<and> list_all (priced ord) items
     \<and> amount = sum_list (map (\<lambda>i. amount_or_zero (i_price i)) items) \<and> on_offer ord price s"

lemma submitPaymentTx_Inr:
  assumes wf: "db_wf s" and v: "validateSubmitPaymentCommand (Some c) = Inr expected"
    and run: "submitPaymentTx to_number env comms orderId userId userOrgId actorRole c expected s = Inr (out, s')"
  obtains ord w items amount price where "checked_out orderId userId userOrgId actorRole c ord w items amount price s"
    "driftedItems price items \<noteq> [] \<and> (\<exists>d. out = Requote d \<and> requote orderId ord price items s = Inr (d, s'))
     \<or> driftedItems price items = []
        \<and> (\<exists>row ids. out = Captured row ids \<and> capture to_number env comms ord w userId userOrgId s = Inr ((row, ids), s'))"
proof -
  from run obtain ord s1 w s2 items s3 price s4 where
      o1: "payableOrder orderId userId userOrgId actorRole c expected s = Inr (ord, s1)"
    and w1: "payingWallet userOrgId s1 = Inr (w, s2)" and i1: "checkedCart orderId ord w s2 = Inr (items, s3)"
    and p1: "serverPrice ord s3 = Inr (price, s4)"
    and k: "(if driftedItems price items \<noteq> [] then
         andThen (requote orderId ord price items) (\<lambda>drifted. ret (Requote drifted))
       else andThen (capture to_number env comms ord w userId userOrgId)
         (\<lambda>r. ret (Captured (fst r) (snd r)))) s4 = Inr (out, s')"
    unfolding submitPaymentTx_def andThen_Inr by blast
  have f: "find (\<lambda>r. o_id r = orderId \<and> o_organizationId r = userOrgId) (orders s) = Some ord" "s1 = s"
    and g: "o_customerId ord = userId \<or> actorRole = Some ''OWNER''" "sc_expectedVersion c = Some (o_version ord)"
      "normalizePositiveUsdMoney (amount_value (o_amount ord)) = Some expected" "o_status ord = ''DRAFT''"
      "o_paymentStatus ord = ''PENDING''"
    using o1[unfolded payableOrder_Inr] by simp_all
  have w: "find_org_wallet userOrgId s = Some w" "s2 = s" using w1[unfolded payingWallet_Inr] f(2) by simp_all
  have i: "items = filter (\<lambda>i. i_orderId i = orderId) (order_items s)" "items \<noteq> []" "list_all (priced ord) items"
      "amount_or_zero (o_amount ord) = sum_list (map (\<lambda>i. amount_or_zero (i_price i)) items)"
      "amount_or_zero (o_amount ord) \<le> w_availableBalance w" "s3 = s"
    using i1[unfolded checkedCart_Inr Let_def] w(2) by simp_all
  have p: "on_offer ord price s" "s4 = s" using serverPrice_Inr[OF p1] i(6) by auto
  obtain amount where a: "o_amount ord = Some amount" "0 < amount" "CENT dvd amount" "expected = usdAmount (amount div CENT)"
    using g(3) unfolding normalize_amount by blast
  have "checked_out orderId userId userOrgId actorRole c ord w items amount price s"
    using find_own[OF db_wfD(1)[OF wf] f(1)] g w i a p validateSubmitPaymentCommand_Inr[OF v]
    by (simp add: checked_out_def amount_or_zero_def)
  moreover have "driftedItems price items \<noteq> [] \<and> (\<exists>d. out = Requote d \<and> requote orderId ord price items s = Inr (d, s'))
     \<or> driftedItems price items = []
        \<and> (\<exists>row ids. out = Captured row ids \<and> capture to_number env comms ord w userId userOrgId s = Inr ((row, ids), s'))"
    using k p(2) by (auto simp: tx_simps split: if_splits)
  ultimately show thesis by (rule that)
qed

lemma captured_wf: "db_wf s \<Longrightarrow> captured_between env ord w a s s' \<Longrightarrow> db_wf s'"
  by (auto simp: captured_between_def db_wf_def wallet_moved_def map_update_where swapped_def)

lemma at_price:
  assumes "list_all (priced ord) items" "driftedItems price items = []"
  shows "list_all (\<lambda>i. i_price i = Some price) items
    \<and> sum_list (map (\<lambda>i. amount_or_zero (i_price i)) items) = price * int (length items)"
proof -
  have "i_price i = Some price" if "i \<in> set items" for i
  proof -
    have "priced ord i" "amount_or_zero (i_price i) = price"
      using assms that by (auto simp: driftedItems_def filter_empty_conv list_all_iff)
    then show ?thesis by (auto simp: priced_def amount_or_zero_def)
  qed
  moreover from this have "map (\<lambda>i. amount_or_zero (i_price i)) items = map (\<lambda>i. price) items"
    by (simp add: amount_or_zero_def)
  ultimately show ?thesis by (simp add: list_all_iff map_replicate_const sum_list_replicate)
qed

lemma requote_Inr:
  assumes wf: "db_wf s" and f: "find_order orderId s = Some ord"
    and i: "items = filter (\<lambda>i. i_orderId i = orderId) (order_items s)" "list_all (priced ord) items" "0 < price"
    and run: "requote orderId ord price items s = Inr (d, s')"
  shows "(\<exists>is os. s' = s\<lparr>order_items := is, orders := os\<rparr>)
    \<and> orders s' = update_where (\<lambda>r. o_id r = orderId)
        (\<lambda>r. r\<lparr>o_amount := Some (price * int (length items)), o_version := o_version r + 1\<rparr>) (orders s)
    \<and> o_status ord = ''DRAFT''
    \<and> length (order_items s') = length (order_items s)
    \<and> (\<forall>i \<in> set (order_items s'). i_orderId i = orderId \<longrightarrow> i_price i = Some price)"
proof -
  let ?ids = "map i_id (driftedItems price items)"
  let ?gi = "\<lambda>r. i_orderId r = orderId \<and> i_id r \<in> set ?ids \<and> i_status r = ''PENDING_PAYMENT''"
  let ?g = "\<lambda>r. o_id r = orderId \<and> o_version r = o_version ord \<and> o_status r = ''DRAFT'' \<and> o_paymentStatus r = ''PENDING''"
  let ?f = "\<lambda>r. r\<lparr>o_amount := Some (price * int (length items)), o_version := o_version r + 1\<rparr>"
  have r: "count_where ?g (orders s) = 1"
      "s' = s\<lparr>order_items := update_where ?gi (\<lambda>r. r\<lparr>i_price := Some price\<rparr>) (order_items s), orders := update_where ?g ?f (orders s)\<rparr>"
    using run unfolding requote_def Let_def by (auto simp: tx_simps)
  have ord: "ord \<in> set (orders s)" "o_id ord = orderId" using find_key[OF f[unfolded find_order_def]] by auto
  have g: "?g ord \<and> update_where ?g ?f (orders s) = update_where (\<lambda>x. o_id x = o_id ord) ?f (orders s)"
    by (rule guard_row[OF db_wfD(1)[OF wf] ord(1) _ r(1)]) (use ord in auto)
  have price_of: "i_price (if ?gi x then x\<lparr>i_price := Some price\<rparr> else x) = Some price"
    if x: "x \<in> set (order_items s)" "i_orderId x = orderId" for x
  proof -
    have "x \<in> set items" using x i(1) by simp
    then have px: "priced ord x" using i(2) by (simp add: list_all_iff)
    show ?thesis
    proof (cases "i_price x = Some price")
      case False
      then have "x \<in> set (driftedItems price items)"
        using px \<open>x \<in> set items\<close> by (auto simp: driftedItems_def priced_def amount_or_zero_def)
      then show ?thesis using px x by (simp add: priced_def)
    qed simp
  qed
  have keep: "i_orderId (if ?gi x then x\<lparr>i_price := Some price\<rparr> else x) = i_orderId x" for x by simp
  have "i_price y = Some price" if y: "y \<in> set (order_items s')" "i_orderId y = orderId" for y
  proof -
    have "order_items s' = map (\<lambda>x. if ?gi x then x\<lparr>i_price := Some price\<rparr> else x) (order_items s)"
      using r(2) by (simp add: update_where_def)
    then have "y \<in> (\<lambda>x. if ?gi x then x\<lparr>i_price := Some price\<rparr> else x) ` set (order_items s)"
      using y(1) by (simp only: set_map)
    then obtain x where x: "x \<in> set (order_items s)" "y = (if ?gi x then x\<lparr>i_price := Some price\<rparr> else x)"
      by (rule imageE)
    have "i_orderId x = orderId" using keep[of x] y(2) unfolding x(2) by (rule trans[OF sym])
    then show ?thesis unfolding x(2) by (rule price_of[OF x(1)])
  qed
  then have "\<forall>i \<in> set (order_items s'). i_orderId i = orderId \<longrightarrow> i_price i = Some price" by blast
  moreover have "\<exists>is os. s' = s\<lparr>order_items := is, orders := os\<rparr>" using r(2) by blast
  moreover have "orders s' = update_where (\<lambda>r. o_id r = orderId) ?f (orders s)" using r(2) g ord(2) by simp
  moreover have "length (order_items s') = length (order_items s)" using r(2) by simp
  ultimately show ?thesis using g by blast
qed

section \<open>Many submissions\<close>

text \<open>One submission after the other, each in calm weather: the orders whose payment was captured.\<close>

fun submit_history ::
    "(string \<Rightarrow> rat option) \<Rightarrow> env \<Rightarrow> bool \<Rightarrow> (string \<times> string \<times> string \<times> string option \<times> submit_command option) list \<Rightarrow> db
     \<Rightarrow> string list \<times> db" where
  "submit_history to_number env comms [] s = ([], s)"
| "submit_history to_number env comms ((orderId, userId, userOrgId, actorRole, command) # xs) s =
     (let (r, s1) = submitPayment to_number env comms calm orderId userId userOrgId actorRole command s;
          (paid, s2) = submit_history to_number env comms xs s1
      in ((case r of Inl e \<Rightarrow> [] | Inr row \<Rightarrow> [o_id row]) @ paid, s2))"

definition past_draft :: "string \<Rightarrow> db \<Rightarrow> bool" where
  "past_draft i s \<longleftrightarrow> (\<exists>ord. find_order i s = Some ord \<and> o_status ord \<noteq> ''DRAFT'')"

lemma submitPayment_calm:
  assumes "submitPayment to_number env comms calm orderId userId userOrgId actorRole command s = (r, s')"
  obtains "s' = s" "\<exists>e. r = Inl e"
  | c expected d where "validateSubmitPaymentCommand (Some c) = Inr expected" "\<exists>e. r = Inl e"
      "submitPaymentTx to_number env comms orderId userId userOrgId actorRole c expected s = Inr (Requote d, s')"
  | c expected row ids where "validateSubmitPaymentCommand (Some c) = Inr expected" "r = Inr row"
      "submitPaymentTx to_number env comms orderId userId userOrgId actorRole c expected s = Inr (Captured row ids, s')"
proof (cases "validateSubmitPaymentCommand command")
  case (Inl e)
  then show thesis using assms that(1) by (auto simp: submitPayment_def)
next
  case (Inr expected)
  then obtain c where c: "command = Some c"
    by (cases command) (auto simp: validateSubmitPaymentCommand_def Let_def)
  let ?op = "submitPaymentTx to_number env comms orderId userId userOrgId actorRole c expected"
  obtain q s1 where q: "retry_loop isRetryablePrismaTransactionError calm ?op 5 1 s = (q, s1)" by fastforce
  have loop: "case q of Inr x \<Rightarrow> ?op s = Inr (x, s1) | Inl e \<Rightarrow> s1 = s"
    using retry_loop_calm[where w = calm and retryable = isRetryablePrismaTransactionError and op = ?op and left = 5 and n = 1
        and s = s] q by (simp add: calm_def split: sum.splits)
  show thesis
  proof (cases q)
    case (Inl e)
    then show thesis using assms that(1) loop q Inr c by (auto simp: submitPayment_def runPaymentSerializable_def split: if_splits)
  next
    case (Inr x)
    then show thesis
      using assms that(2,3) loop q c \<open>validateSubmitPaymentCommand command = Inr expected\<close>
      by (cases x) (auto simp: submitPayment_def runPaymentSerializable_def)
  qed
qed

lemma past_draft_kept:
  assumes "find_order i s = Some ord" "o_status ord = ''DRAFT''" "\<And>r. o_id (f r) = o_id r"
    "orders s' = update_where (\<lambda>r. o_id r = i) f (orders s)"
  shows "\<not> past_draft i s \<and> (past_draft j s \<longrightarrow> past_draft j s') \<and> find_order i s' = Some (f ord)"
  using assms find_one[of o_id i "orders s" ord f] by (auto simp: past_draft_def find_order_def)

lemma submit_step:
  assumes wf: "db_wf s"
    and run: "submitPayment to_number env comms calm orderId userId userOrgId actorRole command s = (r, s')"
  shows "db_wf s' \<and> (past_draft j s \<longrightarrow> past_draft j s')
    \<and> (\<forall>row. r = Inr row \<longrightarrow> o_id row = orderId \<and> \<not> past_draft orderId s \<and> past_draft orderId s')"
  using run
proof (cases rule: submitPayment_calm)
  case 1
  then show ?thesis using wf by auto
next
  case (2 c expected d)
  obtain ord w items amount price where c: "checked_out orderId userId userOrgId actorRole c ord w items amount price s"
    and k: "requote orderId ord price items s = Inr (d, s')"
    by (rule submitPaymentTx_Inr[OF wf 2(1,3)]) auto
  have f: "find_order orderId s = Some ord" "items = filter (\<lambda>i. i_orderId i = orderId) (order_items s)"
      "list_all (priced ord) items" "0 < price" "o_status ord = ''DRAFT''"
    using c unfolding checked_out_def on_offer_def by blast+
  note R = requote_Inr[OF wf f(1-4) k]
  have "db_wf s'" using R wf by (auto simp: db_wf_def map_update_where)
  then show ?thesis using past_draft_kept[OF f(1,5), of _ s' j] R 2(2) by auto
next
  case (3 c expected row ids)
  obtain ord w items amount price where c: "checked_out orderId userId userOrgId actorRole c ord w items amount price s"
    and k: "capture to_number env comms ord w userId userOrgId s = Inr ((row, ids), s')"
    by (rule submitPaymentTx_Inr[OF wf 3(1,3)]) auto
  have f: "find_order (o_id ord) s = Some ord" "o_status ord = ''DRAFT''" "o_id ord = orderId"
    using c unfolding checked_out_def by auto
  note C = capture_Inr[OF wf f(1) k]
  have o1: "orders s' = update_where (\<lambda>r. o_id r = orderId) (captured_row env) (orders s)"
    using C f(3) by (auto simp: captured_between_def)
  have "find_order orderId s' = Some (captured_row env ord) \<and> \<not> past_draft orderId s \<and> (past_draft j s \<longrightarrow> past_draft j s')"
    using past_draft_kept[OF _ f(2) _ o1, of j] f(1,3) by (simp add: swapped_def)
  moreover have "db_wf s'" using C captured_wf[OF wf] by blast
  ultimately show ?thesis using C 3(2) f(3) by (auto simp: past_draft_def swapped_def)
qed

section \<open>An example\<close>

text \<open>A cart of one placement of 3 USD, on offer at that price, and the wallet of its organization.\<close>

definition cart_db :: db where
  "cart_db = empty_db\<lparr>orders := [example_order\<lparr>o_status := ''DRAFT'', o_paymentStatus := ''PENDING''\<rparr>],
     wallets := [example_wallet],
     order_items := [\<lparr>i_id = ''i1'', i_orderId = ''o1'', i_websiteId = Some ''s1'', i_price = Some (300 * CENT),
       i_status = ''PENDING_PAYMENT''\<rparr>],
     listing_services := [\<lparr>ls_id = ''ls1'', ls_listingId = ''l1'', ls_serviceType = ''GUEST_POST'', ls_price = 300 * CENT,
       ls_currency = ''USD'', ls_availability = ''AVAILABLE''\<rparr>],
     listings := [\<lparr>li_id = ''l1'', li_status = ''APPROVED'', li_currency = ''USD'', li_websiteId = Some ''s1''\<rparr>],
     websites := [\<lparr>ws_id = ''s1'', ws_publisherId = Some ''p1'', ws_isActive = True, ws_verificationStatus = ''VERIFIED'', ws_ownershipType = ''PUBLISHER''\<rparr>]\<rparr>"

text \<open>The same cart after the price on offer has risen to 4 USD.\<close>

definition stale_cart_db :: db where
  "stale_cart_db = cart_db\<lparr>listing_services := [\<lparr>ls_id = ''ls1'', ls_listingId = ''l1'', ls_serviceType = ''GUEST_POST'',
     ls_price = 400 * CENT, ls_currency = ''USD'', ls_availability = ''AVAILABLE''\<rparr>]\<rparr>"

definition no_number :: "string \<Rightarrow> rat option" where
  "no_number t = None"

definition cart_command :: submit_command where
  "cart_command = \<lparr>sc_expectedVersion = Some 4, sc_expectedAmount = JText ''3.00'', sc_expectedCurrency = JText ''USD''\<rparr>"

lemmas cart_defs = cart_db_def stale_cart_db_def cart_command_def example_defs

definition paid_cart :: "submit_outcome \<times> db" where
  "paid_cart = projr (submitPaymentTx no_number example_env True ''o1'' ''u1'' ''g1'' None cart_command ''3.00'' cart_db)"

definition requoted_cart :: "submit_outcome \<times> db" where
  "requoted_cart = projr (submitPaymentTx no_number example_env True ''o1'' ''u1'' ''g1'' None cart_command ''3.00'' stale_cart_db)"

lemma paid_cart_run:
  "case submitPaymentTx no_number example_env True ''o1'' ''u1'' ''g1'' None cart_command ''3.00'' cart_db of
     Inl e \<Rightarrow> False | Inr (r, s) \<Rightarrow> (case r of Captured row ids \<Rightarrow> o_id row = ''o1'' | Requote d \<Rightarrow> False)"
  by code_simp

lemma requoted_cart_run:
  "case submitPaymentTx no_number example_env True ''o1'' ''u1'' ''g1'' None cart_command ''3.00'' stale_cart_db of
     Inl e \<Rightarrow> False | Inr (r, s) \<Rightarrow> (case r of Captured row ids \<Rightarrow> False | Requote d \<Rightarrow> True)"
  by code_simp

lemma paid_cart_done:
  "\<exists>row ids. submitPaymentTx no_number example_env True ''o1'' ''u1'' ''g1'' None cart_command ''3.00'' cart_db
     = Inr (Captured row ids, snd paid_cart)"
  using paid_cart_run by (auto simp: paid_cart_def split: sum.splits submit_outcome.splits)

lemma requoted_cart_done:
  "\<exists>d. submitPaymentTx no_number example_env True ''o1'' ''u1'' ''g1'' None cart_command ''3.00'' stale_cart_db
     = Inr (Requote d, snd requoted_cart)"
  using requoted_cart_run by (auto simp: requoted_cart_def split: sum.splits submit_outcome.splits)

lemma cart_command_valid: "validateSubmitPaymentCommand (Some cart_command) = Inr ''3.00''"
  by code_simp

lemma cart_db_wf: "db_wf cart_db" "db_wf stale_cart_db"
  by (simp_all add: db_wf_def cart_defs)

section \<open>Properties\<close>

text \<open>C11: a captured payment took exactly the reviewed amount: the buyer is the creator of the order or an owner, the
  order is the draft at the version and amount he confirmed, every item waits for payment at the price now on offer and
  they add up to the amount, the wallet of the organization held it; the order is then submitted and paid, the amount has left
  the wallet, the two ledger rows are there and no other money has moved.\<close>
theorem submit_payment_exact:
  assumes "db_wf s" "validateSubmitPaymentCommand (Some c) = Inr expected"
    "submitPaymentTx to_number env comms orderId userId userOrgId actorRole c expected s = Inr (Captured row ids, s')"
  shows "\<exists>ord w items amount price. checked_out orderId userId userOrgId actorRole c ord w items amount price s
    \<and> list_all (\<lambda>i. i_price i = Some price) items \<and> amount = price * int (length items)
    \<and> amount \<le> available_of (w_id w) s \<and> \<not> uncovered_dispute (w_id w) s
    \<and> row = captured_row env ord \<and> captured_between env ord w amount s s' \<and> db_wf s'"
proof (rule submitPaymentTx_Inr[OF assms])
  fix ord w items amount price
  assume c: "checked_out orderId userId userOrgId actorRole c ord w items amount price s"
    and d: "driftedItems price items \<noteq> [] \<and> (\<exists>d. Captured row ids = Requote d \<and> requote orderId ord price items s = Inr (d, s'))
     \<or> driftedItems price items = [] \<and> (\<exists>row' ids'. Captured row ids = Captured row' ids'
        \<and> capture to_number env comms ord w userId userOrgId s = Inr ((row', ids'), s'))"
  have f: "find_order (o_id ord) s = Some ord" "amount_or_zero (o_amount ord) = amount"
    using c by (simp_all add: checked_out_def amount_or_zero_def)
  have k: "driftedItems price items = []" "capture to_number env comms ord w userId userOrgId s = Inr ((row, ids), s')"
    using d by auto
  have "list_all (priced ord) items" "amount = sum_list (map (\<lambda>i. amount_or_zero (i_price i)) items)"
    using c unfolding checked_out_def by blast+
  then have "list_all (\<lambda>i. i_price i = Some price) items" "amount = price * int (length items)"
    using at_price[OF _ k(1)] by simp_all
  then show ?thesis using c capture_Inr[OF assms(1) f(1) k(2)] captured_wf[OF assms(1)] f(2) by metis
qed

theorem submit_payment_exact_witness:
  "\<exists>ord w items amount price. checked_out ''o1'' ''u1'' ''g1'' None cart_command ord w items amount price cart_db
     \<and> captured_between example_env ord w amount cart_db (snd paid_cart)"
proof -
  obtain row ids where "submitPaymentTx no_number example_env True ''o1'' ''u1'' ''g1'' None cart_command ''3.00'' cart_db
     = Inr (Captured row ids, snd paid_cart)" using paid_cart_done by blast
  from submit_payment_exact[OF cart_db_wf(1) cart_command_valid this] show ?thesis by blast
qed

text \<open>a submission that finds other prices on offer moves no money: it re-prices the items of the cart and the order
  to the price on offer, raises the version so that the old confirmation no longer fits, and leaves the order a draft.\<close>
theorem requote_moves_no_money:
  assumes "db_wf s" "validateSubmitPaymentCommand (Some c) = Inr expected"
    "submitPaymentTx to_number env comms orderId userId userOrgId actorRole c expected s = Inr (Requote d, s')"
  shows "\<exists>ord w items amount price. checked_out orderId userId userOrgId actorRole c ord w items amount price s
    \<and> driftedItems price items \<noteq> [] \<and> (\<exists>is os. s' = s\<lparr>order_items := is, orders := os\<rparr>)
    \<and> orders s' = update_where (\<lambda>r. o_id r = orderId)
        (\<lambda>r. r\<lparr>o_amount := Some (price * int (length items)), o_version := o_version r + 1\<rparr>) (orders s)
    \<and> length (order_items s') = length (order_items s)
    \<and> (\<forall>i \<in> set (order_items s'). i_orderId i = orderId \<longrightarrow> i_price i = Some price)"
proof (rule submitPaymentTx_Inr[OF assms])
  fix ord w items amount price
  assume c: "checked_out orderId userId userOrgId actorRole c ord w items amount price s"
    and e: "driftedItems price items \<noteq> [] \<and> (\<exists>d'. Requote d = Requote d' \<and> requote orderId ord price items s = Inr (d', s'))
     \<or> driftedItems price items = [] \<and> (\<exists>row' ids'. Requote d = Captured row' ids'
        \<and> capture to_number env comms ord w userId userOrgId s = Inr ((row', ids'), s'))"
  have k: "driftedItems price items \<noteq> []" "requote orderId ord price items s = Inr (d, s')" using e by auto
  have f: "find_order orderId s = Some ord" "items = filter (\<lambda>i. i_orderId i = orderId) (order_items s)"
      "list_all (priced ord) items" "0 < price"
    using c by (auto simp: checked_out_def on_offer_def)
  show ?thesis using c k(1) requote_Inr[OF assms(1) f k(2)] by blast
qed

theorem requote_moves_no_money_witness:
  "\<exists>os is. snd requoted_cart = stale_cart_db\<lparr>order_items := is, orders := os\<rparr>"
proof -
  obtain d where "submitPaymentTx no_number example_env True ''o1'' ''u1'' ''g1'' None cart_command ''3.00'' stale_cart_db
     = Inr (Requote d, snd requoted_cart)" using requoted_cart_done by blast
  from requote_moves_no_money[OF cart_db_wf(2) cart_command_valid this] show ?thesis by blast
qed

text \<open>C19: an order is paid at most once: whatever submissions follow each other, of whatever users and with whatever
  commands, no order has its payment captured twice, and none that was already past its draft.\<close>
theorem payment_once:
  assumes "db_wf s" "submit_history to_number env comms xs s = (paid, s')"
  shows "distinct paid \<and> (\<forall>i \<in> set paid. \<not> past_draft i s)"
proof -
  have "distinct paid \<and> (\<forall>i \<in> set paid. \<not> past_draft i s) \<and> (\<forall>i. past_draft i s \<longrightarrow> i \<notin> set paid)"
    using assms
  proof (induction to_number env comms xs s arbitrary: paid s' rule: submit_history.induct)
    case 1
    then show ?case by simp
  next
    case (2 to_number env comms orderId userId userOrgId actorRole command xs s)
    obtain r s1 where r: "submitPayment to_number env comms calm orderId userId userOrgId actorRole command s = (r, s1)"
      by fastforce
    obtain more s2 where m: "submit_history to_number env comms xs s1 = (more, s2)" by fastforce
    note S = submit_step[OF 2(2) r]
    have IH: "distinct more \<and> (\<forall>i \<in> set more. \<not> past_draft i s1)" using 2(1)[OF r[symmetric] refl _ m] S by auto
    have "paid = (case r of Inl e \<Rightarrow> [] | Inr row \<Rightarrow> [o_id row]) @ more" using 2(3) r m by simp
    then show ?case using IH S by (cases r) auto
  qed
  then show ?thesis by blast
qed

theorem payment_once_witness:
  "fst (submit_history no_number example_env True
     [(''o1'', ''u1'', ''g1'', None, Some cart_command), (''o1'', ''u1'', ''g1'', None, Some cart_command)] cart_db) = [''o1'']
   \<and> distinct (fst (submit_history no_number example_env True
     [(''o1'', ''u1'', ''g1'', None, Some cart_command), (''o1'', ''u1'', ''g1'', None, Some cart_command)] cart_db))"
proof -
  have "fst (submit_history no_number example_env True
     [(''o1'', ''u1'', ''g1'', None, Some cart_command), (''o1'', ''u1'', ''g1'', None, Some cart_command)] cart_db) = [''o1'']"
    by code_simp
  then show ?thesis using payment_once[OF cart_db_wf(1) surjective_pairing] by blast
qed

end
