(* ===== verification/Settlement_Service.thy ===== *)
theory Settlement_Service
  imports Withdrawals Order_Payment
begin

text \<open>
  The settlement service of the API (\<open>settlements.service.ts\<close>): a settlement is created for a
  delivered order, approved by the customer and by staff, released to the balance of the publisher,
  cancelled or returned to review.  An operation first reads and checks outside a transaction, then
  runs a serializable transaction on what it has read, which re-evaluates the gate under the lock
  of the order.  A transaction that records new evidence of reuse commits it and refuses afterwards.
\<close>

section \<open>Gated transactions\<close>

datatype 'a gated = GateBlocked "string list" "string option" | Passed 'a

definition settlement_blocked :: "string list \<Rightarrow> failure" where
  "settlement_blocked reasons =
     coded_request ''SETTLEMENT_BLOCKED'' (''Settlement blocked: '' @ join ''; '' reasons)"

definition gateSettlement :: "env \<Rightarrow> string \<Rightarrow> (locked_eligibility \<Rightarrow> 'a tx) \<Rightarrow> 'a gated tx" where
  "gateSettlement env orderId k =
     andThen (evaluateLockedSettlementEligibility env orderId) (\<lambda>eligibility.
     if \<not> el_eligible (le_eligibility eligibility) then
       (if le_urlReuseEvidenceCreated eligibility
        then ret (GateBlocked (el_reasons (le_eligibility eligibility)) (le_urlReuseCommunicationDedupKey eligibility))
        else throw (settlement_blocked (el_reasons (le_eligibility eligibility))))
     else andThen (k eligibility) (\<lambda>x. ret (Passed x)))"

text \<open>What an operation asks of the outside after its transaction has committed.\<close>

datatype api_effect =
    DispatchKey string
  | DispatchEvents "string list"
  | TrustRecompute string string string
  | PushInApp string "string option" string string string

definition runGated :: "bool \<Rightarrow> weather \<Rightarrow> 'a gated tx \<Rightarrow> db \<Rightarrow> ((failure + 'a) \<times> api_effect list) \<times> db" where
  "runGated comms w operation s =
     (case runSerializableTransactionWithRetry w operation s of
        (Inl e, s') \<Rightarrow> ((Inl e, []), s')
      | (Inr (GateBlocked reasons key), s') \<Rightarrow>
          ((Inl (settlement_blocked reasons),
            if comms then (case key of None \<Rightarrow> [] | Some k \<Rightarrow> if k = [] then [] else [DispatchKey k]) else []), s')
      | (Inr (Passed x), s') \<Rightarrow> ((Inr x, []), s'))"

section \<open>Shared pieces\<close>

definition invariant_violations :: "int \<Rightarrow> int \<Rightarrow> string list" where
  "invariant_violations withdrawable debt =
     (if withdrawable < 0 then [''withdrawableBalance must be finite and non-negative''] else [])
     @ (if debt < 0 then [''debtBalance must be finite and non-negative''] else [])"

definition checkPublisherBalanceInvariant :: "int \<Rightarrow> int \<Rightarrow> string \<Rightarrow> unit tx" where
  "checkPublisherBalanceInvariant withdrawable debt place =
     (let violations = invariant_violations withdrawable debt
      in if length violations = 0 then ret ()
         else throw (Failure ''PublisherBalanceInvariantError''
           (''Publisher balance invariant failed in '' @ place @ '': '' @ join '', '' violations)))"

text \<open>The fee is rounded to cents, half away from zero; the net is what remains.\<close>

definition splitPlatformFee :: "int \<Rightarrow> rat \<Rightarrow> int \<times> int" where
  "splitPlatformFee gross feeFraction =
     (let exact = of_int gross * feeFraction;
          cents = \<lfloor>\<bar>exact\<bar> / of_int CENT + 1 / 2\<rfloor>;
          fee = (if exact < 0 then - cents else cents) * CENT
      in (fee, gross - fee))"

definition resolvePlatformFeePolicy :: "fee_snapshot tx" where
  "resolvePlatformFeePolicy =
     andThen (query platform_settings) (\<lambda>table. lift_sum error (resolvePlatformFeePolicyCore table))"

definition amount_invalid :: "int option \<Rightarrow> bool" where
  "amount_invalid amount \<longleftrightarrow> (case amount of None \<Rightarrow> True | Some a \<Rightarrow> a \<le> 0 \<or> \<not> CENT dvd a)"

text \<open>A settlement with its order, as every operation reads it first.\<close>

definition settlement_with_order :: "string \<Rightarrow> (settlement_row \<times> order_row) tx" where
  "settlement_with_order i =
     andThen (query (find_settlement i)) (\<lambda>found.
     case found of
       None \<Rightarrow> throw (not_found ''Settlement not found'')
     | Some st \<Rightarrow>
         andThen (query (find_order (s_orderId st))) (\<lambda>ord.
         andThen (found_or_throw ord) (\<lambda>r. ret (st, r))))"

definition settlement_or_throw :: "string \<Rightarrow> settlement_row tx" where
  "settlement_or_throw i = andThen (query (find_settlement i)) found_or_throw"

text \<open>A change of status: the version moves with it, and the time of the update.\<close>

definition move_settlement :: "env \<Rightarrow> string \<Rightarrow> settlement_row \<Rightarrow> settlement_row" where
  "move_settlement env status r =
     r\<lparr>s_status := status, s_version := s_version r + 1, s_updatedAt := env_now env\<rparr>"

section \<open>Creating a settlement\<close>

text \<open>The tier of a publisher, \<open>NEW\<close> where there is none.\<close>

definition tier_name :: "string option \<Rightarrow> publisher_tier" where
  "tier_name t = (case t of None \<Rightarrow> T_NEW | Some name \<Rightarrow> tier_of name)"

text \<open>
  The first check, outside a transaction: the order and its gate.  A refusal of the gate is
  written to the audit log at once.
\<close>

definition createSettlementCheck :: "env \<Rightarrow> string \<Rightarrow> string option \<Rightarrow> string \<Rightarrow> db \<Rightarrow> (failure + order_row) \<times> db" where
  "createSettlementCheck env orderId organizationId userId s =
     (let found = find (\<lambda>r. o_id r = orderId \<and> (if truthy organizationId then Some (o_organizationId r) = organizationId else True)) (orders s)
      in case assertApiFinanceOperationAllowed env F_NEW_LIABILITY s of
           Inl e \<Rightarrow> (Inl e, s)
         | Inr _ \<Rightarrow>
             (case found of
                None \<Rightarrow> (Inl (not_found ''Order not found''), s)
              | Some ord \<Rightarrow>
                  if o_status ord \<noteq> ''DELIVERED''
                  then (Inl (bad_request ''Order must be DELIVERED to create settlement''), s)
                  else
                    let eligibility = evaluateSettlementEligibility (buildSnapshotForOrder orderId (find_order orderId s) s)
                    in if \<not> el_eligible eligibility then
                         (case audit_log env ''ORDER_DELIVERY_SETTLEMENT_BLOCKED'' ''Order'' orderId
                            (spread (orderEventMetadata ord) [(''reasons'', ListJ (map TextJ (el_reasons eligibility)))])
                            (Some userId) (Some (o_organizationId ord)) s of
                            Inl e \<Rightarrow> (Inl e, s)
                          | Inr (_, s') \<Rightarrow> (Inl (settlement_blocked (el_reasons eligibility)), s'))
                       else if amount_invalid (o_amount ord)
                       then (Inl (bad_request ''Order has no amount to settle''), s)
                       else (Inr ord, s)))"

text \<open>The order as the transaction re-reads it, and the publisher its website names.\<close>

definition lockedOrder :: "string \<Rightarrow> string option \<Rightarrow> order_row \<Rightarrow> order_row tx" where
  "lockedOrder orderId organizationId ord =
     andThen (query (find_order orderId)) (\<lambda>found.
     case found of
       None \<Rightarrow> throw (not_found ''Order not found'')
     | Some locked \<Rightarrow>
         andThen (require (\<not> (o_version locked \<noteq> o_version ord \<or> o_organizationId locked \<noteq> o_organizationId ord
              \<or> truthy organizationId \<and> Some (o_organizationId locked) \<noteq> organizationId))
           (http_conflict ''Order ownership or financial state changed while settlement was being prepared. Retry.'')) (\<lambda>_.
         andThen (require (\<not> (o_currency locked \<noteq> ''USD'' \<or> o_status locked \<noteq> ''DELIVERED'' \<or> o_paymentStatus locked \<noteq> ''PAID''
              \<or> amount_invalid (o_amount locked)))
           (bad_request ''Order must be paid, delivered, exact-USD, and have a positive whole-cent amount to settle'')) (\<lambda>_.
         andThen (require (truthy (o_websiteId locked))
           (bad_request ''Order has no canonical website for publisher attribution'')) (\<lambda>_.
         ret locked))))"

definition attributedPublisher :: "order_row \<Rightarrow> (string \<times> string option) tx" where
  "attributedPublisher locked =
     andThen (query (\<lambda>s. find (\<lambda>w. Some (ws_id w) = o_websiteId locked) (websites s))) (\<lambda>website.
     case website of
       Some w \<Rightarrow>
         (case ws_publisherId w of
            Some p \<Rightarrow> if p = [] then throw (bad_request ''Order website has no publisher for settlement attribution'')
                       else ret (p, Some (ws_ownershipType w))
          | None \<Rightarrow> throw (bad_request ''Order website has no publisher for settlement attribution''))
     | None \<Rightarrow> throw (bad_request ''Order website has no publisher for settlement attribution''))"

text \<open>The service the order was for, and its price.\<close>

definition servicePrice :: "order_row \<Rightarrow> (string \<times> int option) tx" where
  "servicePrice locked =
     (case o_listingServiceId locked of
        None \<Rightarrow> ret (o_type locked, None)
      | Some i \<Rightarrow>
          if i = [] then ret (o_type locked, None)
          else andThen (query (\<lambda>s. find (\<lambda>l. ls_id l = i) (listing_services s))) (\<lambda>found.
               case found of
                 None \<Rightarrow> throw (http_conflict ''Order listing-service snapshot is unavailable. Settlement requires review.'')
               | Some l \<Rightarrow> ret (ls_serviceType l, Some (ls_price l))))"

definition review_days :: "(string \<Rightarrow> rat option) \<Rightarrow> env \<Rightarrow> string option \<Rightarrow> rat" where
  "review_days to_number env tier = fst (getSettlementReviewDays to_number (tier_name tier)
     (env_process env ''SETTLEMENT_REVIEW_DAYS'') \<lparr>warnedInvalidOverrides = Map.empty, warn_log = []\<rparr>)"

definition review_ends :: "(string \<Rightarrow> rat option) \<Rightarrow> env \<Rightarrow> string option \<Rightarrow> int" where
  "review_ends to_number env tier = \<lfloor>of_int (env_now env) + review_days to_number env tier * 86400000\<rfloor>"

text \<open>The creation checks the key and that an order has one settlement that is not cancelled.\<close>

definition create_settlement :: "env \<Rightarrow> settlement_row \<Rightarrow> settlement_row tx" where
  "create_settlement env row =
     andThen (fresh_id env) (\<lambda>i.
     andThen (query settlements) (\<lambda>rows.
     andThen (require (list_all (\<lambda>r. s_id r \<noteq> i \<and> (s_orderId r \<noteq> s_orderId row \<or> s_status r = ''CANCELLED'')) rows)
       (bad_request ''Settlement already exists for this order'')) (\<lambda>_.
     andThen (modify (\<lambda>s. s\<lparr>settlements := settlements s @ [row\<lparr>s_id := i\<rparr>]\<rparr>)) (\<lambda>_.
     ret (row\<lparr>s_id := i\<rparr>)))))"

definition policy_text :: "release_policy \<Rightarrow> string" where
  "policy_text p = (case p of AUTO \<Rightarrow> ''AUTO'' | MANUAL \<Rightarrow> ''MANUAL'')"

definition new_settlement ::
    "env \<Rightarrow> order_row \<Rightarrow> string \<Rightarrow> string option \<Rightarrow> string \<times> int option \<Rightarrow> fee_snapshot \<Rightarrow> int \<times> int \<Rightarrow> int \<Rightarrow> release_policy \<Rightarrow> settlement_row" where
  "new_settlement env locked publisherId ownerType service policy split reviewEndsAt releasePolicy =
     \<lparr>s_id = [], s_orderId = o_id locked, s_publisherId = publisherId, s_currency = ''USD'', s_publisherAmount = snd split,
      s_status = ''PENDING'', s_reviewEndsAt = Some reviewEndsAt, s_releasePolicy = policy_text releasePolicy,
      s_settledAt = None, s_version = 0, s_updatedAt = env_now env, s_serviceType = Some (fst service),
      s_grossAmount = (case o_amount locked of None \<Rightarrow> 0 | Some a \<Rightarrow> a), s_platformFee = fst split, s_platformFeeBps = Some (fs_basisPoints policy),
      s_feePolicyVersion = Some (fs_policyVersion policy), s_listingServiceId = o_listingServiceId locked,
      s_ownerType = ownerType, s_fulfillmentChannel = o_fulfillmentChannel locked, s_unitPrice = snd service,
      s_createdAt = env_now env\<rparr>"

text \<open>The event and the audit row of a creation.\<close>

definition recordCreation :: "env \<Rightarrow> string \<Rightarrow> order_row \<Rightarrow> settlement_row \<Rightarrow> int \<Rightarrow> unit tx" where
  "recordCreation env userId locked st grossAmount =
     andThen (create_event \<lparr>e_orderId = o_id locked, e_settlementId = Some (s_id st), e_eventType = ''SETTLEMENT_CREATED'',
       e_actorId = Some userId,
       e_message = ''Settlement created '' @ em_dash @ '' customer amount: '' @ decimalString grossAmount
         @ '', publisher amount: '' @ decimalString (s_publisherAmount st),
       e_metadata = ObjJ [(''settlementId'', TextJ (s_id st)), (''releasePolicy'', TextJ (s_releasePolicy st)),
         (''publisherAmount'', DecJ (s_publisherAmount st)), (''platformFee'', DecJ (s_platformFee st))]\<rparr>) (\<lambda>_.
     audit_log env ''SETTLEMENT_CREATED'' ''Settlement'' (s_id st)
       (spread [(''orderId'', TextJ (o_id locked)), (''publisherAmount'', DecJ (s_publisherAmount st)),
                (''platformFee'', DecJ (s_platformFee st))] (orderEventMetadata locked))
       (Some userId) (Some (o_organizationId locked)))"

definition createSettlementTx ::
    "(string \<Rightarrow> rat option) \<Rightarrow> env \<Rightarrow> string \<Rightarrow> string option \<Rightarrow> string \<Rightarrow> order_row \<Rightarrow> settlement_row gated tx" where
  "createSettlementTx to_number env orderId organizationId userId ord =
     gateSettlement env orderId (\<lambda>eligibility.
     andThen (require (sn_orderVersion (le_snapshot eligibility) = o_version ord)
       (http_conflict ''Order financial state changed while settlement was being prepared. Retry.'')) (\<lambda>_.
     andThen (lockedOrder orderId organizationId ord) (\<lambda>locked.
     andThen (attributedPublisher locked) (\<lambda>(publisherId, ownerType).
     andThen (query (\<lambda>s. list_ex (\<lambda>r. s_orderId r = orderId \<and> s_status r \<noteq> ''CANCELLED'') (settlements s))) (\<lambda>existing.
     andThen (require (\<not> existing) (bad_request ''Settlement already exists for this order'')) (\<lambda>_.
     andThen (servicePrice locked) (\<lambda>service.
     andThen resolvePlatformFeePolicy (\<lambda>feePolicy.
     let grossAmount = (case o_amount locked of None \<Rightarrow> 0 | Some a \<Rightarrow> a);
         (platformFee, publisherAmount) = splitPlatformFee grossAmount (fs_fraction feePolicy)
     in andThen (require (\<not> (platformFee < 0 \<or> publisherAmount \<le> 0 \<or> platformFee + publisherAmount \<noteq> grossAmount))
          (bad_request ''Settlement fee split is not a valid exact-USD allocation'')) (\<lambda>_.
        andThen (query (\<lambda>s. map_option p_tier (find (\<lambda>p. p_id p = publisherId) (publishers s)))) (\<lambda>tier.
        andThen (query (\<lambda>s. map x_type (filter (\<lambda>x. x_orderId x = orderId \<and> x_resolution x = None) (fraud_flags s)))) (\<lambda>fraudFlags.
        andThen (loadSettlementCustomerHistory (Some (o_organizationId locked)) (Some (o_customerId locked))) (\<lambda>customerHistory.
        let releasePolicy = computeSettlementReleasePolicy defaultWorkflowConfig (o_verifyMethod locked)
              (Some (amount_number grossAmount)) tier fraudFlags (Some customerHistory)
        in andThen (create_settlement env (new_settlement env locked publisherId ownerType service feePolicy
             (platformFee, publisherAmount) (review_ends to_number env tier) releasePolicy)) (\<lambda>st.
           andThen (recordCreation env userId locked st grossAmount) (\<lambda>_.
           ret st)))))))))))))) "

definition createSettlement ::
    "(string \<Rightarrow> rat option) \<Rightarrow> env \<Rightarrow> bool \<Rightarrow> weather \<Rightarrow> string \<Rightarrow> string option \<Rightarrow> string \<Rightarrow> db
       \<Rightarrow> ((failure + settlement_row) \<times> api_effect list) \<times> db" where
  "createSettlement to_number env comms w orderId organizationId userId s =
     (case createSettlementCheck env orderId organizationId userId s of
        (Inl e, s1) \<Rightarrow> ((Inl e, []), s1)
      | (Inr ord, s1) \<Rightarrow> runGated comms w (createSettlementTx to_number env orderId organizationId userId ord) s1)"

section \<open>Approval by the customer\<close>

text \<open>The checks before the transaction.\<close>

definition customerApproveCheck ::
    "env \<Rightarrow> string \<Rightarrow> string \<Rightarrow> string \<Rightarrow> string option \<Rightarrow> (settlement_row \<times> order_row) tx" where
  "customerApproveCheck env i userId organizationId actorCustomerRole =
     andThen (assertApiFinanceOperationAllowed env F_OPERATOR_DECISION) (\<lambda>_.
     andThen (settlement_with_order i) (\<lambda>(st, ord).
     andThen (require (o_organizationId ord = organizationId)
       (forbidden ''Settlement does not belong to your organization'')) (\<lambda>_.
     andThen (assertOwnerOrCreator (o_customerId ord) userId actorCustomerRole (Some ''approve this settlement'')) (\<lambda>_.
     andThen (require (in_review st)
       (bad_request (''Cannot approve settlement in '' @ s_status st @ '' status''))) (\<lambda>_.
     andThen (require (s_currency st = ''USD'') (bad_request ''Settlement currency must be exactly USD'')) (\<lambda>_.
     andThen (query (\<lambda>s. list_ex (\<lambda>d. d_orderId d = s_orderId st \<and> d_status d \<in> {''OPEN'', ''UNDER_REVIEW''}) (order_disputes s)))
       (\<lambda>activeDispute.
     andThen (require (\<not> activeDispute) (bad_request ''Cannot approve settlement while dispute is active'')) (\<lambda>_.
     ret (st, ord)))))))))"

text \<open>The approval of the customer, the event and the audit row.\<close>

definition recordCustomerApproval :: "env \<Rightarrow> settlement_row \<Rightarrow> order_row \<Rightarrow> string \<Rightarrow> string \<Rightarrow> string \<Rightarrow> unit tx" where
  "recordCustomerApproval env st ord userId organizationId role =
     andThen (upsert_approval env (\<lambda>a. a\<lparr>a_approvedBy := userId, a_roleAtTime := role, a_approvedAt := env_now env\<rparr>)
       (new_approval (s_id st) ''CUSTOMER'' userId role)) (\<lambda>_.
     andThen (create_event \<lparr>e_orderId = s_orderId st, e_settlementId = Some (s_id st),
       e_eventType = ''SETTLEMENT_CUSTOMER_APPROVED'', e_actorId = Some userId, e_message = ''Settlement customer-approved'',
       e_metadata = ObjJ [(''settlementId'', TextJ (s_id st)), (''publisherAmount'', DecJ (s_publisherAmount st))]\<rparr>) (\<lambda>_.
     audit_log env ''SETTLEMENT_CUSTOMER_APPROVED'' ''Settlement'' (s_id st)
       (spread (orderEventMetadata ord) [(''orderId'', TextJ (s_orderId st)), (''publisherAmount'', DecJ (s_publisherAmount st))])
       (Some userId) (Some organizationId)))"

definition customerApproveTx ::
    "env \<Rightarrow> settlement_row \<Rightarrow> order_row \<Rightarrow> string \<Rightarrow> string \<Rightarrow> string \<Rightarrow> settlement_row gated tx" where
  "customerApproveTx env st ord userId organizationId role =
     gateSettlement env (s_orderId st) (\<lambda>_.
     andThen (update_settlements
       (\<lambda>r. s_id r = s_id st \<and> in_review r \<and> s_version r = s_version st \<and> s_currency r = ''USD'')
       (\<lambda>r. (move_settlement env ''CUSTOMER_APPROVED'' r)\<lparr>s_currency := ''USD''\<rparr>)) (\<lambda>transitioned.
     andThen (require (transitioned \<noteq> 0) (http_conflict ''Settlement was modified by another request. Retry.'')) (\<lambda>_.
     andThen (settlement_or_throw (s_id st)) (\<lambda>updated.
     andThen (recordCustomerApproval env st ord userId organizationId role) (\<lambda>_.
     ret updated)))))"

definition customerApprove ::
    "env \<Rightarrow> bool \<Rightarrow> weather \<Rightarrow> string \<Rightarrow> string \<Rightarrow> string \<Rightarrow> string \<Rightarrow> string option \<Rightarrow> db
       \<Rightarrow> ((failure + settlement_row) \<times> api_effect list) \<times> db" where
  "customerApprove env comms w i userId organizationId role actorCustomerRole s =
     (case customerApproveCheck env i userId organizationId actorCustomerRole s of
        Inl e \<Rightarrow> ((Inl e, []), s)
      | Inr ((st, ord), _) \<Rightarrow> runGated comms w (customerApproveTx env st ord userId organizationId role) s)"

section \<open>The release of the money\<close>

record release_summary =
  rs_publisherAmount :: string
  rs_debtApplied :: string
  rs_credited :: string
  rs_currency :: string

text \<open>
  Who fulfilled a platform order may not release its settlement: the refusal is audited in the
  transaction it rolls back.  The order is read with few columns, so that the audit rows of a release
  carry \<open>null\<close> for those its metadata helper asks for.
\<close>

definition releaseOrderMetadata :: "order_row \<Rightarrow> (string \<times> json) list" where
  "releaseOrderMetadata r =
     (let channel = o_fulfillmentChannel r
      in [(''listingId'', NullJ), (''listingServiceId'', NullJ), (''serviceType'', NullJ),
          (''fulfillmentChannel'', opt_json channel),
          (''ownerType'', if channel = Some ''PLATFORM'' then TextJ ''PLATFORM''
             else if channel = Some ''PUBLISHER'' then TextJ ''PUBLISHER'' else NullJ),
          (''websiteId'', NullJ), (''amount'', NullJ)])"

definition order_channel :: "order_row \<Rightarrow> db \<Rightarrow> string" where
  "order_channel r s =
     (case o_fulfillmentChannel r of
        Some c \<Rightarrow> c
      | None \<Rightarrow> if (case find (\<lambda>w. Some (ws_id w) = o_websiteId r) (websites s) of
                       None \<Rightarrow> False | Some w \<Rightarrow> ws_ownershipType w = ''PLATFORM'')
                 then ''PLATFORM'' else ''PUBLISHER'')"

definition separation_violation :: "order_row \<Rightarrow> string \<Rightarrow> db \<Rightarrow> string option" where
  "separation_violation r userId s =
     checkSeparationOfDuties (order_channel r s)
       (map_option v_submittedByUserId (active_delivery_row s (o_activeDeliveryVersionId r))) userId"

definition assertSeparation :: "env \<Rightarrow> settlement_row \<Rightarrow> order_row \<Rightarrow> string \<Rightarrow> unit tx" where
  "assertSeparation env st r userId =
     andThen (query (separation_violation r userId)) (\<lambda>violation.
     case violation of
       None \<Rightarrow> ret ()
     | Some v \<Rightarrow>
         andThen (audit_log env ''ORDER_DELIVERY_SETTLEMENT_BLOCKED'' ''Settlement'' (s_id st)
           (spread (releaseOrderMetadata r) [(''reason'', TextJ v), (''orderId'', TextJ (s_orderId st))])
           (Some userId) (Some (o_organizationId r))) (\<lambda>_.
         throw (forbidden v)))"

definition creditPublisher :: "string \<Rightarrow> balance_row option \<Rightarrow> int \<Rightarrow> int \<Rightarrow> string \<Rightarrow> string \<Rightarrow> unit tx" where
  "creditPublisher publisherId balance amount debtApplied conflict_message place =
     (case balance of
        Some b \<Rightarrow>
          andThen (update_balances (\<lambda>r. b_publisherId r = publisherId \<and> b_version r = b_version b)
            (\<lambda>r. r\<lparr>b_currency := ''USD'', b_withdrawableBalance := b_withdrawableBalance r + (amount - debtApplied),
                  b_debtBalance := b_debtBalance r - debtApplied, b_lifetimeEarnings := b_lifetimeEarnings r + amount,
                  b_version := b_version r + 1\<rparr>)) (\<lambda>updated.
          andThen (require (updated \<noteq> 0) (http_conflict conflict_message)) (\<lambda>_.
          checkPublisherBalanceInvariant (b_withdrawableBalance b + (amount - debtApplied)) (b_debtBalance b - debtApplied) place))
      | None \<Rightarrow>
          modify (\<lambda>s. s\<lparr>balances := balances s @ [\<lparr>b_publisherId = publisherId, b_currency = ''USD'',
            b_withdrawableBalance = amount, b_debtBalance = 0, b_lifetimeEarnings = amount, b_lifetimePaid = 0,
            b_version = 0, b_allocationCarryForward = 0, b_allocationCarryForwardUsed = 0,
            b_allocationCutoverAt = None\<rparr>]\<rparr>))"

text \<open>The end of the warranty, counted from the delivery.\<close>

definition warranty_end :: "env \<Rightarrow> order_row \<Rightarrow> int option" where
  "warranty_end env r =
     (case o_warrantyDays r of
        None \<Rightarrow> None
      | Some days \<Rightarrow> if days = 0 then None
          else Some ((case o_deliveredAt r of None \<Rightarrow> env_now env | Some t \<Rightarrow> t) + days * 86400000))"

definition completeOrder :: "env \<Rightarrow> settlement_row \<Rightarrow> order_row \<Rightarrow> unit tx" where
  "completeOrder env st r =
     andThen (update_orders
       (\<lambda>x. o_id x = s_orderId st \<and> o_version x = o_version r \<and> o_status x = ''DELIVERED'' \<and> o_currency x = ''USD''
          \<and> o_paymentStatus x = ''PAID'')
       (\<lambda>x. x\<lparr>o_status := ''COMPLETED'', o_warrantyEndsAt := warranty_end env r, o_version := o_version x + 1\<rparr>)) (\<lambda>orderUpdated.
     require (orderUpdated \<noteq> 0) (http_conflict ''Order state changed during settlement release. Refresh and retry.''))"

text \<open>The ledger rows, the event and the audit row of a release.\<close>

definition recordFundsReleased :: "env \<Rightarrow> settlement_row \<Rightarrow> order_row \<Rightarrow> string \<Rightarrow> int \<Rightarrow> int \<Rightarrow> unit tx" where
  "recordFundsReleased env st r userId publisherAmount debtApplied =
     andThen (create_transaction env (new_transaction\<lparr>t_amount := publisherAmount, t_currency := ''USD'',
       t_type := ''SETTLEMENT_RELEASE'', t_orderId := Some (s_orderId st), t_publisherId := Some (s_publisherId st),
       t_settlementId := Some (s_id st),
       t_description := Some (''Settlement release of '' @ to_fixed2 publisherAmount @ '' for order '' @ s_orderId st)\<rparr>)) (\<lambda>_.
     andThen (if debtApplied > 0 then
         andThen (create_transaction env (new_transaction\<lparr>t_amount := - debtApplied, t_currency := ''USD'',
           t_type := ''DEBT_REPAYMENT'', t_orderId := Some (s_orderId st), t_publisherId := Some (s_publisherId st),
           t_settlementId := Some (s_id st),
           t_description := Some (''Debt repayment of '' @ to_fixed2 debtApplied @ '' netted from settlement release'')\<rparr>))
           (\<lambda>_. ret ())
       else ret ()) (\<lambda>_.
     andThen (create_event \<lparr>e_orderId = s_orderId st, e_settlementId = Some (s_id st), e_eventType = ''SETTLEMENT_RELEASED'',
       e_actorId = Some userId,
       e_message = (if debtApplied > 0
         then ''Settlement released '' @ em_dash @ '' '' @ to_fixed2 debtApplied @ '' applied to publisher debt and ''
           @ to_fixed2 (publisherAmount - debtApplied) @ '' added to withdrawable balance''
         else ''Settlement released '' @ em_dash @ '' '' @ to_fixed2 publisherAmount @ '' added to publisher balance''),
       e_metadata = ObjJ [(''settlementId'', TextJ (s_id st)), (''publisherAmount'', DecJ publisherAmount),
         (''debtApplied'', DecJ debtApplied), (''credited'', DecJ (publisherAmount - debtApplied))]\<rparr>) (\<lambda>_.
     audit_log env ''SETTLEMENT_FUNDS_RELEASED'' ''Settlement'' (s_id st)
       (spread (spread [(''orderId'', TextJ (s_orderId st))] (releaseOrderMetadata r))
          [(''publisherAmount'', DecJ publisherAmount), (''debtApplied'', DecJ debtApplied),
           (''previousStatus'', TextJ ''ADMIN_APPROVED'')])
       (Some userId) (Some (o_organizationId r)))))"

text \<open>
  \<open>st\<close> is the settlement as read before the transaction, with the version the approval has given it.
\<close>

definition releaseFundsInternal :: "env \<Rightarrow> settlement_row \<Rightarrow> string \<Rightarrow> release_summary tx" where
  "releaseFundsInternal env st userId =
     andThen (evaluateLockedSettlementEligibility env (s_orderId st)) (\<lambda>eligibility.
     andThen (require (sn_orderStatus (le_snapshot eligibility) \<noteq> ''NOT_FOUND'')
       (not_found ''Order not found for settlement release'')) (\<lambda>_.
     andThen (require (el_eligible (le_eligibility eligibility))
       (settlement_blocked (el_reasons (le_eligibility eligibility)))) (\<lambda>_.
     andThen (require (s_currency st = ''USD'') (bad_request ''Settlement currency must be exactly USD'')) (\<lambda>_.
     andThen (query (find_order (s_orderId st))) (\<lambda>ord.
     andThen (case ord of None \<Rightarrow> ret () | Some r \<Rightarrow> assertSeparation env st r userId) (\<lambda>_.
     andThen (query (find_balance (s_publisherId st))) (\<lambda>balance.
     andThen (require (case balance of None \<Rightarrow> True | Some b \<Rightarrow> b_currency b = ''USD'')
       (bad_request ''Publisher balance currency must be exactly USD'')) (\<lambda>_.
     andThen (update_settlements
       (\<lambda>r. s_id r = s_id st \<and> s_status r = ''ADMIN_APPROVED'' \<and> s_version r = s_version st)
       (\<lambda>r. (move_settlement env ''RELEASED'' r)\<lparr>s_currency := ''USD'', s_settledAt := Some (env_now env)\<rparr>)) (\<lambda>released.
     andThen (require (released \<noteq> 0)
       (http_conflict ''Settlement was already released or modified by another request'')) (\<lambda>_.
     let publisherAmount = s_publisherAmount st;
         debt = (case balance of None \<Rightarrow> 0 | Some b \<Rightarrow> b_debtBalance b);
         debtApplied = min debt publisherAmount
     in andThen (creditPublisher (s_publisherId st) balance publisherAmount debtApplied
          ''Publisher balance was modified by another request. Retry.'' ''releaseFundsInternal'') (\<lambda>_.
        case ord of
          None \<Rightarrow> throw (not_found ''Order not found for settlement release'')
        | Some r \<Rightarrow>
            andThen (completeOrder env st r) (\<lambda>_.
            andThen (recordFundsReleased env st r userId publisherAmount debtApplied) (\<lambda>_.
            ret \<lparr>rs_publisherAmount = to_fixed2 publisherAmount, rs_debtApplied = to_fixed2 debtApplied,
                 rs_credited = to_fixed2 (publisherAmount - debtApplied), rs_currency = ''USD''\<rparr>)))))))))))))"

section \<open>Telling of a release\<close>

definition release_message :: "release_summary \<Rightarrow> string" where
  "release_message summary =
     (if db_decimal (rs_debtApplied summary) > 0
      then ''Settlement of '' @ rs_publisherAmount summary @ '' '' @ rs_currency summary @ '' was released: ''
        @ rs_debtApplied summary @ '' '' @ rs_currency summary @ '' repaid outstanding debt and '' @ rs_credited summary
        @ '' '' @ rs_currency summary @ '' was credited to your withdrawable balance.''
      else ''Settlement of '' @ rs_publisherAmount summary @ '' '' @ rs_currency summary
        @ '' has been credited to your withdrawable balance.'')"

definition settlement_note ::
    "string \<Rightarrow> string \<Rightarrow> string \<Rightarrow> order_row \<Rightarrow> string \<Rightarrow> string \<Rightarrow> string \<Rightarrow> json \<Rightarrow> string \<Rightarrow> string list \<Rightarrow> outbox_request" where
  "settlement_note kind aggregateType aggregateId ord title message actionPath payload dedupKey recipients =
     \<lparr>ob_type = kind, ob_aggregateType = aggregateType, ob_aggregateId = aggregateId,
      ob_organizationId = Some (o_organizationId ord), ob_title = title, ob_message = message, ob_actionPath = actionPath,
      ob_payload = payload, ob_dedupKey = dedupKey, ob_recipientUserIds = recipients, ob_actorUserId = None\<rparr>"

definition recordHighValueSettlement ::
    "(string \<Rightarrow> rat option) \<Rightarrow> env \<Rightarrow> settlement_row \<Rightarrow> order_row \<Rightarrow> release_summary \<Rightarrow> string list tx" where
  "recordHighValueSettlement to_number env st ord summary =
     (if \<not> amount_number (db_decimal (rs_publisherAmount summary))
           > notificationThreshold to_number env ''ADMIN_SETTLEMENT_NOTIFICATION_THRESHOLD'' 500
      then ret []
      else andThen (query (staffRecipients [''SUPER_ADMIN'', ''FINANCE''])) (\<lambda>staffRecipients.
           andThen (recordCommunicationOutbox env (settlement_note ''STAFF_HIGH_VALUE_SETTLEMENT'' ''Settlement'' (s_id st) ord
             ''High-value settlement released''
             (rs_publisherAmount summary @ '' '' @ rs_currency summary @ '' was released for order '' @ s_orderId st @ ''.'')
             ''/dashboard/finance''
             (ObjJ [(''amount'', TextJ (rs_publisherAmount summary)), (''currency'', TextJ (rs_currency summary)),
                    (''orderId'', TextJ (s_orderId st))])
             (''staff:settlement:'' @ s_id st @ '':high-value'') staffRecipients)) (\<lambda>i. ret [i])))"

definition recordSettlementReleased ::
    "(string \<Rightarrow> rat option) \<Rightarrow> env \<Rightarrow> bool \<Rightarrow> settlement_row \<Rightarrow> order_row \<Rightarrow> release_summary \<Rightarrow> string list tx" where
  "recordSettlementReleased to_number env comms st ord summary =
     (if \<not> comms then ret []
      else
        andThen (query (publisherRecipients (Some (s_publisherId st)) False)) (\<lambda>publisherRecipients.
        andThen (recordCommunicationOutbox env (settlement_note ''SETTLEMENT_RELEASED'' ''Settlement'' (s_id st) ord
          ''Settlement released'' (release_message summary) ''/dashboard/earnings'' NullJ
          (''settlement:'' @ s_id st @ '':released:publisher'') publisherRecipients)) (\<lambda>publisherEvent.
        andThen (query (customerOrderRecipients (s_orderId st))) (\<lambda>customerRecipients.
        andThen (recordCommunicationOutbox env (settlement_note ''SETTLEMENT_RELEASED'' ''Settlement'' (s_id st) ord
          ''Order settlement released'' (''Settlement for order '' @ s_orderId st @ '' has been released.'')
          (''/dashboard/orders/'' @ s_orderId st) NullJ
          (''settlement:'' @ s_id st @ '':released:customer'') customerRecipients)) (\<lambda>customerEvent.
        andThen (recordCommunicationOutbox env (settlement_note ''ORDER_COMPLETED'' ''Order'' (s_orderId st) ord
          ''Order completed'' (''Order '' @ s_orderId st @ '' is complete and its settlement has been released.'')
          (''/dashboard/orders/'' @ s_orderId st) NullJ
          (''order:'' @ s_orderId st @ '':completed'') (unique_texts (customerRecipients @ publisherRecipients)))) (\<lambda>completedEvent.
        andThen (recordHighValueSettlement to_number env st ord summary) (\<lambda>staffEvents.
        ret ([publisherEvent, customerEvent, completedEvent] @ staffEvents))))))))"

text \<open>After the commit: the recorded events are dispatched, or without a communications service each member is told.\<close>

definition settlementReleased_key :: "string \<Rightarrow> string \<Rightarrow> string" where
  "settlementReleased_key settlementId userId = ''settlement-released:'' @ settlementId @ '':'' @ userId"

definition notifySettlementReleasedAfterCommit ::
    "bool \<Rightarrow> settlement_row \<Rightarrow> order_row \<Rightarrow> release_summary \<Rightarrow> string list \<Rightarrow> db \<Rightarrow> api_effect list" where
  "notifySettlementReleasedAfterCommit comms st ord summary communicationEventIds s =
     (if comms then [DispatchEvents communicationEventIds]
      else map (\<lambda>m. PushInApp (mb_userId m) (map_option p_organizationId (find (\<lambda>p. p_id p = s_publisherId st) (publishers s)))
               ''SETTLEMENT_RELEASED'' (release_message summary) (settlementReleased_key (s_id st) (mb_userId m)))
             (filter (\<lambda>m. mb_groupId m = s_publisherId st) (publisher_members s))
         @ [PushInApp (o_customerId ord) (Some (o_organizationId ord)) ''SETTLEMENT_RELEASED''
              (''Settlement for order '' @ s_orderId st @ '' has been released.'')
              (settlementReleased_key (s_id st) (o_customerId ord))])"

definition enqueueSettlementTrustRecompute :: "string \<Rightarrow> string \<Rightarrow> api_effect list" where
  "enqueueSettlementTrustRecompute settlementId publisherId =
     (if publisherId = [] then []
      else [TrustRecompute publisherId ''SETTLEMENT_RELEASED'' (''settlement '' @ settlementId @ '' released'')])"

section \<open>Approval by staff\<close>

text \<open>What an approval by staff returns: the settlement, and the release if there was one, with its events.\<close>

record approval_done =
  ad_settlement :: settlement_row
  ad_release :: "release_summary option"
  ad_events :: "string list"

definition approval_metadata :: "settlement_row \<Rightarrow> order_row \<Rightarrow> string \<Rightarrow> string \<Rightarrow> string \<Rightarrow> (string \<times> json) list" where
  "approval_metadata st ord reason staffRole newStatus =
     spread (spread [(''orderId'', TextJ (s_orderId st))] (orderEventMetadata ord))
       [(''reason'', TextJ reason), (''actorRole'', TextJ staffRole), (''previousStatus'', TextJ (s_status st)),
        (''newStatus'', TextJ newStatus), (''publisherAmount'', DecJ (s_publisherAmount st))]"

definition adminApproveCheck :: "env \<Rightarrow> string \<Rightarrow> (settlement_row \<times> order_row) tx" where
  "adminApproveCheck env i =
     andThen (assertApiFinanceOperationAllowed env F_OPERATOR_DECISION) (\<lambda>_.
     andThen (settlement_with_order i) (\<lambda>(st, ord).
     andThen (require (s_status st = ''CUSTOMER_APPROVED'')
       (bad_request ''Customer must approve before admin can approve'')) (\<lambda>_.
     ret (st, ord))))"

definition adminApproveTx ::
    "(string \<Rightarrow> rat option) \<Rightarrow> env \<Rightarrow> bool \<Rightarrow> settlement_row \<Rightarrow> order_row \<Rightarrow> string \<Rightarrow> string \<Rightarrow> string \<Rightarrow> approval_done gated tx" where
  "adminApproveTx to_number env comms st ord reason userId staffRole =
     gateSettlement env (s_orderId st) (\<lambda>_.
     andThen (update_settlements
       (\<lambda>r. s_id r = s_id st \<and> s_status r = ''CUSTOMER_APPROVED'' \<and> s_version r = s_version st)
       (move_settlement env ''ADMIN_APPROVED'')) (\<lambda>adminUpdated.
     andThen (require (adminUpdated \<noteq> 0) (http_conflict ''Settlement status changed by another request'')) (\<lambda>_.
     andThen (settlement_or_throw (s_id st)) (\<lambda>fresh.
     andThen (create_approval env (new_approval (s_id st) ''ADMIN'' userId staffRole)) (\<lambda>_.
     andThen (releaseFundsInternal env (st\<lparr>s_version := s_version fresh\<rparr>) userId) (\<lambda>releaseSummary.
     andThen (audit_log env ''SETTLEMENT_ADMIN_APPROVED'' ''Settlement'' (s_id st)
       (approval_metadata st ord reason staffRole ''ADMIN_APPROVED'') (Some userId) (Some (o_organizationId ord))) (\<lambda>_.
     andThen (settlement_or_throw (s_id st)) (\<lambda>result.
     andThen (recordSettlementReleased to_number env comms st ord releaseSummary) (\<lambda>communicationEventIds.
     ret \<lparr>ad_settlement = result, ad_release = Some releaseSummary, ad_events = communicationEventIds\<rparr>)))))))))"

text \<open>The effects after a release has committed, on the database it has left.\<close>

definition afterRelease ::
    "bool \<Rightarrow> settlement_row \<Rightarrow> order_row \<Rightarrow> ((failure + approval_done) \<times> api_effect list) \<times> db
       \<Rightarrow> ((failure + settlement_row) \<times> api_effect list) \<times> db" where
  "afterRelease comms st ord run =
     (case run of
        ((Inl e, effects), s') \<Rightarrow> ((Inl e, effects), s')
      | ((Inr done_, effects), s') \<Rightarrow>
          ((Inr (ad_settlement done_),
            effects @ (case ad_release done_ of
              None \<Rightarrow> []
            | Some summary \<Rightarrow> enqueueSettlementTrustRecompute (s_id st) (s_publisherId st)
                @ notifySettlementReleasedAfterCommit comms st ord summary (ad_events done_) s')), s'))"

definition adminApprove ::
    "(string \<Rightarrow> rat option) \<Rightarrow> env \<Rightarrow> bool \<Rightarrow> weather \<Rightarrow> string \<Rightarrow> string \<Rightarrow> string \<Rightarrow> string \<Rightarrow> db
       \<Rightarrow> ((failure + settlement_row) \<times> api_effect list) \<times> db" where
  "adminApprove to_number env comms w i reason userId staffRole s =
     (case adminApproveCheck env i s of
        Inl e \<Rightarrow> ((Inl e, []), s)
      | Inr ((st, ord), _) \<Rightarrow>
          afterRelease comms st ord (runGated comms w (adminApproveTx to_number env comms st ord reason userId staffRole) s))"

definition forceApproveCheck :: "env \<Rightarrow> string \<Rightarrow> (settlement_row \<times> order_row) tx" where
  "forceApproveCheck env i =
     andThen (assertApiFinanceOperationAllowed env F_OPERATOR_DECISION) (\<lambda>_.
     andThen (settlement_with_order i) (\<lambda>(st, ord).
     andThen (require (s_status st \<in> {''PENDING'', ''UNDER_REVIEW'', ''CUSTOMER_APPROVED''})
       (bad_request (''Cannot force-approve settlement in '' @ s_status st @ '' status''))) (\<lambda>_.
     ret (st, ord))))"

definition force_target :: "settlement_row \<Rightarrow> string" where
  "force_target st = (if s_status st = ''CUSTOMER_APPROVED'' then ''ADMIN_APPROVED'' else ''CUSTOMER_APPROVED'')"

definition forceApproveTx ::
    "(string \<Rightarrow> rat option) \<Rightarrow> env \<Rightarrow> bool \<Rightarrow> settlement_row \<Rightarrow> order_row \<Rightarrow> string \<Rightarrow> string \<Rightarrow> string \<Rightarrow> approval_done gated tx" where
  "forceApproveTx to_number env comms st ord reason userId staffRole =
     (let targetStatus = force_target st
      in gateSettlement env (s_orderId st) (\<lambda>_.
         andThen (update_settlements
           (\<lambda>r. s_id r = s_id st \<and> s_status r = s_status st \<and> s_version r = s_version st)
           (move_settlement env targetStatus)) (\<lambda>updated.
         andThen (require (updated \<noteq> 0) (http_conflict ''Settlement was modified by another request'')) (\<lambda>_.
         andThen (settlement_or_throw (s_id st)) (\<lambda>fresh.
         andThen (create_approval env (new_approval (s_id st)
           (if targetStatus = ''ADMIN_APPROVED'' then ''ADMIN'' else ''CUSTOMER'') userId staffRole)) (\<lambda>_.
         andThen (if targetStatus = ''ADMIN_APPROVED''
           then andThen (releaseFundsInternal env (st\<lparr>s_version := s_version fresh\<rparr>) userId) (\<lambda>summary. ret (Some summary))
           else ret None) (\<lambda>releaseSummary.
         andThen (audit_log env ''SETTLEMENT_FORCE_APPROVED'' ''Settlement'' (s_id st)
           (approval_metadata st ord reason staffRole targetStatus) (Some userId) (Some (o_organizationId ord))) (\<lambda>_.
         andThen (if targetStatus = ''ADMIN_APPROVED'' then settlement_or_throw (s_id st) else ret fresh) (\<lambda>result.
         andThen (case releaseSummary of
             None \<Rightarrow> ret []
           | Some summary \<Rightarrow> recordSettlementReleased to_number env comms st ord summary) (\<lambda>communicationEventIds.
         ret \<lparr>ad_settlement = result, ad_release = releaseSummary, ad_events = communicationEventIds\<rparr>))))))))))"

definition forceApprove ::
    "(string \<Rightarrow> rat option) \<Rightarrow> env \<Rightarrow> bool \<Rightarrow> weather \<Rightarrow> string \<Rightarrow> string \<Rightarrow> string \<Rightarrow> string \<Rightarrow> db
       \<Rightarrow> ((failure + settlement_row) \<times> api_effect list) \<times> db" where
  "forceApprove to_number env comms w i reason userId staffRole s =
     (case forceApproveCheck env i s of
        Inl e \<Rightarrow> ((Inl e, []), s)
      | Inr ((st, ord), _) \<Rightarrow>
          afterRelease comms st ord (runGated comms w (forceApproveTx to_number env comms st ord reason userId staffRole) s))"

section \<open>Cancellation and return to review\<close>

definition cancelSettlementTx :: "env \<Rightarrow> settlement_row \<Rightarrow> order_row \<Rightarrow> string \<Rightarrow> string \<Rightarrow> settlement_row tx" where
  "cancelSettlementTx env st ord userId reason =
     andThen (update_settlements (\<lambda>r. s_id r = s_id st \<and> s_version r = s_version st)
       (move_settlement env ''CANCELLED'')) (\<lambda>updated.
     andThen (require (updated \<noteq> 0) (http_conflict ''Settlement was modified by another request. Retry.'')) (\<lambda>_.
     andThen (settlement_or_throw (s_id st)) (\<lambda>settlementRow.
     andThen (audit_log env ''SETTLEMENT_CANCELLED'' ''Settlement'' (s_id st)
       (spread (orderEventMetadata ord) [(''orderId'', TextJ (s_orderId st)), (''previousStatus'', TextJ (s_status st)),
          (''reason'', TextJ reason)])
       (Some userId) (Some (o_organizationId ord))) (\<lambda>_.
     ret settlementRow))))"

text \<open>A single transaction, without retries, after what others have done since the checks.\<close>

definition run_once :: "(db \<Rightarrow> db) \<Rightarrow> 'a tx \<Rightarrow> db \<Rightarrow> (failure + 'a) \<times> db" where
  "run_once meanwhile operation s =
     (let s1 = meanwhile s in case operation s1 of Inl e \<Rightarrow> (Inl e, s1) | Inr (x, s') \<Rightarrow> (Inr x, s'))"

definition cancelSettlementCheck :: "env \<Rightarrow> string \<Rightarrow> (settlement_row \<times> order_row) tx" where
  "cancelSettlementCheck env i =
     andThen (assertApiFinanceOperationAllowed env F_OPERATOR_DECISION) (\<lambda>_.
     andThen (settlement_with_order i) (\<lambda>(st, ord).
     andThen (require (s_status st \<noteq> ''RELEASED'') (bad_request ''Cannot cancel released settlement'')) (\<lambda>_.
     ret (st, ord))))"

definition cancelSettlement ::
    "env \<Rightarrow> (db \<Rightarrow> db) \<Rightarrow> string \<Rightarrow> string \<Rightarrow> string \<Rightarrow> db \<Rightarrow> (failure + settlement_row) \<times> db" where
  "cancelSettlement env meanwhile i userId reason s =
     (case cancelSettlementCheck env i s of
        Inl e \<Rightarrow> (Inl e, s)
      | Inr ((st, ord), _) \<Rightarrow> run_once meanwhile (cancelSettlementTx env st ord userId reason) s)"

text \<open>The customer's approval is audited and deleted, so that it can be given again.\<close>

definition revokeCustomerApproval :: "env \<Rightarrow> settlement_row \<Rightarrow> order_row \<Rightarrow> string \<Rightarrow> string \<Rightarrow> approval_row option tx" where
  "revokeCustomerApproval env st ord userId reason =
     andThen (query (\<lambda>s. find (\<lambda>a. a_settlementId a = s_id st \<and> a_type a = ''CUSTOMER'') (approvals s))) (\<lambda>revoked.
     case revoked of
       None \<Rightarrow> ret None
     | Some a \<Rightarrow>
         andThen (audit_log env ''SETTLEMENT_APPROVAL_REVOKED'' ''SettlementApproval'' (a_id a)
           [(''settlementId'', TextJ (s_id st)), (''type'', TextJ (a_type a)), (''approvedBy'', TextJ (a_approvedBy a)),
            (''roleAtTime'', TextJ (a_roleAtTime a)), (''approvedAt'', TextJ (iso_text (a_approvedAt a))),
            (''revokedBy'', TextJ userId), (''reason'', TextJ reason)]
           (Some userId) (Some (o_organizationId ord))) (\<lambda>_.
         andThen (modify (\<lambda>s. s\<lparr>approvals := filter (\<lambda>x. a_id x \<noteq> a_id a) (approvals s)\<rparr>)) (\<lambda>_.
         ret (Some a))))"

definition returnToReviewTx :: "env \<Rightarrow> settlement_row \<Rightarrow> order_row \<Rightarrow> string \<Rightarrow> string \<Rightarrow> settlement_row tx" where
  "returnToReviewTx env st ord userId reason =
     andThen (update_settlements
       (\<lambda>r. s_id r = s_id st \<and> s_status r = ''CUSTOMER_APPROVED'' \<and> s_version r = s_version st)
       (move_settlement env ''UNDER_REVIEW'')) (\<lambda>transitioned.
     andThen (require (transitioned \<noteq> 0)
       (http_conflict ''Settlement was modified by another request (likely admin-approved or released). Refresh and retry.'')) (\<lambda>_.
     andThen (settlement_or_throw (s_id st)) (\<lambda>updated.
     andThen (revokeCustomerApproval env st ord userId reason) (\<lambda>revoked.
     andThen (create_event \<lparr>e_orderId = s_orderId st, e_settlementId = Some (s_id st),
       e_eventType = ''SETTLEMENT_RETURNED_TO_REVIEW'', e_actorId = Some userId,
       e_message = ''Settlement returned to review: '' @ reason,
       e_metadata = (case revoked of
           Some a \<Rightarrow> ObjJ [(''settlementId'', TextJ (s_id st)), (''revokedApprovalBy'', TextJ (a_approvedBy a)),
             (''revokedApprovalAt'', TextJ (iso_text (a_approvedAt a)))]
         | None \<Rightarrow> ObjJ [(''settlementId'', TextJ (s_id st))])\<rparr>) (\<lambda>_.
     ret updated)))))"

definition returnToReviewCheck :: "env \<Rightarrow> string \<Rightarrow> (settlement_row \<times> order_row) tx" where
  "returnToReviewCheck env i =
     andThen (assertApiFinanceOperationAllowed env F_OPERATOR_DECISION) (\<lambda>_.
     andThen (settlement_with_order i) (\<lambda>(st, ord).
     andThen (require (s_status st = ''CUSTOMER_APPROVED'')
       (bad_request ''Only customer-approved settlements can be returned to review'')) (\<lambda>_.
     ret (st, ord))))"

definition returnToReview ::
    "env \<Rightarrow> (db \<Rightarrow> db) \<Rightarrow> string \<Rightarrow> string \<Rightarrow> string \<Rightarrow> db \<Rightarrow> (failure + settlement_row) \<times> db" where
  "returnToReview env meanwhile i userId reason s =
     (case returnToReviewCheck env i s of
        Inl e \<Rightarrow> (Inl e, s)
      | Inr ((st, ord), _) \<Rightarrow> run_once meanwhile (returnToReviewTx env st ord userId reason) s)"

section \<open>Reading\<close>

definition getSettlement :: "string \<Rightarrow> string option \<Rightarrow> (settlement_row \<times> order_row \<times> approval_row list) tx" where
  "getSettlement i organizationId =
     andThen (settlement_with_order i) (\<lambda>(st, ord).
     andThen (require (\<not> (truthy organizationId \<and> Some (o_organizationId ord) \<noteq> organizationId))
       (forbidden ''Settlement does not belong to your organization'')) (\<lambda>_.
     andThen (query (\<lambda>s. filter (\<lambda>a. a_settlementId a = i) (approvals s))) (\<lambda>given.
     ret (st, ord, given))))"

record eligibility_report =
  er_settlement :: settlement_row
  er_orderStatus :: string
  er_orderVersion :: int
  er_eligible :: bool
  er_blockers :: "blocker list"
  er_activeDelivery :: "(string \<times> bool \<times> bool \<times> string option \<times> string option) option"
  er_evaluatedAt :: string
  er_mutationRechecksUnderLock :: bool

definition getSettlementEligibility :: "env \<Rightarrow> string \<Rightarrow> eligibility_report tx" where
  "getSettlementEligibility env i =
     andThen (query (find_settlement i)) (\<lambda>found.
     case found of
       None \<Rightarrow> throw (not_found ''Settlement not found'')
     | Some st \<Rightarrow>
         andThen (buildSettlementEligibilitySnapshot (s_orderId st)) (\<lambda>snapshot.
         let eligibility = evaluateSettlementEligibility snapshot
         in ret \<lparr>er_settlement = st, er_orderStatus = sn_orderStatus snapshot, er_orderVersion = sn_orderVersion snapshot,
              er_eligible = el_eligible eligibility, er_blockers = el_blockers eligibility,
              er_activeDelivery = (case sn_activeDeliveryVersionId snapshot of
                  None \<Rightarrow> None
                | Some d \<Rightarrow> if d = [] then None
                    else Some (d, sn_activeDeliveryMatchesOrder snapshot, sn_activeDeliveryIsCurrent snapshot,
                           sn_activeDeliveryVerificationStatus snapshot, sn_activeDeliveryInterventionStatus snapshot)),
              er_evaluatedAt = iso_text (env_now env), er_mutationRechecksUnderLock = True\<rparr>))"

text \<open>A page of the settlements, the newest first, with the number of all that match.\<close>

definition listSettlements ::
    "string option \<Rightarrow> nat \<Rightarrow> nat \<Rightarrow> string list \<Rightarrow> db \<Rightarrow> settlement_row list \<times> nat" where
  "listSettlements organizationId page skip statuses s =
     (let matching = filter (\<lambda>r.
            (truthy organizationId \<longrightarrow> map_option o_organizationId (find_order (s_orderId r) s) = organizationId)
            \<and> (statuses \<noteq> [] \<longrightarrow> s_status r \<in> set statuses)) (settlements s)
      in (take page (drop skip (sort_by (\<lambda>a b. s_createdAt b - s_createdAt a) matching)), length matching))"

end
