(* ===== verification/Payout_Safety.thy ===== *)
theory Payout_Safety
  imports Payout_Finalization
begin

text \<open>
  What the completion of a payout guarantees: the exact effect of a completion, that a
  withdrawal is paid once and an event handled once, that the paid totals stay those of the
  completed withdrawals, that valid evidence always completes, and the separation of the person
  who confirms a bank transfer from those who asked for, approved and sent it.
\<close>

section \<open>The frame of a refused or repeated completion\<close>

definition payout_wf :: "db \<Rightarrow> bool" where
  "payout_wf s \<longleftrightarrow> distinct (map px_id (executions s)) \<and> distinct (map wd_id (withdrawals s))
     \<and> distinct (map y_id (payout_events s)) \<and> distinct (map b_publisherId (balances s))"

definition payout_aside :: "db \<Rightarrow> db \<Rightarrow> bool" where
  "payout_aside s s' \<longleftrightarrow> (\<exists>ys ns ls. s' = s\<lparr>payout_events := ys, notifications := ns, audit_logs := ls\<rparr>
     \<and> map y_id ys = map y_id (payout_events s))"

lemma payout_aside_refl [simp]: "payout_aside s s"
  unfolding payout_aside_def
  by (rule exI[of _ "payout_events s"], rule exI[of _ "notifications s"], rule exI[of _ "audit_logs s"]) simp

lemma payout_aside_trans: "payout_aside s t \<Longrightarrow> payout_aside t u \<Longrightarrow> payout_aside s u"
  unfolding payout_aside_def by (elim exE conjE) auto

lemma payout_aside_same:
  assumes "payout_aside s s'"
  shows "executions s' = executions s" "withdrawals s' = withdrawals s" "balances s' = balances s"
    "payout_wf s' = payout_wf s"
  using assms by (auto simp: payout_aside_def payout_wf_def)

lemma aside_events: "map y_id ys = map y_id (payout_events s) \<Longrightarrow> payout_aside s (s\<lparr>payout_events := ys\<rparr>)"
  unfolding payout_aside_def
  by (rule exI[of _ ys], rule exI[of _ "notifications s"], rule exI[of _ "audit_logs s"]) simp

text \<open>The event of the claim is no longer being processed.\<close>

definition event_closed :: "payout_input \<Rightarrow> db \<Rightarrow> bool" where
  "event_closed i s \<longleftrightarrow> (case webhook_id i of None \<Rightarrow> True
     | Some k \<Rightarrow> (case find_payout_event k s of None \<Rightarrow> True | Some e \<Rightarrow> y_status e \<noteq> ''PROCESSING''))"

lemma closed_no_lease:
  "event_closed i s \<Longrightarrow> webhook_id i \<noteq> None \<Longrightarrow> webhook_id j = webhook_id i \<Longrightarrow> \<not> lockAndOwnWebhookLease j s"
  by (auto simp: event_closed_def lockAndOwnWebhookLease_def webhook_id_def
      split: option.splits completion_evidence.splits)

lemma terminal_state:
  assumes r: "updateWebhookTerminalState i status now err s = Inr (b, s')"
    and own: "lockAndOwnWebhookLease i s" and d: "distinct (map y_id (payout_events s))"
    and st: "status \<noteq> ''PROCESSING''"
  shows "b \<and> payout_aside s s' \<and> event_closed i s'"
proof (cases "pi_evidence i")
  case (ProviderWebhook k a l)
  obtain e where e: "find_payout_event k s = Some e" "y_status e = ''PROCESSING''" "l \<noteq> None"
      "y_attempts e = a" "y_lockedAt e = l"
    using own ProviderWebhook by (auto simp: lockAndOwnWebhookLease_def split: option.splits)
  let ?g = "\<lambda>e. y_status e = ''PROCESSING'' \<and> y_attempts e = a \<and> y_lockedAt e = l \<and> l \<noteq> None"
  let ?p = "\<lambda>e. y_id e = k \<and> ?g e"
  let ?f = "\<lambda>e. e\<lparr>y_status := status, y_lockedAt := None, y_processedAt := Some now, y_lastError := err\<rparr>"
  have b: "b = (count_where ?p (payout_events s) = 1)"
    and s': "s' = s\<lparr>payout_events := update_where ?p ?f (payout_events s)\<rparr>"
    using r ProviderWebhook by (simp_all add: updateWebhookTerminalState_def tx_simps)
  have f: "find (\<lambda>r. y_id r = k) (payout_events s) = Some e" using e(1) by (simp add: find_payout_event_def)
  have "b" using count_found[OF d f, of ?g] e b by simp
  moreover have "payout_aside s s'"
    unfolding s' by (rule aside_events) (rule map_update_where, simp)
  moreover have "find_payout_event k s' = Some (?f e)"
    using find_update_where[of y_id ?f k ?p "payout_events s"] f e find_key[OF f]
    by (simp add: find_payout_event_def s')
  then have "event_closed i s'"
    using st ProviderWebhook by (simp add: event_closed_def webhook_id_def)
  ultimately show ?thesis by simp
qed (use r in \<open>simp_all add: updateWebhookTerminalState_def tx_simps event_closed_def webhook_id_def\<close>)

lemma audit_aside:
  "payout_audit env action eid org user meta s = Inr (u, s') \<Longrightarrow>
     payout_aside s s' \<and> payout_events s' = payout_events s"
  unfolding payout_audit_def create_Inr payout_aside_def
  by (auto intro!: exI[of _ "payout_events s"] exI[of _ "notifications s"])

lemma notices_aside:
  "create_notifications ns s = Inr (u, s') \<Longrightarrow> payout_aside s s' \<and> payout_events s' = payout_events s"
  unfolding create_notifications_def modify_Inr payout_aside_def
  by (auto intro!: exI[of _ "payout_events s"] exI[of _ "audit_logs s"])

lemma event_closed_cong: "payout_events s' = payout_events s \<Longrightarrow> event_closed i s' = event_closed i s"
  by (auto simp: event_closed_def find_payout_event_def split: option.splits)

lemma conflict_Inr:
  assumes r: "deterministicConflict env i org c s = Inr (x, s')"
    and own: "lockAndOwnWebhookLease i s" and d: "distinct (map y_id (payout_events s))"
  shows "x = conflict_result i (fst c) (snd c) \<and> payout_aside s s' \<and> event_closed i s'"
proof -
  let ?status = "if webhook_id i \<noteq> None then ''QUARANTINED'' else ''IGNORED''"
  obtain b s1 where t: "updateWebhookTerminalState i ?status (env_now env) (Some (fst c)) s = Inr (b, s1)"
    using r unfolding deterministicConflict_def Let_def andThen_Inr by blast
  have T: "b" "payout_aside s s1" "event_closed i s1"
    using terminal_state[OF t own d] by auto
  obtain u s2 v s3 where n: "notifyQuarantine i (fst c) s1 = Inr (u, s2)"
    and a: "auditConflict env i org (fst c) (snd c) s2 = Inr (v, s3)"
    and x: "x = conflict_result i (fst c) (snd c)" "s' = s3"
    using r t T(1) unfolding deterministicConflict_def Let_def andThen_Inr ret_Inr if_Inr by force
  have N: "payout_aside s1 s2 \<and> payout_events s2 = payout_events s1"
    using n notices_aside by (cases "webhook_id i") (auto simp: notifyQuarantine_def tx_simps split: if_splits)
  have A: "payout_aside s2 s3 \<and> payout_events s3 = payout_events s2"
    using a unfolding auditConflict_def by (rule audit_aside)
  have "payout_aside s s3"
    by (rule payout_aside_trans[OF T(2) payout_aside_trans]) (use N A in auto)
  moreover have "event_closed i s3" using T(3) N A event_closed_cong by metis
  ultimately show ?thesis using x by simp
qed

section \<open>The three ways through a transaction\<close>

definition loaded :: "payout_input \<Rightarrow> db \<Rightarrow> loaded_payout \<Rightarrow> bool" where
  "loaded i s lp \<longleftrightarrow> find_execution (pi_executionId i) s = Some (lp_execution lp)
     \<and> load_payout s (lp_execution lp) = Some lp"

definition evidence_accepted :: "env \<Rightarrow> payout_input \<Rightarrow> loaded_payout \<Rightarrow> completion_facts \<Rightarrow> db \<Rightarrow> bool" where
  "evidence_accepted env i lp facts s \<longleftrightarrow>
     identityConflict env i lp = None \<and> completionFacts env i lp s = Inr facts
     \<and> actorConflict i s = None \<and> referenceConflict i lp facts = None"

definition completable :: "env \<Rightarrow> payout_input \<Rightarrow> loaded_payout \<Rightarrow> completion_facts \<Rightarrow> db \<Rightarrow> bool" where
  "completable env i lp facts s \<longleftrightarrow>
     px_status (lp_execution lp) \<noteq> ''COMPLETED'' \<and> stateConflict i lp = None \<and> amountConflict lp = None
     \<and> reservationConflict lp s = Inr (None, s) \<and> manualConflict env i lp facts = None
     \<and> competitionConflict i lp s = None"

definition settled_aside :: "payout_input \<Rightarrow> payout_result \<Rightarrow> db \<Rightarrow> db \<Rightarrow> bool" where
  "settled_aside i r s s' \<longleftrightarrow> payout_aside s s' \<and> event_closed i s' \<and> (\<forall>a b c. r \<noteq> PayoutDone Completed a b c)"

declare firstConflict.simps(2) [simp del]

lemma firstConflict_None:
  "firstConflict (c # cs) = None \<longleftrightarrow> c = None \<and> firstConflict cs = None"
  "conflict_if b code message = None \<longleftrightarrow> \<not> b"
  by (auto simp: firstConflict.simps conflict_if_def split: option.splits)

lemma refused:
  "deterministicConflict env i org c s = Inr (r, s') \<Longrightarrow> lockAndOwnWebhookLease i s \<Longrightarrow>
     distinct (map y_id (payout_events s)) \<Longrightarrow> settled_aside i r s s'"
  using conflict_Inr by (fastforce simp: settled_aside_def conflict_result_def)

lemma replay_Inr:
  assumes r: "replayCompletion env i lp s = Inr (x, s')"
    and own: "lockAndOwnWebhookLease i s" and d: "distinct (map y_id (payout_events s))"
  shows "settled_aside i x s s'"
proof -
  let ?e = "lp_execution lp"
  have st: "replay_disposition i ?e \<noteq> ''PROCESSING''" by (simp add: replay_disposition_def)
  obtain b s1 where t: "updateWebhookTerminalState i (replay_disposition i ?e) (env_now env)
      (if exactReplay i ?e then None else Some ''CorroboratesExistingCompletion'') s = Inr (b, s1)"
    and rest: "(if \<not> b then ret (webhookLeaseLost i)
         else andThen (auditReplay env i lp) (\<lambda>_. ret (PayoutDone (if exactReplay i ?e then Replayed else Corroborated)
           (px_id ?e) (wd_id (lp_withdrawal lp)) False))) s1 = Inr (x, s')"
    using r unfolding replayCompletion_def Let_def andThen_Inr[of "updateWebhookTerminalState _ _ _ _"] by blast
  have T: "b" "payout_aside s s1" "event_closed i s1" using terminal_state[OF t own d st] by auto
  obtain u where a: "auditReplay env i lp s1 = Inr (u, s')"
    and x: "x = PayoutDone (if exactReplay i ?e then Replayed else Corroborated) (px_id ?e) (wd_id (lp_withdrawal lp)) False"
    using rest T(1) unfolding if_Inr andThen_Inr ret_Inr prod.inject by blast
  have A: "payout_aside s1 s' \<and> payout_events s' = payout_events s1"
    using a unfolding auditReplay_def Let_def by (rule audit_aside)
  have "event_closed i s'" using T(3) event_closed_cong[of s' s1 i] A by simp
  then show ?thesis using payout_aside_trans[OF T(2), of s'] A x by (simp add: settled_aside_def)
qed

lemma reservation_Inr: "reservationConflict lp s = Inr (c, s') \<Longrightarrow> s' = s"
  by (auto simp: reservationConflict_def tx_simps Let_def)

lemma completeExecution_Inr:
  assumes r: "completeExecution env i lp facts s = Inr (x, s')" and n: "px_status (lp_execution lp) \<noteq> ''COMPLETED''"
    and own: "lockAndOwnWebhookLease i s" and d: "distinct (map y_id (payout_events s))"
  shows "settled_aside i x s s' \<or> completable env i lp facts s \<and> completePayout env i lp facts s = Inr (x, s')"
proof (cases "firstConflict [stateConflict i lp, amountConflict lp]")
  case (Some c)
  then show ?thesis using r refused[OF _ own d] by (auto simp: completeExecution_def Let_def)
next
  case None
  obtain res s1 where res: "reservationConflict lp s = Inr (res, s1)"
    using None r by (cases "reservationConflict lp s") (auto simp: completeExecution_def Let_def andThen_def)
  have go: "(case firstConflict [res, manualConflict env i lp facts, competitionConflict i lp s] of
          Some c \<Rightarrow> deterministicConflict env i (Some (lp_organizationId lp)) c
        | None \<Rightarrow> completePayout env i lp facts) s = Inr (x, s')"
    using r None res reservation_Inr[OF res] by (simp add: completeExecution_def Let_def andThen_def query_def)
  have s1: "s1 = s" using reservation_Inr[OF res] .
  show ?thesis
  proof (cases "firstConflict [res, manualConflict env i lp facts, competitionConflict i lp s]")
    case (Some c)
    then show ?thesis using go refused[OF _ own d] by auto
  next
    case no: None
    then have "completePayout env i lp facts s = Inr (x, s')" using go by simp
    then show ?thesis using None no res s1 n by (simp add: completable_def firstConflict_None)
  qed
qed

lemma decideCompletion_Inr:
  assumes r: "decideCompletion env i lp s = Inr (x, s')"
    and own: "lockAndOwnWebhookLease i s" and d: "distinct (map y_id (payout_events s))"
  shows "settled_aside i x s s'
    \<or> (\<exists>facts. evidence_accepted env i lp facts s \<and> completable env i lp facts s
         \<and> completePayout env i lp facts s = Inr (x, s'))"
proof (cases "identityConflict env i lp")
  case (Some c)
  then show ?thesis using r refused[OF _ own d] by (simp add: decideCompletion_def Let_def)
next
  case id: None
  show ?thesis
  proof (cases "completionFacts env i lp s")
    case (Inl c)
    then show ?thesis using r id refused[OF _ own d] by (simp add: decideCompletion_def Let_def tx_simps)
  next
    case fa: (Inr facts)
    show ?thesis
    proof (cases "firstConflict [actorConflict i s, referenceConflict i lp facts]")
      case (Some c)
      then show ?thesis using r id fa refused[OF _ own d] by (simp add: decideCompletion_def Let_def tx_simps)
    next
      case ok: None
      have acc: "evidence_accepted env i lp facts s" using id fa ok by (simp add: evidence_accepted_def firstConflict_None)
      have go: "(if px_status (lp_execution lp) = ''COMPLETED'' then
                    (case completedConflict i lp facts of
                       Some c \<Rightarrow> deterministicConflict env i (Some (lp_organizationId lp)) c
                     | None \<Rightarrow> replayCompletion env i lp)
                  else completeExecution env i lp facts) s = Inr (x, s')"
        using r id fa ok by (simp add: decideCompletion_def Let_def tx_simps)
      show ?thesis
      proof (cases "px_status (lp_execution lp) = ''COMPLETED''")
        case True
        then show ?thesis using go refused[OF _ own d] replay_Inr[OF _ own d] by (auto split: option.splits)
      next
        case False
        then have c: "completeExecution env i lp facts s = Inr (x, s')" using go by simp
        show ?thesis using completeExecution_Inr[OF c False own d] acc by blast
      qed
    qed
  qed
qed

text \<open>
  A transaction ends in one of three ways: the claim is not owned and nothing happens; the
  event is closed and no money moves; or every check has passed and the completion is written.
\<close>

lemma finalize_Inr:
  assumes r: "finalizeInTransaction env i s = Inr (x, s')" and d: "distinct (map y_id (payout_events s))"
  shows "\<not> lockAndOwnWebhookLease i s \<and> x = webhookLeaseLost i \<and> s' = s
    \<or> lockAndOwnWebhookLease i s \<and> (settled_aside i x s s'
        \<or> (\<exists>lp facts. loaded i s lp \<and> evidence_accepted env i lp facts s \<and> completable env i lp facts s
             \<and> completePayout env i lp facts s = Inr (x, s')))"
proof (cases "lockAndOwnWebhookLease i s")
  case False
  then show ?thesis using r by (auto simp: finalizeInTransaction_def tx_simps)
next
  case own: True
  have "(\<exists>org c. deterministicConflict env i org c s = Inr (x, s'))
      \<or> (\<exists>lp. loaded i s lp \<and> decideCompletion env i lp s = Inr (x, s'))"
  proof (cases "find_withdrawal (pi_withdrawalId i) s = None")
    case True
    then show ?thesis using r own by (auto simp: finalizeInTransaction_def andThen_def query_def)
  next
    case w: False
    show ?thesis
    proof (cases "find_execution (pi_executionId i) s")
      case None
      then show ?thesis using r own w
        by (auto simp: finalizeInTransaction_def loadAndLock_def andThen_def query_def ret_def)
    next
      case (Some e)
      have "lp_execution lp = e" if "load_payout s e = Some lp" for lp
        using that by (auto simp: load_payout_def split: option.splits)
      with Some r own w show ?thesis
        by (cases "load_payout s e")
          (auto simp: finalizeInTransaction_def loadAndLock_def andThen_def query_def ret_def throw_def loaded_def)
    qed
  qed
  then show ?thesis using refused[OF _ own d] decideCompletion_Inr[OF _ own d] own by blast
qed

section \<open>The effect of a completion\<close>

definition payout_frame :: "db \<Rightarrow> db \<Rightarrow> bool" where
  "payout_frame s s' \<longleftrightarrow> s'\<lparr>executions := executions s, withdrawals := withdrawals s, balances := balances s,
     payout_events := payout_events s, notifications := notifications s, audit_logs := audit_logs s\<rparr> = s"

definition reserved_for :: "string \<Rightarrow> db \<Rightarrow> int" where
  "reserved_for k s = sum_list (map al_amount
     (filter (\<lambda>a. al_withdrawalId a = k \<and> al_releasedAt a = None) (allocations s)))"

text \<open>
  One completion: the execution becomes COMPLETED with its evidence, its withdrawal COMPLETED,
  the publisher's paid total grows by the amount of the withdrawal, which its unreleased
  allocations cover exactly, and every other row stays.
\<close>

definition payout_done :: "payout_input \<Rightarrow> db \<Rightarrow> db \<Rightarrow> bool" where
  "payout_done i s s' \<longleftrightarrow> (\<exists>e w b e'.
     find_execution (pi_executionId i) s = Some e \<and> find_withdrawal (pi_withdrawalId i) s = Some w
     \<and> find_paid_balance (wd_publisherId w) s = Some b
     \<and> px_withdrawalId e = wd_id w \<and> px_status e \<in> {''PROCESSING'', ''FAILED''} \<and> px_completionSource e = None
     \<and> wd_status w \<in> {''PROCESSING'', ''FAILED''}
     \<and> px_amount e = wd_amount w \<and> reserved_for (wd_id w) s = wd_amount w
     \<and> px_id e' = px_id e \<and> px_withdrawalId e' = wd_id w \<and> px_amount e' = px_amount e
     \<and> px_status e' = ''COMPLETED'' \<and> px_completionSource e' = Some (source_text i)
     \<and> px_completionEvidenceRef e' = Some (normalizedEvidenceReference i)
     \<and> (\<forall>k. find_execution k s' = (if k = pi_executionId i then Some e' else find_execution k s))
     \<and> (\<forall>k. find_withdrawal k s' = (if k = pi_withdrawalId i
          then Some (w\<lparr>wd_status := ''COMPLETED'', wd_version := wd_version w + 1\<rparr>) else find_withdrawal k s))
     \<and> (\<forall>p. find_paid_balance p s' = (if p = wd_publisherId w
          then Some (b\<lparr>b_lifetimePaid := b_lifetimePaid b + wd_amount w, b_version := b_version b + 1\<rparr>)
          else find_paid_balance p s))
     \<and> payout_frame s s')"

lemma loadedD:
  assumes "loaded i s lp"
  shows "find_execution (pi_executionId i) s = Some (lp_execution lp)" "px_id (lp_execution lp) = pi_executionId i"
    "lp_execution lp \<in> set (executions s)"
    "find_withdrawal (px_withdrawalId (lp_execution lp)) s = Some (lp_withdrawal lp)"
    "wd_id (lp_withdrawal lp) = px_withdrawalId (lp_execution lp)" "lp_withdrawal lp \<in> set (withdrawals s)"
    "lp_allocations lp = filter (\<lambda>a. al_withdrawalId a = wd_id (lp_withdrawal lp)) (allocations s)"
proof -
  note l = assms[unfolded loaded_def]
  show "find_execution (pi_executionId i) s = Some (lp_execution lp)" using l by simp
  then show "px_id (lp_execution lp) = pi_executionId i" "lp_execution lp \<in> set (executions s)"
    unfolding find_execution_def using find_key by fastforce+
  show w: "find_withdrawal (px_withdrawalId (lp_execution lp)) s = Some (lp_withdrawal lp)"
    "lp_allocations lp = filter (\<lambda>a. al_withdrawalId a = wd_id (lp_withdrawal lp)) (allocations s)"
    using l by (cases lp; auto simp: load_payout_def split: option.splits)+
  show "wd_id (lp_withdrawal lp) = px_withdrawalId (lp_execution lp)" "lp_withdrawal lp \<in> set (withdrawals s)"
    using w(1) unfolding find_withdrawal_def using find_key by fastforce+
qed

lemma sum_allocations: "sumAllocations acc rows = Inr (acc + sum_list (map al_amount rows))"
  by (induction rows arbitrary: acc) auto

lemma reserved_exactly:
  assumes "loaded i s lp" "reservationConflict lp s = Inr (None, s)"
  shows "reserved_for (wd_id (lp_withdrawal lp)) s = wd_amount (lp_withdrawal lp)"
proof -
  have "filter (\<lambda>a. al_releasedAt a = None) (lp_allocations lp)
      = filter (\<lambda>a. al_withdrawalId a = wd_id (lp_withdrawal lp) \<and> al_releasedAt a = None) (allocations s)"
    unfolding loadedD(7)[OF assms(1)] filter_filter by (rule filter_cong) auto
  then show ?thesis
    using assms(2) by (auto simp: reservationConflict_def reserved_for_def Let_def tx_simps sum_allocations
        firstConflict_None eq_commute[of None])
qed

abbreviation withdrawal_completed :: "withdrawal_row \<Rightarrow> withdrawal_row" where
  "withdrawal_completed w \<equiv> w\<lparr>wd_status := ''COMPLETED'', wd_version := wd_version w + 1\<rparr>"

abbreviation balance_paid :: "int \<Rightarrow> balance_row \<Rightarrow> balance_row" where
  "balance_paid a b \<equiv> b\<lparr>b_lifetimePaid := b_lifetimePaid b + a, b_version := b_version b + 1\<rparr>"

lemma markCompleted_Inr:
  assumes r: "markCompleted env i lp facts s = Inr (u, s')" and ld: "loaded i s lp" and wf: "payout_wf s"
  shows "px_completionSource (lp_execution lp) = None
    \<and> s' = s\<lparr>executions := update_where (\<lambda>x. px_id x = px_id (lp_execution lp)) (completed_row env i lp facts) (executions s),
        withdrawals := update_where (\<lambda>x. wd_id x = wd_id (lp_withdrawal lp)) withdrawal_completed (withdrawals s),
        balances := update_where (\<lambda>b. b_publisherId b = wd_publisherId (lp_withdrawal lp))
          (balance_paid (wd_amount (lp_withdrawal lp))) (balances s)\<rparr>"
proof -
  let ?e = "lp_execution lp" and ?w = "lp_withdrawal lp"
  let ?g = "\<lambda>r. px_id r = px_id ?e \<and> px_withdrawalId r = wd_id ?w \<and> px_status r = px_status ?e
     \<and> px_stage r = px_stage ?e \<and> px_version r = px_version ?e \<and> px_completionSource r = None"
  let ?h = "\<lambda>r. wd_id r = wd_id ?w \<and> wd_status r = wd_status ?w \<and> wd_version r = wd_version ?w"
  have c: "count_where ?g (executions s) = 1" "count_where ?h (withdrawals s) = 1"
    and s': "s' = s\<lparr>executions := update_where ?g (completed_row env i lp facts) (executions s),
      withdrawals := update_where ?h withdrawal_completed (withdrawals s),
      balances := update_where (\<lambda>b. b_publisherId b = wd_publisherId ?w) (balance_paid (wd_amount ?w)) (balances s)\<rparr>"
    using r by (auto simp: markCompleted_def update_execution_unique_def Let_def tx_simps)
  have d: "distinct (map px_id (executions s))" "distinct (map wd_id (withdrawals s))" using wf by (auto simp: payout_wf_def)
  have G: "?g ?e \<and> update_where ?g (completed_row env i lp facts) (executions s)
      = update_where (\<lambda>x. px_id x = px_id ?e) (completed_row env i lp facts) (executions s)"
    by (rule guard_row[OF d(1) loadedD(3)[OF ld] _ c(1)]) simp
  have H: "?h ?w \<and> update_where ?h withdrawal_completed (withdrawals s)
      = update_where (\<lambda>x. wd_id x = wd_id ?w) withdrawal_completed (withdrawals s)"
    by (rule guard_row[OF d(2) loadedD(6)[OF ld] _ c(2)]) simp
  show ?thesis using G H s' by simp
qed

lemma completed_row_fields:
  "px_id (completed_row env i lp facts r) = px_id r" "px_withdrawalId (completed_row env i lp facts r) = px_withdrawalId r"
  "px_amount (completed_row env i lp facts r) = px_amount r" "px_status (completed_row env i lp facts r) = ''COMPLETED''"
  "px_completionSource (completed_row env i lp facts r) = Some (source_text i)"
  "px_completionEvidenceRef (completed_row env i lp facts r) = Some (normalizedEvidenceReference i)"
  "px_providerId (completed_row env i lp facts r) = px_providerId r"
  by (simp_all add: completed_row_def Let_def)

lemma completable_state:
  assumes "completable env i lp facts s"
  shows "px_status (lp_execution lp) \<in> {''PROCESSING'', ''FAILED''}" "wd_status (lp_withdrawal lp) \<in> {''PROCESSING'', ''FAILED''}"
    "px_amount (lp_execution lp) = wd_amount (lp_withdrawal lp)"
  using assms by (auto simp: completable_def stateConflict_def amountConflict_def firstConflict_None Let_def)

lemma accepted_withdrawal:
  "evidence_accepted env i lp facts s \<Longrightarrow> px_withdrawalId (lp_execution lp) = pi_withdrawalId i"
  by (auto simp: evidence_accepted_def identityConflict_def firstConflict_None Let_def)

lemma completePayout_Inr:
  assumes r: "completePayout env i lp facts s = Inr (x, s')" and ld: "loaded i s lp" and wf: "payout_wf s"
    and acc: "evidence_accepted env i lp facts s" and ok: "completable env i lp facts s"
    and own: "lockAndOwnWebhookLease i s"
  shows "x = PayoutDone Completed (pi_executionId i) (pi_withdrawalId i) True \<and> payout_done i s s'
    \<and> payout_wf s' \<and> event_closed i s'
    \<and> executions s' = update_where (\<lambda>x. px_id x = px_id (lp_execution lp)) (completed_row env i lp facts) (executions s)
    \<and> withdrawals s' = update_where (\<lambda>x. wd_id x = wd_id (lp_withdrawal lp)) withdrawal_completed (withdrawals s)
    \<and> balances s' = update_where (\<lambda>b. b_publisherId b = wd_publisherId (lp_withdrawal lp))
        (balance_paid (wd_amount (lp_withdrawal lp))) (balances s)"
proof -
  let ?e = "lp_execution lp" and ?w = "lp_withdrawal lp"
  let ?es = "update_where (\<lambda>x. px_id x = px_id ?e) (completed_row env i lp facts) (executions s)"
  let ?ws = "update_where (\<lambda>x. wd_id x = wd_id ?w) withdrawal_completed (withdrawals s)"
  let ?bs = "update_where (\<lambda>b. b_publisherId b = wd_publisherId ?w) (balance_paid (wd_amount ?w)) (balances s)"
  note L = loadedD[OF ld] and W = accepted_withdrawal[OF acc] and K = completable_state[OF ok]
  obtain b u s1 v s2 y where b: "find_paid_balance (wd_publisherId ?w) s = Some b"
    and m: "markCompleted env i lp facts s = Inr (u, s1)"
    and t: "updateWebhookTerminalState i ''PROCESSED'' (completed_at env facts) None s1 = Inr (v, s2)"
    and a: "auditCompletion env i lp facts s2 = Inr (y, s')"
    and x: "x = PayoutDone Completed (px_id ?e) (wd_id ?w) True"
    using r by (auto simp: completePayout_def Let_def tx_simps)
  note M = markCompleted_Inr[OF m ld wf]
  have own1: "lockAndOwnWebhookLease i s1"
    using own M by (simp add: lockAndOwnWebhookLease_def find_payout_event_def split: completion_evidence.splits)
  have d1: "distinct (map y_id (payout_events s1))" using wf M by (simp add: payout_wf_def)
  have T: "payout_aside s1 s2" "event_closed i s2" using terminal_state[OF t own1 d1] by auto
  have A: "payout_aside s2 s' \<and> payout_events s' = payout_events s2"
    using a unfolding auditCompletion_def Let_def by (rule audit_aside)
  have aside: "payout_aside s1 s'" using payout_aside_trans[OF T(1)] A by blast
  have rows: "executions s' = ?es" "withdrawals s' = ?ws" "balances s' = ?bs"
    using payout_aside_same[OF aside] M by simp_all
  have wf1: "payout_wf s1"
    using wf M by (simp add: payout_wf_def map_update_where completed_row_fields)
  have es: "find_execution k s' = (if k = pi_executionId i then Some (completed_row env i lp facts ?e) else find_execution k s)" for k
    using find_one[of px_id "pi_executionId i" "executions s" ?e "completed_row env i lp facts" k] L(1,2)
    by (simp add: find_execution_def rows completed_row_fields)
  have ws: "find_withdrawal k s' = (if k = pi_withdrawalId i then Some (withdrawal_completed ?w) else find_withdrawal k s)" for k
    using find_one[of wd_id "pi_withdrawalId i" "withdrawals s" ?w withdrawal_completed k] L(4,5) W
    by (simp add: find_withdrawal_def rows)
  have bs: "find_paid_balance p s' = (if p = wd_publisherId ?w then Some (balance_paid (wd_amount ?w) b) else find_paid_balance p s)" for p
    using find_one[of b_publisherId "wd_publisherId ?w" "balances s" b "balance_paid (wd_amount ?w)" p] b
    by (simp add: find_paid_balance_def rows)
  have "payout_frame s s'"
    using M aside unfolding payout_frame_def payout_aside_def by (elim exE conjE) simp
  moreover have "reserved_for (wd_id ?w) s = wd_amount ?w"
    using reserved_exactly[OF ld] ok by (simp add: completable_def)
  ultimately have "payout_done i s s'"
    unfolding payout_done_def
    using L W K M b es ws bs completed_row_fields[of env i lp facts ?e]
    by (intro exI[of _ ?e] exI[of _ ?w] exI[of _ b] exI[of _ "completed_row env i lp facts ?e"]) simp
  moreover have "event_closed i s'" using T(2) event_closed_cong[of s' s2 i] A by simp
  ultimately show ?thesis using x L(2,5) W rows payout_aside_same(4)[OF aside] wf1 by simp
qed

section \<open>The books\<close>

definition paid_of :: "string \<Rightarrow> db \<Rightarrow> int" where
  "paid_of p s = sum_list (map b_lifetimePaid (filter (\<lambda>b. b_publisherId b = p) (balances s)))"

definition completed_of :: "string \<Rightarrow> db \<Rightarrow> int" where
  "completed_of p s = sum_list (map wd_amount
     (filter (\<lambda>w. wd_publisherId w = p \<and> wd_status w = ''COMPLETED'') (withdrawals s)))"

text \<open>
  A publisher's paid total is the sum of the completed withdrawals; a withdrawal has a completed
  execution exactly when it is completed, and then one.
\<close>

definition payout_books :: "db \<Rightarrow> bool" where
  "payout_books s \<longleftrightarrow> (\<forall>p. paid_of p s = completed_of p s)
     \<and> (\<forall>w \<in> set (withdrawals s). count_where (\<lambda>e. px_withdrawalId e = wd_id w \<and> px_status e = ''COMPLETED'') (executions s)
          = (if wd_status w = ''COMPLETED'' then 1 else 0))"

lemma sum_filter_one:
  fixes g :: "'r \<Rightarrow> int"
  assumes d: "distinct (map key rows)" and r: "r \<in> set rows"
  shows "sum_list (map g (filter p (update_where (\<lambda>x. key x = key r) f rows)))
     = sum_list (map g (filter p rows)) + (if p (f r) then g (f r) else 0) - (if p r then g r else 0)"
  using d r
proof (induction rows)
  case (Cons x xs)
  show ?case
  proof (cases "x = r")
    case True
    then have "\<forall>y \<in> set xs. key y \<noteq> key r" using Cons.prems(1) by (force simp: image_iff)
    then have "update_where (\<lambda>x. key x = key r) f xs = xs" by (intro update_where_none) (simp add: count_where_zero)
    then show ?thesis using True by simp
  next
    case False
    then have "r \<in> set xs" "key x \<noteq> key r" using Cons.prems distinct_key_eq[OF Cons.prems(1), of x r] by auto
    then show ?thesis using Cons.IH Cons.prems(1) by simp
  qed
qed simp

lemma count_sum: "int (count_where p rows) = sum_list (map (\<lambda>_. 1) (filter p rows))"
  by (induction rows) auto

lemma completion_keeps_books:
  assumes wf: "payout_wf s" and books: "payout_books s"
    and e: "e \<in> set (executions s)" and w: "w \<in> set (withdrawals s)" and b: "find_paid_balance (wd_publisherId w) s = Some b"
    and ew: "px_withdrawalId e = wd_id w" and es: "px_status e \<noteq> ''COMPLETED''" and ws: "wd_status w \<noteq> ''COMPLETED''"
    and f: "\<And>x. px_id (f x) = px_id x" "px_withdrawalId (f e) = px_withdrawalId e" "px_status (f e) = ''COMPLETED''"
    and rows: "executions s' = update_where (\<lambda>x. px_id x = px_id e) f (executions s)"
      "withdrawals s' = update_where (\<lambda>x. wd_id x = wd_id w) withdrawal_completed (withdrawals s)"
      "balances s' = update_where (\<lambda>x. b_publisherId x = wd_publisherId w) (balance_paid (wd_amount w)) (balances s)"
  shows "payout_books s'"
  unfolding payout_books_def
proof (intro conjI allI ballI)
  note D = wf[unfolded payout_wf_def]
  have b': "b \<in> set (balances s)" "b_publisherId b = wd_publisherId w"
    using b find_key unfolding find_paid_balance_def by fastforce+
  fix p
  have "paid_of p s' = paid_of p s + (if wd_publisherId w = p then wd_amount w else 0)"
    using sum_filter_one[of b_publisherId "balances s" b b_lifetimePaid "\<lambda>x. b_publisherId x = p" "balance_paid (wd_amount w)"]
      D b' by (simp add: paid_of_def rows)
  moreover have "completed_of p s' = completed_of p s + (if wd_publisherId w = p then wd_amount w else 0)"
    using sum_filter_one[of wd_id "withdrawals s" w wd_amount "\<lambda>x. wd_publisherId x = p \<and> wd_status x = ''COMPLETED''"
        withdrawal_completed] D w ws by (simp add: completed_of_def rows)
  ultimately show "paid_of p s' = completed_of p s'" using books by (simp add: payout_books_def)
next
  note D = wf[unfolded payout_wf_def]
  fix w' assume "w' \<in> set (withdrawals s')"
  then obtain v where v: "v \<in> set (withdrawals s)" "w' = (if wd_id v = wd_id w then withdrawal_completed v else v)"
    by (auto simp: rows update_where_def)
  have before: "count_where (\<lambda>e. px_withdrawalId e = wd_id v \<and> px_status e = ''COMPLETED'') (executions s)
      = (if wd_status v = ''COMPLETED'' then 1 else 0)"
    using books v(1) by (simp add: payout_books_def)
  have vw: "v = w" if "wd_id v = wd_id w" using distinct_key_eq[of wd_id, OF _ v(1) w that] D by simp
  have "int (count_where (\<lambda>x. px_withdrawalId x = wd_id v \<and> px_status x = ''COMPLETED'') (executions s'))
      = int (count_where (\<lambda>x. px_withdrawalId x = wd_id v \<and> px_status x = ''COMPLETED'') (executions s))
        + (if wd_id v = wd_id w then 1 else 0)"
    using sum_filter_one[of px_id "executions s" e "\<lambda>_. 1"
        "\<lambda>x. px_withdrawalId x = wd_id v \<and> px_status x = ''COMPLETED''" f] D e es f ew
    unfolding count_sum rows by auto
  then show "count_where (\<lambda>e. px_withdrawalId e = wd_id w' \<and> px_status e = ''COMPLETED'') (executions s')
      = (if wd_status w' = ''COMPLETED'' then 1 else 0)"
    using before v(2) vw ws by (auto split: if_splits)
qed

text \<open>Every transaction, whatever it decides, keeps what the component rests on.\<close>

lemma finalize_keeps:
  assumes wf: "payout_wf s" and r: "finalizeInTransaction env i s = Inr (x, s')"
  shows "payout_wf s' \<and> (payout_books s \<longrightarrow> payout_books s')
    \<and> ((\<exists>a b c. x = PayoutDone Completed a b c) \<longrightarrow> payout_done i s s'
         \<and> x = PayoutDone Completed (pi_executionId i) (pi_withdrawalId i) True)
    \<and> ((\<forall>a b c. x \<noteq> PayoutDone Completed a b c) \<longrightarrow> payout_aside s s')
    \<and> (x = webhookLeaseLost i \<or> event_closed i s')"
proof -
  have d: "distinct (map y_id (payout_events s))" using wf by (simp add: payout_wf_def)
  consider "x = webhookLeaseLost i" "s' = s" | "settled_aside i x s s'"
    | lp facts where "lockAndOwnWebhookLease i s" "loaded i s lp" "evidence_accepted env i lp facts s"
        "completable env i lp facts s" "completePayout env i lp facts s = Inr (x, s')"
    using finalize_Inr[OF r d] by blast
  then show ?thesis
  proof cases
    case 1
    then show ?thesis using wf by (simp add: webhookLeaseLost_def conflict_result_def)
  next
    case 2
    then have a: "payout_aside s s'" and c: "event_closed i s'" and n: "\<forall>a b c. x \<noteq> PayoutDone Completed a b c"
      by (simp_all add: settled_aside_def)
    show ?thesis using payout_aside_same[OF a] wf a c n
      by (simp add: payout_books_def paid_of_def completed_of_def)
  next
    case 3
    note C = completePayout_Inr[OF 3(5,2) wf 3(3,4,1)] and L = loadedD[OF 3(2)] and K = completable_state[OF 3(4)]
    obtain b where b: "find_paid_balance (wd_publisherId (lp_withdrawal lp)) s = Some b"
      using 3(5) by (auto simp: completePayout_def Let_def tx_simps)
    have "payout_books s'" if "payout_books s"
      by (rule completion_keeps_books[OF wf that L(3) L(6) b])
        (use C L K in \<open>auto simp: completed_row_fields\<close>)
    then show ?thesis using C by blast
  qed
qed

section \<open>Sequences of completions\<close>

text \<open>
  Any attempts, one after the other, each on what the earlier ones committed; a failed one is
  rolled back.
\<close>

fun payout_history :: "(env \<times> payout_input) list \<Rightarrow> db \<Rightarrow> payout_result list \<times> db" where
  "payout_history [] s = ([], s)"
| "payout_history ((env, i) # later) s =
     (case finalizeInTransaction env i s of
        Inl e \<Rightarrow> payout_history later s
      | Inr (x, s') \<Rightarrow> (x # fst (payout_history later s'), snd (payout_history later s')))"

fun completes :: "string \<Rightarrow> payout_result \<Rightarrow> bool" where
  "completes k (PayoutDone Completed e w applied) = (w = k)"
| "completes k _ = False"

definition withdrawal_done :: "string \<Rightarrow> db \<Rightarrow> bool" where
  "withdrawal_done k s \<longleftrightarrow> (\<exists>w. find_withdrawal k s = Some w \<and> wd_status w = ''COMPLETED'')"

lemma completes_iff: "completes k x \<longleftrightarrow> (\<exists>e a. x = PayoutDone Completed e k a)"
  by (cases "(k, x)" rule: completes.cases) auto

lemma done_withdrawal: "payout_done i s s' \<Longrightarrow> withdrawal_done k s \<Longrightarrow> k \<noteq> pi_withdrawalId i \<and> withdrawal_done k s'"
  by (auto simp: payout_done_def withdrawal_done_def)

lemma step_done:
  assumes wf: "payout_wf s" and r: "finalizeInTransaction env i s = Inr (x, s')" and k: "withdrawal_done k s"
  shows "withdrawal_done k s' \<and> \<not> completes k x"
proof (cases "\<exists>a b c. x = PayoutDone Completed a b c")
  case True
  then have "payout_done i s s'" "x = PayoutDone Completed (pi_executionId i) (pi_withdrawalId i) True"
    using finalize_keeps[OF wf r] by blast+
  then show ?thesis using done_withdrawal[OF _ k] by auto
next
  case False
  then have "payout_aside s s'" using finalize_keeps[OF wf r] by blast
  then show ?thesis
    using k False by (auto simp: completes_iff withdrawal_done_def find_withdrawal_def payout_aside_same)
qed

lemma history_done: "payout_wf s \<Longrightarrow> withdrawal_done k s \<Longrightarrow> \<forall>x \<in> set (fst (payout_history later s)). \<not> completes k x"
proof (induction later s rule: payout_history.induct)
  case (2 env i later s)
  show ?case
  proof (cases "finalizeInTransaction env i s")
    case (Inl e)
    then show ?thesis using 2 by simp
  next
    case (Inr p)
    obtain x s' where p: "p = (x, s')" by (cases p)
    then have "payout_wf s'" "withdrawal_done k s' \<and> \<not> completes k x"
      using finalize_keeps[OF "2.prems"(1)] step_done[OF "2.prems"(1)] Inr "2.prems"(2) by blast+
    then show ?thesis using "2.IH"(2)[OF Inr p[symmetric]] Inr p by auto
  qed
qed simp

section \<open>Valid evidence completes\<close>

lemma same_some_sym: "same_some a b = same_some b a"
  by (auto simp: same_some_def)

lemma clash_sym: "executions_clash e r = executions_clash r e"
  unfolding executions_clash_def same_some_sym[of "px_completionWebhookEventId e"]
    same_some_sym[of "px_bankTraceReference e"] same_some_sym[of "px_completionEvidenceRef e"]
    eq_commute[of "px_id e"] eq_commute[of "px_providerId e"] eq_commute[of "px_withdrawalId e"]
  by (simp add: conj_commute)

text \<open>Nothing else carries the evidence of this completion.\<close>

definition evidence_fresh :: "payout_input \<Rightarrow> db \<Rightarrow> bool" where
  "evidence_fresh i s \<longleftrightarrow> webhook_id i = None
     \<or> list_all (\<lambda>r. px_completionWebhookEventId r \<noteq> webhook_id i) (executions s)"

lemma no_competition:
  assumes "competitionConflict i lp s = None" "r \<in> set (executions s)" "px_id r \<noteq> px_id (lp_execution lp)"
  shows "px_withdrawalId r = wd_id (lp_withdrawal lp) \<Longrightarrow> \<not> moves_money r"
    "px_providerId r = px_providerId (lp_execution lp) \<Longrightarrow>
       px_completionEvidenceRef r \<noteq> Some (normalizedEvidenceReference i)
       \<and> (manual_actor i \<noteq> None \<longrightarrow> px_bankTraceReference r \<noteq> Some (normalizedEvidenceReference i))"
  using assms
  by (fastforce simp: competitionConflict_def firstConflict_None Let_def list_ex_iff moves_money_def
      ACTIVE_EXECUTION_STATUSES_def)+

lemma completed_row_keys:
  "px_completionWebhookEventId (completed_row env i lp facts r) = webhook_id i"
  "px_bankTraceReference (completed_row env i lp facts r)
     = (if manual_actor i \<noteq> None then Some (normalizedEvidenceReference i) else px_bankTraceReference r)"
  by (simp_all add: completed_row_def Let_def)

lemma completed_unique:
  assumes comp: "competitionConflict i lp s = None" and fr: "evidence_fresh i s"
    and r: "r \<in> set (executions s)" "px_id r \<noteq> px_id (lp_execution lp)"
    and w: "px_withdrawalId (lp_execution lp) = wd_id (lp_withdrawal lp)" and u: "\<not> executions_clash (lp_execution lp) r"
  shows "\<not> executions_clash (completed_row env i lp facts (lp_execution lp)) r"
proof -
  let ?e = "lp_execution lp"
  note N = no_competition[OF comp r]
  have fresh: "\<not> same_some (webhook_id i) (px_completionWebhookEventId r)"
    using fr r(1) by (auto simp: evidence_fresh_def list_all_iff same_some_def)
  have bank: "px_providerId ?e = px_providerId r \<Longrightarrow> \<not> same_some (px_bankTraceReference ?e) (px_bankTraceReference r)"
    using u r(2) by (auto simp: executions_clash_def)
  show ?thesis
    using N fresh bank w
    unfolding executions_clash_def completed_row_fields completed_row_keys same_some_def moves_money_def
    by (auto split: if_splits)
qed

lemma rows_unique:
  assumes wf: "payout_wf s" and u: "\<forall>e \<in> set (executions s). execution_unique e (executions s)"
    and ld: "loaded i s lp" and comp: "competitionConflict i lp s = None" and fr: "evidence_fresh i s"
    and rows: "rows = update_where (\<lambda>x. px_id x = px_id (lp_execution lp)) (completed_row env i lp facts) (executions s)"
  shows "list_all (\<lambda>e. execution_unique e rows) rows"
proof -
  let ?e = "lp_execution lp" and ?f = "completed_row env i lp facts"
  note L = loadedD[OF ld]
  have old: "\<not> executions_clash x r" if "x \<in> set (executions s)" "r \<in> set (executions s)" for x r
    using u that by (auto simp: execution_unique_def list_all_iff)
  have new: "\<not> executions_clash (?f ?e) r" if "r \<in> set (executions s)" "px_id r \<noteq> px_id ?e" for r
    by (rule completed_unique[OF comp fr that]) (use L old that in auto)
  have self: "\<not> executions_clash (?f ?e) (?f ?e)" by (simp add: executions_clash_def)
  have mem: "x = ?f ?e \<or> x \<in> set (executions s) \<and> px_id x \<noteq> px_id ?e" if x: "x \<in> set rows" for x
  proof -
    obtain y where y: "y \<in> set (executions s)" "x = (if px_id y = px_id ?e then ?f y else y)"
      using x by (auto simp: rows update_where_def)
    show ?thesis
    proof (cases "px_id y = px_id ?e")
      case True
      then have "y = ?e" using distinct_key_eq[of px_id, OF _ y(1) L(3)] wf by (simp add: payout_wf_def)
      with y True show ?thesis by simp
    qed (use y in simp)
  qed
  have "\<not> executions_clash x r" if "x \<in> set rows" "r \<in> set rows" for x r
    using mem[OF that(1)] mem[OF that(2)] new[of r] new[of x] old[of x r] self clash_sym[of x r] by auto
  then show ?thesis by (simp add: list_all_iff execution_unique_def)
qed

lemma markCompleted_works:
  assumes wf: "payout_wf s" and u: "\<forall>e \<in> set (executions s). execution_unique e (executions s)"
    and ld: "loaded i s lp" and comp: "competitionConflict i lp s = None" and fr: "evidence_fresh i s"
    and open': "px_completionSource (lp_execution lp) = None"
    and b: "find_paid_balance (wd_publisherId (lp_withdrawal lp)) s \<noteq> None"
  shows "\<exists>s'. markCompleted env i lp facts s = Inr ((), s') \<and> payout_events s' = payout_events s"
proof -
  let ?e = "lp_execution lp" and ?w = "lp_withdrawal lp"
  let ?g = "\<lambda>r. px_id r = px_id ?e \<and> px_withdrawalId r = wd_id ?w \<and> px_status r = px_status ?e
     \<and> px_stage r = px_stage ?e \<and> px_version r = px_version ?e \<and> px_completionSource r = None"
  let ?h = "\<lambda>r. wd_id r = wd_id ?w \<and> wd_status r = wd_status ?w \<and> wd_version r = wd_version ?w"
  note L = loadedD[OF ld] and D = wf[unfolded payout_wf_def]
  have c1: "count_where ?g (executions s) = 1"
    by (rule count_one[of px_id, OF _ L(3)]) (use D L open' in auto)
  have c2: "count_where ?h (withdrawals s) = 1"
    by (rule count_one[of wd_id, OF _ L(6)]) (use D in auto)
  have rows: "update_where ?g (completed_row env i lp facts) (executions s)
      = update_where (\<lambda>x. px_id x = px_id ?e) (completed_row env i lp facts) (executions s)"
    using guard_row[of px_id "executions s" ?e ?g] D L(3) c1 by blast
  have uniq: "list_all (\<lambda>e. execution_unique e (update_where ?g (completed_row env i lp facts) (executions s)))
      (update_where ?g (completed_row env i lp facts) (executions s))"
    unfolding rows by (rule rows_unique[OF wf u ld comp fr refl])
  have paid: "count_where (\<lambda>b. b_publisherId b = wd_publisherId ?w) (balances s) \<noteq> 0"
    using b by (auto simp: find_paid_balance_def find_none count_where_zero)
  show ?thesis
    using c1 c2 uniq paid by (simp add: markCompleted_def update_execution_unique_def Let_def tx_simps)
qed

lemma completePayout_works:
  assumes wf: "payout_wf s" and u: "\<forall>e \<in> set (executions s). execution_unique e (executions s)"
    and ld: "loaded i s lp" and comp: "competitionConflict i lp s = None" and fr: "evidence_fresh i s"
    and open': "px_completionSource (lp_execution lp) = None"
    and b: "find_paid_balance (wd_publisherId (lp_withdrawal lp)) s \<noteq> None"
    and own: "lockAndOwnWebhookLease i s"
  shows "\<exists>s'. completePayout env i lp facts s
     = Inr (PayoutDone Completed (px_id (lp_execution lp)) (wd_id (lp_withdrawal lp)) True, s')"
proof -
  obtain s1 where m: "markCompleted env i lp facts s = Inr ((), s1)" and y: "payout_events s1 = payout_events s"
    using markCompleted_works[OF wf u ld comp fr open' b] by blast
  have own1: "lockAndOwnWebhookLease i s1"
    using own y by (simp add: lockAndOwnWebhookLease_def find_payout_event_def split: completion_evidence.splits)
  have d1: "distinct (map y_id (payout_events s1))" using wf y by (simp add: payout_wf_def)
  obtain v s2 where t: "updateWebhookTerminalState i ''PROCESSED'' (completed_at env facts) None s1 = Inr (v, s2)"
    by (cases "pi_evidence i") (auto simp: updateWebhookTerminalState_def tx_simps)
  then have v by (rule terminal_state[OF _ own1 d1, THEN conjunct1]) simp
  then show ?thesis
    using m t b by (auto simp: completePayout_def auditCompletion_def payout_audit_def Let_def tx_simps)
qed

lemma finalize_works:
  assumes "lockAndOwnWebhookLease i s" and ld: "loaded i s lp"
    and acc: "evidence_accepted env i lp facts s" and ok: "completable env i lp facts s"
    and c: "completePayout env i lp facts s = Inr (x, s')"
  shows "finalizeInTransaction env i s = Inr (x, s')"
proof -
  have w: "find_withdrawal (pi_withdrawalId i) s \<noteq> None"
    using loadedD(4)[OF ld] accepted_withdrawal[OF acc] by simp
  have "firstConflict [stateConflict i lp, amountConflict lp] = None"
    "firstConflict [None, manualConflict env i lp facts, competitionConflict i lp s] = None"
    using ok by (simp_all add: completable_def firstConflict_None)
  then have e: "completeExecution env i lp facts s = Inr (x, s')"
    using ok c by (simp add: completeExecution_def Let_def andThen_def query_def completable_def)
  have "firstConflict [actorConflict i s, referenceConflict i lp facts] = None"
    using acc by (simp add: evidence_accepted_def firstConflict_None)
  then have d: "decideCompletion env i lp s = Inr (x, s')"
    using acc ok e by (simp add: decideCompletion_def Let_def andThen_def query_def evidence_accepted_def completable_def)
  have "loadAndLock i s = Inr (Some lp, s)"
    using ld by (simp add: loadAndLock_def loaded_def andThen_def query_def ret_def)
  then show ?thesis using assms(1) w d by (auto simp: finalizeInTransaction_def andThen_def query_def)
qed

section \<open>Provider metadata\<close>

lemma map_of_filter_fst: "Q k \<Longrightarrow> map_of (filter (\<lambda>m. Q (fst m)) xs) k = map_of xs k"
  by (induction xs) auto

lemma map_of_spread_other: "k \<notin> fst ` set extra \<Longrightarrow> map_of (spread members extra) k = map_of members k"
proof -
  assume k: "k \<notin> fst ` set extra"
  then have "map_of extra k = None" by (simp add: map_of_eq_None_iff)
  moreover have "map_of (filter (\<lambda>m. fst m \<notin> fst ` set extra) members) k = map_of members k"
    using map_of_filter_fst[of "\<lambda>x. x \<notin> fst ` set extra" k] k by simp
  ultimately show ?thesis by (simp add: spread_def map_add_def split: option.splits)
qed

text \<open>What may be stored of a provider's own words: bounded scalars.\<close>

fun bounded_scalar :: "json \<Rightarrow> bool" where
  "bounded_scalar (TextJ t) = (length t \<le> 250)"
| "bounded_scalar (ListJ xs) = False"
| "bounded_scalar (ObjJ ms) = False"
| "bounded_scalar _ = True"

lemma safe_value_bounded:
  assumes "safe_value key v = Some u"
  shows "bounded_scalar u \<and> (key \<in> fst ` set SAFE_PROVIDER_FIELDS \<or> key \<in> set INHERITED_KEYS \<and> u = NullJ)"
proof (cases "map_of SAFE_PROVIDER_FIELDS key")
  case None
  then show ?thesis using assms by (auto simp: safe_value_def split: if_splits)
next
  case (Some rule)
  then have m: "(key, rule) \<in> set SAFE_PROVIDER_FIELDS" by (rule map_of_SomeD)
  have "n \<le> 250" if "rule = MaxLength n" for n using m that by (auto simp: SAFE_PROVIDER_FIELDS_def)
  then have "bounded_scalar u"
    using assms Some by (auto simp: safe_value_def split: json.splits field_rule.splits if_splits)
  moreover have "key \<in> fst ` set SAFE_PROVIDER_FIELDS" using m by (force simp: image_iff)
  ultimately show ?thesis by simp
qed

section \<open>An example\<close>

definition payout_db :: db where
  "payout_db = empty_db\<lparr>
     publishers := [\<lparr>p_id = ''p1'', p_tier = ''STANDARD'', p_organizationId = ''org1''\<rparr>],
     balances := [\<lparr>b_publisherId = ''p1'', b_currency = ''USD'', b_withdrawableBalance = 0, b_debtBalance = 0,
       b_lifetimeEarnings = 5000 * CENT, b_lifetimePaid = 0, b_version = 0,
       b_allocationCarryForward = 0, b_allocationCarryForwardUsed = 0, b_allocationCutoverAt = None\<rparr>],
     payout_providers := [\<lparr>pr_id = ''m1'', pr_name = ''manual''\<rparr>],
     staff := [\<lparr>st_userId = ''carol'', st_role = ''FINANCE'', st_banned = False, st_userType = ''STAFF''\<rparr>],
     withdrawals := [\<lparr>wd_id = ''w1'', wd_publisherId = ''p1'', wd_amount = 5000 * CENT, wd_currency = ''USD'',
       wd_publicReference = Some ''WD-1'', wd_netAmount = None, wd_status = ''PROCESSING'', wd_requestedBy = Some ''alice'',
       wd_approvedBy = Some ''bob'', wd_approvedAt = Some 10, wd_version = 3, wd_payoutFee = 0,
       wd_feePolicyVersion = None, wd_method = ''bank_transfer'', wd_availableAt = None, wd_idempotencyKey = None,
       wd_payoutMethodId = None, wd_rejectedBy = None, wd_rejectedAt = None\<rparr>],
     allocations := [\<lparr>al_withdrawalId = ''w1'', al_amount = 2000 * CENT, al_currency = ''USD'', al_releasedAt = None,
         al_id = ''a1'', al_sourceType = ''CARRY_FORWARD'', al_sourceTransactionId = None, al_settlementId = None,
         al_orderId = None, al_sequence = 0, al_serviceType = None\<rparr>,
       \<lparr>al_withdrawalId = ''w1'', al_amount = 3000 * CENT, al_currency = ''USD'', al_releasedAt = None,
         al_id = ''a2'', al_sourceType = ''SETTLEMENT_RELEASE'', al_sourceTransactionId = Some ''t1'',
         al_settlementId = Some ''s1'', al_orderId = Some ''o1'', al_sequence = 1, al_serviceType = None\<rparr>],
     executions := [\<lparr>px_id = ''x1'', px_withdrawalId = ''w1'', px_providerId = ''m1'', px_status = ''PROCESSING'',
       px_stage = ''PROVIDER_SENT'', px_providerExecutionId = Some ''manual-1'', px_providerTransferId = None,
       px_providerPayoutId = None, px_amount = 5000 * CENT, px_fee = 0, px_sourceCurrency = ''USD'',
       px_destinationCurrency = ''USD'', px_destinationAmount = None, px_acceptedReference = None,
       px_bankTraceReference = None, px_errorMessage = None, px_providerMetadata = ObjJ [], px_livemode = None,
       px_initiatedByUserId = Some ''dave'', px_completionSource = None, px_completionEvidenceRef = None,
       px_completionEvidenceAt = None, px_completedAt = None, px_completionActorUserId = None,
       px_completionWebhookEventId = None, px_createdAt = 20, px_version = 1,
       px_cancellationSource = None\<rparr>]\<rparr>"

definition manual_input :: payout_input where
  "manual_input = \<lparr>pi_executionId = ''x1'', pi_withdrawalId = ''w1'', pi_providerName = ''manual'',
     pi_providerReference = '' fed  ref 77'', pi_metadata = None, pi_fee = None,
     pi_evidence = ManualConfirmation ''WD-1'' (Some 30) ''carol'' ''bank statement seen''\<rparr>"

definition example_paid :: "payout_result \<times> db" where
  "example_paid = projr (finalizeInTransaction example_env manual_input payout_db)"

lemma payout_db_wf: "payout_wf payout_db" "payout_books payout_db"
  by (simp_all add: payout_wf_def payout_books_def payout_db_def empty_db_def paid_of_def completed_of_def)

definition example_loaded :: loaded_payout where
  "example_loaded = the (load_payout payout_db (hd (executions payout_db)))"

definition example_facts :: completion_facts where
  "example_facts = \<lparr>cf_evidenceAt = 30, cf_amountMinor = None, cf_currency = None\<rparr>"

lemma example_checks:
  "lockAndOwnWebhookLease manual_input payout_db" "loaded manual_input payout_db example_loaded"
  "evidence_accepted example_env manual_input example_loaded example_facts payout_db"
proof -
  show "lockAndOwnWebhookLease manual_input payout_db" by code_simp
  show "loaded manual_input payout_db example_loaded"
    by (simp add: loaded_def example_loaded_def manual_input_def payout_db_def empty_db_def load_payout_def
        find_execution_def find_withdrawal_def find_publisher_def)
  have "identityConflict example_env manual_input example_loaded = None" by code_simp
  moreover have "completionFacts example_env manual_input example_loaded payout_db = Inr example_facts" by code_simp
  moreover have "actorConflict manual_input payout_db = None" by code_simp
  moreover have "referenceConflict manual_input example_loaded example_facts = None" by code_simp
  ultimately show "evidence_accepted example_env manual_input example_loaded example_facts payout_db"
    by (simp add: evidence_accepted_def)
qed

lemma example_completable: "completable example_env manual_input example_loaded example_facts payout_db"
proof -
  have "px_status (lp_execution example_loaded) \<noteq> ''COMPLETED''" by code_simp
  moreover have "stateConflict manual_input example_loaded = None" by code_simp
  moreover have "amountConflict example_loaded = None" by code_simp
  moreover have "case reservationConflict example_loaded payout_db of Inl _ \<Rightarrow> False | Inr (c, s) \<Rightarrow> c = None" by code_simp
  then have "reservationConflict example_loaded payout_db = Inr (None, payout_db)"
    by (auto split: sum.splits dest: reservation_Inr)
  moreover have "manualConflict example_env manual_input example_loaded example_facts = None" by code_simp
  moreover have "competitionConflict manual_input example_loaded payout_db = None" by code_simp
  ultimately show ?thesis by (simp add: completable_def)
qed

lemma example_ready:
  "px_completionSource (lp_execution example_loaded) = None" "evidence_fresh manual_input payout_db"
  "\<forall>e \<in> set (executions payout_db). execution_unique e (executions payout_db)"
  "find_paid_balance (wd_publisherId (lp_withdrawal example_loaded)) payout_db \<noteq> None"
proof -
  show "px_completionSource (lp_execution example_loaded) = None" by code_simp
  show "evidence_fresh manual_input payout_db" by code_simp
  show "\<forall>e \<in> set (executions payout_db). execution_unique e (executions payout_db)"
    by (simp add: execution_unique_def executions_clash_def payout_db_def)
  have "wd_publisherId (lp_withdrawal example_loaded) = ''p1''" by code_simp
  then show "find_paid_balance (wd_publisherId (lp_withdrawal example_loaded)) payout_db \<noteq> None"
    by (simp add: find_paid_balance_def payout_db_def)
qed

lemma example_paid_run:
  "finalizeInTransaction example_env manual_input payout_db = Inr (PayoutDone Completed ''x1'' ''w1'' True, snd example_paid)"
proof -
  have "competitionConflict manual_input example_loaded payout_db = None"
    using example_completable by (simp add: completable_def)
  from completePayout_works[OF payout_db_wf(1) example_ready(3) example_checks(2) this example_ready(2,1,4)
        example_checks(1), of example_env example_facts]
  obtain x s where c: "completePayout example_env manual_input example_loaded example_facts payout_db = Inr (x, s)"
    by blast
  have r: "finalizeInTransaction example_env manual_input payout_db = Inr (x, s)"
    by (rule finalize_works[OF example_checks example_completable c])
  have "x = PayoutDone Completed (pi_executionId manual_input) (pi_withdrawalId manual_input) True"
    using completePayout_Inr[OF c example_checks(2) payout_db_wf(1) example_checks(3) example_completable
        example_checks(1)] by blast
  then show ?thesis using r by (simp add: example_paid_def manual_input_def)
qed

section \<open>Properties\<close>

text \<open>C3: A completion has exactly its effect: an execution and its withdrawal that were in flight, in
  agreement about the amount and covered by unreleased allocations of exactly that amount, become
  COMPLETED with the evidence recorded, the publisher's paid total grows by the amount, and no
  other row of any table but the inbox, the notifications and the audit log changes.  Every other
  result moves nothing at all.\<close>

theorem payout_exact:
  assumes "payout_wf s" "finalizeInTransaction env i s = Inr (x, s')"
  shows "payout_wf s' \<and> (case x of PayoutDone Completed _ _ _ \<Rightarrow> payout_done i s s' | _ \<Rightarrow> payout_aside s s')"
  using finalize_keeps[OF assms] by (auto split: payout_result.splits completion_kind.splits)

theorem payout_exact_witness: "payout_wf (snd example_paid) \<and> payout_done manual_input payout_db (snd example_paid)"
  using payout_exact[OF payout_db_wf(1) example_paid_run] by simp

text \<open>C6: A withdrawal is paid at most once: among the results of any sequence of attempts, with any
  inputs and at any times, at most one completes it.\<close>

theorem payout_once:
  assumes "payout_wf s"
  shows "length (filter (completes k) (fst (payout_history runs s))) \<le> 1"
  using assms
proof (induction runs s rule: payout_history.induct)
  case (2 env i later s)
  show ?case
  proof (cases "finalizeInTransaction env i s")
    case (Inl e)
    then show ?thesis using 2 by simp
  next
    case (Inr p)
    obtain x s' where p: "p = (x, s')" by (cases p)
    have run: "finalizeInTransaction env i s = Inr (x, s')" using Inr p by simp
    note K = finalize_keeps[OF "2.prems" run]
    have IH: "length (filter (completes k) (fst (payout_history later s'))) \<le> 1"
      using "2.IH"(2)[OF Inr p[symmetric]] K by blast
    show ?thesis
    proof (cases "completes k x")
      case True
      then have "payout_done i s s'" "k = pi_withdrawalId i" using K by (auto simp: completes_iff)
      then have "withdrawal_done k s'" by (auto simp: payout_done_def withdrawal_done_def)
      then have "filter (completes k) (fst (payout_history later s')) = []"
        using history_done K unfolding filter_empty_conv by blast
      then show ?thesis using run by simp
    next
      case False
      then show ?thesis using IH run by simp
    qed
  qed
qed simp

theorem payout_once_witness:
  "length (filter (completes ''w1'') (fst (payout_history [(example_env, manual_input), (example_env, manual_input)] payout_db))) \<le> 1"
  by (rule payout_once[OF payout_db_wf(1)])

text \<open>C32: The books stay balanced: every publisher's paid total remains the sum of that publisher's
  completed withdrawals, and a withdrawal has exactly one completed execution if it is completed
  and none otherwise.\<close>

theorem payout_keeps_books:
  assumes "payout_wf s" "payout_books s" "finalizeInTransaction env i s = Inr (x, s')"
  shows "payout_books s'"
  using finalize_keeps[OF assms(1,3)] assms(2) by blast

theorem payout_keeps_books_witness: "payout_books (snd example_paid)"
  by (rule payout_keeps_books[OF payout_db_wf example_paid_run])

text \<open>C34: Valid evidence always completes.  When the claim is owned, every check passes, nothing has
  completed the execution, the publisher has a balance and the unique constraints hold in the
  database and are not violated by the webhook event, the transaction cannot fail: it commits
  the completion.\<close>

theorem payout_completes:
  assumes "payout_wf s" "\<forall>e \<in> set (executions s). execution_unique e (executions s)"
    and "lockAndOwnWebhookLease i s" "loaded i s lp" "evidence_accepted env i lp facts s" "completable env i lp facts s"
    and "evidence_fresh i s" "px_completionSource (lp_execution lp) = None"
    and "find_paid_balance (wd_publisherId (lp_withdrawal lp)) s \<noteq> None"
  shows "\<exists>s'. finalizeInTransaction env i s = Inr (PayoutDone Completed (pi_executionId i) (pi_withdrawalId i) True, s')
    \<and> payout_done i s s'"
proof -
  have "competitionConflict i lp s = None" using assms(6) by (simp add: completable_def)
  then obtain x s' where c: "completePayout env i lp facts s = Inr (x, s')"
    using completePayout_works[OF assms(1,2,4) _ assms(7-9,3)] by blast
  then show ?thesis
    using finalize_works[OF assms(3-6) c] completePayout_Inr[OF c assms(4,1,5,6,3)] by blast
qed

theorem payout_completes_witness:
  "\<exists>s'. finalizeInTransaction example_env manual_input payout_db = Inr (PayoutDone Completed ''x1'' ''w1'' True, s')
     \<and> payout_done manual_input payout_db s'"
  using payout_completes[OF payout_db_wf(1) example_ready(3) example_checks example_completable example_ready(2,1,4)]
  by (simp add: manual_input_def)

text \<open>A webhook event is handled once: after a transaction that owned its claim, whatever it
  decided, every later one for the same event finds the claim gone and changes nothing.\<close>

theorem payout_event_once:
  assumes "payout_wf s" "finalizeInTransaction env i s = Inr (x, s')" "x \<noteq> webhookLeaseLost i"
    and "webhook_id i \<noteq> None" "webhook_id j = webhook_id i"
  shows "finalizeInTransaction env2 j s' = Inr (webhookLeaseLost j, s')"
proof -
  have "event_closed i s'" using finalize_keeps[OF assms(1,2)] assms(3) by blast
  then have "\<not> lockAndOwnWebhookLease j s'" by (rule closed_no_lease[OF _ assms(4,5)])
  then show ?thesis by (simp add: finalizeInTransaction_def andThen_def query_def ret_def)
qed

definition webhook_input :: payout_input where
  "webhook_input = \<lparr>pi_executionId = ''x1'', pi_withdrawalId = ''w9'', pi_providerName = ''wise'',
     pi_providerReference = ''t-1'', pi_metadata = None, pi_fee = None, pi_evidence = ProviderWebhook ''y1'' 2 (Some 40)\<rparr>"

definition webhook_db :: db where
  "webhook_db = payout_db\<lparr>payout_events := [\<lparr>y_id = ''y1'', y_provider = ''wise'',
     y_eventType = ''transfers#state-change'', y_providerExecutionId = Some ''t-1'', y_providerAccountExternalId = None,
     y_payoutAmountMinor = Some 500000, y_payoutCurrency = Some ''USD'', y_livemode = None,
     y_providerStatus = Some ''COMPLETED'', y_status = ''PROCESSING'', y_attempts = 2, y_lockedAt = Some 40,
     y_processedAt = None, y_lastError = None, y_receivedAt = 35\<rparr>]\<rparr>"

definition example_quarantined :: "payout_result \<times> db" where
  "example_quarantined = projr (finalizeInTransaction example_env webhook_input webhook_db)"

lemma example_quarantined_run:
  "finalizeInTransaction example_env webhook_input webhook_db = Inr (fst example_quarantined, snd example_quarantined)"
  "fst example_quarantined \<noteq> webhookLeaseLost webhook_input"
proof -
  have "\<not> isl (finalizeInTransaction example_env webhook_input webhook_db)" by code_simp
  then show "finalizeInTransaction example_env webhook_input webhook_db = Inr (fst example_quarantined, snd example_quarantined)"
    by (simp add: example_quarantined_def)
  show "fst example_quarantined \<noteq> webhookLeaseLost webhook_input" by code_simp
qed

theorem payout_event_once_witness:
  "finalizeInTransaction example_env webhook_input (snd example_quarantined)
     = Inr (webhookLeaseLost webhook_input, snd example_quarantined)"
  by (rule payout_event_once[OF _ example_quarantined_run])
    (simp_all add: webhook_db_def payout_db_def empty_db_def payout_wf_def webhook_input_def webhook_id_def)

text \<open>C33: Separation of duties: a bank transfer is confirmed by hand only by a current, unbanned member
  of the finance staff who is neither the person who asked for the withdrawal, nor the one who
  approved it, nor the one who sent it, all of whom are known, and only for a confirmation that
  names the withdrawal's own public reference.\<close>

theorem payout_maker_checker:
  assumes "payout_wf s" "finalizeInTransaction env i s = Inr (PayoutDone Completed a b c, s')"
    and "pi_evidence i = ManualConfirmation ref evidenceAt actor reason"
  shows "\<exists>e w requester approver initiator member.
     find_execution (pi_executionId i) s = Some e \<and> find_withdrawal (pi_withdrawalId i) s = Some w
     \<and> wd_requestedBy w = Some requester \<and> wd_approvedBy w = Some approver \<and> px_initiatedByUserId e = Some initiator
     \<and> actor \<notin> {requester, approver, initiator} \<and> wd_approvedAt w \<noteq> None \<and> wd_publicReference w = Some ref
     \<and> member \<in> set (staff s) \<and> st_userId member = actor \<and> st_role member \<in> {''FINANCE'', ''SUPER_ADMIN''}
     \<and> st_userType member = ''STAFF'' \<and> \<not> st_banned member"
proof -
  have d: "distinct (map y_id (payout_events s))" using assms(1) by (simp add: payout_wf_def)
  obtain lp facts where ld: "loaded i s lp" and acc: "evidence_accepted env i lp facts s"
    and ok: "completable env i lp facts s"
    using finalize_Inr[OF assms(2) d] by (auto simp: settled_aside_def webhookLeaseLost_def conflict_result_def)
  have w: "find_withdrawal (pi_withdrawalId i) s = Some (lp_withdrawal lp)"
    using loadedD(4)[OF ld] accepted_withdrawal[OF acc] by simp
  have "\<exists>m \<in> set (staff s). st_userId m = actor \<and> st_role m \<in> {''FINANCE'', ''SUPER_ADMIN''}
      \<and> st_userType m = ''STAFF'' \<and> \<not> st_banned m"
    using acc assms(3) by (auto simp: evidence_accepted_def actorConflict_def manual_actor_def firstConflict_None list_ex_iff)
  moreover have "wd_publicReference (lp_withdrawal lp) = Some ref"
    using acc assms(3) by (auto simp: evidence_accepted_def identityConflict_def manual_actor_def manual_reference_def
        firstConflict_None Let_def)
  moreover have "manualConflict env i lp facts = None" using ok by (simp add: completable_def)
  ultimately show ?thesis
    using w loadedD(1)[OF ld] assms(3)
    by (auto simp: manualConflict_def firstConflict_None Let_def truthy_def)
qed

theorem payout_maker_checker_witness:
  "\<exists>e w requester approver initiator member.
     find_execution ''x1'' payout_db = Some e \<and> find_withdrawal ''w1'' payout_db = Some w
     \<and> wd_requestedBy w = Some requester \<and> wd_approvedBy w = Some approver \<and> px_initiatedByUserId e = Some initiator
     \<and> ''carol'' \<notin> {requester, approver, initiator} \<and> wd_approvedAt w \<noteq> None \<and> wd_publicReference w = Some ''WD-1''
     \<and> member \<in> set (staff payout_db) \<and> st_userId member = ''carol'' \<and> st_role member \<in> {''FINANCE'', ''SUPER_ADMIN''}
     \<and> st_userType member = ''STAFF'' \<and> \<not> st_banned member"
  using payout_maker_checker[OF payout_db_wf(1) example_paid_run, of "''WD-1''" "Some 30" "''carol''" "''bank statement seen''"]
  by (simp add: manual_input_def)

text \<open>
  The retry loop, attempt by attempt: every attempt before the last has failed with an error to retry,
  and the last decides.
\<close>

lemma retry_loop_attempts:
  "\<exists>k. 1 \<le> k \<and> k \<le> Suc left
     \<and> (\<forall>j. 1 \<le> j \<and> j < k \<longrightarrow> (\<exists>e. attempt_tx (snd (w (n + j - 1))) op (interfere w n j s) = Inl e \<and> retryable e))
     \<and> (case attempt_tx (snd (w (n + k - 1))) op (interfere w n k s) of
          Inr (x, s') \<Rightarrow> retry_loop retryable w op (Suc left) n s = (Inr x, s')
        | Inl e \<Rightarrow> retry_loop retryable w op (Suc left) n s = (Inl e, interfere w n k s) \<and> (retryable e \<longrightarrow> k = Suc left))"
proof (induction left arbitrary: n s)
  case 0
  then show ?case by (intro exI[of _ 1]) (auto simp: Let_def split: sum.splits)
next
  case (Suc left)
  let ?s1 = "fst (w n) s"
  show ?case
  proof (cases "\<exists>e. attempt_tx (snd (w n)) op ?s1 = Inl e \<and> retryable e")
    case False
    then show ?thesis by (intro exI[of _ 1]) (auto simp: Let_def split: sum.splits)
  next
    case True
    then obtain e where e: "attempt_tx (snd (w n)) op ?s1 = Inl e" "retryable e" by blast
    then have loop: "retry_loop retryable w op (Suc (Suc left)) n s = retry_loop retryable w op (Suc left) (n + 1) ?s1"
      by (simp only: retry_loop.simps Let_def) simp
    from Suc.IH[of "n + 1" ?s1] obtain k where k: "1 \<le> k" "k \<le> Suc left"
        "\<forall>j. 1 \<le> j \<and> j < k \<longrightarrow> (\<exists>e. attempt_tx (snd (w (n + 1 + j - 1))) op (interfere w (n + 1) j ?s1) = Inl e \<and> retryable e)"
      and last: "case attempt_tx (snd (w (n + 1 + k - 1))) op (interfere w (n + 1) k ?s1) of
          Inr (x, s') \<Rightarrow> retry_loop retryable w op (Suc left) (n + 1) ?s1 = (Inr x, s')
        | Inl e \<Rightarrow> retry_loop retryable w op (Suc left) (n + 1) ?s1 = (Inl e, interfere w (n + 1) k ?s1) \<and> (retryable e \<longrightarrow> k = Suc left)"
      by blast
    have "\<exists>e. attempt_tx (snd (w (n + j - 1))) op (interfere w n j s) = Inl e \<and> retryable e" if "1 \<le> j" "j < Suc k" for j
    proof (cases "j = 1")
      case False
      define i where "i = j - 1"
      have "j = Suc i" "1 \<le> i" "i < k" using that False by (simp_all add: i_def)
      then show ?thesis using k(3) by simp
    qed (use e in simp)
    then show ?thesis
      unfolding loop using k(1,2) last by (intro exI[of _ "Suc k"]) (auto split: sum.splits)
  qed
qed

text \<open>
  The codes an error carries: its own, or for an error of the database the code of Prisma, the
  original code of a driver error, or one of the codes of its metadata.
\<close>

definition carries :: "failure \<Rightarrow> string \<Rightarrow> bool" where
  "carries e c \<longleftrightarrow> (case e of
     Failure n m \<Rightarrow> False | CodedFailure n code m \<Rightarrow> code = c | TransitionFailure code m r \<Rightarrow> code = c
   | DbFailure d \<Rightarrow> pe_error_code d = Some c \<or> (pe_error_name d = Some ''DriverAdapterError'' \<and> pe_cause_originalCode d = Some c)
       \<or> pe_meta_code d = Some c \<or> pe_meta_originalCode d = Some c)"

lemma carries_iff: "c \<in> trustedPrismaErrorCodes e \<longleftrightarrow> carries e c"
  by (cases e) (auto simp: carries_def trustedPrismaErrorCodes_def opt_list_def split: option.splits)

definition write_conflict :: "failure \<Rightarrow> bool" where
  "write_conflict e \<longleftrightarrow> carries e ''P2034'' \<or> carries e ''40001'' \<or> carries e ''40P01''"

definition unique_conflict :: "failure \<Rightarrow> bool" where
  "unique_conflict e \<longleftrightarrow> carries e ''P2002'' \<or> carries e ''23505''"

lemma conflict_codes:
  "isRetryablePrismaTransactionError e \<longleftrightarrow> write_conflict e" "isPrismaUniqueConstraintError e \<longleftrightarrow> unique_conflict e"
  by (simp_all add: isRetryablePrismaTransactionError_def isPrismaUniqueConstraintError_def Let_def carries_iff
      write_conflict_def unique_conflict_def)

text \<open>Attempt \<open>k\<close> of a finalization: the database aborts it, or it runs on what the others have left.\<close>

definition payout_attempt ::
    "env \<Rightarrow> payout_hooks option \<Rightarrow> weather \<Rightarrow> payout_input \<Rightarrow> db \<Rightarrow> nat \<Rightarrow> failure + (payout_result \<times> db)" where
  "payout_attempt env hooks w i s k = (case snd (w k) of Some e \<Rightarrow> Inl e | None \<Rightarrow> finalizeTx env hooks i (interfere w 1 k s))"

text \<open>C37: A finalization ends with one of at most seven attempts.  Every attempt before it failed on a write
  conflict of the database (P2034, 40001, 40P01) and left nothing.  When it commits, its result and its
  database are those of the call; when it fails on a unique constraint (P2002, 23505), the evidence is reported as
  already in use, and the forensic transaction that follows may commit, what fails in it being
  ignored; any other error is the caller's, a write conflict only of the seventh attempt, and
  nothing but the work of others is in the database.\<close>

theorem payout_commits_once:
  "\<exists>k. 1 \<le> k \<and> k \<le> 7
     \<and> (\<forall>j. 1 \<le> j \<and> j < k \<longrightarrow> (\<exists>e. payout_attempt env hooks w i s j = Inl e \<and> write_conflict e))
     \<and> (case payout_attempt env hooks w i s k of
          Inr (x, s') \<Rightarrow> finalizePayoutExecution env hooks w i s = (Inr x, s')
        | Inl e \<Rightarrow> (write_conflict e \<longrightarrow> k = 7)
            \<and> finalizePayoutExecution env hooks w i s =
                (if unique_conflict e
                 then (Inr (conflict_result i ''EVIDENCE_ALREADY_USED''
                         ''Payout completion evidence or completed execution is already in use''),
                       let t = fst (w 0) (interfere w 1 k s)
                       in if snd (w 0) \<noteq> None then t else case auditUniqueCollision env i t of Inl _ \<Rightarrow> t | Inr (_, s') \<Rightarrow> s')
                 else (Inl e, interfere w 1 k s)))"
proof -
  have seven: "Suc 6 = (7 :: nat)" by simp
  have attempt: "attempt_tx (snd (w (1 + k - 1))) (finalizeTx env hooks i) (interfere w 1 k s) = payout_attempt env hooks w i s k" for k
    unfolding attempt_tx_def payout_attempt_def add_diff_cancel_left' ..
  let ?loop = "retry_loop isRetryablePrismaTransactionError w (finalizeTx env hooks i) 7 1 s"
  obtain k where k: "1 \<le> k" "k \<le> 7"
      "\<forall>j. 1 \<le> j \<and> j < k \<longrightarrow> (\<exists>e. payout_attempt env hooks w i s j = Inl e \<and> write_conflict e)"
    and last: "case payout_attempt env hooks w i s k of
          Inr (x, s') \<Rightarrow> ?loop = (Inr x, s')
        | Inl e \<Rightarrow> ?loop = (Inl e, interfere w 1 k s) \<and> (write_conflict e \<longrightarrow> k = 7)"
    using retry_loop_attempts[where left = 6 and n = 1 and w = w and op = "finalizeTx env hooks i" and s = s
        and retryable = isRetryablePrismaTransactionError, unfolded attempt seven] unfolding conflict_codes by blast
  show ?thesis
    by (intro exI[of _ k] conjI)
      (use k last in \<open>auto simp: finalizePayoutExecution_def PAYOUT_SERIALIZABLE_ATTEMPTS_def conflict_codes Let_def attempt_tx_def split: sum.splits option.splits\<close>)
qed

text \<open>The database aborts the first attempt of the example with a write conflict, and the second commits.\<close>

definition aborted_once :: weather where
  "aborted_once n = (\<lambda>s. s, if n = 1 then Some (prisma_code ''40001'') else None)"

lemma aborted_once_interferes: "interfere aborted_once n k s = s"
  by (induction k arbitrary: n) (simp_all add: aborted_once_def)

lemma aborted_attempts:
  "payout_attempt example_env None aborted_once manual_input payout_db 1 = Inl (prisma_code ''40001'')"
  "payout_attempt example_env None aborted_once manual_input payout_db 2 = Inr (PayoutDone Completed ''x1'' ''w1'' True, snd example_paid)"
proof -
  have "finalizeTx example_env None manual_input payout_db = Inr (PayoutDone Completed ''x1'' ''w1'' True, snd example_paid)"
    using example_paid_run by (simp add: finalizeTx_def andThen_def ret_def)
  then show "payout_attempt example_env None aborted_once manual_input payout_db 2 = Inr (PayoutDone Completed ''x1'' ''w1'' True, snd example_paid)"
    unfolding payout_attempt_def aborted_once_interferes by (simp add: aborted_once_def)
  show "payout_attempt example_env None aborted_once manual_input payout_db 1 = Inl (prisma_code ''40001'')"
    by (simp add: payout_attempt_def aborted_once_def)
qed

theorem payout_commits_once_witness:
  "finalizePayoutExecution example_env None aborted_once manual_input payout_db = (Inr (PayoutDone Completed ''x1'' ''w1'' True), snd example_paid)"
proof -
  have c: "write_conflict (prisma_code ''40001'')" by (simp add: write_conflict_def carries_def prisma_code_def)
  let ?a = "payout_attempt example_env None aborted_once manual_input payout_db"
  from payout_commits_once[of example_env None aborted_once manual_input payout_db]
  obtain k where k: "1 \<le> k" "\<forall>j. 1 \<le> j \<and> j < k \<longrightarrow> (\<exists>e. ?a j = Inl e \<and> write_conflict e)"
    and last: "case ?a k of Inr (x, s') \<Rightarrow> finalizePayoutExecution example_env None aborted_once manual_input payout_db = (Inr x, s')
      | Inl e \<Rightarrow> (write_conflict e \<longrightarrow> k = 7) \<and> finalizePayoutExecution example_env None aborted_once manual_input payout_db
          = (if unique_conflict e
             then (Inr (conflict_result manual_input ''EVIDENCE_ALREADY_USED''
                     ''Payout completion evidence or completed execution is already in use''),
                   let t = fst (aborted_once 0) (interfere aborted_once 1 k payout_db)
                   in if snd (aborted_once 0) \<noteq> None then t
                      else case auditUniqueCollision example_env manual_input t of Inl _ \<Rightarrow> t | Inr (_, s') \<Rightarrow> s')
             else (Inl e, interfere aborted_once 1 k payout_db))"
    by (elim exE conjE)
  have two: "\<not> 2 < k" using k(2)[rule_format, of 2] aborted_attempts(2) by auto
  have "k \<noteq> 1" using last aborted_attempts(1) c by auto
  with k(1) two have "k = 2" by simp
  then show ?thesis using last aborted_attempts(2) by simp
qed

text \<open>What a provider says stays in its own namespace and bounded: merging it changes no other
  member of the execution's metadata, and every member it contributes is a bounded scalar under an
  allowed name, or \<open>null\<close> under a name every object inherits.\<close>

theorem provider_metadata_confined:
  "(\<forall>k. k \<noteq> ''providerEvidence'' \<longrightarrow>
      map_of (mergePayoutProviderMetadata existing incoming) k = map_of (record_members existing) k)
   \<and> (\<forall>(key, v) \<in> set (sanitizePayoutProviderMetadata incoming). bounded_scalar v
        \<and> (key \<in> fst ` set SAFE_PROVIDER_FIELDS \<or> key \<in> set INHERITED_KEYS \<and> v = NullJ))"
proof (intro conjI allI impI)
  fix k :: string assume "k \<noteq> ''providerEvidence''"
  then show "map_of (mergePayoutProviderMetadata existing incoming) k = map_of (record_members existing) k"
    by (simp add: mergePayoutProviderMetadata_def Let_def map_of_spread_other)
next
  show "\<forall>(key, v) \<in> set (sanitizePayoutProviderMetadata incoming). bounded_scalar v
        \<and> (key \<in> fst ` set SAFE_PROVIDER_FIELDS \<or> key \<in> set INHERITED_KEYS \<and> v = NullJ)"
    using safe_value_bounded
    by (fastforce simp: sanitizePayoutProviderMetadata_def map_filter_def split: option.splits)
qed

theorem provider_metadata_confined_witness:
  "map_of (mergePayoutProviderMetadata (ObjJ [(''completion'', NullJ)]) (Some [(''completion'', TextJ ''x''), (''note'', TextJ ''hi'')]))
     ''completion'' = Some NullJ"
proof -
  have "map_of (mergePayoutProviderMetadata (ObjJ [(''completion'', NullJ)]) (Some [(''completion'', TextJ ''x''), (''note'', TextJ ''hi'')]))
     ''completion'' = map_of (record_members (ObjJ [(''completion'', NullJ)])) ''completion''"
    by (rule provider_metadata_confined[THEN conjunct1, rule_format]) simp
  then show ?thesis by simp
qed

end
