(* ===== verification/Withdrawal_Safety.thy ===== *)
theory Withdrawal_Safety
  imports Withdrawals Payout_Safety
begin

text \<open>
  What the withdrawals keep: a request reserves exactly its amount out of the balance and covers
  it by sources that are not spent twice, a rejection gives back exactly what the request took, and
  every withdrawal that is not rejected stays covered by its allocations.
\<close>

section \<open>Allocations\<close>

lemma create_allocation_Inr [tx_simps]:
  "create_allocation env a s = Inr r \<longleftrightarrow>
     list_all (\<lambda>x. al_withdrawalId x \<noteq> al_withdrawalId a \<or> (al_sequence x \<noteq> al_sequence a
        \<and> (al_sourceTransactionId a = None \<or> al_sourceTransactionId x \<noteq> al_sourceTransactionId a))) (allocations s)
     \<and> list_all (\<lambda>x. al_id x \<noteq> env_cuid env (id_supply s)) (allocations s)
     \<and> r = ((), s\<lparr>id_supply := id_supply s + 1, allocations := allocations s @ [a\<lparr>al_id := env_cuid env (id_supply s)\<rparr>]\<rparr>)"
  by (auto simp: create_allocation_def tx_simps)

text \<open>An allocation of this withdrawal: positive, in USD, not released.\<close>

definition reserves :: "string \<Rightarrow> allocation_row \<Rightarrow> bool" where
  "reserves wid a \<longleftrightarrow> al_withdrawalId a = wid \<and> 0 < al_amount a \<and> al_currency a = ''USD'' \<and> al_releasedAt a = None"

text \<open>One that takes from a source no more than the source has left.\<close>

definition takes_from :: "source_view list \<Rightarrow> source_view \<Rightarrow> allocation_row \<Rightarrow> bool" where
  "takes_from views v a \<longleftrightarrow> al_sourceTransactionId a = Some (t_id (sv_row v)) \<and> al_amount a \<le> sourceAvailable views v
     \<and> al_sourceType a \<noteq> ''CARRY_FORWARD'' \<and> (settlementSource v \<or> compensationSource v)"

definition allocated_between :: "string \<Rightarrow> int \<Rightarrow> (allocation_row \<Rightarrow> bool) \<Rightarrow> db \<Rightarrow> db \<Rightarrow> bool" where
  "allocated_between wid amount P s s' \<longleftrightarrow> (\<exists>new.
     s' = s\<lparr>id_supply := id_supply s + length new, allocations := allocations s @ new\<rparr>
     \<and> list_all (reserves wid) new \<and> list_all P new \<and> sum_list (map al_amount new) = amount
     \<and> (\<forall>i. length (filter (\<lambda>a. al_sourceTransactionId a = Some i) new) \<le> 1))"

lemma allocate_sources_Inr:
  assumes "allocate_sources env wid views vs remaining sequence s = Inr (rest, s')"
  shows "\<exists>new. s' = s\<lparr>id_supply := id_supply s + length new, allocations := allocations s @ new\<rparr>
     \<and> list_all (reserves wid) new \<and> list_all (\<lambda>a. \<exists>v \<in> set vs. takes_from views v a) new
     \<and> sum_list (map al_amount new) = remaining - rest \<and> (0 \<le> remaining \<longrightarrow> 0 \<le> rest)
     \<and> (\<forall>i. length (filter (\<lambda>a. al_sourceTransactionId a = Some i) new) \<le> 1)
     \<and> (\<forall>a \<in> set new. \<forall>x \<in> set (allocations s).
          al_withdrawalId x = wid \<longrightarrow> al_sourceTransactionId x \<noteq> al_sourceTransactionId a)
     \<and> (distinct (map al_id (allocations s)) \<longrightarrow> distinct (map al_id (allocations s @ new)))"
  using assms
proof (induction vs arbitrary: remaining sequence s)
  case Nil
  then show ?case by (intro exI[of _ "[]"]) (auto simp: tx_simps)
next
  case (Cons v vs)
  show ?case
  proof (cases "remaining \<le> 0 \<or> (\<not> settlementSource v \<and> \<not> compensationSource v) \<or> sourceAvailable views v \<le> 0")
    case True
    then consider "remaining \<le> 0" "rest = remaining" "s' = s"
      | "allocate_sources env wid views vs remaining sequence s = Inr (rest, s')"
      using Cons.prems by (auto simp: tx_simps split: if_splits)
    then show ?thesis
    proof cases
      case 1
      then show ?thesis by (intro exI[of _ "[]"]) auto
    next
      case 2
      from Cons.IH[OF this] obtain new where "s' = s\<lparr>id_supply := id_supply s + length new, allocations := allocations s @ new\<rparr>"
        "list_all (reserves wid) new" "list_all (\<lambda>a. \<exists>v \<in> set vs. takes_from views v a) new"
        "sum_list (map al_amount new) = remaining - rest" "0 \<le> remaining \<longrightarrow> 0 \<le> rest"
        "\<forall>i. length (filter (\<lambda>a. al_sourceTransactionId a = Some i) new) \<le> 1"
        "\<forall>a \<in> set new. \<forall>x \<in> set (allocations s).
          al_withdrawalId x = wid \<longrightarrow> al_sourceTransactionId x \<noteq> al_sourceTransactionId a"
        "distinct (map al_id (allocations s)) \<longrightarrow> distinct (map al_id (allocations s @ new))" by blast
      then show ?thesis by (intro exI[of _ new]) (auto simp: list_all_iff)
    qed
  next
    case False
    define taken where "taken = min (sourceAvailable views v) remaining"
    let ?a = "source_allocation wid v taken sequence\<lparr>al_id := env_cuid env (id_supply s)\<rparr>"
    let ?s = "s\<lparr>id_supply := id_supply s + 1, allocations := allocations s @ [?a]\<rparr>"
    from Cons.prems False have u: "list_all (\<lambda>x. al_withdrawalId x \<noteq> wid \<or> (al_sequence x \<noteq> sequence
        \<and> al_sourceTransactionId x \<noteq> Some (t_id (sv_row v)))) (allocations s)"
      and pk: "list_all (\<lambda>x. al_id x \<noteq> env_cuid env (id_supply s)) (allocations s)"
      and r: "allocate_sources env wid views vs (remaining - taken) (sequence + 1) ?s = Inr (rest, s')"
      by (auto simp: tx_simps taken_def source_allocation_def Let_def)
    from Cons.IH[OF r] obtain new where n: "s' = ?s\<lparr>id_supply := id_supply ?s + length new, allocations := allocations ?s @ new\<rparr>"
        "list_all (reserves wid) new" "list_all (\<lambda>a. \<exists>v \<in> set vs. takes_from views v a) new"
        "sum_list (map al_amount new) = remaining - taken - rest" "0 \<le> remaining - taken \<longrightarrow> 0 \<le> rest"
        "\<forall>i. length (filter (\<lambda>a. al_sourceTransactionId a = Some i) new) \<le> 1"
        "\<forall>a \<in> set new. \<forall>x \<in> set (allocations ?s).
          al_withdrawalId x = wid \<longrightarrow> al_sourceTransactionId x \<noteq> al_sourceTransactionId a"
        "distinct (map al_id (allocations ?s)) \<longrightarrow> distinct (map al_id (allocations ?s @ new))" by blast
    have "distinct (map al_id (allocations s)) \<Longrightarrow> distinct (map al_id (allocations ?s))"
      using pk by (auto simp: list_all_iff)
    then have dd: "distinct (map al_id (allocations s)) \<longrightarrow> distinct (map al_id (allocations s @ (?a # new)))"
      using n(8) by simp
    have t: "0 < taken" "taken \<le> remaining" "taken \<le> sourceAvailable views v" using False by (auto simp: taken_def)
    have a: "reserves wid ?a" "takes_from views v ?a" "al_amount ?a = taken" "al_sourceTransactionId ?a = Some (t_id (sv_row v))"
      using t False by (auto simp: reserves_def takes_from_def source_allocation_def)
    have "al_sourceTransactionId x \<noteq> al_sourceTransactionId ?a" if "x \<in> set new" for x
      using n(7) that a(1) by (auto simp: reserves_def)
    then have "filter (\<lambda>x. al_sourceTransactionId x = Some (t_id (sv_row v))) new = []"
      using a(4) by (auto simp: filter_empty_conv)
    then have "length (filter (\<lambda>x. al_sourceTransactionId x = Some i) (?a # new)) \<le> 1" for i
      using n(6) a(4) by auto
    moreover have "\<forall>x \<in> set (?a # new). \<forall>y \<in> set (allocations s).
          al_withdrawalId y = wid \<longrightarrow> al_sourceTransactionId y \<noteq> al_sourceTransactionId x"
      using n(7) u a(4) by (auto simp: list_all_iff)
    moreover have "list_all (\<lambda>a. \<exists>v' \<in> set (v # vs). takes_from views v' a) (?a # new)"
      using n(3) a(2) by (auto simp: list_all_iff)
    ultimately show ?thesis using n(1-5) t a dd by (intro exI[of _ "?a # new"]) auto
  qed
qed

lemma source_rows_cong:
  assumes "transactions s' = transactions s" "settlements s' = settlements s" "compensations s' = compensations s"
    "orders s' = orders s" "\<And>i. taken_from i s' = taken_from i s"
  shows "source_rows pid cutover s' = source_rows pid cutover s"
proof -
  have "source_of s' = source_of s"
    using assms by (simp add: source_of_def fun_eq_iff find_settlement_def find_order_def Let_def split: option.splits)
  then show ?thesis using assms(1) by (simp add: source_rows_def)
qed

text \<open>Carried forward, or taken from a source of the publisher within what it has left.\<close>

definition funded :: "string \<Rightarrow> int option \<Rightarrow> db \<Rightarrow> allocation_row \<Rightarrow> bool" where
  "funded pid cutover s a \<longleftrightarrow> al_sourceTransactionId a = None \<and> al_sourceType a = ''CARRY_FORWARD''
     \<or> (\<exists>v \<in> set (source_rows pid cutover s). takes_from (source_rows pid cutover s) v a)"

definition carried :: "allocation_row list \<Rightarrow> int" where
  "carried rows = sum_list (map al_amount (filter (\<lambda>a. al_sourceType a = ''CARRY_FORWARD'') rows))"

lemma carried_simps [simp]: "carried [] = 0" "carried (a # as) = (if al_sourceType a = ''CARRY_FORWARD'' then al_amount a else 0) + carried as"
  by (simp_all add: carried_def)

lemma carried_append: "carried (as @ bs) = carried as + carried bs"
  by (simp add: carried_def)

definition covered_by :: "string \<Rightarrow> int \<Rightarrow> int \<Rightarrow> (allocation_row \<Rightarrow> bool) \<Rightarrow> allocation_row list \<Rightarrow> bool" where
  "covered_by wid amount carry P new \<longleftrightarrow> list_all (reserves wid) new \<and> list_all P new
     \<and> sum_list (map al_amount new) = amount \<and> carried new = carry
     \<and> (\<forall>i. length (filter (\<lambda>a. al_sourceTransactionId a = Some i) new) \<le> 1)"

lemma carried_none: "list_all (\<lambda>a. \<exists>v \<in> set vs. takes_from views v a) new \<Longrightarrow> carried new = 0"
  by (induction new) (auto simp: takes_from_def)

lemma allocateWithdrawalSources_Inr:
  assumes a: "0 < amount" and run: "allocateWithdrawalSources env wid pid amount b s = Inr (carry, s')"
  shows "carry = carry_used b amount \<and> (\<exists>new.
     s' = s\<lparr>id_supply := id_supply s + length new, allocations := allocations s @ new\<rparr>
     \<and> covered_by wid amount carry (funded pid (b_allocationCutoverAt b) s) new
     \<and> (distinct (map al_id (allocations s)) \<longrightarrow> distinct (map al_id (allocations s @ new))))"
proof -
  let ?cut = "b_allocationCutoverAt b"
  let ?c = "carry_used b amount"
  let ?ca = "carry_allocation wid ?c\<lparr>al_id := env_cuid env (id_supply s)\<rparr>"
  let ?first = "if 0 < ?c then [?ca] else []"
  let ?s1 = "s\<lparr>id_supply := id_supply s + length ?first, allocations := allocations s @ ?first\<rparr>"
  have c: "0 \<le> ?c" "?c \<le> amount" using a by (auto simp: carry_used_def Let_def)
  have taken: "taken_from i ?s1 = taken_from i s" for i by (simp add: taken_from_def carry_allocation_def)
  have rows: "source_rows pid ?cut ?s1 = source_rows pid ?cut s" by (rule source_rows_cong) (use taken in simp_all)
  obtain rest where rest: "\<not> 0 < rest" and carry: "carry = ?c"
    and fresh: "0 < ?c \<longrightarrow> list_all (\<lambda>x. al_id x \<noteq> env_cuid env (id_supply s)) (allocations s)"
    and k: "(if 0 < amount - ?c then andThen (query (source_rows pid ?cut)) (\<lambda>views.
             andThen (require (list_all (\<lambda>v. isSupportedMoneyCurrency (JText (t_currency (sv_row v)))) views)
               (coded_conflict ''WITHDRAWAL_SOURCE_CURRENCY_INVALID''
                 ''Publisher liability contains a non-USD source; Finance reconciliation is required'')) (\<lambda>_.
             allocate_sources env wid views views (amount - ?c) (if 0 < ?c then 1 else 0)))
           else ret (amount - ?c)) ?s1 = Inr (rest, s')"
    using run unfolding allocateWithdrawalSources_def Let_def
    by (cases "0 < ?c") (auto simp: andThen_Inr create_allocation_Inr ret_Inr require_Inr)
  have first: "list_all (reserves wid) ?first" "list_all (funded pid ?cut s) ?first" "sum_list (map al_amount ?first) = ?c"
      "carried ?first = ?c" "\<And>i. filter (\<lambda>a. al_sourceTransactionId a = Some i) ?first = []"
    using c by (auto simp: reserves_def funded_def carry_allocation_def)
  have d1: "distinct (map al_id (allocations s)) \<longrightarrow> distinct (map al_id (allocations s @ ?first))"
    using fresh by (auto simp: list_all_iff)
  show ?thesis
  proof (cases "0 < amount - ?c")
    case True
    let ?views = "source_rows pid ?cut s"
    have "allocate_sources env wid ?views ?views (amount - ?c) (if 0 < ?c then 1 else 0) ?s1 = Inr (rest, s')"
      using k True rows by (auto simp: andThen_Inr query_Inr require_Inr)
    from allocate_sources_Inr[OF this] True obtain new where
        n: "s' = ?s1\<lparr>id_supply := id_supply ?s1 + length new, allocations := allocations ?s1 @ new\<rparr>"
        "list_all (reserves wid) new" "list_all (\<lambda>a. \<exists>v \<in> set ?views. takes_from ?views v a) new"
        "sum_list (map al_amount new) = amount - ?c - rest" "0 \<le> rest"
        "\<forall>i. length (filter (\<lambda>a. al_sourceTransactionId a = Some i) new) \<le> 1"
        "distinct (map al_id (allocations ?s1)) \<longrightarrow> distinct (map al_id (allocations ?s1 @ new))" by auto
    have d2: "distinct (map al_id (allocations s)) \<longrightarrow> distinct (map al_id (allocations s @ (?first @ new)))"
      using d1 n(7) by simp
    have "list_all (funded pid ?cut s) new" using n(3) unfolding list_all_iff funded_def by blast
    then have "covered_by wid amount ?c (funded pid ?cut s) (?first @ new)"
      unfolding covered_by_def using first n rest carried_none[OF n(3)]
      by (auto simp: carried_append simp del: filter.simps)
    moreover have "s' = s\<lparr>id_supply := id_supply s + length (?first @ new), allocations := allocations s @ (?first @ new)\<rparr>"
      using n(1) by simp
    ultimately show ?thesis using carry d2 by blast
  next
    case False
    then have "?c = amount" using c by simp
    moreover have "s' = ?s1" using k False by (simp add: ret_Inr)
    ultimately show ?thesis using carry first c a d1 by (intro conjI exI[of _ ?first]) (auto simp: covered_by_def)
  qed
qed

section \<open>What a request does\<close>

definition withdrawal_ledger_row :: "env \<Rightarrow> nat \<Rightarrow> withdrawal_row \<Rightarrow> transaction_row" where
  "withdrawal_ledger_row env n w = new_transaction\<lparr>t_amount := - wd_amount w, t_type := ''WITHDRAWAL'', t_currency := ''USD'',
     t_publisherId := Some (wd_publisherId w), t_reference := Some (''withdrawal-'' @ wd_id w),
     t_description := Some (''Withdrawal '' @ (case wd_publicReference w of None \<Rightarrow> [] | Some r \<Rightarrow> r) @ '' of ''
        @ decimalString (wd_amount w) @ '' USD via '' @ wd_method w),
     t_id := env_cuid env n, t_createdAt := env_now env\<rparr>"

text \<open>A publisher, his balance and his method as a request needs them.\<close>

definition requestable :: "env \<Rightarrow> withdrawal_request \<Rightarrow> publisher_row \<Rightarrow> balance_row \<Rightarrow> db \<Rightarrow> bool" where
  "requestable env rq p b s \<longleftrightarrow> find_publisher (rq_publisherId rq) s = Some p \<and> active_owner (rq_userId rq) (rq_publisherId rq) s
     \<and> (\<exists>m. find (\<lambda>m. m_id m = rq_payoutMethodId rq \<and> m_publisherId m = rq_publisherId rq) (payout_methods s) = Some m
          \<and> m_type m = rq_method rq \<and> pe_executable (method_eligibility env (rq_publisherId rq) m s))
     \<and> find_balance (rq_publisherId rq) s = Some b \<and> b_currency b = ''USD'' \<and> requested_amount rq \<le> b_withdrawableBalance b
     \<and> b_debtBalance b \<le> 0"

lemma eligibleRequest_Inr:
  assumes "eligibleRequest env rq s = Inr (r, s')"
  shows "\<exists>p b. r = (p, b) \<and> s' = s \<and> requestable env rq p b s"
  using assms unfolding eligibleRequest_def assertPayoutMethodExecutable_def requestable_def
  by (auto simp: tx_simps not_less split: option.splits if_splits)

definition requested_between ::
    "(string \<Rightarrow> rat option) \<Rightarrow> env \<Rightarrow> withdrawal_request \<Rightarrow> string \<Rightarrow> publisher_row \<Rightarrow> balance_row \<Rightarrow> withdrawal_row \<Rightarrow> db \<Rightarrow> db \<Rightarrow> bool" where
  "requested_between to_number env rq ref p b w s s' \<longleftrightarrow>
     (let carry = carry_used b (wd_amount w)
      in w = requested_row to_number env rq ref p (env_cuid env (id_supply s)) \<and> wd_id w \<notin> wd_id ` set (withdrawals s)
     \<and> (\<exists>new logs out. covered_by (wd_id w) (wd_amount w) carry (funded (wd_publisherId w) (b_allocationCutoverAt b) s) new
        \<and> (distinct (map al_id (allocations s)) \<longrightarrow> distinct (map al_id (allocations s @ new)))
        \<and> s' = s\<lparr>withdrawals := withdrawals s @ [w], allocations := allocations s @ new,
             balances := update_where (\<lambda>r. b_publisherId r = wd_publisherId w)
               (\<lambda>r. r\<lparr>b_withdrawableBalance := b_withdrawableBalance r - wd_amount w,
                      b_allocationCarryForwardUsed := b_allocationCarryForwardUsed r + carry,
                      b_version := b_version r + 1\<rparr>) (balances s),
             transactions := transactions s @ [withdrawal_ledger_row env (id_supply s + 1 + length new) w],
             id_supply := id_supply s + 2 + length new, audit_logs := logs, outbox := out\<rparr>))"

lemma found_balance: "find_balance i s = Some b \<Longrightarrow> b_publisherId b = i \<and> b \<in> set (balances s)"
  unfolding find_balance_def by (drule find_key) simp

lemma create_withdrawal_Inr [tx_simps]:
  "create_withdrawal env row s = Inr r \<longleftrightarrow> (let w = row (env_cuid env (id_supply s)) in
     list_all (\<lambda>x. wd_id x \<noteq> env_cuid env (id_supply s)
          \<and> (wd_publicReference x = None \<or> wd_publicReference x \<noteq> wd_publicReference w)
          \<and> (wd_publisherId x \<noteq> wd_publisherId w \<or> wd_idempotencyKey x = None
             \<or> wd_idempotencyKey x \<noteq> wd_idempotencyKey w)) (withdrawals s)
     \<and> r = (w, s\<lparr>id_supply := id_supply s + 1, withdrawals := withdrawals s @ [w]\<rparr>))"
  by (auto simp: create_withdrawal_def tx_simps Let_def)

text \<open>Audit rows and communications: the audit log and the outbox are all that changes.\<close>

definition reported :: "db \<Rightarrow> db \<Rightarrow> bool" where
  "reported s s' \<longleftrightarrow> s' = s\<lparr>audit_logs := audit_logs s', outbox := outbox s'\<rparr>"

lemma reported_refl [simp]: "reported s s"
  by (simp add: reported_def)

lemma reported_steps [simp]: "reported s t \<Longrightarrow> reported s (t\<lparr>audit_logs := l\<rparr>)" "reported s t \<Longrightarrow> reported s (t\<lparr>outbox := b\<rparr>)"
  unfolding reported_def by (cases s; cases t; simp)+

lemma audit_log_keeps [keeps]: "(\<And>s l. P s \<Longrightarrow> P (s\<lparr>audit_logs := l\<rparr>)) \<Longrightarrow> preserves P (audit_log env a ty i m u g)"
  by (auto simp: preserves_def audit_log_Inr)

lemma announceRequest_reports:
  assumes "announceRequest to_number env comms rq ref p w s = Inr (u, s')"
  shows "reported s s'"
proof -
  have "preserves (reported s) (announceRequest to_number env comms rq ref p w)"
    unfolding announceRequest_def Let_def by (intro keeps) simp_all
  then show ?thesis using assms reported_refl unfolding preserves_def by blast
qed

lemma reserveRequested_Inr:
  assumes wf: "db_wf s" and a: "0 < requested_amount rq" and b: "find_balance (rq_publisherId rq) s = Some b"
    and run: "reserveRequested to_number env comms rq ref p b s = Inr (w, s')"
  shows "requested_between to_number env rq ref p b w s s' \<and> requested_amount rq \<le> b_withdrawableBalance b"
proof -
  let ?w = "requested_row to_number env rq ref p (env_cuid env (id_supply s))"
  let ?amount = "requested_amount rq" let ?pid = "rq_publisherId rq"
  let ?s1 = "s\<lparr>id_supply := id_supply s + 1, withdrawals := withdrawals s @ [?w]\<rparr>"
  let ?g = "\<lambda>r. b_publisherId r = ?pid \<and> b_version r = b_version b"
  let ?f = "\<lambda>carry r. r\<lparr>b_withdrawableBalance := b_withdrawableBalance r - ?amount,
              b_allocationCarryForwardUsed := b_allocationCarryForwardUsed r + carry, b_version := b_version r + 1\<rparr>"
  have wd: "wd_id ?w = env_cuid env (id_supply s)" "wd_amount ?w = ?amount" "wd_publisherId ?w = ?pid" "wd_method ?w = rq_method rq"
    "wd_publicReference ?w = Some ref" "wd_currency ?w = ''USD''"
    by (simp_all add: requested_row_def)
  from run obtain created s1 carry s2 n s3 u4 s4 u5 s5 i s6 u7 s7 where
      c1: "create_withdrawal env (requested_row to_number env rq ref p) s = Inr (created, s1)"
    and c2: "allocateWithdrawalSources env (wd_id created) ?pid ?amount b s1 = Inr (carry, s2)"
    and c3: "update_balances ?g (?f carry) s2 = Inr (n, s3)"
    and c4: "require (n \<noteq> 0) (http_conflict ''Publisher balance was modified by another request. Retry.'') s3 = Inr (u4, s4)"
    and c5: "require (\<not> balance_violation b (b_withdrawableBalance b - ?amount))
           (Failure ''PublisherBalanceInvariantError'' ''Publisher balance invariant failed in requestWithdrawal'') s4 = Inr (u5, s5)"
    and c6: "create_transaction env (new_transaction\<lparr>t_amount := - ?amount, t_type := ''WITHDRAWAL'', t_currency := ''USD'',
           t_publisherId := Some ?pid, t_reference := Some (''withdrawal-'' @ wd_id created),
           t_description := Some (''Withdrawal '' @ ref @ '' of '' @ decimalString ?amount @ '' USD via '' @ rq_method rq)\<rparr>) s5 = Inr (i, s6)"
    and c7: "announceRequest to_number env comms rq ref p created s6 = Inr (u7, s7)"
    and c9: "ret created s7 = Inr (w, s')"
    unfolding reserveRequested_def Let_def andThen_Inr by blast
  have w: "created = ?w" "w = ?w" "s' = s7" and s1: "s1 = ?s1" and fresh: "wd_id ?w \<notin> wd_id ` set (withdrawals s)"
    using c1 c9 by (auto simp: create_withdrawal_Inr ret_Inr Let_def wd list_all_iff)
  have s3: "n = count_where ?g (balances s2)" "s3 = s2\<lparr>balances := update_where ?g (?f carry) (balances s2)\<rparr>"
    using c3 by (simp_all add: update_Inr)
  have v: "n \<noteq> 0" "s5 = s3" "?amount \<le> b_withdrawableBalance b"
    using c4 c5 by (simp_all add: require_Inr balance_violation_def)
  have s6: "s6 = s5\<lparr>id_supply := id_supply s5 + 1, transactions := transactions s5 @ [withdrawal_ledger_row env (id_supply s5) ?w]\<rparr>"
    using c6 by (simp add: create_transaction_Inr withdrawal_ledger_row_def wd w(1))
  let ?logs = "audit_logs s7" let ?out = "outbox s7"
  have s7: "s7 = s6\<lparr>audit_logs := ?logs, outbox := ?out\<rparr>"
    using announceRequest_reports[OF c7] by (simp only: reported_def)
  from allocateWithdrawalSources_Inr[OF a c2] obtain new where carry: "carry = carry_used b ?amount"
    and s2: "s2 = s1\<lparr>id_supply := id_supply s1 + length new, allocations := allocations s1 @ new\<rparr>"
    and new: "covered_by (wd_id created) ?amount carry (funded ?pid (b_allocationCutoverAt b) s1) new"
    and ids: "distinct (map al_id (allocations s1)) \<longrightarrow> distinct (map al_id (allocations s1 @ new))" by blast
  have ids': "distinct (map al_id (allocations s)) \<longrightarrow> distinct (map al_id (allocations s @ new))"
    using ids by (simp add: s1)
  have "source_rows ?pid (b_allocationCutoverAt b) s1 = source_rows ?pid (b_allocationCutoverAt b) s"
    by (rule source_rows_cong) (simp_all add: s1 taken_from_def)
  then have cov: "covered_by (wd_id ?w) ?amount (carry_used b ?amount) (funded ?pid (b_allocationCutoverAt b) s) new"
    using new unfolding covered_by_def funded_def by (simp add: carry w(1))
  have bal: "update_where ?g (?f carry) (balances s) = update_where (\<lambda>r. b_publisherId r = ?pid) (?f carry) (balances s)"
  proof -
    have bs: "balances s2 = balances s" by (simp add: s1 s2)
    have p: "b_publisherId b = ?pid" "b \<in> set (balances s)" using found_balance[OF b] by simp_all
    have "count_where ?g (balances s) = 1"
      using v(1) s3(1) bs count_key[of b_publisherId "balances s" ?g ?pid] db_wfD(4)[OF wf] by simp
    then show ?thesis
      using guard_row[OF db_wfD(4)[OF wf] p(2), of ?g "?f carry"] p(1) by simp
  qed
  have s6': "s6 = s\<lparr>withdrawals := withdrawals s @ [?w], allocations := allocations s @ new,
       balances := update_where (\<lambda>r. b_publisherId r = ?pid) (?f (carry_used b ?amount)) (balances s),
       transactions := transactions s @ [withdrawal_ledger_row env (id_supply s + 1 + length new) ?w],
       id_supply := id_supply s + 2 + length new\<rparr>"
    using bal carry by (simp add: s6 v(2) s3(2) s2 s1)
  have "s' = s\<lparr>withdrawals := withdrawals s @ [?w], allocations := allocations s @ new,
       balances := update_where (\<lambda>r. b_publisherId r = ?pid) (?f (carry_used b ?amount)) (balances s),
       transactions := transactions s @ [withdrawal_ledger_row env (id_supply s + 1 + length new) ?w],
       id_supply := id_supply s + 2 + length new, audit_logs := ?logs, outbox := ?out\<rparr>"
    unfolding w(3) by (rule trans[OF s7]) (simp add: s6')
  then have "requested_between to_number env rq ref p b ?w s s'"
    unfolding requested_between_def Let_def wd using cov[unfolded wd] fresh[unfolded wd] ids'
    by (intro conjI exI[of _ new] exI[of _ ?logs] exI[of _ ?out]) simp_all
  then show ?thesis using w(2) v(3) by simp
qed

section \<open>What a release and a rejection do\<close>

lemma update_allocations_Inr [tx_simps]:
  "update_allocations p f s = Inr r \<longleftrightarrow> r = (count_where p (allocations s), s\<lparr>allocations := update_where p f (allocations s)\<rparr>)"
  by (auto simp: update_allocations_def)

definition released :: "env \<Rightarrow> string \<Rightarrow> allocation_row list \<Rightarrow> allocation_row list" where
  "released env wid = update_where (\<lambda>a. al_withdrawalId a = wid \<and> al_releasedAt a = None)
     (\<lambda>a. a\<lparr>al_releasedAt := Some (env_now env)\<rparr>)"

definition active_allocations :: "string \<Rightarrow> db \<Rightarrow> allocation_row list" where
  "active_allocations wid s = filter (\<lambda>a. al_withdrawalId a = wid \<and> al_releasedAt a = None) (allocations s)"

lemma releaseWithdrawalSources_Inr:
  assumes d: "distinct (map al_id (allocations s))"
    and run: "releaseWithdrawalSources env wid amount currency s = Inr (carry, s')"
  shows "s' = s\<lparr>allocations := released env wid (allocations s)\<rparr> \<and> carry = carried (active_allocations wid s)
    \<and> reserved_for wid s = amount \<and> list_all (reserves wid) (active_allocations wid s) \<and> active_allocations wid s \<noteq> []"
proof -
  let ?active = "active_allocations wid s"
  let ?g = "\<lambda>a. al_id a \<in> al_id ` set ?active \<and> al_releasedAt a = None"
  have act: "filter (\<lambda>a. al_releasedAt a = None) (withdrawal_allocations wid s) = ?active"
    by (simp add: withdrawal_allocations_def active_allocations_def filter_filter conj_commute)
  have r: "?active \<noteq> []" "sum_list (map al_amount ?active) = amount"
      "\<not> list_ex (\<lambda>a. al_amount a \<le> 0 \<or> al_currency a \<noteq> ''USD'') ?active"
      "s' = s\<lparr>allocations := update_where ?g (\<lambda>a. a\<lparr>al_releasedAt := Some (env_now env)\<rparr>) (allocations s)\<rparr>"
      "carry = carried ?active"
    using run unfolding releaseWithdrawalSources_def act
    by (auto simp del: set_filter filter_filter simp: tx_simps act carried_def split: if_splits)
  have "?g a = (al_withdrawalId a = wid \<and> al_releasedAt a = None)" if "a \<in> set (allocations s)" for a
  proof
    assume g: "?g a"
    then obtain x where x: "x \<in> set ?active" "al_id x = al_id a" by auto
    then have "x = a" using distinct_key_eq[OF d _ that, of x] by (auto simp: active_allocations_def)
    then show "al_withdrawalId a = wid \<and> al_releasedAt a = None" using x by (auto simp: active_allocations_def)
  qed (use that in \<open>auto simp: active_allocations_def\<close>)
  then have "update_where ?g (\<lambda>a. a\<lparr>al_releasedAt := Some (env_now env)\<rparr>) (allocations s) = released env wid (allocations s)"
    unfolding released_def by (rule update_where_cong)
  moreover have "list_all (reserves wid) ?active"
    using r(3) by (auto simp: list_all_iff list_ex_iff reserves_def active_allocations_def not_le)
  ultimately show ?thesis using r by (simp add: reserved_for_def active_allocations_def)
qed

definition reversal_row :: "env \<Rightarrow> nat \<Rightarrow> withdrawal_row \<Rightarrow> transaction_row" where
  "reversal_row env n w = new_transaction\<lparr>t_amount := wd_amount w, t_type := ''WITHDRAWAL_REVERSAL'', t_currency := ''USD'',
     t_publisherId := Some (wd_publisherId w), t_reference := Some (''withdrawal-reject-'' @ wd_id w),
     t_description := Some (''Withdrawal '' @ wd_id w @ '' rejected '' @ em_dash @ '' funds restored''),
     t_id := env_cuid env n, t_createdAt := env_now env\<rparr>"

text \<open>
  The withdrawal is REJECTED, its allocations are released, and the balance has its amount and its
  share of the carry-forward back.
\<close>

definition rejected_between :: "env \<Rightarrow> string \<Rightarrow> withdrawal_row \<Rightarrow> db \<Rightarrow> db \<Rightarrow> bool" where
  "rejected_between env rejectedBy w s s' \<longleftrightarrow> (\<exists>logs out.
     s' = s\<lparr>withdrawals := update_where (\<lambda>r. wd_id r = wd_id w) (\<lambda>r. r\<lparr>wd_status := ''REJECTED'', wd_rejectedBy := Some rejectedBy,
          wd_rejectedAt := Some (env_now env), wd_version := wd_version r + 1\<rparr>) (withdrawals s),
       allocations := released env (wd_id w) (allocations s),
       balances := update_where (\<lambda>r. b_publisherId r = wd_publisherId w)
         (\<lambda>r. r\<lparr>b_withdrawableBalance := b_withdrawableBalance r + wd_amount w,
              b_allocationCarryForwardUsed := b_allocationCarryForwardUsed r - carried (active_allocations (wd_id w) s),
              b_version := b_version r + 1\<rparr>) (balances s),
       transactions := transactions s @ [reversal_row env (id_supply s) w], id_supply := id_supply s + 1,
       audit_logs := logs, outbox := out\<rparr>)"

definition rejects :: "string \<Rightarrow> string \<Rightarrow> withdrawal_row \<Rightarrow> balance_row \<Rightarrow> db \<Rightarrow> bool" where
  "rejects rejectedBy expected w b s \<longleftrightarrow> find_withdrawal (wd_id w) s = Some w \<and> wd_status w = expected \<and> wd_currency w = ''USD''
     \<and> eligible_staff rejectedBy s \<and> find_balance (wd_publisherId w) s = Some b \<and> b_currency b = ''USD''
     \<and> (expected = ''PENDING'' \<longrightarrow> withdrawal_executions (wd_id w) s = [])
     \<and> (expected = ''APPROVED'' \<longrightarrow> claim_count (wd_id w) s = 0 \<and> \<not> list_ex unsafe_execution (withdrawal_executions (wd_id w) s))"

lemma found_withdrawal: "find_withdrawal i s = Some w \<Longrightarrow> wd_id w = i \<and> w \<in> set (withdrawals s)"
  unfolding find_withdrawal_def by (drule find_key) simp

lemma rejectable_Inr:
  assumes "rejectable wid rejectedBy expected s = Inr (r, s')"
  shows "\<exists>w b. r = (w, b) \<and> s' = s \<and> wd_id w = wid \<and> rejects rejectedBy expected w b s"
  using assms found_withdrawal[of wid s] unfolding rejectable_def rejects_def
  by (auto simp: tx_simps split: option.splits)

lemma recordPublisherCommunication_reports:
  assumes "recordPublisherCommunication env comms pid org wid kind message s = Inr (u, s')"
  shows "reported s s'"
proof -
  have "preserves (reported s) (recordPublisherCommunication env comms pid org wid kind message)"
    unfolding recordPublisherCommunication_def by (intro keeps) simp_all
  then show ?thesis using assms reported_refl unfolding preserves_def by blast
qed


lemma restoreFunds_Inr:
  assumes b: "distinct (map b_publisherId (balances s))" and d: "distinct (map al_id (allocations s))"
    and f: "find_balance (wd_publisherId w) s = Some b"
    and run: "restoreFunds env (wd_id w) expected w b s = Inr (u, s')"
  shows "s' = s\<lparr>allocations := released env (wd_id w) (allocations s),
       balances := update_where (\<lambda>r. b_publisherId r = wd_publisherId w)
         (\<lambda>r. r\<lparr>b_withdrawableBalance := b_withdrawableBalance r + wd_amount w,
              b_allocationCarryForwardUsed := b_allocationCarryForwardUsed r - carried (active_allocations (wd_id w) s),
              b_version := b_version r + 1\<rparr>) (balances s),
       transactions := transactions s @ [reversal_row env (id_supply s) w], id_supply := id_supply s + 1\<rparr>
     \<and> reserved_for (wd_id w) s = wd_amount w \<and> list_all (reserves (wd_id w)) (active_allocations (wd_id w) s)"
proof -
  let ?g = "\<lambda>r. b_publisherId r = wd_publisherId w \<and> b_version r = b_version b"
  let ?f = "\<lambda>carry r. r\<lparr>b_withdrawableBalance := b_withdrawableBalance r + wd_amount w,
              b_allocationCarryForwardUsed := b_allocationCarryForwardUsed r - carry, b_version := b_version r + 1\<rparr>"
  from run obtain carry s1 n s2 u3 s3 i s4 where
      c1: "releaseWithdrawalSources env (wd_id w) (wd_amount w) (wd_currency w) s = Inr (carry, s1)"
    and c2: "update_balances ?g (?f carry) s1 = Inr (n, s2)"
    and c3: "require (n = 1) (http_conflict ''Publisher balance changed during rejection'') s2 = Inr (u3, s3)"
    and c4: "create_transaction env (new_transaction\<lparr>t_amount := wd_amount w, t_type := ''WITHDRAWAL_REVERSAL'',
       t_currency := ''USD'', t_publisherId := Some (wd_publisherId w),
       t_reference := Some (''withdrawal-reject-'' @ wd_id w),
       t_description := Some (''Withdrawal '' @ wd_id w @ '' rejected '' @ em_dash @ '' funds restored'')\<rparr>) s3 = Inr (i, s4)"
    and c5: "ret () s4 = Inr (u, s')"
    unfolding restoreFunds_def andThen_Inr by blast
  note R = releaseWithdrawalSources_Inr[OF d c1]
  have p: "b_publisherId b = wd_publisherId w" "b \<in> set (balances s)" using found_balance[OF f] by simp_all
  have s1: "balances s1 = balances s" using R by simp
  have s2: "n = count_where ?g (balances s1)" "s2 = s1\<lparr>balances := update_where ?g (?f carry) (balances s1)\<rparr>"
    using c2 by (simp_all add: update_Inr)
  have "n = 1" "s3 = s2" using c3 by (simp_all add: require_Inr)
  then have "update_where ?g (?f carry) (balances s) = update_where (\<lambda>r. b_publisherId r = wd_publisherId w) (?f carry) (balances s)"
    using guard_row[OF b p(2), of ?g "?f carry"] p(1) s1 s2 by simp
  moreover have "s' = s3\<lparr>id_supply := id_supply s3 + 1, transactions := transactions s3 @ [reversal_row env (id_supply s3) w]\<rparr>"
    using c4 c5 by (simp add: create_transaction_Inr reversal_row_def ret_Inr)
  ultimately show ?thesis using R s1 s2 \<open>s3 = s2\<close> by simp
qed

lemma reported_trans: "reported s t \<Longrightarrow> reported t u \<Longrightarrow> reported s u"
  unfolding reported_def by (cases s; cases t; cases u; simp)

lemma audit_log_reports: "audit_log env a ty i m u g s = Inr (r, s') \<Longrightarrow> reported s s'"
  by (auto simp: audit_log_Inr)

lemma rejectOrAbandonTx_Inr:
  assumes wf: "payout_wf s" and d: "distinct (map al_id (allocations s))"
    and run: "rejectOrAbandonTx env comms wid rejectedBy reason expected s = Inr (r, s')"
  shows "\<exists>w b. wd_id w = wid \<and> rejects rejectedBy expected w b s \<and> rejected_between env rejectedBy w s s'
    \<and> reserved_for wid s = wd_amount w \<and> list_all (reserves wid) (active_allocations wid s)
    \<and> find_withdrawal wid s' = Some (fst r)"
proof -
  let ?f = "\<lambda>r. r\<lparr>wd_status := ''REJECTED'', wd_rejectedBy := Some rejectedBy, wd_rejectedAt := Some (env_now env),
              wd_version := wd_version r + 1\<rparr>"
  from run obtain wb s0 g s1 n s2 u3 s3 u4 s4 u5 s5 fresh s6 updated s7 ev s8 where
      c0: "rejectable wid rejectedBy expected s = Inr (wb, s0)"
    and c1: "query (organization_of (wd_publisherId (fst wb))) s0 = Inr (g, s1)"
    and c2: "update_withdrawals (\<lambda>r. wd_id r = wid \<and> wd_status r = expected \<and> wd_version r = wd_version (fst wb)) ?f s1 = Inr (n, s2)"
    and c3: "require (n = 1) (http_conflict ''Withdrawal changed while rejection was being recorded'') s2 = Inr (u3, s3)"
    and c4: "restoreFunds env wid expected (fst wb) (snd wb) s3 = Inr (u4, s4)"
    and c5: "reported s4 s5"
    and c6: "query (find_withdrawal wid) s5 = Inr (fresh, s6)"
    and c7: "found_or_throw fresh s6 = Inr (updated, s7)"
    and c8: "reported s7 s8"
    and c9: "ret (updated, ev) s8 = Inr (r, s')"
    unfolding rejectOrAbandonTx_def andThen_Inr split_beta
    by (elim exE conjE) (rule that, (assumption | erule audit_log_reports | erule recordPublisherCommunication_reports)+)
  from rejectable_Inr[OF c0] obtain w b where wb: "wb = (w, b)" "s0 = s" "wd_id w = wid" and rj: "rejects rejectedBy expected w b s"
    by blast
  have w: "w \<in> set (withdrawals s)" "find_balance (wd_publisherId w) s = Some b"
    using rj found_withdrawal[of wid s w] wb by (auto simp: rejects_def)
  let ?ws = "update_where (\<lambda>r. wd_id r = wid) ?f (withdrawals s)"
  have s1: "s1 = s" using c1 wb by (simp add: query_Inr)
  have s2: "s2 = s\<lparr>withdrawals := update_where (\<lambda>r. wd_id r = wid \<and> wd_status r = expected \<and> wd_version r = wd_version w) ?f (withdrawals s)\<rparr>"
    and n: "n = count_where (\<lambda>r. wd_id r = wid \<and> wd_status r = expected \<and> wd_version r = wd_version w) (withdrawals s)"
    using c2 wb s1 by (simp_all add: update_Inr)
  have s3: "s3 = s\<lparr>withdrawals := ?ws\<rparr>"
    using guard_row[of wd_id "withdrawals s" w "\<lambda>r. wd_id r = wid \<and> wd_status r = expected \<and> wd_version r = wd_version w" ?f]
      c3 s2 n w(1) wb(3) wf by (simp add: require_Inr payout_wf_def)
  have R: "s4 = s3\<lparr>allocations := released env wid (allocations s3),
       balances := update_where (\<lambda>r. b_publisherId r = wd_publisherId w)
         (\<lambda>r. r\<lparr>b_withdrawableBalance := b_withdrawableBalance r + wd_amount w,
              b_allocationCarryForwardUsed := b_allocationCarryForwardUsed r - carried (active_allocations wid s3),
              b_version := b_version r + 1\<rparr>) (balances s3),
       transactions := transactions s3 @ [reversal_row env (id_supply s3) w], id_supply := id_supply s3 + 1\<rparr>
     \<and> reserved_for wid s3 = wd_amount w \<and> list_all (reserves wid) (active_allocations wid s3)"
    using restoreFunds_Inr[of s3 w b env expected u4 s4] c4 d wf w(2) wb s3 by (simp add: payout_wf_def find_balance_def)
  have s': "s6 = s5" "s7 = s5" "s' = s8" "fst r = updated" "find_withdrawal wid s5 = Some updated"
    using c6 c7 c9 by (auto simp: query_Inr found_or_throw_Inr ret_Inr)
  have "reported s4 s8" using reported_trans[OF c5] c8 s' by simp
  then have e: "s' = s4\<lparr>audit_logs := audit_logs s8, outbox := outbox s8\<rparr>" using s' by (simp add: reported_def)
  have a: "active_allocations wid s3 = active_allocations wid s" "reserved_for wid s3 = reserved_for wid s"
    by (simp_all add: s3 active_allocations_def reserved_for_def)
  have "rejected_between env rejectedBy w s s'"
    unfolding rejected_between_def using R e s3 wb(3) a by (intro exI[of _ "audit_logs s8"] exI[of _ "outbox s8"]) simp
  moreover have "find_withdrawal wid s' = find_withdrawal wid s5"
    using c8 s'(2,3) unfolding reported_def by (cases s8; cases s5) (simp add: find_withdrawal_def)
  ultimately show ?thesis using rj wb(3) R a s' by auto
qed

end
