(* ===== verification/Settlement_Safety.thy ===== *)
theory Settlement_Safety
  imports Settlement_Service Withdrawal_Safety
begin

text \<open>
  What the settlement service does to the database: the effect of each of its transactions, the
  release of a settlement by staff against the automatic one, and the lifecycle of settlements
  under any interleaving of operations, each working on a row it has read earlier.
\<close>

section \<open>Reading and guarding settlements\<close>

lemma found_settlement: "find_settlement i s = Some r \<Longrightarrow> s_id r = i \<and> r \<in> set (settlements s)"
  unfolding find_settlement_def by (drule find_key) simp

lemma found_id: "find_settlement i s = Some r \<Longrightarrow> i \<in> s_id ` set (settlements s)"
  using found_settlement by blast

lemma find_settlement_in: "db_wf s \<Longrightarrow> r \<in> set (settlements s) \<Longrightarrow> find_settlement (s_id r) s = Some r"
  unfolding find_settlement_def by (rule find_distinct) (simp_all add: db_wf_def)

lemma guard_settlement:
  assumes wf: "db_wf s" and c: "count_where (\<lambda>r. s_id r = i \<and> p r) (settlements s) \<noteq> 0"
  obtains fresh where "find_settlement i s = Some fresh" "p fresh"
    "\<forall>f. update_where (\<lambda>r. s_id r = i \<and> p r) f (settlements s) = update_where (\<lambda>r. s_id r = i) f (settlements s)"
proof -
  obtain r where r: "r \<in> set (settlements s)" "s_id r = i" "p r" using c by (auto simp: count_where_zero)
  have one: "p x" if "x \<in> set (settlements s)" "s_id x = i" for x
    using distinct_key_eq[OF db_wfD(3)[OF wf] that(1) r(1)] that(2) r(2,3) by simp
  show thesis
    by (rule that[of r])
      (use r one find_settlement_in[OF wf r(1)] in \<open>auto intro!: update_where_cong\<close>)
qed

lemma guard_order:
  assumes wf: "db_wf s" and c: "count_where (\<lambda>r. o_id r = i \<and> p r) (orders s) \<noteq> 0"
  obtains r where "find_order i s = Some r" "p r"
    "\<forall>f. update_where (\<lambda>r. o_id r = i \<and> p r) f (orders s) = update_where (\<lambda>r. o_id r = i) f (orders s)"
proof -
  obtain r where r: "r \<in> set (orders s)" "o_id r = i" "p r" using c by (auto simp: count_where_zero)
  have one: "p x" if "x \<in> set (orders s)" "o_id x = i" for x
    using distinct_key_eq[OF db_wfD(1)[OF wf] that(1) r(1)] that(2) r(2,3) by simp
  have "find_order i s = Some r"
    unfolding find_order_def using wf r by (intro find_distinct) (simp_all add: db_wf_def)
  then show thesis by (rule that) (use r one in \<open>auto intro!: update_where_cong\<close>)
qed

lemma settlement_or_throw_Inr [tx_simps]:
  "settlement_or_throw i s = Inr r \<longleftrightarrow> (\<exists>st. find_settlement i s = Some st \<and> r = (st, s))"
  by (auto simp: settlement_or_throw_def tx_simps)

lemma move_settlement_simps [simp]:
  "s_id (move_settlement env status r) = s_id r" "s_status (move_settlement env status r) = status"
  "s_version (move_settlement env status r) = s_version r + 1" "s_orderId (move_settlement env status r) = s_orderId r"
  "s_publisherId (move_settlement env status r) = s_publisherId r" "s_currency (move_settlement env status r) = s_currency r"
  "s_publisherAmount (move_settlement env status r) = s_publisherAmount r"
  by (simp_all add: move_settlement_def)

text \<open>The gate: a refusal changes no books, a passage runs the rest on the database as it was.\<close>

lemma gateSettlement_Inr:
  assumes "gateSettlement env orderId k s = Inr (g, s')"
  obtains (refused) reasons key where "g = GateBlocked reasons key" "same_books s s'"
    | (through) l r v x where "g = Passed x" "k l s = Inr (x, s')" "find_order orderId s = Some r"
        "settleable s orderId r v" "sn_orderVersion (le_snapshot l) = o_version r"
proof -
  obtain l s1 where l: "evaluateLockedSettlementEligibility env orderId s = Inr (l, s1)"
    using assms by (auto simp: gateSettlement_def tx_simps)
  show thesis
  proof (cases "el_eligible (le_eligibility l)")
    case False
    then have "s' = s1 \<and> (\<exists>reasons key. g = GateBlocked reasons key)"
      using assms l by (auto simp: gateSettlement_def tx_simps)
    then show thesis using refused evaluateLocked_spec(1)[OF l] by blast
  next
    case True
    obtain r v where "s1 = s" "find_order orderId s = Some r" "settleable s orderId r v"
      "sn_orderVersion (le_snapshot l) = o_version r"
      by (rule evaluateLocked_eligible[OF l True])
    then show thesis using through assms l True by (auto simp: gateSettlement_def tx_simps)
  qed
qed

section \<open>Approvals\<close>

text \<open>Keys, one approval of each type, and none without its settlement.\<close>

definition approvals_wf :: "db \<Rightarrow> bool" where
  "approvals_wf s \<longleftrightarrow> distinct (map a_id (approvals s))
     \<and> distinct (map (\<lambda>a. (a_settlementId a, a_type a)) (approvals s))
     \<and> (\<forall>a \<in> set (approvals s). a_settlementId a \<in> s_id ` set (settlements s))"

lemma approval_given_iff:
  "approval_given i ty s \<longleftrightarrow> (i, ty) \<in> (\<lambda>a. (a_settlementId a, a_type a)) ` set (approvals s)"
  by (auto simp: approval_given_def list_ex_iff image_iff)

lemma create_approval_wf:
  assumes "create_approval env a s = Inr (u, s')" "approvals_wf s" "a_settlementId a \<in> s_id ` set (settlements s)"
  shows "approvals_wf s'" "approval_given i ty s' \<longleftrightarrow> approval_given i ty s \<or> i = a_settlementId a \<and> ty = a_type a"
    "s' = s\<lparr>approvals := approvals s', id_supply := id_supply s'\<rparr>"
  using assms by (auto simp: create_approval_Inr approvals_wf_def approval_given_iff list_all_iff image_iff)

lemma upsert_approval_wf:
  assumes up: "upsert_approval env f a s = Inr (u, s')" and wf: "approvals_wf s"
    and fk: "a_settlementId a \<in> s_id ` set (settlements s)"
    and f: "\<And>r. a_settlementId (f r) = a_settlementId r \<and> a_type (f r) = a_type r \<and> a_id (f r) = a_id r"
  shows "approvals_wf s'" "approval_given i ty s' \<longleftrightarrow> approval_given i ty s \<or> i = a_settlementId a \<and> ty = a_type a"
    "s' = s\<lparr>approvals := approvals s', id_supply := id_supply s'\<rparr>"
proof -
  let ?p = "\<lambda>r. a_settlementId r = a_settlementId a \<and> a_type r = a_type a"
  let ?pair = "\<lambda>a. (a_settlementId a, a_type a)"
  consider (made) "create_approval env a s = Inr (u, s')"
    | (kept) "approval_given (a_settlementId a) (a_type a) s" "s' = s\<lparr>approvals := update_where ?p f (approvals s)\<rparr>"
    using up by (auto simp: upsert_approval_def approval_given_def tx_simps)
  then have "approvals_wf s' \<and> (approval_given i ty s' \<longleftrightarrow> approval_given i ty s \<or> i = a_settlementId a \<and> ty = a_type a)
      \<and> s' = s\<lparr>approvals := approvals s', id_supply := id_supply s'\<rparr>"
  proof cases
    case made
    from create_approval_wf[OF this wf fk] show ?thesis by blast
  next
    case kept
    have ids: "map a_id (update_where ?p f (approvals s)) = map a_id (approvals s)"
      and pairs: "map ?pair (update_where ?p f (approvals s)) = map ?pair (approvals s)"
      using f by (simp_all add: map_update_where)
    have set_pairs: "?pair ` set (update_where ?p f (approvals s)) = ?pair ` set (approvals s)"
      using arg_cong[OF pairs, of set] by simp
    have "a_settlementId ` set (update_where ?p f (approvals s)) = a_settlementId ` set (approvals s)"
      using arg_cong[OF set_pairs, of "image fst"] by (simp add: image_image)
    moreover have "a_settlementId ` set (approvals s) \<subseteq> s_id ` set (settlements s)"
      using wf by (auto simp: approvals_wf_def)
    ultimately have "\<forall>x \<in> set (update_where ?p f (approvals s)). a_settlementId x \<in> s_id ` set (settlements s)"
      unfolding image_subset_iff[symmetric] by simp
    then have "approvals_wf s'" using wf ids pairs by (simp add: approvals_wf_def kept(2))
    moreover have "approval_given i ty s' \<longleftrightarrow> approval_given i ty s"
      by (simp add: approval_given_iff kept(2) set_pairs)
    ultimately show ?thesis using kept by auto
  qed
  then show "approvals_wf s'"
    "approval_given i ty s' \<longleftrightarrow> approval_given i ty s \<or> i = a_settlementId a \<and> ty = a_type a"
    "s' = s\<lparr>approvals := approvals s', id_supply := id_supply s'\<rparr>" by blast+
qed

section \<open>Money that reaches a publisher\<close>

text \<open>The parts of a ledger row that say who is paid for what.\<close>

definition ledger_line :: "transaction_row \<Rightarrow> string \<times> int \<times> string option \<times> string option \<times> string option \<times> string option" where
  "ledger_line t = (t_type t, t_amount t, t_publisherId t, t_settlementId t, t_orderId t, t_walletId t)"

definition release_lines ::
    "settlement_row \<Rightarrow> int \<Rightarrow> int \<Rightarrow> (string \<times> int \<times> string option \<times> string option \<times> string option \<times> string option) list" where
  "release_lines st paid netted =
     (''SETTLEMENT_RELEASE'', paid, Some (s_publisherId st), Some (s_id st), Some (s_orderId st), None)
     # (if 0 < netted then [(''DEBT_REPAYMENT'', - netted, Some (s_publisherId st), Some (s_id st), Some (s_orderId st), None)]
        else [])"

text \<open>One publisher is credited an amount, of which a part repays debt; no other balance moves.\<close>

definition publisher_credited :: "string \<Rightarrow> int \<Rightarrow> int \<Rightarrow> db \<Rightarrow> db \<Rightarrow> bool" where
  "publisher_credited pid amount netted s s' \<longleftrightarrow>
     withdrawable_of pid s' = withdrawable_of pid s + (amount - netted) \<and> debt_of pid s' = debt_of pid s - netted
     \<and> earned_of pid s' = earned_of pid s + amount \<and> 0 \<le> withdrawable_of pid s' \<and> 0 \<le> debt_of pid s'
     \<and> (\<forall>other. other \<noteq> pid \<longrightarrow> find_balance other s' = find_balance other s)"

text \<open>A settlement is paid out: as much as possible repays debt, the rest is credited, and the ledger says so.\<close>

definition money_released :: "settlement_row \<Rightarrow> int \<Rightarrow> int \<Rightarrow> db \<Rightarrow> db \<Rightarrow> bool" where
  "money_released st paid netted s s' \<longleftrightarrow>
     netted = min (debt_of (s_publisherId st) s) paid \<and> publisher_credited (s_publisherId st) paid netted s s'
     \<and> wallets s' = wallets s
     \<and> (\<exists>ts. transactions s' = transactions s @ ts \<and> map ledger_line ts = release_lines st paid netted)"

lemma credited_same:
  "publisher_credited pid amount netted s s' \<Longrightarrow> balances t = balances s \<Longrightarrow> balances t' = balances s' \<Longrightarrow>
     publisher_credited pid amount netted t t'"
  by (simp add: publisher_credited_def withdrawable_of_def debt_of_def earned_of_def find_balance_def)

lemma guarded_balance:
  assumes bal: "find_balance pid s = Some b" and f: "\<And>r. b_publisherId (f r) = b_publisherId r"
    and s': "balances s' = update_where (\<lambda>r. b_publisherId r = pid \<and> b_version r = b_version b) f (balances s)"
  shows "find_balance i s' = (if i = pid then Some (f b) else find_balance i s)"
proof -
  have b': "find (\<lambda>r. b_publisherId r = pid) (balances s) = Some b" using bal by (simp add: find_balance_def)
  have at: "(\<lambda>r. b_publisherId r = pid \<and> b_version r = b_version b) = versioned_balances.row_at pid (b_version b)"
    by (simp add: fun_eq_iff versioned_balances.row_at_def)
  show ?thesis
    unfolding find_balance_def s' at by (rule versioned_balances.guarded_find[OF f b' refl])
qed

lemma creditPublisher_Inr:
  assumes wf: "db_wf s" and b: "balance = find_balance pid s" and a: "0 \<le> amount"
    and c: "creditPublisher pid balance amount netted m place s = Inr (u, s')"
    and n: "balance = None \<Longrightarrow> netted = 0"
  shows "publisher_credited pid amount netted s s'" "db_wf s'" "s' = s\<lparr>balances := balances s'\<rparr>"
proof -
  have "publisher_credited pid amount netted s s' \<and> db_wf s' \<and> s' = s\<lparr>balances := balances s'\<rparr>"
  proof (cases "find_balance pid s")
    case None
    let ?new = "\<lparr>b_publisherId = pid, b_currency = ''USD'', b_withdrawableBalance = amount, b_debtBalance = 0,
      b_lifetimeEarnings = amount, b_lifetimePaid = 0, b_version = 0, b_allocationCarryForward = 0,
      b_allocationCarryForwardUsed = 0, b_allocationCutoverAt = None\<rparr>"
    have s': "s' = s\<lparr>balances := balances s @ [?new]\<rparr>" using c b None by (simp add: creditPublisher_def tx_simps)
    have fb: "find_balance i s' = (if i = pid then Some ?new else find_balance i s)" for i
      using None by (auto simp: s' find_balance_def find_append split: option.split)
    have "db_wf s'" using wf None by (auto simp: s' db_wf_def find_balance_def find_none)
    then show ?thesis
      using a None n b by (simp add: s' publisher_credited_def withdrawable_of_def debt_of_def earned_of_def fb[unfolded s'])
  next
    case (Some bal)
    let ?p = "\<lambda>r. b_publisherId r = pid \<and> b_version r = b_version bal"
    let ?f = "\<lambda>r. r\<lparr>b_currency := ''USD'', b_withdrawableBalance := b_withdrawableBalance r + (amount - netted),
      b_debtBalance := b_debtBalance r - netted, b_lifetimeEarnings := b_lifetimeEarnings r + amount,
      b_version := b_version r + 1\<rparr>"
    have s': "s' = s\<lparr>balances := update_where ?p ?f (balances s)\<rparr>"
      and nn: "0 \<le> b_withdrawableBalance bal + (amount - netted)" "0 \<le> b_debtBalance bal - netted"
      using c b Some
      by (auto simp: creditPublisher_def checkPublisherBalanceInvariant_def invariant_violations_def tx_simps Let_def
          split: if_splits)
    have fb: "find_balance i s' = (if i = pid then Some (?f bal) else find_balance i s)" for i
      by (rule guarded_balance[OF Some]) (simp_all add: s')
    have "db_wf s'" using wf by (simp add: s' db_wf_def map_update_where)
    then show ?thesis
      using nn Some by (simp add: s' publisher_credited_def withdrawable_of_def debt_of_def earned_of_def fb[unfolded s'])
  qed
  then show "publisher_credited pid amount netted s s'" "db_wf s'" "s' = s\<lparr>balances := balances s'\<rparr>" by blast+
qed

lemma recordFundsReleased_Inr:
  assumes "recordFundsReleased env st r userId paid netted s = Inr (u, s')"
  obtains ts n e l where "s' = s\<lparr>transactions := transactions s @ ts, order_events := order_events s @ [e],
      audit_logs := audit_logs s @ [l], id_supply := n\<rparr>" "map ledger_line ts = release_lines st paid netted"
    "e_eventType e = ''SETTLEMENT_RELEASED''" "e_settlementId e = Some (s_id st)" "e_orderId e = s_orderId st"
    "l_action l = ''SETTLEMENT_FUNDS_RELEASED'' \<and> l_entityId l = s_id st"
    "map_of (l_metadata l) ''listingId'' = Some NullJ" "map_of (l_metadata l) ''amount'' = Some NullJ"
proof (cases "0 < netted")
  case True
  show thesis
    using assms True
    by (intro that[where ts = "drop (length (transactions s)) (transactions s')" and n = "id_supply s'"
          and e = "last (order_events s')" and l = "last (audit_logs s')"])
      (auto simp: recordFundsReleased_def tx_simps audit_log_Inr release_lines_def ledger_line_def new_transaction_def
        releaseOrderMetadata_def spread_def Let_def)
next
  case False
  show thesis
    using assms False
    by (intro that[where ts = "drop (length (transactions s)) (transactions s')" and n = "id_supply s'"
          and e = "last (order_events s')" and l = "last (audit_logs s')"])
      (auto simp: recordFundsReleased_def tx_simps audit_log_Inr release_lines_def ledger_line_def new_transaction_def
        releaseOrderMetadata_def spread_def Let_def)
qed

lemma assertSeparation_Inr [tx_simps]:
  "assertSeparation env st r userId s = Inr x \<longleftrightarrow> separation_violation r userId s = None \<and> x = ((), s)"
  by (auto simp: assertSeparation_def tx_simps split: option.splits)

text \<open>The row of a settlement after its release.\<close>

definition released_row :: "env \<Rightarrow> settlement_row \<Rightarrow> settlement_row" where
  "released_row env r = (move_settlement env ''RELEASED'' r)\<lparr>s_currency := ''USD'', s_settledAt := Some (env_now env)\<rparr>"

definition completed_order :: "env \<Rightarrow> order_row \<Rightarrow> order_row" where
  "completed_order env r = r\<lparr>o_status := ''COMPLETED'', o_warrantyEndsAt := warranty_end env r, o_version := o_version r + 1\<rparr>"

lemma releaseFundsInternal_Inr:
  assumes wf: "db_wf s" and a: "0 \<le> s_publisherAmount st"
    and run: "releaseFundsInternal env st userId s = Inr (summary, s')"
  obtains r v fresh netted bs ts e l n where
    "find_order (s_orderId st) s = Some r" "settleable s (s_orderId st) r v" "separation_violation r userId s = None"
    "s_currency st = ''USD''" "find_settlement (s_id st) s = Some fresh" "s_status fresh = ''ADMIN_APPROVED''"
    "s_version fresh = s_version st"
    "s' = s\<lparr>settlements := update_where (\<lambda>x. s_id x = s_id st) (released_row env) (settlements s), balances := bs,
       orders := update_where (\<lambda>x. o_id x = s_orderId st) (\<lambda>_. completed_order env r) (orders s),
       transactions := transactions s @ ts, order_events := order_events s @ [e],
       audit_logs := audit_logs s @ [l], id_supply := n\<rparr>"
    "money_released st (s_publisherAmount st) netted s s'" "db_wf s'"
    "e_eventType e = ''SETTLEMENT_RELEASED''" "e_settlementId e = Some (s_id st)" "e_orderId e = s_orderId st"
    "l_action l = ''SETTLEMENT_FUNDS_RELEASED'' \<and> l_entityId l = s_id st"
    "map_of (l_metadata l) ''listingId'' = Some NullJ" "map_of (l_metadata l) ''amount'' = Some NullJ"
proof -
  let ?pid = "s_publisherId st" let ?paid = "s_publisherAmount st"
  let ?p = "\<lambda>r. s_id r = s_id st \<and> s_status r = ''ADMIN_APPROVED'' \<and> s_version r = s_version st"
  let ?netted = "min (case find_balance ?pid s of None \<Rightarrow> 0 | Some b \<Rightarrow> b_debtBalance b) ?paid"
  let ?s1 = "s\<lparr>settlements := update_where ?p (released_row env) (settlements s)\<rparr>"
  obtain l0 s0 where l0: "evaluateLockedSettlementEligibility env (s_orderId st) s = Inr (l0, s0)"
    and el: "el_eligible (le_eligibility l0)"
    using run by (auto simp: releaseFundsInternal_def tx_simps)
  obtain r v where r: "s0 = s" "find_order (s_orderId st) s = Some r" "settleable s (s_orderId st) r v"
    by (rule evaluateLocked_eligible[OF l0 el])
  have fb1: "find_balance ?pid ?s1 = find_balance ?pid s" by (simp add: find_balance_def)
  obtain s2 s3 where sep: "separation_violation r userId s = None" and usd: "s_currency st = ''USD''"
    and cnt: "count_where ?p (settlements s) \<noteq> 0"
    and c1: "creditPublisher ?pid (find_balance ?pid s) ?paid ?netted ''Publisher balance was modified by another request. Retry.''
      ''releaseFundsInternal'' ?s1 = Inr ((), s2)"
    and c2: "completeOrder env st r s2 = Inr ((), s3)"
    and c3: "recordFundsReleased env st r userId ?paid ?netted s3 = Inr ((), s')"
    using run l0 r(1,2) unfolding releaseFundsInternal_def released_row_def[abs_def]
    by (auto simp: tx_simps Let_def)
  obtain fresh where f: "find_settlement (s_id st) s = Some fresh" "s_status fresh = ''ADMIN_APPROVED'' \<and> s_version fresh = s_version st"
    "\<forall>f. update_where ?p f (settlements s) = update_where (\<lambda>x. s_id x = s_id st) f (settlements s)"
    by (rule guard_settlement[OF wf cnt])
  have wf1: "db_wf ?s1" using wf by (simp add: db_wf_def map_update_where released_row_def)
  have none: "find_balance ?pid s = None \<Longrightarrow> ?netted = 0" using a by simp
  note C = creditPublisher_Inr[OF wf1 fb1[symmetric] a c1 none]
  have o2: "orders s2 = orders s" using arg_cong[OF C(3), of orders] by simp
  let ?q = "\<lambda>x. o_id x = s_orderId st \<and> o_version x = o_version r \<and> o_status x = ''DELIVERED'' \<and> o_currency x = ''USD''
          \<and> o_paymentStatus x = ''PAID''"
  let ?g = "\<lambda>x. x\<lparr>o_status := ''COMPLETED'', o_warrantyEndsAt := warranty_end env r, o_version := o_version x + 1\<rparr>"
  have cnt2: "count_where ?q (orders s2) \<noteq> 0" and s3: "s3 = s2\<lparr>orders := update_where ?q ?g (orders s2)\<rparr>"
    using c2 by (auto simp: completeOrder_def tx_simps)
  obtain r' where r': "find_order (s_orderId st) s2 = Some r'"
    "o_version r' = o_version r \<and> o_status r' = ''DELIVERED'' \<and> o_currency r' = ''USD'' \<and> o_paymentStatus r' = ''PAID''"
    "\<forall>f. update_where ?q f (orders s2) = update_where (\<lambda>x. o_id x = s_orderId st) f (orders s2)"
    by (rule guard_order[OF C(2) cnt2])
  have upd: "update_where ?q ?g (orders s2) = update_where (\<lambda>x. o_id x = s_orderId st) (\<lambda>_. completed_order env r) (orders s)"
  proof -
    have "update_where ?q ?g (orders s2) = update_where (\<lambda>x. o_id x = s_orderId st) ?g (orders s)"
      by (rule trans[OF r'(3)[rule_format]]) (simp only: o2)
    also have "\<dots> = update_where (\<lambda>x. x = r) ?g (orders s)"
    proof (rule update_where_cong)
      fix x assume "x \<in> set (orders s)"
      then show "(o_id x = s_orderId st) = (x = r)"
        using find_key[OF r(2)[unfolded find_order_def]] distinct_key_eq[OF db_wfD(1)[OF wf], of x r] by auto
    qed
    also have "\<dots> = update_where (\<lambda>x. x = r) (\<lambda>_. completed_order env r) (orders s)"
      by (auto simp: update_where_def completed_order_def)
    also have "\<dots> = update_where (\<lambda>x. o_id x = s_orderId st) (\<lambda>_. completed_order env r) (orders s)"
    proof (rule update_where_cong)
      fix x assume "x \<in> set (orders s)"
      then show "(x = r) = (o_id x = s_orderId st)"
        using find_key[OF r(2)[unfolded find_order_def]] distinct_key_eq[OF db_wfD(1)[OF wf], of x r] by auto
    qed
    finally show ?thesis .
  qed
  obtain ts n e l where w: "s' = s3\<lparr>transactions := transactions s3 @ ts, order_events := order_events s3 @ [e],
      audit_logs := audit_logs s3 @ [l], id_supply := n\<rparr>" "map ledger_line ts = release_lines st ?paid ?netted"
    and e: "e_eventType e = ''SETTLEMENT_RELEASED''" "e_settlementId e = Some (s_id st)" "e_orderId e = s_orderId st"
      "l_action l = ''SETTLEMENT_FUNDS_RELEASED'' \<and> l_entityId l = s_id st" "map_of (l_metadata l) ''listingId'' = Some NullJ"
      "map_of (l_metadata l) ''amount'' = Some NullJ"
    by (rule recordFundsReleased_Inr[OF c3])
  have final: "s' = s\<lparr>settlements := update_where (\<lambda>x. s_id x = s_id st) (released_row env) (settlements s), balances := balances s2,
       orders := update_where (\<lambda>x. o_id x = s_orderId st) (\<lambda>_. completed_order env r) (orders s),
       transactions := transactions s @ ts, order_events := order_events s @ [e],
       audit_logs := audit_logs s @ [l], id_supply := n\<rparr>"
  proof -
    have s2: "s2 = ?s1\<lparr>balances := balances s2\<rparr>" by (rule C(3))
    have "order_events s2 = order_events s" "transactions s2 = transactions s" "audit_logs s2 = audit_logs s"
      using arg_cong[OF s2, of order_events] arg_cong[OF s2, of transactions] arg_cong[OF s2, of audit_logs] by simp_all
    then show ?thesis
      unfolding w(1) s3 upd by (subst s2) (simp add: f(3)[rule_format])
  qed
  have "publisher_credited ?pid ?paid ?netted s s'"
    by (rule credited_same[OF C(1)]) (simp_all add: final)
  then have m: "money_released st ?paid ?netted s s'"
    using w(2) final unfolding money_released_def by (auto simp: debt_of_def)
  have "db_wf s3" using C(2) by (simp add: s3 db_wf_def map_update_where)
  then have wf': "db_wf s'" by (simp add: w(1) db_wf_def)
  show thesis by (rule that[OF r(2,3) sep usd f(1) _ _ final m wf' e]) (use f(2) in simp_all)
qed

section \<open>Approvals and releases\<close>

lemma approvals_wf_moved:
  "approvals_wf s \<Longrightarrow> approvals s' = approvals s \<Longrightarrow> s_id ` set (settlements s) \<subseteq> s_id ` set (settlements s') \<Longrightarrow> approvals_wf s'"
  by (auto simp: approvals_wf_def)

lemma approval_given_same: "approvals s' = approvals s \<Longrightarrow> approval_given i ty s' = approval_given i ty s"
  by (simp add: approval_given_def)

lemma ids_moved: "(\<And>x. s_id (f x) = s_id x) \<Longrightarrow> s_id ` set (update_where p f rows) = s_id ` set rows"
  using map_update_where[of s_id f p rows] by (metis list.set_map)

lemma move_settlement_wf: "db_wf s \<Longrightarrow> (\<And>x. s_id (f x) = s_id x) \<Longrightarrow> db_wf (s\<lparr>settlements := update_where p f (settlements s)\<rparr>)"
  by (simp add: db_wf_def map_update_where)

text \<open>The settlement with its key moves; the approvals gain one of a type, for that settlement.\<close>

definition settlement_moved :: "string \<Rightarrow> settlement_row \<Rightarrow> (settlement_row \<Rightarrow> settlement_row) \<Rightarrow> db \<Rightarrow> db \<Rightarrow> bool" where
  "settlement_moved i old f s s' \<longleftrightarrow> find_settlement i s = Some old
     \<and> settlements s' = update_where (\<lambda>x. s_id x = i) f (settlements s)"

definition approval_added :: "string \<Rightarrow> string \<Rightarrow> db \<Rightarrow> db \<Rightarrow> bool" where
  "approval_added i ty s s' \<longleftrightarrow> (approvals_wf s \<longrightarrow> approvals_wf s')
     \<and> (\<forall>j k. approval_given j k s' \<longleftrightarrow> approval_given j k s \<or> j = i \<and> k = ty)"

lemma customerApproveTx_Inr:
  assumes wf: "db_wf s" and run: "customerApproveTx env st ord userId organizationId role s = Inr (Passed x, s')"
  obtains r v old where "find_order (s_orderId st) s = Some r" "settleable s (s_orderId st) r v" "in_review old"
    "s_version old = s_version st" "s_currency old = ''USD''"
    "settlement_moved (s_id st) old (\<lambda>r. (move_settlement env ''CUSTOMER_APPROVED'' r)\<lparr>s_currency := ''USD''\<rparr>) s s'"
    "approvals_wf s \<Longrightarrow> approval_added (s_id st) ''CUSTOMER'' s s'"
    "s' = s\<lparr>settlements := settlements s', approvals := approvals s', order_events := order_events s',
       audit_logs := audit_logs s', id_supply := id_supply s'\<rparr>" "db_wf s'"
proof -
  let ?p = "\<lambda>r. s_id r = s_id st \<and> in_review r \<and> s_version r = s_version st \<and> s_currency r = ''USD''"
  let ?f = "\<lambda>r. (move_settlement env ''CUSTOMER_APPROVED'' r)\<lparr>s_currency := ''USD''\<rparr>"
  let ?s1 = "s\<lparr>settlements := update_where ?p ?f (settlements s)\<rparr>"
  let ?up = "\<lambda>a. a\<lparr>a_approvedBy := userId, a_roleAtTime := role, a_approvedAt := env_now env\<rparr>"
  from run show thesis
    unfolding customerApproveTx_def
  proof (cases rule: gateSettlement_Inr)
    case (through l r v y)
    from through(2) obtain s2 e au where cnt: "count_where ?p (settlements s) \<noteq> 0"
      and up: "upsert_approval env ?up (new_approval (s_id st) ''CUSTOMER'' userId role) ?s1 = Inr ((), s2)"
      and s': "s' = s2\<lparr>order_events := e, audit_logs := au\<rparr>"
      by (auto simp: recordCustomerApproval_def tx_simps audit_log_Inr)
    obtain old where old: "find_settlement (s_id st) s = Some old"
      "in_review old \<and> s_version old = s_version st \<and> s_currency old = ''USD''"
      "\<forall>f. update_where ?p f (settlements s) = update_where (\<lambda>x. s_id x = s_id st) f (settlements s)"
      by (rule guard_settlement[OF wf cnt])
    have ids: "s_id ` set (settlements ?s1) = s_id ` set (settlements s)" by (simp add: ids_moved)
    have wf1: "db_wf ?s1" using wf by (simp add: db_wf_def map_update_where)
    have inl: "a_settlementId (new_approval (s_id st) ''CUSTOMER'' userId role) \<in> s_id ` set (settlements ?s1)"
      using found_id[OF old(1)] unfolding ids by (simp add: new_approval_def)
    obtain a n where s2: "s2 = ?s1\<lparr>approvals := a, id_supply := n\<rparr>"
      by (rule upsert_approval_Inr[OF up]) simp_all
    have given: "approval_given j k s' \<longleftrightarrow> approval_given j k s2" "approvals_wf s' = approvals_wf s2"
      "approval_given j k ?s1 \<longleftrightarrow> approval_given j k s" for j k
      by (simp_all add: s' approval_given_def approvals_wf_def)
    have add: "approval_added (s_id st) ''CUSTOMER'' s s'" if "approvals_wf s"
    proof -
      have w1: "approvals_wf ?s1" by (rule approvals_wf_moved[OF that]) (simp_all add: ids_moved)
      note U = upsert_approval_wf[OF up w1 inl]
      show ?thesis
        using U(1,2) unfolding approval_added_def given by (simp add: new_approval_def)
    qed
    have "settlement_moved (s_id st) old ?f s s'"
      using old(1,3) by (simp add: settlement_moved_def s' s2)
    moreover have "db_wf s'" using wf1 by (simp add: s' s2 db_wf_def)
    ultimately show thesis
      using old(2) add by (intro that[OF through(3,4)]) (simp_all add: s' s2)
  qed auto
qed

text \<open>The release by staff, from the settlement the customer has approved to the ledger.\<close>

definition released_by_staff :: "env \<Rightarrow> settlement_row \<Rightarrow> string \<Rightarrow> int \<Rightarrow> db \<Rightarrow> db \<Rightarrow> bool" where
  "released_by_staff env st userId netted s s' \<longleftrightarrow>
     (\<exists>r v old. find_order (s_orderId st) s = Some r \<and> settleable s (s_orderId st) r v
        \<and> separation_violation r userId s = None \<and> s_currency st = ''USD''
        \<and> s_status old = ''CUSTOMER_APPROVED'' \<and> s_version old = s_version st
        \<and> settlement_moved (s_id st) old (\<lambda>x. released_row env (move_settlement env ''ADMIN_APPROVED'' x)) s s'
        \<and> orders s' = update_where (\<lambda>x. o_id x = s_orderId st) (\<lambda>_. completed_order env r) (orders s)
        \<and> (approvals_wf s \<longrightarrow> approval_added (s_id st) ''ADMIN'' s s')
        \<and> money_released st (s_publisherAmount st) netted s s'
        \<and> (\<exists>e. order_events s' = order_events s @ [e] \<and> e_eventType e = ''SETTLEMENT_RELEASED''
             \<and> e_settlementId e = Some (s_id st) \<and> e_orderId e = s_orderId st)
        \<and> (\<exists>l \<in> set (audit_logs s'). l_action l = ''SETTLEMENT_FUNDS_RELEASED'' \<and> l_entityId l = s_id st
             \<and> map_of (l_metadata l) ''listingId'' = Some NullJ \<and> map_of (l_metadata l) ''amount'' = Some NullJ))"

lemma new_approval_simps [simp]:
  "a_settlementId (new_approval i ty u role) = i" "a_type (new_approval i ty u role) = ty"
  by (simp_all add: new_approval_def)

lemma release_phase:
  assumes wf: "db_wf s" and a: "0 \<le> s_publisherAmount st"
    and G: "\<And>r. G r \<longleftrightarrow> s_id r = s_id st \<and> s_status r = ''CUSTOMER_APPROVED'' \<and> s_version r = s_version st"
    and cnt: "count_where G (settlements s) \<noteq> 0"
    and s1: "s1 = s\<lparr>settlements := update_where G (move_settlement env ''ADMIN_APPROVED'') (settlements s)\<rparr>"
    and fresh: "find_settlement (s_id st) s1 = Some fresh"
    and made: "create_approval env (new_approval (s_id st) ''ADMIN'' userId role) s1 = Inr ((), s2)"
    and run: "releaseFundsInternal env (st\<lparr>s_version := s_version fresh\<rparr>) userId s2 = Inr (summary, s3)"
  obtains netted where "released_by_staff env st userId netted s s3" "db_wf s3"
proof -
  let ?st = "st\<lparr>s_version := s_version fresh\<rparr>"
  have G': "G = (\<lambda>r. s_id r = s_id st \<and> s_status r = ''CUSTOMER_APPROVED'' \<and> s_version r = s_version st)"
    using G by blast
  obtain old where old: "find_settlement (s_id st) s = Some old"
    "s_status old = ''CUSTOMER_APPROVED'' \<and> s_version old = s_version st"
    "\<forall>f. update_where G f (settlements s) = update_where (\<lambda>x. s_id x = s_id st) f (settlements s)"
    unfolding G' by (rule guard_settlement[OF wf cnt[unfolded G']])
  have set1: "settlements s1 = update_where (\<lambda>x. s_id x = s_id st) (move_settlement env ''ADMIN_APPROVED'') (settlements s)"
    using old(3) by (simp add: s1)
  have ids: "s_id ` set (settlements s1) = s_id ` set (settlements s)" by (simp add: s1 ids_moved)
  have s2: "s2 = s1\<lparr>id_supply := id_supply s2, approvals := approvals s2\<rparr>"
    using made by (simp add: create_approval_Inr)
  have wf2: "db_wf s2"
    using wf by (subst s2) (simp add: s1 db_wf_def map_update_where)
  have same: "orders s2 = orders s" "balances s2 = balances s" "wallets s2 = wallets s" "transactions s2 = transactions s"
    "order_events s2 = order_events s" "settlements s2 = settlements s1" "deliveries s2 = deliveries s"
    "order_disputes s2 = order_disputes s" "revisions s2 = revisions s" "cancellations s2 = cancellations s"
    "fraud_holds s2 = fraud_holds s" "websites s2 = websites s"
    by (subst s2, simp add: s1)+
  have a': "0 \<le> s_publisherAmount ?st" using a by simp
  obtain r v fr netted bs ts e l n where
    R: "find_order (s_orderId ?st) s2 = Some r" "settleable s2 (s_orderId ?st) r v" "separation_violation r userId s2 = None"
    "s_currency ?st = ''USD''" "find_settlement (s_id ?st) s2 = Some fr" "s_status fr = ''ADMIN_APPROVED''"
    "s_version fr = s_version ?st"
    and s3: "s3 = s2\<lparr>settlements := update_where (\<lambda>x. s_id x = s_id ?st) (released_row env) (settlements s2), balances := bs,
       orders := update_where (\<lambda>x. o_id x = s_orderId ?st) (\<lambda>_. completed_order env r) (orders s2),
       transactions := transactions s2 @ ts, order_events := order_events s2 @ [e],
       audit_logs := audit_logs s2 @ [l], id_supply := n\<rparr>"
    and m: "money_released ?st (s_publisherAmount ?st) netted s2 s3" and wf3: "db_wf s3"
    and e: "e_eventType e = ''SETTLEMENT_RELEASED''" "e_settlementId e = Some (s_id ?st)" "e_orderId e = s_orderId ?st"
    "l_action l = ''SETTLEMENT_FUNDS_RELEASED'' \<and> l_entityId l = s_id ?st"
    "map_of (l_metadata l) ''listingId'' = Some NullJ" "map_of (l_metadata l) ''amount'' = Some NullJ"
    by (rule releaseFundsInternal_Inr[OF wf2 a' run])
  have moved: "settlement_moved (s_id st) old (\<lambda>x. released_row env (move_settlement env ''ADMIN_APPROVED'' x)) s s3"
  proof -
    have "update_where (\<lambda>x. s_id x = s_id st) (released_row env)
        (update_where (\<lambda>x. s_id x = s_id st) (move_settlement env ''ADMIN_APPROVED'') rows)
      = update_where (\<lambda>x. s_id x = s_id st) (\<lambda>x. released_row env (move_settlement env ''ADMIN_APPROVED'' x)) rows" for rows
      by (induction rows) simp_all
    then show ?thesis using old(1) by (simp add: settlement_moved_def s3 same(6) set1)
  qed
  have add: "approval_added (s_id st) ''ADMIN'' s s3" if w: "approvals_wf s"
  proof -
    have w1: "approvals_wf s1" by (rule approvals_wf_moved[OF w]) (simp_all add: ids, simp add: s1)
    have fk: "a_settlementId (new_approval (s_id st) ''ADMIN'' userId role) \<in> s_id ` set (settlements s1)"
      using found_id[OF old(1)] by (simp add: ids)
    note C = create_approval_wf[OF made w1 fk]
    have "approvals_wf s3"
      by (rule approvals_wf_moved[OF C(1)]) (simp_all add: s3 ids_moved released_row_def)
    moreover have "approval_given j k s3 \<longleftrightarrow> approval_given j k s2" "approval_given j k s1 \<longleftrightarrow> approval_given j k s" for j k
      by (simp_all add: s3 s1 approval_given_def)
    ultimately show ?thesis using C(2) by (simp add: approval_added_def)
  qed
  have sv: "settleable s (s_orderId st) r v" using R(2) by (simp add: settleable_def same)
  have sep: "separation_violation r userId s = None"
    using R(3) by (simp only: separation_violation_def order_channel_def active_delivery_row_def same)
  have bal: "find_balance p s2 = find_balance p s" for p by (simp add: find_balance_def same)
  then have "withdrawable_of p s2 = withdrawable_of p s" "debt_of p s2 = debt_of p s" "earned_of p s2 = earned_of p s" for p
    by (simp_all add: withdrawable_of_def debt_of_def earned_of_def)
  moreover have "release_lines ?st p q = release_lines st p q" for p q by (simp add: release_lines_def)
  ultimately have "money_released st (s_publisherAmount st) netted s s3 = money_released ?st (s_publisherAmount ?st) netted s2 s3"
    using bal by (simp add: money_released_def publisher_credited_def same)
  with m have money: "money_released st (s_publisherAmount st) netted s s3" by simp
  have "released_by_staff env st userId netted s s3"
    unfolding released_by_staff_def
    using R(1,4) sv sep old(2) moved add money e by (auto simp: s3 same find_order_def)
  then show thesis using wf3 by (rule that)
qed

lemma recordSettlementReleased_reports:
  assumes "recordSettlementReleased to_number env comms st ord summary s = Inr (ids, s')"
  shows "reported s s'"
proof -
  have "preserves (reported s) (recordSettlementReleased to_number env comms st ord summary)"
    unfolding recordSettlementReleased_def recordHighValueSettlement_def Let_def by (intro keeps) simp_all
  then show ?thesis using assms reported_refl unfolding preserves_def by blast
qed

lemma reportedD: "reported s s' \<Longrightarrow> \<exists>l b. s' = s\<lparr>audit_logs := l, outbox := b\<rparr>"
  unfolding reported_def by blast

text \<open>The audit log only grows while a release is told.\<close>

lemma audit_grows:
  assumes "recordSettlementReleased to_number env comms st ord summary s = Inr (ids, s')"
  shows "audit_logs s' = audit_logs s"
proof -
  have "preserves (\<lambda>t. audit_logs t = audit_logs s) (recordSettlementReleased to_number env comms st ord summary)"
    unfolding recordSettlementReleased_def recordHighValueSettlement_def Let_def by (intro keeps) simp_all
  then show ?thesis using assms unfolding preserves_def by blast
qed

lemma released_by_staff_told:
  assumes "released_by_staff env st userId netted s s1" "db_wf s1" "s' = s1\<lparr>audit_logs := l, outbox := b\<rparr>"
    "set (audit_logs s1) \<subseteq> set l"
  shows "released_by_staff env st userId netted s s'" "db_wf s'"
proof -
  have given: "approval_given i ty s' = approval_given i ty s1" "approvals_wf s' = approvals_wf s1"
    and money: "money_released st p netted s s' = money_released st p netted s s1" for i ty p
    by (simp_all add: assms(3) approval_given_def approvals_wf_def money_released_def publisher_credited_def
        withdrawable_of_def debt_of_def earned_of_def find_balance_def)
  obtain r v old e x where "find_order (s_orderId st) s = Some r" "settleable s (s_orderId st) r v"
    "separation_violation r userId s = None" "s_currency st = ''USD''"
    "s_status old = ''CUSTOMER_APPROVED''" "s_version old = s_version st"
    and mv: "settlement_moved (s_id st) old (\<lambda>x. released_row env (move_settlement env ''ADMIN_APPROVED'' x)) s s1"
    and od: "orders s1 = update_where (\<lambda>x. o_id x = s_orderId st) (\<lambda>_. completed_order env r) (orders s)"
    and ap: "approvals_wf s \<longrightarrow> approval_added (s_id st) ''ADMIN'' s s1"
    and mn: "money_released st (s_publisherAmount st) netted s s1"
    and ev: "order_events s1 = order_events s @ [e]" "e_eventType e = ''SETTLEMENT_RELEASED''"
      "e_settlementId e = Some (s_id st)" "e_orderId e = s_orderId st"
    and lg: "x \<in> set (audit_logs s1)" "l_action x = ''SETTLEMENT_FUNDS_RELEASED''" "l_entityId x = s_id st"
      "map_of (l_metadata x) ''listingId'' = Some NullJ" "map_of (l_metadata x) ''amount'' = Some NullJ"
    using assms(1) unfolding released_by_staff_def by blast
  moreover have "settlement_moved (s_id st) old (\<lambda>x. released_row env (move_settlement env ''ADMIN_APPROVED'' x)) s s'"
    using mv by (simp add: settlement_moved_def assms(3))
  moreover have "approvals_wf s \<longrightarrow> approval_added (s_id st) ''ADMIN'' s s'"
    using ap by (simp add: approval_added_def given)
  moreover have "orders s' = orders s1" "order_events s' = order_events s1" "x \<in> set (audit_logs s')"
    using lg(1) assms(4) by (auto simp: assms(3))
  ultimately show "released_by_staff env st userId netted s s'"
    unfolding released_by_staff_def money by metis
  show "db_wf s'" using assms(2) by (simp add: assms(3) db_wf_def)
qed

lemma adminApproveTx_Inr:
  assumes wf: "db_wf s" and a: "0 \<le> s_publisherAmount st"
    and run: "adminApproveTx to_number env comms st ord reason userId staffRole s = Inr (Passed x, s')"
  obtains netted where "released_by_staff env st userId netted s s'" "db_wf s'"
proof -
  let ?p = "\<lambda>r. s_id r = s_id st \<and> s_status r = ''CUSTOMER_APPROVED'' \<and> s_version r = s_version st"
  let ?s1 = "s\<lparr>settlements := update_where ?p (move_settlement env ''ADMIN_APPROVED'') (settlements s)\<rparr>"
  from run show thesis
    unfolding adminApproveTx_def
  proof (cases rule: gateSettlement_Inr)
    case (through l r v y)
    from through(2) obtain fresh s2 summary s3 au ids where cnt: "count_where ?p (settlements s) \<noteq> 0"
      and fr: "find_settlement (s_id st) ?s1 = Some fresh"
      and made: "create_approval env (new_approval (s_id st) ''ADMIN'' userId staffRole) ?s1 = Inr ((), s2)"
      and rel: "releaseFundsInternal env (st\<lparr>s_version := s_version fresh\<rparr>) userId s2 = Inr (summary, s3)"
      and tell: "recordSettlementReleased to_number env comms st ord summary (s3\<lparr>audit_logs := audit_logs s3 @ [au]\<rparr>) = Inr (ids, s')"
      by (auto simp: tx_simps audit_log_Inr)
    obtain netted where R: "released_by_staff env st userId netted s s3" "db_wf s3"
      by (rule release_phase[OF wf a refl cnt refl fr made rel])
    obtain lg b where s': "s' = s3\<lparr>audit_logs := lg, outbox := b\<rparr>"
      using reportedD[OF recordSettlementReleased_reports[OF tell]] by auto
    have "lg = audit_logs s3 @ [au]" using audit_grows[OF tell] s' by simp
    then have "set (audit_logs s3) \<subseteq> set lg" by auto
    from released_by_staff_told[OF R s' this] show thesis by (rule that)
  qed auto
qed

text \<open>A forced approval is the customer's on a settlement under review, and the release on an approved one.\<close>

definition forced_for_customer :: "env \<Rightarrow> settlement_row \<Rightarrow> db \<Rightarrow> db \<Rightarrow> bool" where
  "forced_for_customer env st s s' \<longleftrightarrow>
     (\<exists>r v old. find_order (s_orderId st) s = Some r \<and> settleable s (s_orderId st) r v
        \<and> s_status old = s_status st \<and> s_version old = s_version st
        \<and> settlement_moved (s_id st) old (move_settlement env ''CUSTOMER_APPROVED'') s s'
        \<and> (approvals_wf s \<longrightarrow> approval_added (s_id st) ''CUSTOMER'' s s')
        \<and> s' = s\<lparr>settlements := settlements s', approvals := approvals s', audit_logs := audit_logs s', id_supply := id_supply s'\<rparr>)"

lemma forceApproveTx_Inr:
  assumes wf: "db_wf s" and a: "0 \<le> s_publisherAmount st"
    and run: "forceApproveTx to_number env comms st ord reason userId staffRole s = Inr (Passed x, s')"
  obtains (release) netted where "s_status st = ''CUSTOMER_APPROVED''" "released_by_staff env st userId netted s s'" "db_wf s'"
    | (customer) "s_status st \<noteq> ''CUSTOMER_APPROVED''" "forced_for_customer env st s s'" "db_wf s'"
proof (cases "s_status st = ''CUSTOMER_APPROVED''")
  case True
  let ?p = "\<lambda>r. s_id r = s_id st \<and> s_status r = s_status st \<and> s_version r = s_version st"
  let ?s1 = "s\<lparr>settlements := update_where ?p (move_settlement env ''ADMIN_APPROVED'') (settlements s)\<rparr>"
  from run show thesis
    unfolding forceApproveTx_def Let_def
  proof (cases rule: gateSettlement_Inr)
    case (through l r v y)
    from through(2) obtain fresh s2 summary s3 au ids where cnt: "count_where ?p (settlements s) \<noteq> 0"
      and fr: "find_settlement (s_id st) ?s1 = Some fresh"
      and made: "create_approval env (new_approval (s_id st) ''ADMIN'' userId staffRole) ?s1 = Inr ((), s2)"
      and rel: "releaseFundsInternal env (st\<lparr>s_version := s_version fresh\<rparr>) userId s2 = Inr (summary, s3)"
      and tell: "recordSettlementReleased to_number env comms st ord summary (s3\<lparr>audit_logs := audit_logs s3 @ [au]\<rparr>) = Inr (ids, s')"
      using True by (auto simp: tx_simps audit_log_Inr force_target_def)
    have G: "?p r \<longleftrightarrow> s_id r = s_id st \<and> s_status r = ''CUSTOMER_APPROVED'' \<and> s_version r = s_version st" for r
      using True by simp
    obtain netted where R: "released_by_staff env st userId netted s s3" "db_wf s3"
      by (rule release_phase[OF wf a G cnt refl fr made rel])
    obtain lg b where s': "s' = s3\<lparr>audit_logs := lg, outbox := b\<rparr>"
      using reportedD[OF recordSettlementReleased_reports[OF tell]] by auto
    have "lg = audit_logs s3 @ [au]" using audit_grows[OF tell] s' by simp
    then have "set (audit_logs s3) \<subseteq> set lg" by auto
    from released_by_staff_told[OF R s' this] show thesis by (rule release[OF True])
  qed auto
next
  case False
  let ?p = "\<lambda>r. s_id r = s_id st \<and> s_status r = s_status st \<and> s_version r = s_version st"
  let ?s1 = "s\<lparr>settlements := update_where ?p (move_settlement env ''CUSTOMER_APPROVED'') (settlements s)\<rparr>"
  from run show thesis
    unfolding forceApproveTx_def Let_def
  proof (cases rule: gateSettlement_Inr)
    case (through l r v y)
    from through(2) obtain fresh s2 au where cnt: "count_where ?p (settlements s) \<noteq> 0"
      and made: "create_approval env (new_approval (s_id st) ''CUSTOMER'' userId staffRole) ?s1 = Inr ((), s2)"
      and s': "s' = s2\<lparr>audit_logs := au\<rparr>"
      using False by (auto simp: tx_simps audit_log_Inr force_target_def)
    obtain old where old: "find_settlement (s_id st) s = Some old" "s_status old = s_status st \<and> s_version old = s_version st"
      "\<forall>f. update_where ?p f (settlements s) = update_where (\<lambda>x. s_id x = s_id st) f (settlements s)"
      by (rule guard_settlement[OF wf cnt])
    have s2: "s2 = ?s1\<lparr>approvals := approvals s2, id_supply := id_supply s2\<rparr>" using made by (simp add: create_approval_Inr)
    have ids: "s_id ` set (settlements ?s1) = s_id ` set (settlements s)" by (simp add: ids_moved)
    have add: "approvals_wf s \<longrightarrow> approval_added (s_id st) ''CUSTOMER'' s s'"
    proof
      assume w: "approvals_wf s"
      have w1: "approvals_wf ?s1" by (rule approvals_wf_moved[OF w]) (simp_all add: ids_moved)
      have fk: "a_settlementId (new_approval (s_id st) ''CUSTOMER'' userId staffRole) \<in> s_id ` set (settlements ?s1)"
        using found_id[OF old(1)] unfolding ids by simp
      note C = create_approval_wf[OF made w1 fk]
      have "approval_given j k s' \<longleftrightarrow> approval_given j k s2" "approvals_wf s' = approvals_wf s2"
        "approval_given j k ?s1 \<longleftrightarrow> approval_given j k s" for j k
        by (simp_all add: s' approval_given_def approvals_wf_def)
      then show "approval_added (s_id st) ''CUSTOMER'' s s'" using C(1,2) by (simp add: approval_added_def)
    qed
    have sets: "settlements s' = update_where (\<lambda>x. s_id x = s_id st) (move_settlement env ''CUSTOMER_APPROVED'') (settlements s)"
      using old(3) by (subst s', subst s2) simp
    have fs: "s' = s\<lparr>settlements := settlements s', approvals := approvals s', audit_logs := audit_logs s', id_supply := id_supply s'\<rparr>"
      using arg_cong[OF s2, of settlements] unfolding s' by (subst s2) simp
    have "db_wf s'" using wf sets by (subst fs) (simp add: db_wf_def map_update_where)
    moreover have "forced_for_customer env st s s'"
      unfolding forced_for_customer_def settlement_moved_def using through(3,4) old(1,2) sets add fs by blast
    ultimately show thesis using customer[OF False] by blast
  qed auto
qed

section \<open>Cancellation, return and creation\<close>

lemma cancelSettlementTx_Inr:
  assumes wf: "db_wf s" and run: "cancelSettlementTx env st ord userId reason s = Inr (x, s')"
  obtains old where "s_version old = s_version st"
    "settlement_moved (s_id st) old (move_settlement env ''CANCELLED'') s s'"
    "s' = s\<lparr>settlements := settlements s', audit_logs := audit_logs s'\<rparr>" "db_wf s'"
proof -
  let ?p = "\<lambda>r. s_id r = s_id st \<and> s_version r = s_version st"
  obtain au where cnt: "count_where ?p (settlements s) \<noteq> 0"
    and s': "s' = s\<lparr>settlements := update_where ?p (move_settlement env ''CANCELLED'') (settlements s), audit_logs := au\<rparr>"
    using run by (auto simp: cancelSettlementTx_def tx_simps audit_log_Inr)
  obtain old where old: "find_settlement (s_id st) s = Some old" "s_version old = s_version st"
    "\<forall>f. update_where ?p f (settlements s) = update_where (\<lambda>x. s_id x = s_id st) f (settlements s)"
    by (rule guard_settlement[OF wf cnt])
  show thesis
    by (rule that[OF old(2)]) (use wf old in \<open>simp_all add: s' settlement_moved_def db_wf_def map_update_where\<close>)
qed

lemma returnToReviewTx_Inr:
  assumes wf: "db_wf s" and run: "returnToReviewTx env st ord userId reason s = Inr (x, s')"
  obtains old where "s_status old = ''CUSTOMER_APPROVED''" "s_version old = s_version st"
    "settlement_moved (s_id st) old (move_settlement env ''UNDER_REVIEW'') s s'"
    "approvals_wf s \<Longrightarrow> approvals_wf s' \<and>
       (\<forall>j k. approval_given j k s' \<longleftrightarrow> approval_given j k s \<and> \<not> (j = s_id st \<and> k = ''CUSTOMER''))"
    "s' = s\<lparr>settlements := settlements s', approvals := approvals s', order_events := order_events s', audit_logs := audit_logs s'\<rparr>"
    "db_wf s'"
proof -
  let ?p = "\<lambda>r. s_id r = s_id st \<and> s_status r = ''CUSTOMER_APPROVED'' \<and> s_version r = s_version st"
  let ?s1 = "s\<lparr>settlements := update_where ?p (move_settlement env ''UNDER_REVIEW'') (settlements s)\<rparr>"
  obtain revoked s2 ev where cnt: "count_where ?p (settlements s) \<noteq> 0"
    and rev: "revokeCustomerApproval env st ord userId reason ?s1 = Inr (revoked, s2)"
    and s': "s' = s2\<lparr>order_events := ev\<rparr>"
    using run by (auto simp: returnToReviewTx_def tx_simps)
  obtain old where old: "find_settlement (s_id st) s = Some old"
    "s_status old = ''CUSTOMER_APPROVED'' \<and> s_version old = s_version st"
    "\<forall>f. update_where ?p f (settlements s) = update_where (\<lambda>x. s_id x = s_id st) f (settlements s)"
    by (rule guard_settlement[OF wf cnt])
  let ?find = "find (\<lambda>a. a_settlementId a = s_id st \<and> a_type a = ''CUSTOMER'') (approvals s)"
  have s2: "s2 = ?s1\<lparr>approvals := (case ?find of None \<Rightarrow> approvals s | Some a \<Rightarrow> filter (\<lambda>x. a_id x \<noteq> a_id a) (approvals s)),
      audit_logs := audit_logs s2\<rparr>"
    using rev by (auto simp: revokeCustomerApproval_def tx_simps audit_log_Inr split: option.splits)
  then obtain au where s2: "s2 = ?s1\<lparr>approvals := (case ?find of None \<Rightarrow> approvals s | Some a \<Rightarrow> filter (\<lambda>x. a_id x \<noteq> a_id a) (approvals s)),
      audit_logs := au\<rparr>" by blast
  have appr: "approvals_wf s' \<and> (\<forall>j k. approval_given j k s' \<longleftrightarrow> approval_given j k s \<and> \<not> (j = s_id st \<and> k = ''CUSTOMER''))"
    if w: "approvals_wf s"
  proof (cases ?find)
    case None
    have a: "approvals s' = approvals s" by (simp add: s' s2 None)
    have "\<not> approval_given (s_id st) ''CUSTOMER'' s"
      using None unfolding find_none approval_given_def list_ex_iff by blast
    moreover have "approvals_wf s'"
      by (rule approvals_wf_moved[OF w a]) (simp add: s' s2 ids_moved)
    ultimately show ?thesis using approval_given_same[OF a] by auto
  next
    case (Some a)
    have a: "a \<in> set (approvals s)" "a_settlementId a = s_id st" "a_type a = ''CUSTOMER''"
      using find_key[OF Some] by auto
    have ap: "approvals s' = filter (\<lambda>x. a_id x \<noteq> a_id a) (approvals s)" by (simp add: s' s2 Some)
    have same: "x = a" if "x \<in> set (approvals s)" "a_id x = a_id a" for x
      using distinct_key_eq[of a_id "approvals s" x a] w that a(1) by (simp add: approvals_wf_def)
    have pair: "x = a" if "x \<in> set (approvals s)" "a_settlementId x = s_id st" "a_type x = ''CUSTOMER''" for x
      using distinct_key_eq[of "\<lambda>a. (a_settlementId a, a_type a)" "approvals s" x a] w that a by (simp add: approvals_wf_def)
    have "approvals_wf s'"
      using w by (auto simp: approvals_wf_def s' s2 Some distinct_map_filter ids_moved)
    moreover have "approval_given j k s' \<longleftrightarrow> approval_given j k s \<and> \<not> (j = s_id st \<and> k = ''CUSTOMER'')" for j k
    proof -
      have "x = a \<longleftrightarrow> a_settlementId x = s_id st \<and> a_type x = ''CUSTOMER''" "a_id x = a_id a \<longleftrightarrow> x = a" if "x \<in> set (approvals s)" for x
        using pair[OF that] same[OF that] a(2,3) by blast+
      then have "(x \<in> set (approvals s) \<and> a_id x \<noteq> a_id a) \<longleftrightarrow>
          (x \<in> set (approvals s) \<and> \<not> (a_settlementId x = s_id st \<and> a_type x = ''CUSTOMER''))" for x by blast
      then show ?thesis by (auto simp: approval_given_def ap list_ex_iff)
    qed
    ultimately show ?thesis by blast
  qed
  show thesis
    by (rule that[OF _ _ _ appr]) (use wf old in \<open>simp_all add: s' s2 settlement_moved_def db_wf_def map_update_where\<close>)
qed

text \<open>A settlement made for an order: its amounts are a split of the order's in whole cents.\<close>

definition created_between :: "env \<Rightarrow> string \<Rightarrow> settlement_row \<Rightarrow> db \<Rightarrow> db \<Rightarrow> bool" where
  "created_between env orderId st s s' \<longleftrightarrow>
     (\<exists>r v gross policy. find_order orderId s = Some r \<and> settleable s orderId r v \<and> o_amount r = Some gross \<and> 0 < gross \<and> CENT dvd gross
        \<and> resolvePlatformFeePolicyCore (platform_settings s) = Inr policy
        \<and> s_platformFeeBps st = Some (fs_basisPoints policy) \<and> s_feePolicyVersion st = Some (fs_policyVersion policy)
        \<and> splitPlatformFee gross (fs_fraction policy) = (s_platformFee st, s_publisherAmount st)
        \<and> s_grossAmount st = gross \<and> s_platformFee st + s_publisherAmount st = gross
        \<and> 0 \<le> s_platformFee st \<and> 0 < s_publisherAmount st \<and> CENT dvd s_platformFee st \<and> CENT dvd s_publisherAmount st
        \<and> (\<exists>w \<in> set (websites s). Some (ws_id w) = o_websiteId r \<and> ws_publisherId w = Some (s_publisherId st)))
     \<and> s_orderId st = orderId \<and> s_status st = ''PENDING'' \<and> s_currency st = ''USD'' \<and> s_version st = 0 \<and> s_settledAt st = None
     \<and> s_id st \<notin> s_id ` set (settlements s)
     \<and> (\<forall>x \<in> set (settlements s). s_orderId x = orderId \<longrightarrow> s_status x = ''CANCELLED'')
     \<and> settlements s' = settlements s @ [st]
     \<and> s' = s\<lparr>settlements := settlements s', order_events := order_events s', audit_logs := audit_logs s', id_supply := id_supply s'\<rparr>"

lemma splitPlatformFee_cents:
  "splitPlatformFee gross f = (fee, net) \<Longrightarrow> CENT dvd fee \<and> fee + net = gross \<and> (CENT dvd gross \<longrightarrow> CENT dvd net)"
  by (auto simp: splitPlatformFee_def Let_def)

lemma create_settlement_Inr:
  "create_settlement env row s = Inr r \<longleftrightarrow>
     list_all (\<lambda>x. s_id x \<noteq> env_cuid env (id_supply s) \<and> (s_orderId x \<noteq> s_orderId row \<or> s_status x = ''CANCELLED'')) (settlements s)
     \<and> r = (row\<lparr>s_id := env_cuid env (id_supply s)\<rparr>,
            s\<lparr>id_supply := id_supply s + 1, settlements := settlements s @ [row\<lparr>s_id := env_cuid env (id_supply s)\<rparr>]\<rparr>)"
  by (auto simp: create_settlement_def tx_simps)

lemma lockedOrder_Inr [tx_simps]:
  "lockedOrder orderId organizationId ord s = Inr z \<longleftrightarrow>
     (\<exists>r. z = (r, s) \<and> find_order orderId s = Some r \<and> o_version r = o_version ord \<and> o_organizationId r = o_organizationId ord
        \<and> (truthy organizationId \<longrightarrow> Some (o_organizationId r) = organizationId) \<and> o_currency r = ''USD'' \<and> o_status r = ''DELIVERED''
        \<and> o_paymentStatus r = ''PAID'' \<and> \<not> amount_invalid (o_amount r) \<and> truthy (o_websiteId r))"
  by (auto simp: lockedOrder_def tx_simps split: option.splits)

lemma attributedPublisher_Inr [tx_simps]:
  "attributedPublisher r s = Inr z \<longleftrightarrow>
     (\<exists>w p. find (\<lambda>w. Some (ws_id w) = o_websiteId r) (websites s) = Some w \<and> ws_publisherId w = Some p \<and> p \<noteq> []
        \<and> z = ((p, Some (ws_ownershipType w)), s))"
  by (auto simp: attributedPublisher_def tx_simps split: option.splits if_splits)

lemma servicePrice_Inr [tx_simps]:
  "servicePrice r s = Inr z \<longleftrightarrow>
     (\<exists>sv. z = (sv, s) \<and> (case o_listingServiceId r of
        None \<Rightarrow> sv = (o_type r, None)
      | Some i \<Rightarrow> if i = [] then sv = (o_type r, None)
          else \<exists>l. find (\<lambda>l. ls_id l = i) (listing_services s) = Some l \<and> sv = (ls_serviceType l, Some (ls_price l))))"
  by (auto simp: servicePrice_def tx_simps split: option.splits if_splits)

lemma new_settlement_simps [simp]:
  "s_orderId (new_settlement env r p ty sv pol split t rp) = o_id r"
  "s_status (new_settlement env r p ty sv pol split t rp) = ''PENDING''"
  "s_currency (new_settlement env r p ty sv pol split t rp) = ''USD''"
  "s_version (new_settlement env r p ty sv pol split t rp) = 0"
  "s_settledAt (new_settlement env r p ty sv pol split t rp) = None"
  "s_publisherId (new_settlement env r p ty sv pol split t rp) = p"
  "s_platformFeeBps (new_settlement env r p ty sv pol split t rp) = Some (fs_basisPoints pol)"
  "s_feePolicyVersion (new_settlement env r p ty sv pol split t rp) = Some (fs_policyVersion pol)"
  "s_publisherAmount (new_settlement env r p ty sv pol split t rp) = snd split"
  "s_platformFee (new_settlement env r p ty sv pol split t rp) = fst split"
  "s_grossAmount (new_settlement env r p ty sv pol split t rp) = (case o_amount r of None \<Rightarrow> 0 | Some a \<Rightarrow> a)"
  by (simp_all add: new_settlement_def)

lemma createSettlementTx_Inr:
  assumes run: "createSettlementTx to_number env orderId organizationId userId ord s = Inr (Passed st, s')"
  shows "created_between env orderId st s s'"
  using run unfolding createSettlementTx_def
proof (cases rule: gateSettlement_Inr)
  case (through l r v y)
  let ?gross = "case o_amount r of None \<Rightarrow> 0 | Some a \<Rightarrow> a"
  let ?split = "\<lambda>policy. splitPlatformFee ?gross (fs_fraction policy)"
  from through(1) have y: "y = st" by simp
  from through(2,3) obtain w p service policy t rp s1 where
    lo: "\<not> amount_invalid (o_amount r)"
    and w: "find (\<lambda>w. Some (ws_id w) = o_websiteId r) (websites s) = Some w" "ws_publisherId w = Some p"
    and ex: "\<not> list_ex (\<lambda>r. s_orderId r = orderId \<and> s_status r \<noteq> ''CANCELLED'') (settlements s)"
    and policy: "resolvePlatformFeePolicyCore (platform_settings s) = Inr policy"
    and ok: "0 \<le> fst (?split policy)" "0 < snd (?split policy)"
    and mk: "create_settlement env (new_settlement env r p (Some (ws_ownershipType w)) service policy (?split policy) t rp) s = Inr (st, s1)"
    and rc: "recordCreation env userId r st ?gross s1 = Inr ((), s')"
    unfolding y resolvePlatformFeePolicy_def Let_def
    by (auto simp: tx_simps case_prod_beta' not_less not_le)
  obtain ev au where s': "s' = s1\<lparr>order_events := ev, audit_logs := au\<rparr>"
    using rc by (auto simp: recordCreation_def tx_simps audit_log_Inr)
  obtain gross where g: "o_amount r = Some gross" "0 < gross" "CENT dvd gross"
    using lo by (auto simp: amount_invalid_def split: option.splits)
  have split: "splitPlatformFee gross (fs_fraction policy) = (s_platformFee st, s_publisherAmount st)"
    using mk g(1) by (auto simp: create_settlement_Inr)
  note cents = splitPlatformFee_cents[OF split]
  have st: "s_platformFeeBps st = Some (fs_basisPoints policy)" "s_feePolicyVersion st = Some (fs_policyVersion policy)"
    "s_grossAmount st = gross" "s_orderId st = orderId" "s_status st = ''PENDING''" "s_currency st = ''USD''" "s_version st = 0 \<and> s_settledAt st = None"
    "s_publisherId st = p" "s_id st \<notin> s_id ` set (settlements s)"
    and s1: "s1 = s\<lparr>id_supply := id_supply s + 1, settlements := settlements s @ [st]\<rparr>"
    using mk g(1) find_key[OF through(3)[unfolded find_order_def]] by (auto simp: create_settlement_Inr list_all_iff)
  have "\<forall>x \<in> set (settlements s). s_orderId x = orderId \<longrightarrow> s_status x = ''CANCELLED''"
    using ex by (auto simp: list_ex_iff)
  moreover have "\<exists>w \<in> set (websites s). Some (ws_id w) = o_websiteId r \<and> ws_publisherId w = Some (s_publisherId st)"
    using find_key[OF w(1)] w(2) st(8) by auto
  moreover have "0 \<le> s_platformFee st" "0 < s_publisherAmount st" using ok split g(1) by simp_all
  ultimately show ?thesis
    unfolding created_between_def using through(3,4) g policy split cents st by (auto simp: s' s1)
qed simp_all

end
