(* ===== verification/Settlement_System.thy ===== *)
theory Settlement_System
  imports Settlement_Safety
begin

text \<open>
  The lifecycle of settlements under any interleaving of the operations of the settlement service and
  of the two sweeps.  Every operation works on a row that was read some time before, by a request that
  is still in flight, and its transaction is guarded by the version of that row.
\<close>

section \<open>The sweeps move one settlement\<close>

lemma locked_keeps_settlements:
  "evaluateLockedSettlementEligibility env i s = Inr (l, s') \<Longrightarrow> settlements s' = settlements s \<and> approvals s' = approvals s"
  using evaluateLocked_spec(1)[of env i s l s'] by (simp add: same_books_def)

lemma approval_upserted:
  assumes up: "upsert_approval env id (new_approval i ty by role) s1 = Inr (u, s2)"
    and r: "find_settlement i s = Some r" and ids: "s_id ` set (settlements s1) = s_id ` set (settlements s)"
    and a: "approvals s1 = approvals s" and s': "approvals s' = approvals s2" "s_id ` set (settlements s') = s_id ` set (settlements s)"
  shows "approvals_wf s \<longrightarrow> approval_added i ty s s'"
proof
  assume w: "approvals_wf s"
  have w1: "approvals_wf s1" by (rule approvals_wf_moved[OF w a]) (simp add: ids)
  have fk: "a_settlementId (new_approval i ty by role) \<in> s_id ` set (settlements s1)"
    using found_id[OF r] by (simp add: ids)
  note U = upsert_approval_wf[OF up w1 fk]
  have "s_id ` set (settlements s') = s_id ` set (settlements s2)"
    using arg_cong[OF U(3), of settlements] ids s'(2) by simp
  then have "approvals_wf s'" using approvals_wf_moved[OF U(1) s'(1)] by simp
  then show "approval_added i ty s s'"
    using U(2) by (simp add: approval_added_def approval_given_same[OF a] approval_given_same[OF s'(1)])
qed

text \<open>What a sweep does to the settlements: nothing, or it moves the one it was given.\<close>

definition swept :: "string \<Rightarrow> (settlement_row \<Rightarrow> bool) \<Rightarrow> (settlement_row \<Rightarrow> settlement_row) \<Rightarrow> string \<Rightarrow> db \<Rightarrow> db \<Rightarrow> bool" where
  "swept i guard f ty s s' \<longleftrightarrow> settlements s' = settlements s \<and> approvals s' = approvals s
     \<or> (\<exists>old. guard old \<and> settlement_moved i old f s s' \<and> (approvals_wf s \<longrightarrow> approval_added i ty s s'))"

lemma autoApproveTx_swept:
  assumes wf: "db_wf s" and r: "autoApproveTx env st ord s = Inr (oc, s')"
  shows "swept (s_id st) (\<lambda>r. in_review r \<and> s_version r = s_version st)
    (\<lambda>r. r\<lparr>s_status := ''CUSTOMER_APPROVED'', s_currency := ''USD'', s_version := s_version r + 1, s_updatedAt := env_now env\<rparr>)
    ''CUSTOMER'' s s'"
proof -
  let ?p = "\<lambda>r. s_id r = s_id st \<and> in_review r \<and> s_version r = s_version st \<and> s_currency r = ''USD''"
  let ?f = "\<lambda>r. r\<lparr>s_status := ''CUSTOMER_APPROVED'', s_currency := ''USD'', s_version := s_version r + 1,
            s_updatedAt := env_now env\<rparr>"
  obtain l s1 where l: "evaluateLockedSettlementEligibility env (s_orderId st) s = Inr (l, s1)"
    using r by (auto simp: autoApproveTx_def tx_simps)
  show ?thesis
  proof (cases "el_eligible (le_eligibility l) \<and> count_where ?p (settlements s) \<noteq> 0")
    case False
    have "settlements s' = settlements s1 \<and> approvals s' = approvals s1"
    proof (cases "el_eligible (le_eligibility l)")
      case True
      then have "s1 = s" using evaluateLocked_eligible[OF l True] by metis
      then show ?thesis using r l True False by (auto simp: autoApproveTx_def tx_simps update_where_none)
    qed (use r l in \<open>auto simp: autoApproveTx_def tx_simps andThen_def\<close>)
    then show ?thesis using locked_keeps_settlements[OF l] by (simp add: swept_def)
  next
    case True
    then have el: "el_eligible (le_eligibility l)" and cnt: "count_where ?p (settlements s) \<noteq> 0" by blast+
    have s1: "s1 = s" using evaluateLocked_eligible[OF l el] by metis
    obtain s2 e au where up: "upsert_approval env id (new_approval (s_id st) ''CUSTOMER'' ''SYSTEM_AUTO_APPROVE'' ''SYSTEM'')
          (s\<lparr>settlements := update_where ?p ?f (settlements s)\<rparr>) = Inr ((), s2)"
      and s2: "s' = s2\<lparr>order_events := e, audit_logs := au\<rparr>"
      using r l el s1 cnt by (auto simp: autoApproveTx_def tx_simps)
    obtain old where old: "find_settlement (s_id st) s = Some old"
      "in_review old \<and> s_version old = s_version st \<and> s_currency old = ''USD''"
      "\<forall>f. update_where ?p f (settlements s) = update_where (\<lambda>x. s_id x = s_id st) f (settlements s)"
      by (rule guard_settlement[OF wf cnt])
    have keep: "settlements s2 = update_where ?p ?f (settlements s)"
      by (rule upsert_approval_Inr[OF up]) simp_all
    have "approvals_wf s \<longrightarrow> approval_added (s_id st) ''CUSTOMER'' s s'"
      by (rule approval_upserted[OF up old(1)]) (simp_all add: s2 keep ids_moved)
    moreover have "settlement_moved (s_id st) old ?f s s'"
      using old(1,3) keep by (simp add: settlement_moved_def s2)
    ultimately show ?thesis using old(2) unfolding swept_def by blast
  qed
qed

abbreviation moved_of where
  "moved_of k \<equiv> \<lambda>s. (settlements s, approvals s) = k"

lemma release_tail_keeps:
  "preserves (moved_of k) (creditBalance st balance p d)" "preserves (moved_of k) (recordRelease env st ord p d)"
  "preserves (moved_of k) (nettedAmounts fresh balance)"
  unfolding creditBalance_def recordRelease_def nettedAmounts_def by (intro keeps; simp)+

lemma releaseMoney_swept:
  assumes wf: "db_wf s" and f: "find_settlement (s_id st) s = Some fresh"
    and m: "releaseMoney env t st ord fresh sn s = Inr (oc, s')"
  shows "s_status fresh = ''CUSTOMER_APPROVED''"
    "settlement_moved (s_id st) fresh (\<lambda>r. r\<lparr>s_status := ''RELEASED'', s_currency := ''USD'', s_settledAt := Some t,
       s_version := s_version r + 1, s_updatedAt := env_now env\<rparr>) s s'"
    "approvals_wf s \<longrightarrow> approval_added (s_id st) ''ADMIN'' s s'"
proof -
  let ?p = "\<lambda>r. s_id r = s_id st \<and> s_status r = ''CUSTOMER_APPROVED'' \<and> s_version r = s_version fresh"
  let ?f = "\<lambda>r. r\<lparr>s_status := ''RELEASED'', s_currency := ''USD'', s_settledAt := Some t,
       s_version := s_version r + 1, s_updatedAt := env_now env\<rparr>"
  obtain s1 p d s3 u where c: "claimRelease env t st fresh (sn_orderVersion sn) s = Inr ((), s1)"
    and n: "nettedAmounts fresh (find_balance (s_publisherId st) s1) s1 = Inr ((p, d), s1)"
    and b: "creditBalance st (find_balance (s_publisherId st) s1) p d s1 = Inr (u, s3)"
    and w: "recordRelease env st ord p d s3 = Inr (u, s')"
    using m by (auto simp: releaseMoney_def tx_simps nettedAmounts_Inr)
  obtain s0 os where up: "upsert_approval env id (new_approval (s_id st) ''ADMIN'' ''SYSTEM_AUTO_RELEASE'' ''SYSTEM'') s = Inr ((), s0)"
    and rest: "s1 = s0\<lparr>settlements := update_where ?p ?f (settlements s0), orders := os\<rparr>"
    and cnt: "count_where ?p (settlements s0) \<noteq> 0"
    using c by (auto simp: claimRelease_def tx_simps)
  have keep: "settlements s0 = settlements s" by (rule upsert_approval_Inr[OF up]) simp_all
  have "count_where ?p (settlements s) \<noteq> 0" using cnt by (simp add: keep)
  then obtain old where old: "find_settlement (s_id st) s = Some old"
      "s_status old = ''CUSTOMER_APPROVED'' \<and> s_version old = s_version fresh"
      "\<forall>f. update_where ?p f (settlements s) = update_where (\<lambda>x. s_id x = s_id st) f (settlements s)"
    by (rule guard_settlement[OF wf])
  have "(settlements s', approvals s') = (settlements s1, approvals s1)"
    using preservesD[OF release_tail_keeps(2) preservesD[OF release_tail_keeps(1) refl b] w] .
  then have s': "settlements s' = update_where (\<lambda>x. s_id x = s_id st) ?f (settlements s)" "approvals s' = approvals s0"
    using old(3) by (simp_all add: rest keep)
  show "s_status fresh = ''CUSTOMER_APPROVED''" using old f by simp
  show "settlement_moved (s_id st) fresh ?f s s'" using s'(1) f by (simp add: settlement_moved_def)
  show "approvals_wf s \<longrightarrow> approval_added (s_id st) ''ADMIN'' s s'"
    by (rule approval_upserted[OF up f]) (simp_all add: s' ids_moved)
qed

lemma autoReleaseTx_swept:
  assumes wf: "db_wf s" and r: "autoReleaseTx env now st ord s = Inr (oc, s')"
  shows "swept (s_id st) (\<lambda>r. s_status r = ''CUSTOMER_APPROVED'')
    (\<lambda>r. r\<lparr>s_status := ''RELEASED'', s_currency := ''USD'', s_settledAt := Some (case now of None \<Rightarrow> env_now env | Some t \<Rightarrow> t),
       s_version := s_version r + 1, s_updatedAt := env_now env\<rparr>) ''ADMIN'' s s'"
proof (cases "settlements s' = settlements s \<and> approvals s' = approvals s")
  case changed: False
  let ?t = "case now of None \<Rightarrow> env_now env | Some t \<Rightarrow> t"
  obtain l s1 where l: "evaluateLockedSettlementEligibility env (s_orderId st) s = Inr (l, s1)"
    using r by (auto simp: autoReleaseTx_def tx_simps)
  note same = locked_keeps_settlements[OF l]
  have el: "el_eligible (le_eligibility l)"
    using r l same changed by (auto simp: autoReleaseTx_def tx_simps andThen_def)
  have s1: "s1 = s" using evaluateLocked_eligible[OF l el] by metis
  obtain fresh where f: "find_settlement (s_id st) s = Some fresh"
      "releaseMoney env ?t st ord fresh (le_snapshot l) s = Inr (oc, s')"
    using r l el s1 changed unfolding autoReleaseTx_def Let_def
    by (cases "find_settlement (s_id st) s")
      (auto simp: tx_simps simp del: option.case_cong split: if_splits dest!: currentRiskPolicy_state)
  from releaseMoney_swept[OF wf f] show ?thesis unfolding swept_def by blast
qed (simp add: swept_def)

section \<open>Phases and the abstract lifecycle\<close>

datatype phase = InReview | CustomerApproved | PaidOut | Cancelled

definition phase_of :: "settlement_row \<Rightarrow> phase" where
  "phase_of r = (if in_review r then InReview else if s_status r = ''CUSTOMER_APPROVED'' then CustomerApproved
     else if s_status r = ''RELEASED'' then PaidOut else Cancelled)"

definition phases :: "db \<Rightarrow> string \<Rightarrow> phase option" where
  "phases s = (\<lambda>i. map_option phase_of (find_settlement i s))"

text \<open>
  What may happen to a settlement: it is made, approved for the customer, paid out, taken back into
  review, or cancelled unless it has been paid out.
\<close>

inductive lifecycle_step :: "(string \<Rightarrow> phase option) \<Rightarrow> (string \<Rightarrow> phase option) \<Rightarrow> bool" where
  make: "m i = None \<Longrightarrow> lifecycle_step m (m(i \<mapsto> InReview))"
| agree: "m i = Some InReview \<Longrightarrow> lifecycle_step m (m(i \<mapsto> CustomerApproved))"
| pay_out: "m i = Some CustomerApproved \<Longrightarrow> lifecycle_step m (m(i \<mapsto> PaidOut))"
| take_back: "m i = Some CustomerApproved \<Longrightarrow> lifecycle_step m (m(i \<mapsto> InReview))"
| call_off: "m i = Some p \<Longrightarrow> p \<noteq> PaidOut \<Longrightarrow> lifecycle_step m (m(i \<mapsto> Cancelled))"

section \<open>Well-formed settlements\<close>

text \<open>The releases in the ledger, and those of one settlement.\<close>

definition releases_of :: "db \<Rightarrow> transaction_row list" where
  "releases_of s = filter (\<lambda>t. t_type t = ''SETTLEMENT_RELEASE'') (transactions s)"

definition paid_amounts :: "string \<Rightarrow> db \<Rightarrow> int list" where
  "paid_amounts i s = map t_amount (filter (\<lambda>t. t_settlementId t = Some i) (releases_of s))"

text \<open>
  The customer's approval is on record for a settlement approved or paid out, the administrator's
  exactly for one paid out, which alone has a time of settlement; and the ledger has released the
  publisher's amount once for a settlement paid out, and nothing for any other.
\<close>

definition row_ok :: "db \<Rightarrow> settlement_row \<Rightarrow> bool" where
  "row_ok s r \<longleftrightarrow> s_status r \<in> {''PENDING'', ''UNDER_REVIEW'', ''CUSTOMER_APPROVED'', ''RELEASED'', ''CANCELLED''}
     \<and> 0 < s_publisherAmount r
     \<and> (phase_of r \<in> {CustomerApproved, PaidOut} \<longrightarrow> approval_given (s_id r) ''CUSTOMER'' s)
     \<and> (approval_given (s_id r) ''ADMIN'' s \<longleftrightarrow> phase_of r = PaidOut)
     \<and> (s_settledAt r \<noteq> None \<longleftrightarrow> phase_of r = PaidOut)
     \<and> paid_amounts (s_id r) s = (if phase_of r = PaidOut then [s_publisherAmount r] else [])"

definition one_active :: "settlement_row list \<Rightarrow> bool" where
  "one_active rows \<longleftrightarrow> (\<forall>x \<in> set rows. \<forall>y \<in> set rows.
     s_orderId x = s_orderId y \<longrightarrow> phase_of x \<noteq> Cancelled \<longrightarrow> phase_of y \<noteq> Cancelled \<longrightarrow> s_id x = s_id y)"

definition settlements_ok :: "db \<Rightarrow> bool" where
  "settlements_ok s \<longleftrightarrow> db_wf s \<and> approvals_wf s \<and> list_all (row_ok s) (settlements s) \<and> one_active (settlements s)
     \<and> (\<forall>t \<in> set (releases_of s). t_settlementId t \<in> Some ` s_id ` set (settlements s))"

text \<open>A later state of a settlement: what identifies it stays, its version grows with every change, and an end is final.\<close>

definition row_later :: "settlement_row \<Rightarrow> settlement_row \<Rightarrow> bool" where
  "row_later r x \<longleftrightarrow> s_id x = s_id r \<and> s_orderId x = s_orderId r \<and> s_publisherId x = s_publisherId r
     \<and> s_publisherAmount x = s_publisherAmount r \<and> s_version r \<le> s_version x \<and> (s_version x = s_version r \<longrightarrow> x = r)
     \<and> (phase_of r \<in> {PaidOut, Cancelled} \<longrightarrow> phase_of x = phase_of r)"

definition later :: "db \<Rightarrow> db \<Rightarrow> bool" where
  "later s t \<longleftrightarrow> (\<forall>r \<in> set (settlements s). \<exists>x \<in> set (settlements t). row_later r x)"

text \<open>What every transaction guarantees from a well-formed store.\<close>

definition guarantee :: "db \<Rightarrow> db \<Rightarrow> bool" where
  "guarantee s t \<longleftrightarrow> (settlements_ok s \<longrightarrow> settlements_ok t \<and> later s t \<and> lifecycle_step\<^sup>*\<^sup>* (phases s) (phases t))"

lemma row_later_refl [simp]: "row_later r r"
  by (simp add: row_later_def)

lemma row_later_trans: "row_later r x \<Longrightarrow> row_later x y \<Longrightarrow> row_later r y"
  unfolding row_later_def by (intro conjI impI) (auto intro: order_trans)

lemma later_refl [simp]: "later s s"
  by (auto simp: later_def intro: row_later_refl)

lemma later_trans: "later s t \<Longrightarrow> later t u \<Longrightarrow> later s u"
  unfolding later_def by (meson row_later_trans)

lemma guarantee_refl [simp]: "guarantee s s"
  by (simp add: guarantee_def)

lemma guarantee_trans [trans]: "guarantee s t \<Longrightarrow> guarantee t u \<Longrightarrow> guarantee s u"
  unfolding guarantee_def using later_trans by (meson rtranclp_trans)

lemma settlements_okD:
  assumes "settlements_ok s"
  shows "db_wf s" "approvals_wf s" "\<And>r. r \<in> set (settlements s) \<Longrightarrow> row_ok s r" "one_active (settlements s)"
    "\<And>t. t \<in> set (releases_of s) \<Longrightarrow> t_settlementId t \<in> Some ` s_id ` set (settlements s)"
  using assms by (simp_all add: settlements_ok_def list_all_iff)

lemma releases_same: "transactions s' = transactions s \<Longrightarrow> releases_of s' = releases_of s"
  by (simp add: releases_of_def)

lemma same_guarantee:
  assumes "settlements s' = settlements s" "approvals s' = approvals s" "releases_of s' = releases_of s" "db_wf s \<Longrightarrow> db_wf s'"
  shows "guarantee s s'"
proof -
  have r: "row_ok s' = row_ok s" by (rule ext) (simp add: row_ok_def approval_given_def paid_amounts_def assms)
  have "phases s' = phases s" "later s s'"
    by (auto simp: phases_def find_settlement_def later_def assms intro: row_later_refl)
  then show ?thesis using assms by (auto simp: guarantee_def settlements_ok_def approvals_wf_def r)
qed

lemma books_guarantee: "same_books s s' \<Longrightarrow> guarantee s s'"
  by (rule same_guarantee) (simp_all add: same_books_def db_wf_def releases_of_def)

text \<open>The phases after a move, and after a creation.\<close>

lemma moved_phases:
  assumes "settlement_moved i old f s s'" "\<And>r. s_id (f r) = s_id r"
  shows "phases s i = Some (phase_of old)" "phases s' = (phases s)(i \<mapsto> phase_of (f old))"
proof -
  have old: "find_settlement i s = Some old" and rows: "settlements s' = update_where (\<lambda>x. s_id x = i) f (settlements s)"
    using assms(1) by (simp_all add: settlement_moved_def)
  show "phases s i = Some (phase_of old)" by (simp add: phases_def old)
  show "phases s' = (phases s)(i \<mapsto> phase_of (f old))"
  proof
    fix j
    have "find_settlement j s' = map_option (\<lambda>r. if s_id r = i then f r else r) (find_settlement j s)"
      unfolding find_settlement_def rows by (rule find_update_where) (simp add: assms(2))
    moreover have "s_id r = j" if "find_settlement j s = Some r" for r using found_settlement[OF that] by blast
    ultimately show "phases s' j = ((phases s)(i \<mapsto> phase_of (f old))) j"
      using old by (cases "find_settlement j s") (auto simp: phases_def)
  qed
qed

lemma created_phases:
  assumes "created_between env orderId st s s'"
  shows "phases s (s_id st) = None" "phases s' = (phases s)(s_id st \<mapsto> InReview)"
proof -
  have rows: "settlements s' = settlements s @ [st]" and fresh: "s_id st \<notin> s_id ` set (settlements s)" and st: "s_status st = ''PENDING''"
    using assms by (auto simp: created_between_def)
  have none: "find_settlement (s_id st) s = None"
    using fresh unfolding find_settlement_def find_none by (metis imageI)
  show "phases s (s_id st) = None" by (simp add: phases_def none)
  show "phases s' = (phases s)(s_id st \<mapsto> InReview)"
  proof
    fix j
    have "find_settlement j s' = (case find_settlement j s of None \<Rightarrow> if j = s_id st then Some st else None | Some r \<Rightarrow> Some r)"
      by (auto simp: find_settlement_def rows find_append split: option.split)
    then show "phases s' j = ((phases s)(s_id st \<mapsto> InReview)) j"
      using none st by (auto simp: phases_def phase_of_def in_review_def split: option.split)
  qed
qed

text \<open>One settlement moves, under a guard that makes the move a step of the lifecycle.\<close>

lemma moved_guarantee:
  assumes mv: "settlement_moved i old f s s'" and wf: "db_wf s'" and ap: "approvals_wf s \<Longrightarrow> approvals_wf s'"
    and f: "\<And>r. s_id (f r) = s_id r \<and> s_orderId (f r) = s_orderId r \<and> s_publisherId (f r) = s_publisherId r
      \<and> s_publisherAmount (f r) = s_publisherAmount r \<and> s_version r < s_version (f r)"
    and rel: "releases_of s' = releases_of s @ new" "\<forall>t \<in> set new. t_settlementId t = Some i"
    and given: "\<And>j k. j \<noteq> i \<Longrightarrow> approvals_wf s \<Longrightarrow> approval_given j k s' \<longleftrightarrow> approval_given j k s"
    and row: "row_ok s old \<Longrightarrow> approvals_wf s \<Longrightarrow> row_ok s' (f old)"
    and step: "phases s i = Some (phase_of old) \<Longrightarrow> lifecycle_step (phases s) ((phases s)(i \<mapsto> phase_of (f old)))"
    and final: "phase_of old \<in> {PaidOut, Cancelled} \<Longrightarrow> phase_of (f old) = phase_of old"
  shows "guarantee s s'"
  unfolding guarantee_def
proof
  assume ok: "settlements_ok s"
  note K = settlements_okD[OF ok]
  have old: "find_settlement i s = Some old" "s_id old = i" "old \<in> set (settlements s)"
    and rows: "settlements s' = update_where (\<lambda>x. s_id x = i) f (settlements s)"
    using mv found_settlement by (auto simp: settlement_moved_def)
  have same: "r = old" if "r \<in> set (settlements s)" "s_id r = i" for r
    using distinct_key_eq[OF db_wfD(3)[OF K(1)] that(1) old(3)] that(2) old(2) by simp
  have mem: "\<exists>r \<in> set (settlements s). x = (if s_id r = i then f old else r)" if "x \<in> set (settlements s')" for x
    using that same by (auto simp: rows update_where_def)
  have kept: "(if s_id r = i then f old else r) \<in> set (settlements s')" if "r \<in> set (settlements s)" for r
    using that same[OF that] by (auto simp: rows update_where_def)
  have ok': "row_ok s' x" if x: "x \<in> set (settlements s')" for x
  proof -
    obtain r where r: "r \<in> set (settlements s)" "x = (if s_id r = i then f old else r)" using mem[OF x] by blast
    show ?thesis
    proof (cases "s_id r = i")
      case True
      then show ?thesis using r(2) row[OF K(3)[OF old(3)] K(2)] by simp
    next
      case False
      have "filter (\<lambda>t. t_settlementId t = Some (s_id r)) new = []" using rel(2) False by (auto simp: filter_empty_conv)
      then have "paid_amounts (s_id r) s' = paid_amounts (s_id r) s" by (simp add: paid_amounts_def rel(1))
      then have "row_ok s' r = row_ok s r" using given[OF False K(2)] by (simp add: row_ok_def)
      then show ?thesis using r False K(3)[OF r(1)] by simp
    qed
  qed
  have "one_active (settlements s')"
    unfolding one_active_def
  proof (intro ballI impI)
    fix x y assume xy: "x \<in> set (settlements s')" "y \<in> set (settlements s')" "s_orderId x = s_orderId y"
      "phase_of x \<noteq> Cancelled" "phase_of y \<noteq> Cancelled"
    obtain a b where a: "a \<in> set (settlements s)" "x = (if s_id a = i then f old else a)"
      and b: "b \<in> set (settlements s)" "y = (if s_id b = i then f old else b)"
      using mem xy(1,2) by metis
    have "s_orderId a = s_orderId x" "s_orderId b = s_orderId y" "s_id a = s_id x" "s_id b = s_id y"
      using a b same f by auto
    moreover have "phase_of r \<noteq> Cancelled" if "r \<in> set (settlements s)" "phase_of (if s_id r = i then f old else r) \<noteq> Cancelled" for r
    proof (cases "s_id r = i")
      case True
      then have "r = old" using same that(1) by blast
      then show ?thesis using that(2) True final by auto
    qed (use that(2) in simp)
    then have "phase_of a \<noteq> Cancelled" "phase_of b \<noteq> Cancelled" using a b xy(4,5) by blast+
    ultimately show "s_id x = s_id y" using K(4) a(1) b(1) xy(3) by (metis one_active_def)
  qed
  moreover have "t_settlementId t \<in> Some ` s_id ` set (settlements s')" if "t \<in> set (releases_of s')" for t
  proof -
    have "s_id ` set (settlements s') = s_id ` set (settlements s)" using f by (simp add: rows ids_moved)
    then show ?thesis using that K(5)[of t] rel old(2,3) by auto
  qed
  ultimately have "settlements_ok s'"
    using wf ap[OF K(2)] ok' by (simp add: settlements_ok_def list_all_iff)
  moreover have "later s s'"
    unfolding later_def
  proof
    fix r assume r: "r \<in> set (settlements s)"
    have "row_later old (f old)" using f[of old] final by (auto simp: row_later_def)
    then have "row_later r (if s_id r = i then f old else r)" using same[OF r] by auto
    then show "\<exists>x \<in> set (settlements s'). row_later r x" using kept[OF r] by blast
  qed
  moreover have "phases s' = (phases s)(i \<mapsto> phase_of (f old))" by (rule moved_phases(2)[OF mv]) (simp add: f)
  then have "lifecycle_step\<^sup>*\<^sup>* (phases s) (phases s')"
    using step old(1) by (simp add: phases_def r_into_rtranclp)
  ultimately show "settlements_ok s' \<and> later s s' \<and> lifecycle_step\<^sup>*\<^sup>* (phases s) (phases s')" by blast
qed

text \<open>The moves of the service: approval for the customer, payment, cancellation, return to review.\<close>

lemma agreed_guarantee:
  assumes "settlement_moved i old f s s'" "in_review old" "db_wf s'"
    "approvals_wf s \<Longrightarrow> approval_added i ''CUSTOMER'' s s'" "transactions s' = transactions s"
    and f: "\<And>r. s_id (f r) = s_id r \<and> s_orderId (f r) = s_orderId r \<and> s_publisherId (f r) = s_publisherId r
      \<and> s_publisherAmount (f r) = s_publisherAmount r \<and> s_version r < s_version (f r) \<and> s_status (f r) = ''CUSTOMER_APPROVED''
      \<and> s_settledAt (f r) = s_settledAt r"
  shows "guarantee s s'"
proof (rule moved_guarantee[OF assms(1,3), where new = "[]"])
  have rel: "releases_of s' = releases_of s" by (rule releases_same[OF assms(5)])
  have paid: "paid_amounts j s' = paid_amounts j s" for j by (simp add: paid_amounts_def rel)
  have i: "s_id old = i" using assms(1) found_settlement by (auto simp: settlement_moved_def)
  have p: "phase_of old = InReview" "phase_of (f old) = CustomerApproved"
    using assms(2) f by (simp_all add: phase_of_def in_review_def)
  show "row_ok s' (f old)" if "row_ok s old" "approvals_wf s"
    using that assms(4)[OF that(2)] f p i by (simp add: row_ok_def approval_added_def paid)
  show "lifecycle_step (phases s) ((phases s)(i \<mapsto> phase_of (f old)))" if "phases s i = Some (phase_of old)"
    using lifecycle_step.agree[of "phases s" i] that by (simp add: p)
  show "phase_of (f old) = phase_of old" if "phase_of old \<in> {PaidOut, Cancelled}" using that by (simp add: p)
qed (use assms(4) f in \<open>auto simp: approval_added_def releases_same[OF assms(5)]\<close>)

lemma paid_guarantee:
  assumes "settlement_moved i old f s s'" "s_status old = ''CUSTOMER_APPROVED''" "db_wf s'"
    "approvals_wf s \<Longrightarrow> approval_added i ''ADMIN'' s s'"
    and pay: "releases_of s' = releases_of s @ [t]" "t_settlementId t = Some i" "t_amount t = s_publisherAmount old"
    and f: "\<And>r. s_id (f r) = s_id r \<and> s_orderId (f r) = s_orderId r \<and> s_publisherId (f r) = s_publisherId r
      \<and> s_publisherAmount (f r) = s_publisherAmount r \<and> s_version r < s_version (f r) \<and> s_status (f r) = ''RELEASED''
      \<and> s_settledAt (f r) \<noteq> None"
  shows "guarantee s s'"
proof (rule moved_guarantee[OF assms(1,3), where new = "[t]"])
  have i: "s_id old = i" using assms(1) found_settlement by (auto simp: settlement_moved_def)
  have p: "phase_of old = CustomerApproved" "phase_of (f old) = PaidOut"
    using assms(2) f by (simp_all add: phase_of_def in_review_def)
  show "row_ok s' (f old)" if "row_ok s old" "approvals_wf s"
    using that assms(4)[OF that(2)] f p i pay by (simp add: row_ok_def approval_added_def paid_amounts_def)
  show "lifecycle_step (phases s) ((phases s)(i \<mapsto> phase_of (f old)))" if "phases s i = Some (phase_of old)"
    using lifecycle_step.pay_out[of "phases s" i] that by (simp add: p)
  show "phase_of (f old) = phase_of old" if "phase_of old \<in> {PaidOut, Cancelled}" using that by (simp add: p)
qed (use assms(4) f pay in \<open>auto simp: approval_added_def\<close>)

lemma cancelled_guarantee:
  assumes mv: "settlement_moved i old (move_settlement env ''CANCELLED'') s s'" and p: "phase_of old \<noteq> PaidOut"
    and wf: "db_wf s'" and ap: "approvals s' = approvals s" and tx: "transactions s' = transactions s"
  shows "guarantee s s'"
proof (rule moved_guarantee[OF mv wf, where new = "[]"])
  let ?f = "move_settlement env ''CANCELLED''"
  have c: "phase_of (?f old) = Cancelled" by (simp add: phase_of_def in_review_def)
  have ids: "s_id ` set (settlements s') = s_id ` set (settlements s)"
    using mv by (simp add: settlement_moved_def ids_moved)
  show "approvals_wf s'" if "approvals_wf s" by (rule approvals_wf_moved[OF that ap]) (simp add: ids)
  show "row_ok s' (?f old)" if "row_ok s old"
    using that p c by (simp add: row_ok_def approval_given_same[OF ap] paid_amounts_def releases_same[OF tx]) (simp add: move_settlement_def)
  show "lifecycle_step (phases s) ((phases s)(i \<mapsto> phase_of (?f old)))" if "phases s i = Some (phase_of old)"
    using lifecycle_step.call_off[of "phases s" i "phase_of old"] that p by (simp add: c)
  show "phase_of (?f old) = phase_of old" if "phase_of old \<in> {PaidOut, Cancelled}" using that p c by simp
qed (simp_all add: approval_given_same[OF ap] releases_same[OF tx])

lemma returned_guarantee:
  assumes mv: "settlement_moved i old (move_settlement env ''UNDER_REVIEW'') s s'" and o: "s_status old = ''CUSTOMER_APPROVED''"
    and wf: "db_wf s'" and tx: "transactions s' = transactions s"
    and ap: "approvals_wf s \<Longrightarrow> approvals_wf s' \<and> (\<forall>j k. approval_given j k s' \<longleftrightarrow> approval_given j k s \<and> \<not> (j = i \<and> k = ''CUSTOMER''))"
  shows "guarantee s s'"
proof (rule moved_guarantee[OF mv wf, where new = "[]"])
  let ?f = "move_settlement env ''UNDER_REVIEW''"
  have i: "s_id old = i" using mv found_settlement by (auto simp: settlement_moved_def)
  have p: "phase_of old = CustomerApproved" "phase_of (?f old) = InReview"
    using o by (simp_all add: phase_of_def in_review_def)
  show "row_ok s' (?f old)" if "row_ok s old" "approvals_wf s"
    using that ap[OF that(2)] p i by (simp add: row_ok_def paid_amounts_def releases_same[OF tx]) (simp add: move_settlement_def)
  show "lifecycle_step (phases s) ((phases s)(i \<mapsto> phase_of (?f old)))" if "phases s i = Some (phase_of old)"
    using lifecycle_step.take_back[of "phases s" i] that by (simp add: p)
  show "phase_of (?f old) = phase_of old" if "phase_of old \<in> {PaidOut, Cancelled}" using that by (simp add: p)
qed (use ap in \<open>auto simp: releases_same[OF tx]\<close>)

lemma one_active_append:
  assumes "one_active rows" "\<And>r. r \<in> set rows \<Longrightarrow> s_orderId r = s_orderId x \<Longrightarrow> phase_of r = Cancelled"
  shows "one_active (rows @ [x])"
  unfolding one_active_def
proof (intro ballI impI)
  fix a b assume ab: "a \<in> set (rows @ [x])" "b \<in> set (rows @ [x])" "s_orderId a = s_orderId b"
    "phase_of a \<noteq> Cancelled" "phase_of b \<noteq> Cancelled"
  consider "a \<in> set rows" "b \<in> set rows" | "a = x" "b = x" | "a = x" "b \<in> set rows" | "a \<in> set rows" "b = x"
    using ab(1,2) by auto
  then show "s_id a = s_id b"
  proof cases
    case 1
    then show ?thesis using assms(1) ab(3-5) unfolding one_active_def by blast
  next
    case 3
    then show ?thesis using assms(2)[of b] ab(3-5) by simp
  next
    case 4
    then show ?thesis using assms(2)[of a] ab(3-5) by simp
  qed simp
qed

lemma created_guarantee:
  assumes c: "created_between env orderId st s s'"
  shows "guarantee s s'"
  unfolding guarantee_def
proof
  assume ok: "settlements_ok s"
  note K = settlements_okD[OF ok]
  have rows: "settlements s' = settlements s @ [st]" and fresh: "s_id st \<notin> s_id ` set (settlements s)"
    and st: "s_status st = ''PENDING''" "s_orderId st = orderId" "0 < s_publisherAmount st" "s_settledAt st = None"
    and others: "\<forall>x \<in> set (settlements s). s_orderId x = orderId \<longrightarrow> s_status x = ''CANCELLED''"
    and fr: "s' = s\<lparr>settlements := settlements s', order_events := order_events s', audit_logs := audit_logs s', id_supply := id_supply s'\<rparr>"
    using c by (auto simp: created_between_def)
  have ap: "approvals s' = approvals s" using arg_cong[OF fr, of approvals] by simp
  have rel: "releases_of s' = releases_of s" using releases_same[of s' s] arg_cong[OF fr, of transactions] by simp
  have "filter (\<lambda>t. t_settlementId t = Some (s_id st)) (releases_of s) = []"
  proof (unfold filter_empty_conv, intro ballI notI)
    fix t assume "t \<in> set (releases_of s)" "t_settlementId t = Some (s_id st)"
    then show False using K(5)[of t] fresh by auto
  qed
  then have unpaid: "paid_amounts (s_id st) s' = []" by (simp add: paid_amounts_def rel)
  have wf: "db_wf s'" using K(1) fresh rows by (subst fr) (simp add: db_wf_def)
  have "approvals_wf s'"
    using K(2) by (auto simp: approvals_wf_def ap rows)
  moreover have "\<not> approval_given (s_id st) k s" for k
  proof
    assume "approval_given (s_id st) k s"
    then obtain a where "a \<in> set (approvals s)" "a_settlementId a = s_id st" by (auto simp: approval_given_def list_ex_iff)
    then show False using K(2) fresh unfolding approvals_wf_def by metis
  qed
  then have "row_ok s' st" using st by (simp add: row_ok_def approval_given_same[OF ap] phase_of_def in_review_def unpaid)
  moreover have "row_ok s' r" if "r \<in> set (settlements s)" for r
    using K(3)[OF that] by (simp add: row_ok_def approval_given_same[OF ap] paid_amounts_def rel)
  moreover have "one_active (settlements s')"
    unfolding rows
  proof (rule one_active_append[OF K(4)])
    fix r assume "r \<in> set (settlements s)" "s_orderId r = s_orderId st"
    then have "s_status r = ''CANCELLED''" using others st(2) by blast
    then show "phase_of r = Cancelled" by (simp add: phase_of_def in_review_def)
  qed
  ultimately have ok': "settlements_ok s'" using wf K(5) by (auto simp: settlements_ok_def list_all_iff rows rel)
  have later: "later s s'" by (auto simp: later_def rows intro: row_later_refl)
  have "lifecycle_step\<^sup>*\<^sup>* (phases s) (phases s')"
    using lifecycle_step.make[of "phases s" "s_id st"] by (simp add: created_phases[OF c] r_into_rtranclp)
  with ok' later show "settlements_ok s' \<and> later s s' \<and> lifecycle_step\<^sup>*\<^sup>* (phases s) (phases s')" by blast
qed

section \<open>Rely and guarantee\<close>

text \<open>
  The contract every transaction of a system shares: what it guarantees is kept by doing nothing and
  composes, and preserves well-formedness.  A transaction that is retried while others interfere, who
  guarantee the same, guarantees it as well.
\<close>

locale rely_guarantee =
  fixes ok :: "db \<Rightarrow> bool" and G :: "db \<Rightarrow> db \<Rightarrow> bool"
  assumes stays: "G s s" and follows: "G s t \<Longrightarrow> G t u \<Longrightarrow> G s u" and keeps_ok: "G s t \<Longrightarrow> ok s \<Longrightarrow> ok t"
begin

lemma retried:
  assumes "ok s" "\<And>n t. G t (fst (w n) t)" "\<And>t x t'. ok t \<Longrightarrow> G s t \<Longrightarrow> op t = Inr (x, t') \<Longrightarrow> G s t'"
    and "retry_loop retryable w op left n s1 = (r, s')" "G s s1"
  shows "G s s'"
  using assms(4,5)
proof (induction left arbitrary: n s1)
  case 0
  then show ?case by simp
next
  case (Suc left)
  let ?t = "fst (w n) s1"
  have t: "G s ?t" using follows[OF Suc.prems(2) assms(2)] .
  show ?case
  proof (cases "attempt_tx (snd (w n)) op ?t")
    case (Inl e)
    then show ?thesis
      using Suc.prems(1) Suc.IH[OF _ t] t by (auto simp: Let_def split: if_splits)
  next
    case (Inr y)
    obtain x t' where y: "y = (x, t')" by (cases y)
    have "op ?t = Inr (x, t')" using Inr y by (auto simp: attempt_tx_def split: option.splits)
    from assms(3)[OF keeps_ok[OF t assms(1)] t this] have "G s t'" .
    then show ?thesis using Suc.prems(1) Inr y by (simp add: Let_def)
  qed
qed

lemma serialized:
  assumes "ok s" "\<And>n t. G t (fst (w n) t)" "\<And>t x t'. ok t \<Longrightarrow> G s t \<Longrightarrow> op t = Inr (x, t') \<Longrightarrow> G s t'"
    and "runSerializableTransactionWithRetry w op s = (r, s')"
  shows "G s s'"
  using retried[OF assms(1-3) assms(4)[unfolded runSerializableTransactionWithRetry_def] stays] .

lemma done_once:
  assumes "ok s" "\<And>t. G t (meanwhile t)" "\<And>t x t'. ok t \<Longrightarrow> G s t \<Longrightarrow> op t = Inr (x, t') \<Longrightarrow> G s t'"
    and "run_once meanwhile op s = (r, s')"
  shows "G s s'"
proof (cases "op (meanwhile s)")
  case (Inl e)
  then show ?thesis using assms(2)[of s] assms(4) by (simp add: run_once_def Let_def)
next
  case (Inr y)
  obtain x t' where y: "y = (x, t')" by (cases y)
  have "G s t'" using assms(3)[OF keeps_ok[OF assms(2,1)] assms(2)] Inr y by blast
  then show ?thesis using assms(4) Inr y by (simp add: run_once_def Let_def)
qed

lemma gated:
  assumes "ok s" "\<And>n t. G t (fst (w n) t)" "\<And>t x t'. ok t \<Longrightarrow> G s t \<Longrightarrow> op t = Inr (x, t') \<Longrightarrow> G s t'"
    and "runGated comms w op s = (r, s')"
  shows "G s s'"
proof -
  obtain x s1 where "runSerializableTransactionWithRetry w op s = (x, s1)"
    by (cases "runSerializableTransactionWithRetry w op s")
  moreover from this have "s1 = s'" using assms(4) by (auto simp: runGated_def split: sum.splits gated.splits)
  ultimately have "runSerializableTransactionWithRetry w op s = (x, s')" by simp
  with assms(1-3) show ?thesis by (rule serialized)
qed

end

interpretation settling: rely_guarantee settlements_ok guarantee
  by unfold_locales (simp, rule guarantee_trans, simp_all add: guarantee_def)

section \<open>The transactions guarantee it\<close>

text \<open>A row read some time ago: what identifies it stands, and with the version it had it stands as it was.\<close>

definition read_before :: "settlement_row \<Rightarrow> db \<Rightarrow> bool" where
  "read_before st t \<longleftrightarrow> 0 < s_publisherAmount st \<and> (\<exists>x \<in> set (settlements t). row_later st x)"

lemma read_before: "settlements_ok s \<Longrightarrow> st \<in> set (settlements s) \<Longrightarrow> guarantee s t \<Longrightarrow> read_before st t"
  using settlements_okD(3)[of s st] by (auto simp: read_before_def guarantee_def later_def row_ok_def)

lemma read_version:
  assumes "read_before st t" "db_wf t" "find_settlement (s_id st) t = Some old" "s_version old = s_version st"
  shows "old = st"
proof -
  obtain x where x: "x \<in> set (settlements t)" "row_later st x" using assms(1) by (auto simp: read_before_def)
  have old: "s_id old = s_id st" "old \<in> set (settlements t)" using found_settlement[OF assms(3)] by blast+
  have "s_id x = s_id old" using x(2) old(1) by (simp add: row_later_def)
  then have "x = old" by (rule distinct_key_eq[OF db_wfD(3)[OF assms(2)] x(1) old(2)])
  then show ?thesis using x(2) assms(4) by (simp add: row_later_def)
qed

lemma gate_guarantee:
  assumes "gateSettlement env i k s = Inr (g, s')" "\<And>x. g = Passed x \<Longrightarrow> guarantee s s'"
  shows "guarantee s s'"
  using assms(1) by (cases rule: gateSettlement_Inr) (auto intro: assms(2) books_guarantee)

lemma lines_released:
  assumes "map ledger_line ts = release_lines st paid netted"
  obtains t where "filter (\<lambda>t. t_type t = ''SETTLEMENT_RELEASE'') ts = [t]" "t_settlementId t = Some (s_id st)" "t_amount t = paid"
proof -
  obtain t rest where ts: "ts = t # rest" "ledger_line t = (''SETTLEMENT_RELEASE'', paid, Some (s_publisherId st), Some (s_id st), Some (s_orderId st), None)"
      and rest: "\<forall>x \<in> set (map ledger_line rest). fst x = ''DEBT_REPAYMENT''"
    using assms by (cases ts) (auto simp: release_lines_def split: if_splits)
  have "filter (\<lambda>t. t_type t = ''SETTLEMENT_RELEASE'') rest = []"
    using rest by (auto simp: filter_empty_conv ledger_line_def)
  then show thesis using ts by (intro that[of t]) (simp_all add: ledger_line_def)
qed

lemma release_guarantee:
  assumes st: "read_before st s" and wf: "db_wf s" and r: "released_by_staff env st userId netted s s'" and wf': "db_wf s'"
  shows "guarantee s s'"
proof -
  obtain old ts where old: "s_status old = ''CUSTOMER_APPROVED''" "s_version old = s_version st"
      "settlement_moved (s_id st) old (\<lambda>x. released_row env (move_settlement env ''ADMIN_APPROVED'' x)) s s'"
      "approvals_wf s \<longrightarrow> approval_added (s_id st) ''ADMIN'' s s'"
    and ts: "transactions s' = transactions s @ ts" "map ledger_line ts = release_lines st (s_publisherAmount st) netted"
    using r by (auto simp: released_by_staff_def money_released_def)
  have same: "old = st" using read_version[OF st wf _ old(2)] old(3) by (simp add: settlement_moved_def)
  obtain t where t: "filter (\<lambda>t. t_type t = ''SETTLEMENT_RELEASE'') ts = [t]" "t_settlementId t = Some (s_id st)"
      "t_amount t = s_publisherAmount st" by (rule lines_released[OF ts(2)])
  have "releases_of s' = releases_of s @ [t]" by (simp add: releases_of_def ts(1) t(1))
  then show ?thesis
    by (intro paid_guarantee[OF old(3,1) wf', of t])
      (use old(4) t(2) in \<open>simp_all add: t(3) same released_row_def move_settlement_def\<close>)
qed

lemma create_tx_guarantee:
  assumes "createSettlementTx to_number env orderId org userId ord s = Inr (g, s')"
  shows "guarantee s s'"
proof (rule gate_guarantee[OF assms[unfolded createSettlementTx_def]])
  fix x assume "g = Passed x"
  then show "guarantee s s'" using createSettlementTx_Inr created_guarantee assms by blast
qed

lemma customer_tx_guarantee:
  assumes wf: "db_wf s" and run: "customerApproveTx env st ord userId member role s = Inr (g, s')"
  shows "guarantee s s'"
proof (rule gate_guarantee[OF run[unfolded customerApproveTx_def]])
  fix x assume "g = Passed x"
  obtain old where "in_review old"
    "settlement_moved (s_id st) old (\<lambda>r. (move_settlement env ''CUSTOMER_APPROVED'' r)\<lparr>s_currency := ''USD''\<rparr>) s s'"
    "approvals_wf s \<Longrightarrow> approval_added (s_id st) ''CUSTOMER'' s s'" "db_wf s'"
    and e: "s' = s\<lparr>settlements := settlements s', approvals := approvals s', order_events := order_events s',
       audit_logs := audit_logs s', id_supply := id_supply s'\<rparr>"
    by (rule customerApproveTx_Inr[OF wf run[unfolded \<open>g = Passed x\<close>]]) blast
  moreover have "transactions s' = transactions s" using arg_cong[OF e, of transactions] by simp
  ultimately show "guarantee s s'"
    by (intro agreed_guarantee[of "s_id st" old "\<lambda>r. (move_settlement env ''CUSTOMER_APPROVED'' r)\<lparr>s_currency := ''USD''\<rparr>"])
      (auto simp: move_settlement_def)
qed

lemma admin_tx_guarantee:
  assumes wf: "db_wf s" and st: "read_before st s"
    and run: "adminApproveTx to_number env comms st ord reason userId role s = Inr (g, s')"
  shows "guarantee s s'"
proof (rule gate_guarantee[OF run[unfolded adminApproveTx_def]])
  fix x assume g: "g = Passed x"
  have "0 \<le> s_publisherAmount st" using st by (simp add: read_before_def)
  then obtain netted where "released_by_staff env st userId netted s s'" "db_wf s'"
    by (rule adminApproveTx_Inr[OF wf _ run[unfolded g]])
  then show "guarantee s s'" by (rule release_guarantee[OF st wf])
qed

lemma force_tx_guarantee:
  assumes wf: "db_wf s" and st: "read_before st s" "s_status st \<in> {''PENDING'', ''UNDER_REVIEW'', ''CUSTOMER_APPROVED''}"
    and run: "forceApproveTx to_number env comms st ord reason userId role s = Inr (g, s')"
  shows "guarantee s s'"
proof (rule gate_guarantee[OF run[unfolded forceApproveTx_def Let_def]])
  fix x assume g: "g = Passed x"
  have "0 \<le> s_publisherAmount st" using st by (simp add: read_before_def)
  from wf this run[unfolded g] show "guarantee s s'"
  proof (cases rule: forceApproveTx_Inr)
    case (release netted)
    then show ?thesis using release_guarantee[OF st(1) wf] by blast
  next
    case customer
    have tx: "transactions s' = transactions s"
      using customer(2) unfolding forced_for_customer_def by (elim exE conjE) (drule arg_cong[where f = transactions], simp)
    obtain old where "s_status old = s_status st"
        "settlement_moved (s_id st) old (move_settlement env ''CUSTOMER_APPROVED'') s s'"
        "approvals_wf s \<longrightarrow> approval_added (s_id st) ''CUSTOMER'' s s'"
      using customer(2) unfolding forced_for_customer_def by blast
    then show ?thesis
      using customer(1,3) st(2) tx
      by (intro agreed_guarantee[of "s_id st" old "move_settlement env ''CUSTOMER_APPROVED''"])
        (auto simp: in_review_def move_settlement_def)
  qed
qed

lemma cancel_tx_guarantee:
  assumes wf: "db_wf s" and st: "read_before st s" "s_status st \<noteq> ''RELEASED''"
    and run: "cancelSettlementTx env st ord userId reason s = Inr (x, s')"
  shows "guarantee s s'"
proof -
  obtain old where old: "s_version old = s_version st" "settlement_moved (s_id st) old (move_settlement env ''CANCELLED'') s s'"
      "s' = s\<lparr>settlements := settlements s', audit_logs := audit_logs s'\<rparr>" "db_wf s'"
    by (rule cancelSettlementTx_Inr[OF wf run])
  have "old = st" using read_version[OF st(1) wf _ old(1)] old(2) by (simp add: settlement_moved_def)
  then have "phase_of old \<noteq> PaidOut" using st(2) by (simp add: phase_of_def)
  moreover have "approvals s' = approvals s" "transactions s' = transactions s"
    using arg_cong[OF old(3), of approvals] arg_cong[OF old(3), of transactions] by simp_all
  ultimately show ?thesis using cancelled_guarantee[OF old(2)] old(4) by blast
qed

lemma return_tx_guarantee:
  assumes wf: "db_wf s" and run: "returnToReviewTx env st ord userId reason s = Inr (x, s')"
  shows "guarantee s s'"
proof (rule returnToReviewTx_Inr[OF wf run])
  fix old
  assume old: "s_status old = ''CUSTOMER_APPROVED''" "settlement_moved (s_id st) old (move_settlement env ''UNDER_REVIEW'') s s'"
    and ap: "approvals_wf s \<Longrightarrow> approvals_wf s' \<and>
       (\<forall>j k. approval_given j k s' \<longleftrightarrow> approval_given j k s \<and> \<not> (j = s_id st \<and> k = ''CUSTOMER''))"
    and e: "s' = s\<lparr>settlements := settlements s', approvals := approvals s', order_events := order_events s', audit_logs := audit_logs s'\<rparr>"
    and wf': "db_wf s'"
  have "transactions s' = transactions s" using arg_cong[OF e, of transactions] by simp
  then show "guarantee s s'" by (rule returned_guarantee[OF old(2,1) wf' _ ap])
qed

lemma approve_tx_guarantee:
  assumes wf: "db_wf s" and run: "autoApproveTx env st ord s = Inr (oc, s')"
  shows "guarantee s s'"
proof -
  have A: "db_wf s'" "transactions s' = transactions s"
    using autoApproveTx_Inr[OF wf run] by (auto simp: approved_between_def split: if_splits)
  from autoApproveTx_swept[OF wf run] show ?thesis
    unfolding swept_def using A(2) releases_same[OF A(2)]
    by (auto intro: same_guarantee[OF _ _ _ A(1)] agreed_guarantee[OF _ _ A(1)])
qed

lemma release_tx_guarantee:
  assumes wf: "db_wf s" and run: "autoReleaseTx env now st ord s = Inr (oc, s')"
  shows "guarantee s s'"
proof (cases "oc = Released")
  case False
  then have "same_books s s'" using autoReleaseTx_Inr[OF wf run] by simp
  then show ?thesis by (rule books_guarantee)
next
  case True
  let ?f = "\<lambda>r. r\<lparr>s_status := ''RELEASED'', s_currency := ''USD'', s_settledAt := Some (case now of None \<Rightarrow> env_now env | Some t \<Rightarrow> t),
       s_version := s_version r + 1, s_updatedAt := env_now env\<rparr>"
  obtain g where wf': "db_wf s'" and g: "released_between env now st s s' g"
    using autoReleaseTx_Inr[OF wf run] True by auto
  have fresh: "find_settlement (s_id st) s = Some (lf_settlement g)" "s_publisherAmount (lf_settlement g) = lf_paid g * CENT"
      "map_option s_status (find_settlement (s_id st) s') \<noteq> map_option s_status (find_settlement (s_id st) s)"
    and tx: "transactions s' = transactions s @ release_rows env (lf_supply g) st (lf_paid g) (lf_netted g)"
    using g by (auto simp: released_between_def Let_def)
  have "settlements s' \<noteq> settlements s" using fresh(3) by (auto simp: find_settlement_def)
  then have mv: "settlement_moved (s_id st) (lf_settlement g) ?f s s'" "s_status (lf_settlement g) = ''CUSTOMER_APPROVED''"
      "approvals_wf s \<longrightarrow> approval_added (s_id st) ''ADMIN'' s s'"
    using autoReleaseTx_swept[OF wf run] fresh(1) by (auto simp: swept_def settlement_moved_def)
  obtain t where t: "filter (\<lambda>t. t_type t = ''SETTLEMENT_RELEASE'') (release_rows env (lf_supply g) st (lf_paid g) (lf_netted g)) = [t]"
      "t_settlementId t = Some (s_id st)" "t_amount t = lf_paid g * CENT"
    by (simp add: release_rows_def)
  have "releases_of s' = releases_of s @ [t]" by (simp add: releases_of_def tx t(1))
  then show ?thesis
    by (intro paid_guarantee[OF mv(1,2) wf', of t]) (use mv(3) t(2) in \<open>simp_all add: t(3) fresh(2)\<close>)
qed

section \<open>Runs of the service\<close>

text \<open>
  Whole operations one after the other, each in a weather made of such runs: what other operations
  commit between its reading and its transaction, and between its attempts, is again a run.
\<close>

inductive settlement_run :: "db \<Rightarrow> db \<Rightarrow> bool" where
  idle: "settlement_run s s"
| create: "settlement_run s s1 \<Longrightarrow> (\<And>n t. settlement_run t (fst (w n) t)) \<Longrightarrow>
     createSettlement to_number env comms w orderId org userId s1 = (res, s2) \<Longrightarrow> settlement_run s s2"
| customer: "settlement_run s s1 \<Longrightarrow> (\<And>n t. settlement_run t (fst (w n) t)) \<Longrightarrow>
     customerApprove env comms w i userId member role actorRole s1 = (res, s2) \<Longrightarrow> settlement_run s s2"
| admin: "settlement_run s s1 \<Longrightarrow> (\<And>n t. settlement_run t (fst (w n) t)) \<Longrightarrow>
     adminApprove to_number env comms w i reason userId role s1 = (res, s2) \<Longrightarrow> settlement_run s s2"
| force: "settlement_run s s1 \<Longrightarrow> (\<And>n t. settlement_run t (fst (w n) t)) \<Longrightarrow>
     forceApprove to_number env comms w i reason userId role s1 = (res, s2) \<Longrightarrow> settlement_run s s2"
| cancel: "settlement_run s s1 \<Longrightarrow> (\<And>t. settlement_run t (meanwhile t)) \<Longrightarrow>
     cancelSettlement env meanwhile i userId reason s1 = (cres, s2) \<Longrightarrow> settlement_run s s2"
| take_back: "settlement_run s s1 \<Longrightarrow> (\<And>t. settlement_run t (meanwhile t)) \<Longrightarrow>
     returnToReview env meanwhile i userId reason s1 = (cres, s2) \<Longrightarrow> settlement_run s s2"
| auto_approve: "settlement_run s s1 \<Longrightarrow> (\<And>j n t. settlement_run t (fst (weathers j n) t)) \<Longrightarrow>
     runSettlementAutoApprove env weathers batchSize now s1 = (ares, s2) \<Longrightarrow> settlement_run s s2"
| auto_release: "settlement_run s s1 \<Longrightarrow> (\<And>j n t. settlement_run t (fst (weathers j n) t)) \<Longrightarrow>
     runSettlementAutoRelease env weathers batchSize now s1 = (rres, s2) \<Longrightarrow> settlement_run s s2"
| elsewhere: "settlement_run s s1 \<Longrightarrow> settlements s2 = settlements s1 \<Longrightarrow> approvals s2 = approvals s1 \<Longrightarrow>
     releases_of s2 = releases_of s1 \<Longrightarrow> (db_wf s1 \<longrightarrow> db_wf s2) \<Longrightarrow> settlement_run s s2"

text \<open>The rows the checks hand to the transactions are those of the store.\<close>

lemma checked_in_store:
  "settlement_with_order i s = Inr ((st, ord), s') \<Longrightarrow> s' = s \<and> st \<in> set (settlements s)"
  by (auto simp: settlement_with_order_def tx_simps found_settlement split: option.splits)

lemma checks_read:
  "customerApproveCheck env i userId member actorRole s = Inr ((st, ord), s') \<Longrightarrow> st \<in> set (settlements s)"
  "adminApproveCheck env i s = Inr ((st, ord), s') \<Longrightarrow> st \<in> set (settlements s)"
  "forceApproveCheck env i s = Inr ((st, ord), s') \<Longrightarrow>
     st \<in> set (settlements s) \<and> s_status st \<in> {''PENDING'', ''UNDER_REVIEW'', ''CUSTOMER_APPROVED''}"
  "cancelSettlementCheck env i s = Inr ((st, ord), s') \<Longrightarrow> st \<in> set (settlements s) \<and> s_status st \<noteq> ''RELEASED''"
  "returnToReviewCheck env i s = Inr ((st, ord), s') \<Longrightarrow> st \<in> set (settlements s)"
  unfolding customerApproveCheck_def adminApproveCheck_def forceApproveCheck_def cancelSettlementCheck_def returnToReviewCheck_def
  by (auto simp: tx_simps dest!: checked_in_store)

lemma afterRelease_state: "afterRelease comms st ord run = (res, s') \<Longrightarrow> snd run = s'"
  by (auto simp: afterRelease_def split: prod.splits sum.splits)

lemma createSettlementCheck_guarantee:
  assumes "createSettlementCheck env orderId org userId s = (res, s')"
  shows "guarantee s s'"
proof -
  have e: "s' = s\<lparr>audit_logs := audit_logs s'\<rparr>"
    using assms by (auto simp: createSettlementCheck_def Let_def audit_log_Inr
        split: sum.splits option.splits if_splits prod.splits)
  show ?thesis by (rule same_guarantee) (subst e, simp add: db_wf_def releases_of_def)+
qed

lemma approveRows_guarantee:
  assumes "\<And>j n t. guarantee t (fst (weathers j n) t)"
  shows "settlements_ok s \<Longrightarrow> approveRows env weathers j rows acc s = (res, s') \<Longrightarrow> guarantee s s'"
proof (induction rows arbitrary: j acc s)
  case (Cons p rest)
  obtain st ord where p: "p = (st, ord)" by (cases p)
  obtain out s1 where o: "runSerializableTransactionWithRetry (weathers j) (autoApproveTx env st ord) s = (out, s1)"
    by (cases "runSerializableTransactionWithRetry (weathers j) (autoApproveTx env st ord) s")
  have g: "guarantee s s1"
    by (rule settling.serialized[OF Cons.prems(1) assms _ o]) (rule guarantee_trans, assumption, rule approve_tx_guarantee[OF settlements_okD(1)])
  have "guarantee s1 s'"
    using Cons.IH[OF settling.keeps_ok[OF g Cons.prems(1)]] Cons.prems(2) by (simp add: p o)
  with g show ?case by (rule guarantee_trans)
qed simp

lemma releaseRows_guarantee:
  assumes "\<And>j n t. guarantee t (fst (weathers j n) t)"
  shows "settlements_ok s \<Longrightarrow> releaseRows env now weathers j rows acc s = (res, s') \<Longrightarrow> guarantee s s'"
proof (induction rows arbitrary: j acc s)
  case (Cons p rest)
  obtain st ord where p: "p = (st, ord)" by (cases p)
  obtain out s1 where o: "runSerializableTransactionWithRetry (weathers j) (autoReleaseTx env now st ord) s = (out, s1)"
    by (cases "runSerializableTransactionWithRetry (weathers j) (autoReleaseTx env now st ord) s")
  have g: "guarantee s s1"
    by (rule settling.serialized[OF Cons.prems(1) assms _ o]) (rule guarantee_trans, assumption, rule release_tx_guarantee[OF settlements_okD(1)])
  have "guarantee s1 s'"
    using Cons.IH[OF settling.keeps_ok[OF g Cons.prems(1)]] Cons.prems(2) by (simp add: p o)
  with g show ?case by (rule guarantee_trans)
qed simp

text \<open>Every operation of the service guarantees it, in a weather that does.\<close>

lemma operations_guarantee:
  assumes ok: "settlements_ok s" and w: "\<And>n t. guarantee t (fst (w n) t)"
  shows "createSettlement to_number env comms w orderId org userId s = (res, s') \<Longrightarrow> guarantee s s'"
    "customerApprove env comms w i userId member role actorRole s = (res, s') \<Longrightarrow> guarantee s s'"
    "adminApprove to_number env comms w i reason userId role s = (res, s') \<Longrightarrow> guarantee s s'"
    "forceApprove to_number env comms w i reason userId role s = (res, s') \<Longrightarrow> guarantee s s'"
proof -
  show "guarantee s s'" if run: "createSettlement to_number env comms w orderId org userId s = (res, s')"
  proof -
    obtain c s1 where c: "createSettlementCheck env orderId org userId s = (c, s1)"
      by (cases "createSettlementCheck env orderId org userId s")
    note g = createSettlementCheck_guarantee[OF c]
    note k = settling.keeps_ok[OF g ok]
    have "guarantee s1 s'"
    proof (cases c)
      case (Inl e)
      then show ?thesis using run c by (simp add: createSettlement_def)
    next
      case (Inr ord)
      then have x: "runGated comms w (createSettlementTx to_number env orderId org userId ord) s1 = (res, s')"
        using run c by (simp add: createSettlement_def)
      show ?thesis by (rule settling.gated[OF k w _ x]) (rule guarantee_trans, assumption, rule create_tx_guarantee)
    qed
    with g show ?thesis by (rule guarantee_trans)
  qed
  show "guarantee s s'" if run: "customerApprove env comms w i userId member role actorRole s = (res, s')"
  proof (cases "customerApproveCheck env i userId member actorRole s")
    case (Inr y)
    obtain st ord s1 where y: "y = ((st, ord), s1)" by (metis prod.exhaust)
    have x: "runGated comms w (customerApproveTx env st ord userId member role) s = (res, s')"
      using run Inr y by (simp add: customerApprove_def)
    show ?thesis by (rule settling.gated[OF ok w _ x]) (rule guarantee_trans, assumption, rule customer_tx_guarantee[OF settlements_okD(1)])
  qed (use run in \<open>simp add: customerApprove_def\<close>)
  show "guarantee s s'" if run: "adminApprove to_number env comms w i reason userId role s = (res, s')"
  proof (cases "adminApproveCheck env i s")
    case (Inr y)
    obtain st ord s1 where y: "y = ((st, ord), s1)" by (metis prod.exhaust)
    have "snd (runGated comms w (adminApproveTx to_number env comms st ord reason userId role) s) = s'"
      using run by (intro afterRelease_state[of comms st ord _ res]) (simp add: adminApprove_def Inr y)
    then obtain x where x: "runGated comms w (adminApproveTx to_number env comms st ord reason userId role) s = (x, s')"
      by (metis prod.exhaust snd_conv)
    have st: "st \<in> set (settlements s)" using checks_read(2)[OF Inr[unfolded y]] .
    show ?thesis
      by (rule settling.gated[OF ok w _ x]) (rule guarantee_trans, assumption, rule admin_tx_guarantee[OF settlements_okD(1) read_before[OF ok st]])
  qed (use run in \<open>simp add: adminApprove_def\<close>)
  show "guarantee s s'" if run: "forceApprove to_number env comms w i reason userId role s = (res, s')"
  proof (cases "forceApproveCheck env i s")
    case (Inr y)
    obtain st ord s1 where y: "y = ((st, ord), s1)" by (metis prod.exhaust)
    have "snd (runGated comms w (forceApproveTx to_number env comms st ord reason userId role) s) = s'"
      using run by (intro afterRelease_state[of comms st ord _ res]) (simp add: forceApprove_def Inr y)
    then obtain x where x: "runGated comms w (forceApproveTx to_number env comms st ord reason userId role) s = (x, s')"
      by (metis prod.exhaust snd_conv)
    have st: "st \<in> set (settlements s)" "s_status st \<in> {''PENDING'', ''UNDER_REVIEW'', ''CUSTOMER_APPROVED''}"
      using checks_read(3)[OF Inr[unfolded y]] by blast+
    show ?thesis
      by (rule settling.gated[OF ok w _ x]) (rule guarantee_trans, assumption, rule force_tx_guarantee[OF settlements_okD(1) read_before[OF ok st(1)] st(2)])
  qed (use run in \<open>simp add: forceApprove_def\<close>)
qed

lemma decisions_guarantee:
  assumes ok: "settlements_ok s" and w: "\<And>t. guarantee t (meanwhile t)"
  shows "cancelSettlement env meanwhile i userId reason s = (res, s') \<Longrightarrow> guarantee s s'"
    "returnToReview env meanwhile i userId reason s = (res, s') \<Longrightarrow> guarantee s s'"
proof -
  show "guarantee s s'" if run: "cancelSettlement env meanwhile i userId reason s = (res, s')"
  proof (cases "cancelSettlementCheck env i s")
    case (Inr y)
    obtain st ord s1 where y: "y = ((st, ord), s1)" by (metis prod.exhaust)
    have st: "st \<in> set (settlements s)" "s_status st \<noteq> ''RELEASED''" using checks_read(4)[OF Inr[unfolded y]] by blast+
    have x: "run_once meanwhile (cancelSettlementTx env st ord userId reason) s = (res, s')"
      using run Inr y by (simp add: cancelSettlement_def)
    show ?thesis
      by (rule settling.done_once[OF ok w _ x]) (rule guarantee_trans, assumption, rule cancel_tx_guarantee[OF settlements_okD(1) read_before[OF ok st(1)] st(2)])
  qed (use run in \<open>simp add: cancelSettlement_def\<close>)
  show "guarantee s s'" if run: "returnToReview env meanwhile i userId reason s = (res, s')"
  proof (cases "returnToReviewCheck env i s")
    case (Inr y)
    obtain st ord s1 where y: "y = ((st, ord), s1)" by (metis prod.exhaust)
    have x: "run_once meanwhile (returnToReviewTx env st ord userId reason) s = (res, s')"
      using run Inr y by (simp add: returnToReview_def)
    show ?thesis by (rule settling.done_once[OF ok w _ x]) (rule guarantee_trans, assumption, rule return_tx_guarantee[OF settlements_okD(1)])
  qed (use run in \<open>simp add: returnToReview_def\<close>)
qed

lemma guarantee_then: "guarantee s s1 \<Longrightarrow> (settlements_ok s1 \<Longrightarrow> guarantee s1 s2) \<Longrightarrow> guarantee s s2"
  using guarantee_trans[of s s1 s2] by (auto simp: guarantee_def)

lemma settlement_run_guarantee: "settlement_run s s' \<Longrightarrow> guarantee s s'"
proof (induction rule: settlement_run.induct)
  case (create s s1 w to_number env comms orderId org userId res s2)
  then show ?case by (blast intro: guarantee_then operations_guarantee(1))
next
  case (customer s s1 w env comms i userId member role actorRole res s2)
  then show ?case by (blast intro: guarantee_then operations_guarantee(2))
next
  case (admin s s1 w to_number env comms i reason userId role res s2)
  then show ?case by (blast intro: guarantee_then operations_guarantee(3))
next
  case (force s s1 w to_number env comms i reason userId role res s2)
  then show ?case by (blast intro: guarantee_then operations_guarantee(4))
next
  case (cancel s s1 meanwhile env i userId reason cres s2)
  then show ?case by (blast intro: guarantee_then decisions_guarantee(1))
next
  case (take_back s s1 meanwhile env i userId reason cres s2)
  then show ?case by (blast intro: guarantee_then decisions_guarantee(2))
next
  case (auto_approve s s1 weathers env batchSize now ares s2)
  show ?case
    using auto_approve(3) by (intro guarantee_then[OF auto_approve.IH(1)])
      (auto simp: runSettlementAutoApprove_def Let_def intro: approveRows_guarantee[OF auto_approve.IH(2)])
next
  case (auto_release s s1 weathers env batchSize now rres s2)
  show ?case
    using auto_release(3) by (intro guarantee_then[OF auto_release.IH(1)])
      (auto simp: runSettlementAutoRelease_def Let_def intro: releaseRows_guarantee[OF auto_release.IH(2)])
next
  case (elsewhere s s1 s2)
  then show ?case by (blast intro: guarantee_then same_guarantee)
qed simp

end
