(* ===== verification/Settlement_History.thy ===== *)
theory Settlement_History
  imports Settlement_System
begin

text \<open>
  Histories of the settlements: the transactions of the service and of the sweeps as they commit, each
  working on what the checks of its operation have read in some earlier database of the history,
  with the move every one of them makes.  The moves are replayed by an abstract lifecycle that
  knows nothing but the phases.
\<close>

section \<open>The moves and their meaning\<close>

datatype settlement_move = Make | Agree | PayOut | TakeBack | CallOff

type_synonym move_trace = "(string \<times> settlement_move) list"

text \<open>The phase a move leads to, or none where it is not allowed; a cancelled settlement may be cancelled again.\<close>

fun after_move :: "settlement_move \<Rightarrow> phase option \<Rightarrow> phase option" where
  "after_move Make None = Some InReview"
| "after_move Agree (Some InReview) = Some CustomerApproved"
| "after_move PayOut (Some CustomerApproved) = Some PaidOut"
| "after_move TakeBack (Some CustomerApproved) = Some InReview"
| "after_move CallOff (Some InReview) = Some Cancelled"
| "after_move CallOff (Some CustomerApproved) = Some Cancelled"
| "after_move CallOff (Some Cancelled) = Some Cancelled"
| "after_move _ _ = None"

fun replay :: "move_trace \<Rightarrow> (string \<Rightarrow> phase option) \<Rightarrow> (string \<Rightarrow> phase option) option" where
  "replay [] m = Some m"
| "replay ((i, a) # tr) m = (case after_move a (m i) of None \<Rightarrow> None | Some p \<Rightarrow> replay tr (m(i \<mapsto> p)))"

lemma replay_append: "replay (tr @ tr') m = Option.bind (replay tr m) (replay tr')"
proof (induction tr arbitrary: m)
  case (Cons x tr)
  obtain i a where x: "x = (i, a)" by (cases x)
  show ?case by (cases "after_move a (m i)") (simp_all add: x Cons.IH del: fun_upd_apply)
qed simp

text \<open>What a trace that can be replayed says of one settlement.\<close>

lemma replay_untouched: "replay tr m = Some m' \<Longrightarrow> i \<notin> fst ` set tr \<Longrightarrow> m' i = m i"
proof (induction tr arbitrary: m)
  case (Cons x tr)
  then show ?case by (cases x) (auto split: option.splits)
qed simp

lemma after_move_agreed: "after_move a p = Some CustomerApproved \<longleftrightarrow> a = Agree \<and> p = Some InReview"
  by (cases "(a, p)" rule: after_move.cases) auto

lemma after_move_paid: "after_move a (Some PaidOut) = None"
  by (cases a) auto

lemma paid_no_more: "replay tr m = Some m' \<Longrightarrow> m i = Some PaidOut \<Longrightarrow> i \<notin> fst ` set tr"
proof (induction tr arbitrary: m)
  case (Cons x tr)
  obtain j a where x: "x = (j, a)" by (cases x)
  then obtain p where p: "after_move a (m j) = Some p" "replay tr (m(j \<mapsto> p)) = Some m'"
    using Cons.prems(1) by (auto split: option.splits)
  have "j \<noteq> i" using p(1) Cons.prems(2) by (auto simp: after_move_paid)
  then show ?case using Cons.IH[OF p(2)] Cons.prems(2) x by simp
qed simp

lemma agreed_before:
  "replay tr m = Some m' \<Longrightarrow> m' i = Some CustomerApproved \<Longrightarrow>
     (\<exists>b1 b2. tr = b1 @ (i, Agree) # b2 \<and> i \<notin> fst ` set b2) \<or> m i = Some CustomerApproved \<and> i \<notin> fst ` set tr"
proof (induction tr arbitrary: m' rule: rev_induct)
  case Nil
  then show ?case by simp
next
  case (snoc x tr)
  obtain j a where x: "x = (j, a)" by (cases x)
  obtain m1 where m1: "replay tr m = Some m1" "replay [(j, a)] m1 = Some m'"
    using snoc.prems(1) by (auto simp: replay_append x bind_eq_Some_conv)
  then obtain p where p: "after_move a (m1 j) = Some p" "m' = m1(j \<mapsto> p)" by (auto split: option.splits)
  show ?case
  proof (cases "j = i")
    case True
    then have "a = Agree" using p snoc.prems(2) by (auto simp: after_move_agreed)
    then show ?thesis using True x by (intro disjI1 exI[of _ tr] exI[of _ "[]"]) simp
  next
    case False
    then have "m1 i = Some CustomerApproved" using p(2) snoc.prems(2) by simp
    from snoc.IH[OF m1(1) this] show ?thesis
    proof (elim disjE exE conjE)
      fix b1 b2 assume "tr = b1 @ (i, Agree) # b2" "i \<notin> fst ` set b2"
      then show ?thesis using False x by (intro disjI1 exI[of _ b1] exI[of _ "b2 @ [x]"]) simp
    qed (use False x in simp)
  qed
qed

lemma paid_once_agreed:
  assumes "replay (before @ (i, PayOut) # rest) m = Some m'"
  shows "i \<notin> fst ` set rest
    \<and> ((\<exists>b1 b2. before = b1 @ (i, Agree) # b2 \<and> i \<notin> fst ` set b2) \<or> m i = Some CustomerApproved \<and> i \<notin> fst ` set before)"
proof -
  obtain m1 p where m1: "replay before m = Some m1" "after_move PayOut (m1 i) = Some p" "replay rest (m1(i \<mapsto> p)) = Some m'"
    using assms by (auto simp: replay_append bind_eq_Some_conv split: option.splits)
  have "m1 i = Some CustomerApproved \<and> p = PaidOut"
    using m1(2) by (cases "(PayOut, m1 i)" rule: after_move.cases) auto
  then show ?thesis
    using paid_no_more[OF m1(3), of i] agreed_before[OF m1(1), of i] by simp
qed

section \<open>Histories\<close>

text \<open>A gated transaction that was refused makes no move.\<close>

definition passed_move :: "'a gated \<Rightarrow> ('a \<Rightarrow> string \<times> settlement_move) \<Rightarrow> move_trace" where
  "passed_move g f = (case g of Passed x \<Rightarrow> [f x] | GateBlocked reasons key \<Rightarrow> [])"

text \<open>
  One transaction commits on a database, after the checks of its operation have passed on one of those
  seen before.  The sweeps check again in their transactions, whatever row they were given.
\<close>

inductive commits :: "db set \<Rightarrow> db \<Rightarrow> move_trace \<Rightarrow> db \<Rightarrow> bool" for seen :: "db set" where
  create: "u \<in> seen \<Longrightarrow> createSettlementCheck env orderId org userId u = (Inr ord, u') \<Longrightarrow>
     createSettlementTx to_number env orderId org userId ord s = Inr (cg, s') \<Longrightarrow>
     commits seen s (passed_move cg (\<lambda>st. (s_id st, Make))) s'"
| customer: "u \<in> seen \<Longrightarrow> customerApproveCheck env i userId org actorRole u = Inr ((st, ord), u') \<Longrightarrow>
     customerApproveTx env st ord userId org role s = Inr (cg, s') \<Longrightarrow>
     commits seen s (passed_move cg (\<lambda>_. (i, Agree))) s'"
| admin: "u \<in> seen \<Longrightarrow> adminApproveCheck env i u = Inr ((st, ord), u') \<Longrightarrow>
     adminApproveTx to_number env comms st ord reason userId role s = Inr (ag, s') \<Longrightarrow>
     commits seen s (passed_move ag (\<lambda>_. (i, PayOut))) s'"
| force: "u \<in> seen \<Longrightarrow> forceApproveCheck env i u = Inr ((st, ord), u') \<Longrightarrow>
     forceApproveTx to_number env comms st ord reason userId role s = Inr (ag, s') \<Longrightarrow>
     commits seen s (passed_move ag (\<lambda>_. (i, if s_status st = ''CUSTOMER_APPROVED'' then PayOut else Agree))) s'"
| cancel: "u \<in> seen \<Longrightarrow> cancelSettlementCheck env i u = Inr ((st, ord), u') \<Longrightarrow>
     cancelSettlementTx env st ord userId reason s = Inr (x, s') \<Longrightarrow> commits seen s [(i, CallOff)] s'"
| take_back: "u \<in> seen \<Longrightarrow> returnToReviewCheck env i u = Inr ((st, ord), u') \<Longrightarrow>
     returnToReviewTx env st ord userId reason s = Inr (x, s') \<Longrightarrow> commits seen s [(i, TakeBack)] s'"
| auto_approve: "autoApproveTx env st ord s = Inr (ao, s') \<Longrightarrow>
     commits seen s (if ao_committed ao then [(s_id st, Agree)] else []) s'"
| auto_release: "autoReleaseTx env now st ord s = Inr (ro, s') \<Longrightarrow>
     commits seen s (if ro = Released then [(s_id st, PayOut)] else []) s'"
| elsewhere: "settlements s' = settlements s \<Longrightarrow> approvals s' = approvals s \<Longrightarrow> releases_of s' = releases_of s \<Longrightarrow>
     (db_wf s \<longrightarrow> db_wf s') \<Longrightarrow> commits seen s [] s'"

inductive settlement_history :: "db \<Rightarrow> db set \<Rightarrow> move_trace \<Rightarrow> db \<Rightarrow> bool" for s :: db where
  start: "settlement_history s {s} [] s"
| commit: "settlement_history s seen tr t \<Longrightarrow> commits seen t moves t' \<Longrightarrow> settlement_history s (insert t' seen) (tr @ moves) t'"

text \<open>A settlement that has been moved has been replayed.\<close>

lemma replay_moved:
  assumes "settlement_moved i old f s s'" "\<And>r. s_id (f r) = s_id r" "after_move a (Some (phase_of old)) = Some (phase_of (f old))"
  shows "replay [(i, a)] (phases s) = Some (phases s')"
  using assms(3) by (simp add: moved_phases[OF assms(1,2)])

lemma phases_of_status:
  "in_review r \<Longrightarrow> phase_of r = InReview" "s_status r = ''CUSTOMER_APPROVED'' \<Longrightarrow> phase_of r = CustomerApproved"
  "s_status r = ''RELEASED'' \<Longrightarrow> phase_of r = PaidOut" "s_status r = ''CANCELLED'' \<Longrightarrow> phase_of r = Cancelled"
  by (simp_all add: phase_of_def in_review_def)

lemma phases_same: "settlements s' = settlements s \<Longrightarrow> phases s' = phases s"
  by (simp add: phases_def find_settlement_def)

text \<open>The row the checks return has the id that was asked for.\<close>

lemma checked_id:
  "settlement_with_order i s = Inr ((st, ord), s') \<Longrightarrow> s_id st = i"
  by (auto simp: settlement_with_order_def tx_simps dest: found_settlement split: option.splits)

lemma checks_id:
  "customerApproveCheck env i userId org actorRole s = Inr ((st, ord), s') \<Longrightarrow> s_id st = i"
  "adminApproveCheck env i s = Inr ((st, ord), s') \<Longrightarrow> s_id st = i"
  "forceApproveCheck env i s = Inr ((st, ord), s') \<Longrightarrow> s_id st = i"
  "cancelSettlementCheck env i s = Inr ((st, ord), s') \<Longrightarrow> s_id st = i"
  "returnToReviewCheck env i s = Inr ((st, ord), s') \<Longrightarrow> s_id st = i"
  unfolding customerApproveCheck_def adminApproveCheck_def forceApproveCheck_def cancelSettlementCheck_def returnToReviewCheck_def
  by (auto simp: tx_simps dest!: checked_id)

lemma gate_replay:
  assumes "gateSettlement env i k s = Inr (g, s')" "\<And>x. g = Passed x \<Longrightarrow> replay [f x] (phases s) = Some (phases s')"
  shows "replay (passed_move g f) (phases s) = Some (phases s')"
  using assms(1)
proof (cases rule: gateSettlement_Inr)
  case (refused reasons key)
  then have "phases s' = phases s" by (intro phases_same) (simp add: same_books_def)
  then show ?thesis by (simp add: refused(1) passed_move_def)
next
  case (through l r v x)
  then show ?thesis using assms(2)[of x] by (simp add: passed_move_def)
qed

lemma release_replay:
  assumes "released_by_staff env st userId netted s s'"
  shows "replay [(s_id st, PayOut)] (phases s) = Some (phases s')"
proof -
  obtain old where "s_status old = ''CUSTOMER_APPROVED''"
      "settlement_moved (s_id st) old (\<lambda>x. released_row env (move_settlement env ''ADMIN_APPROVED'' x)) s s'"
    using assms by (auto simp: released_by_staff_def)
  from replay_moved[OF this(2)] this(1) show ?thesis by (simp add: released_row_def phases_of_status)
qed

lemma create_replay:
  assumes "createSettlementTx to_number env orderId org userId ord s = Inr (g, s')"
  shows "replay (passed_move g (\<lambda>st. (s_id st, Make))) (phases s) = Some (phases s')"
proof (rule gate_replay[OF assms[unfolded createSettlementTx_def]])
  fix st assume "g = Passed st"
  then have "created_between env orderId st s s'" using createSettlementTx_Inr assms by blast
  then show "replay [(s_id st, Make)] (phases s) = Some (phases s')" by (simp add: created_phases)
qed

lemma customer_replay:
  assumes wf: "db_wf s" and run: "customerApproveTx env st ord userId org role s = Inr (g, s')"
  shows "replay (passed_move g (\<lambda>_. (s_id st, Agree))) (phases s) = Some (phases s')"
proof (rule gate_replay[OF run[unfolded customerApproveTx_def]])
  fix x assume "g = Passed x"
  then obtain old where o: "in_review old"
    "settlement_moved (s_id st) old (\<lambda>r. (move_settlement env ''CUSTOMER_APPROVED'' r)\<lparr>s_currency := ''USD''\<rparr>) s s'"
    using customerApproveTx_Inr[OF wf] run by metis
  from replay_moved[OF o(2)] o(1) show "replay [(s_id st, Agree)] (phases s) = Some (phases s')"
    by (simp add: phases_of_status)
qed

lemma admin_replay:
  assumes wf: "db_wf s" and st: "0 \<le> s_publisherAmount st"
    and run: "adminApproveTx to_number env comms st ord reason userId role s = Inr (g, s')"
  shows "replay (passed_move g (\<lambda>_. (s_id st, PayOut))) (phases s) = Some (phases s')"
proof (rule gate_replay[OF run[unfolded adminApproveTx_def]])
  fix x assume "g = Passed x"
  then show "replay [(s_id st, PayOut)] (phases s) = Some (phases s')"
    using adminApproveTx_Inr[OF wf st] run release_replay by metis
qed

lemma force_replay:
  assumes wf: "db_wf s" and st: "0 \<le> s_publisherAmount st" "s_status st \<in> {''PENDING'', ''UNDER_REVIEW'', ''CUSTOMER_APPROVED''}"
    and run: "forceApproveTx to_number env comms st ord reason userId role s = Inr (g, s')"
  shows "replay (passed_move g (\<lambda>_. (s_id st, if s_status st = ''CUSTOMER_APPROVED'' then PayOut else Agree))) (phases s) = Some (phases s')"
proof (rule gate_replay[OF run[unfolded forceApproveTx_def Let_def]])
  fix x assume g: "g = Passed x"
  from wf st(1) run[unfolded g]
  show "replay [(s_id st, if s_status st = ''CUSTOMER_APPROVED'' then PayOut else Agree)] (phases s) = Some (phases s')"
  proof (cases rule: forceApproveTx_Inr)
    case (release netted)
    then show ?thesis using release_replay by simp
  next
    case customer
    then obtain old where o: "s_status old = s_status st" "settlement_moved (s_id st) old (move_settlement env ''CUSTOMER_APPROVED'') s s'"
      unfolding forced_for_customer_def by blast
    have "in_review old" using o(1) customer(1) st(2) by (auto simp: in_review_def)
    with replay_moved[OF o(2)] customer(1) show ?thesis by (simp add: phases_of_status)
  qed
qed

lemma cancel_replay:
  assumes wf: "db_wf s" and st: "read_before st s" "s_status st \<noteq> ''RELEASED''"
    and run: "cancelSettlementTx env st ord userId reason s = Inr (x, s')"
  shows "replay [(s_id st, CallOff)] (phases s) = Some (phases s')"
proof -
  obtain old where o: "s_version old = s_version st" "settlement_moved (s_id st) old (move_settlement env ''CANCELLED'') s s'"
    by (rule cancelSettlementTx_Inr[OF wf run])
  have "old = st" using read_version[OF st(1) wf _ o(1)] o(2) by (simp add: settlement_moved_def)
  then have "phase_of old \<noteq> PaidOut" using st(2) by (simp add: phase_of_def)
  then have "after_move CallOff (Some (phase_of old)) = Some Cancelled" by (cases "phase_of old") simp_all
  with replay_moved[OF o(2)] show ?thesis by (simp add: phases_of_status)
qed

lemma return_replay:
  assumes wf: "db_wf s" and run: "returnToReviewTx env st ord userId reason s = Inr (x, s')"
  shows "replay [(s_id st, TakeBack)] (phases s) = Some (phases s')"
proof -
  obtain old where o: "s_status old = ''CUSTOMER_APPROVED''" "settlement_moved (s_id st) old (move_settlement env ''UNDER_REVIEW'') s s'"
    by (rule returnToReviewTx_Inr[OF wf run])
  from replay_moved[OF o(2)] o(1) show ?thesis by (simp add: phases_of_status in_review_def)
qed

lemma auto_approve_replay:
  assumes wf: "db_wf s" and run: "autoApproveTx env st ord s = Inr (ao, s')"
  shows "replay (if ao_committed ao then [(s_id st, Agree)] else []) (phases s) = Some (phases s')"
proof (cases "ao_committed ao")
  case True
  then obtain fresh where g: "approved_between env st s s' fresh" using autoApproveTx_Inr[OF wf run] by auto
  then have "map_option s_status (find_settlement (s_id st) s') \<noteq> map_option s_status (find_settlement (s_id st) s)"
    by (auto simp: approved_between_def in_review_def)
  then have "settlements s' \<noteq> settlements s" by (auto simp: find_settlement_def)
  then obtain old where o: "in_review old" "settlement_moved (s_id st) old (\<lambda>r. r\<lparr>s_status := ''CUSTOMER_APPROVED'', s_currency := ''USD'',
      s_version := s_version r + 1, s_updatedAt := env_now env\<rparr>) s s'"
    using autoApproveTx_swept[OF wf run] unfolding swept_def by blast
  from replay_moved[OF o(2)] o(1) True show ?thesis by (simp add: phases_of_status)
next
  case False
  then have "settlements s' = settlements s" using autoApproveTx_Inr[OF wf run] by simp
  from phases_same[OF this] show ?thesis using False by simp
qed

lemma auto_release_replay:
  assumes wf: "db_wf s" and run: "autoReleaseTx env now st ord s = Inr (ro, s')"
  shows "replay (if ro = Released then [(s_id st, PayOut)] else []) (phases s) = Some (phases s')"
proof (cases "ro = Released")
  case True
  then obtain g where g: "released_between env now st s s' g" using autoReleaseTx_Inr[OF wf run] by auto
  have "map_option s_status (find_settlement (s_id st) s') \<noteq> map_option s_status (find_settlement (s_id st) s)"
    using g by (auto simp: released_between_def Let_def)
  then have "settlements s' \<noteq> settlements s" by (auto simp: find_settlement_def)
  then obtain old where o: "s_status old = ''CUSTOMER_APPROVED''" "settlement_moved (s_id st) old (\<lambda>r. r\<lparr>s_status := ''RELEASED'', s_currency := ''USD'',
      s_settledAt := Some (case now of None \<Rightarrow> env_now env | Some t \<Rightarrow> t), s_version := s_version r + 1, s_updatedAt := env_now env\<rparr>) s s'"
    using autoReleaseTx_swept[OF wf run] unfolding swept_def by blast
  from replay_moved[OF o(2)] o(1) True show ?thesis by (simp add: phases_of_status)
next
  case False
  then have "settlements s' = settlements s" using autoReleaseTx_Inr[OF wf run] by (simp add: same_books_def)
  from phases_same[OF this] show ?thesis using False by simp
qed

text \<open>Every commit makes exactly its move.\<close>

lemma commits_replayed:
  assumes run: "commits seen s moves s'" and ok: "settlements_ok s"
    and read: "\<And>u st. u \<in> seen \<Longrightarrow> st \<in> set (settlements u) \<Longrightarrow> read_before st s"
  shows "guarantee s s' \<and> replay moves (phases s) = Some (phases s')"
proof -
  note wf = settlements_okD(1)[OF ok]
  have pos: "read_before st s \<Longrightarrow> 0 \<le> s_publisherAmount st" for st by (simp add: read_before_def)
  from run show ?thesis
  proof cases
    case (create u env orderId org userId ord u' to_number cg)
    show ?thesis unfolding create(1) using create_tx_guarantee[OF create(4)] create_replay[OF create(4)] ..
  next
    case (customer u env i userId org actorRole st ord u' role cg)
    show ?thesis
      unfolding customer(1) checks_id(1)[OF customer(3), symmetric]
      using customer_tx_guarantee[OF wf customer(4)] customer_replay[OF wf customer(4)] ..
  next
    case (admin u env i st ord u' to_number comms reason userId role ag)
    have b: "read_before st s" by (rule read[OF admin(2) checks_read(2)[OF admin(3)]])
    show ?thesis
      unfolding admin(1) checks_id(2)[OF admin(3), symmetric]
      using admin_tx_guarantee[OF wf b admin(4)] admin_replay[OF wf pos[OF b] admin(4)] ..
  next
    case (force u env i st ord u' to_number comms reason userId role ag)
    note c = checks_read(3)[OF force(3)]
    have b: "read_before st s" by (rule read[OF force(2) conjunct1[OF c]])
    show ?thesis
      unfolding force(1) checks_id(3)[OF force(3), symmetric]
      using force_tx_guarantee[OF wf b conjunct2[OF c] force(4)] force_replay[OF wf pos[OF b] conjunct2[OF c] force(4)] ..
  next
    case (cancel u env i st ord u' userId reason x)
    note c = checks_read(4)[OF cancel(3)]
    have b: "read_before st s" by (rule read[OF cancel(2) conjunct1[OF c]])
    show ?thesis
      unfolding cancel(1) checks_id(4)[OF cancel(3), symmetric]
      using cancel_tx_guarantee[OF wf b conjunct2[OF c] cancel(4)] cancel_replay[OF wf b conjunct2[OF c] cancel(4)] ..
  next
    case (take_back u env i st ord u' userId reason x)
    show ?thesis
      unfolding take_back(1) checks_id(5)[OF take_back(3), symmetric]
      using return_tx_guarantee[OF wf take_back(4)] return_replay[OF wf take_back(4)] ..
  next
    case (auto_approve env st ord ao)
    show ?thesis unfolding auto_approve(1) using approve_tx_guarantee[OF wf auto_approve(2)] auto_approve_replay[OF wf auto_approve(2)] ..
  next
    case (auto_release env now st ord ro)
    show ?thesis unfolding auto_release(1) using release_tx_guarantee[OF wf auto_release(2)] auto_release_replay[OF wf auto_release(2)] ..
  next
    case elsewhere
    have "guarantee s s'" by (rule same_guarantee[OF elsewhere(2-4)]) (use elsewhere(5) in blast)
    then show ?thesis unfolding elsewhere(1) using phases_same[OF elsewhere(2)] by simp
  qed
qed

lemma history_replayed:
  assumes "settlement_history s seen tr t" "settlements_ok s"
  shows "settlements_ok t \<and> (\<forall>u \<in> seen. settlements_ok u \<and> guarantee u t) \<and> replay tr (phases s) = Some (phases t)"
  using assms
proof (induction rule: settlement_history.induct)
  case (commit seen tr t moves t')
  then have IH: "settlements_ok t" "\<And>u. u \<in> seen \<Longrightarrow> settlements_ok u \<and> guarantee u t" "replay tr (phases s) = Some (phases t)" by blast+
  have "guarantee t t' \<and> replay moves (phases t) = Some (phases t')"
    by (rule commits_replayed[OF commit(2) IH(1)]) (use IH(2) read_before in blast)
  moreover from this have "settlements_ok t'" using IH(1) by (simp add: guarantee_def)
  ultimately show ?case using IH guarantee_trans by (auto simp: replay_append)
qed simp

section \<open>Whole operations are histories\<close>

text \<open>
  What an operation, with its retries, does in a weather that is made of histories is a history: the
  contract of rely and guarantee holds of histories that have seen their start.
\<close>

lemma commits_mono: "commits seen s moves s' \<Longrightarrow> seen \<subseteq> wider \<Longrightarrow> commits wider s moves s'"
  by (induction rule: commits.induct) (blast intro: commits.intros)+

lemma history_seen: "settlement_history s seen tr t \<Longrightarrow> s \<in> seen \<and> t \<in> seen"
  by (induction rule: settlement_history.induct) auto

lemma history_append:
  assumes "settlement_history t seen' tr' u" "settlement_history s seen tr t"
  shows "settlement_history s (seen \<union> seen') (tr @ tr') u"
  using assms
proof (induction rule: settlement_history.induct)
  case start
  then show ?case using history_seen[OF start] by (simp add: insert_absorb)
next
  case (commit seen' tr' u moves u')
  have "commits (seen \<union> seen') u moves u'" by (rule commits_mono[OF commit(2)]) blast
  then show ?case using settlement_history.commit[OF commit.IH[OF commit.prems]] by simp
qed

definition happens :: "db \<Rightarrow> db \<Rightarrow> bool" where
  "happens s t \<longleftrightarrow> (\<exists>seen tr. settlement_history s seen tr t)"

lemma happens_refl [simp]: "happens s s"
  unfolding happens_def by (blast intro: settlement_history.start)

lemma happens_trans: "happens s t \<Longrightarrow> happens t u \<Longrightarrow> happens s u"
  unfolding happens_def using history_append by blast

lemma happens_then: "happens s t \<Longrightarrow> commits {s} t moves t' \<Longrightarrow> happens s t'"
  unfolding happens_def by (meson commits_mono history_seen empty_subsetI insert_subset settlement_history.commit)

interpretation happening: rely_guarantee "\<lambda>_. True" happens
  by unfold_locales (simp, rule happens_trans, simp_all)

text \<open>A transaction that commits later than its checks, in a weather of histories, is one more commit.\<close>

lemma gated_happens:
  assumes "\<And>n t. happens t (fst (w n) t)" "\<And>t x t'. op t = Inr (x, t') \<Longrightarrow> \<exists>moves. commits {s} t moves t'"
    and "runGated comms w op s = (r, s')"
  shows "happens s s'"
  by (rule happening.gated[OF TrueI assms(1) _ assms(3)]) (use assms(2) happens_then in blast)

lemma once_happens:
  assumes "\<And>t. happens t (meanwhile t)" "\<And>t x t'. op t = Inr (x, t') \<Longrightarrow> \<exists>moves. commits {s} t moves t'"
    and "run_once meanwhile op s = (r, s')"
  shows "happens s s'"
  by (rule happening.done_once[OF TrueI assms(1) _ assms(3)]) (use assms(2) happens_then in blast)

lemma serialized_happens:
  assumes "\<And>n t. happens t (fst (w n) t)" "\<And>t x t'. op t = Inr (x, t') \<Longrightarrow> \<exists>moves. commits {s} t moves t'"
    and "runSerializableTransactionWithRetry w op s = (r, s')"
  shows "happens s s'"
  by (rule happening.serialized[OF TrueI assms(1) _ assms(3)]) (use assms(2) happens_then in blast)

lemma afterRelease_happens:
  assumes "\<And>n t. happens t (fst (w n) t)" "\<And>t x t'. op t = Inr (x, t') \<Longrightarrow> \<exists>moves. commits {s} t moves t'"
    and "afterRelease comms st ord (runGated comms' w op s) = (r, s')"
  shows "happens s s'"
proof -
  obtain x where "runGated comms' w op s = (x, s')" using afterRelease_state[OF assms(3)] by (metis prod.exhaust snd_conv)
  with assms(1,2) show ?thesis by (rule gated_happens)
qed

lemma create_happens:
  assumes w: "\<And>n t. happens t (fst (w n) t)" and run: "createSettlement to_number env comms w orderId org userId s = (res, s')"
  shows "happens s s'"
proof -
  obtain c s1 where c: "createSettlementCheck env orderId org userId s = (c, s1)"
    by (cases "createSettlementCheck env orderId org userId s")
  show ?thesis
  proof (cases c)
    case (Inl m)
    have e: "s1 = s\<lparr>audit_logs := audit_logs s1\<rparr>"
      using c by (auto simp: createSettlementCheck_def Let_def audit_log_Inr split: sum.splits option.splits if_splits prod.splits)
    have "commits {s} s [] s1" by (rule commits.elsewhere) (subst e, simp add: db_wf_def releases_of_def)+
    then show ?thesis using run c Inl happens_then[OF happens_refl] by (simp add: createSettlement_def)
  next
    case (Inr ord)
    then have "s1 = s" using c by (auto simp: createSettlementCheck_def Let_def split: sum.splits option.splits if_splits prod.splits)
    then have "createSettlementCheck env orderId org userId s = (Inr ord, s)"
      "runGated comms w (createSettlementTx to_number env orderId org userId ord) s = (res, s')"
      using run c Inr by (simp_all add: createSettlement_def)
    then show ?thesis by (elim gated_happens[OF w, rotated]) (blast intro: commits.create)
  qed
qed

lemma service_happens:
  assumes w: "\<And>n t. happens t (fst (w n) t)"
  shows "customerApprove env comms w i userId member role actorRole s = (res, s') \<Longrightarrow> happens s s'"
    "adminApprove to_number env comms w i reason userId role s = (res, s') \<Longrightarrow> happens s s'"
    "forceApprove to_number env comms w i reason userId role s = (res, s') \<Longrightarrow> happens s s'"
  unfolding customerApprove_def adminApprove_def forceApprove_def
  by (auto split: sum.splits prod.splits elim!: gated_happens[OF w, rotated] afterRelease_happens[OF w, rotated]
      intro: commits.customer commits.admin commits.force)

lemma decision_happens:
  assumes w: "\<And>t. happens t (meanwhile t)"
  shows "cancelSettlement env meanwhile i userId reason s = (res, s') \<Longrightarrow> happens s s'"
    "returnToReview env meanwhile i userId reason s = (res, s') \<Longrightarrow> happens s s'"
  unfolding cancelSettlement_def returnToReview_def
  by (auto split: sum.splits prod.splits elim!: once_happens[OF w, rotated] intro: commits.cancel commits.take_back)

lemma sweep_happens:
  assumes w: "\<And>j n t. happens t (fst (weathers j n) t)"
  shows "approveRows env weathers j rows acc s = (res, s') \<Longrightarrow> happens s s'"
    "releaseRows env now weathers j rows acc' s = (res', s') \<Longrightarrow> happens s s'"
proof (induction rows arbitrary: j acc acc' s)
  case (Cons p rest)
  obtain st ord where p: "p = (st, ord)" by (cases p)
  {
    case 1
    obtain out s1 where o: "runSerializableTransactionWithRetry (weathers j) (autoApproveTx env st ord) s = (out, s1)"
      by (cases "runSerializableTransactionWithRetry (weathers j) (autoApproveTx env st ord) s")
    have "happens s s1" by (rule serialized_happens[OF w _ o]) (blast intro: commits.auto_approve)
    moreover have "happens s1 s'" using Cons.IH(1) 1 by (simp add: p o)
    ultimately show ?case by (rule happens_trans)
  next
    case 2
    obtain out s1 where o: "runSerializableTransactionWithRetry (weathers j) (autoReleaseTx env now st ord) s = (out, s1)"
      by (cases "runSerializableTransactionWithRetry (weathers j) (autoReleaseTx env now st ord) s")
    have "happens s s1" by (rule serialized_happens[OF w _ o]) (blast intro: commits.auto_release)
    moreover have "happens s1 s'" using Cons.IH(2) 2 by (simp add: p o)
    ultimately show ?case by (rule happens_trans)
  }
qed simp_all

lemma settlement_run_happens: "settlement_run s s' \<Longrightarrow> happens s s'"
proof (induction rule: settlement_run.induct)
  case (create s s1 w to_number env comms orderId org userId res s2)
  show ?case by (rule happens_trans[OF create.IH(1) create_happens[OF create.IH(2) create.hyps(3)]])
next
  case (customer s s1 w env comms i userId member role actorRole res s2)
  show ?case by (rule happens_trans[OF customer.IH(1) service_happens(1)[OF customer.IH(2) customer.hyps(3)]])
next
  case (admin s s1 w to_number env comms i reason userId role res s2)
  show ?case by (rule happens_trans[OF admin.IH(1) service_happens(2)[OF admin.IH(2) admin.hyps(3)]])
next
  case (force s s1 w to_number env comms i reason userId role res s2)
  show ?case by (rule happens_trans[OF force.IH(1) service_happens(3)[OF force.IH(2) force.hyps(3)]])
next
  case (cancel s s1 meanwhile env i userId reason cres s2)
  show ?case by (rule happens_trans[OF cancel.IH(1) decision_happens(1)[OF cancel.IH(2) cancel.hyps(3)]])
next
  case (take_back s s1 meanwhile env i userId reason cres s2)
  show ?case by (rule happens_trans[OF take_back.IH(1) decision_happens(2)[OF take_back.IH(2) take_back.hyps(3)]])
next
  case (auto_approve s s1 weathers env batchSize now ares s2)
  show ?case
    using auto_approve.hyps(3) by (intro happens_trans[OF auto_approve.IH(1)])
      (auto simp: runSettlementAutoApprove_def Let_def intro: sweep_happens(1)[OF auto_approve.IH(2)])
next
  case (auto_release s s1 weathers env batchSize now rres s2)
  show ?case
    using auto_release.hyps(3) by (intro happens_trans[OF auto_release.IH(1)])
      (auto simp: runSettlementAutoRelease_def Let_def intro: sweep_happens(2)[OF auto_release.IH(2)])
next
  case (elsewhere s s1 s2)
  then show ?case using happens_then commits.elsewhere by blast
qed simp

end
