(* ===== verification/Settlement_Properties.thy ===== *)
theory Settlement_Properties
  imports Settlement_History
begin

text \<open>
  What the settlement service achieves, on one transaction and over any run of its operations, with
  a delivered order whose settlement the customer has approved as the example.
\<close>

section \<open>The example\<close>

text \<open>The end of the warranty as the cancellation policy reads it.\<close>

definition warranty_input :: "order_row \<Rightarrow> date_input" where
  "warranty_input r = (case o_warrantyEndsAt r of None \<Rightarrow> NoDate | Some t \<Rightarrow> DateOf (Some t))"


definition customer_approval :: approval_row where
  "customer_approval = \<lparr>a_settlementId = ''t1'', a_type = ''CUSTOMER'', a_approvedBy = ''u1'', a_roleAtTime = ''OWNER'',
     a_id = ''a1'', a_approvedAt = 90000000\<rparr>"

definition agreed_db :: db where
  "agreed_db = example_db\<lparr>approvals := [customer_approval]\<rparr>"

definition staff_release :: "approval_done gated \<times> db" where
  "staff_release = projr (adminApproveTx (\<lambda>_. None) example_env False example_settlement example_order ''reviewed'' ''f1'' ''FINANCE'' agreed_db)"

definition released_done :: approval_done where
  "released_done = (case fst staff_release of Passed x \<Rightarrow> x | GateBlocked a b \<Rightarrow> undefined)"

lemma agreed_wf: "db_wf agreed_db"
  by (simp add: db_wf_def agreed_db_def example_defs)

lemma agreed_ok: "settlements_ok agreed_db"
  by (simp add: settlements_ok_def approvals_wf_def row_ok_def one_active_def phase_of_def in_review_def approval_given_def
      releases_of_def paid_amounts_def db_wf_def agreed_db_def customer_approval_def example_defs)

lemma agreed_found: "example_settlement \<in> set (settlements agreed_db)" "find_settlement ''t1'' agreed_db = Some example_settlement"
  by (simp_all add: agreed_db_def example_defs find_settlement_def)

lemma staff_release_run:
  "case adminApproveTx (\<lambda>_. None) example_env False example_settlement example_order ''reviewed'' ''f1'' ''FINANCE'' agreed_db of
     Inl e \<Rightarrow> False
   | Inr (GateBlocked a b, s) \<Rightarrow> False
   | Inr (Passed x, s) \<Rightarrow> s_status (ad_settlement x) = ''RELEASED'' \<and> paid_amounts ''t1'' s = [200 * CENT]"
  by code_simp

lemma staff_release_done:
  "adminApproveTx (\<lambda>_. None) example_env False example_settlement example_order ''reviewed'' ''f1'' ''FINANCE'' agreed_db
     = Inr (Passed released_done, snd staff_release)" "s_status (ad_settlement released_done) = ''RELEASED''"
  "paid_amounts ''t1'' (snd staff_release) = [200 * CENT]"
  using staff_release_run
  by (auto simp: released_done_def staff_release_def split: sum.splits prod.splits gated.splits)

section \<open>Runs\<close>

text \<open>The administrator's approval of the example, as an operation of the service in calm weather.\<close>

definition staff_run :: db where
  "staff_run = snd (adminApprove (\<lambda>_. None) example_env False calm ''t1'' ''reviewed'' ''f1'' ''FINANCE'' agreed_db)"

lemma staff_run: "settlement_run agreed_db staff_run"
proof (rule settlement_run.admin[OF settlement_run.idle])
  show "settlement_run t (fst (calm n) t)" for n t by (simp add: calm_def settlement_run.idle)
  show "adminApprove (\<lambda>_. None) example_env False calm ''t1'' ''reviewed'' ''f1'' ''FINANCE'' agreed_db
      = (fst (adminApprove (\<lambda>_. None) example_env False calm ''t1'' ''reviewed'' ''f1'' ''FINANCE'' agreed_db), staff_run)"
    by (simp add: staff_run_def)
qed

lemma staff_run_released: "map_option s_status (find_settlement ''t1'' staff_run) = Some ''RELEASED''"
  by code_simp

text \<open>C2: Whatever operations of the service and sweeps run on well-formed settlements, each working on rows read earlier while
  others commit between its reading and its transaction and between its attempts: a settlement that was there is still there with
  its order, publisher and amount, its version never falls and differs when the row does; the ledger has released its publisher's
  amount exactly once when its status is RELEASED and nothing for it otherwise; a released one has both approvals on record;
  and a released or cancelled settlement stays so.\<close>
theorem settlement_paid_once:
  assumes "settlement_run s s'" "settlements_ok s" "find_settlement i s = Some r"
  shows "\<exists>x. find_settlement i s' = Some x \<and> row_later r x
    \<and> paid_amounts i s' = (if s_status x = ''RELEASED'' then [s_publisherAmount r] else [])
    \<and> (s_status x = ''RELEASED'' \<longrightarrow> approval_given i ''CUSTOMER'' s' \<and> approval_given i ''ADMIN'' s')
    \<and> (s_status r = ''RELEASED'' \<longrightarrow> s_status x = ''RELEASED'') \<and> (s_status r = ''CANCELLED'' \<longrightarrow> s_status x = ''CANCELLED'')"
proof -
  have i: "s_id r = i" "r \<in> set (settlements s)" using found_settlement[OF assms(3)] by blast+
  have ok: "settlements_ok s'" and "later s s'"
    using settlement_run_guarantee[OF assms(1)] assms(2) by (simp_all add: guarantee_def)
  then obtain x where x: "x \<in> set (settlements s')" "row_later r x" using i(2) by (auto simp: later_def)
  have "s_id x = i" using x(2) i(1) by (simp add: row_later_def)
  then have f: "find_settlement i s' = Some x" using find_settlement_in[OF settlements_okD(1)[OF ok] x(1)] by simp
  have row: "row_ok s' x" using settlements_okD(3)[OF ok x(1)] .
  have p: "phase_of y = PaidOut \<longleftrightarrow> s_status y = ''RELEASED''" for y by (simp add: phase_of_def in_review_def)
  have "s_status x = ''CANCELLED''" if "s_status r = ''CANCELLED''"
  proof -
    have "phase_of r = Cancelled" using that by (simp add: phase_of_def in_review_def)
    then have "phase_of x = Cancelled" using x(2) by (simp add: row_later_def)
    then show ?thesis using row by (auto simp: row_ok_def phase_of_def in_review_def split: if_splits)
  qed
  moreover have "s_status x = ''RELEASED''" if "s_status r = ''RELEASED''"
    using x(2) that by (simp add: row_later_def p[symmetric])
  ultimately show ?thesis
    using f x(2) row \<open>s_id x = i\<close> by (auto simp: row_ok_def p row_later_def)
qed

theorem settlement_paid_once_witness:
  "paid_amounts ''t1'' staff_run = [200 * CENT] \<and> approval_given ''t1'' ''ADMIN'' staff_run"
  using settlement_paid_once[OF staff_run agreed_ok agreed_found(2)] staff_run_released
  by (auto simp: example_settlement_def)

text \<open>A settlement in review, approved for the customer and then by the administrator.\<close>

definition asked_db :: db where
  "asked_db = example_db\<lparr>settlements := [example_settlement\<lparr>s_status := ''PENDING''\<rparr>], approvals := []\<rparr>"

lemma asked_ok: "settlements_ok asked_db"
  by (simp add: settlements_ok_def approvals_wf_def row_ok_def one_active_def phase_of_def in_review_def approval_given_def
      releases_of_def paid_amounts_def db_wf_def asked_db_def example_defs)

lemma agreed_and_paid_run:
  "case customerApproveCheck example_env ''t1'' ''u1'' ''g1'' (Some ''OWNER'') asked_db of
     Inl e \<Rightarrow> False
   | Inr ((st, ord), u) \<Rightarrow>
       (case customerApproveTx example_env st ord ''u1'' ''g1'' ''OWNER'' asked_db of
          Inl e \<Rightarrow> False
        | Inr (GateBlocked a b, s) \<Rightarrow> False
        | Inr (Passed x, s) \<Rightarrow>
            (case adminApproveCheck example_env ''t1'' s of
               Inl e \<Rightarrow> False
             | Inr ((st', ord'), u') \<Rightarrow>
                 (case adminApproveTx (\<lambda>_. None) example_env False st' ord' ''reviewed'' ''f1'' ''FINANCE'' s of
                    Inl e \<Rightarrow> False
                  | Inr (GateBlocked a b, t) \<Rightarrow> False
                  | Inr (Passed y, t) \<Rightarrow> True)))"
  by code_simp

lemma passed_then:
  "(case r of Inl e \<Rightarrow> False | Inr (GateBlocked a b, s) \<Rightarrow> False | Inr (Passed x, s) \<Rightarrow> Q x s) \<Longrightarrow> \<exists>x s. r = Inr (Passed x, s) \<and> Q x s"
  by (auto split: sum.splits prod.splits gated.splits)

lemma checked_then:
  "(case r of Inl e \<Rightarrow> False | Inr ((st, ord), u) \<Rightarrow> Q st ord u) \<Longrightarrow> \<exists>st ord u. r = Inr ((st, ord), u) \<and> Q st ord u"
  by (auto split: sum.splits prod.splits)

lemma agreed_and_paid: "\<exists>seen t. settlement_history asked_db seen [(''t1'', Agree), (''t1'', PayOut)] t"
proof -
  from checked_then[OF agreed_and_paid_run] obtain st ord u where
    c: "customerApproveCheck example_env ''t1'' ''u1'' ''g1'' (Some ''OWNER'') asked_db = Inr ((st, ord), u)"
    and r: "case customerApproveTx example_env st ord ''u1'' ''g1'' ''OWNER'' asked_db of
          Inl e \<Rightarrow> False
        | Inr (GateBlocked a b, s) \<Rightarrow> False
        | Inr (Passed x, s) \<Rightarrow>
            (case adminApproveCheck example_env ''t1'' s of
               Inl e \<Rightarrow> False
             | Inr ((st', ord'), u') \<Rightarrow>
                 (case adminApproveTx (\<lambda>_. None) example_env False st' ord' ''reviewed'' ''f1'' ''FINANCE'' s of
                    Inl e \<Rightarrow> False
                  | Inr (GateBlocked a b, t) \<Rightarrow> False
                  | Inr (Passed y, t) \<Rightarrow> True))" by blast
  from passed_then[OF r] obtain x s where
    d: "customerApproveTx example_env st ord ''u1'' ''g1'' ''OWNER'' asked_db = Inr (Passed x, s)"
    and n: "case adminApproveCheck example_env ''t1'' s of
        Inl e \<Rightarrow> False
      | Inr ((st', ord'), u') \<Rightarrow>
          (case adminApproveTx (\<lambda>_. None) example_env False st' ord' ''reviewed'' ''f1'' ''FINANCE'' s of
             Inl e \<Rightarrow> False
           | Inr (GateBlocked a b, t) \<Rightarrow> False
           | Inr (Passed y, t) \<Rightarrow> True)" by blast
  from checked_then[OF n] obtain st' ord' u' where
    a: "adminApproveCheck example_env ''t1'' s = Inr ((st', ord'), u')"
    and q: "case adminApproveTx (\<lambda>_. None) example_env False st' ord' ''reviewed'' ''f1'' ''FINANCE'' s of
        Inl e \<Rightarrow> False | Inr (GateBlocked a b, t) \<Rightarrow> False | Inr (Passed y, t) \<Rightarrow> True" by blast
  from passed_then[OF q] obtain y t where
    p: "adminApproveTx (\<lambda>_. None) example_env False st' ord' ''reviewed'' ''f1'' ''FINANCE'' s = Inr (Passed y, t)" by blast
  have "commits {asked_db} asked_db [(''t1'', Agree)] s"
    using commits.customer[OF _ c d] by (simp add: passed_move_def)
  then have "settlement_history asked_db {s, asked_db} [(''t1'', Agree)] s"
    using settlement_history.commit[OF settlement_history.start] by fastforce
  moreover have "commits {s, asked_db} s [(''t1'', PayOut)] t"
    using commits.admin[OF _ a p] by (simp add: passed_move_def)
  ultimately show ?thesis using settlement_history.commit by fastforce
qed

text \<open>C5: In every history of committed transactions of the service and the sweeps, each after its checks have passed on some earlier
  database, replaying the moves they are labelled with gives exactly the phases the store ends in: a creation makes a settlement
  that was not there, a customer's approval takes one in review, a release one that is approved, a return one that is approved,
  a cancellation any but a released one.  So where a release commits, the settlement's last move before it was an approval for
  the customer, or it was approved at the start and has not moved since; and no transaction moves it ever after.\<close>
theorem settlement_moves_replayed:
  assumes "settlement_history s seen moves t" "settlements_ok s"
  shows "replay moves (phases s) = Some (phases t)
    \<and> (\<forall>before i rest. moves = before @ (i, PayOut) # rest \<longrightarrow>
         i \<notin> fst ` set rest
         \<and> ((\<exists>b1 b2. before = b1 @ (i, Agree) # b2 \<and> i \<notin> fst ` set b2)
            \<or> phases s i = Some CustomerApproved \<and> i \<notin> fst ` set before))"
proof -
  have r: "replay moves (phases s) = Some (phases t)" using history_replayed[OF assms] by blast
  then show ?thesis using paid_once_agreed by metis
qed

theorem settlement_moves_replayed_witness:
  "\<exists>seen t. settlement_history asked_db seen [(''t1'', Agree), (''t1'', PayOut)] t
     \<and> phases asked_db ''t1'' = Some InReview \<and> phases t = (phases asked_db)(''t1'' \<mapsto> PaidOut)"
proof -
  obtain seen t where h: "settlement_history asked_db seen [(''t1'', Agree), (''t1'', PayOut)] t" using agreed_and_paid by blast
  have p: "phases asked_db ''t1'' = Some InReview"
    by (simp add: phases_def find_settlement_def asked_db_def example_settlement_def phase_of_def in_review_def)
  have "replay [(''t1'', Agree), (''t1'', PayOut)] (phases asked_db) = Some (phases t)"
    using settlement_moves_replayed[OF h asked_ok] by blast
  then show ?thesis using h p by auto
qed

text \<open>C17: Every run of the service keeps the settlements well formed: distinct keys, one approval of each type and none without its
  settlement, the customer's for every one approved or released and the administrator's exactly for the released, one settlement
  of an order that is not cancelled, and a ledger whose releases are those of the released settlements.\<close>
theorem settlements_stay_ok:
  assumes "settlement_run s s'" "settlements_ok s"
  shows "settlements_ok s'"
  using settlement_run_guarantee[OF assms(1)] assms(2) by (simp add: guarantee_def)

theorem settlements_stay_ok_witness: "settlements_ok staff_run"
  by (rule settlements_stay_ok[OF staff_run agreed_ok])

section \<open>Transactions\<close>

lemma staff_order:
  assumes "released_by_staff env st userId netted s s'"
  shows "\<exists>r. find_order (s_orderId st) s = Some r \<and> find_order (s_orderId st) s' = Some (completed_order env r)
    \<and> o_status (completed_order env r) = ''COMPLETED''"
proof -
  obtain r where r: "find_order (s_orderId st) s = Some r"
      "orders s' = update_where (\<lambda>x. o_id x = s_orderId st) (\<lambda>_. completed_order env r) (orders s)"
    using assms by (auto simp: released_by_staff_def)
  have i: "o_id r = s_orderId st" using find_key[OF r(1)[unfolded find_order_def]] by simp
  have "find (\<lambda>x. o_id x = s_orderId st) (update_where (\<lambda>x. o_id x = s_orderId st) (\<lambda>_. completed_order env r) rows) = Some (completed_order env r)"
    if "find (\<lambda>x. o_id x = s_orderId st) rows = Some r" for rows
    using that i by (induction rows) (auto simp: completed_order_def split: if_splits)
  then show ?thesis using r by (simp add: find_order_def) (simp add: completed_order_def)
qed

text \<open>C8: An approval by staff that commits has found the customer's approval at the version it read and an order the gate lets
  through, under the lock of the order; who fulfilled a platform order is not the one who releases its money; the settlement is
  RELEASED and the order COMPLETED; the publisher's outstanding debt is repaid out of the amount as far as it goes and the rest
  credited, no other balance and no wallet moves, the ledger gains exactly the release and the repayment, and the
  administrator's approval is on record.\<close>
theorem manual_release_exact:
  assumes "db_wf s" "0 \<le> s_publisherAmount st"
    and "adminApproveTx to_number env comms st ord reason userId role s = Inr (Passed x, s')"
  shows "db_wf s' \<and> (\<exists>netted. released_by_staff env st userId netted s s')
    \<and> (\<forall>r v. find_order (s_orderId st) s = Some r \<and> active_delivery_row s (o_activeDeliveryVersionId r) = Some v
          \<and> order_channel r s = ''PLATFORM'' \<and> v_submittedByUserId v \<noteq> [] \<longrightarrow> v_submittedByUserId v \<noteq> userId)"
proof -
  obtain netted where R: "released_by_staff env st userId netted s s'" "db_wf s'" by (rule adminApproveTx_Inr[OF assms])
  have "v_submittedByUserId v \<noteq> userId" if "find_order (s_orderId st) s = Some r"
    "active_delivery_row s (o_activeDeliveryVersionId r) = Some v" "order_channel r s = ''PLATFORM''" "v_submittedByUserId v \<noteq> []" for r v
    using R(1) that by (auto simp: released_by_staff_def separation_violation_def checkSeparationOfDuties_def truthy_def)
  then show ?thesis using R by blast
qed

theorem manual_release_exact_witness:
  "db_wf (snd staff_release) \<and> (\<exists>netted. released_by_staff example_env example_settlement ''f1'' netted agreed_db (snd staff_release))"
  using manual_release_exact[OF agreed_wf _ staff_release_done(1)] by (simp add: example_settlement_def)

text \<open>C12: The two ways to release a settlement agree about money: from the same state, the sweep and an approval by staff leave the
  same amounts to withdraw, debts and earnings of every publisher, the same wallets and the same ledger lines, with the settlement
  RELEASED and the order COMPLETED.\<close>
theorem release_routes_agree:
  assumes wf: "db_wf s" and st: "find_settlement (s_id st) s = Some st"
    and auto: "autoReleaseTx env now st ord s = Inr (Released, s1)"
    and staff: "adminApproveTx to_number env' comms st ord' reason userId role s = Inr (Passed x, s2)"
  shows "withdrawable_of p s1 = withdrawable_of p s2 \<and> debt_of p s1 = debt_of p s2 \<and> earned_of p s1 = earned_of p s2
    \<and> wallets s1 = wallets s2 \<and> map ledger_line (transactions s1) = map ledger_line (transactions s2)
    \<and> map_option s_status (find_settlement (s_id st) s1) = Some ''RELEASED''
    \<and> map_option s_status (find_settlement (s_id st) s2) = Some ''RELEASED''
    \<and> map_option o_status (find_order (s_orderId st) s1) = Some ''COMPLETED''
    \<and> map_option o_status (find_order (s_orderId st) s2) = Some ''COMPLETED''"
proof -
  obtain g where A: "released_between env now st s s1 g" using autoReleaseTx_Inr[OF wf auto] by auto
  have paid: "s_publisherAmount st = lf_paid g * CENT" "0 < lf_paid g * CENT"
    "lf_netted g * CENT = min (debt_of (s_publisherId st) s) (s_publisherAmount st)"
    using A st CENT_pos(1) by (auto simp: released_between_def Let_def)
  then have "0 \<le> s_publisherAmount st" by simp
  then obtain netted where M: "released_by_staff env' st userId netted s s2" by (rule adminApproveTx_Inr[OF wf _ staff])
  have m: "netted = lf_netted g * CENT" "publisher_credited (s_publisherId st) (s_publisherAmount st) netted s s2" "wallets s2 = wallets s"
    using M paid(3) by (auto simp: released_by_staff_def money_released_def)
  obtain ts where ts: "transactions s2 = transactions s @ ts" "map ledger_line ts = release_lines st (s_publisherAmount st) netted"
    using M by (auto simp: released_by_staff_def money_released_def)
  have "0 < lf_netted g \<longleftrightarrow> 0 < lf_netted g * CENT" by (metis CENT_pos(1) zero_less_mult_pos2 mult_pos_pos)
  then have lines: "map ledger_line (release_rows env n st (lf_paid g) (lf_netted g)) = map ledger_line ts" for n
    using ts(2) by (simp add: release_rows_def release_lines_def ledger_line_def new_transaction_def m(1) paid(1))
  have "withdrawable_of p s1 = withdrawable_of p s2 \<and> debt_of p s1 = debt_of p s2 \<and> earned_of p s1 = earned_of p s2"
  proof (cases "p = s_publisherId st")
    case True
    then show ?thesis using A m(2)
      by (simp add: released_between_def Let_def publisher_credited_def m(1) paid(1) left_diff_distrib)
  next
    case False
    then have "find_balance p s1 = find_balance p s" "find_balance p s2 = find_balance p s"
      using A m(2) by (simp_all add: released_between_def Let_def publisher_credited_def)
    then show ?thesis by (simp add: withdrawable_of_def debt_of_def earned_of_def)
  qed
  moreover have "wallets s1 = wallets s2" "map ledger_line (transactions s1) = map ledger_line (transactions s2)"
    using A m(3) lines ts(1) by (simp_all add: released_between_def Let_def)
  moreover have "map_option s_status (find_settlement (s_id st) s1) = Some ''RELEASED''"
    "map_option o_status (find_order (s_orderId st) s1) = Some ''COMPLETED''"
    using A by (simp_all add: released_between_def Let_def)
  moreover have "map_option s_status (find_settlement (s_id st) s2) = Some ''RELEASED''"
  proof -
    obtain old f where f: "settlement_moved (s_id st) old f s s2" "\<And>r. s_id (f r) = s_id r \<and> s_status (f r) = ''RELEASED''"
      using M by (force simp: released_by_staff_def released_row_def)
    then have "find_settlement (s_id st) s2 = map_option (\<lambda>r. if s_id r = s_id st then f r else r) (find_settlement (s_id st) s)"
      by (simp add: settlement_moved_def find_settlement_def find_update_where[where key = s_id])
    then show ?thesis using st f(2) by simp
  qed
  moreover have "map_option o_status (find_order (s_orderId st) s2) = Some ''COMPLETED''"
    using staff_order[OF M] by auto
  ultimately show ?thesis by blast
qed

lemma example_routes: "autoReleaseTx example_env None example_settlement example_order agreed_db
    = Inr (Released, snd (projr (autoReleaseTx example_env None example_settlement example_order agreed_db)))"
proof -
  have "case autoReleaseTx example_env None example_settlement example_order agreed_db of
     Inl e \<Rightarrow> False | Inr (x, s) \<Rightarrow> x = Released" by code_simp
  then show ?thesis by (auto split: sum.splits prod.splits)
qed

theorem release_routes_agree_witness:
  "debt_of ''p1'' (snd (projr (autoReleaseTx example_env None example_settlement example_order agreed_db))) = debt_of ''p1'' (snd staff_release)"
  using release_routes_agree[OF agreed_wf _ example_routes staff_release_done(1)] agreed_found(2)
  by (simp add: example_settlement_def)

text \<open>C18: An order completed by the sweep forfeits its warranty: where an approval by staff sets the end of the warranty from the
  delivery, the sweep leaves the column as it was, so that a customer who asks to cancel within the warranty may open a dispute
  after the one and is refused after the other.\<close>
theorem auto_release_forfeits_warranty:
  assumes wf: "db_wf s" and a: "0 \<le> s_publisherAmount st"
    and r: "find_order (s_orderId st) s = Some r" "o_warrantyEndsAt r = None" "o_warrantyDays r = Some days" "days \<noteq> 0"
      "o_deliveredAt r = Some delivered"
    and auto: "autoReleaseTx env now st ord s = Inr (Released, s1)"
    and staff: "adminApproveTx to_number env' comms st ord' reason userId role s = Inr (Passed x, s2)"
  shows "\<exists>r1 r2. find_order (s_orderId st) s1 = Some r1 \<and> find_order (s_orderId st) s2 = Some r2
    \<and> o_warrantyEndsAt r1 = None \<and> o_warrantyEndsAt r2 = Some (delivered + days * 86400000)
    \<and> (\<forall>i. ci_actor i = CUSTOMER \<and> ci_status i = o_status r1 \<and> ci_warrantyEndsAt i = warranty_input r1 \<longrightarrow>
          cd_action (decideOrderCancellation i) = NOT_ALLOWED)
    \<and> (\<forall>i t. ci_actor i = CUSTOMER \<and> ci_status i = o_status r2 \<and> ci_warrantyEndsAt i = warranty_input r2 \<and> ci_now i = Some t
          \<and> t < delivered + days * 86400000 \<and> \<not> ci_hasActiveRequest i \<and> \<not> ci_hasActiveDispute i \<longrightarrow>
          cd_action (decideOrderCancellation i) = OPEN_DISPUTE)"
proof -
  obtain g where A: "released_between env now st s s1 g" using autoReleaseTx_Inr[OF wf auto] by auto
  obtain netted where M: "released_by_staff env' st userId netted s s2" by (rule adminApproveTx_Inr[OF wf a staff])
  have r1: "find_order (s_orderId st) s1 = Some (r\<lparr>o_status := ''COMPLETED'', o_version := o_version r + 1\<rparr>)"
    using A r(1) by (simp add: released_between_def Let_def)
  have r2: "find_order (s_orderId st) s2 = Some (completed_order env' r)" using staff_order[OF M] r(1) by auto
  have e: "o_warrantyEndsAt (completed_order env' r) = Some (delivered + days * 86400000)" "o_status (completed_order env' r) = ''COMPLETED''"
    using r(3-5) by (simp_all add: completed_order_def warranty_end_def)
  show ?thesis
    using r1 r2 e r(2)
    by (auto simp: warranty_input_def decideOrderCancellation_def decideCustomer_def IMMEDIATE_CANCELLATION_STATUSES_def
        CANCELLATION_REQUEST_STATUSES_def DISPUTE_CANCELLATION_STATUSES_def CANCELLATION_TERMINAL_STATUSES_def
        deadlineExpired_def denied_def split: option.splits)
qed

theorem auto_release_forfeits_warranty_witness:
  "\<exists>r1. find_order ''o1'' (snd (projr (autoReleaseTx example_env None example_settlement example_order agreed_db))) = Some r1
     \<and> o_warrantyEndsAt r1 = None \<and> o_warrantyDays example_order = Some 30"
  using auto_release_forfeits_warranty[OF agreed_wf _ _ _ _ _ _ example_routes staff_release_done(1), of example_order 30 80000000]
  by (auto simp: example_settlement_def example_order_def agreed_db_def example_db_def find_order_def)

text \<open>C27: The fee and the net split the amount in whole cents: they add up to it, neither is negative, and the fee is within half a
  cent of the exact share.\<close>
theorem split_fee_exact:
  assumes "0 \<le> gross" "CENT dvd gross" "0 \<le> f" "f \<le> 1"
  shows "case splitPlatformFee gross f of (fee, net) \<Rightarrow> fee + net = gross \<and> CENT dvd fee \<and> CENT dvd net \<and> 0 \<le> fee \<and> 0 \<le> net
     \<and> \<bar>of_int fee - of_int gross * f\<bar> * 2 \<le> of_int CENT"
proof -
  obtain g where g: "gross = g * CENT" using assms(2) by (metis dvdE mult.commute)
  have C: "0 < CENT" by (rule CENT_pos(1))
  have g0: "0 \<le> g" using assms(1) g C by (simp add: zero_le_mult_iff)
  let ?x = "of_int g * f :: rat"
  let ?c = "\<lfloor>?x + 1 / 2\<rfloor>"
  have x: "0 \<le> ?x" "?x \<le> of_int g" using g0 assms(3,4) mult_left_le[of f "of_int g :: rat"] by simp_all
  have e: "of_int gross * f = ?x * of_int CENT" by (simp add: g)
  have nn: "0 \<le> of_int gross * f" unfolding e by (rule mult_nonneg_nonneg) (use x(1) C in simp_all)
  have s: "splitPlatformFee gross f = (?c * CENT, gross - ?c * CENT)"
    using nn C unfolding splitPlatformFee_def Let_def e by simp
  have c: "0 \<le> ?c" "?c \<le> g" "\<bar>of_int ?c - ?x\<bar> * 2 \<le> 1"
  proof -
    show "0 \<le> ?c" using x(1) by simp
    show "?c \<le> g" using x(2) by (simp add: floor_le_iff)
    have "of_int ?c \<le> ?x + 1 / 2" "?x + 1 / 2 < of_int ?c + 1" by linarith+
    then have "\<bar>of_int ?c - ?x\<bar> \<le> 1 / 2" by (intro abs_leI) linarith+
    then show "\<bar>of_int ?c - ?x\<bar> * 2 \<le> 1" by simp
  qed
  have "\<bar>of_int (?c * CENT) - of_int gross * f\<bar> = \<bar>of_int ?c - ?x\<bar> * of_int CENT"
    unfolding e of_int_mult left_diff_distrib[symmetric] abs_mult using C by simp
  moreover have "\<bar>of_int ?c - ?x\<bar> * 2 * of_int CENT \<le> 1 * of_int CENT"
    by (rule mult_right_mono[OF c(3)]) (use C in simp)
  ultimately have "\<bar>of_int (?c * CENT) - of_int gross * f\<bar> * 2 \<le> of_int CENT" by (simp add: ac_simps)
  moreover have "0 \<le> gross - ?c * CENT" using c(2) C by (simp add: g mult_right_mono)
  ultimately show ?thesis using c(1) C s assms(2) by simp
qed

theorem split_fee_exact_witness:
  "case splitPlatformFee (10001 * CENT) (1 / 8) of (fee, net) \<Rightarrow> fee + net = 10001 * CENT \<and> CENT dvd fee"
  using split_fee_exact[of "10001 * CENT" "1 / 8"] by (simp add: split_beta)

text \<open>A delivered order without a settlement, on the website of its publisher, under a fee of a quarter.\<close>

definition unsettled_db :: db where
  "unsettled_db = example_db\<lparr>settlements := [],
     platform_settings := [\<lparr>ps_id = JText ''default'', ps_platformFeePct = JText ''25'', ps_version = Some 1\<rparr>],
     websites := [\<lparr>ws_id = ''s1'', ws_publisherId = Some ''p1'', ws_isActive = True, ws_verificationStatus = ''VERIFIED'', ws_ownershipType = ''PUBLISHER''\<rparr>],
     listing_services := [\<lparr>ls_id = ''ls1'', ls_listingId = ''l1'', ls_serviceType = ''GUEST_POST'', ls_price = 300 * CENT,
       ls_currency = ''USD'', ls_availability = ''AVAILABLE''\<rparr>]\<rparr>"

definition creation :: "settlement_row gated \<times> db" where
  "creation = projr (createSettlementTx (\<lambda>_. None) example_env ''o1'' (Some ''g1'') ''u1'' example_order unsettled_db)"

definition created_row :: settlement_row where
  "created_row = (case fst creation of Passed x \<Rightarrow> x | GateBlocked a b \<Rightarrow> undefined)"

text \<open>The phases of the creation, each evaluated.\<close>

definition unsettled_gate :: locked_eligibility where
  "unsettled_gate = fst (projr (evaluateLockedSettlementEligibility example_env ''o1'' unsettled_db))"

definition unsettled_fee :: fee_snapshot where
  "unsettled_fee = projr (resolvePlatformFeePolicyCore (platform_settings unsettled_db))"

lemma creation_gate:
  "evaluateLockedSettlementEligibility example_env ''o1'' unsettled_db = Inr (unsettled_gate, unsettled_db)"
  "el_eligible (le_eligibility unsettled_gate)" "sn_orderVersion (le_snapshot unsettled_gate) = o_version example_order"
proof -
  have "case evaluateLockedSettlementEligibility example_env ''o1'' unsettled_db of
      Inl e \<Rightarrow> False | Inr (l, s) \<Rightarrow> el_eligible (le_eligibility l) \<and> sn_orderVersion (le_snapshot l) = 4" by code_simp
  then obtain l s where l: "evaluateLockedSettlementEligibility example_env ''o1'' unsettled_db = Inr (l, s)"
      "el_eligible (le_eligibility l)" "sn_orderVersion (le_snapshot l) = 4"
    by (auto split: sum.splits prod.splits)
  from evaluateLocked_spec(4)[OF l(1,2)] l
  show "evaluateLockedSettlementEligibility example_env ''o1'' unsettled_db = Inr (unsettled_gate, unsettled_db)"
    "el_eligible (le_eligibility unsettled_gate)" "sn_orderVersion (le_snapshot unsettled_gate) = o_version example_order"
    by (simp_all add: unsettled_gate_def example_order_def)
qed

lemma creation_fee: "resolvePlatformFeePolicyCore (platform_settings unsettled_db) = Inr unsettled_fee"
  "splitPlatformFee (300 * CENT) (fs_fraction unsettled_fee) = (75 * CENT, 225 * CENT)"
proof -
  have "case resolvePlatformFeePolicyCore (platform_settings unsettled_db) of
      Inl e \<Rightarrow> False | Inr f \<Rightarrow> splitPlatformFee (300 * CENT) (fs_fraction f) = (75 * CENT, 225 * CENT)" by code_simp
  then show "resolvePlatformFeePolicyCore (platform_settings unsettled_db) = Inr unsettled_fee"
    "splitPlatformFee (300 * CENT) (fs_fraction unsettled_fee) = (75 * CENT, 225 * CENT)"
    by (auto simp: unsettled_fee_def split: sum.splits)
qed

lemma creation_history:
  "\<exists>h. loadSettlementCustomerHistory (Some (o_organizationId example_order)) (Some (o_customerId example_order)) unsettled_db = Inr (h, unsettled_db)"
proof -
  have "case loadSettlementCustomerHistory (Some (o_organizationId example_order)) (Some (o_customerId example_order)) unsettled_db of
      Inl e \<Rightarrow> False | Inr (h, s) \<Rightarrow> True" by code_simp
  then obtain h s where h: "loadSettlementCustomerHistory (Some (o_organizationId example_order)) (Some (o_customerId example_order)) unsettled_db = Inr (h, s)"
    by (auto split: sum.splits prod.splits)
  moreover from this have "s = unsettled_db" unfolding history_Inr by blast
  ultimately show ?thesis by blast
qed

lemma creation_reads:
  "lockedOrder ''o1'' (Some ''g1'') example_order unsettled_db = Inr (example_order, unsettled_db)"
  "attributedPublisher example_order unsettled_db = Inr ((''p1'', Some ''PUBLISHER''), unsettled_db)"
  "servicePrice example_order unsettled_db = Inr ((''GUEST_POST'', Some (300 * CENT)), unsettled_db)"
  by (simp_all add: lockedOrder_Inr attributedPublisher_Inr servicePrice_Inr unsettled_db_def example_defs find_order_def
      amount_invalid_def CENT_def truthy_def)

lemma creation_exists:
  "\<exists>st s. createSettlementTx (\<lambda>_. None) example_env ''o1'' (Some ''g1'') ''u1'' example_order unsettled_db = Inr (Passed st, s)
     \<and> s_platformFee st = 75 * CENT \<and> s_publisherAmount st = 225 * CENT"
proof -
  obtain h where h: "loadSettlementCustomerHistory (Some (o_organizationId example_order)) (Some (o_customerId example_order)) unsettled_db = Inr (h, unsettled_db)"
    using creation_history by blast
  have a: "o_amount example_order = Some (300 * CENT)" by (simp add: example_order_def)
  have n: "settlements unsettled_db = []" by (simp add: unsettled_db_def)
  have c: "\<not> CENT < 0" "\<not> CENT \<le> 0" by (simp_all add: CENT_def)
  have made: "create_settlement example_env row unsettled_db = Inr (row\<lparr>s_id := env_cuid example_env (id_supply unsettled_db)\<rparr>,
      unsettled_db\<lparr>id_supply := id_supply unsettled_db + 1,
        settlements := [row\<lparr>s_id := env_cuid example_env (id_supply unsettled_db)\<rparr>]\<rparr>)" for row
    by (simp add: create_settlement_Inr n)
  have told: "\<exists>t. recordCreation example_env ''u1'' example_order st (300 * CENT) s = Inr ((), t)" for st s
    by (simp add: recordCreation_def tx_simps audit_log_Inr)
  obtain t where t: "recordCreation example_env ''u1'' example_order st (300 * CENT) s = Inr ((), t st s)" for st s
    using told by metis
  show ?thesis
    by (simp add: createSettlementTx_def gateSettlement_def andThen_def query_def require_def ret_def creation_gate creation_reads
        resolvePlatformFeePolicy_def creation_fee lift_sum_def h a n c made t Let_def)
qed
lemma creation_done:
  "createSettlementTx (\<lambda>_. None) example_env ''o1'' (Some ''g1'') ''u1'' example_order unsettled_db = Inr (Passed created_row, snd creation)"
  "s_platformFee created_row = 75 * CENT" "s_publisherAmount created_row = 225 * CENT"
  using creation_exists by (auto simp: created_row_def creation_def)

text \<open>C13: A creation that commits has found the order paid, delivered and let through by the gate, its website with a publisher, no
  settlement of the order that is not cancelled, and the fee policy in force: it appends one PENDING settlement of the order for
  that publisher, whose fee and publisher's amount split the order's amount by the policy in whole cents, and writes nothing but
  events and audit rows beside it.\<close>
theorem settlement_created_exact:
  assumes "createSettlementTx to_number env orderId organizationId userId ord s = Inr (Passed st, s')"
  shows "created_between env orderId st s s'"
  by (rule createSettlementTx_Inr[OF assms])

theorem settlement_created_exact_witness:
  "created_between example_env ''o1'' created_row unsettled_db (snd creation) \<and> s_platformFee created_row = 75 * CENT"
  using settlement_created_exact[OF creation_done(1)] creation_done(2) by blast

lemma due_reached:
  assumes "row \<in> set (settlements s)" "p row" "find_order (s_orderId row) s = Some r" "length (settlements s) \<le> batch"
  shows "(row, r) \<in> set (due_settlements p batch s)"
proof -
  have "take batch (filter p (settlements s)) = filter p (settlements s)"
    using order_trans[OF length_filter_le assms(4)] by simp
  then show ?thesis using assms(1-3) by (auto simp: due_settlements_def intro!: bexI[of _ row])
qed

text \<open>C28: A return to review takes the customer's approval back and leaves the review window as it was: where that has ended, the
  settlement is due for automatic approval at once, by the next sweep that reaches it.\<close>
theorem returned_settlement_due_again:
  assumes wf: "db_wf s" and ap: "approvals_wf s" and run: "returnToReviewTx env st ord userId reason s = Inr (x, s')"
    and old: "find_settlement (s_id st) s = Some old" "s_reviewEndsAt old = Some ends" "ends \<le> now"
    and o: "find_order (s_orderId old) s = Some r" and batch: "length (settlements s) \<le> batch"
  shows "\<exists>row. find_settlement (s_id st) s' = Some row \<and> s_status row = ''UNDER_REVIEW'' \<and> \<not> approval_given (s_id st) ''CUSTOMER'' s'
    \<and> (row, r) \<in> set (due_settlements (\<lambda>st. in_review st \<and> (case s_reviewEndsAt st of None \<Rightarrow> False | Some t \<Rightarrow> t \<le> now)) batch s')"
proof -
  obtain row where mv: "settlement_moved (s_id st) row (move_settlement env ''UNDER_REVIEW'') s s'"
    and given: "\<forall>j k. approval_given j k s' \<longleftrightarrow> approval_given j k s \<and> \<not> (j = s_id st \<and> k = ''CUSTOMER'')"
    and e: "s' = s\<lparr>settlements := settlements s', approvals := approvals s', order_events := order_events s', audit_logs := audit_logs s'\<rparr>"
    by (rule returnToReviewTx_Inr[OF wf run]) (use ap in blast)
  let ?new = "move_settlement env ''UNDER_REVIEW'' old"
  have row: "row = old" and rows: "settlements s' = update_where (\<lambda>x. s_id x = s_id st) (move_settlement env ''UNDER_REVIEW'') (settlements s)"
    using mv old(1) by (simp_all add: settlement_moved_def)
  have i: "s_id old = s_id st" "old \<in> set (settlements s)" using found_settlement[OF old(1)] by blast+
  have f: "find_settlement (s_id st) s' = Some ?new"
  proof -
    have "find_settlement (s_id st) s' = map_option (\<lambda>r. if s_id r = s_id st then move_settlement env ''UNDER_REVIEW'' r else r) (find_settlement (s_id st) s)"
      unfolding find_settlement_def rows by (rule find_update_where) simp
    then show ?thesis using old(1) i by simp
  qed
  have "?new \<in> set (settlements s')" using found_settlement[OF f] by blast
  moreover have "find_order (s_orderId ?new) s' = Some r"
    using o arg_cong[OF e, of orders] by (simp add: find_order_def)
  moreover have "length (settlements s') \<le> batch" using batch by (simp add: rows update_where_def)
  moreover have "in_review ?new" "s_reviewEndsAt ?new = Some ends" using old(2) by (simp_all add: in_review_def move_settlement_def)
  ultimately have "(?new, r) \<in> set (due_settlements (\<lambda>st. in_review st \<and> (case s_reviewEndsAt st of None \<Rightarrow> False | Some t \<Rightarrow> t \<le> now)) batch s')"
    using old(3) by (intro due_reached) simp_all
  then show ?thesis using f given by auto
qed

definition returned :: "settlement_row \<times> db" where
  "returned = projr (returnToReviewTx example_env example_settlement example_order ''f1'' ''wrong link'' agreed_db)"

lemma returned_run:
  "case returnToReviewTx example_env example_settlement example_order ''f1'' ''wrong link'' agreed_db of
     Inl e \<Rightarrow> False
   | Inr (x, s) \<Rightarrow> s_status x = ''UNDER_REVIEW''
       \<and> ar_approved (fst (runSettlementAutoApprove example_env (\<lambda>_. calm) None None s)) = 1"
  by code_simp

lemma returned_done:
  "returnToReviewTx example_env example_settlement example_order ''f1'' ''wrong link'' agreed_db = Inr (fst returned, snd returned)"
  "ar_approved (fst (runSettlementAutoApprove example_env (\<lambda>_. calm) None None (snd returned))) = 1"
  using returned_run by (auto simp: returned_def split: sum.splits prod.splits)

theorem returned_settlement_due_again_witness:
  "\<not> approval_given ''t1'' ''CUSTOMER'' (snd returned)
   \<and> ar_approved (fst (runSettlementAutoApprove example_env (\<lambda>_. calm) None None (snd returned))) = 1"
proof -
  have i: "s_id example_settlement = ''t1''" "s_reviewEndsAt example_settlement = Some 90000000" by (simp_all add: example_settlement_def)
  have o: "find_order (s_orderId example_settlement) agreed_db = Some example_order"
    by (simp add: example_settlement_def agreed_db_def example_db_def example_order_def find_order_def)
  have n: "length (settlements agreed_db) \<le> 1" by (simp add: agreed_db_def example_db_def)
  have "(90000000::int) \<le> 100000000" by simp
  from returned_settlement_due_again[OF agreed_wf settlements_okD(2)[OF agreed_ok] returned_done(1) agreed_found(2)[folded i(1)] i(2) this o n]
  show ?thesis using returned_done(2) by (auto simp: i(1))
qed

end
