(* ===== verification/Dispute_Safety.thy ===== *)
theory Dispute_Safety
  imports Books
begin

text \<open>
  What a payment dispute may do to the books.  The hold, the shortfall and the status of a case
  are an abstract machine, \<open>dispute_spec\<close>, and every committed transition is one of its steps: it
  moves one wallet by what the step says, writes the ledger rows the step says, and consumes the
  lease of its event.  From the steps follow that holds stay covered by reserved balances, that
  money only leaves through CHARGEBACK rows, and that a closed case stays closed.
\<close>

section \<open>What the hooks and the completion may touch\<close>

definition hooks_ok :: "dispute_hooks \<Rightarrow> bool" where
  "hooks_ok h \<longleftrightarrow>
     (\<forall>a s u s'. dh_audit h a s = Inr (u, s') \<longrightarrow> aside s s')
     \<and> (\<forall>n s u s'. dh_notifyFinance h n s = Inr (u, s') \<longrightarrow> aside s s')
     \<and> (\<forall>notify d s u s'. dh_notifyCustomer h = Some notify \<longrightarrow> notify d s = Inr (u, s') \<longrightarrow> aside s s')"

text \<open>The tables the dispute money lives in, and those it must leave alone.\<close>

definition same_money :: "db \<Rightarrow> db \<Rightarrow> bool" where
  "same_money s s' \<longleftrightarrow> wallets s' = wallets s \<and> transactions s' = transactions s
     \<and> payment_disputes s' = payment_disputes s"

definition same_rest :: "db \<Rightarrow> db \<Rightarrow> bool" where
  "same_rest s s' \<longleftrightarrow> orders s' = orders s \<and> settlements s' = settlements s \<and> balances s' = balances s
     \<and> approvals s' = approvals s \<and> order_events s' = order_events s \<and> deliveries s' = deliveries s
     \<and> fraud_holds s' = fraud_holds s \<and> withdrawals s' = withdrawals s \<and> executions s' = executions s
     \<and> payout_events s' = payout_events s \<and> allocations s' = allocations s"

definition same_inbox :: "db \<Rightarrow> db \<Rightarrow> bool" where
  "same_inbox s s' \<longleftrightarrow> deposits s' = deposits s \<and> provider_events s' = provider_events s"

lemma same_refl [simp]: "same_money s s" "same_rest s s" "same_inbox s s"
  by (simp_all add: same_money_def same_rest_def same_inbox_def)

lemma same_trans:
  "same_money s t \<Longrightarrow> same_money t u \<Longrightarrow> same_money s u"
  "same_rest s t \<Longrightarrow> same_rest t u \<Longrightarrow> same_rest s u"
  "same_inbox s t \<Longrightarrow> same_inbox t u \<Longrightarrow> same_inbox s u"
  by (simp_all add: same_money_def same_rest_def same_inbox_def)

lemma aside_same: "aside s s' \<Longrightarrow> same_money s s' \<and> same_rest s s' \<and> same_inbox s s'"
  by (auto simp: aside_def same_money_def same_rest_def same_inbox_def)

lemma hooksD:
  assumes "hooks_ok h"
  shows "dh_audit h a s = Inr (u, s') \<Longrightarrow> same_money s s' \<and> same_rest s s' \<and> same_inbox s s'"
    "dh_notifyFinance h n s = Inr (u, s') \<Longrightarrow> same_money s s' \<and> same_rest s s' \<and> same_inbox s s'"
    "(case dh_notifyCustomer h of None \<Rightarrow> ret () | Some notify \<Rightarrow> notify d) s = Inr (u, s') \<Longrightarrow>
      same_money s s' \<and> same_rest s s' \<and> same_inbox s s'"
  using assms aside_same unfolding hooks_ok_def
  by (blast, blast, auto simp: tx_simps split: option.splits)

text \<open>The lease the completion consumes.\<close>

definition leased :: "dispute_event \<Rightarrow> provider_event_row \<Rightarrow> bool" where
  "leased i e \<longleftrightarrow> pv_status e = ''PROCESSING'' \<and> pv_attempts e = de_claimAttempt i
     \<and> pv_lockedAt e = Some (de_claimLockedAt i)"

lemma completeEvent_Inr:
  assumes "completeEvent env dep pid i s = Inr (u, s')" "distinct (map pv_id (provider_events s))"
  shows "same_money s s' \<and> same_rest s s' \<and> map da_id (deposits s') = map da_id (deposits s)
    \<and> map pv_id (provider_events s') = map pv_id (provider_events s)
    \<and> (\<exists>e. find_provider_event (de_providerEventRowId i) s = Some e \<and> leased i e
         \<and> find_provider_event (de_providerEventRowId i) s' = Some (e\<lparr>pv_status := ''PROCESSED'',
              pv_processedAt := Some (env_now env), pv_lockedAt := None, pv_depositAttemptId := Some dep,
              pv_paymentDisputeId := Some pid, pv_lastError := None\<rparr>))
    \<and> (\<exists>d. find_deposit dep s = Some d \<and> find_deposit dep s' = Some (d\<lparr>da_status := projected_status (da_status d)
          (map pd_status (filter (\<lambda>c. pd_depositAttemptId c = dep) (payment_disputes s)))\<rparr>))"
proof -
  let ?st = "\<lambda>d. projected_status (da_status d)
          (map pd_status (filter (\<lambda>c. pd_depositAttemptId c = dep) (payment_disputes s)))"
  let ?pe = "\<lambda>e. pv_id e = de_providerEventRowId i \<and> pv_status e = ''PROCESSING''
                 \<and> pv_attempts e = de_claimAttempt i \<and> pv_lockedAt e = Some (de_claimLockedAt i)
                 \<and> (pv_paymentDisputeId e = None \<or> pv_paymentDisputeId e = Some pid)"
  let ?fe = "\<lambda>e. e\<lparr>pv_status := ''PROCESSED'', pv_processedAt := Some (env_now env), pv_lockedAt := None,
                     pv_depositAttemptId := Some dep, pv_paymentDisputeId := Some pid, pv_lastError := None\<rparr>"
  let ?pd = "\<lambda>d r. da_id r = dep \<and> da_status r = da_status d"
  obtain d where d: "find_deposit dep s = Some d"
    and s': "s' = s\<lparr>deposits := update_where (?pd d) (\<lambda>r. r\<lparr>da_status := ?st d\<rparr>) (deposits s),
        provider_events := update_where ?pe ?fe (provider_events s)\<rparr>"
    and c: "count_where ?pe (provider_events s) = 1"
  proof (cases "find_deposit dep s")
    case None
    with assms(1) show ?thesis by (simp add: completeEvent_def tx_simps)
  next
    case (Some d)
    have keep: "update_where (?pd d) (\<lambda>r. r\<lparr>da_status := da_status d\<rparr>) (deposits s) = deposits s"
      by (induction "deposits s") (auto simp: update_where_def intro!: map_idI)
    show ?thesis
      using that[OF Some] assms(1) Some keep
      by (cases "da_status d = ?st d") (auto simp: completeEvent_def tx_simps Let_def)
  qed
  have dep: "da_id d = dep" using find_key[OF d[unfolded find_deposit_def]] by simp
  have "find_deposit dep s' = Some (d\<lparr>da_status := ?st d\<rparr>)"
    using d dep by (simp add: s' find_deposit_def find_update_where)
  moreover obtain e where e: "find_provider_event (de_providerEventRowId i) s = Some e" "?pe e"
  proof (cases "find_provider_event (de_providerEventRowId i) s")
    case None
    then show ?thesis
      using c count_not_found[of pv_id "de_providerEventRowId i" "provider_events s"]
      by (simp add: find_provider_event_def)
  next
    case (Some e)
    then have "?pe e"
      using c count_found[OF assms(2) Some[unfolded find_provider_event_def]]
        find_key[OF Some[unfolded find_provider_event_def]] by (auto split: if_splits)
    with Some show ?thesis by (rule that)
  qed
  moreover have "find_provider_event (de_providerEventRowId i) s' = Some (?fe e)"
    using e by (simp add: s' find_provider_event_def find_update_where)
  ultimately show ?thesis
    using d by (simp add: s' same_money_def same_rest_def leased_def map_update_where)
qed

lemma holdFunds_Inr:
  assumes "distinct (map w_id (wallets s))" "find_wallet (w_id w) s = Some w" "0 \<le> held"
    "holdFunds desired w held s = Inr (u, s')"
  shows "wallet_moved (w_id w) (- held) (if desired = ''OPEN'' then held else 0) s s' \<and> (\<exists>ws. s' = s\<lparr>wallets := ws\<rparr>)"
proof (cases "held = 0")
  case True
  with assms(4) have "s' = s" by (simp add: holdFunds_def tx_simps)
  moreover have "s = s\<lparr>wallets := wallets s\<rparr>" by simp
  ultimately show ?thesis using True moved_same[of s' s "w_id w"] by (auto intro: exI[of _ "wallets s"])
next
  case False
  let ?f = "if desired = ''OPEN'' then
             (\<lambda>r. r\<lparr>w_availableBalance := w_availableBalance r - held, w_reservedBalance := w_reservedBalance r + held,
                    w_version := w_version r + 1\<rparr>)
           else (\<lambda>r. r\<lparr>w_availableBalance := w_availableBalance r - held, w_version := w_version r + 1\<rparr>)"
  have s': "s' = s\<lparr>wallets := update_where (\<lambda>r. w_id r = w_id w \<and> w_version r = w_version w) ?f (wallets s)\<rparr>"
    using assms(3,4) False by (auto simp: holdFunds_def tx_simps)
  show ?thesis
    using guarded_wallet[OF assms(1,2), of ?f "- held" "if desired = ''OPEN'' then held else 0"]
    unfolding s' by auto
qed

lemma releaseHold_Inr:
  assumes "distinct (map w_id (wallets s))" "find_wallet (w_id w) s = Some w" "0 \<le> held"
    "releaseHold desired w held s = Inr (u, s')"
  shows "wallet_moved (w_id w) (if desired = ''WON'' then held else 0) (- held) s s' \<and> (\<exists>ws. s' = s\<lparr>wallets := ws\<rparr>)"
proof (cases "held = 0")
  case True
  with assms(4) have "s' = s" by (simp add: releaseHold_def tx_simps)
  moreover have "s = s\<lparr>wallets := wallets s\<rparr>" by simp
  ultimately show ?thesis using True moved_same[of s' s "w_id w"] by (auto intro: exI[of _ "wallets s"])
next
  case False
  let ?f = "if desired = ''WON'' then
             (\<lambda>r. r\<lparr>w_reservedBalance := w_reservedBalance r - held, w_availableBalance := w_availableBalance r + held,
                    w_version := w_version r + 1\<rparr>)
           else (\<lambda>r. r\<lparr>w_reservedBalance := w_reservedBalance r - held, w_version := w_version r + 1\<rparr>)"
  have s': "s' = s\<lparr>wallets := update_where (\<lambda>r. w_id r = w_id w \<and> w_version r = w_version w) ?f (wallets s)\<rparr>"
    using assms(3,4) False by (auto simp: releaseHold_def tx_simps)
  show ?thesis
    using guarded_wallet[OF assms(1,2), of ?f "if desired = ''WON'' then held else 0" "- held"]
    unfolding s' by auto
qed

lemma recordResolution_Inr:
  assumes "recordResolution env i desired w held s = Inr (tid, s')" "0 \<le> held"
  shows "ledger_gains (w_id w) (if held = 0 then [] else if desired = ''WON'' then [(''RESERVATION'', held)]
      else [(''CHARGEBACK'', - held)]) s s' \<and> (\<exists>t k. s' = s\<lparr>id_supply := k, transactions := t\<rparr>)"
proof (cases "held = 0")
  case True
  moreover have "s = s\<lparr>id_supply := id_supply s, transactions := transactions s\<rparr>" by simp
  ultimately show ?thesis using assms
    by (auto simp: recordResolution_def tx_simps ledger_gains_def intro!: exI[of _ "id_supply s"] exI[of _ "transactions s"])
next
  case False
  with assms show ?thesis
    by (auto simp: recordResolution_def tx_simps ledger_gains_def new_transaction_def)
qed

section \<open>Cases as an abstract machine\<close>

type_synonym abstract_case = "string \<times> int \<times> int \<times> int"

definition abs_case :: "payment_dispute_row \<Rightarrow> abstract_case" where
  "abs_case d = (pd_status d, pd_heldAmount d, pd_shortfallAmount d, pd_currentExposureAmount d)"

text \<open>
  What an event that asks for status \<open>desired\<close> does to a case of \<open>amount\<close>: the new case, the
  movement of the available and the reserved balance, and the ledger rows.
\<close>

fun dispute_spec ::
    "string \<Rightarrow> int \<Rightarrow> int \<Rightarrow> abstract_case option \<Rightarrow> abstract_case \<times> int \<times> int \<times> (string \<times> int) list" where
  "dispute_spec desired amount available None =
     (let h = (if desired = ''WON'' then 0 else min available amount)
      in ((desired, h, amount - h, if desired = ''WON'' then 0 else amount - h),
          - h, if desired = ''OPEN'' then h else 0,
          if h = 0 then [] else [(if desired = ''OPEN'' then ''RESERVATION'' else ''CHARGEBACK'', - h)]))"
| "dispute_spec desired amount available (Some (st, h, sf, e)) =
     (if desired = ''OPEN'' \<or> st \<noteq> ''OPEN'' then ((st, h, sf, e), 0, 0, [])
      else ((desired, h, sf, if desired = ''WON'' then 0 else sf),
            if desired = ''WON'' then h else 0, - h,
            if h = 0 then [] else [if desired = ''WON'' then (''RESERVATION'', h) else (''CHARGEBACK'', - h)]))"

text \<open>A case splits its amount into the hold and the shortfall, neither of them negative.\<close>

definition case_ok :: "payment_dispute_row \<Rightarrow> bool" where
  "case_ok d \<longleftrightarrow> pd_status d \<in> {''OPEN'', ''WON'', ''LOST''} \<and> 0 \<le> pd_heldAmount d \<and> 0 \<le> pd_shortfallAmount d
     \<and> pd_heldAmount d + pd_shortfallAmount d = pd_amount d
     \<and> pd_currentExposureAmount d = (if pd_status d = ''WON'' then 0 else pd_shortfallAmount d)"

definition case_key :: "payment_dispute_row \<Rightarrow> string \<times> string" where
  "case_key d = (pd_provider d, pd_providerDisputeId d)"

definition event_key :: "dispute_event \<Rightarrow> string \<times> string" where
  "event_key i = (de_provider i, de_providerDisputeId i)"

definition dispute_wf :: "db \<Rightarrow> bool" where
  "dispute_wf s \<longleftrightarrow> distinct (map w_id (wallets s)) \<and> distinct (map pd_id (payment_disputes s))
     \<and> distinct (map case_key (payment_disputes s)) \<and> distinct (map pv_id (provider_events s))
     \<and> (\<forall>d \<in> set (payment_disputes s). case_ok d)"

definition open_holds :: "string \<Rightarrow> db \<Rightarrow> int" where
  "open_holds wid s = sum_list (map (\<lambda>d. if pd_walletId d = wid \<and> pd_status d = ''OPEN'' then pd_heldAmount d else 0)
     (payment_disputes s))"

definition dispute_done :: "dispute_event \<Rightarrow> string \<Rightarrow> db \<Rightarrow> db \<Rightarrow> payment_dispute_row \<Rightarrow> bool" where
  "dispute_done i desired s s' d \<longleftrightarrow>
     find_case i s' = Some d \<and> (\<forall>j. event_key j \<noteq> event_key i \<longrightarrow> find_case j s' = find_case j s)
     \<and> pd_amount d = de_amountMinor i * CENT
     \<and> (case find_case i s of None \<Rightarrow> True | Some d0 \<Rightarrow> pd_walletId d = pd_walletId d0 \<and> pd_id d = pd_id d0)
     \<and> (case dispute_spec desired (pd_amount d) (available_of (pd_walletId d) s) (map_option abs_case (find_case i s)) of
          (c, a, r, rows) \<Rightarrow> abs_case d = c \<and> wallet_moved (pd_walletId d) a r s s'
            \<and> ledger_gains (pd_walletId d) rows s s'
            \<and> (\<forall>w. open_holds w s' = open_holds w s + (if w = pd_walletId d then r else 0)))"

lemma find_case_key: "find_case i s = find (\<lambda>d. case_key d = event_key i) (payment_disputes s)"
  by (simp add: find_case_def case_key_def event_key_def)

lemma find_case_in: "find_case i s = Some d \<Longrightarrow> d \<in> set (payment_disputes s) \<and> case_key d = event_key i"
  unfolding find_case_key by (rule find_key)

lemma update_case_Inr:
  assumes wf: "dispute_wf s" and d: "find_case i s = Some d"
    and f: "\<And>r. pd_id (f r) = pd_id r" "\<And>r. case_key (f r) = case_key r"
    and u: "update_case d p f s = Inr (n, s')" "n = 1"
  shows "p d" "s' = s\<lparr>payment_disputes := payment_disputes s'\<rparr>"
    "find_case i s' = Some (f d)" "event_key j \<noteq> event_key i \<Longrightarrow> find_case j s' = find_case j s"
    "map pd_id (payment_disputes s') = map pd_id (payment_disputes s)"
    "map case_key (payment_disputes s') = map case_key (payment_disputes s)"
    "set (payment_disputes s') \<subseteq> insert (f d) (set (payment_disputes s))"
    "\<And>g :: payment_dispute_row \<Rightarrow> int. sum_list (map g (payment_disputes s'))
       = sum_list (map g (payment_disputes s)) + (g (f d) - g d)"
proof -
  let ?p = "\<lambda>r. pd_id r = pd_id d \<and> p r"
  have s': "s' = s\<lparr>payment_disputes := update_where ?p f (payment_disputes s)\<rparr>"
    and c: "count_where ?p (payment_disputes s) = 1"
    using u by (auto simp: update_case_def tx_simps)
  have din: "d \<in> set (payment_disputes s)" "case_key d = event_key i" using find_case_in[OF d] by auto
  have ids: "distinct (map pd_id (payment_disputes s))" "distinct (map case_key (payment_disputes s))"
    using wf by (simp_all add: dispute_wf_def)
  have only: "r = d" if "r \<in> set (payment_disputes s)" "?p r" for r
    using distinct_key_eq[OF ids(1) that(1) din(1)] that(2) by simp
  obtain r where "r \<in> set (payment_disputes s)" "?p r"
    using c count_where_pos[of ?p "payment_disputes s"] by auto
  with only show pd: "p d" by blast
  show "s' = s\<lparr>payment_disputes := payment_disputes s'\<rparr>" by (simp add: s')
  have fc: "find_case k s' = map_option (\<lambda>r. if ?p r then f r else r) (find_case k s)" for k
    unfolding find_case_key s' by (simp add: find_update_where f(2))
  show "find_case i s' = Some (f d)" unfolding fc d using pd by simp
  show "find_case j s' = find_case j s" if k: "event_key j \<noteq> event_key i"
  proof (cases "find_case j s")
    case (Some r)
    with k din only[of r] find_case_in[OF Some] show ?thesis by (auto simp: fc)
  qed (simp add: fc)
  show "map pd_id (payment_disputes s') = map pd_id (payment_disputes s)"
    "map case_key (payment_disputes s') = map case_key (payment_disputes s)"
    by (simp_all add: s' map_update_where f)
  show "set (payment_disputes s') \<subseteq> insert (f d) (set (payment_disputes s))"
    using only by (auto simp: s' update_where_def)
  show "sum_list (map g (payment_disputes s')) = sum_list (map g (payment_disputes s)) + (g (f d) - g d)"
    for g :: "payment_dispute_row \<Rightarrow> int"
    using sum_update_key[OF ids(1) din(1), of ?p g f] pd by (simp add: s')
qed

text \<open>The lease of the event is consumed: it was held before and is processed afterwards.\<close>

definition consumed :: "dispute_event \<Rightarrow> db \<Rightarrow> db \<Rightarrow> bool" where
  "consumed i s s' \<longleftrightarrow>
     (\<exists>e. find_provider_event (de_providerEventRowId i) s = Some e \<and> leased i e)
     \<and> (\<exists>e. find_provider_event (de_providerEventRowId i) s' = Some e \<and> pv_status e = ''PROCESSED'')"

definition processed :: "dispute_event \<Rightarrow> db \<Rightarrow> bool" where
  "processed i s \<longleftrightarrow> (\<exists>e. find_provider_event (de_providerEventRowId i) s = Some e \<and> pv_status e = ''PROCESSED'')"

lemma done_same: "same_money s1 s2 \<Longrightarrow> dispute_done i desired s s1 d \<Longrightarrow> dispute_done i desired s s2 d"
  unfolding dispute_done_def same_money_def
  by (simp add: find_case_def open_holds_def wallet_moved_def ledger_gains_def available_of_def reserved_of_def
      find_wallet_def wallet_total_def split: prod.splits)

lemma wf_same: "same_money s1 s2 \<Longrightarrow> map pv_id (provider_events s2) = map pv_id (provider_events s1) \<Longrightarrow>
    dispute_wf s1 \<Longrightarrow> dispute_wf s2"
  by (simp add: dispute_wf_def same_money_def)

text \<open>How every path ends: the hooks touch no table of the model's, and the event is completed.\<close>

lemma finish:
  assumes c: "completeEvent env dep pid i s1 = Inr (u, s')" and wf: "dispute_wf s1"
    and i: "same_inbox s s1" "same_rest s s1" and d: "dispute_done i desired s s1 d"
  shows "dispute_wf s' \<and> same_rest s s' \<and> consumed i s s' \<and> dispute_done i desired s s' d"
proof -
  have "distinct (map pv_id (provider_events s1))" using wf by (simp add: dispute_wf_def)
  note k = completeEvent_Inr[OF c this]
  have m: "same_money s1 s'" "map pv_id (provider_events s') = map pv_id (provider_events s1)" "same_rest s1 s'"
    using k by auto
  have "find_provider_event (de_providerEventRowId i) s1 = find_provider_event (de_providerEventRowId i) s"
    using i(1) by (simp add: find_provider_event_def same_inbox_def)
  then have "consumed i s s'" using k unfolding consumed_def by auto
  with wf_same[OF m(1,2) wf] done_same[OF m(1) d] same_trans(2)[OF i(2) m(3)] show ?thesis by simp
qed

lemma replayOpen_Inr:
  assumes wf: "dispute_wf s" and h: "hooks_ok hooks" and d: "find_case i s = Some d"
    and amount: "pd_amount d = de_amountMinor i * CENT"
    and r: "replayOpen env hooks i deposit d s = Inr (oc, s')"
  shows "dispute_wf s' \<and> same_rest s s' \<and> consumed i s s' \<and> (\<exists>d'. dispute_done i ''OPEN'' s s' d')"
proof -
  let ?f = "\<lambda>r. r\<lparr>pd_openedByEventId := Some (de_providerEventRowId i), pd_openedAt := Some (env_now env),
               pd_version := pd_version r + 1\<rparr>"
  obtain u s1 where a: "attachOpenEvidence env hooks i d s = Inr (u, s1)"
    and rest: "andThen (if pd_status d = ''OPEN'' then
         (case dh_notifyCustomer hooks of None \<Rightarrow> ret () | Some notify \<Rightarrow> notify (da_id (ld_attempt deposit)))
       else ret ()) (\<lambda>_. completeEvent env (da_id (ld_attempt deposit)) (pd_id d) i) s1 = Inr ((), s')"
    using r by (auto simp: replayOpen_def tx_simps)
  have 1: "dispute_wf s1 \<and> same_rest s s1 \<and> same_inbox s s1 \<and> (\<exists>d'. dispute_done i ''OPEN'' s s1 d')"
  proof (cases "truthy (pd_openedByEventId d)")
    case True
    then have "s1 = s" using a by (simp add: attachOpenEvidence_def tx_simps)
    moreover have "dispute_done i ''OPEN'' s s d"
      using d amount moved_same[of s s] gains_none[of s s]
      by (cases "abs_case d") (simp add: dispute_done_def)
    ultimately show ?thesis using wf by auto
  next
    case False
    then obtain s0 v where u0: "update_case d
        (\<lambda>r. pd_version r = pd_version d \<and> pd_openedByEventId r = None \<and> pd_openedAt r = None) ?f s = Inr (1, s0)"
      and au: "same_money s0 s1 \<and> same_rest s0 s1 \<and> same_inbox s0 s1"
      using a hooksD(1)[OF h] by (auto simp: attachOpenEvidence_def tx_simps)
    note u1 = update_case_Inr[OF wf d _ _ u0 refl, unfolded case_key_def, simplified]
    have "case_ok d" using wf find_case_in[OF d] by (simp add: dispute_wf_def)
    then have ok: "case_ok (?f d)" by (simp add: case_ok_def)
    obtain ds where s0: "s0 = s\<lparr>payment_disputes := ds\<rparr>" using u1(2) by blast
    have "dispute_wf s0"
      using wf u1(5,6,7) ok unfolding dispute_wf_def case_key_def
      by (auto simp: s0)
    then have wf1: "dispute_wf s1" using au wf_same[of s0 s1] by (simp add: same_inbox_def)
    have g: "open_holds w s0 = open_holds w s" for w
      unfolding open_holds_def u1(8) by simp
    have "dispute_done i ''OPEN'' s s0 (?f d)"
      unfolding dispute_done_def u1(3) d option.case option.map
      using amount u1(4) moved_same[of s0 s] gains_none[of s0 s] g
      by (cases "abs_case d") (auto simp: abs_case_def s0 event_key_def)
    then have "dispute_done i ''OPEN'' s s1 (?f d)" using done_same au by blast
    with wf1 au same_trans[of s s0 s1] show ?thesis
      by (auto simp: s0 same_rest_def same_inbox_def)
  qed
  then obtain d' where d': "dispute_wf s1" "same_rest s s1" "same_inbox s s1" "dispute_done i ''OPEN'' s s1 d'" by blast
  obtain s2 where s2: "completeEvent env (da_id (ld_attempt deposit)) (pd_id d) i s2 = Inr ((), s')"
    and n: "same_money s1 s2 \<and> same_rest s1 s2 \<and> same_inbox s1 s2"
    using rest hooksD(3)[OF h] by (auto simp: tx_simps split: if_splits)
  have "dispute_wf s2" using wf_same[of s1 s2] n d'(1) by (simp add: same_inbox_def)
  from finish[OF s2 this same_trans(3)[OF d'(3)] same_trans(2)[OF d'(2)] done_same[OF _ d'(4)]] n
  show ?thesis by blast
qed

lemma replayTerminal_Inr:
  assumes wf: "dispute_wf s" and d: "find_case i s = Some d" "pd_status d \<noteq> ''OPEN''"
    and amount: "pd_amount d = de_amountMinor i * CENT"
    and r: "replayTerminal env i desired deposit d s = Inr (oc, s')"
  shows "pd_status d = desired \<and> dispute_wf s' \<and> same_rest s s' \<and> consumed i s s'
    \<and> dispute_done i desired s s' d"
proof -
  have c: "completeEvent env (da_id (ld_attempt deposit)) (pd_id d) i s = Inr ((), s')" and "pd_status d = desired"
    using r by (auto simp: replayTerminal_def tx_simps)
  moreover have "dispute_done i desired s s d"
    using d amount moved_same[of s s] gains_none[of s s]
    by (simp add: dispute_done_def abs_case_def)
  ultimately show ?thesis using finish[OF c wf same_refl(3,2), of desired d] by simp
qed

lemma resolveCase_Inr:
  assumes wf: "dispute_wf s" and h: "hooks_ok hooks" and d: "find_case i s = Some d" "pd_status d = ''OPEN''"
    and desired: "desired = ''WON'' \<or> desired = ''LOST''"
    and amount: "pd_amount d = de_amountMinor i * CENT"
    and r: "resolveCase env hooks i desired deposit d s = Inr (oc, s')"
  shows "dispute_wf s' \<and> same_rest s s' \<and> consumed i s s' \<and> (\<exists>d'. dispute_done i desired s s' d')"
proof -
  let ?held = "pd_heldAmount d" and ?x = "if desired = ''WON'' then 0 else pd_shortfallAmount d"
  have ok: "case_ok d" using wf find_case_in[OF d(1)] by (simp add: dispute_wf_def)
  then have held: "0 \<le> ?held" by (simp add: case_ok_def)
  obtain w u1 s1 tid s2 u3 s3 s4 where w: "find_wallet (pd_walletId d) s = Some w"
    and r1: "releaseHold desired w ?held s = Inr (u1, s1)"
    and r2: "recordResolution env i desired w ?held s1 = Inr (tid, s2)"
    and r3: "closeCase env i desired d tid ?x s2 = Inr (u3, s3)"
    and au: "same_money s3 s4 \<and> same_rest s3 s4 \<and> same_inbox s3 s4"
    and r4: "completeEvent env (da_id (ld_attempt deposit)) (pd_id d) i s4 = Inr ((), s')"
  proof (cases "find_wallet (pd_walletId d) s")
    case None
    with r show ?thesis by (simp add: resolveCase_def Let_def tx_simps)
  next
    case (Some w)
    with r obtain u1 s1 tid s2 u3 s3 u4 s4 u5 s5 au no where x:
      "releaseHold desired w ?held s = Inr (u1, s1)" "recordResolution env i desired w ?held s1 = Inr (tid, s2)"
      "closeCase env i desired d tid ?x s2 = Inr (u3, s3)"
      "dh_audit hooks au s3 = Inr (u4, s4)" "dh_notifyFinance hooks no s4 = Inr (u5, s5)"
      "completeEvent env (da_id (ld_attempt deposit)) (pd_id d) i s5 = Inr ((), s')"
      by (auto simp: resolveCase_def Let_def tx_simps)
    have "same_money s3 s5 \<and> same_rest s3 s5 \<and> same_inbox s3 s5"
      using hooksD(1)[OF h x(4)] hooksD(2)[OF h x(5)] same_trans by blast
    from that[OF Some x(1,2,3) this x(6)] show ?thesis .
  qed
  have wid: "w_id w = pd_walletId d" using find_key[OF w[unfolded find_wallet_def]] by simp
  have dw: "distinct (map w_id (wallets s))" using wf by (simp add: dispute_wf_def)
  obtain ws where m1: "wallet_moved (pd_walletId d) (if desired = ''WON'' then ?held else 0) (- ?held) s s1"
    and s1: "s1 = s\<lparr>wallets := ws\<rparr>"
    using releaseHold_Inr[OF dw _ held r1] w wid by auto
  obtain t k where m2: "ledger_gains (pd_walletId d) (if ?held = 0 then [] else if desired = ''WON''
      then [(''RESERVATION'', ?held)] else [(''CHARGEBACK'', - ?held)]) s1 s2"
    and s2: "s2 = s1\<lparr>id_supply := k, transactions := t\<rparr>"
    using recordResolution_Inr[OF r2 held] wid by auto
  let ?f = "\<lambda>r. r\<lparr>pd_status := desired, pd_providerStatus := de_providerStatus i,
              pd_resolvedByEventId := Some (de_providerEventRowId i), pd_resolutionTransactionId := tid,
              pd_currentExposureAmount := ?x, pd_resolvedAt := Some (env_now env), pd_version := pd_version r + 1\<rparr>"
  have wf2: "dispute_wf s2" using wf m1 by (simp add: s1 s2 dispute_wf_def wallet_moved_def)
  have d2: "find_case i s2 = Some d" using d(1) by (simp add: s1 s2 find_case_def)
  have u0: "update_case d (\<lambda>r. pd_status r = ''OPEN'' \<and> pd_version r = pd_version d \<and> pd_resolutionTransactionId r = None)
      ?f s2 = Inr (1, s3)"
    using r3 by (auto simp: closeCase_def tx_simps)
  note u = update_case_Inr[OF wf2 d2 _ _ u0 refl, unfolded case_key_def, simplified]
  have okf: "case_ok (?f d)" using ok desired by (auto simp: case_ok_def)
  obtain ds where s3: "s3 = s2\<lparr>payment_disputes := ds\<rparr>" using u(2) by blast
  have "dispute_wf s3" using wf2 u(5,6,7) okf unfolding dispute_wf_def case_key_def by (auto simp: s3)
  then have wf4: "dispute_wf s4" using au wf_same[of s3 s4] by (simp add: same_inbox_def)
  have holds: "open_holds v s3 = open_holds v s + (if v = pd_walletId d then - ?held else 0)" for v
  proof -
    have "open_holds v s3 = open_holds v s2 + (if v = pd_walletId d then - ?held else 0)"
      unfolding open_holds_def u(8) using d(2) desired by auto
    then show ?thesis by (simp add: open_holds_def s1 s2)
  qed
  have others: "find_case j s3 = find_case j s" if "event_key j \<noteq> event_key i" for j
    using u(4)[OF that] by (simp add: s1 s2 find_case_def)
  have W: "wallet_moved (pd_walletId d) (if desired = ''WON'' then ?held else 0) (- ?held) s s3"
    using m1 moved_wallets[where s = s and t = s and t' = s3 and s' = s1] by (simp add: s2 s3)
  have L: "ledger_gains (pd_walletId d) (if ?held = 0 then [] else if desired = ''WON''
      then [(''RESERVATION'', ?held)] else [(''CHARGEBACK'', - ?held)]) s s3"
    using m2 gains_ledger[where s = s1 and t = s and s' = s2 and t' = s3] by (simp add: s1 s3)
  have O: "desired \<noteq> ''OPEN''" using desired by auto
  have "dispute_done i desired s s3 (?f d)"
    unfolding dispute_done_def u(3) d(1) option.case option.map
    using amount W L holds others by (simp add: abs_case_def d(2) O split: if_splits)
  then have "dispute_done i desired s s4 (?f d)" using done_same au by blast
  moreover have "same_inbox s s4" "same_rest s s4"
    using au by (auto simp: s1 s2 s3 same_inbox_def same_rest_def)
  ultimately show ?thesis using finish[OF r4 wf4] by blast
qed

section \<open>Booking\<close>

text \<open>The amount text of an event read from its row is the amount in cents.\<close>

definition normalized :: "dispute_event \<Rightarrow> bool" where
  "normalized i \<longleftrightarrow> 0 < de_amountMinor i \<and> de_amount i = stored_amount_text (de_amountMinor i)"

lemma stored_amount_usd: "0 \<le> m \<Longrightarrow> stored_amount_text m = usdAmount m"
proof -
  assume "0 \<le> m"
  then have "\<not> m div 100 < 0" "\<not> m mod 100 < 0" "nat (m div 100) = nat m div 100" "nat (m mod 100) = nat m mod 100"
    by (simp_all add: nat_div_distrib nat_mod_distrib not_less)
  with \<open>0 \<le> m\<close> show ?thesis by (simp add: stored_amount_text_def usdAmount_def int_text_def Let_def)
qed

lemma normalized_amount [simp]:
  assumes "normalized i"
  shows "scaledDecimal (JText (de_amount i)) = Inr (de_amountMinor i * CENT)"
    "db_decimal (de_amount i) = de_amountMinor i * CENT" "0 < de_amountMinor i * CENT"
  using assms CENT_pos by (simp_all add: normalized_def stored_amount_usd scaledDecimal_usdAmount)

lemma create_dispute_Inr [tx_simps]:
  "create_dispute env d s = Inr r \<longleftrightarrow>
     list_all (\<lambda>r. pd_id r \<noteq> env_cuid env (id_supply s)) (payment_disputes s) \<and> dispute_unique d (payment_disputes s)
     \<and> r = (env_cuid env (id_supply s), s\<lparr>id_supply := id_supply s + 1,
           payment_disputes := payment_disputes s @ [d\<lparr>pd_id := env_cuid env (id_supply s)\<rparr>]\<rparr>)"
  by (auto simp: create_dispute_def tx_simps)

lemma create_case:
  assumes wf: "dispute_wf s" and new: "find_case i s = None" "case_key d = event_key i" "case_ok d"
    and c: "create_dispute env d s = Inr (k, s')"
  shows "dispute_wf s'" "find_case i s' = Some (d\<lparr>pd_id := k\<rparr>)"
    "event_key j \<noteq> event_key i \<Longrightarrow> find_case j s' = find_case j s"
    "open_holds v s' = open_holds v s + (if v = pd_walletId d \<and> pd_status d = ''OPEN'' then pd_heldAmount d else 0)"
proof -
  have s': "s' = s\<lparr>id_supply := id_supply s + 1, payment_disputes := payment_disputes s @ [d\<lparr>pd_id := k\<rparr>]\<rparr>"
    and id: "k \<notin> pd_id ` set (payment_disputes s)"
    using c by (auto simp: tx_simps list_all_iff)
  have key: "event_key i \<notin> case_key ` set (payment_disputes s)"
    using new(1) by (auto simp: find_case_key find_none)
  have k: "case_key (d\<lparr>pd_id := k\<rparr>) = event_key i" using new(2) by (simp add: case_key_def)
  have ok: "case_ok (d\<lparr>pd_id := k\<rparr>)" using new(3) by (simp add: case_ok_def)
  show "dispute_wf s'" using wf id key k ok by (simp add: dispute_wf_def s')
  show "find_case i s' = Some (d\<lparr>pd_id := k\<rparr>)"
    using new(1) k by (simp add: find_case_key s' find_append)
  show "find_case j s' = find_case j s" if "event_key j \<noteq> event_key i"
    using that k by (simp add: find_case_key s' find_append split: option.split)
  show "open_holds v s' = open_holds v s + (if v = pd_walletId d \<and> pd_status d = ''OPEN'' then pd_heldAmount d else 0)"
    by (simp add: open_holds_def s')
qed

lemma ledger_row:
  assumes "(if held > 0 then
         andThen (create_transaction env (new_transaction\<lparr>t_walletId := Some wid,
           t_amount := db_decimal (decimalString (- held)), t_currency := cur, t_type := kind,
           t_reference := Some ref, t_description := Some desc\<rparr>)) (\<lambda>k. ret (Some k))
       else ret None) s = Inr (tid, s')" "0 \<le> held"
  shows "ledger_gains wid (if held = 0 then [] else [(kind, - held)]) s s' \<and> (\<exists>t k. s' = s\<lparr>id_supply := k, transactions := t\<rparr>)"
proof (cases "held = 0")
  case True
  moreover have "s = s\<lparr>id_supply := id_supply s, transactions := transactions s\<rparr>" by simp
  ultimately show ?thesis using assms
    by (auto simp: tx_simps ledger_gains_def intro!: exI[of _ "id_supply s"] exI[of _ "transactions s"])
next
  case False
  with assms show ?thesis by (auto simp: tx_simps ledger_gains_def new_transaction_def)
qed

text \<open>Both ways to book a case: a ledger row for a hold that is not empty, the case, the notices.\<close>

definition booked ::
    "env \<Rightarrow> dispute_event \<Rightarrow> linked_deposit \<Rightarrow> wallet_row \<Rightarrow> string \<Rightarrow> string \<Rightarrow> int \<Rightarrow> int \<Rightarrow> int \<Rightarrow> db \<Rightarrow> db \<Rightarrow> bool" where
  "booked env i deposit w status kind held sf x s1 s' \<longleftrightarrow>
     (\<exists>s2 row k s3 s4. ledger_gains (w_id w) (if held = 0 then [] else [(kind, - held)]) s1 s2
        \<and> (\<exists>t k. s2 = s1\<lparr>id_supply := k, transactions := t\<rparr>)
        \<and> case_key row = event_key i \<and> abs_case row = (status, held, sf, x) \<and> pd_walletId row = w_id w
        \<and> pd_amount row = db_decimal (de_amount i)
        \<and> create_dispute env row s2 = Inr (k, s3) \<and> same_money s3 s4 \<and> same_rest s3 s4 \<and> same_inbox s3 s4
        \<and> completeEvent env (da_id (ld_attempt deposit)) k i s4 = Inr ((), s'))"

lemma case_row_fields:
  "case_key (case_row i deposit w status held sf x) = event_key i"
  "abs_case (case_row i deposit w status held sf x) = (status, held, sf, x)"
  by (simp_all add: case_row_def case_key_def event_key_def abs_case_def)

lemma openCase_Inr:
  assumes h: "hooks_ok hooks" and held: "0 \<le> held"
    and r: "openCase env hooks i deposit w held sf x s1 = Inr (oc, s')"
  shows "booked env i deposit w ''OPEN'' ''RESERVATION'' held sf x s1 s'"
proof -
  let ?r = "\<lambda>tid. case_row i deposit w ''OPEN'' held sf x\<lparr>pd_openedByEventId := Some (de_providerEventRowId i),
      pd_holdTransactionId := tid, pd_openedAt := Some (env_now env)\<rparr>"
  obtain tid s2 k s3 u4 s4 u5 s5 u6 s6 u7 au no cur rf desc where y:
    "(if held > 0 then andThen (create_transaction env (new_transaction\<lparr>t_walletId := Some (w_id w),
         t_amount := db_decimal (decimalString (- held)), t_currency := cur, t_type := ''RESERVATION'',
         t_reference := Some rf, t_description := Some desc\<rparr>)) (\<lambda>k. ret (Some k)) else ret None) s1 = Inr (tid, s2)"
    "create_dispute env (?r tid) s2 = Inr (k, s3)" "dh_audit hooks au s3 = Inr (u4, s4)"
    "dh_notifyFinance hooks no s4 = Inr (u5, s5)"
    "(case dh_notifyCustomer hooks of None \<Rightarrow> ret () | Some notify \<Rightarrow> notify (da_id (ld_attempt deposit))) s5 = Inr (u6, s6)"
    "completeEvent env (da_id (ld_attempt deposit)) k i s6 = Inr (u7, s')"
    using r unfolding openCase_def andThen_Inr ret_Inr
    by (elim exE conjE Pair_inject, hypsubst) (rule that, assumption+)
  have y6: "completeEvent env (da_id (ld_attempt deposit)) k i s6 = Inr ((), s')" using y(6) by simp
  have "same_money s3 s6 \<and> same_rest s3 s6 \<and> same_inbox s3 s6"
    using hooksD(1)[OF h y(3)] hooksD(2)[OF h y(4)] hooksD(3)[OF h y(5)] same_trans[of s3 s4 s6] same_trans[of s4 s5 s6]
    by simp
  moreover have "case_key (?r tid) = event_key i" "abs_case (?r tid) = (''OPEN'', held, sf, x)"
    "pd_walletId (?r tid) = w_id w" "pd_amount (?r tid) = db_decimal (de_amount i)"
    by (simp_all add: case_row_def case_key_def event_key_def abs_case_def)
  ultimately show ?thesis unfolding booked_def using ledger_row[OF y(1) held] y(2) y6 by blast
qed

lemma terminalCase_Inr:
  assumes h: "hooks_ok hooks" and held: "0 \<le> held"
    and r: "terminalCase env hooks i desired deposit w held sf x s1 = Inr (oc, s')"
  shows "booked env i deposit w desired ''CHARGEBACK'' held sf x s1 s'"
proof -
  let ?r = "\<lambda>tid. case_row i deposit w desired held sf x\<lparr>pd_resolvedByEventId := Some (de_providerEventRowId i),
      pd_resolutionTransactionId := tid, pd_resolvedAt := Some (env_now env)\<rparr>"
  obtain tid s2 k s3 u4 s4 u5 s5 u7 au no cur rf desc where y:
    "(if held > 0 then andThen (create_transaction env (new_transaction\<lparr>t_walletId := Some (w_id w),
         t_amount := db_decimal (decimalString (- held)), t_currency := cur, t_type := ''CHARGEBACK'',
         t_reference := Some rf, t_description := Some desc\<rparr>)) (\<lambda>k. ret (Some k)) else ret None) s1 = Inr (tid, s2)"
    "create_dispute env (?r tid) s2 = Inr (k, s3)" "dh_audit hooks au s3 = Inr (u4, s4)"
    "dh_notifyFinance hooks no s4 = Inr (u5, s5)"
    "completeEvent env (da_id (ld_attempt deposit)) k i s5 = Inr (u7, s')"
    using r unfolding terminalCase_def andThen_Inr ret_Inr
    by (elim exE conjE Pair_inject, hypsubst) (rule that, assumption+)
  have y5: "completeEvent env (da_id (ld_attempt deposit)) k i s5 = Inr ((), s')" using y(5) by simp
  have "same_money s3 s5 \<and> same_rest s3 s5 \<and> same_inbox s3 s5"
    using hooksD(1)[OF h y(3)] hooksD(2)[OF h y(4)] same_trans by blast
  moreover have "case_key (?r tid) = event_key i" "abs_case (?r tid) = (desired, held, sf, x)"
    "pd_walletId (?r tid) = w_id w" "pd_amount (?r tid) = db_decimal (de_amount i)"
    by (simp_all add: case_row_def case_key_def event_key_def abs_case_def)
  ultimately show ?thesis unfolding booked_def using ledger_row[OF y(1) held] y(2) y5 by blast
qed

lemma bookCase_Inr:
  assumes wf: "dispute_wf s" and h: "hooks_ok hooks" and new: "find_case i s = None" and n: "normalized i"
    and desired: "desired \<in> {''OPEN'', ''WON'', ''LOST''}"
    and r: "bookCase env hooks i desired deposit s = Inr (oc, s')"
  shows "dispute_wf s' \<and> same_rest s s' \<and> consumed i s s' \<and> (\<exists>d. dispute_done i desired s s' d)"
proof -
  let ?amount = "de_amountMinor i * CENT"
  obtain w where w: "find_wallet (ld_walletId deposit) s = Some w"
    using r by (cases "find_wallet (ld_walletId deposit) s") (auto simp: bookCase_def Let_def tx_simps)
  let ?h = "if desired = ''WON'' then 0 else if w_availableBalance w < ?amount then w_availableBalance w else ?amount"
  let ?x = "if desired = ''WON'' then 0 else ?amount - ?h"
  obtain u1 s1 where av: "0 \<le> w_availableBalance w" and hold: "holdFunds desired w ?h s = Inr (u1, s1)"
    and rest: "(if desired = ''OPEN'' then openCase env hooks i deposit w ?h (?amount - ?h) ?x
          else terminalCase env hooks i desired deposit w ?h (?amount - ?h) ?x) s1 = Inr (oc, s')"
    using r w n unfolding bookCase_def Let_def by (auto simp: tx_simps not_less simp del: if_Inr)
  have hn: "0 \<le> ?h" "0 \<le> ?amount - ?h" using av normalized_amount(3)[OF n] by auto
  have wid: "w_id w = ld_walletId deposit" using find_key[OF w[unfolded find_wallet_def]] by simp
  have dw: "distinct (map w_id (wallets s))" using wf by (simp add: dispute_wf_def)
  obtain ws where m1: "wallet_moved (w_id w) (- ?h) (if desired = ''OPEN'' then ?h else 0) s s1"
    and s1: "s1 = s\<lparr>wallets := ws\<rparr>"
    using holdFunds_Inr[OF dw _ hn(1) hold] w wid by auto
  let ?kind = "if desired = ''OPEN'' then ''RESERVATION'' else ''CHARGEBACK''"
  have "booked env i deposit w desired ?kind ?h (?amount - ?h) ?x s1 s'"
  proof (cases "desired = ''OPEN''")
    case True
    have rest': "openCase env hooks i deposit w ?h (?amount - ?h) ?x s1 = Inr (oc, s')"
      using rest unfolding if_P[OF True] .
    show ?thesis using openCase_Inr[OF h hn(1) rest'] unfolding if_P[OF True] unfolding True .
  next
    case False
    have rest': "terminalCase env hooks i desired deposit w ?h (?amount - ?h) ?x s1 = Inr (oc, s')"
      using rest unfolding if_not_P[OF False] .
    show ?thesis using terminalCase_Inr[OF h hn(1) rest'] unfolding if_not_P[OF False] .
  qed
  then obtain s2 row k s3 s4 where
    l: "ledger_gains (w_id w) (if ?h = 0 then [] else [(?kind, - ?h)]) s1 s2"
    and s2: "\<exists>t k. s2 = s1\<lparr>id_supply := k, transactions := t\<rparr>"
    and row: "case_key row = event_key i" "abs_case row = (desired, ?h, ?amount - ?h, ?x)" "pd_walletId row = w_id w"
      "pd_amount row = ?amount"
    and cr: "create_dispute env row s2 = Inr (k, s3)"
    and au: "same_money s3 s4 \<and> same_rest s3 s4 \<and> same_inbox s3 s4"
    and fin: "completeEvent env (da_id (ld_attempt deposit)) k i s4 = Inr ((), s')"
    unfolding booked_def normalized_amount(2)[OF n] by blast
  have wf2: "dispute_wf s2" using wf m1 s2 by (auto simp: s1 dispute_wf_def wallet_moved_def)
  have new2: "find_case i s2 = None" using new s2 by (auto simp: s1 find_case_def)
  have fields: "pd_status row = desired" "pd_heldAmount row = ?h" "pd_shortfallAmount row = ?amount - ?h"
    "pd_currentExposureAmount row = ?x"
    using row(2) by (simp_all add: abs_case_def)
  have ok: "case_ok row" using hn desired fields row(4) by (auto simp: case_ok_def)
  note c = create_case[OF wf2 new2 row(1) ok cr]
  have same2: "payment_disputes s2 = payment_disputes s" "wallets s2 = wallets s1" "same_rest s s2" "same_inbox s s2"
    "transactions s1 = transactions s"
    using s2 by (auto simp: s1 same_rest_def same_inbox_def)
  have s3: "wallets s3 = wallets s2" "transactions s3 = transactions s2" "same_rest s2 s3" "same_inbox s2 s3"
    using cr by (auto simp: tx_simps same_rest_def same_inbox_def)
  have W: "wallet_moved (w_id w) (- ?h) (if desired = ''OPEN'' then ?h else 0) s s3"
    using m1 moved_wallets[where s = s and t = s and t' = s3 and s' = s1] by (simp add: s3 same2)
  have L: "ledger_gains (w_id w) (if ?h = 0 then [] else [(?kind, - ?h)]) s s3"
    using l gains_ledger[where s = s1 and t = s and s' = s2 and t' = s3] by (simp add: s3 same2)
  have H: "open_holds v s3 = open_holds v s + (if v = w_id w then if desired = ''OPEN'' then ?h else 0 else 0)" for v
    using c(4)[of v] fields row(3) by (simp add: open_holds_def same2)
  have av_of: "available_of (w_id w) s = w_availableBalance w"
    using w wid by (simp add: available_of_def)
  have others: "find_case j s3 = find_case j s" if "event_key j \<noteq> event_key i" for j
    using c(3)[OF that] by (simp add: find_case_def same2)
  define hh where "hh = ?h"
  have spec: "dispute_spec desired ?amount (w_availableBalance w) None
      = ((desired, hh, ?amount - hh, if desired = ''WON'' then 0 else ?amount - hh), - hh,
         if desired = ''OPEN'' then hh else 0, if hh = 0 then [] else [(?kind, - hh)])"
    by (simp add: hh_def min_def Let_def)
  have D: "dispute_done i desired s s3 (row\<lparr>pd_id := k\<rparr>)"
    unfolding dispute_done_def c(2) new option.case option.map
    using row(2)[folded hh_def] row(3,4) W[folded hh_def] L[folded hh_def] H[folded hh_def] others
    by (simp add: av_of spec abs_case_def hh_def[symmetric] del: dispute_spec.simps)
  show ?thesis
    using finish[OF fin _ _ _ done_same[OF _ D]] au same_trans[of s s2 s3] same_trans[of s s3 s4] s3 same2
      wf_same[of s3 s4] c(1) by (auto simp: same_inbox_def)
qed

section \<open>The whole transaction\<close>

lemma validateEvent_Inr:
  "validateEvent i s = Inr (d, s') \<Longrightarrow>
     s' = s \<and> (\<exists>e. find_provider_event (de_providerEventRowId i) s = Some e \<and> event_exact i e)"
  by (auto simp: validateEvent_def readAndAssertEvent_def findLinkedDeposit_def tx_simps
      split: option.splits if_splits)

lemma exactCase_amount:
  "normalized i \<Longrightarrow> assertExactCase d i deposit = Inr u \<Longrightarrow> pd_amount d = de_amountMinor i * CENT"
  by (auto simp: assertExactCase_def split: if_splits)

lemma target_statuses: "paymentDisputeTargetStatus i = Inr desired \<Longrightarrow> desired \<in> {''OPEN'', ''WON'', ''LOST''}"
  by (auto simp: paymentDisputeTargetStatus_def split: if_splits)

lemma paymentDisputeTx_unfold:
  assumes "paymentDisputeTx env hooks i desired s = Inr (oc, s')"
  obtains deposit where "validateEvent i s = Inr (deposit, s)"
    "(case find_case i s of
       Some existing \<Rightarrow>
         andThen (lift_sum id (assertExactCase existing i deposit)) (\<lambda>_.
         if desired = ''OPEN'' then replayOpen env hooks i deposit existing
         else if pd_status existing \<noteq> ''OPEN'' then replayTerminal env i desired deposit existing
         else resolveCase env hooks i desired deposit existing)
     | None \<Rightarrow> bookCase env hooks i desired deposit) s = Inr (oc, s')"
proof -
  obtain deposit s1 where v: "validateEvent i s = Inr (deposit, s1)"
    using assms by (auto simp: paymentDisputeTx_def tx_simps)
  note st = validateEvent_Inr[OF v]
  show ?thesis
    using that[of deposit] v assms st
    by (auto simp: paymentDisputeTx_def assertCurrentStripeMode_def lockWalletForUpdate_def
        andThen_Inr ret_Inr query_Inr lift_sum_Inr)
qed

lemma paymentDisputeTx_Inr:
  assumes wf: "dispute_wf s" and h: "hooks_ok hooks" and n: "normalized i"
    and desired: "desired \<in> {''OPEN'', ''WON'', ''LOST''}"
    and run: "paymentDisputeTx env hooks i desired s = Inr (oc, s')"
  shows "dispute_wf s' \<and> same_rest s s' \<and> consumed i s s' \<and> (\<exists>d. dispute_done i desired s s' d)"
proof -
  obtain deposit where r: "(case find_case i s of
       Some existing \<Rightarrow>
         andThen (lift_sum id (assertExactCase existing i deposit)) (\<lambda>_.
         if desired = ''OPEN'' then replayOpen env hooks i deposit existing
         else if pd_status existing \<noteq> ''OPEN'' then replayTerminal env i desired deposit existing
         else resolveCase env hooks i desired deposit existing)
     | None \<Rightarrow> bookCase env hooks i desired deposit) s = Inr (oc, s')"
    by (rule paymentDisputeTx_unfold[OF run])
  show ?thesis
  proof (cases "find_case i s")
    case None
    then have "bookCase env hooks i desired deposit s = Inr (oc, s')" using r by simp
    from bookCase_Inr[OF wf h None n desired this] show ?thesis .
  next
    case (Some d)
    obtain u where x: "assertExactCase d i deposit = Inr u" and b:
      "(if desired = ''OPEN'' then replayOpen env hooks i deposit d
         else if pd_status d \<noteq> ''OPEN'' then replayTerminal env i desired deposit d
         else resolveCase env hooks i desired deposit d) s = Inr (oc, s')"
      using r unfolding Some option.case andThen_Inr lift_sum_Inr by auto
    note am = exactCase_amount[OF n x]
    consider "desired = ''OPEN''" | "desired \<noteq> ''OPEN''" "pd_status d \<noteq> ''OPEN''"
      | "desired \<noteq> ''OPEN''" "pd_status d = ''OPEN''" by blast
    then show ?thesis
    proof cases
      case 1
      then have "replayOpen env hooks i deposit d s = Inr (oc, s')" using b by simp
      from replayOpen_Inr[OF wf h Some am this] 1 show ?thesis by simp
    next
      case 2
      then have "replayTerminal env i desired deposit d s = Inr (oc, s')" using b by simp
      from replayTerminal_Inr[OF wf Some 2(2) am this] show ?thesis by blast
    next
      case 3
      then have c: "resolveCase env hooks i desired deposit d s = Inr (oc, s')" using b by simp
      have "desired = ''WON'' \<or> desired = ''LOST''" using 3 desired by auto
      from resolveCase_Inr[OF wf h Some 3(2) this am c] show ?thesis .
    qed
  qed
qed

lemma consumed_row: "de_providerEventRowId j = de_providerEventRowId i \<Longrightarrow> consumed i s s' \<Longrightarrow> processed j s'"
  by (auto simp: consumed_def processed_def)

lemma consumed_once:
  assumes "processed i s'"
  shows "\<exists>e. paymentDisputeTx env hooks i desired s' = Inl e"
proof (rule ccontr)
  assume "\<not> ?thesis"
  then obtain oc t where "paymentDisputeTx env hooks i desired s' = Inr (oc, t)"
    by (cases "paymentDisputeTx env hooks i desired s'") auto
  then obtain dep where "validateEvent i s' = Inr (dep, s')" by (rule paymentDisputeTx_unfold)
  with validateEvent_Inr assms show False by (fastforce simp: processed_def event_exact_def)
qed

section \<open>Consequences\<close>

text \<open>Open cases are covered by the reserved balance, and no wallet is overdrawn.\<close>

definition holds_covered :: "db \<Rightarrow> bool" where
  "holds_covered s \<longleftrightarrow>
     (\<forall>w \<in> set (wallets s). 0 \<le> w_availableBalance w \<and> open_holds (w_id w) s \<le> w_reservedBalance w)"

definition chargebacks :: "db \<Rightarrow> int" where
  "chargebacks s = sum_list (map t_amount (filter (\<lambda>t. t_type t = ''CHARGEBACK'') (transactions s)))"

lemma covered_of:
  assumes "dispute_wf s"
  shows "holds_covered s \<longleftrightarrow> (\<forall>i \<in> w_id ` set (wallets s). 0 \<le> available_of i s \<and> open_holds i s \<le> reserved_of i s)"
  using find_wallet_in assms by (auto simp: holds_covered_def available_of_def reserved_of_def dispute_wf_def)

lemma done_covered:
  assumes wf: "dispute_wf s" "dispute_wf s'" and c: "holds_covered s" and d: "dispute_done i desired s s' d"
  shows "holds_covered s'"
proof -
  obtain cs a r rows where sp: "dispute_spec desired (pd_amount d) (available_of (pd_walletId d) s)
      (map_option abs_case (find_case i s)) = (cs, a, r, rows)"
    by (cases "dispute_spec desired (pd_amount d) (available_of (pd_walletId d) s)
      (map_option abs_case (find_case i s))")
  then have m: "abs_case d = cs" "wallet_moved (pd_walletId d) a r s s'"
      "\<forall>w. open_holds w s' = open_holds w s + (if w = pd_walletId d then r else 0)"
    using d by (simp_all add: dispute_done_def)
  have held: "0 \<le> h" if "find_case i s = Some d0" "abs_case d0 = (st, h, sf, e)" for d0 st h sf e
    using that wf(1) find_case_in[OF that(1)] by (auto simp: dispute_wf_def case_ok_def abs_case_def)
  have a: "0 \<le> available_of (pd_walletId d) s + a" if "0 \<le> available_of (pd_walletId d) s"
  proof (cases "find_case i s")
    case None
    with sp that show ?thesis by (auto simp: Let_def min_def split: if_splits)
  next
    case (Some d0)
    obtain st h sf e where "abs_case d0 = (st, h, sf, e)" by (cases "abs_case d0")
    with sp that held[OF Some this] Some show ?thesis by (auto split: if_splits)
  qed
  have ids: "w_id ` set (wallets s') = w_id ` set (wallets s)"
    using m(2) unfolding wallet_moved_def by (metis list.set_map)
  show ?thesis unfolding covered_of[OF wf(2)] ids
  proof
    fix i assume "i \<in> w_id ` set (wallets s)"
    with c have "0 \<le> available_of i s" "open_holds i s \<le> reserved_of i s" by (auto simp: covered_of[OF wf(1)])
    with m(2,3) a show "0 \<le> available_of i s' \<and> open_holds i s' \<le> reserved_of i s'"
      by (cases "i = pd_walletId d") (simp_all add: wallet_moved_def)
  qed
qed

lemma chargebacks_gain:
  "ledger_gains wid rows s s' \<Longrightarrow> chargebacks s' = chargebacks s + sum_list (map snd (filter (\<lambda>r. fst r = ''CHARGEBACK'') rows))"
  using ledger_sum_gain[of wid rows s s' "''CHARGEBACK''"] by (simp add: chargebacks_def ledger_sum_def)

text \<open>In the abstract machine only a lost dispute takes money, and exactly what its row says.\<close>

lemma spec_conserves:
  "dispute_spec desired amount available c = (c', a, r, rows) \<Longrightarrow> desired \<in> {''OPEN'', ''WON'', ''LOST''} \<Longrightarrow>
     a + r = sum_list (map snd (filter (\<lambda>x. fst x = ''CHARGEBACK'') rows))"
  by (cases "(desired, amount, available, c)" rule: dispute_spec.cases) (auto simp: Let_def split: if_splits)

lemma done_conserves:
  assumes "dispute_done i desired s s' d" "desired \<in> {''OPEN'', ''WON'', ''LOST''}"
  shows "wallet_total s' - chargebacks s' = wallet_total s - chargebacks s"
proof -
  obtain cs a r rows where sp: "dispute_spec desired (pd_amount d) (available_of (pd_walletId d) s)
      (map_option abs_case (find_case i s)) = (cs, a, r, rows)"
    by (cases "dispute_spec desired (pd_amount d) (available_of (pd_walletId d) s)
      (map_option abs_case (find_case i s))")
  then have m: "wallet_moved (pd_walletId d) a r s s'" "ledger_gains (pd_walletId d) rows s s'"
    using assms(1) by (simp_all add: dispute_done_def)
  show ?thesis
    using m(1) chargebacks_gain[OF m(2)] spec_conserves[OF sp assms(2)] by (simp add: wallet_moved_def)
qed

lemma done_final:
  assumes "dispute_done i desired s s' d" "find_case i s = Some d0" "pd_status d0 \<noteq> ''OPEN''"
  shows "abs_case d = abs_case d0 \<and> wallet_moved (pd_walletId d) 0 0 s s' \<and> transactions s' = transactions s"
  using assms by (cases "abs_case d0") (auto simp: dispute_done_def abs_case_def ledger_gains_def)

lemma terminal_contradiction:
  assumes "find_case i s = Some d" "pd_status d \<noteq> ''OPEN''" "desired \<noteq> ''OPEN''" "pd_status d \<noteq> desired"
  shows "\<exists>e. paymentDisputeTx env hooks i desired s = Inl e"
proof (rule ccontr)
  assume "\<not> ?thesis"
  then obtain oc t where "paymentDisputeTx env hooks i desired s = Inr (oc, t)"
    by (cases "paymentDisputeTx env hooks i desired s") auto
  then show False
    by (rule paymentDisputeTx_unfold) (use assms in \<open>auto simp: replayTerminal_def tx_simps\<close>)
qed

section \<open>The retry loop\<close>

lemma transition_loop_trace:
  assumes "transition_loop env hooks i desired w left n raced validated s = (r, s')"
  shows "\<exists>k \<le> left. case r of
           Inr oc \<Rightarrow> k < left \<and> snd (w (n + k)) = None
             \<and> paymentDisputeTx env hooks i desired (interfere w n k s) = Inr (oc, s')
         | Inl e \<Rightarrow> s' = interfere w n k s"
  using assms
proof (induction left arbitrary: n raced validated s)
  case 0
  then show ?case by (auto intro: exI[of _ 0])
next
  case (Suc left)
  show ?case
  proof (cases "attempt_tx (snd (w n)) (paymentDisputeTx env hooks i desired) s")
    case (Inr p)
    obtain oc t where p: "p = (oc, t)" by (cases p)
    with Inr Suc.prems show ?thesis
      by (intro exI[of _ 0]) (auto simp: attempt_tx_def split: option.splits)
  next
    case (Inl e)
    let ?s1 = "fst (w n) s"
    have "(\<exists>e'. r = Inl e' \<and> s' = ?s1)
        \<or> (\<exists>v. transition_loop env hooks i desired w left (n + 1) True v ?s1 = (r, s'))"
      using Suc.prems Inl by (auto simp: Let_def split: if_splits option.splits sum.splits)
    then show ?thesis
    proof
      assume "\<exists>e'. r = Inl e' \<and> s' = ?s1"
      then show ?thesis by (intro exI[of _ "Suc 0"]) auto
    next
      assume "\<exists>v. transition_loop env hooks i desired w left (n + 1) True v ?s1 = (r, s')"
      then obtain k where "k \<le> left" "case r of
           Inr oc \<Rightarrow> k < left \<and> snd (w (n + 1 + k)) = None
             \<and> paymentDisputeTx env hooks i desired (interfere w (n + 1) k ?s1) = Inr (oc, s')
         | Inl e \<Rightarrow> s' = interfere w (n + 1) k ?s1"
        using Suc.IH by blast
      then show ?thesis by (intro exI[of _ "Suc k"]) (auto split: sum.splits)
    qed
  qed
qed

section \<open>An example\<close>

text \<open>A dispute of 3 USD over a deposit of 3 USD, of which the wallet still has 2 USD.\<close>

definition example_dispute :: dispute_event where
  "example_dispute = \<lparr>de_provider = ''stripe'', de_providerEventRowId = ''e1'', de_claimAttempt = 1,
     de_claimLockedAt = 99999000, de_providerEventId = ''evt_1'', de_eventType = ''charge.dispute.created'',
     de_providerDisputeId = ''dp_1'', de_providerPaymentId = ''pi_1'', de_providerChargeId = None,
     de_amountMinor = 300, de_amount = ''3.00'', de_currency = ''USD'', de_providerStatus = ''needs_response'',
     de_livemode = False, de_eventFingerprint = ''f1''\<rparr>"

definition example_inbox_row :: "dispute_event \<Rightarrow> provider_event_row" where
  "example_inbox_row i = \<lparr>pv_id = de_providerEventRowId i, pv_provider = ''stripe'',
     pv_providerEventId = de_providerEventId i, pv_eventType = de_eventType i,
     pv_objectId = Some (de_providerDisputeId i), pv_depositAttemptId = None, pv_paymentDisputeId = None,
     pv_providerPaymentId = Some (de_providerPaymentId i), pv_providerChargeId = None,
     pv_disputeAmountMinor = Some (de_amountMinor i), pv_disputeCurrency = Some ''USD'',
     pv_providerStatus = Some (de_providerStatus i), pv_livemode = Some False,
     pv_eventFingerprint = Some (de_eventFingerprint i), pv_status = ''PROCESSING'', pv_attempts = 1,
     pv_lockedAt = Some 99999000, pv_processedAt = None, pv_lastError = None, pv_receivedAt = 99998000\<rparr>"

definition example_deposit :: deposit_row where
  "example_deposit = \<lparr>da_id = ''a1'', da_publicReference = ''DEP-1'', da_walletId = ''w1'', da_organizationId = Some ''g1'', da_createdByUserId = ''u1'',
     da_method = ''card'', da_provider = ''stripe'', da_amount = 300 * CENT, da_walletCredit = 300 * CENT,
     da_customerFee = 0, da_currency = ''USD'', da_status = ''SUCCEEDED'', da_providerSessionId = None,
     da_providerPaymentId = Some ''pi_1'', da_providerChargeId = None, da_ledgerTransactionId = Some ''d1'',
     da_completedAt = Some 5, da_failedAt = None, da_failureCode = None\<rparr>"

definition dispute_db :: db where
  "dispute_db = empty_db\<lparr>wallets := [example_wallet\<lparr>w_availableBalance := 200 * CENT\<rparr>],
     transactions := [new_transaction\<lparr>t_id := ''d1'', t_amount := 300 * CENT, t_type := ''DEPOSIT'',
       t_provider := Some ''stripe'', t_providerRef := Some ''pi_1'', t_walletId := Some ''w1''\<rparr>],
     deposits := [example_deposit], provider_events := [example_inbox_row example_dispute]\<rparr>"

definition quiet_hooks :: dispute_hooks where
  "quiet_hooks = \<lparr>dh_audit = create_audit, dh_notifyFinance = (\<lambda>n. ret ()), dh_notifyCustomer = None\<rparr>"

lemma quiet_hooks_ok: "hooks_ok quiet_hooks"
  by (auto simp: hooks_ok_def quiet_hooks_def tx_simps)

lemma dispute_db_wf: "dispute_wf dispute_db"
  by (simp add: dispute_wf_def dispute_db_def empty_db_def)

lemma dispute_db_covered: "holds_covered dispute_db"
  by (simp add: holds_covered_def dispute_db_def empty_db_def open_holds_def example_wallet_def CENT_def)

lemma example_dispute_normalized: "normalized example_dispute"
  unfolding normalized_def by code_simp

definition example_opened :: "dispute_outcome \<times> db" where
  "example_opened = projr (paymentDisputeTx example_env quiet_hooks example_dispute ''OPEN'' dispute_db)"

lemma example_opened_run:
  "paymentDisputeTx example_env quiet_hooks example_dispute ''OPEN'' dispute_db
     = Inr (fst example_opened, snd example_opened)"
proof -
  have "case paymentDisputeTx example_env quiet_hooks example_dispute ''OPEN'' dispute_db of Inl e \<Rightarrow> False | Inr r \<Rightarrow> True" by code_simp
  then show ?thesis by (simp add: example_opened_def split: sum.splits)
qed

definition example_lost :: dispute_event where
  "example_lost = example_dispute\<lparr>de_providerEventRowId := ''e2'', de_eventType := ''charge.dispute.closed'',
     de_providerStatus := ''lost'', de_providerEventId := ''evt_2''\<rparr>"

text \<open>The database of an open case, half of it covered by a hold.\<close>

definition open_case :: payment_dispute_row where
  "open_case = \<lparr>pd_id = ''c1'', pd_provider = ''stripe'', pd_providerDisputeId = ''dp_1'', pd_providerPaymentId = ''pi_1'',
     pd_providerChargeId = None, pd_depositAttemptId = ''a1'', pd_depositTransactionId = ''d1'', pd_walletId = ''w1'',
     pd_amount = 300 * CENT, pd_currency = ''USD'', pd_heldAmount = 200 * CENT, pd_shortfallAmount = 100 * CENT,
     pd_currentExposureAmount = 100 * CENT, pd_status = ''OPEN'', pd_providerStatus = ''needs_response'',
     pd_openedByEventId = Some ''e1'', pd_resolvedByEventId = None, pd_holdTransactionId = Some ''c0'',
     pd_resolutionTransactionId = None, pd_version = 0, pd_openedAt = Some 100000000, pd_resolvedAt = None\<rparr>"

definition closing_db :: db where
  "closing_db = dispute_db\<lparr>
     wallets := [example_wallet\<lparr>w_availableBalance := 0, w_reservedBalance := 200 * CENT\<rparr>],
     transactions := [new_transaction\<lparr>t_id := ''d1'', t_amount := 300 * CENT, t_type := ''DEPOSIT'',
         t_provider := Some ''stripe'', t_providerRef := Some ''pi_1'', t_walletId := Some ''w1''\<rparr>,
       new_transaction\<lparr>t_id := ''c0'', t_amount := - 200 * CENT, t_type := ''RESERVATION'',
         t_reference := Some ''payment-dispute:stripe:dp_1:hold'', t_walletId := Some ''w1''\<rparr>],
     payment_disputes := [open_case], deposits := [example_deposit\<lparr>da_status := ''DISPUTED''\<rparr>],
     provider_events := [example_inbox_row example_lost], id_supply := 2\<rparr>"

definition example_closed :: "dispute_outcome \<times> db" where
  "example_closed = projr (paymentDisputeTx example_env quiet_hooks example_lost ''LOST'' closing_db)"

definition example_won :: dispute_event where
  "example_won = example_lost\<lparr>de_providerStatus := ''won''\<rparr>"

lemma example_closing:
  "case paymentDisputeTx example_env quiet_hooks example_lost ''LOST'' closing_db of
     Inl e \<Rightarrow> False | Inr (oc, s) \<Rightarrow> map_option pd_status (find_case example_won s) = Some ''LOST''"
  by code_simp

lemma example_closed_run:
  "paymentDisputeTx example_env quiet_hooks example_lost ''LOST'' closing_db
     = Inr (fst example_closed, snd example_closed)"
  using example_closing by (simp add: example_closed_def split: sum.splits)

lemma example_lost_normalized: "normalized example_lost"
  using example_dispute_normalized by (simp add: normalized_def example_lost_def)

lemma closing_db_wf: "dispute_wf closing_db"
  by (simp add: closing_db_def dispute_wf_def dispute_db_def open_case_def case_ok_def CENT_def)

section \<open>Properties\<close>

text \<open>C4: Every committed dispute transition is a step of the abstract machine.  The case of the
  event becomes the one \<open>dispute_spec\<close> computes from the case before, the amount and what the
  wallet had available; the wallet, the open holds and the ledger move by exactly what the step
  says, and no other case, wallet, order, settlement or balance changes.\<close>

theorem dispute_refines_spec:
  assumes "dispute_wf s" "hooks_ok hooks" "normalized i" "desired \<in> {''OPEN'', ''WON'', ''LOST''}"
    and "paymentDisputeTx env hooks i desired s = Inr (oc, s')"
  shows "dispute_wf s' \<and> same_rest s s' \<and> (\<exists>d. dispute_done i desired s s' d)"
  using paymentDisputeTx_Inr[OF assms] by blast

theorem dispute_refines_spec_witness:
  "dispute_wf (snd example_opened) \<and> same_rest dispute_db (snd example_opened)
   \<and> (\<exists>d. dispute_done example_dispute ''OPEN'' dispute_db (snd example_opened) d)"
  by (rule dispute_refines_spec[OF dispute_db_wf quiet_hooks_ok example_dispute_normalized _ example_opened_run]) simp

text \<open>C31: Holds stay covered.  When every wallet's reserved balance covers the holds of its open
  disputes and no wallet is overdrawn, the same is true after every committed transition.\<close>

theorem dispute_holds_covered:
  assumes "dispute_wf s" "hooks_ok hooks" "normalized i" "desired \<in> {''OPEN'', ''WON'', ''LOST''}"
    and "paymentDisputeTx env hooks i desired s = Inr (oc, s')" "holds_covered s"
  shows "holds_covered s'"
  using paymentDisputeTx_Inr[OF assms(1-5)] done_covered[OF assms(1) _ assms(6)] by blast

theorem dispute_holds_covered_witness: "holds_covered (snd example_opened)"
  by (rule dispute_holds_covered[OF dispute_db_wf quiet_hooks_ok example_dispute_normalized _ example_opened_run
      dispute_db_covered]) simp

text \<open>Disputes neither create nor lose money: a transition changes the total of all wallets by
  exactly the CHARGEBACK rows it writes.\<close>

theorem dispute_conserves_money:
  assumes "dispute_wf s" "hooks_ok hooks" "normalized i" "desired \<in> {''OPEN'', ''WON'', ''LOST''}"
    and "paymentDisputeTx env hooks i desired s = Inr (oc, s')"
  shows "wallet_total s' - chargebacks s' = wallet_total s - chargebacks s"
  using paymentDisputeTx_Inr[OF assms] done_conserves[OF _ assms(4)] by blast

theorem dispute_conserves_money_witness:
  "wallet_total (snd example_closed) - chargebacks (snd example_closed) = wallet_total closing_db - chargebacks closing_db"
  by (rule dispute_conserves_money[OF closing_db_wf quiet_hooks_ok example_lost_normalized _ example_closed_run]) simp

text \<open>C35: A closed case is final.  For a case that is WON or LOST, an event of the other outcome is
  refused, and every event that is accepted leaves its status, hold, shortfall and exposure,
  all wallets and the ledger as they were.\<close>

theorem dispute_terminal_final:
  assumes "dispute_wf s" "hooks_ok hooks" "normalized i" "desired \<in> {''OPEN'', ''WON'', ''LOST''}"
    and "find_case i s = Some d0" "pd_status d0 \<noteq> ''OPEN''"
  shows "case paymentDisputeTx env hooks i desired s of
       Inl e \<Rightarrow> True
     | Inr (oc, s') \<Rightarrow> desired \<in> {''OPEN'', pd_status d0}
         \<and> (\<exists>d. find_case i s' = Some d \<and> abs_case d = abs_case d0)
         \<and> transactions s' = transactions s
         \<and> (\<forall>w. available_of w s' = available_of w s \<and> reserved_of w s' = reserved_of w s)"
proof (cases "paymentDisputeTx env hooks i desired s")
  case (Inr p)
  then obtain oc s' where p: "p = (oc, s')" by (cases p)
  have run: "paymentDisputeTx env hooks i desired s = Inr (oc, s')" using Inr p by simp
  obtain d where d: "dispute_done i desired s s' d"
    using paymentDisputeTx_Inr[OF assms(1-4) run] by blast
  have "find_case i s' = Some d" using d by (simp add: dispute_done_def)
  moreover have "desired \<in> {''OPEN'', pd_status d0}"
    using terminal_contradiction[OF assms(5,6), of desired env hooks] run by auto
  ultimately show ?thesis
    using done_final[OF d assms(5,6)] by (simp add: Inr p wallet_moved_def)
qed simp

lemma closed_case: "map_option pd_status (find_case example_won (snd example_closed)) = Some ''LOST''"
  using example_closing by (auto simp: example_closed_def split: sum.splits)

theorem dispute_terminal_final_witness:
  "\<exists>e. paymentDisputeTx example_env quiet_hooks example_won ''WON'' (snd example_closed) = Inl e"
proof -
  have n: "normalized example_won" using example_lost_normalized by (simp add: normalized_def example_won_def)
  have wf: "dispute_wf (snd example_closed)"
    using paymentDisputeTx_Inr[OF closing_db_wf quiet_hooks_ok example_lost_normalized _ example_closed_run] by simp
  obtain d where d: "find_case example_won (snd example_closed) = Some d" "pd_status d = ''LOST''"
    using closed_case by auto
  show ?thesis
    using dispute_terminal_final[OF wf quiet_hooks_ok n _ d(1), of "''WON''" example_env] d(2)
    by (cases "paymentDisputeTx example_env quiet_hooks example_won ''WON'' (snd example_closed)") auto
qed

text \<open>An event is applied at most once: after a transition its lease is consumed, and every
  later run for the same inbox row, whatever it asks for and under whatever claim, fails.\<close>

theorem dispute_event_once:
  assumes "dispute_wf s" "hooks_ok hooks" "normalized i" "desired \<in> {''OPEN'', ''WON'', ''LOST''}"
    and "paymentDisputeTx env hooks i desired s = Inr (oc, s')"
    and "de_providerEventRowId j = de_providerEventRowId i"
  shows "\<exists>e. paymentDisputeTx env2 hooks2 j desired2 s' = Inl e"
proof -
  have "consumed i s s'" using paymentDisputeTx_Inr[OF assms(1-5)] by blast
  then show ?thesis by (intro consumed_once consumed_row[OF assms(6)])
qed

theorem dispute_event_once_witness:
  "\<exists>e. paymentDisputeTx example_env quiet_hooks example_dispute ''OPEN'' (snd example_opened) = Inl e"
  by (rule dispute_event_once[OF dispute_db_wf quiet_hooks_ok example_dispute_normalized _ example_opened_run refl]) simp

text \<open>The retry loop commits at most one transition.  Whatever the other transactions do, a
  result was committed by one of at most four attempts on the database as they left it, for an
  event whose fingerprint matches its facts and whose status is known; a failure leaves nothing
  of any attempt behind.\<close>

theorem dispute_commits_once:
  "case transitionPaymentDispute env hooks w i s of
     (Inr oc, s') \<Rightarrow> \<exists>k < PAYMENT_DISPUTE_MAX_ATTEMPTS. \<exists>desired.
        de_eventFingerprint i = paymentDisputeEventFingerprint env i
        \<and> paymentDisputeTargetStatus i = Inr desired \<and> snd (w k) = None
        \<and> paymentDisputeTx env hooks i desired (interfere w 0 k s) = Inr (oc, s')
   | (Inl e, s') \<Rightarrow> \<exists>k \<le> PAYMENT_DISPUTE_MAX_ATTEMPTS. s' = interfere w 0 k s"
proof (cases "transitionPaymentDispute env hooks w i s")
  case (Pair r s')
  have "(\<exists>e. r = Inl e \<and> s' = s) \<or> (\<exists>desired. de_eventFingerprint i = paymentDisputeEventFingerprint env i
      \<and> paymentDisputeTargetStatus i = Inr desired
      \<and> transition_loop env hooks i desired w PAYMENT_DISPUTE_MAX_ATTEMPTS 0 False None s = (r, s'))"
    using Pair by (auto simp: transitionPaymentDispute_def split: if_splits sum.splits)
  then show ?thesis
  proof
    assume "\<exists>e. r = Inl e \<and> s' = s"
    then obtain e where e: "r = Inl e" "s' = s" by blast
    show ?thesis unfolding Pair e prod.case sum.case by (intro exI[of _ 0]) simp
  next
    assume "\<exists>desired. de_eventFingerprint i = paymentDisputeEventFingerprint env i
      \<and> paymentDisputeTargetStatus i = Inr desired
      \<and> transition_loop env hooks i desired w PAYMENT_DISPUTE_MAX_ATTEMPTS 0 False None s = (r, s')"
    then obtain desired where t: "de_eventFingerprint i = paymentDisputeEventFingerprint env i"
      "paymentDisputeTargetStatus i = Inr desired"
      "transition_loop env hooks i desired w PAYMENT_DISPUTE_MAX_ATTEMPTS 0 False None s = (r, s')" by blast
    show ?thesis
      using transition_loop_trace[OF t(3)] t(1,2) unfolding Pair prod.case
      by (cases r) auto
  qed
qed

text \<open>An event read back from its inbox row says what the row says: it is normalized, its
  fingerprint is the one of its facts, its status is known, and a transition takes it for the
  row exactly as long as the row is being processed under the same claim.\<close>

theorem stored_event_roundtrip:
  assumes "paymentDisputeEventFromStoredRow env (Some e) = Inr i"
  shows "normalized i \<and> de_eventFingerprint i = paymentDisputeEventFingerprint env i
    \<and> (\<exists>desired. paymentDisputeTargetStatus i = Inr desired) \<and> event_exact i e = (pv_status e = ''PROCESSING'')"
proof -
  obtain a b m p l f k where cols: "pv_objectId e = Some a" "pv_providerPaymentId e = Some b"
    "pv_disputeAmountMinor e = Some m" "pv_providerStatus e = Some p" "pv_livemode e = Some l"
    "pv_eventFingerprint e = Some f" "pv_lockedAt e = Some k"
    using assms by (auto simp: paymentDisputeEventFromStoredRow_def split: option.splits)
  define j where "j = \<lparr>de_provider = ''stripe'', de_providerEventRowId = pv_id e, de_claimAttempt = pv_attempts e,
    de_claimLockedAt = k, de_providerEventId = pv_providerEventId e, de_eventType = pv_eventType e,
    de_providerDisputeId = a, de_providerPaymentId = b, de_providerChargeId = pv_providerChargeId e,
    de_amountMinor = m, de_amount = stored_amount_text m, de_currency = ''USD'', de_providerStatus = p,
    de_livemode = l, de_eventFingerprint = f\<rparr>"
  have j: "i = j \<and> 0 < m \<and> pv_provider e = ''stripe'' \<and> pv_disputeCurrency e = Some ''USD''
      \<and> (\<exists>desired. paymentDisputeTargetStatus j = Inr desired)
      \<and> de_eventFingerprint j = paymentDisputeEventFingerprint env j"
    using assms unfolding paymentDisputeEventFromStoredRow_def option.case cols prod.case Let_def j_def[symmetric]
    by (simp split: if_splits sum.splits)
  then show ?thesis by (auto simp: normalized_def event_exact_def j_def cols)
qed

lemma fingerprint_facts:
  "paymentDisputeEventFingerprint env (i\<lparr>de_eventFingerprint := f\<rparr>) = paymentDisputeEventFingerprint env i"
  by (simp add: paymentDisputeEventFingerprint_def)

definition signed_dispute :: dispute_event where
  "signed_dispute = example_dispute\<lparr>de_eventFingerprint := paymentDisputeEventFingerprint example_env example_dispute\<rparr>"

lemma signed_dispute_stored:
  "paymentDisputeEventFromStoredRow example_env (Some (example_inbox_row signed_dispute)) = Inr signed_dispute"
proof -
  have "de_amount example_dispute = stored_amount_text 300" using example_dispute_normalized
    by (simp add: normalized_def example_dispute_def)
  then have "stored_amount_text 300 = ''3.00''" by (simp add: example_dispute_def)
  moreover have "paymentDisputeTargetStatus signed_dispute = Inr ''OPEN''"
    by (simp add: paymentDisputeTargetStatus_def signed_dispute_def example_dispute_def STRIPE_OPEN_DISPUTE_STATUSES_def)
  moreover have "de_eventFingerprint signed_dispute = paymentDisputeEventFingerprint example_env signed_dispute"
    by (simp add: signed_dispute_def fingerprint_facts)
  ultimately show ?thesis
    by (simp add: paymentDisputeEventFromStoredRow_def example_inbox_row_def signed_dispute_def example_dispute_def
        Let_def MAX_SAFE_INTEGER_def)
qed

theorem stored_event_roundtrip_witness:
  "normalized signed_dispute \<and> event_exact signed_dispute (example_inbox_row signed_dispute)"
proof -
  have "pv_status (example_inbox_row signed_dispute) = ''PROCESSING''" by (simp add: example_inbox_row_def)
  then show ?thesis using stored_event_roundtrip[OF signed_dispute_stored] by simp
qed

end
