(* ===== verification/Deposit_Credit.thy ===== *)
theory Deposit_Credit
  imports Payment_Dispute
begin

text \<open>
  The credit of a customer's deposit (\<open>deposit-credit-core.ts\<close>), and the evidence it rests on: a
  signed webhook event under its lease, or facts retrieved from Stripe with the restricted
  recovery key (\<open>stripe-deposit-recovery.ts\<close>).  Both become the same normalized facts, which
  are checked against each other, against the durable authority, against the deposit attempt
  and against the ledger before a wallet is credited.

  A JSON number of a provider object is an integer here; every other number the code reads is
  refused by \<open>Number.isSafeInteger\<close>, as one beyond the safe range is.
\<close>

section \<open>Errors\<close>

definition credit_failure :: "string \<Rightarrow> bool \<Rightarrow> failure" where
  "credit_failure code retryable = TransitionFailure code code retryable"

fun is_credit_failure :: "failure \<Rightarrow> bool" where
  "is_credit_failure (TransitionFailure code message retryable) = True"
| "is_credit_failure _ = False"

definition credit_race :: failure where
  "credit_race = Failure ''DepositCreditRaceError'' []"

abbreviation contradiction :: failure where
  "contradiction \<equiv> credit_failure ''DEPOSIT_PROVIDER_EVIDENCE_CONTRADICTION'' False"

definition CREDIT_MAX_ATTEMPTS :: nat where
  "CREDIT_MAX_ATTEMPTS = 4"

text \<open>A required text, trimmed and bounded; \<open>None\<close> is whatever is not a string.\<close>

definition requiredString :: "nat \<Rightarrow> string option \<Rightarrow> failure + string" where
  "requiredString limit v =
     (case v of None \<Rightarrow> Inl contradiction
      | Some t \<Rightarrow> if trim t = [] \<or> length (trim t) > limit then Inl contradiction else Inr (trim t))"

definition sameInstant :: "int option \<Rightarrow> int option \<Rightarrow> bool" where
  "sameInstant l r \<longleftrightarrow> l = r"

section \<open>Provider facts\<close>

definition requireStrings :: "(nat \<times> string option) list \<Rightarrow> failure + unit" where
  "requireStrings required =
     (if list_all (\<lambda>(limit, v). \<not> isl (requiredString limit v)) required then Inr () else Inl contradiction)"

definition assertProviderFacts :: "deposit_facts \<Rightarrow> failure + unit" where
  "assertProviderFacts f =
     (case requireStrings
         [(191, Some (df_providerSessionId f)), (191, df_providerPaymentId f), (191, df_clientReferenceId f),
          (191, df_checkoutMetadataAttemptId f), (32, df_checkoutMetadataReference f),
          (191, df_checkoutMetadataWalletId f), (191, df_checkoutMetadataUserId f)] of
        Inl e \<Rightarrow> Inl e
      | Inr _ \<Rightarrow>
          if df_provider f \<noteq> ''stripe'' \<or> df_checkoutStatus f \<noteq> Some ''complete''
             \<or> df_checkoutPaymentStatus f \<noteq> Some ''paid'' \<or> df_checkoutMode f \<noteq> Some ''payment''
             \<or> (case df_checkoutAmountTotalMinor f of None \<Rightarrow> True | Some a \<Rightarrow> a \<le> 0)
             \<or> df_checkoutCurrency f \<noteq> Some ''usd''
          then Inl (credit_failure
                 (if df_checkoutPaymentStatus f = Some ''paid'' then ''DEPOSIT_PROVIDER_EVIDENCE_CONTRADICTION''
                  else ''DEPOSIT_PROVIDER_STATE_NOT_PAID'')
                 (df_checkoutPaymentStatus f \<noteq> Some ''paid''))
          else if df_source f = ProviderRetrieval
             \<and> (\<not> truthy (df_providerChargeId f) \<or> df_paymentIntentStatus f \<noteq> Some ''succeeded''
                \<or> df_paymentIntentAmountMinor f \<noteq> df_checkoutAmountTotalMinor f
                \<or> df_paymentIntentReceivedMinor f \<noteq> df_checkoutAmountTotalMinor f
                \<or> df_paymentIntentCurrency f \<noteq> Some ''usd''
                \<or> df_paymentIntentLivemode f \<noteq> Some (df_checkoutLivemode f)
                \<or> df_paymentMetadataAttemptId f \<noteq> df_checkoutMetadataAttemptId f
                \<or> df_paymentMetadataReference f \<noteq> df_checkoutMetadataReference f
                \<or> df_paymentMetadataWalletId f \<noteq> df_checkoutMetadataWalletId f
                \<or> df_chargePaid f \<noteq> Some True \<or> df_chargeCaptured f \<noteq> Some True
                \<or> df_chargeRefunded f \<noteq> Some False
                \<or> df_chargeAmountMinor f \<noteq> df_checkoutAmountTotalMinor f
                \<or> df_chargeAmountCapturedMinor f \<noteq> df_checkoutAmountTotalMinor f
                \<or> df_chargeCurrency f \<noteq> Some ''usd'' \<or> df_chargeLivemode f \<noteq> Some (df_checkoutLivemode f))
          then Inl contradiction
          else Inr ())"

text \<open>
  Stored evidence as facts: \<open>BigInt(null)\<close> throws, which is \<open>None\<close>; an empty organization is none.
\<close>

definition recoveryEvidenceToFacts :: "deposit_facts \<Rightarrow> deposit_facts option" where
  "recoveryEvidenceToFacts row =
     (if df_checkoutAmountTotalMinor row = None then None
      else Some (row\<lparr>df_source := ProviderRetrieval,
        df_checkoutMetadataOrgId := (if truthy (df_checkoutMetadataOrgId row) then df_checkoutMetadataOrgId row else None)\<rparr>))"

text \<open>
  The fingerprint: SHA-256 of the JSON text of the version followed by the members in the order of
  \<open>localeCompare\<close>; amounts are texts.
\<close>

definition int_json :: "int option \<Rightarrow> json" where
  "int_json v = (case v of None \<Rightarrow> NullJ | Some z \<Rightarrow> TextJ (int_text z))"

definition bool_json :: "bool option \<Rightarrow> json" where
  "bool_json v = (case v of None \<Rightarrow> NullJ | Some b \<Rightarrow> BoolJ b)"

definition source_name :: "deposit_source \<Rightarrow> string" where
  "source_name c = (case c of SignedWebhook \<Rightarrow> ''SIGNED_WEBHOOK'' | ProviderRetrieval \<Rightarrow> ''AUTHENTICATED_PROVIDER_RETRIEVAL'')"

definition evidence_members :: "deposit_facts \<Rightarrow> (string \<times> json) list" where
  "evidence_members f =
     [(''source'', TextJ (source_name (df_source f))), (''provider'', TextJ (df_provider f)),
      (''providerSessionId'', TextJ (df_providerSessionId f)), (''providerPaymentId'', opt_json (df_providerPaymentId f)),
      (''providerChargeId'', opt_json (df_providerChargeId f)), (''clientReferenceId'', opt_json (df_clientReferenceId f)),
      (''checkoutStatus'', opt_json (df_checkoutStatus f)),
      (''checkoutPaymentStatus'', opt_json (df_checkoutPaymentStatus f)), (''checkoutMode'', opt_json (df_checkoutMode f)),
      (''checkoutAmountTotalMinor'', int_json (df_checkoutAmountTotalMinor f)),
      (''checkoutCurrency'', opt_json (df_checkoutCurrency f)), (''checkoutLivemode'', BoolJ (df_checkoutLivemode f)),
      (''checkoutMetadataAttemptId'', opt_json (df_checkoutMetadataAttemptId f)),
      (''checkoutMetadataReference'', opt_json (df_checkoutMetadataReference f)),
      (''checkoutMetadataWalletId'', opt_json (df_checkoutMetadataWalletId f)),
      (''checkoutMetadataUserId'', opt_json (df_checkoutMetadataUserId f)),
      (''checkoutMetadataOrgId'', opt_json (df_checkoutMetadataOrgId f)),
      (''paymentIntentStatus'', opt_json (df_paymentIntentStatus f)),
      (''paymentIntentAmountMinor'', int_json (df_paymentIntentAmountMinor f)),
      (''paymentIntentReceivedMinor'', int_json (df_paymentIntentReceivedMinor f)),
      (''paymentIntentCurrency'', opt_json (df_paymentIntentCurrency f)),
      (''paymentIntentLivemode'', bool_json (df_paymentIntentLivemode f)),
      (''paymentMetadataAttemptId'', opt_json (df_paymentMetadataAttemptId f)),
      (''paymentMetadataReference'', opt_json (df_paymentMetadataReference f)),
      (''paymentMetadataWalletId'', opt_json (df_paymentMetadataWalletId f)),
      (''chargePaid'', bool_json (df_chargePaid f)), (''chargeCaptured'', bool_json (df_chargeCaptured f)),
      (''chargeRefunded'', bool_json (df_chargeRefunded f)), (''chargeAmountMinor'', int_json (df_chargeAmountMinor f)),
      (''chargeAmountCapturedMinor'', int_json (df_chargeAmountCapturedMinor f)),
      (''chargeCurrency'', opt_json (df_chargeCurrency f)), (''chargeLivemode'', bool_json (df_chargeLivemode f))]"

definition stripeDepositRecoveryEvidenceFingerprint :: "env \<Rightarrow> deposit_facts \<Rightarrow> string" where
  "stripeDepositRecoveryEvidenceFingerprint env f =
     env_sha256 env (CHR 0x7B # join '','' (map (\<lambda>(k, v). json_quote k @ '':'' @ canonicalJson v)
       ((''version'', TextJ ''stripe-deposit-recovery-evidence:v1'')
        # sort_by (\<lambda>l r. locale_compare (fst l) (fst r)) (evidence_members f))) @ [CHR 0x7D])"

text \<open>The comparison of the JSON texts of two facts is that of their members.\<close>

definition factsEqual :: "deposit_facts \<Rightarrow> deposit_facts \<Rightarrow> bool" where
  "factsEqual l r \<longleftrightarrow> evidence_members l = evidence_members r"

section \<open>Authority\<close>

datatype event_claim =
    Lease int int
  | Snapshot string int "int option" "int option"

datatype credit_authority =
    WebhookAuthority string event_claim
  | RecoveryAuthority string string int int

definition find_recovery :: "string \<Rightarrow> db \<Rightarrow> recovery_row option" where
  "find_recovery k s = find (\<lambda>r. rv_id r = k) (recoveries s)"

definition find_credit_evidence :: "string \<Rightarrow> db \<Rightarrow> credit_evidence_row option" where
  "find_credit_evidence k s = find (\<lambda>r. ce_id r = k) (credit_evidence s)"

fun ownershipExact :: "event_claim \<Rightarrow> provider_event_row \<Rightarrow> bool" where
  "ownershipExact (Lease attempts lockedAt) e =
     (pv_status e = ''PROCESSING'' \<and> pv_attempts e = attempts \<and> sameInstant (pv_lockedAt e) (Some lockedAt))"
| "ownershipExact (Snapshot status attempts lockedAt processedAt) e =
     (pv_status e = status \<and> pv_attempts e = attempts \<and> sameInstant (pv_lockedAt e) lockedAt
      \<and> sameInstant (pv_processedAt e) processedAt)"

definition commonExact :: "deposit_facts \<Rightarrow> provider_event_row \<Rightarrow> bool" where
  "commonExact f e \<longleftrightarrow> pv_provider e = df_provider f \<and> pv_objectId e = Some (df_providerSessionId f)
     \<and> pv_livemode e = Some (df_checkoutLivemode f)
     \<and> pv_eventType e \<in> {''checkout.session.completed'', ''checkout.session.async_payment_succeeded''}"

definition assertEventAuthority :: "string \<Rightarrow> event_claim \<Rightarrow> deposit_facts \<Rightarrow> unit tx" where
  "assertEventAuthority eventRowId claim f =
     andThen (query (find_provider_event eventRowId)) (\<lambda>event.
     case event of None \<Rightarrow> throw (credit_failure ''AUTHORITY_MISSING'' False)
     | Some e \<Rightarrow> require (commonExact f e \<and> ownershipExact claim e)
         (credit_failure (if ownershipExact claim e then ''AUTHORITY_EVIDENCE_MISMATCH'' else ''AUTHORITY_LEASE_LOST'') False))"

definition evidence_exact :: "recovery_row \<Rightarrow> int \<Rightarrow> int \<Rightarrow> credit_evidence_row \<Rightarrow> bool" where
  "evidence_exact r attempts lockedAt e \<longleftrightarrow>
     ce_recoveryId e = rv_id r \<and> ce_depositAttemptId e = rv_depositAttemptId r \<and> ce_claimAttempt e = attempts
     \<and> sameInstant (Some (ce_claimLockedAt e)) (Some lockedAt) \<and> df_source (ce_facts e) = ProviderRetrieval"

definition assertRecoveryAuthority :: "env \<Rightarrow> string \<Rightarrow> string \<Rightarrow> int \<Rightarrow> int \<Rightarrow> deposit_facts \<Rightarrow> unit tx" where
  "assertRecoveryAuthority env recoveryId evidenceId attempts lockedAt f =
     andThen (query (find_recovery recoveryId)) (\<lambda>recovery.
     case recovery of None \<Rightarrow> throw (credit_failure ''AUTHORITY_MISSING'' False)
     | Some r \<Rightarrow>
       andThen (require (rv_status r = ''PROCESSING'' \<and> rv_attempts r = attempts \<and> sameInstant (rv_lockedAt r) (Some lockedAt))
         (credit_failure ''AUTHORITY_LEASE_LOST'' False)) (\<lambda>_.
       andThen (query (find_credit_evidence evidenceId)) (\<lambda>evidence.
       require (case evidence of None \<Rightarrow> False
           | Some e \<Rightarrow> evidence_exact r attempts lockedAt e
               \<and> (case recoveryEvidenceToFacts (ce_facts e) of None \<Rightarrow> False
                  | Some storedFacts \<Rightarrow> factsEqual storedFacts f
                      \<and> ce_evidenceFingerprint e = stripeDepositRecoveryEvidenceFingerprint env storedFacts))
         (credit_failure ''AUTHORITY_EVIDENCE_MISMATCH'' False))))"

fun assertAuthority :: "env \<Rightarrow> credit_authority \<Rightarrow> deposit_facts \<Rightarrow> unit tx" where
  "assertAuthority env (WebhookAuthority eventRowId claim) f = assertEventAuthority eventRowId claim f"
| "assertAuthority env (RecoveryAuthority recoveryId evidenceId attempts lockedAt) f =
     assertRecoveryAuthority env recoveryId evidenceId attempts lockedAt f"

fun completeAuthority :: "env \<Rightarrow> credit_authority \<Rightarrow> string \<Rightarrow> unit tx" where
  "completeAuthority env (WebhookAuthority eventRowId (Snapshot status attempts lockedAt processedAt)) depositAttemptId =
     andThen (require (status = ''PROCESSED'') (credit_failure ''AUTHORITY_EVIDENCE_MISMATCH'' False)) (\<lambda>_.
     andThen (query (find_provider_event eventRowId)) (\<lambda>event.
     require (case event of None \<Rightarrow> False | Some e \<Rightarrow> pv_depositAttemptId e = Some depositAttemptId)
       (credit_failure ''AUTHORITY_EVIDENCE_MISMATCH'' False)))"
| "completeAuthority env (WebhookAuthority eventRowId (Lease attempts lockedAt)) depositAttemptId =
     andThen (update_provider_events
       (\<lambda>e. pv_id e = eventRowId \<and> pv_status e = ''PROCESSING'' \<and> pv_attempts e = attempts \<and> pv_lockedAt e = Some lockedAt)
       (\<lambda>e. e\<lparr>pv_status := ''PROCESSED'', pv_processedAt := Some (env_now env), pv_lockedAt := None,
              pv_depositAttemptId := Some depositAttemptId, pv_lastError := None\<rparr>)) (\<lambda>completed.
     require (completed = 1) credit_race)"
| "completeAuthority env (RecoveryAuthority recoveryId evidenceId attempts lockedAt) depositAttemptId =
     andThen (update_recoveries
       (\<lambda>r. rv_id r = recoveryId \<and> rv_depositAttemptId r = depositAttemptId \<and> rv_status r = ''PROCESSING''
          \<and> rv_attempts r = attempts \<and> rv_lockedAt r = Some lockedAt \<and> rv_evidenceId r = None)
       (\<lambda>r. r\<lparr>rv_status := ''PROCESSED'', rv_processedAt := Some (env_now env), rv_lockedAt := None,
              rv_evidenceId := Some evidenceId, rv_lastError := None\<rparr>)) (\<lambda>completed.
     require (completed = 1) credit_race)"

section \<open>The deposit attempt\<close>

text \<open>
  The three amounts are compared in minor units; a column that is no whole number of cents
  throws the same error as a difference.
\<close>

definition attempt_exact :: "deposit_row \<Rightarrow> deposit_facts \<Rightarrow> bool" where
  "attempt_exact a f \<longleftrightarrow>
     da_provider a = ''stripe'' \<and> da_providerSessionId a = Some (df_providerSessionId f)
     \<and> (da_providerPaymentId a = None \<or> da_providerPaymentId a = df_providerPaymentId f)
     \<and> \<not> ((df_source f = ProviderRetrieval \<or> df_providerChargeId f \<noteq> None)
          \<and> da_providerChargeId a \<noteq> None \<and> da_providerChargeId a \<noteq> df_providerChargeId f)
     \<and> df_clientReferenceId f = Some (da_id a) \<and> df_checkoutMetadataAttemptId f = Some (da_id a)
     \<and> df_checkoutMetadataReference f = Some (da_publicReference a)
     \<and> df_checkoutMetadataWalletId f = Some (da_walletId a)
     \<and> df_checkoutMetadataUserId f = Some (da_createdByUserId a)
     \<and> (if truthy (df_checkoutMetadataOrgId f) then df_checkoutMetadataOrgId f else None) = da_organizationId a
     \<and> da_currency a = ''USD''
     \<and> df_checkoutAmountTotalMinor f \<noteq> None
     \<and> decimalToMinor (column (da_amount a)) = df_checkoutAmountTotalMinor f
     \<and> decimalToMinor (column (da_walletCredit a)) = df_checkoutAmountTotalMinor f
     \<and> decimalToMinor (column (da_customerFee a)) = Some 0"

definition attempt_mismatch :: failure where
  "attempt_mismatch = credit_failure ''DEPOSIT_ATTEMPT_EVIDENCE_MISMATCH'' False"

definition findExactAttempt :: "deposit_facts \<Rightarrow> deposit_row tx" where
  "findExactAttempt f =
     andThen (query (\<lambda>s. take 3 (filter (\<lambda>a. Some (da_id a) = df_checkoutMetadataAttemptId f
        \<or> da_providerSessionId a = Some (df_providerSessionId f)) (deposits s)))) (\<lambda>candidates.
     case candidates of
       [] \<Rightarrow> throw (credit_failure ''DEPOSIT_ATTEMPT_NOT_FOUND'' False)
     | [a] \<Rightarrow> andThen (require (attempt_exact a f) attempt_mismatch) (\<lambda>_. ret a)
     | _ \<Rightarrow> throw attempt_mismatch)"

definition stripe_credit_failure :: "failure \<Rightarrow> failure" where
  "stripe_credit_failure e =
     (case e of
        CodedFailure n code m \<Rightarrow>
          if n = ''StripeConfigurationError''
          then credit_failure
            (if code \<in> {''STRIPE_KEY_MISSING'', ''STRIPE_KEY_INVALID'', ''STRIPE_LIVE_MODE_DISABLED'',
                ''STRIPE_PROVIDER_MODE_MISMATCH''} then code else ''STRIPE_PROVIDER_MODE_MISMATCH'')
            (code \<noteq> ''STRIPE_PROVIDER_MODE_MISMATCH'')
          else e
      | _ \<Rightarrow> e)"

definition assertDepositStripeMode :: "env \<Rightarrow> deposit_facts \<Rightarrow> failure + bool" where
  "assertDepositStripeMode env f =
     (case assertStripeFinancialObjectMode (Some (df_checkoutLivemode f))
         (env_process env (if df_source f = ProviderRetrieval then ''STRIPE_DEPOSIT_RECOVERY_KEY'' else ''STRIPE_SECRET_KEY''))
         (env_process env ''STRIPE_LIVE_MODE_ENABLED'') of
        Inl e \<Rightarrow> Inl (stripe_credit_failure e) | Inr m \<Rightarrow> Inr m)"

definition ledger_collision :: failure where
  "ledger_collision = credit_failure ''DEPOSIT_IDEMPOTENCY_COLLISION'' False"

definition exactLedgerReplay :: "deposit_row \<Rightarrow> deposit_facts \<Rightarrow> transaction_row option tx" where
  "exactLedgerReplay a f =
     andThen (query (\<lambda>s. filter (\<lambda>t. t_reference t = Some (df_providerSessionId f)
        \<or> t_provider t = Some ''stripe'' \<and> t_providerRef t = df_providerPaymentId f) (transactions s))) (\<lambda>candidates.
     case candidates of
       [] \<Rightarrow> ret None
     | [t] \<Rightarrow>
         andThen (require (t_type t = ''DEPOSIT'' \<and> t_reference t = Some (df_providerSessionId f)
             \<and> t_provider t = Some ''stripe'' \<and> t_providerRef t = df_providerPaymentId f
             \<and> t_walletId t = Some (da_walletId a) \<and> t_currency t = ''USD'') ledger_collision) (\<lambda>_.
         andThen (require (decimalToMinor (column (t_amount t)) \<noteq> None) attempt_mismatch) (\<lambda>_.
         andThen (require (decimalToMinor (column (t_amount t)) = df_checkoutAmountTotalMinor f
             \<and> da_ledgerTransactionId a = Some (t_id t) \<and> isWalletCreditBackedDepositStatus (da_status a))
           ledger_collision) (\<lambda>_.
         ret (Some t))))
     | _ \<Rightarrow> throw ledger_collision)"

section \<open>The credit\<close>

record success_notice =
  sn_depositAttemptId :: string
  sn_walletId :: string
  sn_organizationId :: "string option"
  sn_createdByUserId :: string
  sn_amount :: string
  sn_currency :: string

record credit_hooks =
  ch_audit :: "audit_row \<Rightarrow> unit tx"
  ch_recordSuccess :: "success_notice \<Rightarrow> string list tx"

record credit_outcome =
  co_depositAttemptId :: string
  co_walletId :: string
  co_ledgerTransactionId :: string
  co_credited :: bool
  co_communicationEventIds :: "string list"

definition creditWallet :: "env \<Rightarrow> deposit_facts \<Rightarrow> deposit_row \<Rightarrow> wallet_row \<Rightarrow> string \<Rightarrow> string tx" where
  "creditWallet env f a wallet amount =
     andThen (create_transaction env (new_transaction\<lparr>t_walletId := Some (da_walletId a), t_amount := db_decimal amount,
       t_type := ''DEPOSIT'', t_currency := ''USD'', t_reference := Some (df_providerSessionId f),
       t_provider := Some ''stripe'', t_providerRef := df_providerPaymentId f,
       t_description := Some (''GuestPost wallet deposit '' @ da_publicReference a)\<rparr>)) (\<lambda>ledger.
     andThen (update_wallets (\<lambda>w. w_id w = w_id wallet \<and> w_version w = w_version wallet)
       (\<lambda>w. w\<lparr>w_availableBalance := w_availableBalance w + db_decimal amount, w_version := w_version w + 1\<rparr>))
       (\<lambda>updatedWallet.
     andThen (require (updatedWallet = 1) credit_race) (\<lambda>_.
     andThen (update_deposits
       (\<lambda>r. da_id r = da_id a \<and> da_walletId r = da_walletId a \<and> da_provider r = ''stripe''
          \<and> da_providerSessionId r = Some (df_providerSessionId f) \<and> da_amount r = db_decimal amount
          \<and> da_walletCredit r = db_decimal amount \<and> da_customerFee r = db_decimal ''0.00'' \<and> da_currency r = ''USD''
          \<and> da_ledgerTransactionId r = None
          \<and> da_status r \<in> {''CREATED'', ''PENDING_CUSTOMER_ACTION'', ''PROCESSING'', ''FAILED'', ''EXPIRED''})
       (\<lambda>r. r\<lparr>da_status := ''SUCCEEDED'', da_providerPaymentId := df_providerPaymentId f,
              da_providerChargeId := df_providerChargeId f, da_ledgerTransactionId := Some ledger,
              da_completedAt := Some (env_now env), da_failedAt := None, da_failureCode := None\<rparr>)) (\<lambda>updatedAttempt.
     andThen (require (updatedAttempt = 1) credit_race) (\<lambda>_.
     ret ledger)))))"

definition announceCredit :: "credit_hooks \<Rightarrow> deposit_facts \<Rightarrow> deposit_row \<Rightarrow> string \<Rightarrow> string list tx" where
  "announceCredit hooks f a amount =
     andThen (ch_audit hooks \<lparr>l_action = ''WALLET_DEPOSIT'', l_entityType = ''Wallet'', l_entityId = da_walletId a,
       l_metadata = [(''amount'', TextJ amount), (''reference'', TextJ (da_publicReference a)),
         (''providerSessionId'', TextJ (df_providerSessionId f)), (''method'', TextJ ''stripe''),
         (''evidenceSource'', TextJ (source_name (df_source f)))],
       l_userId = Some (da_createdByUserId a), l_organizationId = da_organizationId a, l_requestId = None\<rparr>) (\<lambda>_.
     ch_recordSuccess hooks \<lparr>sn_depositAttemptId = da_id a, sn_walletId = da_walletId a,
       sn_organizationId = da_organizationId a, sn_createdByUserId = da_createdByUserId a,
       sn_amount = amount, sn_currency = ''USD''\<rparr>)"

text \<open>What a recovery was opened for; \<open>findUniqueOrThrow\<close> throws when the row is gone.\<close>

definition assertRecoveryAttempt :: "credit_authority \<Rightarrow> deposit_row \<Rightarrow> unit tx" where
  "assertRecoveryAttempt authority a =
     (case authority of
        WebhookAuthority _ _ \<Rightarrow> ret ()
      | RecoveryAuthority recoveryId _ _ _ \<Rightarrow>
          andThen (query (find_recovery recoveryId)) (\<lambda>recovery.
          case recovery of None \<Rightarrow> throw (prisma_code ''P2025'')
          | Some r \<Rightarrow> require (da_id a = rv_depositAttemptId r) (credit_failure ''AUTHORITY_EVIDENCE_MISMATCH'' False)))"

definition creditAttempt ::
    "env \<Rightarrow> credit_hooks \<Rightarrow> credit_authority \<Rightarrow> deposit_facts \<Rightarrow> deposit_row \<Rightarrow> wallet_row \<Rightarrow> credit_outcome tx" where
  "creditAttempt env hooks authority f a wallet =
     andThen (exactLedgerReplay a f) (\<lambda>replay.
     case replay of
       Some t \<Rightarrow>
         andThen (completeAuthority env authority (da_id a)) (\<lambda>_.
         ret \<lparr>co_depositAttemptId = da_id a, co_walletId = da_walletId a, co_ledgerTransactionId = t_id t,
              co_credited = False, co_communicationEventIds = []\<rparr>)
     | None \<Rightarrow>
         andThen (require (isCreditablePreCreditDepositStatus (da_status a) \<and> da_ledgerTransactionId a = None)
           (credit_failure ''DEPOSIT_ATTEMPT_STATE_MISMATCH'' False)) (\<lambda>_.
         let amount = minorToMoney (case df_checkoutAmountTotalMinor f of None \<Rightarrow> 0 | Some m \<Rightarrow> m)
         in andThen (creditWallet env f a wallet amount) (\<lambda>ledger.
            andThen (completeAuthority env authority (da_id a)) (\<lambda>_.
            andThen (announceCredit hooks f a amount) (\<lambda>events.
            ret \<lparr>co_depositAttemptId = da_id a, co_walletId = da_walletId a, co_ledgerTransactionId = ledger,
                 co_credited = True, co_communicationEventIds = events\<rparr>)))))"

definition creditTx :: "env \<Rightarrow> credit_hooks \<Rightarrow> credit_authority \<Rightarrow> deposit_facts \<Rightarrow> credit_outcome tx" where
  "creditTx env hooks authority f =
     andThen (assertAuthority env authority f) (\<lambda>_.
     andThen (findExactAttempt f) (\<lambda>initialAttempt.
     andThen (assertRecoveryAttempt authority initialAttempt) (\<lambda>_.
     andThen (lift_sum id (assertDepositStripeMode env f)) (\<lambda>_.
     andThen (query (find_deposit (da_id initialAttempt))) (\<lambda>found.
     case found of None \<Rightarrow> throw (prisma_code ''P2025'')
     | Some a \<Rightarrow>
       andThen (require (attempt_exact a f) attempt_mismatch) (\<lambda>_.
       andThen (query (find_wallet (da_walletId a))) (\<lambda>found.
       case found of None \<Rightarrow> throw (prisma_code ''P2025'')
       | Some wallet \<Rightarrow>
         andThen (require (w_currency wallet = ''USD'') (credit_failure ''DEPOSIT_WALLET_CURRENCY_MISMATCH'' False)) (\<lambda>_.
         creditAttempt env hooks authority f a wallet))))))))"

text \<open>The loop: an error of this module is final, a race, a uniqueness or a write conflict is not.\<close>

definition credit_retryable :: "failure \<Rightarrow> bool" where
  "credit_retryable e \<longleftrightarrow> \<not> is_credit_failure e
     \<and> (e = credit_race \<or> isPrismaUniqueConstraintError e \<or> isRetryablePrismaTransactionError e)"

definition finalizeDepositCredit ::
    "env \<Rightarrow> credit_hooks \<Rightarrow> weather \<Rightarrow> credit_authority \<Rightarrow> deposit_facts \<Rightarrow> db \<Rightarrow> (failure + credit_outcome) \<times> db" where
  "finalizeDepositCredit env hooks w authority f s =
     (case assertProviderFacts f of
        Inl e \<Rightarrow> (Inl e, s)
      | Inr _ \<Rightarrow> retry_loop credit_retryable w (creditTx env hooks authority f) CREDIT_MAX_ATTEMPTS 1 s)"

end
