(* ===== verification/Deposit_Evidence.thy ===== *)
theory Deposit_Evidence
  imports Deposit_Credit
begin

text \<open>
  Where the facts of a deposit come from: a signed checkout session
  (\<open>depositCreditFactsFromSignedCheckoutSession\<close>), or the three objects retrieved from Stripe
  (\<open>stripe-deposit-recovery.ts\<close>), the answers of the HTTP client being an argument; and the check of retrieved
  facts, paid or not, against the deposit attempt they are to settle.
\<close>

section \<open>Facts of a signed session (deposit-credit-core.ts)\<close>

fun string_of :: "json option \<Rightarrow> string option" where
  "string_of (Some (TextJ t)) = Some t"
| "string_of _ = None"

definition member :: "json \<Rightarrow> string \<Rightarrow> json option" where
  "member j k = obj_get j k"

text \<open>An identifier, given as a text or as an object that has it as its \<open>id\<close>.\<close>

fun id_text :: "json option \<Rightarrow> string option" where
  "id_text (Some (TextJ t)) = Some t"
| "id_text (Some (ObjJ ms)) = string_of (map_of ms ''id'')"
| "id_text _ = None"

definition sessionId :: "json option \<Rightarrow> failure + string" where
  "sessionId v = requiredString 191 (id_text v)"

definition metadata_of :: "json \<Rightarrow> string \<Rightarrow> json option" where
  "metadata_of session key = (case obj_get session ''metadata'' of None \<Rightarrow> None | Some m \<Rightarrow> obj_get m key)"

definition optionalMetadata :: "json \<Rightarrow> string \<Rightarrow> failure + string option" where
  "optionalMetadata session key =
     (case metadata_of session key of
        None \<Rightarrow> Inr None
      | Some NullJ \<Rightarrow> Inr None
      | Some (TextJ []) \<Rightarrow> Inr None
      | v \<Rightarrow> (case requiredString (if key = ''publicReference'' then 32 else 191) (string_of v) of
               Inl e \<Rightarrow> Inl e | Inr t \<Rightarrow> Inr (Some t)))"

definition safe_amount :: "json option \<Rightarrow> int option" where
  "safe_amount v = (case v of Some (NumJ z) \<Rightarrow> if \<bar>z\<bar> \<le> MAX_SAFE_INTEGER then Some z else None | _ \<Rightarrow> None)"

definition no_facts :: deposit_facts where
  "no_facts = \<lparr>df_source = SignedWebhook, df_provider = ''stripe'', df_providerSessionId = [],
     df_providerPaymentId = None, df_providerChargeId = None, df_clientReferenceId = None, df_checkoutStatus = None,
     df_checkoutPaymentStatus = None, df_checkoutMode = None, df_checkoutAmountTotalMinor = None,
     df_checkoutCurrency = None, df_checkoutLivemode = False, df_checkoutMetadataAttemptId = None,
     df_checkoutMetadataReference = None, df_checkoutMetadataWalletId = None, df_checkoutMetadataUserId = None,
     df_checkoutMetadataOrgId = None, df_paymentIntentStatus = None, df_paymentIntentAmountMinor = None,
     df_paymentIntentReceivedMinor = None, df_paymentIntentCurrency = None, df_paymentIntentLivemode = None,
     df_paymentMetadataAttemptId = None, df_paymentMetadataReference = None, df_paymentMetadataWalletId = None,
     df_chargePaid = None, df_chargeCaptured = None, df_chargeRefunded = None, df_chargeAmountMinor = None,
     df_chargeAmountCapturedMinor = None, df_chargeCurrency = None, df_chargeLivemode = None\<rparr>"

text \<open>Every field that is missing or too long throws the one error, so their order does not matter.\<close>

definition required_or :: "nat \<Rightarrow> json option \<Rightarrow> string option" where
  "required_or limit v = (case requiredString limit (string_of v) of Inl _ \<Rightarrow> None | Inr t \<Rightarrow> Some t)"

definition session_facts :: "json \<Rightarrow> bool \<Rightarrow> int \<Rightarrow> string \<Rightarrow> string \<Rightarrow> string option \<Rightarrow> deposit_facts" where
  "session_facts session eventLivemode amount session_id payment organization =
     no_facts\<lparr>df_providerSessionId := session_id, df_providerPaymentId := Some payment,
       df_clientReferenceId := required_or 191 (member session ''client_reference_id''),
       df_checkoutStatus := required_or 64 (member session ''status''),
       df_checkoutPaymentStatus := required_or 64 (member session ''payment_status''),
       df_checkoutMode := required_or 32 (member session ''mode''),
       df_checkoutAmountTotalMinor := Some amount,
       df_checkoutCurrency := required_or 3 (member session ''currency''),
       df_checkoutLivemode := eventLivemode,
       df_checkoutMetadataAttemptId := required_or 191 (metadata_of session ''depositAttemptId''),
       df_checkoutMetadataReference := required_or 32 (metadata_of session ''publicReference''),
       df_checkoutMetadataWalletId := required_or 191 (metadata_of session ''walletId''),
       df_checkoutMetadataUserId := required_or 191 (metadata_of session ''userId''),
       df_checkoutMetadataOrgId := organization\<rparr>"

definition session_complete :: "deposit_facts \<Rightarrow> bool" where
  "session_complete f \<longleftrightarrow>
     list_all (\<lambda>v. v \<noteq> None)
       [df_clientReferenceId f, df_checkoutStatus f, df_checkoutPaymentStatus f, df_checkoutMode f,
        df_checkoutCurrency f, df_checkoutMetadataAttemptId f, df_checkoutMetadataReference f,
        df_checkoutMetadataWalletId f, df_checkoutMetadataUserId f]"

definition depositCreditFactsFromSignedCheckoutSession :: "json \<Rightarrow> bool \<Rightarrow> failure + deposit_facts" where
  "depositCreditFactsFromSignedCheckoutSession session eventLivemode =
     (case safe_amount (member session ''amount_total'') of
        None \<Rightarrow> Inl contradiction
      | Some amount \<Rightarrow>
          if amount \<le> 0 then Inl contradiction
          else if member session ''livemode'' = Some (BoolJ (\<not> eventLivemode)) then Inl contradiction
          else (case (sessionId (member session ''id''), sessionId (member session ''payment_intent''),
                      optionalMetadata session ''organizationId'') of
                  (Inr i, Inr p, Inr org) \<Rightarrow>
                    (let f = session_facts session eventLivemode amount i p org
                     in if session_complete f then Inr f else Inl contradiction)
                | _ \<Rightarrow> Inl contradiction))"

section \<open>Retrieval from Stripe (stripe-deposit-recovery.ts)\<close>

definition recovery_failure :: "string \<Rightarrow> bool \<Rightarrow> failure" where
  "recovery_failure code retryable = TransitionFailure (''STRIPE_RECOVERY_'' @ code) (''STRIPE_RECOVERY_'' @ code) retryable"

abbreviation response_invalid :: failure where
  "response_invalid \<equiv> recovery_failure ''RESPONSE_INVALID'' False"

text \<open>\<open>null\<close> and an absent member are both \<open>None\<close> here.\<close>

fun present :: "json option \<Rightarrow> json option" where
  "present (Some NullJ) = None"
| "present v = v"

definition boundedString :: "nat \<Rightarrow> bool \<Rightarrow> json option \<Rightarrow> failure + string option" where
  "boundedString limit required v =
     (if present v = None \<and> \<not> required then Inr None
      else (case v of
          Some (TextJ t) \<Rightarrow>
            if trim t = [] \<and> required \<or> length (trim t) > limit then Inl response_invalid
            else Inr (if trim t = [] then None else Some (trim t))
        | _ \<Rightarrow> Inl response_invalid))"

definition stripe_id_char :: "char \<Rightarrow> bool" where
  "stripe_id_char c \<longleftrightarrow> is_digit c \<or> 65 \<le> char_code c \<and> char_code c \<le> 90 \<or> 97 \<le> char_code c \<and> char_code c \<le> 122
     \<or> c = CHR ''_''"

definition objectId :: "bool \<Rightarrow> json option \<Rightarrow> failure + string option" where
  "objectId required v =
     (let raw = (case v of Some (TextJ t) \<Rightarrow> Some (TextJ t) | Some (ObjJ ms) \<Rightarrow> map_of ms ''id'' | _ \<Rightarrow> None)
      in case boundedString 191 required raw of
           Inl e \<Rightarrow> Inl e
         | Inr None \<Rightarrow> Inr None
         | Inr (Some t) \<Rightarrow> if list_all stripe_id_char t then Inr (Some t) else Inl response_invalid)"

definition metadataValue :: "json option \<Rightarrow> string \<Rightarrow> nat \<Rightarrow> failure + string option" where
  "metadataValue metadata key limit =
     (case present metadata of
        None \<Rightarrow> Inr None
      | Some (ObjJ ms) \<Rightarrow> boundedString limit False (map_of ms key)
      | _ \<Rightarrow> Inl response_invalid)"

definition minorAmount :: "json option \<Rightarrow> failure + int option" where
  "minorAmount v =
     (case present v of
        None \<Rightarrow> Inr None
      | Some (NumJ z) \<Rightarrow> if \<bar>z\<bar> > MAX_SAFE_INTEGER \<or> z < 0 then Inl response_invalid else Inr (Some z)
      | _ \<Rightarrow> Inl response_invalid)"

definition optionalBoolean :: "json option \<Rightarrow> failure + bool option" where
  "optionalBoolean v =
     (case present v of None \<Rightarrow> Inr None | Some (BoolJ b) \<Rightarrow> Inr (Some b) | _ \<Rightarrow> Inl response_invalid)"

definition requiredBoolean :: "json option \<Rightarrow> failure + bool" where
  "requiredBoolean v =
     (case optionalBoolean v of Inl e \<Rightarrow> Inl e | Inr None \<Rightarrow> Inl response_invalid | Inr (Some b) \<Rightarrow> Inr b)"

definition assertObjectType :: "json \<Rightarrow> string \<Rightarrow> failure + unit" where
  "assertObjectType v expected = (if obj_get v ''object'' = Some (TextJ expected) then Inr () else Inl response_invalid)"

text \<open>Sequencing of fallible steps.\<close>

definition bindE :: "'e + 'a \<Rightarrow> ('a \<Rightarrow> 'e + 'b) \<Rightarrow> 'e + 'b" where
  "bindE m k = (case m of Inl e \<Rightarrow> Inl e | Inr x \<Rightarrow> k x)"

definition checkE :: "bool \<Rightarrow> 'e \<Rightarrow> 'e + unit" where
  "checkE b e = (if b then Inr () else Inl e)"

text \<open>The values JavaScript takes as false, \<open>undefined\<close> apart.\<close>

fun falsy :: "json \<Rightarrow> bool" where
  "falsy NullJ = True"
| "falsy (BoolJ b) = (\<not> b)"
| "falsy (NumJ z) = (z = 0)"
| "falsy (DecJ d) = (d = 0)"
| "falsy (TextJ t) = (t = [])"
| "falsy _ = False"

type_synonym stripe_request = "string \<Rightarrow> string \<Rightarrow> string \<Rightarrow> failure + json"

text \<open>
  One GET of the API.  The answer has the status, the number its \<open>content-length\<close> gives (\<open>None\<close> when
  it is not finite, 0 when the header is missing), the lengths of the body's chunks and what \<open>JSON.parse\<close> makes of
  them (\<open>None\<close> when it throws); a request that throws is no answer.
\<close>

record http_response =
  hr_statusCode :: int
  hr_contentLength :: "int option"
  hr_chunks :: "nat list"
  hr_parsed :: "json option"

definition MAX_RESPONSE_BYTES :: nat where
  "MAX_RESPONSE_BYTES = 64 * 1024"

fun within_bound :: "nat \<Rightarrow> nat list \<Rightarrow> bool" where
  "within_bound got [] = True"
| "within_bound got (c # chunks) = (got + c \<le> MAX_RESPONSE_BYTES \<and> within_bound (got + c) chunks)"

definition readBoundedJson :: "http_response \<Rightarrow> failure + json" where
  "readBoundedJson response =
     (if \<not> within_bound 0 (hr_chunks response) then Inl response_invalid
      else case hr_parsed response of Some (ObjJ ms) \<Rightarrow> Inr (ObjJ ms) | _ \<Rightarrow> Inl response_invalid)"

definition status_failure :: "int \<Rightarrow> failure option" where
  "status_failure status =
     (if 200 \<le> status \<and> status < 300 then None
      else if status = 401 \<or> status = 403 then Some (recovery_failure ''AUTHENTICATION_FAILED'' True)
      else if status = 404 then Some (recovery_failure ''OBJECT_NOT_FOUND'' False)
      else if status = 429 then Some (recovery_failure ''RATE_LIMITED'' True)
      else if status \<ge> 500 then Some (recovery_failure ''PROVIDER_UNAVAILABLE'' True)
      else Some (recovery_failure ''REQUEST_REJECTED'' False))"

definition retrieveStripeObject :: "(string \<Rightarrow> string \<Rightarrow> string \<Rightarrow> http_response option) \<Rightarrow> stripe_request" where
  "retrieveStripeObject http path i secretKey =
     (if i = [] \<or> length i > 191 \<or> \<not> list_all stripe_id_char i then Inl (recovery_failure ''REQUEST_REJECTED'' False)
      else case http path i secretKey of
        None \<Rightarrow> Inl (recovery_failure ''PROVIDER_UNAVAILABLE'' True)
      | Some response \<Rightarrow>
          if (case hr_contentLength response of None \<Rightarrow> False | Some n \<Rightarrow> n > int MAX_RESPONSE_BYTES) then
            Inl response_invalid
          else (case status_failure (hr_statusCode response) of
              Some e \<Rightarrow> Inl e | None \<Rightarrow> readBoundedJson response))"

record retrieval_options =
  ro_secretKey :: "string option"
  ro_liveModeEnabled :: "string option"

definition recoveryKey :: "env \<Rightarrow> retrieval_options \<Rightarrow> failure + string" where
  "recoveryKey env options =
     (let secretKey = (if ro_secretKey options \<noteq> None then ro_secretKey options
            else env_process env ''STRIPE_DEPOSIT_RECOVERY_KEY'');
          liveGate = (if ro_liveModeEnabled options \<noteq> None then ro_liveModeEnabled options
            else env_process env ''STRIPE_LIVE_MODE_ENABLED'');
          keyMode = classifyStripeKeyMode secretKey
      in case secretKey of
           None \<Rightarrow> Inl (recovery_failure ''KEY_MISSING'' True)
         | Some key \<Rightarrow>
             if keyMode = KeyNone then Inl (recovery_failure ''KEY_MISSING'' True)
             else if keyMode = KeyInvalid then Inl (recovery_failure ''KEY_INVALID'' True)
             else if \<not> starts_with ''rk_test_'' (trim key) \<and> \<not> starts_with ''rk_live_'' (trim key) then
               Inl (recovery_failure ''KEY_INVALID'' True)
             else if keyMode = KeyLive \<and> map_option (\<lambda>t. to_lower (trim t)) liveGate \<noteq> Some ''true'' then
               Inl (recovery_failure ''LIVE_MODE_DISABLED'' True)
             else Inr key)"

text \<open>The three objects: the session, its payment intent if it has one, and the latest charge of that.\<close>

definition fetchSession :: "stripe_request \<Rightarrow> string \<Rightarrow> string \<Rightarrow> failure + json" where
  "fetchSession request sid key =
     bindE (request ''checkout/sessions'' sid key) (\<lambda>session.
     bindE (assertObjectType session ''checkout.session'') (\<lambda>_.
     bindE (objectId True (obj_get session ''id'')) (\<lambda>i.
     bindE (checkE (i = Some sid) response_invalid) (\<lambda>_. Inr session))))"

definition fetchPaymentIntent :: "stripe_request \<Rightarrow> string option \<Rightarrow> string \<Rightarrow> failure + json option" where
  "fetchPaymentIntent request paymentId key =
     (case paymentId of None \<Rightarrow> Inr None
      | Some p \<Rightarrow>
          bindE (request ''payment_intents'' p key) (\<lambda>intent.
          if falsy intent then Inr None else
          bindE (assertObjectType intent ''payment_intent'') (\<lambda>_.
          bindE (objectId True (obj_get intent ''id'')) (\<lambda>i.
          bindE (checkE (i = Some p) response_invalid) (\<lambda>_. Inr (Some intent))))))"

definition fetchCharge :: "stripe_request \<Rightarrow> string option \<Rightarrow> string option \<Rightarrow> string \<Rightarrow> failure + json option" where
  "fetchCharge request chargeId paymentId key =
     (case chargeId of None \<Rightarrow> Inr None
      | Some c \<Rightarrow>
          bindE (request ''charges'' c key) (\<lambda>charge.
          if falsy charge then Inr None else
          bindE (assertObjectType charge ''charge'') (\<lambda>_.
          bindE (objectId True (obj_get charge ''id'')) (\<lambda>i.
          bindE (objectId True (obj_get charge ''payment_intent'')) (\<lambda>p.
          bindE (checkE (i = Some c \<and> p = paymentId) response_invalid) (\<lambda>_.
          bindE (minorAmount (obj_get charge ''amount_refunded'')) (\<lambda>amountRefunded.
          bindE (requiredBoolean (obj_get charge ''disputed'')) (\<lambda>disputed.
          bindE (checkE (\<not> disputed \<and> amountRefunded = Some 0) response_invalid) (\<lambda>_. Inr (Some charge))))))))))"

definition latestCharge :: "json option \<Rightarrow> failure + string option" where
  "latestCharge intent = (case intent of None \<Rightarrow> Inr None | Some i \<Rightarrow> objectId False (obj_get i ''latest_charge''))"

definition assertRetrievedMode :: "env \<Rightarrow> retrieval_options \<Rightarrow> string \<Rightarrow> bool \<Rightarrow> failure + unit" where
  "assertRetrievedMode env options key livemode =
     (case assertStripeFinancialObjectMode (Some livemode) (Some key)
         (if ro_liveModeEnabled options \<noteq> None then ro_liveModeEnabled options
          else env_process env ''STRIPE_LIVE_MODE_ENABLED'') of
        Inl _ \<Rightarrow> Inl (recovery_failure ''MODE_MISMATCH'' False) | Inr _ \<Rightarrow> Inr ())"

text \<open>The fields the session, the intent and the charge contribute; without an object they stay null.\<close>

definition sessionEvidence :: "json \<Rightarrow> deposit_facts \<Rightarrow> failure + deposit_facts" where
  "sessionEvidence session f =
     (let metadata = obj_get session ''metadata''
      in bindE (boundedString 191 False (obj_get session ''client_reference_id'')) (\<lambda>reference.
         bindE (boundedString 64 False (obj_get session ''status'')) (\<lambda>status.
         bindE (boundedString 64 False (obj_get session ''payment_status'')) (\<lambda>paymentStatus.
         bindE (boundedString 32 False (obj_get session ''mode'')) (\<lambda>mode.
         bindE (minorAmount (obj_get session ''amount_total'')) (\<lambda>amount.
         bindE (boundedString 3 False (obj_get session ''currency'')) (\<lambda>currency.
         bindE (metadataValue metadata ''depositAttemptId'' 191) (\<lambda>attemptId.
         bindE (metadataValue metadata ''publicReference'' 32) (\<lambda>publicReference.
         bindE (metadataValue metadata ''walletId'' 191) (\<lambda>walletId.
         bindE (metadataValue metadata ''userId'' 191) (\<lambda>userId.
         bindE (metadataValue metadata ''organizationId'' 191) (\<lambda>organizationId.
         Inr (f\<lparr>df_clientReferenceId := reference, df_checkoutStatus := status,
           df_checkoutPaymentStatus := paymentStatus, df_checkoutMode := mode, df_checkoutAmountTotalMinor := amount,
           df_checkoutCurrency := currency, df_checkoutMetadataAttemptId := attemptId,
           df_checkoutMetadataReference := publicReference, df_checkoutMetadataWalletId := walletId,
           df_checkoutMetadataUserId := userId, df_checkoutMetadataOrgId := organizationId\<rparr>)))))))))))))"

definition intentEvidence :: "json option \<Rightarrow> deposit_facts \<Rightarrow> failure + deposit_facts" where
  "intentEvidence found f =
     (case found of None \<Rightarrow> Inr f
      | Some intent \<Rightarrow>
          (let metadata = obj_get intent ''metadata''
           in bindE (boundedString 64 False (obj_get intent ''status'')) (\<lambda>status.
              bindE (minorAmount (obj_get intent ''amount'')) (\<lambda>amount.
              bindE (minorAmount (obj_get intent ''amount_received'')) (\<lambda>received.
              bindE (boundedString 3 False (obj_get intent ''currency'')) (\<lambda>currency.
              bindE (requiredBoolean (obj_get intent ''livemode'')) (\<lambda>livemode.
              bindE (metadataValue metadata ''depositAttemptId'' 191) (\<lambda>attemptId.
              bindE (metadataValue metadata ''publicReference'' 32) (\<lambda>publicReference.
              bindE (metadataValue metadata ''walletId'' 191) (\<lambda>walletId.
              Inr (f\<lparr>df_paymentIntentStatus := status, df_paymentIntentAmountMinor := amount,
                df_paymentIntentReceivedMinor := received, df_paymentIntentCurrency := currency,
                df_paymentIntentLivemode := Some livemode, df_paymentMetadataAttemptId := attemptId,
                df_paymentMetadataReference := publicReference, df_paymentMetadataWalletId := walletId\<rparr>)))))))))))"

definition chargeEvidence :: "json option \<Rightarrow> deposit_facts \<Rightarrow> failure + deposit_facts" where
  "chargeEvidence found f =
     (case found of None \<Rightarrow> Inr f
      | Some charge \<Rightarrow>
          bindE (requiredBoolean (obj_get charge ''paid'')) (\<lambda>paid.
          bindE (requiredBoolean (obj_get charge ''captured'')) (\<lambda>captured.
          bindE (requiredBoolean (obj_get charge ''refunded'')) (\<lambda>refunded.
          bindE (minorAmount (obj_get charge ''amount'')) (\<lambda>amount.
          bindE (minorAmount (obj_get charge ''amount_captured'')) (\<lambda>amountCaptured.
          bindE (boundedString 3 False (obj_get charge ''currency'')) (\<lambda>currency.
          bindE (requiredBoolean (obj_get charge ''livemode'')) (\<lambda>livemode.
          Inr (f\<lparr>df_chargePaid := Some paid, df_chargeCaptured := Some captured, df_chargeRefunded := Some refunded,
            df_chargeAmountMinor := amount, df_chargeAmountCapturedMinor := amountCaptured,
            df_chargeCurrency := currency, df_chargeLivemode := Some livemode\<rparr>)))))))))"

record retrieved_evidence =
  rt_facts :: deposit_facts
  rt_evidenceFingerprint :: string
  rt_retrievedAt :: int

definition retrieveStripeDepositEvidence ::
    "env \<Rightarrow> retrieval_options \<Rightarrow> stripe_request \<Rightarrow> string \<Rightarrow> failure + retrieved_evidence" where
  "retrieveStripeDepositEvidence env options request sid =
     bindE (recoveryKey env options) (\<lambda>key.
     bindE (fetchSession request sid key) (\<lambda>session.
     bindE (objectId False (obj_get session ''payment_intent'')) (\<lambda>paymentId.
     bindE (fetchPaymentIntent request paymentId key) (\<lambda>intent.
     bindE (latestCharge intent) (\<lambda>chargeId.
     bindE (fetchCharge request chargeId paymentId key) (\<lambda>charge.
     bindE (requiredBoolean (obj_get session ''livemode'')) (\<lambda>livemode.
     bindE (assertRetrievedMode env options key livemode) (\<lambda>_.
     bindE (sessionEvidence session (no_facts\<lparr>df_source := ProviderRetrieval, df_providerSessionId := sid,
       df_providerPaymentId := paymentId, df_providerChargeId := chargeId, df_checkoutLivemode := livemode\<rparr>)) (\<lambda>f1.
     bindE (intentEvidence intent f1) (\<lambda>f2.
     bindE (chargeEvidence charge f2) (\<lambda>f.
     Inr \<lparr>rt_facts = f, rt_evidenceFingerprint = stripeDepositRecoveryEvidenceFingerprint env f,
          rt_retrievedAt = env_now env\<rparr>)))))))))))"

definition stripeDepositEvidenceCreateData ::
    "string \<Rightarrow> string \<Rightarrow> retrieved_evidence \<Rightarrow> int \<Rightarrow> int \<Rightarrow> string \<Rightarrow> credit_evidence_row" where
  "stripeDepositEvidenceCreateData recoveryId depositAttemptId evidence claimAttempt claimLockedAt i =
     \<lparr>ce_id = i, ce_recoveryId = recoveryId, ce_depositAttemptId = depositAttemptId, ce_claimAttempt = claimAttempt,
      ce_claimLockedAt = claimLockedAt, ce_facts = rt_facts evidence,
      ce_evidenceFingerprint = rt_evidenceFingerprint evidence\<rparr>"

section \<open>Retrieved facts against the attempt (deposit-credit-core.ts)\<close>

definition one_of :: "string option \<Rightarrow> string list \<Rightarrow> bool" where
  "one_of v allowed \<longleftrightarrow> (case v of None \<Rightarrow> [] \<in> set allowed | Some t \<Rightarrow> t \<in> set allowed)"

definition evidence_of_attempt :: "deposit_row \<Rightarrow> deposit_facts \<Rightarrow> bool" where
  "evidence_of_attempt a f \<longleftrightarrow>
     df_provider f = ''stripe'' \<and> Some (df_providerSessionId f) = da_providerSessionId a
     \<and> df_clientReferenceId f = Some (da_id a) \<and> df_checkoutMode f = Some ''payment''
     \<and> one_of (df_checkoutStatus f) [''open'', ''complete'', ''expired'']
     \<and> one_of (df_checkoutPaymentStatus f) [''paid'', ''unpaid'']
     \<and> (case df_checkoutAmountTotalMinor f of None \<Rightarrow> False | Some m \<Rightarrow> m > 0)
     \<and> df_checkoutCurrency f = Some ''usd'' \<and> df_checkoutMetadataAttemptId f = Some (da_id a)
     \<and> df_checkoutMetadataReference f = Some (da_publicReference a)
     \<and> df_checkoutMetadataWalletId f = Some (da_walletId a)
     \<and> df_checkoutMetadataUserId f = Some (da_createdByUserId a)
     \<and> (if truthy (df_checkoutMetadataOrgId f) then df_checkoutMetadataOrgId f else None) = da_organizationId a
     \<and> da_provider a = ''stripe'' \<and> da_currency a = ''USD''
     \<and> decimalToMinor (column (da_amount a)) = df_checkoutAmountTotalMinor f
     \<and> decimalToMinor (column (da_walletCredit a)) = df_checkoutAmountTotalMinor f
     \<and> decimalToMinor (column (da_customerFee a)) = Some 0
     \<and> (da_providerPaymentId a = None \<or> da_providerPaymentId a = df_providerPaymentId f)
     \<and> (da_providerChargeId a = None \<or> da_providerChargeId a = df_providerChargeId f)"

definition intent_consistent :: "deposit_row \<Rightarrow> deposit_facts \<Rightarrow> bool" where
  "intent_consistent a f \<longleftrightarrow>
     (if df_providerPaymentId f \<noteq> None then
        truthy (df_paymentIntentStatus f) \<and> df_paymentIntentAmountMinor f = df_checkoutAmountTotalMinor f
        \<and> (case (df_paymentIntentReceivedMinor f, df_checkoutAmountTotalMinor f) of
             (Some received, Some amount) \<Rightarrow> 0 \<le> received \<and> received \<le> amount | _ \<Rightarrow> False)
        \<and> df_paymentIntentCurrency f = Some ''usd'' \<and> df_paymentIntentLivemode f = Some (df_checkoutLivemode f)
        \<and> df_paymentMetadataAttemptId f = Some (da_id a) \<and> df_paymentMetadataReference f = Some (da_publicReference a)
        \<and> df_paymentMetadataWalletId f = Some (da_walletId a)
      else
        df_paymentIntentStatus f = None \<and> df_paymentIntentAmountMinor f = None \<and> df_paymentIntentReceivedMinor f = None
        \<and> df_paymentIntentCurrency f = None \<and> df_paymentIntentLivemode f = None
        \<and> df_paymentMetadataAttemptId f = None \<and> df_paymentMetadataReference f = None
        \<and> df_paymentMetadataWalletId f = None \<and> df_providerChargeId f = None)"

definition charge_consistent :: "deposit_facts \<Rightarrow> bool" where
  "charge_consistent f \<longleftrightarrow>
     (if df_providerChargeId f \<noteq> None then
        df_chargePaid f \<noteq> None \<and> df_chargeCaptured f \<noteq> None \<and> df_chargeRefunded f \<noteq> None
        \<and> df_chargeAmountMinor f = df_checkoutAmountTotalMinor f
        \<and> (case (df_chargeAmountCapturedMinor f, df_checkoutAmountTotalMinor f) of
             (Some captured, Some amount) \<Rightarrow> captured \<le> amount | _ \<Rightarrow> False)
        \<and> df_chargeCurrency f = Some ''usd'' \<and> df_chargeLivemode f = Some (df_checkoutLivemode f)
      else
        df_chargePaid f = None \<and> df_chargeCaptured f = None \<and> df_chargeRefunded f = None
        \<and> df_chargeAmountMinor f = None \<and> df_chargeAmountCapturedMinor f = None \<and> df_chargeCurrency f = None
        \<and> df_chargeLivemode f = None)"

definition unpaid_consistent :: "deposit_facts \<Rightarrow> bool" where
  "unpaid_consistent f \<longleftrightarrow>
     df_checkoutPaymentStatus f = Some ''paid''
     \<or> df_paymentIntentStatus f \<noteq> Some ''succeeded''
       \<and> \<not> (case df_paymentIntentReceivedMinor f of None \<Rightarrow> False | Some r \<Rightarrow> r > 0)
       \<and> df_chargePaid f \<noteq> Some True \<and> df_chargeCaptured f \<noteq> Some True
       \<and> \<not> (case df_chargeAmountCapturedMinor f of None \<Rightarrow> False | Some c \<Rightarrow> c > 0)"

definition assertDepositRecoveryEvidenceMatchesAttempt :: "deposit_row \<Rightarrow> deposit_facts \<Rightarrow> failure + unit" where
  "assertDepositRecoveryEvidenceMatchesAttempt a f =
     (if \<not> evidence_of_attempt a f then Inl attempt_mismatch
      else if \<not> intent_consistent a f then Inl contradiction
      else if \<not> charge_consistent f then Inl contradiction
      else if \<not> unpaid_consistent f then Inl contradiction
      else Inr ())"

definition depositCreditFactsFromRecoveryEvidence :: "retrieved_evidence \<Rightarrow> deposit_facts option" where
  "depositCreditFactsFromRecoveryEvidence evidence = recoveryEvidenceToFacts (rt_facts evidence)"

end
