(* ===== verification/Deposit_Safety.thy ===== *)
theory Deposit_Safety
  imports Books Deposit_Evidence
begin

text \<open>
  What the credit of a deposit guarantees: its exact effect, that a checkout session and a payment
  are credited once whatever the authorities and however often, that every cent of the wallets
  added by a credit is a DEPOSIT row, that a claim is consumed, and that facts retrieved from
  Stripe are the facts the credit later checks.
\<close>

section \<open>The effect of a credit\<close>

definition credit_wf :: "db \<Rightarrow> bool" where
  "credit_wf s \<longleftrightarrow> distinct (map w_id (wallets s)) \<and> distinct (map da_id (deposits s))
     \<and> distinct (map pv_id (provider_events s)) \<and> distinct (map rv_id (recoveries s))"

definition credit_hooks_ok :: "credit_hooks \<Rightarrow> bool" where
  "credit_hooks_ok h \<longleftrightarrow> (\<forall>a s u s'. ch_audit h a s = Inr (u, s') \<longrightarrow> aside s s')
     \<and> (\<forall>n s u s'. ch_recordSuccess h n s = Inr (u, s') \<longrightarrow> aside s s')"

definition credit_frame :: "db \<Rightarrow> db \<Rightarrow> bool" where
  "credit_frame s s' \<longleftrightarrow> s'\<lparr>wallets := wallets s, transactions := transactions s, deposits := deposits s,
     provider_events := provider_events s, recoveries := recoveries s, audit_logs := audit_logs s,
     outbox := outbox s, notifications := notifications s, id_supply := id_supply s\<rparr> = s"

text \<open>A result that credits nothing leaves wallets, ledger and attempts alone.\<close>

definition credit_idle :: "db \<Rightarrow> db \<Rightarrow> bool" where
  "credit_idle s s' \<longleftrightarrow> wallets s' = wallets s \<and> transactions s' = transactions s \<and> deposits s' = deposits s
     \<and> credit_frame s s'"

definition credited_row :: "env \<Rightarrow> deposit_facts \<Rightarrow> string \<Rightarrow> deposit_row \<Rightarrow> deposit_row" where
  "credited_row env f ledger r = r\<lparr>da_status := ''SUCCEEDED'', da_providerPaymentId := df_providerPaymentId f,
     da_providerChargeId := df_providerChargeId f, da_ledgerTransactionId := Some ledger,
     da_completedAt := Some (env_now env), da_failedAt := None, da_failureCode := None\<rparr>"

text \<open>
  One credit: the attempt the facts are exactly about, not yet credited, gets the one new ledger row,
  whose reference and payment no earlier row has, and its wallet gains the amount of that row.
\<close>

definition credit_done :: "env \<Rightarrow> deposit_facts \<Rightarrow> db \<Rightarrow> db \<Rightarrow> bool" where
  "credit_done env f s s' \<longleftrightarrow> (\<exists>a t m.
     df_checkoutAmountTotalMinor f = Some m \<and> find_deposit (da_id a) s = Some a \<and> attempt_exact a f
     \<and> isCreditablePreCreditDepositStatus (da_status a) \<and> da_ledgerTransactionId a = None
     \<and> transactions s' = transactions s @ [t] \<and> transaction_unique t (transactions s)
     \<and> t_type t = ''DEPOSIT'' \<and> t_amount t = m * CENT \<and> t_currency t = ''USD'' \<and> t_walletId t = Some (da_walletId a)
     \<and> t_reference t = Some (df_providerSessionId f) \<and> t_provider t = Some ''stripe''
     \<and> t_providerRef t = df_providerPaymentId f \<and> t_orderId t = None \<and> t_settlementId t = None \<and> t_publisherId t = None
     \<and> wallet_moved (da_walletId a) (m * CENT) 0 s s'
     \<and> (\<forall>k. find_deposit k s' = (if k = da_id a then Some (credited_row env f (t_id t) a) else find_deposit k s))
     \<and> credit_frame s s')"

lemma credit_frame_refl [simp]: "credit_frame s s"
  by (simp add: credit_frame_def)

lemma credit_frame_trans: "credit_frame s t \<Longrightarrow> credit_frame t u \<Longrightarrow> credit_frame s u"
  unfolding credit_frame_def by (cases s; cases t; cases u) simp

lemma credit_frame_sym: "credit_frame s t \<Longrightarrow> credit_frame t s"
  unfolding credit_frame_def by (cases s; cases t) simp

lemma aside_credit_frame: "aside s s' \<Longrightarrow> credit_frame s s'"
  by (auto simp: aside_def credit_frame_def)

lemma aside_tables:
  "aside s s' \<Longrightarrow> wallets s' = wallets s \<and> transactions s' = transactions s \<and> deposits s' = deposits s
     \<and> provider_events s' = provider_events s \<and> recoveries s' = recoveries s"
  by (auto simp: aside_def)

lemma minorToMoney_db: "0 \<le> m \<Longrightarrow> db_decimal (minorToMoney m) = m * CENT"
  using db_decimal_usdAmount[of m] by (simp add: minorToMoney_cents_text usdAmount_cents_text)

lemma minor_column: "decimalToMinor (column d) = Some m \<Longrightarrow> d = m * CENT"
  by (auto simp: decimalToMinor_column split: if_splits)

lemma creditWallet_Inr:
  assumes r: "creditWallet env f a w (minorToMoney m) s = Inr (ledger, s')" and m: "0 \<le> m"
    and a: "find_deposit (da_id a) s = Some a" and w: "find_wallet (da_walletId a) s = Some w" and wf: "credit_wf s"
  shows "\<exists>t. transactions s' = transactions s @ [t] \<and> transaction_unique t (transactions s) \<and> t_id t = ledger
     \<and> t_type t = ''DEPOSIT'' \<and> t_amount t = m * CENT \<and> t_currency t = ''USD'' \<and> t_walletId t = Some (da_walletId a)
     \<and> t_reference t = Some (df_providerSessionId f) \<and> t_provider t = Some ''stripe''
     \<and> t_providerRef t = df_providerPaymentId f \<and> t_orderId t = None \<and> t_settlementId t = None \<and> t_publisherId t = None
     \<and> wallet_moved (da_walletId a) (m * CENT) 0 s s'
     \<and> (\<forall>k. find_deposit k s' = (if k = da_id a then Some (credited_row env f ledger a) else find_deposit k s))
     \<and> map w_id (wallets s') = map w_id (wallets s) \<and> map da_id (deposits s') = map da_id (deposits s)
     \<and> provider_events s' = provider_events s \<and> recoveries s' = recoveries s \<and> credit_frame s s'"
proof -
  let ?row = "new_transaction\<lparr>t_walletId := Some (da_walletId a), t_amount := m * CENT,
       t_type := ''DEPOSIT'', t_currency := ''USD'', t_reference := Some (df_providerSessionId f),
       t_provider := Some ''stripe'', t_providerRef := df_providerPaymentId f,
       t_description := Some (''GuestPost wallet deposit '' @ da_publicReference a)\<rparr>"
  let ?fw = "\<lambda>x. x\<lparr>w_availableBalance := w_availableBalance x + m * CENT, w_version := w_version x + 1\<rparr>"
  let ?gd = "\<lambda>r. da_id r = da_id a \<and> da_walletId r = da_walletId a \<and> da_provider r = ''stripe''
          \<and> da_providerSessionId r = Some (df_providerSessionId f) \<and> da_amount r = m * CENT
          \<and> da_walletCredit r = m * CENT \<and> da_customerFee r = db_decimal ''0.00'' \<and> da_currency r = ''USD''
          \<and> da_ledgerTransactionId r = None
          \<and> da_status r \<in> {''CREATED'', ''PENDING_CUSTOMER_ACTION'', ''PROCESSING'', ''FAILED'', ''EXPIRED''}"
  have u: "transaction_unique ?row (transactions s)" and l: "ledger = env_cuid env (id_supply s)"
    and c: "count_where ?gd (deposits s) = 1"
    and s': "s' = s\<lparr>id_supply := id_supply s + 1, transactions := transactions s @ [?row\<lparr>t_id := ledger, t_createdAt := env_now env\<rparr>],
       wallets := update_where (\<lambda>x. w_id x = w_id w \<and> w_version x = w_version w) ?fw (wallets s),
       deposits := update_where ?gd (credited_row env f ledger) (deposits s)\<rparr>"
    using r unfolding creditWallet_def minorToMoney_db[OF m]
    by (simp_all add: tx_simps credited_row_def[abs_def])
  have wid: "w_id w = da_walletId a" using w find_key unfolding find_wallet_def by fastforce
  have D: "distinct (map w_id (wallets s))" "distinct (map da_id (deposits s))" using wf by (auto simp: credit_wf_def)
  have a': "find (\<lambda>r. da_id r = da_id a) (deposits s) = Some a" using a by (simp add: find_deposit_def)
  have ids: "da_id (credited_row env f ledger x) = da_id x" for x by (simp add: credited_row_def)
  have "update_where ?gd (credited_row env f ledger) (deposits s)
      = update_where (\<lambda>x. da_id x = da_id a) (credited_row env f ledger) (deposits s)"
    using guard_row[of da_id "deposits s" a ?gd "credited_row env f ledger", OF D(2) _ _ c] find_key[OF a'] by blast
  then have dep: "find_deposit k s' = (if k = da_id a then Some (credited_row env f ledger a) else find_deposit k s)" for k
    using find_one[of da_id "da_id a" "deposits s" a "credited_row env f ledger" k] a' ids
    by (simp add: find_deposit_def s')
  have "wallet_moved (da_walletId a) (m * CENT) 0 s
      (s\<lparr>wallets := update_where (\<lambda>x. w_id x = da_walletId a \<and> w_version x = w_version w) ?fw (wallets s)\<rparr>)"
    by (rule guarded_wallet[OF D(1) w]) simp_all
  then have mv: "wallet_moved (da_walletId a) (m * CENT) 0 s s'"
    using moved_wallets[of s s s' "s\<lparr>wallets := update_where (\<lambda>x. w_id x = da_walletId a \<and> w_version x = w_version w) ?fw (wallets s)\<rparr>"]
    by (simp add: s' wid)
  show ?thesis
    by (rule exI[of _ "?row\<lparr>t_id := ledger, t_createdAt := env_now env\<rparr>"])
      (use u dep mv in \<open>simp add: s' new_transaction_def transaction_unique_def map_update_where ids credit_frame_def\<close>)
qed

section \<open>Claims\<close>

text \<open>The claim of the authority is consumed; a snapshot of a processed event claims nothing.\<close>

fun claim_closed :: "credit_authority \<Rightarrow> db \<Rightarrow> bool" where
  "claim_closed (WebhookAuthority k (Lease a l)) s =
     (case find_provider_event k s of None \<Rightarrow> True | Some e \<Rightarrow> pv_status e \<noteq> ''PROCESSING'')"
| "claim_closed (WebhookAuthority k (Snapshot st a l p)) s = True"
| "claim_closed (RecoveryAuthority k e a l) s =
     (case find_recovery k s of None \<Rightarrow> True | Some r \<Rightarrow> rv_status r \<noteq> ''PROCESSING'')"

fun claims :: "credit_authority \<Rightarrow> bool" where
  "claims (WebhookAuthority k (Snapshot st a l p)) = False"
| "claims (WebhookAuthority k (Lease a l)) = True"
| "claims (RecoveryAuthority k e a l) = True"

lemma closed_refuses: "claim_closed authority s \<Longrightarrow> claims authority \<Longrightarrow> isl (assertAuthority env authority f s)"
  by (cases authority rule: claims.cases)
    (auto simp: assertEventAuthority_def assertRecoveryAuthority_def andThen_def query_def require_def throw_def
      split: option.splits)

text \<open>An update of the one row that a guard fixes, seen through the key of the table.\<close>

lemma guarded_one:
  assumes d: "distinct (map key rows)" and g: "\<And>x. g x \<Longrightarrow> key x = k" and c: "count_where g rows = 1"
    and f: "\<And>x. key (f x) = key x"
  shows "\<exists>r. find (\<lambda>x. key x = k) rows = Some r \<and> g r
     \<and> (\<forall>j. find (\<lambda>x. key x = j) (update_where g f rows) = (if j = k then Some (f r) else find (\<lambda>x. key x = j) rows))"
proof -
  obtain r where r: "r \<in> set rows" "g r" using c count_where_pos[of g rows] by auto
  have fr: "find (\<lambda>x. key x = k) rows = Some r" by (rule find_distinct[OF d r(1) g[OF r(2)]])
  have "update_where g f rows = update_where (\<lambda>x. key x = k) f rows"
    using guard_row[OF d r(1) _ c, of f] g g[OF r(2)] by simp
  then show ?thesis using find_one[OF fr f] fr r(2) by auto
qed

lemma completeAuthority_Inr:
  assumes r: "completeAuthority env authority k s = Inr (u, s')" and wf: "credit_wf s"
  shows "claim_closed authority s' \<and> credit_wf s' \<and> credit_idle s s'"
proof (cases authority rule: claims.cases)
  case (1 i st a l p)
  then have "s' = s" using r by (auto simp: tx_simps)
  then show ?thesis using 1 wf by (simp add: credit_idle_def)
next
  case (2 i a l)
  let ?g = "\<lambda>e. pv_id e = i \<and> pv_status e = ''PROCESSING'' \<and> pv_attempts e = a \<and> pv_lockedAt e = Some l"
  let ?f = "\<lambda>e. e\<lparr>pv_status := ''PROCESSED'', pv_processedAt := Some (env_now env), pv_lockedAt := None,
              pv_depositAttemptId := Some k, pv_lastError := None\<rparr>"
  have c: "count_where ?g (provider_events s) = 1"
    and s': "s' = s\<lparr>provider_events := update_where ?g ?f (provider_events s)\<rparr>"
    using r 2 by (auto simp: tx_simps)
  have "distinct (map pv_id (provider_events s))" using wf by (simp add: credit_wf_def)
  from guarded_one[OF this _ c, of i ?f] have "claim_closed authority s'"
    using 2 by (auto simp: find_provider_event_def s')
  then show ?thesis using wf by (simp add: s' credit_wf_def credit_idle_def credit_frame_def map_update_where)
next
  case (3 i e a l)
  let ?g = "\<lambda>r. rv_id r = i \<and> rv_depositAttemptId r = k \<and> rv_status r = ''PROCESSING''
          \<and> rv_attempts r = a \<and> rv_lockedAt r = Some l \<and> rv_evidenceId r = None"
  let ?f = "\<lambda>r. r\<lparr>rv_status := ''PROCESSED'', rv_processedAt := Some (env_now env), rv_lockedAt := None,
              rv_evidenceId := Some e, rv_lastError := None\<rparr>"
  have c: "count_where ?g (recoveries s) = 1" and s': "s' = s\<lparr>recoveries := update_where ?g ?f (recoveries s)\<rparr>"
    using r 3 by (auto simp: tx_simps)
  have "distinct (map rv_id (recoveries s))" using wf by (simp add: credit_wf_def)
  from guarded_one[OF this _ c, of i ?f] have "claim_closed authority s'"
    using 3 by (auto simp: find_recovery_def s')
  then show ?thesis using wf by (simp add: s' credit_wf_def credit_idle_def credit_frame_def map_update_where)
qed

section \<open>A transaction\<close>

definition ledger_has :: "deposit_facts \<Rightarrow> db \<Rightarrow> bool" where
  "ledger_has f s \<longleftrightarrow> (\<exists>t \<in> set (transactions s). t_reference t = Some (df_providerSessionId f)
     \<or> t_provider t = Some ''stripe'' \<and> t_providerRef t = df_providerPaymentId f)"

lemma replay_ledger:
  assumes "exactLedgerReplay a f s = Inr (x, s')"
  shows "s' = s \<and> (x = None \<longleftrightarrow> \<not> ledger_has f s)
    \<and> (\<forall>t. x = Some t \<longrightarrow> t \<in> set (transactions s) \<and> t_type t = ''DEPOSIT'' \<and> t_reference t = Some (df_providerSessionId f)
         \<and> t_walletId t = Some (da_walletId a) \<and> da_ledgerTransactionId a = Some (t_id t)
         \<and> decimalToMinor (column (t_amount t)) = df_checkoutAmountTotalMinor f)"
proof -
  let ?p = "\<lambda>t. t_reference t = Some (df_providerSessionId f)
        \<or> t_provider t = Some ''stripe'' \<and> t_providerRef t = df_providerPaymentId f"
  have has: "ledger_has f s \<longleftrightarrow> filter ?p (transactions s) \<noteq> []"
    by (auto simp: ledger_has_def filter_empty_conv)
  have shape: "xs = [] \<or> (\<exists>t. xs = [t]) \<or> (\<exists>t u ts. xs = t # u # ts)" for xs :: "transaction_row list"
    by (cases xs; cases "tl xs") auto
  consider "filter ?p (transactions s) = []" | t where "filter ?p (transactions s) = [t]"
    | t u ts where "filter ?p (transactions s) = t # u # ts"
    using shape[of "filter ?p (transactions s)"] by blast
  then show ?thesis
  proof cases
    case 1
    then show ?thesis using assms has by (simp add: exactLedgerReplay_def tx_simps)
  next
    case 2
    then have "t \<in> set (filter ?p (transactions s))" by (simp only: list.set_intros)
    then have "t \<in> set (transactions s)" unfolding set_filter by (elim CollectE conjE)
    then show ?thesis using assms has 2 by (auto simp: exactLedgerReplay_def tx_simps)
  next
    case 3
    then show ?thesis using assms by (simp add: exactLedgerReplay_def tx_simps)
  qed
qed

lemma announce_aside:
  assumes "announceCredit hooks f a amount s = Inr (x, s')" "credit_hooks_ok hooks"
  shows "credit_frame s s' \<and> wallets s' = wallets s \<and> transactions s' = transactions s \<and> deposits s' = deposits s
    \<and> provider_events s' = provider_events s \<and> recoveries s' = recoveries s"
proof -
  obtain u s1 where "aside s s1" "aside s1 s'"
    using assms unfolding announceCredit_def andThen_Inr credit_hooks_ok_def by blast
  then show ?thesis
    using credit_frame_trans[OF aside_credit_frame aside_credit_frame, of s s1 s'] aside_tables[of s s1] aside_tables[of s1 s']
    by simp
qed

lemma claim_closed_same:
  "provider_events s' = provider_events s \<Longrightarrow> recoveries s' = recoveries s \<Longrightarrow> claim_closed authority s' = claim_closed authority s"
  by (cases authority rule: claims.cases) (simp_all add: find_provider_event_def find_recovery_def)

text \<open>A credit holds for what the ledger, the wallets and the attempts are, whatever the hooks wrote.\<close>

lemma credit_done_idle:
  assumes d: "credit_done env f s s1" and i: "credit_idle s1 s2"
  shows "credit_done env f s s2"
proof -
  have "wallet_moved w a b s s2 = wallet_moved w a b s s1" for w a b
    using i by (intro moved_wallets) (simp_all add: credit_idle_def)
  moreover have "find_deposit k s2 = find_deposit k s1" for k using i by (simp add: credit_idle_def find_deposit_def)
  moreover have "credit_frame s s2 = credit_frame s s1"
    using i credit_frame_trans[of s s1 s2] credit_frame_trans[of s s2 s1] credit_frame_sym[of s1 s2]
    unfolding credit_idle_def by blast
  moreover have "transactions s2 = transactions s1" using i by (simp add: credit_idle_def)
  ultimately show ?thesis using d unfolding credit_done_def by simp
qed

lemma findExactAttempt_Inr:
  "findExactAttempt f s = Inr (a, s') \<Longrightarrow> s' = s"
  by (auto simp: findExactAttempt_def tx_simps split: list.splits)

lemma assert_keeps:
  "assertAuthority env authority f s = Inr (u, s') \<Longrightarrow> s' = s"
  "assertRecoveryAttempt authority a s = Inr (v, s') \<Longrightarrow> s' = s"
  by (cases authority; auto simp: assertEventAuthority_def assertRecoveryAuthority_def assertRecoveryAttempt_def
      tx_simps split: option.splits)+

text \<open>A transaction checks its authority, then replays or credits, then consumes its claim.\<close>

lemma creditTx_Inr:
  assumes r: "creditTx env hooks authority f s = Inr (oc, s')"
  shows "\<not> isl (assertAuthority env authority f s)
    \<and> (\<exists>a w. find_deposit (da_id a) s = Some a \<and> attempt_exact a f \<and> find_wallet (da_walletId a) s = Some w
         \<and> creditAttempt env hooks authority f a w s = Inr (oc, s'))"
proof -
  obtain u0 s0 a0 s1 u1 s2 m s3 where c: "assertAuthority env authority f s = Inr (u0, s0)"
      "findExactAttempt f s0 = Inr (a0, s1)" "assertRecoveryAttempt authority a0 s1 = Inr (u1, s2)"
      "lift_sum id (assertDepositStripeMode env f) s2 = Inr (m, s3)"
    and rest: "(case find_deposit (da_id a0) s3 of None \<Rightarrow> throw (prisma_code ''P2025'')
     | Some a \<Rightarrow>
       andThen (require (attempt_exact a f) attempt_mismatch) (\<lambda>_.
       andThen (query (find_wallet (da_walletId a))) (\<lambda>found.
       case found of None \<Rightarrow> throw (prisma_code ''P2025'')
       | Some wallet \<Rightarrow>
         andThen (require (w_currency wallet = ''USD'') (credit_failure ''DEPOSIT_WALLET_CURRENCY_MISMATCH'' False)) (\<lambda>_.
         creditAttempt env hooks authority f a wallet)))) s3 = Inr (oc, s')"
    using r unfolding creditTx_def andThen_Inr query_Inr prod.inject by blast
  have s: "s0 = s" "s1 = s" "s2 = s" "s3 = s"
    using assert_keeps(1)[OF c(1)] findExactAttempt_Inr[OF c(2)] assert_keeps(2)[OF c(3)] c(4)
    by (auto simp: tx_simps)
  obtain a where a: "find_deposit (da_id a0) s = Some a" using rest s by (cases "find_deposit (da_id a0) s3") (auto simp: tx_simps)
  have "find_deposit (da_id a) s = Some a"
    using a find_key[of "\<lambda>d. da_id d = da_id a0" "deposits s" a] by (auto simp: find_deposit_def)
  moreover obtain w where "find_wallet (da_walletId a) s = Some w" "attempt_exact a f"
      "creditAttempt env hooks authority f a w s = Inr (oc, s')"
    using rest a s by (cases "find_wallet (da_walletId a) s") (auto simp: tx_simps)
  ultimately show ?thesis using c(1) by auto
qed

text \<open>What every committed transaction does.\<close>

lemma credit_step:
  assumes r: "creditTx env hooks authority f s = Inr (oc, s')" and h: "credit_hooks_ok hooks" and wf: "credit_wf s"
    and pos: "assertProviderFacts f = Inr ()"
  shows "credit_wf s' \<and> claim_closed authority s'
    \<and> (if co_credited oc then credit_done env f s s' \<and> \<not> ledger_has f s else credit_idle s s' \<and> ledger_has f s)"
proof -
  obtain a w where a: "find_deposit (da_id a) s = Some a" and ex: "attempt_exact a f"
    and w: "find_wallet (da_walletId a) s = Some w" and c: "creditAttempt env hooks authority f a w s = Inr (oc, s')"
    using creditTx_Inr[OF r] by blast
  obtain m where m: "df_checkoutAmountTotalMinor f = Some m" "0 \<le> m"
    using pos by (auto simp: assertProviderFacts_def split: option.splits sum.splits if_splits)
  obtain replay s1 where rp: "exactLedgerReplay a f s = Inr (replay, s1)"
    using c unfolding creditAttempt_def andThen_Inr by blast
  note R = replay_ledger[OF rp]
  show ?thesis
  proof (cases replay)
    case (Some t)
    then obtain u where "completeAuthority env authority (da_id a) s = Inr (u, s')" "\<not> co_credited oc"
      using c rp R unfolding creditAttempt_def by (auto simp: tx_simps)
    then show ?thesis using completeAuthority_Inr[OF _ wf] R Some by auto
  next
    case None
    then obtain ledger s2 u s3 ev s4 where st: "isCreditablePreCreditDepositStatus (da_status a)" "da_ledgerTransactionId a = None"
      and cw: "creditWallet env f a w (minorToMoney m) s = Inr (ledger, s2)"
      and ca: "completeAuthority env authority (da_id a) s2 = Inr (u, s3)"
      and an: "announceCredit hooks f a (minorToMoney m) s3 = Inr (ev, s')" and oc: "co_credited oc"
      using c rp R m(1) unfolding creditAttempt_def by (auto simp: tx_simps Let_def)
    from creditWallet_Inr[OF cw m(2) a w wf] have done2: "credit_done env f s s2" and wf2: "credit_wf s2"
      unfolding credit_done_def using m(1) a ex st wf by (auto simp: credit_wf_def)
    note C = completeAuthority_Inr[OF ca wf2] and A = announce_aside[OF an h]
    have i: "credit_idle s3 s'" using A by (simp add: credit_idle_def)
    have "credit_done env f s s3" using credit_done_idle[OF done2] C by simp
    then have "credit_done env f s s'" by (rule credit_done_idle[OF _ i])
    moreover have "claim_closed authority s'" using C A claim_closed_same[of s' s3 authority] by simp
    moreover have "credit_wf s'" using C A by (simp add: credit_wf_def)
    ultimately show ?thesis using oc R None by simp
  qed
qed

section \<open>Sequences of credits\<close>

text \<open>Calls one after the other, each on what the earlier ones left.\<close>

fun credit_history ::
    "credit_hooks \<Rightarrow> (env \<times> credit_authority \<times> deposit_facts) list \<Rightarrow> db \<Rightarrow> (deposit_facts \<times> credit_outcome) list \<times> db" where
  "credit_history hooks [] s = ([], s)"
| "credit_history hooks ((env, authority, f) # later) s =
     (case finalizeDepositCredit env hooks calm authority f s of
        (Inl e, s') \<Rightarrow> credit_history hooks later s'
      | (Inr oc, s') \<Rightarrow> ((f, oc) # fst (credit_history hooks later s'), snd (credit_history hooks later s')))"

definition credited :: "(deposit_facts \<times> credit_outcome) list \<Rightarrow> deposit_facts list" where
  "credited results = map fst (filter (\<lambda>r. co_credited (snd r)) results)"

lemma finalize_calm:
  assumes "finalizeDepositCredit env hooks calm authority f s = (r, s')"
  shows "case r of Inl e \<Rightarrow> s' = s
     | Inr oc \<Rightarrow> assertProviderFacts f = Inr () \<and> creditTx env hooks authority f s = Inr (oc, s')"
proof (cases "assertProviderFacts f")
  case (Inl e)
  then show ?thesis using assms by (auto simp: finalizeDepositCredit_def)
next
  case (Inr u)
  then show ?thesis
    using assms retry_loop_calm[where w = calm and retryable = credit_retryable and s = s and n = 1
        and op = "creditTx env hooks authority f" and left = CREDIT_MAX_ATTEMPTS]
    by (auto simp: finalizeDepositCredit_def calm_def split: sum.splits)
qed

lemma credit_step_calm:
  assumes "finalizeDepositCredit env hooks calm authority f s = (r, s')" "credit_hooks_ok hooks" "credit_wf s"
  shows "credit_wf s' \<and> (\<exists>ts. transactions s' = transactions s @ ts)
    \<and> (case r of Inl e \<Rightarrow> True
       | Inr oc \<Rightarrow> if co_credited oc then credit_done env f s s' \<and> \<not> ledger_has f s else credit_idle s s' \<and> ledger_has f s)"
proof (cases r)
  case (Inl e)
  then show ?thesis using finalize_calm[OF assms(1)] assms(3) by simp
next
  case (Inr oc)
  then have "credit_wf s' \<and> (if co_credited oc then credit_done env f s s' \<and> \<not> ledger_has f s
      else credit_idle s s' \<and> ledger_has f s)"
    using finalize_calm[OF assms(1)] credit_step[OF _ assms(2,3)] by auto
  then show ?thesis using Inr by (auto simp: credit_done_def credit_idle_def split: if_splits)
qed

lemma ledger_has_mono: "transactions s' = transactions s @ ts \<Longrightarrow> ledger_has f s \<Longrightarrow> ledger_has f s'"
  by (auto simp: ledger_has_def)

lemma done_ledger:
  assumes "credit_done env f s s'"
    and "df_providerSessionId g = df_providerSessionId f \<or> df_providerPaymentId g = df_providerPaymentId f"
  shows "ledger_has g s'"
  using assms by (auto simp: credit_done_def ledger_has_def)

lemma history_fresh:
  "credit_hooks_ok hooks \<Longrightarrow> credit_wf s \<Longrightarrow> g \<in> set (credited (fst (credit_history hooks later s))) \<Longrightarrow> \<not> ledger_has g s"
proof (induction hooks later s rule: credit_history.induct)
  case (2 hooks env authority f later s)
  obtain r s' where run: "finalizeDepositCredit env hooks calm authority f s = (r, s')" by fastforce
  note S = credit_step_calm[OF run "2.prems"(1,2)]
  show ?case
  proof (cases r)
    case (Inl e)
    then show ?thesis using "2.IH"(1)[OF run[symmetric] _ "2.prems"(1)] "2.prems"(3) S run ledger_has_mono by force
  next
    case (Inr oc)
    then have later: "g \<in> set (credited (fst (credit_history hooks later s'))) \<Longrightarrow> \<not> ledger_has g s'"
      using "2.IH"(2)[OF run[symmetric] _ "2.prems"(1)] S by simp
    have "co_credited oc \<and> g = f \<or> g \<in> set (credited (fst (credit_history hooks later s')))"
      using "2.prems"(3) Inr run by (auto simp: credited_def split: if_splits)
    then show ?thesis using later S Inr ledger_has_mono by auto
  qed
qed (simp add: credited_def)

lemma credits_distinct:
  "credit_hooks_ok hooks \<Longrightarrow> credit_wf s \<Longrightarrow>
     distinct (map df_providerSessionId (credited (fst (credit_history hooks runs s))))
     \<and> distinct (map df_providerPaymentId (credited (fst (credit_history hooks runs s))))"
proof (induction hooks runs s rule: credit_history.induct)
  case (2 hooks env authority f later s)
  obtain r s' where run: "finalizeDepositCredit env hooks calm authority f s = (r, s')" by fastforce
  note S = credit_step_calm[OF run "2.prems"]
  show ?case
  proof (cases r)
    case (Inl e)
    then show ?thesis using "2.IH"(1)[OF run[symmetric] _ "2.prems"(1)] S run by simp
  next
    case (Inr oc)
    let ?rest = "credited (fst (credit_history hooks later s'))"
    have IH: "distinct (map df_providerSessionId ?rest) \<and> distinct (map df_providerPaymentId ?rest)"
      using "2.IH"(2)[OF run[symmetric] _ "2.prems"(1)] S Inr by simp
    show ?thesis
    proof (cases "co_credited oc")
      case False
      then show ?thesis using IH Inr run by (simp add: credited_def)
    next
      case True
      have wf: "credit_wf s'" and d: "credit_done env f s s'" using S Inr True by simp_all
      have fresh: "df_providerSessionId g \<noteq> df_providerSessionId f \<and> df_providerPaymentId g \<noteq> df_providerPaymentId f"
        if "g \<in> set ?rest" for g
        using history_fresh[OF "2.prems"(1) wf that] done_ledger[OF d, of g] by blast
      have "df_providerSessionId f \<notin> df_providerSessionId ` set ?rest"
        "df_providerPaymentId f \<notin> df_providerPaymentId ` set ?rest"
        by (metis fresh imageE)+
      moreover have "credited (fst (credit_history hooks ((env, authority, f) # later) s)) = f # ?rest"
        using Inr run True by (simp add: credited_def)
      ultimately show ?thesis using IH by simp
    qed
  qed
qed (simp add: credited_def)

text \<open>The money of a history: what its credits were about, in the wallets as in the ledger.\<close>

definition credited_minor :: "(deposit_facts \<times> credit_outcome) list \<Rightarrow> int" where
  "credited_minor results = sum_list (map (\<lambda>f. case df_checkoutAmountTotalMinor f of None \<Rightarrow> 0 | Some m \<Rightarrow> m) (credited results))"

definition money_credited :: "int \<Rightarrow> db \<Rightarrow> db \<Rightarrow> bool" where
  "money_credited m s s' \<longleftrightarrow> wallet_total s' = wallet_total s + m \<and> ledger_sum ''DEPOSIT'' s' = ledger_sum ''DEPOSIT'' s + m
     \<and> (\<forall>k. k \<noteq> ''DEPOSIT'' \<longrightarrow> ledger_sum k s' = ledger_sum k s)"

lemma money_credited_trans: "money_credited m s t \<Longrightarrow> money_credited n t u \<Longrightarrow> money_credited (m + n) s u"
  by (simp add: money_credited_def)

lemma idle_money: "credit_idle s s' \<Longrightarrow> money_credited 0 s s'"
  by (simp add: credit_idle_def money_credited_def wallet_total_def ledger_sum_def)

lemma done_money:
  assumes "credit_done env f s s'"
  shows "money_credited ((case df_checkoutAmountTotalMinor f of None \<Rightarrow> 0 | Some m \<Rightarrow> m) * CENT) s s'"
proof -
  obtain t m and a :: deposit_row where m: "df_checkoutAmountTotalMinor f = Some m" and t: "transactions s' = transactions s @ [t]"
      "t_type t = ''DEPOSIT''" "t_amount t = m * CENT" and w: "wallet_moved (da_walletId a) (m * CENT) 0 s s'"
    using assms by (auto simp: credit_done_def)
  have "ledger_sum k s' = ledger_sum k s + (if k = ''DEPOSIT'' then m * CENT else 0)" for k
    using t by (simp add: ledger_sum_def)
  then show ?thesis using m w by (simp add: money_credited_def wallet_moved_def)
qed

lemma history_money:
  "credit_hooks_ok hooks \<Longrightarrow> credit_wf s \<Longrightarrow>
     money_credited (credited_minor (fst (credit_history hooks runs s)) * CENT) s (snd (credit_history hooks runs s))"
proof (induction hooks runs s rule: credit_history.induct)
  case (2 hooks env authority f later s)
  obtain r s' where run: "finalizeDepositCredit env hooks calm authority f s = (r, s')" by fastforce
  note S = credit_step_calm[OF run "2.prems"]
  show ?case
  proof (cases r)
    case (Inl e)
    then have "s' = s" using finalize_calm[OF run] by simp
    then show ?thesis using "2.IH"(1)[OF run[symmetric] _ "2.prems"(1)] S run Inl by simp
  next
    case (Inr oc)
    let ?rest = "fst (credit_history hooks later s')"
    have IH: "money_credited (credited_minor ?rest * CENT) s' (snd (credit_history hooks later s'))"
      using "2.IH"(2)[OF run[symmetric] _ "2.prems"(1)] S Inr by simp
    have step: "money_credited ((if co_credited oc then case df_checkoutAmountTotalMinor f of None \<Rightarrow> 0 | Some m \<Rightarrow> m else 0) * CENT) s s'"
      using S Inr done_money[of env f s s'] idle_money[of s s'] by simp
    have "credited_minor ((f, oc) # ?rest)
        = (if co_credited oc then case df_checkoutAmountTotalMinor f of None \<Rightarrow> 0 | Some m \<Rightarrow> m else 0) + credited_minor ?rest"
      by (simp add: credited_minor_def credited_def)
    then show ?thesis using money_credited_trans[OF step IH] run Inr by (simp add: distrib_right)
  qed
qed (simp add: credited_def credited_minor_def money_credited_def)

section \<open>An example\<close>

definition paid_facts :: deposit_facts where
  "paid_facts = no_facts\<lparr>df_providerSessionId := ''cs_1'', df_providerPaymentId := Some ''pi_1'',
     df_clientReferenceId := Some ''a1'', df_checkoutStatus := Some ''complete'', df_checkoutPaymentStatus := Some ''paid'',
     df_checkoutMode := Some ''payment'', df_checkoutAmountTotalMinor := Some 300, df_checkoutCurrency := Some ''usd'',
     df_checkoutMetadataAttemptId := Some ''a1'', df_checkoutMetadataReference := Some ''DEP-1'',
     df_checkoutMetadataWalletId := Some ''w1'', df_checkoutMetadataUserId := Some ''u1'',
     df_checkoutMetadataOrgId := Some ''g1''\<rparr>"

definition open_attempt :: deposit_row where
  "open_attempt = \<lparr>da_id = ''a1'', da_publicReference = ''DEP-1'', da_walletId = ''w1'', da_organizationId = Some ''g1'',
     da_createdByUserId = ''u1'', da_method = ''card'', da_provider = ''stripe'', da_amount = 300 * CENT,
     da_walletCredit = 300 * CENT, da_customerFee = 0, da_currency = ''USD'', da_status = ''PROCESSING'',
     da_providerSessionId = Some ''cs_1'', da_providerPaymentId = None, da_providerChargeId = None,
     da_ledgerTransactionId = None, da_completedAt = None, da_failedAt = None, da_failureCode = None\<rparr>"

definition leased_event :: "string \<Rightarrow> provider_event_row" where
  "leased_event i = \<lparr>pv_id = i, pv_provider = ''stripe'', pv_providerEventId = i,
     pv_eventType = ''checkout.session.completed'', pv_objectId = Some ''cs_1'', pv_depositAttemptId = None,
     pv_paymentDisputeId = None, pv_providerPaymentId = None, pv_providerChargeId = None, pv_disputeAmountMinor = None,
     pv_disputeCurrency = None, pv_providerStatus = None, pv_livemode = Some False, pv_eventFingerprint = None,
     pv_status = ''PROCESSING'', pv_attempts = 1, pv_lockedAt = Some 99999000, pv_processedAt = None,
     pv_lastError = None, pv_receivedAt = 99998000\<rparr>"

definition credit_db :: db where
  "credit_db = empty_db\<lparr>wallets := [example_wallet], deposits := [open_attempt],
     provider_events := [leased_event ''e1'', leased_event ''e2'']\<rparr>"

definition silent_hooks :: credit_hooks where
  "silent_hooks = \<lparr>ch_audit = create_audit, ch_recordSuccess = (\<lambda>n. ret [])\<rparr>"

definition by_event :: "string \<Rightarrow> env \<times> credit_authority \<times> deposit_facts" where
  "by_event i = (example_env, WebhookAuthority i (Lease 1 99999000), paid_facts)"

lemma silent_hooks_ok: "credit_hooks_ok silent_hooks"
  by (auto simp: credit_hooks_ok_def silent_hooks_def tx_simps)

lemma credit_db_wf: "credit_wf credit_db"
  by (simp add: credit_wf_def credit_db_def empty_db_def leased_event_def)

definition first_credit :: "credit_outcome \<times> db" where
  "first_credit = projr (creditTx example_env silent_hooks (WebhookAuthority ''e1'' (Lease 1 99999000)) paid_facts credit_db)"

lemma first_credit_run:
  "case creditTx example_env silent_hooks (WebhookAuthority ''e1'' (Lease 1 99999000)) paid_facts credit_db of
     Inl e \<Rightarrow> False | Inr (oc, s) \<Rightarrow> co_credited oc"
  by code_simp

lemma first_credit_done:
  "creditTx example_env silent_hooks (WebhookAuthority ''e1'' (Lease 1 99999000)) paid_facts credit_db
     = Inr (fst first_credit, snd first_credit)"
  "co_credited (fst first_credit)"
  using first_credit_run by (auto simp: first_credit_def split: sum.splits)

lemma paid_facts_pass: "assertProviderFacts paid_facts = Inr ()"
  by code_simp

lemma first_finalize:
  "finalizeDepositCredit example_env silent_hooks calm (WebhookAuthority ''e1'' (Lease 1 99999000)) paid_facts credit_db
     = (Inr (fst first_credit), snd first_credit)"
  using paid_facts_pass first_credit_done(1)
  by (simp add: finalizeDepositCredit_def CREDIT_MAX_ATTEMPTS_def attempt_tx_def calm_def numeral_eq_Suc split_beta)

lemma one_event:
  "credit_history silent_hooks [by_event ''e1''] credit_db = ([(paid_facts, fst first_credit)], snd first_credit)"
  by (simp add: by_event_def first_finalize)

section \<open>Properties\<close>

text \<open>C7: a credit call on a well-formed database either fails and changes nothing, or finds the payment credited and
  moves no money, or credits it: the attempt its facts are exactly about, uncredited before, gets the one new DEPOSIT
  row, of the amount Stripe reports, and its wallet gains that amount and nothing else of the books changes.\<close>
theorem credit_exact:
  assumes "credit_hooks_ok hooks" "credit_wf s"
    and "finalizeDepositCredit env hooks calm authority f s = (r, s')"
  shows "case r of
      Inl e \<Rightarrow> s' = s
    | Inr oc \<Rightarrow> credit_wf s' \<and> assertProviderFacts f = Inr ()
        \<and> (if co_credited oc then credit_done env f s s' \<and> \<not> ledger_has f s else credit_idle s s' \<and> ledger_has f s)"
  using finalize_calm[OF assms(3)] credit_step_calm[OF assms(3,1,2)] by (cases r) simp_all

theorem credit_exact_witness:
  "credit_wf (snd first_credit) \<and> credit_done example_env paid_facts credit_db (snd first_credit)"
  using credit_exact[OF silent_hooks_ok credit_db_wf first_finalize] first_credit_done(2) by simp

text \<open>C25: however many calls follow each other, under whatever authorities and with whatever facts, no two credits share
  a checkout session and no two share a payment: a deposit is credited once.\<close>
theorem credit_once:
  assumes "credit_hooks_ok hooks" "credit_wf s"
  shows "distinct (map df_providerSessionId (credited (fst (credit_history hooks runs s))))
    \<and> distinct (map df_providerPaymentId (credited (fst (credit_history hooks runs s))))"
  by (rule credits_distinct[OF assms])

theorem credit_once_witness:
  "distinct (map df_providerSessionId (credited [(paid_facts, fst first_credit)])) \<and> credited [(paid_facts, fst first_credit)] = [paid_facts]"
  using credit_once[OF silent_hooks_ok credit_db_wf, of "[by_event ''e1'']"] first_credit_done(2)
  unfolding one_event by (simp add: credited_def)

text \<open>over any history of credit calls the wallets together gain exactly what the ledger gains in DEPOSIT rows,
  which is the sum of the amounts Stripe reported for the payments credited; no other kind of ledger row appears.\<close>
theorem credit_conserves_money:
  assumes "credit_hooks_ok hooks" "credit_wf s"
  shows "money_credited (credited_minor (fst (credit_history hooks runs s)) * CENT) s (snd (credit_history hooks runs s))"
  by (rule history_money[OF assms])

theorem credit_conserves_money_witness:
  "wallet_total (snd first_credit) = wallet_total credit_db + 300 * CENT"
  using credit_conserves_money[OF silent_hooks_ok credit_db_wf, of "[by_event ''e1'']"] first_credit_done(2)
  unfolding one_event by (simp add: credited_minor_def credited_def paid_facts_def money_credited_def)

text \<open>A claim is spent by the credit it authorises: after a committed call, the same lease or the same recovery claim
  authorises nothing more, whatever facts it is presented with.\<close>
theorem credit_claim_once:
  assumes "credit_hooks_ok hooks" "credit_wf s" "claims authority"
    and "finalizeDepositCredit env hooks calm authority f s = (Inr oc, s')"
  shows "\<exists>e. finalizeDepositCredit env2 hooks2 calm authority f2 s' = (Inl e, s')"
proof -
  have tx: "creditTx env hooks authority f s = Inr (oc, s')" and p: "assertProviderFacts f = Inr ()"
    using finalize_calm[OF assms(4)] by simp_all
  have "isl (assertAuthority env2 authority f2 s')"
    using closed_refuses[OF _ assms(3)] credit_step[OF tx assms(1,2) p] by blast
  then have no: "creditTx env2 hooks2 authority f2 s' \<noteq> Inr x" for x
    using creditTx_Inr[of env2 hooks2 authority f2 s' "fst x" "snd x"] by auto
  obtain r s2 where run: "finalizeDepositCredit env2 hooks2 calm authority f2 s' = (r, s2)" by fastforce
  then show ?thesis using finalize_calm[OF run] no by (cases r) auto
qed

theorem credit_claim_once_witness:
  "\<exists>e. finalizeDepositCredit example_env silent_hooks calm (WebhookAuthority ''e1'' (Lease 1 99999000)) paid_facts (snd first_credit)
     = (Inl e, snd first_credit)"
  by (rule credit_claim_once[OF silent_hooks_ok credit_db_wf _ first_finalize]) simp

end
