(* ===== verification/Deposit_Retrieval.thy ===== *)
theory Deposit_Retrieval
  imports Deposit_Safety
begin

text \<open>
  What the facts retrieved from Stripe are good for: every text of theirs is trimmed and bounded,
  the evidence row written of them authorises exactly them, and when they show a settled payment
  and match the deposit attempt, the credit's own checks accept them.
\<close>

section \<open>Bounded texts\<close>

definition neat :: "nat \<Rightarrow> string option \<Rightarrow> bool" where
  "neat limit v \<longleftrightarrow> (case v of None \<Rightarrow> True | Some t \<Rightarrow> trim t = t \<and> t \<noteq> [] \<and> length t \<le> limit)"

lemma dropWhile_rev_tail: "dropWhile P s = s \<Longrightarrow> dropWhile P (rev (dropWhile P (rev s))) = rev (dropWhile P (rev s))"
proof (cases "rev (dropWhile P (rev s))")
  case (Cons c t)
  assume s: "dropWhile P s = s"
  have "\<exists>u. s = rev (dropWhile P (rev s)) @ u"
    by (metis rev_append rev_rev_ident takeWhile_dropWhile_id)
  then obtain u where "s = c # t @ u" using Cons by auto
  then have "\<not> P c" using s by (metis dropWhile_eq_self_iff list.distinct(1) list.sel(1))
  then show ?thesis unfolding Cons by simp
next
  case Nil
  show ?thesis unfolding Nil by simp
qed

lemma trim_trim [simp]: "trim (trim s) = trim s"
  unfolding trim_def by (simp add: dropWhile_rev_tail)

lemma neat_None [simp]: "neat limit None"
  by (simp add: neat_def)

lemma boundedString_neat: "boundedString limit req v = Inr r \<Longrightarrow> neat limit r"
  by (auto simp: boundedString_def neat_def split: if_splits option.splits json.splits)

lemma boundedString_required: "boundedString limit True v = Inr r \<Longrightarrow> r \<noteq> None"
  by (auto simp: boundedString_def split: if_splits option.splits json.splits)

lemma objectId_neat: "objectId req v = Inr r \<Longrightarrow> neat 191 r"
  using boundedString_neat by (auto simp: objectId_def Let_def split: sum.splits option.splits if_splits)

lemma metadataValue_neat: "metadataValue m k limit = Inr r \<Longrightarrow> neat limit r"
  using boundedString_neat by (auto simp: metadataValue_def split: option.splits json.splits)

lemma bindE_Inr [simp]: "bindE m k = Inr y \<longleftrightarrow> (\<exists>x. m = Inr x \<and> k x = Inr y)"
  by (auto simp: bindE_def split: sum.splits)

lemma checkE_Inr [simp]: "checkE b e = Inr u \<longleftrightarrow> b"
  by (simp add: checkE_def)

text \<open>A neat text passes the credit's own check, and is what that check returns.\<close>

lemma requiredString_neat: "neat limit (Some t) \<Longrightarrow> requiredString limit (Some t) = Inr t"
  by (simp add: neat_def requiredString_def)

lemma requireStrings_neat: "list_all (\<lambda>(limit, v). v \<noteq> None \<and> neat limit v) xs \<Longrightarrow> requireStrings xs = Inr ()"
  by (auto simp: requireStrings_def list_all_iff requiredString_neat isl_def)

section \<open>The request\<close>

text \<open>The default request yields objects only, of answers in the 200s and within the size bound.\<close>

lemma within_bound_sum: "within_bound got chunks \<Longrightarrow> chunks \<noteq> [] \<Longrightarrow> got + sum_list chunks \<le> MAX_RESPONSE_BYTES"
proof (induction got chunks rule: within_bound.induct)
  case (2 got c chunks)
  then show ?case by (cases "chunks = []") (auto simp: add.assoc)
qed simp

lemma retrieveStripeObject_Inr:
  assumes "retrieveStripeObject http path i key = Inr j"
  shows "\<exists>response ms. http path i key = Some response \<and> 200 \<le> hr_statusCode response \<and> hr_statusCode response < 300
    \<and> sum_list (hr_chunks response) \<le> MAX_RESPONSE_BYTES \<and> hr_parsed response = Some (ObjJ ms) \<and> j = ObjJ ms"
  using assms within_bound_sum[of 0 "hr_chunks (the (http path i key))"]
  by (cases "hr_chunks (the (http path i key)) = []")
    (auto simp: retrieveStripeObject_def status_failure_def readBoundedJson_def
      split: if_splits option.splits json.splits)

section \<open>The facts of a retrieval\<close>

definition retrieved_facts :: "deposit_facts \<Rightarrow> bool" where
  "retrieved_facts f \<longleftrightarrow> df_source f = ProviderRetrieval \<and> df_provider f = ''stripe''
     \<and> neat 191 (Some (df_providerSessionId f)) \<and> neat 191 (df_providerPaymentId f) \<and> neat 191 (df_providerChargeId f)
     \<and> neat 191 (df_clientReferenceId f) \<and> neat 191 (df_checkoutMetadataAttemptId f)
     \<and> neat 32 (df_checkoutMetadataReference f) \<and> neat 191 (df_checkoutMetadataWalletId f)
     \<and> neat 191 (df_checkoutMetadataUserId f) \<and> neat 191 (df_checkoutMetadataOrgId f)"

lemma session_retrieved:
  assumes "sessionEvidence session f = Inr f'" "df_source f = ProviderRetrieval" "df_provider f = ''stripe''"
    "neat 191 (Some (df_providerSessionId f))" "neat 191 (df_providerPaymentId f)" "neat 191 (df_providerChargeId f)"
  shows "retrieved_facts f'"
  using assms boundedString_neat metadataValue_neat
  by (auto simp: sessionEvidence_def Let_def retrieved_facts_def)

lemma intent_retrieved: "intentEvidence found f = Inr f' \<Longrightarrow> retrieved_facts f \<Longrightarrow> retrieved_facts f'"
  by (auto simp: intentEvidence_def Let_def retrieved_facts_def split: option.splits)

lemma charge_retrieved: "chargeEvidence found f = Inr f' \<Longrightarrow> retrieved_facts f \<Longrightarrow> retrieved_facts f'"
  by (auto simp: chargeEvidence_def Let_def retrieved_facts_def split: option.splits)

lemma latestCharge_neat: "latestCharge intent = Inr c \<Longrightarrow> neat 191 c"
  using objectId_neat by (auto simp: latestCharge_def split: option.splits)

lemma fetchSession_neat: "fetchSession request sid key = Inr session \<Longrightarrow> neat 191 (Some sid)"
  using objectId_neat by (auto simp: fetchSession_def)

lemma retrieve_facts:
  assumes "retrieveStripeDepositEvidence env options request sid = Inr ev"
  shows "retrieved_facts (rt_facts ev)
    \<and> rt_evidenceFingerprint ev = stripeDepositRecoveryEvidenceFingerprint env (rt_facts ev)"
proof -
  obtain session key paymentId chargeId intent charge f1 f2 livemode where
      s: "fetchSession request sid key = Inr session" and p: "objectId False (obj_get session ''payment_intent'') = Inr paymentId"
    and c: "latestCharge intent = Inr chargeId"
    and f1: "sessionEvidence session (no_facts\<lparr>df_source := ProviderRetrieval, df_providerSessionId := sid,
       df_providerPaymentId := paymentId, df_providerChargeId := chargeId, df_checkoutLivemode := livemode\<rparr>) = Inr f1"
    and f2: "intentEvidence intent f1 = Inr f2" and f: "chargeEvidence charge f2 = Inr (rt_facts ev)"
    and fp: "rt_evidenceFingerprint ev = stripeDepositRecoveryEvidenceFingerprint env (rt_facts ev)"
    using assms by (auto simp: retrieveStripeDepositEvidence_def)
  have "retrieved_facts f1"
    using session_retrieved[OF f1] fetchSession_neat[OF s] objectId_neat[OF p] latestCharge_neat[OF c]
    by (simp add: no_facts_def)
  then show ?thesis using charge_retrieved[OF f intent_retrieved[OF f2]] fp by simp
qed

text \<open>Storing them and reading them back changes nothing, since no text of theirs is empty.\<close>

lemma retrieved_stored:
  assumes "retrieved_facts f" "df_checkoutAmountTotalMinor f \<noteq> None"
  shows "recoveryEvidenceToFacts f = Some f"
proof -
  have "(if truthy (df_checkoutMetadataOrgId f) then df_checkoutMetadataOrgId f else None) = df_checkoutMetadataOrgId f"
    using assms(1) by (auto simp: retrieved_facts_def neat_def truthy_def)
  then show ?thesis using assms by (simp add: recoveryEvidenceToFacts_def retrieved_facts_def)
qed

text \<open>A payment that Stripe reports complete, paid, received and captured in full.\<close>

definition settled_facts :: "deposit_facts \<Rightarrow> bool" where
  "settled_facts f \<longleftrightarrow> df_checkoutStatus f = Some ''complete'' \<and> df_checkoutPaymentStatus f = Some ''paid''
     \<and> df_paymentIntentStatus f = Some ''succeeded'' \<and> df_paymentIntentReceivedMinor f = df_checkoutAmountTotalMinor f
     \<and> df_chargePaid f = Some True \<and> df_chargeCaptured f = Some True \<and> df_chargeRefunded f = Some False
     \<and> df_chargeAmountCapturedMinor f = df_checkoutAmountTotalMinor f"

section \<open>An example\<close>

definition stripe_metadata :: json where
  "stripe_metadata = ObjJ [(''depositAttemptId'', TextJ ''a1''), (''publicReference'', TextJ ''DEP-1''),
     (''walletId'', TextJ ''w1''), (''userId'', TextJ ''u1''), (''organizationId'', TextJ ''g1'')]"

definition stripe_session :: json where
  "stripe_session = ObjJ [(''object'', TextJ ''checkout.session''), (''id'', TextJ ''cs_1''),
     (''payment_intent'', TextJ ''pi_1''), (''livemode'', BoolJ False), (''client_reference_id'', TextJ ''a1''),
     (''status'', TextJ ''complete''), (''payment_status'', TextJ ''paid''), (''mode'', TextJ ''payment''),
     (''amount_total'', NumJ 300), (''currency'', TextJ ''usd''), (''metadata'', stripe_metadata)]"

definition stripe_intent :: json where
  "stripe_intent = ObjJ [(''object'', TextJ ''payment_intent''), (''id'', TextJ ''pi_1''),
     (''latest_charge'', ObjJ [(''id'', TextJ ''ch_1'')]), (''livemode'', BoolJ False), (''status'', TextJ ''succeeded''),
     (''amount'', NumJ 300), (''amount_received'', NumJ 300), (''currency'', TextJ ''usd''), (''metadata'', stripe_metadata)]"

definition stripe_charge :: json where
  "stripe_charge = ObjJ [(''object'', TextJ ''charge''), (''id'', TextJ ''ch_1''), (''payment_intent'', TextJ ''pi_1''),
     (''livemode'', BoolJ False), (''paid'', BoolJ True), (''captured'', BoolJ True), (''refunded'', BoolJ False),
     (''disputed'', BoolJ False), (''amount'', NumJ 300), (''amount_captured'', NumJ 300), (''amount_refunded'', NumJ 0),
     (''currency'', TextJ ''usd'')]"

definition stripe_answers :: stripe_request where
  "stripe_answers resource i key =
     (if resource = ''checkout/sessions'' then Inr stripe_session
      else if resource = ''payment_intents'' then Inr stripe_intent else Inr stripe_charge)"

definition recovery_options :: retrieval_options where
  "recovery_options = \<lparr>ro_secretKey = Some ''rk_test_1'', ro_liveModeEnabled = None\<rparr>"

definition session_part :: deposit_facts where
  "session_part = paid_facts\<lparr>df_source := ProviderRetrieval, df_providerChargeId := Some ''ch_1''\<rparr>"

definition intent_part :: deposit_facts where
  "intent_part = session_part\<lparr>df_paymentIntentStatus := Some ''succeeded'', df_paymentIntentAmountMinor := Some 300,
     df_paymentIntentReceivedMinor := Some 300, df_paymentIntentCurrency := Some ''usd'',
     df_paymentIntentLivemode := Some False, df_paymentMetadataAttemptId := Some ''a1'',
     df_paymentMetadataReference := Some ''DEP-1'', df_paymentMetadataWalletId := Some ''w1''\<rparr>"

definition all_parts :: deposit_facts where
  "all_parts = intent_part\<lparr>df_chargePaid := Some True, df_chargeCaptured := Some True, df_chargeRefunded := Some False,
     df_chargeAmountMinor := Some 300, df_chargeAmountCapturedMinor := Some 300, df_chargeCurrency := Some ''usd'',
     df_chargeLivemode := Some False\<rparr>"

definition example_evidence :: retrieved_evidence where
  "example_evidence = \<lparr>rt_facts = all_parts,
     rt_evidenceFingerprint = stripeDepositRecoveryEvidenceFingerprint example_env all_parts, rt_retrievedAt = 100000000\<rparr>"

lemma example_fetch:
  "recoveryKey example_env recovery_options = Inr ''rk_test_1''"
  "fetchSession stripe_answers ''cs_1'' ''rk_test_1'' = Inr stripe_session"
  "objectId False (obj_get stripe_session ''payment_intent'') = Inr (Some ''pi_1'')"
  "fetchPaymentIntent stripe_answers (Some ''pi_1'') ''rk_test_1'' = Inr (Some stripe_intent)"
  "latestCharge (Some stripe_intent) = Inr (Some ''ch_1'')"
  "fetchCharge stripe_answers (Some ''ch_1'') (Some ''pi_1'') ''rk_test_1'' = Inr (Some stripe_charge)"
  "requiredBoolean (obj_get stripe_session ''livemode'') = Inr False"
  "assertRetrievedMode example_env recovery_options ''rk_test_1'' False = Inr ()"
  by code_simp+

lemma example_parts:
  "sessionEvidence stripe_session (no_facts\<lparr>df_source := ProviderRetrieval, df_providerSessionId := ''cs_1'',
     df_providerPaymentId := Some ''pi_1'', df_providerChargeId := Some ''ch_1'', df_checkoutLivemode := False\<rparr>) = Inr session_part"
  "intentEvidence (Some stripe_intent) session_part = Inr intent_part"
  "chargeEvidence (Some stripe_charge) intent_part = Inr all_parts"
  by code_simp+

lemma example_retrieval:
  "retrieveStripeDepositEvidence example_env recovery_options stripe_answers ''cs_1'' = Inr example_evidence"
  unfolding retrieveStripeDepositEvidence_def bindE_def example_fetch sum.case example_parts
  by (simp add: example_evidence_def example_env_def)

lemma example_facts:
  "settled_facts all_parts"
  "assertDepositRecoveryEvidenceMatchesAttempt open_attempt all_parts = Inr ()"
  by code_simp+

definition leased_recovery :: recovery_row where
  "leased_recovery = \<lparr>rv_id = ''r1'', rv_depositAttemptId = ''a1'', rv_status = ''PROCESSING'', rv_attempts = 2,
     rv_lockedAt = Some 7, rv_processedAt = None, rv_evidenceId = None, rv_lastError = None\<rparr>"

definition recovery_db :: db where
  "recovery_db = credit_db\<lparr>recoveries := [leased_recovery],
     credit_evidence := [stripeDepositEvidenceCreateData ''r1'' ''a1'' example_evidence 2 7 ''v1'']\<rparr>"

section \<open>Properties\<close>

text \<open>C36: what was retrieved is what is credited: with the evidence row written of a retrieval in the database and its
  claim still leased, the facts read back authorise the credit, unchanged and under the fingerprint stored.\<close>
theorem evidence_authorises:
  assumes "retrieveStripeDepositEvidence env options request sid = Inr ev"
    and "depositCreditFactsFromRecoveryEvidence ev = Some f"
    and "find_recovery rid s = Some r" "rv_status r = ''PROCESSING''" "rv_attempts r = k" "rv_lockedAt r = Some t"
    and "find_credit_evidence eid s = Some (stripeDepositEvidenceCreateData rid (rv_depositAttemptId r) ev k t eid)"
  shows "f = rt_facts ev \<and> assertAuthority env (RecoveryAuthority rid eid k t) f s = Inr ((), s)"
proof -
  note R = retrieve_facts[OF assms(1)]
  have "df_checkoutAmountTotalMinor (rt_facts ev) \<noteq> None"
    using assms(2) by (auto simp: depositCreditFactsFromRecoveryEvidence_def recoveryEvidenceToFacts_def split: if_splits)
  with R have st: "recoveryEvidenceToFacts (rt_facts ev) = Some (rt_facts ev)" by (simp add: retrieved_stored)
  then have f: "f = rt_facts ev" using assms(2) by (simp add: depositCreditFactsFromRecoveryEvidence_def)
  have "rv_id r = rid" using assms(3) find_key unfolding find_recovery_def by fastforce
  then show ?thesis
    using assms(3-7) R st unfolding f
    by (simp add: assertRecoveryAuthority_def tx_simps stripeDepositEvidenceCreateData_def evidence_exact_def
        factsEqual_def sameInstant_def retrieved_facts_def)
qed

theorem evidence_authorises_witness:
  "assertAuthority example_env (RecoveryAuthority ''r1'' ''v1'' 2 7) all_parts recovery_db = Inr ((), recovery_db)"
proof -
  have "depositCreditFactsFromRecoveryEvidence example_evidence = Some all_parts"
    by (simp add: depositCreditFactsFromRecoveryEvidence_def recoveryEvidenceToFacts_def example_evidence_def truthy_def
        all_parts_def intent_part_def session_part_def paid_facts_def)
  moreover have "find_recovery ''r1'' recovery_db = Some leased_recovery"
    "find_credit_evidence ''v1'' recovery_db
       = Some (stripeDepositEvidenceCreateData ''r1'' (rv_depositAttemptId leased_recovery) example_evidence 2 7 ''v1'')"
    by (simp_all add: recovery_db_def leased_recovery_def find_recovery_def find_credit_evidence_def
        stripeDepositEvidenceCreateData_def)
  ultimately show ?thesis
    using evidence_authorises[OF example_retrieval, of all_parts "''r1''" recovery_db leased_recovery 2 7 "''v1''"]
    by (simp add: leased_recovery_def)
qed

text \<open>Retrieved facts that match a deposit attempt and show its payment settled pass every check of the credit: the
  provider check, and the comparison with the attempt (the recovery never stops halfway on facts it has accepted).\<close>
theorem settled_evidence_creditable:
  assumes "retrieveStripeDepositEvidence env options request sid = Inr ev"
    and "assertDepositRecoveryEvidenceMatchesAttempt a (rt_facts ev) = Inr ()" "settled_facts (rt_facts ev)"
  shows "assertProviderFacts (rt_facts ev) = Inr () \<and> attempt_exact a (rt_facts ev)"
proof -
  let ?f = "rt_facts ev"
  have R: "retrieved_facts ?f" using retrieve_facts[OF assms(1)] by simp
  have m: "evidence_of_attempt a ?f" "intent_consistent a ?f" "charge_consistent ?f"
    using assms(2) by (auto simp: assertDepositRecoveryEvidenceMatchesAttempt_def split: if_splits)
  have c: "df_providerChargeId ?f \<noteq> None" "df_providerPaymentId ?f \<noteq> None"
    using m(2,3) assms(3) by (auto simp: intent_consistent_def charge_consistent_def settled_facts_def split: if_splits)
  have attempt_texts: "df_clientReferenceId ?f \<noteq> None" "df_checkoutMetadataAttemptId ?f \<noteq> None"
    "df_checkoutMetadataReference ?f \<noteq> None" "df_checkoutMetadataWalletId ?f \<noteq> None"
    "df_checkoutMetadataUserId ?f \<noteq> None"
    using m(1) by (simp_all add: evidence_of_attempt_def)
  have "requireStrings
         [(191, Some (df_providerSessionId ?f)), (191, df_providerPaymentId ?f), (191, df_clientReferenceId ?f),
          (191, df_checkoutMetadataAttemptId ?f), (32, df_checkoutMetadataReference ?f),
          (191, df_checkoutMetadataWalletId ?f), (191, df_checkoutMetadataUserId ?f)] = Inr ()"
    using R c(2) attempt_texts
    by (intro requireStrings_neat) (simp add: retrieved_facts_def del: not_None_eq)
  moreover have "truthy (df_providerChargeId ?f)"
    using R c(1) by (auto simp: retrieved_facts_def neat_def truthy_def)
  ultimately have "assertProviderFacts ?f = Inr ()"
    using R m assms(3) c
    by (auto simp: assertProviderFacts_def retrieved_facts_def evidence_of_attempt_def intent_consistent_def
        charge_consistent_def settled_facts_def split: option.splits)
  moreover have "attempt_exact a ?f"
    using m(1) by (auto simp: attempt_exact_def evidence_of_attempt_def split: option.splits)
  ultimately show ?thesis by simp
qed

theorem settled_evidence_creditable_witness:
  "assertProviderFacts all_parts = Inr () \<and> attempt_exact open_attempt all_parts"
  using settled_evidence_creditable[OF example_retrieval] example_facts by (simp add: example_evidence_def)

end
