(* ===== verification/Reconciliation.thy ===== *)
theory Reconciliation
  imports Books
begin

text \<open>
  The drift detectors of \<open>reconciliation-core.ts\<close> that compare the cached balances, the ledger and
  the deposit inbox: wallets, publisher balances, wallet withdrawals, withdrawal traceability,
  deposits and their provider events.  An enumerator stands for its text; an undefined member of
  \<open>metadata\<close> is absent; the detection time is the clock of the environment.
\<close>

section \<open>Fixed-point money\<close>

definition SCALE :: nat where
  "SCALE = 12"

definition SCALE_FACTOR :: int where
  "SCALE_FACTOR = 10 ^ SCALE"

text \<open>\<open>BigInt\<close> of a text of digits, the empty one being 0; any other text throws.\<close>

definition bigint_text :: "string \<Rightarrow> int option" where
  "bigint_text t = (if all_digits t then Some (int (digits_val t)) else None)"

definition toScaled :: "jsval \<Rightarrow> int option" where
  "toScaled value =
     (let s = js_string (coalesce value (JNum ''0'')); (neg, digits) = split_minus s;
          whole = takeWhile (\<lambda>c. c \<noteq> CHR ''.'') digits;
          frac = takeWhile (\<lambda>c. c \<noteq> CHR ''.'') (drop (length whole + 1) digits)
      in case (bigint_text whole, bigint_text (take SCALE (frac @ replicate SCALE CHR ''0''))) of
           (Some w, Some f) \<Rightarrow> Some (if neg then - (w * SCALE_FACTOR + f) else w * SCALE_FACTOR + f)
         | _ \<Rightarrow> None)"

definition fromScaled :: "int \<Rightarrow> string" where
  "fromScaled scaled =
     (let neg = scaled < 0; n = \<bar>scaled\<bar>;
          frac = strip_zeros (pad_start SCALE CHR ''0'' (nat_text (nat (n mod SCALE_FACTOR))))
      in (if neg then ''-'' else []) @ nat_text (nat (n div SCALE_FACTOR)) @ ''.''
         @ (if length frac < 2 then pad_end 2 CHR ''0'' frac else frac))"

text \<open>
  The detectors scale columns only, where \<open>toScaled\<close> never throws (\<open>toScaled_column\<close> below).
\<close>

definition units :: "int \<Rightarrow> int" where
  "units d = (case toScaled (column d) of None \<Rightarrow> 0 | Some u \<Rightarrow> u)"

section \<open>Rows\<close>

record drift_row =
  dr_id :: string
  dr_severity :: string
  dr_category :: string
  dr_group :: "string option"
  dr_code :: string
  dr_entityId :: string
  dr_entityType :: string
  dr_amount :: "string option"
  dr_message :: string
  dr_metadata :: "(string \<times> json) list"
  dr_detectedAt :: int
  dr_action :: "(string \<times> string) option"

definition defined_text :: "string \<Rightarrow> string option \<Rightarrow> (string \<times> json) list" where
  "defined_text k v = (case v of None \<Rightarrow> [] | Some t \<Rightarrow> [(k, TextJ t)])"

fun member_text :: "json option \<Rightarrow> string option" where
  "member_text (Some (TextJ t)) = Some t"
| "member_text _ = None"

fun first_text :: "string option list \<Rightarrow> string" where
  "first_text [] = []"
| "first_text (Some t # rest) = t"
| "first_text (None # rest) = first_text rest"

text \<open>A critical row without group, amount and action; every row of these detectors is critical.\<close>

definition makeRow :: "env \<Rightarrow> drift_row \<Rightarrow> drift_row" where
  "makeRow env r =
     r\<lparr>dr_id := join '':'' [dr_code r, dr_entityType r, dr_entityId r,
         (case dr_group r of None \<Rightarrow> ''all'' | Some g \<Rightarrow> g),
         first_text [member_text (map_of (dr_metadata r) ''transactionId''),
           member_text (map_of (dr_metadata r) ''settlementId''),
           member_text (map_of (dr_metadata r) ''payoutExecutionId'')]],
       dr_detectedAt := env_now env\<rparr>"

definition critical_row :: "string \<Rightarrow> string \<Rightarrow> string \<Rightarrow> string \<Rightarrow> string \<Rightarrow> (string \<times> json) list \<Rightarrow> drift_row" where
  "critical_row category code entityType entityId message metadata =
     \<lparr>dr_id = [], dr_severity = ''critical'', dr_category = category, dr_group = None, dr_code = code,
      dr_entityId = entityId, dr_entityType = entityType, dr_amount = None, dr_message = message,
      dr_metadata = metadata, dr_detectedAt = 0, dr_action = None\<rparr>"

record drift_stats =
  ds_checkedWallets :: nat
  ds_checkedSettlements :: nat
  ds_checkedOrders :: nat
  ds_checkedTransactions :: nat
  ds_checkedPublishers :: nat

definition initial_stats :: drift_stats where
  "initial_stats = \<lparr>ds_checkedWallets = 0, ds_checkedSettlements = 0, ds_checkedOrders = 0, ds_checkedTransactions = 0,
     ds_checkedPublishers = 0\<rparr>"

text \<open>\<open>groupBy\<close> with \<open>_sum\<close>: the groups in the order of their first rows.\<close>

definition group_sums :: "('r \<Rightarrow> 'k) \<Rightarrow> ('r \<Rightarrow> int) \<Rightarrow> 'r list \<Rightarrow> ('k \<times> int) list" where
  "group_sums key amount rows =
     map (\<lambda>k. (k, sum_list (map amount (filter (\<lambda>r. key r = k) rows)))) (remdups (map key rows))"

section \<open>Wallet drift\<close>

definition wallet_sums :: "db \<Rightarrow> ((string option \<times> string) \<times> int) list" where
  "wallet_sums s = group_sums (\<lambda>t. (t_walletId t, t_type t)) t_amount (filter (\<lambda>t. t_walletId t \<noteq> None) (transactions s))"

definition add_wallet_sum :: "(string \<Rightarrow> int option) \<Rightarrow> (string option \<times> string) \<times> int \<Rightarrow> string \<Rightarrow> int option" where
  "add_wallet_sum m g =
     (case g of ((wid, type'), amount) \<Rightarrow>
        if type' = ''RESERVATION'' \<or> type' = ''RELEASE'' \<or> \<not> truthy wid then m
        else m(the wid \<mapsto> (case m (the wid) of None \<Rightarrow> 0 | Some c \<Rightarrow> c) + units amount))"

definition expectedByWallet :: "db \<Rightarrow> string \<Rightarrow> int" where
  "expectedByWallet s k = (case foldl add_wallet_sum (\<lambda>_. None) (wallet_sums s) k of None \<Rightarrow> 0 | Some e \<Rightarrow> e)"

definition wallet_drift_row :: "env \<Rightarrow> wallet_row \<Rightarrow> int \<Rightarrow> int \<Rightarrow> drift_row" where
  "wallet_drift_row env w actual expected =
     makeRow env ((critical_row ''wallet'' ''WALLET_DRIFT'' ''Wallet'' (w_id w)
       (''Wallet '' @ take 8 (w_id w) @ '' balance ('' @ fromScaled actual @ '') differs from ledger ('' @ fromScaled expected @ '')'')
       [(''expectedAmount'', TextJ (fromScaled expected)), (''actualAmount'', TextJ (fromScaled actual)),
        (''walletId'', TextJ (w_id w))])
       \<lparr>dr_amount := Some (fromScaled (actual - expected)), dr_action := Some (''wallet'', w_id w)\<rparr>)"

definition checkWallets :: "env \<Rightarrow> db \<Rightarrow> drift_stats \<Rightarrow> drift_row list \<times> drift_stats" where
  "checkWallets env s stats =
     (concat (map (\<lambda>w.
        let expected = expectedByWallet s (w_id w);
            actual = units (w_availableBalance w) + units (w_reservedBalance w)
        in if actual \<noteq> expected then [wallet_drift_row env w actual expected] else []) (wallets s)),
      stats\<lparr>ds_checkedWallets := length (wallets s),
        ds_checkedTransactions := ds_checkedTransactions stats + length (wallet_sums s)\<rparr>)"

section \<open>Publisher balance drift\<close>

definition LEDGER_TYPES :: "string list" where
  "LEDGER_TYPES = [''SETTLEMENT_RELEASE'', ''PUBLISHER_COMPENSATION'', ''DEBT_REPAYMENT'', ''SETTLEMENT_CLAWBACK'',
     ''WITHDRAWAL'', ''WITHDRAWAL_REVERSAL'']"

definition publisher_sums :: "db \<Rightarrow> (string option \<times> int) list" where
  "publisher_sums s = group_sums t_publisherId t_amount
     (filter (\<lambda>t. t_publisherId t \<noteq> None \<and> t_type t \<in> set LEDGER_TYPES) (transactions s))"

definition set_publisher_sum :: "(string \<Rightarrow> int option) \<Rightarrow> string option \<times> int \<Rightarrow> string \<Rightarrow> int option" where
  "set_publisher_sum m g = (case g of (pid, amount) \<Rightarrow> if truthy pid then m(the pid \<mapsto> units amount) else m)"

definition expectedByPublisher :: "db \<Rightarrow> string \<Rightarrow> int" where
  "expectedByPublisher s k = (case foldl set_publisher_sum (\<lambda>_. None) (publisher_sums s) k of None \<Rightarrow> 0 | Some e \<Rightarrow> e)"

definition publisher_drift_row :: "env \<Rightarrow> balance_row \<Rightarrow> int \<Rightarrow> int \<Rightarrow> drift_row" where
  "publisher_drift_row env b actual expected =
     makeRow env ((critical_row ''publisher'' ''PUBLISHER_DRIFT'' ''PublisherBalance'' (b_publisherId b)
       (''Publisher '' @ take 8 (b_publisherId b) @ '' withdrawable balance ('' @ fromScaled actual
         @ '') differs from ledger ('' @ fromScaled expected @ '')'')
       [(''expectedAmount'', TextJ (fromScaled expected)), (''actualAmount'', TextJ (fromScaled actual)),
        (''publisherId'', TextJ (b_publisherId b))])
       \<lparr>dr_amount := Some (fromScaled (actual - expected)), dr_action := Some (''publisher'', b_publisherId b)\<rparr>)"

definition checkPublisherBalances :: "env \<Rightarrow> db \<Rightarrow> drift_stats \<Rightarrow> drift_row list \<times> drift_stats" where
  "checkPublisherBalances env s stats =
     (concat (map (\<lambda>b.
        let expected = expectedByPublisher s (b_publisherId b); actual = units (b_withdrawableBalance b)
        in if actual \<noteq> expected then [publisher_drift_row env b actual expected] else []) (balances s)),
      stats\<lparr>ds_checkedPublishers := length (balances s),
        ds_checkedTransactions := ds_checkedTransactions stats + length (publisher_sums s)\<rparr>)"

section \<open>Withdrawals\<close>

definition checkLegacyWalletWithdrawals :: "env \<Rightarrow> db \<Rightarrow> drift_row list" where
  "checkLegacyWalletWithdrawals env s =
     map (\<lambda>t.
        makeRow env ((critical_row ''payment'' ''WALLET_WITHDRAWAL_WITHOUT_EXECUTION'' ''Transaction'' (t_id t)
          (''Wallet withdrawal transaction '' @ t_id t @ '' has no durable external refund or transfer evidence'')
          ([(''transactionId'', TextJ (t_id t))] @ defined_text ''walletId'' (t_walletId t)
            @ defined_text ''publicReference'' (t_reference t)))
          \<lparr>dr_amount := Some (decimalString (t_amount t)), dr_action := Some (''wallet'', the (t_walletId t))\<rparr>))
       (filter (\<lambda>t. t_type t = ''WITHDRAWAL'' \<and> truthy (t_walletId t)) (transactions s))"

definition opt_text :: "string option \<Rightarrow> string" where
  "opt_text v = (case v of None \<Rightarrow> ''null'' | Some t \<Rightarrow> t)"

definition allocated_units :: "db \<Rightarrow> withdrawal_row \<Rightarrow> int" where
  "allocated_units s wd = foldl (\<lambda>acc a. acc + units (al_amount a)) 0
     (filter (\<lambda>a. al_withdrawalId a = wd_id wd \<and> al_releasedAt a = None) (allocations s))"

definition allocation_drift :: "env \<Rightarrow> db \<Rightarrow> withdrawal_row \<Rightarrow> drift_row list" where
  "allocation_drift env s wd =
     (let allocated = allocated_units s wd
      in if allocated \<noteq> units (wd_amount wd) then
           [makeRow env ((critical_row ''payout'' ''WITHDRAWAL_ALLOCATION_MISMATCH'' ''Withdrawal'' (wd_id wd)
             (''Withdrawal '' @ opt_text (wd_publicReference wd) @ '' source allocations do not equal its gross amount'')
             (defined_text ''publicReference'' (wd_publicReference wd)
               @ [(''publisherId'', TextJ (wd_publisherId wd)), (''expectedAmount'', TextJ (decimalString (wd_amount wd))),
                  (''actualAmount'', TextJ (fromScaled allocated))]))
             \<lparr>dr_amount := Some (fromScaled (allocated - units (wd_amount wd))), dr_action := Some (''payout'', wd_id wd)\<rparr>)]
         else [])"

definition without_bank_payout :: "db \<Rightarrow> execution_row \<Rightarrow> bool" where
  "without_bank_payout s x \<longleftrightarrow>
     (case find (\<lambda>p. pr_id p = px_providerId x) (payout_providers s) of None \<Rightarrow> False
      | Some p \<Rightarrow> pr_name p = ''stripe_connect'' \<and> (\<not> truthy (px_providerPayoutId x) \<or> px_stage x \<noteq> ''BANK_PAID''))"

definition bank_payout_drift :: "env \<Rightarrow> db \<Rightarrow> withdrawal_row \<Rightarrow> drift_row list" where
  "bank_payout_drift env s wd =
     map (\<lambda>x.
        makeRow env ((critical_row ''payout'' ''STRIPE_COMPLETED_WITHOUT_BANK_PAYOUT'' ''PayoutExecution'' (px_id x)
          (''Stripe execution for '' @ opt_text (wd_publicReference wd) @ '' is completed without bank-payout evidence'')
          (defined_text ''publicReference'' (wd_publicReference wd)
            @ [(''publisherId'', TextJ (wd_publisherId wd)), (''payoutExecutionId'', TextJ (px_id x))]))
          \<lparr>dr_action := Some (''payout'', wd_id wd)\<rparr>))
       (filter (\<lambda>x. px_withdrawalId x = wd_id wd \<and> px_status x = ''COMPLETED'' \<and> without_bank_payout s x) (executions s))"

definition checkWithdrawalTraceability :: "env \<Rightarrow> db \<Rightarrow> drift_row list" where
  "checkWithdrawalTraceability env s =
     concat (map (\<lambda>wd. allocation_drift env s wd @ bank_payout_drift env s wd)
       (filter (\<lambda>wd. wd_publicReference wd \<noteq> None
          \<and> wd_status wd \<in> {''PENDING'', ''APPROVED'', ''PROCESSING'', ''COMPLETED''}) (withdrawals s)))"

section \<open>Deposits\<close>

definition ledger_of_attempt :: "db \<Rightarrow> deposit_row \<Rightarrow> transaction_row option" where
  "ledger_of_attempt s a = (case da_ledgerTransactionId a of None \<Rightarrow> None
     | Some k \<Rightarrow> find (\<lambda>t. t_id t = k) (transactions s))"

definition dispute_statuses :: "db \<Rightarrow> deposit_row \<Rightarrow> string list" where
  "dispute_statuses s a = map pd_status (filter (\<lambda>d. pd_depositAttemptId d = da_id a) (payment_disputes s))"

definition deposit_case_drift :: "env \<Rightarrow> db \<Rightarrow> deposit_row \<Rightarrow> drift_row list" where
  "deposit_case_drift env s a =
     (if (da_status a = ''DISPUTED'' \<and> ''OPEN'' \<notin> set (dispute_statuses s a))
         \<or> (da_status a = ''CHARGEBACK'' \<and> ''LOST'' \<notin> set (dispute_statuses s a)) then
        [makeRow env (critical_row ''payment'' ''PAYMENT_DISPUTE_DEPOSIT_EVIDENCE_MISMATCH'' ''DepositAttempt'' (da_id a)
          (''Deposit '' @ da_publicReference a @ '' is '' @ da_status a @ '' without the required durable dispute case'')
          [(''publicReference'', TextJ (da_publicReference a)), (''depositAttemptId'', TextJ (da_id a)),
           (''actualStatus'', TextJ (da_status a))])]
      else [])"

definition deposit_ledger_drift :: "env \<Rightarrow> db \<Rightarrow> deposit_row \<Rightarrow> drift_row list" where
  "deposit_ledger_drift env s a =
     (case (isWalletCreditBackedDepositStatus (da_status a), ledger_of_attempt s a) of
        (True, None) \<Rightarrow>
          [makeRow env (critical_row ''payment'' ''DEPOSIT_SUCCEEDED_NO_LEDGER'' ''DepositAttempt'' (da_id a)
            (''Deposit '' @ da_publicReference a @ '' is '' @ da_status a
              @ '' without an attached wallet-credit ledger transaction'')
            [(''publicReference'', TextJ (da_publicReference a))])]
      | (False, Some t) \<Rightarrow>
          [makeRow env (critical_row ''payment'' ''DEPOSIT_LEDGER_WITHOUT_SUCCESS'' ''DepositAttempt'' (da_id a)
            (''Deposit '' @ da_publicReference a @ '' has wallet credit while status is '' @ da_status a)
            [(''publicReference'', TextJ (da_publicReference a)), (''transactionId'', TextJ (t_id t))])]
      | (False, None) \<Rightarrow> []
      | (True, Some t) \<Rightarrow>
          if units (t_amount t) \<noteq> units (da_walletCredit a) \<or> t_currency t \<noteq> da_currency a \<or> t_type t \<noteq> ''DEPOSIT'' then
            [makeRow env ((critical_row ''payment'' ''DEPOSIT_LEDGER_AMOUNT_MISMATCH'' ''DepositAttempt'' (da_id a)
              (''Deposit '' @ da_publicReference a @ '' does not match its wallet ledger row'')
              [(''publicReference'', TextJ (da_publicReference a)), (''transactionId'', TextJ (t_id t)),
               (''expectedAmount'', TextJ (decimalString (da_walletCredit a))),
               (''actualAmount'', TextJ (decimalString (t_amount t)))])
              \<lparr>dr_amount := Some (decimalString (da_walletCredit a))\<rparr>)]
          else [])"

definition checkProviderNeutralDeposits :: "env \<Rightarrow> db \<Rightarrow> drift_row list" where
  "checkProviderNeutralDeposits env s =
     concat (map (\<lambda>a. deposit_case_drift env s a @ deposit_ledger_drift env s a)
       (filter (\<lambda>a. da_status a \<in> set WALLET_CREDIT_BACKED_DEPOSIT_STATUSES \<or> da_ledgerTransactionId a \<noteq> None) (deposits s)))"

section \<open>Deposit events\<close>

definition deposit_success_types :: "string list" where
  "deposit_success_types = [''checkout.session.completed'', ''checkout.session.async_payment_succeeded'']"

definition event_row :: "env \<Rightarrow> provider_event_row \<Rightarrow> string \<Rightarrow> string \<Rightarrow> drift_row" where
  "event_row env e code message =
     makeRow env (critical_row ''payment'' code ''PaymentProviderEvent'' (pv_id e) message
       ([(''providerEventId'', TextJ (pv_providerEventId e))] @ defined_text ''depositAttemptId'' (pv_depositAttemptId e)
         @ [(''actualStatus'', TextJ (pv_status e))]))"

definition processed_exactly :: "db \<Rightarrow> provider_event_row \<Rightarrow> bool" where
  "processed_exactly s e \<longleftrightarrow>
     (case (case pv_depositAttemptId e of None \<Rightarrow> None | Some k \<Rightarrow> find (\<lambda>a. da_id a = k) (deposits s)) of
        None \<Rightarrow> False
      | Some a \<Rightarrow> (case ledger_of_attempt s a of None \<Rightarrow> False
          | Some t \<Rightarrow>
              Some (da_id a) = pv_depositAttemptId e \<and> da_provider a = pv_provider e
              \<and> da_providerSessionId a = pv_objectId e \<and> isWalletCreditBackedDepositStatus (da_status a)
              \<and> da_ledgerTransactionId a = Some (t_id t) \<and> t_type t = ''DEPOSIT''
              \<and> t_walletId t = Some (da_walletId a) \<and> units (t_amount t) = units (da_walletCredit a)
              \<and> t_currency t = da_currency a \<and> t_provider t = Some (da_provider a)
              \<and> t_providerRef t = da_providerPaymentId a))"

definition INBOX_STALE_MS :: int where
  "INBOX_STALE_MS = 15 * 60 * 1000"

definition inbox_stale :: "env \<Rightarrow> provider_event_row \<Rightarrow> bool" where
  "inbox_stale env e \<longleftrightarrow>
     pv_status e = ''PENDING'' \<and> env_now env - pv_receivedAt e > INBOX_STALE_MS
     \<or> pv_status e = ''PROCESSING'' \<and> (case pv_lockedAt e of None \<Rightarrow> True | Some l \<Rightarrow> env_now env - l > INBOX_STALE_MS)"

definition deposit_event_drift :: "env \<Rightarrow> db \<Rightarrow> provider_event_row \<Rightarrow> drift_row list" where
  "deposit_event_drift env s e =
     (if pv_provider e = ''stripe'' \<and> pv_livemode e = None then
        [event_row env e ''PAYMENT_PROVIDER_EVENT_MODE_UNVERIFIED''
          (''Stripe deposit event '' @ pv_providerEventId e @ '' is legacy evidence without a durable test/live mode'')]
      else [])
     @ (if pv_status e = ''QUARANTINED'' then
          [event_row env e ''DEPOSIT_INBOX_QUARANTINED''
            (''Deposit success event '' @ pv_providerEventId e @ '' is quarantined and requires Finance review'')]
        else if pv_status e = ''PROCESSED'' then
          (if processed_exactly s e then []
           else [event_row env e ''DEPOSIT_PROCESSED_EVIDENCE_MISMATCH''
             (''Processed deposit success event '' @ pv_providerEventId e
               @ '' lacks exact attempt and wallet-credit ledger evidence'')])
        else if pv_status e = ''FAILED'' then
          [event_row env e ''DEPOSIT_INBOX_FAILED''
            (''Deposit success event '' @ pv_providerEventId e @ '' failed and requires a signed provider redelivery'')]
        else if inbox_stale env e then
          [event_row env e ''DEPOSIT_INBOX_STALE''
            (''Deposit success event '' @ pv_providerEventId e @ '' has a stale '' @ pv_status e @ '' inbox state'')]
        else [])"

definition checkDepositProviderEvents :: "env \<Rightarrow> db \<Rightarrow> drift_row list" where
  "checkDepositProviderEvents env s =
     concat (map (deposit_event_drift env s) (filter (\<lambda>e. pv_eventType e \<in> set deposit_success_types) (provider_events s)))"

section \<open>What scaling loses\<close>

text \<open>A column with at most twelve decimals, which every amount of whole cents has, is scaled exactly.\<close>

definition UNIT :: int where
  "UNIT = 10 ^ 18"

lemma toScaled_column: "toScaled (column d) = Some (if d < 0 then - (\<bar>d\<bar> div UNIT) else \<bar>d\<bar> div UNIT)"
proof -
  let ?f = "strip_zeros (decimal_digits d)" and ?w = "decimal_whole d"
  have w: "takeWhile (\<lambda>c. c \<noteq> CHR ''.'') (?w @ (if ?f = [] then [] else CHR ''.'' # ?f)) = ?w"
    "all_digits ?w" "int (digits_val ?w) = \<bar>d\<bar> div MONEY_FACTOR"
    using decimal_whole_props[of d] all_digits_no_char[of ?w "CHR ''.''"]
    by (auto simp: takeWhile_append takeWhile_eq_all_conv)
  have f: "takeWhile (\<lambda>c. c \<noteq> CHR ''.'') (drop (length ?w + 1) (?w @ (if ?f = [] then [] else CHR ''.'' # ?f))) = ?f"
    using all_digits_strip[OF decimal_digits_props(2)[of d]] all_digits_no_char[of ?f "CHR ''.''"]
    by (auto simp: takeWhile_eq_all_conv)
  have t: "take SCALE (?f @ replicate SCALE CHR ''0'') = take SCALE (decimal_digits d)"
  proof -
    have "decimal_digits d = ?f @ replicate (30 - length ?f) CHR ''0''"
      using strip_zeros_pad[of "decimal_digits d"] decimal_digits_props(1)[of d] by (simp add: pad_end_def)
    from arg_cong[OF this, where f = "take SCALE"] show ?thesis
      by (simp add: SCALE_def min_def)
  qed
  have ad: "all_digits (take 12 (decimal_digits d))" "all_digits (drop 12 (decimal_digits d))"
    using decimal_digits_props(2)[of d] by (metis all_digits_append append_take_drop_id)+
  have v: "int (digits_val (decimal_digits d)) = int (digits_val (take 12 (decimal_digits d))) * UNIT
      + int (digits_val (drop 12 (decimal_digits d)))"
    using digits_val_append[of "take 12 (decimal_digits d)" "drop 12 (decimal_digits d)"] decimal_digits_props(1)[of d]
    by (simp add: UNIT_def)
  have b: "int (digits_val (drop 12 (decimal_digits d))) < UNIT"
    using digits_val_bound[OF ad(2)] decimal_digits_props(1)[of d] by (simp add: UNIT_def)
  have "\<bar>d\<bar> = \<bar>d\<bar> div MONEY_FACTOR * MONEY_FACTOR + \<bar>d\<bar> mod MONEY_FACTOR" by simp
  also have "\<dots> = (\<bar>d\<bar> div MONEY_FACTOR * SCALE_FACTOR + int (digits_val (take 12 (decimal_digits d)))) * UNIT
      + int (digits_val (drop 12 (decimal_digits d)))"
    unfolding decimal_digits_props(3)[of d, symmetric] v
    by (simp add: MONEY_FACTOR_def MONEY_SCALE_def SCALE_FACTOR_def SCALE_def UNIT_def distrib_right)
  finally have "\<bar>d\<bar> div UNIT = \<bar>d\<bar> div MONEY_FACTOR * SCALE_FACTOR + int (digits_val (take 12 (decimal_digits d)))"
    using b by (simp add: UNIT_def)
  then have "\<bar>d\<bar> div MONEY_FACTOR * SCALE_FACTOR + int (digits_val (take SCALE (decimal_digits d))) = \<bar>d\<bar> div UNIT"
    by (simp add: SCALE_def)
  moreover have "bigint_text ?w = Some (\<bar>d\<bar> div MONEY_FACTOR)"
    "bigint_text (take SCALE (decimal_digits d)) = Some (int (digits_val (take SCALE (decimal_digits d))))"
    using w(2,3) ad(1) by (simp_all add: bigint_text_def SCALE_def)
  ultimately show ?thesis
    unfolding toScaled_def Let_def coalesce_column split_decimalString prod.case w(1) f t
    by (cases "d < 0") auto
qed

definition fine :: "int \<Rightarrow> bool" where
  "fine d \<longleftrightarrow> UNIT dvd d"

lemma UNIT_pos [simp]: "0 < UNIT" "UNIT \<noteq> 0"
  by (simp_all add: UNIT_def)

lemma fine_cents: "fine (m * CENT)"
  by (simp add: fine_def UNIT_def CENT_def)

lemma fine_arith [simp]: "fine 0" "fine a \<Longrightarrow> fine b \<Longrightarrow> fine (a + b)" "fine a \<Longrightarrow> fine b \<Longrightarrow> fine (a - b)" "fine (- a) \<longleftrightarrow> fine a"
  by (simp_all add: fine_def)

lemma fine_sum: "(\<And>x. x \<in> set xs \<Longrightarrow> fine (f x)) \<Longrightarrow> fine (sum_list (map f xs))"
  by (induction xs) auto

lemma units_fine: "fine d \<Longrightarrow> units d = d div UNIT"
  unfolding units_def toScaled_column fine_def
  by (auto simp: abs_if dvd_neg_div)

lemma units_add: "fine a \<Longrightarrow> fine b \<Longrightarrow> units (a + b) = units a + units b"
  by (simp add: units_fine fine_def)

lemma units_zero [simp]: "units 0 = 0"
  by (simp add: units_fine)

lemma units_eq: "fine a \<Longrightarrow> fine b \<Longrightarrow> units a = units b \<longleftrightarrow> a = b"
  by (auto simp: units_fine fine_def elim!: dvdE)

lemma units_sum: "(\<And>x. x \<in> set xs \<Longrightarrow> fine (f x)) \<Longrightarrow> units (sum_list (map f xs)) = sum_list (map (\<lambda>x. units (f x)) xs)"
  by (induction xs) (simp_all add: units_add fine_sum)

section \<open>Groups\<close>

lemma group_total:
  fixes f :: "'r \<Rightarrow> int"
  assumes "finite K"
  shows "(\<Sum>k\<in>K. sum_list (map f (filter (\<lambda>r. key r = k) rows))) = sum_list (map f (filter (\<lambda>r. key r \<in> K) rows))"
proof (induction rows)
  case (Cons r rows)
  have "(\<Sum>k\<in>K. sum_list (map f (filter (\<lambda>r. key r = k) (r # rows))))
      = (\<Sum>k\<in>K. (if k = key r then f r else 0) + sum_list (map f (filter (\<lambda>r. key r = k) rows)))"
    by (rule sum.cong) auto
  also have "\<dots> = (if key r \<in> K then f r else 0) + (\<Sum>k\<in>K. sum_list (map f (filter (\<lambda>r. key r = k) rows)))"
    using assms by (simp add: sum.distrib)
  finally show ?case using Cons by simp
qed simp

lemma group_sums_total:
  "sum_list (map snd (filter (\<lambda>g. P (fst g)) (group_sums key f rows))) = sum_list (map f (filter (\<lambda>r. P (key r)) rows))"
proof -
  let ?K = "{k \<in> set (map key rows). P k}"
  have "sum_list (map snd (filter (\<lambda>g. P (fst g)) (group_sums key f rows)))
      = sum_list (map (\<lambda>k. sum_list (map f (filter (\<lambda>r. key r = k) rows))) (filter P (remdups (map key rows))))"
    by (simp add: group_sums_def filter_map o_def)
  also have "\<dots> = (\<Sum>k\<in>?K. sum_list (map f (filter (\<lambda>r. key r = k) rows)))"
    using sum_list_distinct_conv_sum_set[of "filter P (remdups (map key rows))"] by simp
  also have "\<dots> = sum_list (map f (filter (\<lambda>r. key r \<in> ?K) rows))" by (rule group_total) simp
  also have "filter (\<lambda>r. key r \<in> ?K) rows = filter (\<lambda>r. P (key r)) rows" by (rule filter_cong) auto
  finally show ?thesis .
qed

lemma group_sums_fine:
  assumes "\<And>r. r \<in> set rows \<Longrightarrow> fine (f r)" "g \<in> set (group_sums key f rows)"
  shows "fine (snd g)"
  using assms by (auto simp: group_sums_def intro!: fine_sum)

section \<open>What the balance detectors report\<close>

text \<open>The ledger of a wallet: bucket transfers between its two balances do not count.\<close>

definition wallet_ledger :: "string \<Rightarrow> db \<Rightarrow> int" where
  "wallet_ledger k s = sum_list (map t_amount
     (filter (\<lambda>t. t_walletId t = Some k \<and> t_type t \<noteq> ''RESERVATION'' \<and> t_type t \<noteq> ''RELEASE'') (transactions s)))"

definition publisher_ledger :: "string \<Rightarrow> db \<Rightarrow> int" where
  "publisher_ledger k s = sum_list (map t_amount
     (filter (\<lambda>t. t_publisherId t = Some k \<and> t_type t \<in> set LEDGER_TYPES) (transactions s)))"

text \<open>Amounts of at most twelve decimals, and keys that are no empty texts.\<close>

definition plain_books :: "db \<Rightarrow> bool" where
  "plain_books s \<longleftrightarrow> (\<forall>t \<in> set (transactions s). fine (t_amount t))
     \<and> (\<forall>w \<in> set (wallets s). fine (w_availableBalance w) \<and> fine (w_reservedBalance w) \<and> w_id w \<noteq> [])
     \<and> (\<forall>b \<in> set (balances s). fine (b_withdrawableBalance b) \<and> b_publisherId b \<noteq> [])"

definition counted :: "string \<Rightarrow> string option \<times> string \<Rightarrow> bool" where
  "counted k g \<longleftrightarrow> fst g = Some k \<and> snd g \<noteq> ''RESERVATION'' \<and> snd g \<noteq> ''RELEASE''"

lemma fold_wallet_sums:
  assumes "k \<noteq> []"
  shows "(case foldl add_wallet_sum m gs k of None \<Rightarrow> 0 | Some e \<Rightarrow> e)
     = (case m k of None \<Rightarrow> 0 | Some e \<Rightarrow> e) + sum_list (map (\<lambda>g. units (snd g)) (filter (\<lambda>g. counted k (fst g)) gs))"
proof (induction gs arbitrary: m)
  case (Cons g gs)
  have "(case add_wallet_sum m g k of None \<Rightarrow> 0 | Some e \<Rightarrow> e)
      = (case m k of None \<Rightarrow> 0 | Some e \<Rightarrow> e) + (if counted k (fst g) then units (snd g) else 0)"
    using assms by (cases g; cases "fst (fst g)") (auto simp: add_wallet_sum_def counted_def truthy_def)
  then show ?case using Cons[of "add_wallet_sum m g"] by simp
qed simp

lemma expectedByWallet_ledger:
  assumes "plain_books s" "k \<noteq> []"
  shows "expectedByWallet s k = units (wallet_ledger k s)"
proof -
  let ?rows = "filter (\<lambda>t. t_walletId t \<noteq> None) (transactions s)"
  have f: "fine (snd g)" if "g \<in> set (wallet_sums s)" for g
    using group_sums_fine[of ?rows t_amount g "\<lambda>t. (t_walletId t, t_type t)"] that assms(1)
    by (auto simp: wallet_sums_def plain_books_def)
  have "expectedByWallet s k = sum_list (map (\<lambda>g. units (snd g)) (filter (\<lambda>g. counted k (fst g)) (wallet_sums s)))"
    unfolding expectedByWallet_def fold_wallet_sums[OF assms(2)] by simp
  also have "\<dots> = units (sum_list (map snd (filter (\<lambda>g. counted k (fst g)) (wallet_sums s))))"
    by (rule units_sum[symmetric]) (use f in auto)
  also have "sum_list (map snd (filter (\<lambda>g. counted k (fst g)) (wallet_sums s))) = wallet_ledger k s"
    unfolding wallet_sums_def group_sums_total wallet_ledger_def filter_filter
    by (rule arg_cong[where f = sum_list], rule arg_cong[where f = "map t_amount"], rule filter_cong) (auto simp: counted_def)
  finally show ?thesis .
qed

lemma fold_publisher_sums:
  assumes "k \<noteq> []" "distinct (map fst gs)"
  shows "foldl set_publisher_sum m gs k = (case map_of gs (Some k) of None \<Rightarrow> m k | Some a \<Rightarrow> Some (units a))"
  using assms(2)
proof (induction gs arbitrary: m)
  case (Cons g gs)
  have "set_publisher_sum m g k = (if fst g = Some k then Some (units (snd g)) else m k)"
    using assms(1) by (cases g; cases "fst g") (auto simp: set_publisher_sum_def truthy_def)
  moreover have "fst g = Some k \<Longrightarrow> map_of gs (Some k) = None"
    using Cons.prems by (auto simp: map_of_eq_None_iff)
  ultimately show ?case using Cons.IH[of "set_publisher_sum m g"] Cons.prems by (cases g) (auto split: option.splits)
qed simp

lemma expectedByPublisher_ledger:
  assumes "k \<noteq> []"
  shows "expectedByPublisher s k = units (publisher_ledger k s)"
proof -
  let ?rows = "filter (\<lambda>t. t_publisherId t \<noteq> None \<and> t_type t \<in> set LEDGER_TYPES) (transactions s)"
  have d: "distinct (map fst (publisher_sums s))" by (simp add: publisher_sums_def group_sums_def o_def)
  have l: "publisher_ledger k s = sum_list (map t_amount (filter (\<lambda>t. t_publisherId t = Some k) ?rows))"
    unfolding publisher_ledger_def filter_filter
    by (rule arg_cong[where f = sum_list], rule arg_cong[where f = "map t_amount"], rule filter_cong) auto
  show ?thesis
  proof (cases "Some k \<in> set (map t_publisherId ?rows)")
    case True
    then have "map_of (publisher_sums s) (Some k) = Some (publisher_ledger k s)"
      by (intro map_of_is_SomeI[OF d]) (auto simp: publisher_sums_def group_sums_def l)
    then show ?thesis by (simp add: expectedByPublisher_def fold_publisher_sums[OF assms d])
  next
    case False
    then have none: "filter (\<lambda>t. t_publisherId t = Some k) ?rows = []" by (metis (mono_tags, lifting) filter_False image_eqI list.set_map)
    have "fst ` set (publisher_sums s) = set (map t_publisherId ?rows)"
      by (simp add: publisher_sums_def group_sums_def image_image)
    with False have "map_of (publisher_sums s) (Some k) = None" unfolding map_of_eq_None_iff by blast
    then show ?thesis using none by (simp add: expectedByPublisher_def fold_publisher_sums[OF assms d] l)
  qed
qed

lemma balance_detectors:
  assumes "plain_books s"
  shows "map dr_entityId (fst (checkWallets env s stats))
      = map w_id (filter (\<lambda>w. w_availableBalance w + w_reservedBalance w \<noteq> wallet_ledger (w_id w) s) (wallets s))
    \<and> map dr_entityId (fst (checkPublisherBalances env s stats))
      = map b_publisherId (filter (\<lambda>b. b_withdrawableBalance b \<noteq> publisher_ledger (b_publisherId b) s) (balances s))"
proof -
  have tx: "fine (wallet_ledger k s)" "fine (publisher_ledger k s)" for k
    using assms by (auto simp: wallet_ledger_def publisher_ledger_def plain_books_def intro!: fine_sum)
  have w: "units (w_availableBalance w) + units (w_reservedBalance w) \<noteq> expectedByWallet s (w_id w)
      \<longleftrightarrow> w_availableBalance w + w_reservedBalance w \<noteq> wallet_ledger (w_id w) s" if "w \<in> set (wallets s)" for w
    using that assms tx(1) expectedByWallet_ledger[OF assms, of "w_id w"]
    by (simp add: plain_books_def units_add[symmetric] units_eq)
  have b: "units (b_withdrawableBalance b) \<noteq> expectedByPublisher s (b_publisherId b)
      \<longleftrightarrow> b_withdrawableBalance b \<noteq> publisher_ledger (b_publisherId b) s" if "b \<in> set (balances s)" for b
    using that assms tx(2) expectedByPublisher_ledger[of "b_publisherId b" s] by (simp add: plain_books_def units_eq)
  have reported: "map dr_entityId (concat (map (\<lambda>x. if P x then [row x] else []) xs)) = map key (filter Q xs)"
    if "\<And>x. x \<in> set xs \<Longrightarrow> P x = Q x" "\<And>x. dr_entityId (row x) = key x"
    for P Q :: "'x \<Rightarrow> bool" and row :: "'x \<Rightarrow> drift_row" and key xs
    using that by (induction xs) auto
  show ?thesis
    unfolding checkWallets_def checkPublisherBalances_def Let_def fst_conv
    by (intro conjI reported) (use w b in \<open>simp_all add: wallet_drift_row_def publisher_drift_row_def makeRow_def critical_row_def\<close>)
qed

section \<open>Properties\<close>

text \<open>C22: the wallet detector reports exactly the wallets whose available and reserved funds together are not the sum of
  their ledger rows, bucket transfers aside, and the publisher detector exactly the publishers whose withdrawable balance
  is not the sum of their rows of the six publisher types.\<close>
theorem balance_drift_exact:
  assumes "plain_books s"
  shows "map dr_entityId (fst (checkWallets env s stats))
      = map w_id (filter (\<lambda>w. w_availableBalance w + w_reservedBalance w \<noteq> wallet_ledger (w_id w) s) (wallets s))
    \<and> map dr_entityId (fst (checkPublisherBalances env s stats))
      = map b_publisherId (filter (\<lambda>b. b_withdrawableBalance b \<noteq> publisher_ledger (b_publisherId b) s) (balances s))"
  using balance_detectors[OF assms] .

text \<open>A wallet of 5 USD with no ledger row, and a publisher with 2 USD of which the ledger knows one.\<close>

definition drifting_db :: db where
  "drifting_db = empty_db\<lparr>wallets := [example_wallet], balances := [example_balance],
     transactions := [new_transaction\<lparr>t_id := ''x1'', t_type := ''SETTLEMENT_RELEASE'', t_amount := 100 * CENT,
       t_currency := ''USD'', t_publisherId := Some ''p1''\<rparr>]\<rparr>"

theorem balance_drift_exact_witness:
  "map dr_entityId (fst (checkWallets example_env drifting_db initial_stats)) = [''w1'']
     \<and> map dr_entityId (fst (checkPublisherBalances example_env drifting_db initial_stats)) = [''p1'']"
proof -
  have "plain_books drifting_db"
    by (simp add: plain_books_def drifting_db_def example_defs new_transaction_def fine_cents)
  from balance_drift_exact[OF this, of example_env initial_stats] show ?thesis
    by (simp add: drifting_db_def example_defs new_transaction_def wallet_ledger_def publisher_ledger_def LEDGER_TYPES_def)
qed

end
