(* ===== verification/Withdrawal_System.thy ===== *)
theory Withdrawal_System
  imports Withdrawal_Safety
begin

text \<open>
  Requests, approvals, rejections and payouts of withdrawals as the steps of one system: every
  withdrawal stays covered by its allocations, no source is spent beyond what it has, and a
  rejection undoes its request.
\<close>

section \<open>Approvals\<close>

definition withdrawal_approved :: "env \<Rightarrow> string \<Rightarrow> string \<Rightarrow> db \<Rightarrow> db \<Rightarrow> bool" where
  "withdrawal_approved env approvedBy wid s s' \<longleftrightarrow> (\<exists>logs out.
     s' = s\<lparr>withdrawals := update_where (\<lambda>r. wd_id r = wid) (\<lambda>r. r\<lparr>wd_status := ''APPROVED'', wd_approvedBy := Some approvedBy,
         wd_approvedAt := Some (env_now env), wd_version := wd_version r + 1\<rparr>) (withdrawals s),
       audit_logs := logs, outbox := out\<rparr>)"

lemma blockApproval_Inr:
  "blockApproval env approvedBy w g reason s = Inr (r, s') \<Longrightarrow> r = Blocked reason \<and> reported s s'"
  unfolding blockApproval_def andThen_Inr using audit_log_reports by (auto simp: ret_Inr)

lemma approval_block_pending: "approval_block env approvedBy w s = None \<Longrightarrow> wd_status w = ''PENDING''"
  by (auto simp: approval_block_def Let_def split: if_splits)

lemma approveWithdrawalTx_Inr:
  assumes wf: "payout_wf s" and run: "approveWithdrawalTx env comms wid approvedBy s = Inr (r, s')"
  shows "\<exists>w. find_withdrawal wid s = Some w \<and> (case r of
       Blocked reason \<Rightarrow> approval_block env approvedBy w s = Some reason \<and> reported s s'
     | Approved u i \<Rightarrow> approval_block env approvedBy w s = None \<and> withdrawal_approved env approvedBy wid s s'
         \<and> find_withdrawal wid s' = Some u)"
proof -
  let ?f = "\<lambda>r. r\<lparr>wd_status := ''APPROVED'', wd_approvedBy := Some approvedBy, wd_approvedAt := Some (env_now env),
              wd_version := wd_version r + 1\<rparr>"
  from run obtain w where f: "find_withdrawal wid s = Some w"
    unfolding approveWithdrawalTx_def by (auto simp: tx_simps split: option.splits)
  let ?g = "\<lambda>r. wd_id r = wid \<and> wd_status r = ''PENDING'' \<and> wd_version r = wd_version w"
  let ?org = "organization_of (wd_publisherId w) s"
  show ?thesis
  proof (cases "approval_block env approvedBy w s")
    case (Some reason)
    then have "blockApproval env approvedBy w ?org reason s = Inr (r, s')"
      using run f unfolding approveWithdrawalTx_def by (auto simp: andThen_Inr query_Inr)
    from blockApproval_Inr[OF this] show ?thesis using f Some by simp
  next
    case None
    have w: "wd_id w = wid" "w \<in> set (withdrawals s)" using found_withdrawal[OF f] by simp_all
    have d: "distinct (map wd_id (withdrawals s))" using wf by (simp add: payout_wf_def)
    have "count_where ?g (withdrawals s) \<le> 1" by (rule count_key[OF d, of _ wid]) simp
    moreover have "0 < count_where ?g (withdrawals s)"
      unfolding count_where_pos using w approval_block_pending[OF None] by blast
    ultimately have c: "count_where ?g (withdrawals s) = 1" by simp
    let ?s = "s\<lparr>withdrawals := update_where (\<lambda>r. wd_id r = wid) ?f (withdrawals s)\<rparr>"
    have u: "update_where ?g ?f (withdrawals s) = update_where (\<lambda>r. wd_id r = wid) ?f (withdrawals s)"
      using guard_row[OF d w(2), of ?g ?f] c w(1) by simp
    from run f None c u obtain x s1 s2 i where a: "find_withdrawal wid ?s = Some x" "reported ?s s1" "reported s1 s2"
      and r: "r = Approved x i" "s' = s2"
      unfolding approveWithdrawalTx_def
      by (auto simp: update_Inr found_or_throw_Inr query_Inr ret_Inr andThen_Inr)
        (blast dest: audit_log_reports recordPublisherCommunication_reports)
    have rep: "reported ?s s'" using reported_trans a r by blast
    then have e: "s' = ?s\<lparr>audit_logs := audit_logs s', outbox := outbox s'\<rparr>" by (simp add: reported_def)
    then have "withdrawal_approved env approvedBy wid s s'" unfolding withdrawal_approved_def by blast
    moreover have "find_withdrawal wid s' = find_withdrawal wid ?s"
      by (subst e) (simp add: find_withdrawal_def)
    ultimately show ?thesis using f None a r by simp
  qed
qed

section \<open>Steps\<close>

inductive withdrawal_step :: "db \<Rightarrow> db \<Rightarrow> bool" where
  request: "validRequest rq s = Inr (u, s) \<Longrightarrow> requestWithdrawalTx to_number env comms rq ref s = Inr (w, s') \<Longrightarrow>
     withdrawal_step s s'"
| approve: "approveWithdrawalTx env comms wid approvedBy s = Inr (oc, s') \<Longrightarrow> withdrawal_step s s'"
| reject: "rejectOrAbandonTx env comms wid rejectedBy reason expected s = Inr (r, s') \<Longrightarrow> withdrawal_step s s'"
| payout: "finalizeInTransaction env pin s = Inr (poc, s') \<Longrightarrow> withdrawal_step s s'"

inductive_cases withdrawal_stepE: "withdrawal_step s s'"

lemma validRequest_positive: "validRequest rq s = Inr r \<Longrightarrow> 0 < requested_amount rq \<and> snd r = s"
  by (auto simp: validRequest_def tx_simps Let_def not_less) (use MONEY_FACTOR_pos in linarith)

lemma requestWithdrawalTx_Inr:
  assumes wf: "db_wf s" and a: "0 < requested_amount rq"
    and run: "requestWithdrawalTx to_number env comms rq ref s = Inr (w, s')"
  shows "find_request rq s = Some w \<and> s' = s
    \<or> find_request rq s = None \<and> (\<exists>p b. requestable env rq p b s \<and> requested_between to_number env rq ref p b w s s')"
proof (cases "find_request rq s")
  case (Some x)
  then show ?thesis using run unfolding requestWithdrawalTx_def by (auto simp: tx_simps assertMatchingWithdrawalRequest_def)
next
  case None
  then obtain pb s1 where e: "eligibleRequest env rq s = Inr (pb, s1)"
    and k: "reserveRequested to_number env comms rq ref (fst pb) (snd pb) s1 = Inr (w, s')"
    using run unfolding requestWithdrawalTx_def by (auto simp: tx_simps split_beta)
  from eligibleRequest_Inr[OF e] obtain p b where pb: "pb = (p, b)" "s1 = s" and r: "requestable env rq p b s" by blast
  have "find_balance (rq_publisherId rq) s = Some b" using r by (simp add: requestable_def)
  moreover have "reserveRequested to_number env comms rq ref p b s = Inr (w, s')" using k pb by simp
  ultimately have "requested_between to_number env rq ref p b w s s'" using reserveRequested_Inr[OF wf a] by blast
  then show ?thesis using r None by blast
qed

section \<open>Coverage\<close>

definition source_ledger :: "db \<Rightarrow> transaction_row list" where
  "source_ledger s = filter (\<lambda>t. t_type t \<in> set SOURCE_TYPES) (transactions s)"

definition withdrawals_wf :: "db \<Rightarrow> bool" where
  "withdrawals_wf s \<longleftrightarrow> payout_wf s \<and> db_wf s \<and> distinct (map al_id (allocations s)) \<and> distinct (map t_id (source_ledger s))
     \<and> al_withdrawalId ` set (allocations s) \<subseteq> wd_id ` set (withdrawals s)"

lemma withdrawals_wfD:
  assumes "withdrawals_wf s"
  shows "payout_wf s" "db_wf s" "distinct (map al_id (allocations s))" "distinct (map t_id (source_ledger s))"
    "al_withdrawalId ` set (allocations s) \<subseteq> wd_id ` set (withdrawals s)" "distinct (map wd_id (withdrawals s))"
    "distinct (map b_publisherId (balances s))"
  using assms by (simp_all add: withdrawals_wf_def payout_wf_def)

text \<open>The allocations not released cover every withdrawal that is not rejected, to the last unit.\<close>

definition withdrawals_covered :: "db \<Rightarrow> bool" where
  "withdrawals_covered s \<longleftrightarrow> (\<forall>w \<in> set (withdrawals s).
     reserved_for (wd_id w) s = (if wd_status w = ''REJECTED'' then 0 else wd_amount w))"

text \<open>What a source has brought in, less the debt repaid out of it; and that nothing more is taken from it.\<close>

definition credit :: "source_view list \<Rightarrow> source_view \<Rightarrow> int" where
  "credit views v = t_amount (sv_row v) + debtBySource views (source_key v)"

definition sources_solvent :: "db \<Rightarrow> bool" where
  "sources_solvent s \<longleftrightarrow> (\<forall>b \<in> set (balances s). \<forall>v \<in> set (source_rows (b_publisherId b) (b_allocationCutoverAt b) s).
     sum_list (taken_from (t_id (sv_row v)) s) \<le> credit (source_rows (b_publisherId b) (b_allocationCutoverAt b) s) v)"

lemma reserved_append:
  assumes "allocations s' = allocations s @ new"
  shows "reserved_for k s' = reserved_for k s + sum_list (map al_amount (filter (\<lambda>a. al_withdrawalId a = k \<and> al_releasedAt a = None) new))"
  using assms by (simp add: reserved_for_def)

lemma reserved_none:
  assumes "al_withdrawalId ` set (allocations s) \<subseteq> wd_id ` set (withdrawals s)" "k \<notin> wd_id ` set (withdrawals s)"
  shows "reserved_for k s = 0"
proof -
  have "filter (\<lambda>a. al_withdrawalId a = k \<and> al_releasedAt a = None) (allocations s) = []"
    using assms by (auto simp: filter_empty_conv)
  then show ?thesis unfolding reserved_for_def by (simp only: list.map sum_list.Nil)
qed

lemma filter_reserves:
  assumes "list_all (reserves wid) new"
  shows "filter (\<lambda>a. al_withdrawalId a = k \<and> al_releasedAt a = None) new = (if k = wid then new else [])"
  using assms by (induction new) (auto simp: reserves_def)

lemma released_filter:
  "filter (\<lambda>a. P (al_withdrawalId a) (al_sourceTransactionId a) \<and> al_releasedAt a = None) (released env wid rows)
     = filter (\<lambda>a. P (al_withdrawalId a) (al_sourceTransactionId a) \<and> al_releasedAt a = None \<and> al_withdrawalId a \<noteq> wid) rows"
  unfolding released_def by (induction rows) auto

lemma requested_coverage:
  assumes wf: "withdrawals_wf s" and c: "withdrawals_covered s" and r: "requested_between to_number env rq ref p b w s s'"
  shows "withdrawals_covered s'"
proof -
  obtain new where cov: "covered_by (wd_id w) (wd_amount w) (carry_used b (wd_amount w)) (funded (wd_publisherId w) (b_allocationCutoverAt b) s) new"
    and fresh: "wd_id w \<notin> wd_id ` set (withdrawals s)" and pending: "wd_status w = ''PENDING''"
    and t: "withdrawals s' = withdrawals s @ [w]" "allocations s' = allocations s @ new"
    using r by (auto simp: requested_between_def Let_def requested_row_def)
  have res: "list_all (reserves (wd_id w)) new" "sum_list (map al_amount new) = wd_amount w"
    using cov by (simp_all add: covered_by_def)
  have "reserved_for k s' = reserved_for k s + (if k = wd_id w then wd_amount w else 0)" for k
    using reserved_append[OF t(2)] res(2) by (simp add: filter_reserves[OF res(1)])
  moreover have "wd_id x \<noteq> wd_id w" if "x \<in> set (withdrawals s)" for x using fresh that by (metis imageI)
  ultimately show ?thesis
    using c pending reserved_none[OF withdrawals_wfD(5)[OF wf] fresh] t(1)
    by (auto simp: withdrawals_covered_def)
qed

lemma requested_reserved:
  assumes wf: "withdrawals_wf s" and r: "requested_between to_number env rq ref p b w s s'"
  shows "reserved_for (wd_id w) s' = wd_amount w"
proof -
  obtain new where t: "allocations s' = allocations s @ new" "list_all (reserves (wd_id w)) new" "sum_list (map al_amount new) = wd_amount w"
    and fresh: "wd_id w \<notin> wd_id ` set (withdrawals s)"
    using r by (auto simp: requested_between_def Let_def covered_by_def)
  show ?thesis
    using reserved_append[OF t(1), of "wd_id w"] reserved_none[OF withdrawals_wfD(5)[OF wf] fresh] filter_reserves[OF t(2), of "wd_id w"] t(3)
    by simp
qed

lemma update_where_set: "x \<in> set (update_where p f rows) \<Longrightarrow> \<exists>r \<in> set rows. x = (if p r then f r else r)"
  by (auto simp: update_where_def)

lemma rejected_coverage:
  assumes c: "withdrawals_covered s" and r: "rejected_between env rejectedBy w s s'"
  shows "withdrawals_covered s'"
proof -
  have t: "withdrawals s' = update_where (\<lambda>r. wd_id r = wd_id w) (\<lambda>r. r\<lparr>wd_status := ''REJECTED'', wd_rejectedBy := Some rejectedBy,
          wd_rejectedAt := Some (env_now env), wd_version := wd_version r + 1\<rparr>) (withdrawals s)"
      "allocations s' = released env (wd_id w) (allocations s)"
    using r by (auto simp: rejected_between_def)
  have "reserved_for k s' = (if k = wd_id w then 0 else reserved_for k s)" for k
  proof -
    have "filter (\<lambda>a. al_withdrawalId a = k \<and> al_releasedAt a = None) (allocations s')
        = filter (\<lambda>a. al_withdrawalId a = k \<and> al_releasedAt a = None \<and> al_withdrawalId a \<noteq> wd_id w) (allocations s)"
      unfolding t(2) by (rule released_filter[where P = "\<lambda>a _. a = k"])
    also have "\<dots> = (if k = wd_id w then [] else filter (\<lambda>a. al_withdrawalId a = k \<and> al_releasedAt a = None) (allocations s))"
      by (auto intro: filter_cong filter_False)
    finally show ?thesis by (simp add: reserved_for_def del: filter_filter)
  qed
  then show ?thesis using c t(1) by (auto simp: withdrawals_covered_def dest!: update_where_set split: if_splits)
qed

section \<open>Solvency of the sources\<close>

definition source_frame :: "db \<Rightarrow> db \<Rightarrow> bool" where
  "source_frame s s' \<longleftrightarrow> source_ledger s' = source_ledger s \<and> settlements s' = settlements s
     \<and> compensations s' = compensations s \<and> orders s' = orders s"

lemma source_rows_ledger:
  "source_rows pid cutover s = map (source_of s) (sort_by oldest_first
     (filter (\<lambda>t. t_publisherId t = Some pid \<and> (case cutover of None \<Rightarrow> True | Some c \<Rightarrow> c \<le> t_createdAt t)) (source_ledger s)))"
  unfolding source_rows_def source_ledger_def filter_filter
  by (rule arg_cong[where f = "\<lambda>rows. map (source_of s) (sort_by oldest_first rows)"], rule filter_cong) auto

lemma source_of_frame:
  "source_frame s s' \<Longrightarrow> source_of s' t = (source_of s t)\<lparr>sv_allocated := taken_from (t_id t) s'\<rparr>"
  by (simp add: source_frame_def source_of_def find_settlement_def find_order_def Let_def split: option.splits)

lemma sv_row_source: "sv_row (source_of s t) = t"
  by (simp add: source_of_def Let_def)

definition retaken :: "db \<Rightarrow> source_view \<Rightarrow> source_view" where
  "retaken s' v = v\<lparr>sv_allocated := taken_from (t_id (sv_row v)) s'\<rparr>"

lemma source_rows_frame:
  "source_frame s s' \<Longrightarrow> source_rows pid cutover s' = map (retaken s') (source_rows pid cutover s)"
  using source_of_frame[of s s'] unfolding source_rows_ledger
  by (simp add: source_frame_def[of s s'] retaken_def sv_row_source o_def)

lemma retaken_simps [simp]:
  "sv_row (retaken s v) = sv_row v" "debt_key (retaken s v) = debt_key v" "source_key (retaken s v) = source_key v"
  by (simp_all add: retaken_def debt_key_def source_key_def settlement_key_def settlementSource_def)

lemma credit_retaken [simp]: "credit (map (retaken s) views) (retaken s' v) = credit views v"
  by (simp add: credit_def debtBySource_def filter_map o_def)

lemma solvent_frame:
  assumes f: "source_frame s s'"
    and b: "\<And>b'. b' \<in> set (balances s') \<Longrightarrow> \<exists>b \<in> set (balances s).
       b_publisherId b' = b_publisherId b \<and> b_allocationCutoverAt b' = b_allocationCutoverAt b"
    and v: "\<And>b v. b \<in> set (balances s) \<Longrightarrow> v \<in> set (source_rows (b_publisherId b) (b_allocationCutoverAt b) s) \<Longrightarrow>
       sum_list (taken_from (t_id (sv_row v)) s') \<le> credit (source_rows (b_publisherId b) (b_allocationCutoverAt b) s) v"
  shows "sources_solvent s'"
  unfolding sources_solvent_def
proof (intro ballI)
  fix b' v' assume b': "b' \<in> set (balances s')" and v': "v' \<in> set (source_rows (b_publisherId b') (b_allocationCutoverAt b') s')"
  obtain b where b: "b \<in> set (balances s)" "b_publisherId b' = b_publisherId b" "b_allocationCutoverAt b' = b_allocationCutoverAt b"
    using b[OF b'] by blast
  from v' obtain v where "v \<in> set (source_rows (b_publisherId b) (b_allocationCutoverAt b) s)" "v' = retaken s' v"
    using source_rows_frame[OF f] b by auto
  then show "sum_list (taken_from (t_id (sv_row v')) s')
      \<le> credit (source_rows (b_publisherId b') (b_allocationCutoverAt b') s') v'"
    using v[OF b(1)] b source_rows_frame[OF f] by simp
qed

lemma codes_compare_total: "codes_compare xs ys \<le> 0 \<or> codes_compare ys xs \<le> 0"
  by (induction xs ys rule: codes_compare.induct) auto

lemma codes_compare_trans: "codes_compare xs ys \<le> 0 \<Longrightarrow> codes_compare ys zs \<le> 0 \<Longrightarrow> codes_compare xs zs \<le> 0"
proof (induction xs arbitrary: ys zs)
  case (Cons x xs)
  show ?case
  proof (cases "\<exists>y ys' z zs'. ys = y # ys' \<and> zs = z # zs'")
    case True
    then obtain y ys' z zs' where e: "ys = y # ys'" "zs = z # zs'" by blast
    consider "x < z" | "x = y" "y = z" using Cons.prems e by (auto split: if_splits)
    then show ?thesis
    proof cases
      case 2
      then have "codes_compare xs ys' \<le> 0" "codes_compare ys' zs' \<le> 0" using Cons.prems e by simp_all
      from Cons.IH[OF this] show ?thesis using 2 e by simp
    qed (simp add: e)
  next
    case False
    then show ?thesis using Cons.prems by (cases ys; cases zs) simp_all
  qed
next
  case Nil
  then show ?case by (cases zs) simp_all
qed

text \<open>The order of the sources is one \<open>sort\<close> can rely on.\<close>

lemma oldest_first_total: "oldest_first x y \<le> 0 \<or> oldest_first y x \<le> 0"
  using codes_compare_total[of "map char_code (t_id x)" "map char_code (t_id y)"]
  by (simp add: oldest_first_def text_compare_def)

lemma oldest_first_le: "oldest_first x y \<le> 0 \<longleftrightarrow>
    t_createdAt x < t_createdAt y \<or> t_createdAt x = t_createdAt y \<and> text_compare (t_id x) (t_id y) \<le> 0"
  by (simp add: oldest_first_def)

lemma oldest_first_trans:
  assumes "oldest_first x y \<le> 0" "oldest_first y z \<le> 0"
  shows "oldest_first x z \<le> 0"
proof -
  have "text_compare (t_id x) (t_id y) \<le> 0 \<Longrightarrow> text_compare (t_id y) (t_id z) \<le> 0 \<Longrightarrow> text_compare (t_id x) (t_id z) \<le> 0"
    unfolding text_compare_def by (rule codes_compare_trans)
  then show ?thesis using assms unfolding oldest_first_le by linarith
qed

interpretation oldest: comparator oldest_first
  by unfold_locales (rule oldest_first_total, rule oldest_first_trans)

lemma set_sort_by: "set (sort_by oldest_first xs) = set xs"
  by (metis oldest.mset_sort_by set_mset_mset)

lemma balance_kept:
  assumes "balances s' = update_where q f (balances s)" "b' \<in> set (balances s')"
    and "\<And>x. b_publisherId (f x) = b_publisherId x \<and> b_allocationCutoverAt (f x) = b_allocationCutoverAt x"
  shows "\<exists>b \<in> set (balances s). b_publisherId b' = b_publisherId b \<and> b_allocationCutoverAt b' = b_allocationCutoverAt b"
proof -
  obtain r where r: "r \<in> set (balances s)" "b' = (if q r then f r else r)"
    using assms(2) unfolding assms(1) by (blast dest: update_where_set)
  show ?thesis by (rule bexI[OF _ r(1)]) (use r(2) assms(3) in auto)
qed

lemma source_row: "v \<in> set (source_rows pid cutover s) \<Longrightarrow>
    \<exists>t \<in> set (source_ledger s). v = source_of s t \<and> sv_row v = t \<and> t_publisherId t = Some pid \<and> sv_allocated v = taken_from (t_id t) s"
  by (auto simp: source_rows_ledger source_of_def Let_def set_sort_by)

lemma sum_at_most_one:
  fixes f :: "'a \<Rightarrow> int"
  assumes "length (filter p rows) \<le> 1" "\<And>x. x \<in> set rows \<Longrightarrow> p x \<Longrightarrow> f x \<le> c" "0 \<le> c"
  shows "sum_list (map f (filter p rows)) \<le> c"
  using assms by (cases "filter p rows") (auto simp: filter_eq_Cons_iff)

lemma requested_solvent:
  assumes wf: "withdrawals_wf s" and c: "sources_solvent s" and b: "requestable env rq p b s"
    and r: "requested_between to_number env rq ref p b w s s'"
  shows "sources_solvent s'"
proof -
  let ?pid = "wd_publisherId w" let ?cut = "b_allocationCutoverAt b" let ?views = "source_rows ?pid ?cut s"
  obtain new where cov: "covered_by (wd_id w) (wd_amount w) (carry_used b (wd_amount w)) (funded ?pid ?cut s) new"
    and pid: "?pid = rq_publisherId rq"
    and t: "transactions s' = transactions s @ [withdrawal_ledger_row env (id_supply s + 1 + length new) w]"
      "settlements s' = settlements s" "compensations s' = compensations s" "orders s' = orders s" "allocations s' = allocations s @ new"
      "balances s' = update_where (\<lambda>r. b_publisherId r = ?pid) (\<lambda>r. r\<lparr>b_withdrawableBalance := b_withdrawableBalance r - wd_amount w,
                      b_allocationCarryForwardUsed := b_allocationCarryForwardUsed r + carry_used b (wd_amount w),
                      b_version := b_version r + 1\<rparr>) (balances s)"
    using r by (auto simp: requested_between_def Let_def requested_row_def)
  have bin: "b \<in> set (balances s)" "b_publisherId b = ?pid"
    using b found_balance pid by (auto simp: requestable_def)
  have f: "source_frame s s'"
    using t by (simp add: source_frame_def source_ledger_def withdrawal_ledger_row_def SOURCE_TYPES_def)
  have free: "list_all (\<lambda>a. al_releasedAt a = None) new" and one: "\<And>i. length (filter (\<lambda>a. al_sourceTransactionId a = Some i) new) \<le> 1"
    and fund: "list_all (funded ?pid ?cut s) new"
    using cov by (auto simp: covered_by_def list_all_iff reserves_def)
  have taken: "sum_list (taken_from i s') = sum_list (taken_from i s)
      + sum_list (map al_amount (filter (\<lambda>a. al_sourceTransactionId a = Some i) new))" for i
  proof -
    have "filter (\<lambda>a. al_sourceTransactionId a = Some i \<and> al_releasedAt a = None) new = filter (\<lambda>a. al_sourceTransactionId a = Some i) new"
      using free by (auto simp: list_all_iff intro: filter_cong)
    then show ?thesis by (simp add: taken_from_def t)
  qed
  show ?thesis
  proof (rule solvent_frame[OF f])
    fix b' v assume b': "b' \<in> set (balances s)" and v: "v \<in> set (source_rows (b_publisherId b') (b_allocationCutoverAt b') s)"
    let ?c = "credit (source_rows (b_publisherId b') (b_allocationCutoverAt b') s) v" let ?i = "t_id (sv_row v)"
    have old: "sum_list (taken_from ?i s) \<le> ?c" using c b' v by (simp add: sources_solvent_def)
    have "al_amount a \<le> ?c - sum_list (taken_from ?i s)" if a: "a \<in> set new" "al_sourceTransactionId a = Some ?i" for a
    proof -
      obtain v2 where v2: "v2 \<in> set ?views" "takes_from ?views v2 a"
        using fund a by (auto simp: list_all_iff funded_def)
      obtain t1 t2 where ts: "t1 \<in> set (source_ledger s)" "v = source_of s t1" "sv_row v = t1" "t_publisherId t1 = Some (b_publisherId b')"
          "t2 \<in> set (source_ledger s)" "v2 = source_of s t2" "sv_row v2 = t2" "t_publisherId t2 = Some ?pid"
          "sv_allocated v2 = taken_from (t_id t2) s"
        using source_row[OF v] source_row[OF v2(1)] by blast
      have "t_id t1 = t_id t2" using v2(2) a(2) ts by (simp add: takes_from_def)
      then have "t1 = t2" using distinct_key_eq[OF withdrawals_wfD(4)[OF wf]] ts by blast
      then have "v = v2" "b_publisherId b' = ?pid" using ts by simp_all
      moreover from this have "b' = b" using distinct_key_eq[OF withdrawals_wfD(7)[OF wf]] b' bin by metis
      ultimately show ?thesis
        using v2(2) ts bin(2) by (simp add: takes_from_def sourceAvailable_def credit_def)
    qed
    then have "sum_list (map al_amount (filter (\<lambda>a. al_sourceTransactionId a = Some ?i) new)) \<le> ?c - sum_list (taken_from ?i s)"
      using one old by (intro sum_at_most_one) auto
    then show "sum_list (taken_from ?i s') \<le> ?c" by (simp add: taken)
  qed (rule balance_kept[OF t(6)]; simp)
qed

lemma released_taken:
  assumes "allocations s' = released env wid (allocations s)" "list_all (reserves wid) (active_allocations wid s)"
  shows "sum_list (taken_from i s') \<le> sum_list (taken_from i s)"
proof -
  have "taken_from i s' = map al_amount (filter (\<lambda>a. al_sourceTransactionId a = Some i \<and> al_releasedAt a = None \<and> al_withdrawalId a \<noteq> wid) (allocations s))"
    unfolding taken_from_def assms(1) using released_filter[where P = "\<lambda>_ x. x = Some i"] by (simp del: filter_filter)
  moreover have "sum_list (map al_amount (filter (\<lambda>a. al_sourceTransactionId a = Some i \<and> al_releasedAt a = None \<and> al_withdrawalId a \<noteq> wid) rows))
      \<le> sum_list (map al_amount (filter (\<lambda>a. al_sourceTransactionId a = Some i \<and> al_releasedAt a = None) rows))"
    if "list_all (reserves wid) (filter (\<lambda>a. al_withdrawalId a = wid \<and> al_releasedAt a = None) rows)" for rows
    using that by (induction rows) (auto simp: reserves_def split: if_splits)
  ultimately show ?thesis using assms(2) by (simp add: taken_from_def active_allocations_def)
qed

lemma rejected_solvent:
  assumes c: "sources_solvent s" and r: "rejected_between env rejectedBy w s s'"
    and a: "list_all (reserves (wd_id w)) (active_allocations (wd_id w) s)"
  shows "sources_solvent s'"
proof (rule solvent_frame[of s])
  show "source_frame s s'"
    using r by (auto simp: rejected_between_def source_frame_def source_ledger_def reversal_row_def SOURCE_TYPES_def)
  show "\<exists>b \<in> set (balances s). b_publisherId b' = b_publisherId b \<and> b_allocationCutoverAt b' = b_allocationCutoverAt b"
    if "b' \<in> set (balances s')" for b'
  proof -
    have "balances s' = update_where (\<lambda>r. b_publisherId r = wd_publisherId w)
         (\<lambda>r. r\<lparr>b_withdrawableBalance := b_withdrawableBalance r + wd_amount w,
              b_allocationCarryForwardUsed := b_allocationCarryForwardUsed r - carried (active_allocations (wd_id w) s),
              b_version := b_version r + 1\<rparr>) (balances s)"
      using r by (auto simp: rejected_between_def)
    then show ?thesis by (rule balance_kept[OF _ that]) simp
  qed
  fix b v assume "b \<in> set (balances s)" "v \<in> set (source_rows (b_publisherId b) (b_allocationCutoverAt b) s)"
  moreover have "sum_list (taken_from (t_id (sv_row v)) s') \<le> sum_list (taken_from (t_id (sv_row v)) s)"
    by (rule released_taken[OF _ a]) (use r in \<open>auto simp: rejected_between_def\<close>)
  ultimately show "sum_list (taken_from (t_id (sv_row v)) s')
      \<le> credit (source_rows (b_publisherId b) (b_allocationCutoverAt b) s) v"
    using c unfolding sources_solvent_def by (meson order_trans)
qed

section \<open>What every step keeps\<close>

definition withdrawals_sound :: "db \<Rightarrow> bool" where
  "withdrawals_sound s \<longleftrightarrow> withdrawals_wf s \<and> withdrawals_covered s \<and> sources_solvent s"

lemma released_ids [simp]:
  "map al_id (released env wid rows) = map al_id rows" "map al_withdrawalId (released env wid rows) = map al_withdrawalId rows"
  by (simp_all add: released_def map_update_where)

lemma requested_wf:
  assumes wf: "withdrawals_wf s" and r: "requested_between to_number env rq ref p b w s s'"
  shows "withdrawals_wf s'"
proof -
  obtain new logs out where e: "s' = s\<lparr>withdrawals := withdrawals s @ [w], allocations := allocations s @ new,
             balances := update_where (\<lambda>r. b_publisherId r = wd_publisherId w)
               (\<lambda>r. r\<lparr>b_withdrawableBalance := b_withdrawableBalance r - wd_amount w,
                      b_allocationCarryForwardUsed := b_allocationCarryForwardUsed r + carry_used b (wd_amount w),
                      b_version := b_version r + 1\<rparr>) (balances s),
             transactions := transactions s @ [withdrawal_ledger_row env (id_supply s + 1 + length new) w],
             id_supply := id_supply s + 2 + length new, audit_logs := logs, outbox := out\<rparr>"
    and ids: "distinct (map al_id (allocations s @ new))" and fresh: "wd_id w \<notin> wd_id ` set (withdrawals s)"
    and res: "list_all (reserves (wd_id w)) new"
    using r withdrawals_wfD(3)[OF wf] by (auto simp: requested_between_def Let_def covered_by_def)
  have l: "source_ledger s' = source_ledger s"
    by (simp add: e source_ledger_def withdrawal_ledger_row_def SOURCE_TYPES_def)
  have "al_withdrawalId ` set (allocations s') \<subseteq> wd_id ` set (withdrawals s')"
    using withdrawals_wfD(5)[OF wf] res by (auto simp: e list_all_iff reserves_def)
  then show ?thesis
    using wf ids fresh l by (simp add: withdrawals_wf_def payout_wf_def db_wf_def e map_update_where)
qed

lemma rejected_wf:
  assumes wf: "withdrawals_wf s" and r: "rejected_between env rejectedBy w s s'"
  shows "withdrawals_wf s'"
proof -
  have l: "source_ledger s' = source_ledger s"
    using r by (auto simp: rejected_between_def source_ledger_def reversal_row_def SOURCE_TYPES_def)
  have m: "map al_id (allocations s') = map al_id (allocations s)" "map al_withdrawalId (allocations s') = map al_withdrawalId (allocations s)"
    "map wd_id (withdrawals s') = map wd_id (withdrawals s)" "map b_publisherId (balances s') = map b_publisherId (balances s)"
    "orders s' = orders s" "wallets s' = wallets s" "settlements s' = settlements s" "executions s' = executions s"
    "payout_events s' = payout_events s"
    using r by (auto simp: rejected_between_def map_update_where)
  have "al_withdrawalId ` set (allocations s') \<subseteq> wd_id ` set (withdrawals s')"
    using withdrawals_wfD(5)[OF wf] m(2,3) by (metis set_map)
  then show ?thesis using wf l m by (simp add: withdrawals_wf_def payout_wf_def db_wf_def)
qed

text \<open>An approval or a message leaves the allocations, the balances and the amounts alone.\<close>

lemma kept_sound:
  assumes s: "withdrawals_sound s" and wf: "payout_wf s'" "db_wf s'"
    and t: "allocations s' = allocations s" "transactions s' = transactions s" "settlements s' = settlements s"
      "compensations s' = compensations s" "orders s' = orders s"
    and w: "\<And>x'. x' \<in> set (withdrawals s') \<Longrightarrow> \<exists>x \<in> set (withdrawals s). wd_id x' = wd_id x \<and> wd_amount x' = wd_amount x
       \<and> (wd_status x' = ''REJECTED'') = (wd_status x = ''REJECTED'')"
    and ids: "wd_id ` set (withdrawals s') = wd_id ` set (withdrawals s)"
    and b: "\<And>b'. b' \<in> set (balances s') \<Longrightarrow> \<exists>b \<in> set (balances s).
       b_publisherId b' = b_publisherId b \<and> b_allocationCutoverAt b' = b_allocationCutoverAt b"
  shows "withdrawals_sound s'"
proof -
  have "withdrawals_wf s'" using s wf t ids by (simp add: withdrawals_sound_def withdrawals_wf_def source_ledger_def)
  moreover have "reserved_for k s' = reserved_for k s" "taken_from k s' = taken_from k s" for k
    using t by (simp_all add: reserved_for_def taken_from_def)
  moreover from this have "withdrawals_covered s'"
    using s w unfolding withdrawals_covered_def withdrawals_sound_def by metis
  moreover have "sources_solvent s'"
  proof (rule solvent_frame[of s])
    show "source_frame s s'" using t by (simp add: source_frame_def source_ledger_def)
  qed (use s b calculation in \<open>auto simp: withdrawals_sound_def sources_solvent_def\<close>)
  ultimately show ?thesis by (simp add: withdrawals_sound_def)
qed

lemma payout_tables:
  "payout_frame s s' \<Longrightarrow> orders s' = orders s \<and> wallets s' = wallets s \<and> transactions s' = transactions s
     \<and> settlements s' = settlements s \<and> allocations s' = allocations s \<and> compensations s' = compensations s"
  unfolding payout_frame_def by (cases s; cases s') simp

lemma find_withdrawal_in: "payout_wf s \<Longrightarrow> x \<in> set (withdrawals s) \<Longrightarrow> find_withdrawal (wd_id x) s = Some x"
  unfolding find_withdrawal_def by (rule find_distinct) (simp_all add: payout_wf_def)

lemma withdrawal_ids: "k \<in> wd_id ` set (withdrawals s) \<longleftrightarrow> find_withdrawal k s \<noteq> None"
  by (auto simp: find_withdrawal_def find_None_iff2 find_none)

lemma payout_sound:
  assumes s: "withdrawals_sound s" and run: "finalizeInTransaction env i s = Inr (x, s')"
  shows "withdrawals_sound s'"
proof -
  have wf: "payout_wf s" "db_wf s" using s by (simp_all add: withdrawals_sound_def withdrawals_wf_def)
  have K: "payout_wf s'" "payout_done i s s' \<or> payout_aside s s'" using finalize_keeps[OF wf(1) run] by blast+
  then have t: "payout_frame s s'" by (auto simp: payout_done_def payout_aside_def payout_frame_def)
  note T = payout_tables[OF t]
  have d: "db_wf s'" using wf T K(1) by (simp add: db_wf_def payout_wf_def)
  show ?thesis using K(2)
  proof
    assume "payout_aside s s'"
    then have "withdrawals s' = withdrawals s" "balances s' = balances s" by (auto simp: payout_aside_def)
    with kept_sound[OF s K(1) d] T show ?thesis by auto
  next
    assume "payout_done i s s'"
    then obtain w b where w: "find_withdrawal (pi_withdrawalId i) s = Some w" "wd_status w \<in> {''PROCESSING'', ''FAILED''}"
        "\<And>k. find_withdrawal k s' = (if k = pi_withdrawalId i
          then Some (w\<lparr>wd_status := ''COMPLETED'', wd_version := wd_version w + 1\<rparr>) else find_withdrawal k s)"
      and b: "find_paid_balance (wd_publisherId w) s = Some b"
        "\<And>p. find_paid_balance p s' = (if p = wd_publisherId w
          then Some (b\<lparr>b_lifetimePaid := b_lifetimePaid b + wd_amount w, b_version := b_version b + 1\<rparr>)
          else find_paid_balance p s)"
      unfolding payout_done_def by blast
    show ?thesis
    proof (rule kept_sound[OF s K(1) d])
      fix x' assume "x' \<in> set (withdrawals s')"
      then have f: "find_withdrawal (wd_id x') s' = Some x'" by (rule find_withdrawal_in[OF K(1)])
      show "\<exists>x \<in> set (withdrawals s). wd_id x' = wd_id x \<and> wd_amount x' = wd_amount x
          \<and> (wd_status x' = ''REJECTED'') = (wd_status x = ''REJECTED'')"
      proof (cases "wd_id x' = pi_withdrawalId i")
        case True
        then show ?thesis
          using f w(2) w(3)[of "wd_id x'"] found_withdrawal[OF w(1)] by (intro bexI[of _ w]) auto
      next
        case False
        then show ?thesis using f w(3)[of "wd_id x'"] found_withdrawal[of "wd_id x'" s x'] by auto
      qed
    next
      have "find_withdrawal k s' \<noteq> None \<longleftrightarrow> find_withdrawal k s \<noteq> None" for k using w by simp
      then show "wd_id ` set (withdrawals s') = wd_id ` set (withdrawals s)" by (simp add: set_eq_iff withdrawal_ids)
    next
      fix b' assume "b' \<in> set (balances s')"
      then have f: "find_paid_balance (b_publisherId b') s' = Some b'"
        unfolding find_paid_balance_def using K(1) by (intro find_distinct) (simp_all add: payout_wf_def)
      show "\<exists>b \<in> set (balances s). b_publisherId b' = b_publisherId b \<and> b_allocationCutoverAt b' = b_allocationCutoverAt b"
      proof (cases "b_publisherId b' = wd_publisherId w")
        case True
        then show ?thesis
          using f b(2)[of "b_publisherId b'"] find_key[OF b(1)[unfolded find_paid_balance_def]] by (intro bexI[of _ b]) auto
      next
        case False
        then have "find (\<lambda>x. b_publisherId x = b_publisherId b') (balances s) = Some b'"
          using f b(2)[of "b_publisherId b'"] by (simp add: find_paid_balance_def)
        from find_key[OF this] show ?thesis by blast
      qed
    qed (use T in simp_all)
  qed
qed

lemma reported_tables:
  "reported s s' \<Longrightarrow> orders s' = orders s \<and> wallets s' = wallets s \<and> transactions s' = transactions s
     \<and> settlements s' = settlements s \<and> allocations s' = allocations s \<and> compensations s' = compensations s
     \<and> withdrawals s' = withdrawals s \<and> balances s' = balances s \<and> executions s' = executions s
     \<and> payout_events s' = payout_events s"
  unfolding reported_def by (cases s; cases s') simp

lemma reported_sound:
  assumes "reported s s'" "withdrawals_sound s"
  shows "withdrawals_sound s'"
  using reported_tables[OF assms(1)] assms(2)
  by (intro kept_sound[OF assms(2)]) (auto simp: withdrawals_sound_def withdrawals_wf_def payout_wf_def db_wf_def)

lemma withdrawal_step_sound: "withdrawal_step s s' \<Longrightarrow> withdrawals_sound s \<Longrightarrow> withdrawals_sound s'"
proof (induction rule: withdrawal_step.induct)
  case (request rq s u to_number env comms ref w s')
  have a: "0 < requested_amount rq" using validRequest_positive[OF request(1)] by simp
  have wf: "withdrawals_wf s" using request.prems by (simp add: withdrawals_sound_def)
  from requestWithdrawalTx_Inr[OF withdrawals_wfD(2)[OF wf] a request(2)] show ?case
  proof
    assume "find_request rq s = None \<and> (\<exists>p b. requestable env rq p b s \<and> requested_between to_number env rq ref p b w s s')"
    then obtain p b where r: "requestable env rq p b s" "requested_between to_number env rq ref p b w s s'" by blast
    show ?thesis
      using requested_wf[OF wf r(2)] requested_coverage[OF wf _ r(2)] requested_solvent[OF wf _ r] request.prems
      by (simp add: withdrawals_sound_def)
  qed (use request.prems in simp)
next
  case (approve env comms wid approvedBy s oc s')
  have wf: "payout_wf s" "db_wf s" using approve.prems by (simp_all add: withdrawals_sound_def withdrawals_wf_def)
  obtain w where w: "find_withdrawal wid s = Some w" and c: "case oc of
       Blocked reason \<Rightarrow> approval_block env approvedBy w s = Some reason \<and> reported s s'
     | Approved u i \<Rightarrow> approval_block env approvedBy w s = None \<and> withdrawal_approved env approvedBy wid s s'
         \<and> find_withdrawal wid s' = Some u"
    using approveWithdrawalTx_Inr[OF wf(1) approve(1)] by blast
  show ?case
  proof (cases oc)
    case (Approved u i)
    then have n: "approval_block env approvedBy w s = None" and a: "withdrawal_approved env approvedBy wid s s'"
      using c by simp_all
    note p = approval_block_pending[OF n]
    have un: "x = w" if "x \<in> set (withdrawals s)" "wd_id x = wid" for x
      using find_withdrawal_in[OF wf(1) that(1)] w that(2) by simp
    have i: "map wd_id (withdrawals s') = map wd_id (withdrawals s)"
      using a by (auto simp: withdrawal_approved_def map_update_where)
    show ?thesis
    proof (rule kept_sound[OF approve.prems])
      show "payout_wf s'" "db_wf s'"
        using wf i a by (auto simp: payout_wf_def db_wf_def withdrawal_approved_def)
      show "wd_id ` set (withdrawals s') = wd_id ` set (withdrawals s)" using i by (metis set_map)
      show "\<exists>x \<in> set (withdrawals s). wd_id x' = wd_id x \<and> wd_amount x' = wd_amount x
          \<and> (wd_status x' = ''REJECTED'') = (wd_status x = ''REJECTED'')" if "x' \<in> set (withdrawals s')" for x'
      proof -
        let ?f = "\<lambda>r. r\<lparr>wd_status := ''APPROVED'', wd_approvedBy := Some approvedBy,
            wd_approvedAt := Some (env_now env), wd_version := wd_version r + 1\<rparr>"
        have e: "withdrawals s' = update_where (\<lambda>r. wd_id r = wid) ?f (withdrawals s)"
          using a by (auto simp: withdrawal_approved_def)
        from that obtain x where x: "x \<in> set (withdrawals s)" "x' = (if wd_id x = wid then ?f x else x)"
          unfolding e by (blast dest: update_where_set)
        show ?thesis by (rule bexI[OF _ x(1)]) (use x p un[OF x(1)] in auto)
      qed
    qed (use a in \<open>auto simp: withdrawal_approved_def\<close>)
  next
    case (Blocked reason)
    then have "reported s s'" using c by simp
    then show ?thesis using approve.prems by (rule reported_sound)
  qed
next
  case (reject env comms wid rejectedBy reason expected s r s')
  have wf: "withdrawals_wf s" using reject.prems by (simp add: withdrawals_sound_def)
  from rejectOrAbandonTx_Inr[OF withdrawals_wfD(1,3)[OF wf] reject(1)] obtain w b where
      "wd_id w = wid" "rejected_between env rejectedBy w s s'" "list_all (reserves wid) (active_allocations wid s)" by blast
  then show ?case
    using rejected_wf[OF wf] rejected_coverage rejected_solvent reject.prems unfolding withdrawals_sound_def by blast
next
  case (payout env pin s poc s')
  then show ?case using payout_sound by blast
qed

section \<open>Balances before and after\<close>

definition carry_used_of :: "string \<Rightarrow> db \<Rightarrow> int" where
  "carry_used_of k s = (case find_balance k s of None \<Rightarrow> 0 | Some b \<Rightarrow> b_allocationCarryForwardUsed b)"

lemma balance_moved:
  assumes "find_balance pid s = Some b" "balances s' = update_where (\<lambda>r. b_publisherId r = pid) f (balances s)"
    and "\<And>r. b_publisherId (f r) = b_publisherId r"
  shows "find_balance k s' = (if k = pid then Some (f b) else find_balance k s)"
  using find_one[where key = b_publisherId and f = f] assms by (simp add: find_balance_def)

lemma rejected_balances:
  assumes "rejected_between env rejectedBy w s s'" "find_balance (wd_publisherId w) s = Some b"
  shows "withdrawable_of k s' = withdrawable_of k s + (if k = wd_publisherId w then wd_amount w else 0)"
    "carry_used_of k s' = carry_used_of k s - (if k = wd_publisherId w then carried (active_allocations (wd_id w) s) else 0)"
proof -
  let ?f = "\<lambda>r. r\<lparr>b_withdrawableBalance := b_withdrawableBalance r + wd_amount w,
              b_allocationCarryForwardUsed := b_allocationCarryForwardUsed r - carried (active_allocations (wd_id w) s),
              b_version := b_version r + 1\<rparr>"
  have "balances s' = update_where (\<lambda>r. b_publisherId r = wd_publisherId w) ?f (balances s)"
    using assms(1) by (auto simp: rejected_between_def)
  from balance_moved[OF assms(2) this] assms(2)
  show "withdrawable_of k s' = withdrawable_of k s + (if k = wd_publisherId w then wd_amount w else 0)"
    "carry_used_of k s' = carry_used_of k s - (if k = wd_publisherId w then carried (active_allocations (wd_id w) s) else 0)"
    by (simp_all add: withdrawable_of_def carry_used_of_def)
qed

lemma requested_balances:
  assumes "requested_between to_number env rq ref p b w s s'" "find_balance (wd_publisherId w) s = Some b"
  shows "withdrawable_of k s' = withdrawable_of k s - (if k = wd_publisherId w then wd_amount w else 0)"
    "carry_used_of k s' = carry_used_of k s + (if k = wd_publisherId w then carry_used b (wd_amount w) else 0)"
    "\<exists>b'. find_balance (wd_publisherId w) s' = Some b'"
proof -
  let ?f = "\<lambda>r. r\<lparr>b_withdrawableBalance := b_withdrawableBalance r - wd_amount w,
                      b_allocationCarryForwardUsed := b_allocationCarryForwardUsed r + carry_used b (wd_amount w),
                      b_version := b_version r + 1\<rparr>"
  have "balances s' = update_where (\<lambda>r. b_publisherId r = wd_publisherId w) ?f (balances s)"
    using assms(1) by (auto simp: requested_between_def Let_def)
  from balance_moved[OF assms(2) this] assms(2)
  show "withdrawable_of k s' = withdrawable_of k s - (if k = wd_publisherId w then wd_amount w else 0)"
    "carry_used_of k s' = carry_used_of k s + (if k = wd_publisherId w then carry_used b (wd_amount w) else 0)"
    "\<exists>b'. find_balance (wd_publisherId w) s' = Some b'"
    by (simp_all add: withdrawable_of_def carry_used_of_def)
qed

lemma requested_row_simps [simp]:
  "wd_publisherId (requested_row to_number env rq ref p i) = rq_publisherId rq"
  "wd_amount (requested_row to_number env rq ref p i) = requested_amount rq"
  "wd_id (requested_row to_number env rq ref p i) = i"
  "wd_status (requested_row to_number env rq ref p i) = ''PENDING''"
  "wd_idempotencyKey (requested_row to_number env rq ref p i) = Some (rq_idempotencyKey rq)"
  by (simp_all add: requested_row_def)

lemma requested_row_eq:
  "requested_between to_number env rq ref p b w s s' \<Longrightarrow> w = requested_row to_number env rq ref p (env_cuid env (id_supply s))"
  by (simp add: requested_between_def Let_def)

lemma requestable_balance: "requestable env rq p b s \<Longrightarrow> find_balance (rq_publisherId rq) s = Some b
    \<and> requested_amount rq \<le> b_withdrawableBalance b"
  by (simp add: requestable_def)

text \<open>A rejection right after its request: what is taken from the sources and from the balance is as before.\<close>

lemma request_then_reject:
  assumes wf: "withdrawals_wf s" and b: "find_balance (rq_publisherId rq) s = Some b"
    and r: "requested_between to_number env rq ref p b w s s1" and j: "rejected_between env' rejectedBy w s1 s2"
  shows "withdrawable_of k s2 = withdrawable_of k s" "carry_used_of k s2 = carry_used_of k s"
    "taken_from i s2 = taken_from i s" "reserved_for x s2 = reserved_for x s"
    "sum_list (map t_amount (transactions s2)) = sum_list (map t_amount (transactions s))"
proof -
  have w: "w = requested_row to_number env rq ref p (env_cuid env (id_supply s))" by (rule requested_row_eq[OF r])
  have bw: "find_balance (wd_publisherId w) s = Some b" using b w by simp
  obtain new logs out where e: "s1 = s\<lparr>withdrawals := withdrawals s @ [w], allocations := allocations s @ new,
             balances := update_where (\<lambda>r. b_publisherId r = wd_publisherId w)
               (\<lambda>r. r\<lparr>b_withdrawableBalance := b_withdrawableBalance r - wd_amount w,
                      b_allocationCarryForwardUsed := b_allocationCarryForwardUsed r + carry_used b (wd_amount w),
                      b_version := b_version r + 1\<rparr>) (balances s),
             transactions := transactions s @ [withdrawal_ledger_row env (id_supply s + 1 + length new) w],
             id_supply := id_supply s + 2 + length new, audit_logs := logs, outbox := out\<rparr>"
    and res: "list_all (reserves (wd_id w)) new" and c: "carried new = carry_used b (wd_amount w)"
    and fresh: "wd_id w \<notin> wd_id ` set (withdrawals s)"
    using r by (auto simp: requested_between_def Let_def covered_by_def)
  have old: "al_withdrawalId a \<noteq> wd_id w" if "a \<in> set (allocations s)" for a
  proof -
    have "al_withdrawalId a \<in> wd_id ` set (withdrawals s)" using withdrawals_wfD(5)[OF wf] that by auto
    then show ?thesis using fresh by metis
  qed
  have own: "al_withdrawalId a = wd_id w" if "a \<in> set new" for a
    using res that by (auto simp: list_all_iff reserves_def)
  have "filter (\<lambda>a. al_withdrawalId a = wd_id w \<and> al_releasedAt a = None) (allocations s) = []"
    using old by (auto simp: filter_empty_conv)
  then have a: "active_allocations (wd_id w) s1 = new"
    using filter_reserves[OF res, of "wd_id w"] by (simp add: active_allocations_def e)
  have "filter (\<lambda>a. P (al_withdrawalId a) (al_sourceTransactionId a) \<and> al_releasedAt a = None) (allocations s2)
      = filter (\<lambda>a. P (al_withdrawalId a) (al_sourceTransactionId a) \<and> al_releasedAt a = None) (allocations s)" for P
  proof -
    have "allocations s2 = released env' (wd_id w) (allocations s @ new)"
      using j e by (auto simp: rejected_between_def)
    then have "filter (\<lambda>a. P (al_withdrawalId a) (al_sourceTransactionId a) \<and> al_releasedAt a = None) (allocations s2)
        = filter (\<lambda>a. P (al_withdrawalId a) (al_sourceTransactionId a) \<and> al_releasedAt a = None
            \<and> al_withdrawalId a \<noteq> wd_id w) (allocations s @ new)" by (simp only: released_filter)
    also have "\<dots> = filter (\<lambda>a. P (al_withdrawalId a) (al_sourceTransactionId a) \<and> al_releasedAt a = None) (allocations s)"
      using old own by (auto intro: filter_cong simp: filter_empty_conv)
    finally show ?thesis .
  qed
  note F = this
  show "taken_from i s2 = taken_from i s" unfolding taken_from_def using F[of "\<lambda>_ y. y = Some i"] by metis
  show "reserved_for x s2 = reserved_for x s" unfolding reserved_for_def using F[of "\<lambda>y _. y = x"] by metis
  obtain b1 where b1: "find_balance (wd_publisherId w) s1 = Some b1" using requested_balances(3)[OF r bw] by blast
  show "withdrawable_of k s2 = withdrawable_of k s" "carry_used_of k s2 = carry_used_of k s"
    using rejected_balances[OF j b1, of k] requested_balances(1,2)[OF r bw, of k] a c by simp_all
  have "transactions s2 = transactions s1 @ [reversal_row env' (id_supply s1) w]"
    using j by (auto simp: rejected_between_def)
  then show "sum_list (map t_amount (transactions s2)) = sum_list (map t_amount (transactions s))"
    by (simp add: e reversal_row_def withdrawal_ledger_row_def)
qed


section \<open>An example\<close>

text \<open>A publisher with 2 USD out of one released settlement asks for one of them by bank transfer.\<close>

definition payout_env :: env where
  "payout_env = example_env\<lparr>env_process := (\<lambda>k. if k = ''NODE_ENV'' then Some ''test''
     else if k = ''FINANCE_RUNTIME_MODE'' then Some ''NORMAL'' else None)\<rparr>"

definition payable_db :: db where
  "payable_db = empty_db\<lparr>publishers := [\<lparr>p_id = ''p1'', p_tier = ''TRUSTED'', p_organizationId = ''g2''\<rparr>],
     publisher_members := [\<lparr>mb_userId = ''u2'', mb_groupId = ''p1'', mb_role = ''PUBLISHER_OWNER'', mb_status = ''ACTIVE'',
       mb_banned = False, mb_userType = ''PUBLISHER''\<rparr>],
     payout_methods := [\<lparr>m_id = ''m1'', m_publisherId = ''p1'', m_type = ''bank_transfer'', m_isActive = True,
       m_providerAccountId = None\<rparr>],
     staff := [\<lparr>st_userId = ''f1'', st_role = ''FINANCE'', st_banned = False, st_userType = ''STAFF''\<rparr>],
     balances := [example_balance\<lparr>b_debtBalance := 0\<rparr>], settlements := [example_settlement\<lparr>s_status := ''RELEASED''\<rparr>],
     transactions := [new_transaction\<lparr>t_id := ''x1'', t_type := ''SETTLEMENT_RELEASE'', t_amount := 200 * CENT,
       t_currency := ''USD'', t_publisherId := Some ''p1'', t_settlementId := Some ''t1''\<rparr>]\<rparr>"

definition example_request :: withdrawal_request where
  "example_request = \<lparr>rq_publisherId = ''p1'', rq_amount = Some (100 * CENT), rq_method = ''bank_transfer'', rq_userId = ''u2'',
     rq_idempotencyKey = ''k1'', rq_payoutMethodId = ''m1''\<rparr>"

definition no_reading :: "string \<Rightarrow> rat option" where
  "no_reading t = None"

definition example_requested :: "withdrawal_row \<times> db" where
  "example_requested = projr (requestWithdrawalTx no_reading payout_env True example_request ''WD-1'' payable_db)"

definition example_approved :: "approval_outcome \<times> db" where
  "example_approved = projr (approveWithdrawalTx (payout_env\<lparr>env_now := 9000000000\<rparr>) True (wd_id (fst example_requested)) ''f1'' (snd example_requested))"

definition example_rejected :: "(withdrawal_row \<times> string option) \<times> db" where
  "example_rejected = projr (rejectOrAbandonTx payout_env True (wd_id (fst example_requested)) ''f1'' ''wrong bank details'' ''PENDING'' (snd example_requested))"

lemma example_requested_run:
  "case requestWithdrawalTx no_reading payout_env True example_request ''WD-1'' payable_db of
     Inl e \<Rightarrow> False | Inr (w, s) \<Rightarrow> wd_amount w = 100 * CENT
     \<and> (case approveWithdrawalTx (payout_env\<lparr>env_now := 9000000000\<rparr>) True (wd_id w) ''f1'' s of
          Inl e \<Rightarrow> False | Inr (r, t) \<Rightarrow> (case r of Approved u i \<Rightarrow> wd_status u = ''APPROVED'' | Blocked m \<Rightarrow> False))
     \<and> (case rejectOrAbandonTx payout_env True (wd_id w) ''f1'' ''wrong bank details'' ''PENDING'' s of
          Inl e \<Rightarrow> False | Inr (r, t) \<Rightarrow> wd_status (fst r) = ''REJECTED'')"
  by code_simp

lemma payable_db_sound: "withdrawals_sound payable_db"
  by (simp add: withdrawals_sound_def withdrawals_wf_def withdrawals_covered_def sources_solvent_def payout_wf_def db_wf_def
      source_ledger_def source_rows_def sort_by_def source_of_def taken_from_def credit_def debtBySource_def
      payable_db_def example_defs new_transaction_def SOURCE_TYPES_def)

lemma run_done:
  "(case x of Inl e \<Rightarrow> False | Inr (r, t) \<Rightarrow> P r t) \<Longrightarrow> x = Inr (fst (projr x), snd (projr x)) \<and> P (fst (projr x)) (snd (projr x))"
  by (auto split: sum.splits prod.splits)

lemma example_requested_done:
  "requestWithdrawalTx no_reading payout_env True example_request ''WD-1'' payable_db = Inr (fst example_requested, snd example_requested)"
  "approveWithdrawalTx (payout_env\<lparr>env_now := 9000000000\<rparr>) True (wd_id (fst example_requested)) ''f1'' (snd example_requested)
     = Inr (fst example_approved, snd example_approved)"
  "rejectOrAbandonTx payout_env True (wd_id (fst example_requested)) ''f1'' ''wrong bank details'' ''PENDING'' (snd example_requested)
     = Inr (fst example_rejected, snd example_rejected)"
proof -
  note R = run_done[OF example_requested_run, folded example_requested_def]
  show "requestWithdrawalTx no_reading payout_env True example_request ''WD-1'' payable_db = Inr (fst example_requested, snd example_requested)"
    using R by blast
  note A = run_done[OF conjunct1[OF conjunct2[OF conjunct2[OF R]]], folded example_approved_def]
  show "approveWithdrawalTx (payout_env\<lparr>env_now := 9000000000\<rparr>) True (wd_id (fst example_requested)) ''f1'' (snd example_requested)
     = Inr (fst example_approved, snd example_approved)" using A by blast
  note J = run_done[OF conjunct2[OF conjunct2[OF conjunct2[OF R]]], folded example_rejected_def]
  show "rejectOrAbandonTx payout_env True (wd_id (fst example_requested)) ''f1'' ''wrong bank details'' ''PENDING'' (snd example_requested)
     = Inr (fst example_rejected, snd example_rejected)" using J by blast
qed

lemma example_approved_passes: "\<exists>u i. fst example_approved = Approved u i"
proof -
  note R = run_done[OF example_requested_run, folded example_requested_def]
  note A = run_done[OF conjunct1[OF conjunct2[OF conjunct2[OF R]]], folded example_approved_def]
  show ?thesis using A by (auto split: approval_outcome.splits)
qed

lemma example_request_valid: "validRequest example_request payable_db = Inr ((), payable_db)"
  by (simp add: validRequest_def tx_simps Let_def example_request_def requested_amount_def MONEY_FACTOR_CENT key_char_def
      is_digit_def char_code_def)

lemma example_request_new: "find_request example_request payable_db = None" "0 < requested_amount example_request"
  by (simp_all add: find_request_def payable_db_def empty_db_def requested_amount_def example_request_def)

lemma example_requested_wf: "withdrawals_wf (snd example_requested)"
proof -
  have "withdrawals_sound (snd example_requested)"
    by (rule withdrawal_step_sound[OF withdrawal_step.request[OF example_request_valid example_requested_done(1)] payable_db_sound])
  then show ?thesis by (simp add: withdrawals_sound_def)
qed

section \<open>Properties\<close>

text \<open>C14: a request of a withdrawal that is not a repeated one reserves exactly its amount: the publisher, the requesting owner,
  the payout method and the balance qualify; the amount leaves a withdrawable balance that held it, a PENDING withdrawal of it is there,
  its allocations add up to it and come out of the carry-forward or of sources that still have them, and the ledger gains its row.\<close>
theorem withdrawal_request_exact:
  assumes "withdrawals_wf s" "validRequest rq s = Inr (u, s)" "find_request rq s = None"
    and "requestWithdrawalTx to_number env comms rq ref s = Inr (w, s')"
  shows "\<exists>p b. requestable env rq p b s \<and> requested_between to_number env rq ref p b w s s'
     \<and> wd_amount w = requested_amount rq \<and> requested_amount rq \<le> withdrawable_of (rq_publisherId rq) s
     \<and> withdrawable_of k s' = withdrawable_of k s - (if k = rq_publisherId rq then requested_amount rq else 0)
     \<and> reserved_for (wd_id w) s' = requested_amount rq"
proof -
  have a: "0 < requested_amount rq" using validRequest_positive[OF assms(2)] by simp
  obtain p b where r: "requestable env rq p b s" "requested_between to_number env rq ref p b w s s'"
    using requestWithdrawalTx_Inr[OF withdrawals_wfD(2)[OF assms(1)] a assms(4)] assms(3) by auto
  note w = requested_row_eq[OF r(2)] and b = requestable_balance[OF r(1)]
  have "find_balance (wd_publisherId w) s = Some b" using b w by simp
  from requested_balances(1)[OF r(2) this, of k]
  have "withdrawable_of k s' = withdrawable_of k s - (if k = rq_publisherId rq then requested_amount rq else 0)" using w by simp
  moreover have "reserved_for (wd_id w) s' = requested_amount rq"
    using requested_reserved[OF assms(1) r(2)] w by simp
  ultimately show ?thesis using r w b by (auto simp: withdrawable_of_def)
qed

theorem withdrawal_request_exact_witness:
  "\<exists>p b. requestable payout_env example_request p b payable_db
     \<and> requested_between no_reading payout_env example_request ''WD-1'' p b (fst example_requested) payable_db (snd example_requested)"
  using withdrawal_request_exact[OF _ example_request_valid example_request_new(1) example_requested_done(1), of "''p1''"]
    payable_db_sound unfolding withdrawals_sound_def by blast





text \<open>
  When an approval is refused, in terms of the rows: the reasons in the order they are asked, each
  with its condition.  A payout method is fit when new liabilities are open and it is either an
  unbound bank method while manual payouts are on and Stripe off, or a Stripe method with Stripe on
  and an account of the publisher that is complete and in USD.
\<close>

definition liabilities_open :: "env \<Rightarrow> bool" where
  "liabilities_open env \<longleftrightarrow> (let mode = map_option (\<lambda>m. to_lower (trim m)) (env_process env ''FINANCE_RUNTIME_MODE'')
     in mode = Some ''normal'' \<or> mode \<in> {None, Some []} \<and> env_process env ''NODE_ENV'' \<noteq> Some ''production'')"

definition stripe_on :: "env \<Rightarrow> bool" where
  "stripe_on env \<longleftrightarrow> (\<exists>v. env_process env ''STRIPE_CONNECT_ENABLED'' = Some v \<and> to_lower (trim v) = ''true'')"

definition bank_on :: "env \<Rightarrow> bool" where
  "bank_on env \<longleftrightarrow> env_process env ''PAYOUT_LEGACY_METHODS_ENABLED'' = Some ''true''
     \<or> env_process env ''NODE_ENV'' \<in> {Some ''development'', Some ''test''}"

definition method_fit :: "env \<Rightarrow> string \<Rightarrow> payout_method_row \<Rightarrow> db \<Rightarrow> bool" where
  "method_fit env publisherId m s \<longleftrightarrow> liabilities_open env \<and> m_isActive m
     \<and> (m_type m = ''bank_transfer'' \<and> m_providerAccountId m \<in> {None, Some []} \<and> bank_on env \<and> \<not> stripe_on env
        \<or> m_type m = ''stripe_connect'' \<and> stripe_on env
          \<and> (\<exists>i a. m_providerAccountId m = Some i \<and> i \<noteq> [] \<and> find (\<lambda>a. va_id a = i) (provider_accounts s) = Some a
               \<and> va_publisherId a = publisherId \<and> va_provider a = ''stripe_connect'' \<and> va_isActive a \<and> va_status a = ''ENABLED''
               \<and> va_transfersEnabled a \<and> va_payoutsEnabled a \<and> va_detailsSubmitted a \<and> va_payoutScheduleConfigured a
               \<and> va_defaultCurrency a = Some ''USD''))"

definition owns :: "member_row \<Rightarrow> withdrawal_row \<Rightarrow> db \<Rightarrow> bool" where
  "owns m w s \<longleftrightarrow> m \<in> set (publisher_members s) \<and> mb_groupId m = wd_publisherId w \<and> mb_role m = ''PUBLISHER_OWNER''"

definition approval_refusals :: "env \<Rightarrow> string \<Rightarrow> withdrawal_row \<Rightarrow> db \<Rightarrow> (string \<times> bool) list" where
  "approval_refusals env approver w s =
     [(''NOT_PENDING'', wd_status w \<noteq> ''PENDING''),
      (''CURRENCY_INVALID'', wd_currency w \<noteq> ''USD''),
      (''APPROVER_INELIGIBLE'', \<not> (\<exists>m \<in> set (staff s). st_userId m = approver \<and> st_role m \<in> {''FINANCE'', ''SUPER_ADMIN''}
         \<and> st_userType m = ''STAFF'' \<and> \<not> st_banned m)),
      (''TIER_HOLD_ACTIVE'', \<exists>t. wd_availableAt w = Some t \<and> env_now env < t),
      (''MEMBERSHIP_REVOKED'', \<not> (\<exists>m. owns m w s)),
      (''PUBLISHER_BANNED'', \<not> (\<exists>m. owns m w s \<and> \<not> mb_banned m)),
      (''MEMBERSHIP_INELIGIBLE'', \<not> (\<exists>m. owns m w s \<and> \<not> mb_banned m \<and> mb_userType m = ''PUBLISHER'')),
      (''REQUESTER_PROVENANCE_MISSING'', wd_requestedBy w \<in> {None, Some []}),
      (''REQUESTER_INELIGIBLE'', \<not> (\<exists>m. owns m w s \<and> wd_requestedBy w = Some (mb_userId m)
         \<and> \<not> mb_banned m \<and> mb_userType m = ''PUBLISHER'')),
      (''RESERVATION_INVALID'', \<not> (\<exists>a \<in> set (allocations s). al_withdrawalId a = wd_id w)
         \<or> (\<exists>a \<in> set (allocations s). al_withdrawalId a = wd_id w
              \<and> (al_releasedAt a \<noteq> None \<or> al_amount a \<le> 0 \<or> al_currency a \<noteq> ''USD''))
         \<or> sum_list (map (\<lambda>a. if al_withdrawalId a = wd_id w then al_amount a else 0) (allocations s)) \<noteq> wd_amount w),
      (''PAYOUT_METHOD_INVALID'', \<not> (\<exists>m. wd_payoutMethodId w \<notin> {None, Some []}
         \<and> find (\<lambda>m. wd_payoutMethodId w = Some (m_id m) \<and> m_publisherId m = wd_publisherId w \<and> m_isActive m
              \<and> m_type m = wd_method w) (payout_methods s) = Some m
         \<and> method_fit env (wd_publisherId w) m s)),
      (''ALREADY_EXECUTING'', \<exists>x \<in> set (executions s). px_withdrawalId x = wd_id w)]"

lemma method_fit_iff: "pe_executable (method_eligibility env publisherId m s) \<longleftrightarrow> method_fit env publisherId m s"
proof -
  have liable: "isFinanceOperationAllowed (mr_mode (resolveFinanceRuntimeMode (env_process env ''FINANCE_RUNTIME_MODE'')
      (env_process env ''NODE_ENV''))) F_NEW_LIABILITY \<longleftrightarrow> liabilities_open env"
    by (auto simp: isFinanceOperationAllowed_def resolveFinanceRuntimeMode_def liabilities_open_def truthy_def Let_def)
  have on: "stripeConnectEnabled env \<longleftrightarrow> stripe_on env" "areManualBankPayoutsEnabled env \<longleftrightarrow> bank_on env"
    by (auto simp: stripeConnectEnabled_def stripe_on_def areManualBankPayoutsEnabled_def bank_on_def)
  have ready: "stripe_ready publisherId (map_option account_view (find_account i s)) \<longleftrightarrow>
      (\<exists>k a. i = Some k \<and> find (\<lambda>a. va_id a = k) (provider_accounts s) = Some a
         \<and> va_publisherId a = publisherId \<and> va_provider a = ''stripe_connect'' \<and> va_isActive a \<and> va_status a = ''ENABLED''
         \<and> va_transfersEnabled a \<and> va_payoutsEnabled a \<and> va_detailsSubmitted a \<and> va_payoutScheduleConfigured a
         \<and> va_defaultCurrency a = Some ''USD'')" for i
    by (auto simp: stripe_ready_def find_account_def account_view_def split: option.splits)
  show ?thesis
    by (auto simp: method_eligibility_def executable_cases bankIssue_None stripeIssue_None method_view_def
        currentPayoutMethodRuntime_def liable on ready method_fit_def truthy_def)
qed

lemma approval_block_iff: "approval_block env approver w s = map_option fst (find snd (approval_refusals env approver w s))"
proof -
  have owners: "owner_memberships (wd_publisherId w) s = [] \<longleftrightarrow> \<not> (\<exists>m. owns m w s)"
    "list_all mb_banned (owner_memberships (wd_publisherId w) s) \<longleftrightarrow> \<not> (\<exists>m. owns m w s \<and> \<not> mb_banned m)"
    "list_ex acting_owner (owner_memberships (wd_publisherId w) s)
       \<longleftrightarrow> (\<exists>m. owns m w s \<and> \<not> mb_banned m \<and> mb_userType m = ''PUBLISHER'')"
    "list_ex (\<lambda>m. Some (mb_userId m) = wd_requestedBy w \<and> acting_owner m) (owner_memberships (wd_publisherId w) s)
       \<longleftrightarrow> (\<exists>m. owns m w s \<and> wd_requestedBy w = Some (mb_userId m) \<and> \<not> mb_banned m \<and> mb_userType m = ''PUBLISHER'')"
    by (auto simp: owner_memberships_def owns_def acting_owner_def list_all_iff list_ex_iff filter_empty_conv)
  have total: "sum_list (map al_amount (withdrawal_allocations i s))
      = sum_list (map (\<lambda>a. if al_withdrawalId a = i then al_amount a else 0) (allocations s))" for i
    by (simp add: withdrawal_allocations_def sum_list_map_filter')
  have reservation: "reservation_valid w s \<longleftrightarrow> (\<exists>a \<in> set (allocations s). al_withdrawalId a = wd_id w)
      \<and> \<not> (\<exists>a \<in> set (allocations s). al_withdrawalId a = wd_id w
              \<and> (al_releasedAt a \<noteq> None \<or> al_amount a \<le> 0 \<or> al_currency a \<noteq> ''USD''))
      \<and> sum_list (map (\<lambda>a. if al_withdrawalId a = wd_id w then al_amount a else 0) (allocations s)) = wd_amount w"
    unfolding reservation_valid_def Let_def total
    by (auto simp: withdrawal_allocations_def list_all_iff filter_empty_conv)
  have routes: "(case withdrawal_method w s of None \<Rightarrow> False | Some m \<Rightarrow> method_fit env (wd_publisherId w) m s) \<longleftrightarrow>
      (\<exists>m. wd_payoutMethodId w \<notin> {None, Some []}
         \<and> find (\<lambda>m. wd_payoutMethodId w = Some (m_id m) \<and> m_publisherId m = wd_publisherId w \<and> m_isActive m
              \<and> m_type m = wd_method w) (payout_methods s) = Some m
         \<and> method_fit env (wd_publisherId w) m s)"
    unfolding withdrawal_method_def eq_commute[of "Some (m_id _)"] by (auto simp: truthy_def split: option.splits)
  have staffed: "eligible_staff approver s \<longleftrightarrow> (\<exists>m \<in> set (staff s). st_userId m = approver \<and> st_role m \<in> {''FINANCE'', ''SUPER_ADMIN''}
         \<and> st_userType m = ''STAFF'' \<and> \<not> st_banned m)"
    by (simp add: eligible_staff_def list_ex_iff)
  have held: "(case wd_availableAt w of None \<Rightarrow> False | Some t \<Rightarrow> t > env_now env) \<longleftrightarrow> (\<exists>t. wd_availableAt w = Some t \<and> env_now env < t)"
    by (cases "wd_availableAt w") simp_all
  have requester: "\<not> truthy (wd_requestedBy w) \<longleftrightarrow> wd_requestedBy w \<in> {None, Some []}" by (auto simp: truthy_def)
  have usd: "isSupportedMoneyCurrency (JText (wd_currency w)) \<longleftrightarrow> wd_currency w = ''USD''" by (simp add: isSupportedMoneyCurrency_def)
  have executing: "list_ex (\<lambda>x. px_withdrawalId x = wd_id w) (executions s) \<longleftrightarrow> (\<exists>x \<in> set (executions s). px_withdrawalId x = wd_id w)"
    by (simp add: list_ex_iff)
  have first: "map_option fst (find snd ((r, c) # rest)) = (if c then Some r else map_option fst (find snd rest))"
    "map_option fst (find snd []) = (None :: string option)" for r :: string and c rest by simp_all
  have last: "(case withdrawal_method w s of None \<Rightarrow> Some ''PAYOUT_METHOD_INVALID''
       | Some m \<Rightarrow> if \<not> method_fit env (wd_publisherId w) m s then Some ''PAYOUT_METHOD_INVALID'' else if x then Some ''ALREADY_EXECUTING'' else None)
     = (if \<not> (case withdrawal_method w s of None \<Rightarrow> False | Some m \<Rightarrow> method_fit env (wd_publisherId w) m s)
        then Some ''PAYOUT_METHOD_INVALID'' else if x then Some ''ALREADY_EXECUTING'' else None)" for x
    by (cases "withdrawal_method w s") simp_all
  show ?thesis
    unfolding approval_refusals_def routes[symmetric] first approval_block_def Let_def method_fit_iff last
      owners reservation staffed held requester usd executing
    by (simp only: de_Morgan_conj not_not)
qed

text \<open>C20: an approval is exact.  It is refused if and only if one of the twelve reasons holds, with the first that does, and then nothing
  but the report of it is written: the withdrawal must be pending and in USD, the approver unbanned finance staff, the hold of
  the tier over, the requester still an unbanned owner of the publisher, its unreleased allocations positive USD rows that add up to its amount, its
  payout method fit, and no execution there.  Otherwise the withdrawal is APPROVED by this member of the staff, and
  nothing else but the report changes.\<close>
theorem withdrawal_approval_exact:
  assumes "payout_wf s" "approveWithdrawalTx env comms wid approvedBy s = Inr (r, s')"
  shows "\<exists>w. find_withdrawal wid s = Some w \<and> (case find snd (approval_refusals env approvedBy w s) of
       Some (reason, _) \<Rightarrow> r = Blocked reason \<and> reported s s'
     | None \<Rightarrow> (\<exists>i. r = Approved (w\<lparr>wd_status := ''APPROVED'', wd_approvedBy := Some approvedBy,
           wd_approvedAt := Some (env_now env), wd_version := wd_version w + 1\<rparr>) i)
         \<and> withdrawal_approved env approvedBy wid s s')"
proof -
  obtain w where w: "find_withdrawal wid s = Some w" and c: "case r of
       Blocked reason \<Rightarrow> approval_block env approvedBy w s = Some reason \<and> reported s s'
     | Approved u i \<Rightarrow> approval_block env approvedBy w s = None \<and> withdrawal_approved env approvedBy wid s s'
         \<and> find_withdrawal wid s' = Some u"
    using approveWithdrawalTx_Inr[OF assms] by blast
  let ?f = "\<lambda>r. r\<lparr>wd_status := ''APPROVED'', wd_approvedBy := Some approvedBy, wd_approvedAt := Some (env_now env),
              wd_version := wd_version r + 1\<rparr>"
  have "find_withdrawal wid s' = Some (?f w)" if "withdrawal_approved env approvedBy wid s s'"
  proof -
    have "withdrawals s' = update_where (\<lambda>r. wd_id r = wid) ?f (withdrawals s)"
      using that by (auto simp: withdrawal_approved_def)
    then show ?thesis
      using find_one[of wd_id wid "withdrawals s" w ?f wid] w by (simp add: find_withdrawal_def)
  qed
  then show ?thesis using w c unfolding approval_block_iff by (auto split: approval_outcome.splits option.splits)
qed

theorem withdrawal_approval_exact_witness:
  "withdrawal_approved (payout_env\<lparr>env_now := 9000000000\<rparr>) ''f1'' (wd_id (fst example_requested))
     (snd example_requested) (snd example_approved)"
proof -
  obtain u i where "fst example_approved = Approved u i" using example_approved_passes by blast
  then show ?thesis
    using withdrawal_approval_exact[OF withdrawals_wfD(1)[OF example_requested_wf] example_requested_done(2)]
    by (auto split: option.splits)
qed

text \<open>C21: a rejection is exact: rejector, status, history and balance qualify, the allocations of the withdrawal covered it to the last unit;
  it is REJECTED, the publisher has its amount back, no allocation of it is left, and no other publisher is touched.\<close>
theorem withdrawal_rejection_exact:
  assumes "withdrawals_wf s" "rejectOrAbandonTx env comms wid rejectedBy reason expected s = Inr (r, s')"
  shows "\<exists>w b. wd_id w = wid \<and> rejects rejectedBy expected w b s \<and> rejected_between env rejectedBy w s s'
     \<and> reserved_for wid s = wd_amount w \<and> active_allocations wid s' = []
     \<and> withdrawable_of k s' = withdrawable_of k s + (if k = wd_publisherId w then wd_amount w else 0)"
proof -
  obtain w b where w: "wd_id w = wid" "rejects rejectedBy expected w b s" "rejected_between env rejectedBy w s s'"
      "reserved_for wid s = wd_amount w"
    using rejectOrAbandonTx_Inr[OF withdrawals_wfD(1,3)[OF assms(1)] assms(2)] by blast
  have "find_balance (wd_publisherId w) s = Some b" using w by (simp add: rejects_def)
  from rejected_balances(1)[OF w(3) this]
  have "withdrawable_of k s' = withdrawable_of k s + (if k = wd_publisherId w then wd_amount w else 0)" .
  moreover have "allocations s' = released env wid (allocations s)" using w(1,3) by (auto simp: rejected_between_def)
  then have "active_allocations wid s' = []"
    unfolding active_allocations_def by (auto simp: released_def filter_empty_conv dest!: update_where_set split: if_splits)
  ultimately show ?thesis using w by blast
qed

theorem withdrawal_rejection_exact_witness:
  "active_allocations (wd_id (fst example_requested)) (snd example_rejected) = []
     \<and> (\<exists>w b. rejects ''f1'' ''PENDING'' w b (snd example_requested))"
proof -
  from withdrawal_rejection_exact[OF example_requested_wf example_requested_done(3), where k = "''p1''"] obtain w b where
    "rejects ''f1'' ''PENDING'' w b (snd example_requested)" "active_allocations (wd_id (fst example_requested)) (snd example_rejected) = []"
    by blast
  then show ?thesis by blast
qed

text \<open>C16: a rejection undoes its request: after a request and the rejection of the withdrawal, every publisher has what he could
  withdraw and what he had carried forward before, every source has been drawn on as before, every withdrawal is covered
  as before, and the two ledger rows cancel out.\<close>
theorem withdrawal_round_trip:
  assumes "withdrawals_wf s" "validRequest rq s = Inr (u, s)" "find_request rq s = None"
    and "requestWithdrawalTx to_number env comms rq ref s = Inr (w, s1)"
    and "rejectOrAbandonTx env' comms' (wd_id w) rejectedBy reason expected s1 = Inr (r, s2)"
  shows "withdrawable_of k s2 = withdrawable_of k s \<and> carry_used_of k s2 = carry_used_of k s
    \<and> taken_from i s2 = taken_from i s \<and> reserved_for x s2 = reserved_for x s
    \<and> sum_list (map t_amount (transactions s2)) = sum_list (map t_amount (transactions s))"
proof -
  have a: "0 < requested_amount rq" using validRequest_positive[OF assms(2)] by simp
  obtain p b where q: "requestable env rq p b s" "requested_between to_number env rq ref p b w s s1"
    using requestWithdrawalTx_Inr[OF withdrawals_wfD(2)[OF assms(1)] a assms(4)] assms(3) by auto
  have wf: "withdrawals_wf s1" by (rule requested_wf[OF assms(1) q(2)])
  obtain w' b' where w': "wd_id w' = wd_id w" "rejects rejectedBy expected w' b' s1" "rejected_between env' rejectedBy w' s1 s2"
    using rejectOrAbandonTx_Inr[OF withdrawals_wfD(1,3)[OF wf] assms(5)] by blast
  have "w \<in> set (withdrawals s1)" using q(2) by (auto simp: requested_between_def Let_def)
  then have "w' = w"
    using w' find_withdrawal_in[OF withdrawals_wfD(1)[OF wf]] by (fastforce simp: rejects_def)
  then show ?thesis
    using request_then_reject[OF assms(1) conjunct1[OF requestable_balance[OF q(1)]] q(2)] w'(3) by blast
qed

theorem withdrawal_round_trip_witness:
  "withdrawable_of ''p1'' (snd example_rejected) = withdrawable_of ''p1'' payable_db \<and> taken_from ''x1'' (snd example_rejected) = taken_from ''x1'' payable_db"
  using withdrawal_round_trip[OF _ example_request_valid example_request_new(1) example_requested_done(1,3), of "''p1''" "''x1''"]
    payable_db_sound unfolding withdrawals_sound_def by blast

text \<open>C15: whatever requests, approvals, rejections and payouts happen one after the other: the keys stay distinct, every
  withdrawal that is not rejected stays covered to the last unit by allocations of it, a rejected one has none, and
  no source of a publisher is ever spent beyond what it has brought in less the debt repaid out of it.\<close>
theorem withdrawals_stay_sound:
  assumes "withdrawal_step\<^sup>*\<^sup>* s s'" "withdrawals_sound s"
  shows "withdrawals_sound s'"
  using assms by (induction rule: rtranclp_induct) (auto intro: withdrawal_step_sound)

theorem withdrawals_stay_sound_witness:
  "withdrawals_sound (snd example_approved)"
proof -
  have "withdrawal_step payable_db (snd example_requested)"
    by (rule withdrawal_step.request[OF example_request_valid example_requested_done(1)])
  moreover have "withdrawal_step (snd example_requested) (snd example_approved)"
    by (rule withdrawal_step.approve[OF example_requested_done(2)])
  ultimately have "withdrawal_step\<^sup>*\<^sup>* payable_db (snd example_approved)" by simp
  from withdrawals_stay_sound[OF this payable_db_sound] show ?thesis .
qed

end
