(* ===== verification/Finance.thy ===== *)
theory Finance
  imports Reconciliation Deposit_Safety Dispute_Safety Order_Payment Withdrawal_System Settlement_Safety
begin

text \<open>
  The money transactions together: deposits, order payments, payment disputes, refunds, approvals,
  releases, withdrawals and payouts as the steps of one system over the same database, and what
  every run of them keeps: the keys of the tables, and the books, so that the balance detectors of
  the reconciliation have nothing to report.
\<close>

section \<open>Tables a step leaves alone\<close>

definition side_tables where
  "side_tables s = (payment_disputes s, deposits s, provider_events s, recoveries s, executions s, withdrawals s,
     payout_events s, allocations s)"

abbreviation aside_of where
  "aside_of k \<equiv> \<lambda>s. side_tables s = k"

lemma locked_keeps [keeps]: "preserves (aside_of k) (evaluateLockedSettlementEligibility env i)"
  unfolding evaluateLockedSettlementEligibility_def buildLockedSettlementEligibilityState_def lockOrderAggregate_def
    refreshForOrder_def refreshDeliveryUrlReuseEvidenceUnderLock_def lockDeliveryUrlClaim_def
    buildDeliveryUrlReuseCandidate_def flagUrlReuse_def create_fraud_flag_def Let_def
  by (intro keeps) (simp_all add: side_tables_def)

lemma release_keeps: "preserves (aside_of k) (autoReleaseTx env now st ord)"
  unfolding autoReleaseTx_def releaseMoney_def claimRelease_def nettedAmounts_def creditBalance_def recordRelease_def
    currentRiskPolicy_def upsert_approval_def create_approval_def loadSettlementCustomerHistory_def requireCount_def Let_def
  by (intro keeps) (simp_all add: side_tables_def)

lemma approve_keeps: "preserves (aside_of k) (autoApproveTx env st ord)"
  unfolding autoApproveTx_def upsert_approval_def create_approval_def Let_def
  by (intro keeps) (simp_all add: side_tables_def)

text \<open>The transactions of the settlement service.\<close>

lemma gate_keeps [keeps]:
  "(\<And>l. preserves (aside_of k) (f l)) \<Longrightarrow> preserves (aside_of k) (gateSettlement env i f)"
  unfolding gateSettlement_def by (intro keeps)

lemma found_keeps [keeps]: "preserves P (found_or_throw x)" "preserves P (settlement_or_throw i)"
  unfolding settlement_or_throw_def found_or_throw_def by (intro keeps)+

lemma audit_keeps [keeps]: "preserves (aside_of k) (audit_log env a ty i m u g)"
  unfolding audit_log_def by (intro keeps) (simp_all add: side_tables_def)

lemma approvals_keep [keeps]:
  "preserves (aside_of k) (create_approval env a)" "preserves (aside_of k) (upsert_approval env f a)"
  unfolding upsert_approval_def create_approval_def by (intro keeps; simp add: side_tables_def)+

lemma told_keeps [keeps]: "preserves (aside_of k) (recordSettlementReleased to_number env comms st ord summary)"
  unfolding recordSettlementReleased_def recordHighValueSettlement_def Let_def by (intro keeps) (simp_all add: side_tables_def)

lemma funds_keep [keeps]: "preserves (aside_of k) (releaseFundsInternal env st userId)"
  unfolding releaseFundsInternal_def assertSeparation_def creditPublisher_def checkPublisherBalanceInvariant_def completeOrder_def
    recordFundsReleased_def Let_def
  by (intro keeps) (simp_all add: side_tables_def)

lemma settlement_keeps:
  "preserves (aside_of k) (customerApproveTx env st ord userId org role)"
  "preserves (aside_of k) (adminApproveTx to_number env comms st ord reason userId role)"
  "preserves (aside_of k) (forceApproveTx to_number env comms st ord reason userId role)"
  "preserves (aside_of k) (cancelSettlementTx env st ord userId reason)"
  "preserves (aside_of k) (returnToReviewTx env st ord userId reason)"
  "preserves (aside_of k) (createSettlementTx to_number env orderId orgId userId ord)"
  unfolding customerApproveTx_def adminApproveTx_def forceApproveTx_def cancelSettlementTx_def returnToReviewTx_def
    createSettlementTx_def recordCustomerApproval_def revokeCustomerApproval_def lockedOrder_def
    attributedPublisher_def servicePrice_def resolvePlatformFeePolicy_def loadSettlementCustomerHistory_def requireCount_def
    create_settlement_def recordCreation_def Let_def
  by (intro keeps; simp add: side_tables_def)+

lemma refund_keeps:
  assumes "audit_writer write"
  shows "preserves (aside_of k) (refundUnacceptedPaidOrderInTransaction env write ord i)"
proof -
  have w: "preserves (aside_of k) (write a)" for a
    unfolding preserves_def
  proof (intro allI impI)
    fix s u s' assume "side_tables s = k" "write a s = Inr (u, s')"
    moreover from this obtain logs where "s' = s\<lparr>audit_logs := logs\<rparr>"
      using assms unfolding audit_writer_def by blast
    ultimately show "side_tables s' = k" by (simp add: side_tables_def)
  qed
  show ?thesis
    unfolding refundUnacceptedPaidOrderInTransaction_def refundableWallet_def claimRefund_def
    by (intro keeps w) (simp_all add: side_tables_def)
qed

text \<open>A dispute moves the status of an attempt and consumes an event: keys and recoveries stay.\<close>

abbreviation inbox_of where
  "inbox_of k \<equiv> \<lambda>s. (map da_id (deposits s), recoveries s) = k"

lemma dispute_hooks_keep:
  assumes "hooks_ok hooks"
  shows "preserves (inbox_of k) (dh_audit hooks a)" "preserves (inbox_of k) (dh_notifyFinance hooks n)"
    "preserves (inbox_of k) (case dh_notifyCustomer hooks of None \<Rightarrow> ret () | Some notify \<Rightarrow> notify d)"
proof -
  have a: "aside s s' \<Longrightarrow> inbox_of k s \<Longrightarrow> inbox_of k s'" for s s' by (auto simp: aside_def)
  show "preserves (inbox_of k) (dh_audit hooks a)" "preserves (inbox_of k) (dh_notifyFinance hooks n)"
    using assms a unfolding preserves_def hooks_ok_def by blast+
  show "preserves (inbox_of k) (case dh_notifyCustomer hooks of None \<Rightarrow> ret () | Some notify \<Rightarrow> notify d)"
  proof (cases "dh_notifyCustomer hooks")
    case (Some notify)
    then have "notify d s = Inr (u, s') \<Longrightarrow> aside s s'" for s u s' using assms unfolding hooks_ok_def by blast
    then show ?thesis using a unfolding preserves_def Some option.case by blast
  qed (simp add: keeps)
qed

lemma preserves_update_case [keeps]:
  "(\<And>s x. P s \<Longrightarrow> P (s\<lparr>payment_disputes := x\<rparr>)) \<Longrightarrow> preserves P (update_case existing p f)"
  "(\<And>s x i. P s \<Longrightarrow> P (s\<lparr>id_supply := i\<rparr>)) \<Longrightarrow> (\<And>s x. P s \<Longrightarrow> P (s\<lparr>payment_disputes := x\<rparr>)) \<Longrightarrow>
     preserves P (create_dispute env d)"
  by (auto simp: preserves_def update_case_def create_dispute_def tx_simps)

lemma dispute_keeps:
  assumes "hooks_ok hooks"
  shows "preserves (inbox_of k) (paymentDisputeTx env hooks i desired)"
proof -
  note H = dispute_hooks_keep[OF assms]
  have c: "preserves (inbox_of k) (completeEvent env d c i)" for d c
    unfolding completeEvent_def Let_def by (intro keeps) (auto simp: map_update_where)
  have r: "preserves (inbox_of k) (replayOpen env hooks i existing deposit)"
    "preserves (inbox_of k) (replayTerminal env i desired existing deposit)"
    "preserves (inbox_of k) (resolveCase env hooks i desired existing deposit)" for existing deposit
    unfolding replayOpen_def replayTerminal_def resolveCase_def attachOpenEvidence_def releaseHold_def
      recordResolution_def closeCase_def Let_def
    by (intro keeps H c; simp)+
  have b: "preserves (inbox_of k) (bookCase env hooks i desired deposit)" for deposit
    unfolding bookCase_def holdFunds_def openCase_def terminalCase_def Let_def
    by (intro keeps H c; simp)
  show ?thesis
    unfolding paymentDisputeTx_def validateEvent_def readAndAssertEvent_def findLinkedDeposit_def
      assertCurrentStripeMode_def lockWalletForUpdate_def Let_def
    by (intro keeps r b; simp)
qed

section \<open>Well-formed stores\<close>

text \<open>The keys of every table a money transaction touches.\<close>

definition store_wf :: "db \<Rightarrow> bool" where
  "store_wf s \<longleftrightarrow> db_wf s \<and> dispute_wf s \<and> credit_wf s \<and> payout_wf s \<and> distinct (map al_id (allocations s))"

lemma side_store_wf: "store_wf s \<Longrightarrow> side_tables s' = side_tables s \<Longrightarrow> db_wf s' \<Longrightarrow> store_wf s'"
  by (simp add: store_wf_def side_tables_def db_wf_def dispute_wf_def credit_wf_def payout_wf_def)

lemma frame_tables:
  "credit_frame s s' \<Longrightarrow> orders s' = orders s \<and> settlements s' = settlements s \<and> balances s' = balances s
     \<and> payment_disputes s' = payment_disputes s \<and> executions s' = executions s \<and> withdrawals s' = withdrawals s
     \<and> payout_events s' = payout_events s \<and> allocations s' = allocations s"
  unfolding credit_frame_def by (cases s; cases s') simp

lemma payout_frame_tables:
  "payout_frame s s' \<Longrightarrow> payment_disputes s' = payment_disputes s \<and> deposits s' = deposits s
     \<and> provider_events s' = provider_events s \<and> recoveries s' = recoveries s"
  unfolding payout_frame_def by (cases s; cases s') simp

lemma credit_keeps_wf:
  assumes "store_wf s" "credit_wf s'" "credit_frame s s'"
  shows "store_wf s'"
  using assms frame_tables[OF assms(3)]
  by (simp add: store_wf_def db_wf_def dispute_wf_def credit_wf_def payout_wf_def)

lemma dispute_keeps_wf:
  assumes "store_wf s" "dispute_wf s'" "same_rest s s'" "map da_id (deposits s') = map da_id (deposits s)"
    "recoveries s' = recoveries s"
  shows "store_wf s'"
  using assms by (simp add: store_wf_def db_wf_def dispute_wf_def credit_wf_def payout_wf_def same_rest_def)

lemma payout_keeps_wf:
  assumes "store_wf s" "payout_wf s'" "payout_frame s s'"
  shows "store_wf s'"
  using assms payout_frame_tables[OF assms(3)] payout_tables[OF assms(3)]
  by (simp add: store_wf_def db_wf_def dispute_wf_def credit_wf_def payout_wf_def)

lemma aside_payout_frame: "payout_aside s s' \<Longrightarrow> payout_frame s s'"
  by (auto simp: payout_aside_def payout_frame_def)

section \<open>Balanced books\<close>

text \<open>
  Every wallet holds the sum of its ledger rows, bucket transfers aside, and every publisher can
  withdraw the sum of his rows of the publisher types: what the balance detectors check.
\<close>

definition books_balanced :: "db \<Rightarrow> bool" where
  "books_balanced s \<longleftrightarrow>
     (\<forall>k \<in> set (map w_id (wallets s)). available_of k s + reserved_of k s = wallet_ledger k s)
     \<and> (\<forall>k. withdrawable_of k s = publisher_ledger k s)"

definition cash :: "transaction_row list \<Rightarrow> int" where
  "cash ts = sum_list (map t_amount (filter (\<lambda>t. t_type t \<noteq> ''RESERVATION'' \<and> t_type t \<noteq> ''RELEASE'') ts))"

lemma ledger_append:
  assumes "transactions s' = transactions s @ ts"
  shows "wallet_ledger k s' = wallet_ledger k s + cash (filter (\<lambda>t. t_walletId t = Some k) ts)"
    "publisher_ledger k s' = publisher_ledger k s
       + sum_list (map t_amount (filter (\<lambda>t. t_publisherId t = Some k \<and> t_type t \<in> set LEDGER_TYPES) ts))"
  using assms by (simp_all add: wallet_ledger_def publisher_ledger_def cash_def filter_filter conj_commute conj_left_commute)

text \<open>A step that moves one wallet and books rows on that wallet only.\<close>

lemma wallet_step:
  assumes b: "books_balanced s" and w: "wallet_moved wid a r s s'" and t: "transactions s' = transactions s @ ts"
    and rows: "\<And>t. t \<in> set ts \<Longrightarrow> t_walletId t = Some wid \<and> t_publisherId t = None"
    and sum: "a + r = cash ts" and bal: "balances s' = balances s"
  shows "books_balanced s'"
proof -
  have "filter (\<lambda>t. t_walletId t = Some k) ts = (if k = wid then ts else [])" for k
    using rows by (auto intro!: filter_True filter_False)
  then have "wallet_ledger k s' = wallet_ledger k s + (if k = wid then a + r else 0)" for k
    using ledger_append(1)[OF t, of k] sum by (auto simp: cash_def)
  moreover have "publisher_ledger k s' = publisher_ledger k s" for k
  proof -
    have "filter (\<lambda>t. t_publisherId t = Some k \<and> t_type t \<in> set LEDGER_TYPES) ts = []"
      using rows by (auto intro!: filter_False)
    then show ?thesis using ledger_append(2)[OF t, of k] by simp
  qed
  ultimately show ?thesis
    using b w bal by (auto simp: books_balanced_def wallet_moved_def withdrawable_of_def find_balance_def)
qed

lemma same_balanced:
  "books_balanced s \<Longrightarrow> wallets s' = wallets s \<Longrightarrow> transactions s' = transactions s \<Longrightarrow> balances s' = balances s \<Longrightarrow>
     books_balanced s'"
  by (simp add: books_balanced_def available_of_def reserved_of_def find_wallet_def wallet_ledger_def
      publisher_ledger_def withdrawable_of_def find_balance_def)

lemma credit_balanced:
  assumes "books_balanced s" "credit_done env f s s' \<or> credit_idle s s'"
  shows "books_balanced s'"
  using assms(2)
proof
  assume "credit_done env f s s'"
  then obtain m t and a :: deposit_row where t: "transactions s' = transactions s @ [t]" "t_type t = ''DEPOSIT''"
      "t_amount t = m * CENT" "t_walletId t = Some (da_walletId a)" "t_publisherId t = None"
    and w: "wallet_moved (da_walletId a) (m * CENT) 0 s s'" and f: "credit_frame s s'"
    by (auto simp: credit_done_def)
  show ?thesis
    by (rule wallet_step[OF assms(1) w t(1)]) (use t frame_tables[OF f] in \<open>auto simp: cash_def\<close>)
next
  assume i: "credit_idle s s'"
  then show ?thesis using same_balanced[OF assms(1)] frame_tables by (simp add: credit_idle_def)
qed

lemma spec_rows:
  "dispute_spec desired amount available c = (c', a, r, rows) \<Longrightarrow> desired \<in> {''OPEN'', ''WON'', ''LOST''} \<Longrightarrow>
     a + r = sum_list (map snd (filter (\<lambda>x. fst x \<noteq> ''RESERVATION'' \<and> fst x \<noteq> ''RELEASE'') rows))"
  by (cases "(desired, amount, available, c)" rule: dispute_spec.cases) (auto simp: Let_def split: if_splits)

lemma dispute_balanced:
  assumes "books_balanced s" "dispute_done i desired s s' d" "same_rest s s'" "desired \<in> {''OPEN'', ''WON'', ''LOST''}"
  shows "books_balanced s'"
proof -
  obtain c a r rows where sp: "dispute_spec desired (pd_amount d) (available_of (pd_walletId d) s)
        (map_option abs_case (find_case i s)) = (c, a, r, rows)"
    and w: "wallet_moved (pd_walletId d) a r s s'" and l: "ledger_gains (pd_walletId d) rows s s'"
    using assms(2) by (auto simp: dispute_done_def split: prod.splits)
  obtain ts where ts: "transactions s' = transactions s @ ts" "map (\<lambda>t. (t_type t, t_amount t)) ts = rows"
      "\<And>t. t \<in> set ts \<Longrightarrow> t_walletId t = Some (pd_walletId d) \<and> t_publisherId t = None"
    using l by (auto simp: ledger_gains_def)
  have "a + r = cash ts"
    unfolding spec_rows[OF sp assms(4)] ts(2)[symmetric] cash_def by (simp add: filter_map o_def)
  then show ?thesis using wallet_step[OF assms(1) w ts(1,3)] assms(3) by (simp add: same_rest_def)
qed

lemma refund_balanced:
  assumes b: "books_balanced s" and wf: "db_wf s" and r: "refunded_between env ord i s s' row w"
  shows "books_balanced s'"
proof -
  let ?f = "\<lambda>x. x\<lparr>w_availableBalance := w_availableBalance x + refund_amount ord, w_version := w_version x + 1\<rparr>"
  have t: "transactions s' = transactions s @ [refund_row env (id_supply s) ord i w]" and bal: "balances s' = balances s"
    and ws: "wallets s' = update_where (\<lambda>x. x = w) ?f (wallets s)"
    and o: "find_org_wallet (uo_organizationId ord) s = Some w"
    using r by (auto simp: refunded_between_def)
  have win: "w \<in> set (wallets s)" using o find_key[of _ "wallets s"] by (simp add: find_org_wallet_def)
  have "wallets s' = update_where (\<lambda>x. w_id x = w_id w \<and> w_version x = w_version w) ?f (wallets s)"
    unfolding ws
  proof (rule update_where_cong)
    fix x assume "x \<in> set (wallets s)"
    then show "(x = w) = (w_id x = w_id w \<and> w_version x = w_version w)"
      using distinct_key_eq[OF db_wfD(2)[OF wf] _ win] by blast
  qed
  moreover have "wallet_moved (w_id w) (refund_amount ord) 0 s
      (s\<lparr>wallets := update_where (\<lambda>x. w_id x = w_id w \<and> w_version x = w_version w) ?f (wallets s)\<rparr>)"
    by (rule guarded_wallet[OF db_wfD(2)[OF wf] find_wallet_in[OF db_wfD(2)[OF wf] win]]) simp_all
  ultimately have "wallet_moved (w_id w) (refund_amount ord) 0 s s'"
    using moved_wallets[of s s s' "s\<lparr>wallets := wallets s'\<rparr>"] by simp
  from wallet_step[OF b this t _ _ bal] show ?thesis by (simp add: refund_row_def new_transaction_def cash_def)
qed

lemma release_balanced:
  assumes b: "books_balanced s" and r: "released_between env now st s s' f"
  shows "books_balanced s'"
proof -
  let ?pid = "s_publisherId st"
  have t: "transactions s' = transactions s @ release_rows env (lf_supply f) st (lf_paid f) (lf_netted f)"
    and w: "wallets s' = wallets s" and n: "0 \<le> lf_netted f"
    and p: "withdrawable_of ?pid s' = withdrawable_of ?pid s + (lf_paid f - lf_netted f) * CENT"
    and others: "\<And>k. k \<noteq> ?pid \<Longrightarrow> withdrawable_of k s' = withdrawable_of k s"
    using r by (auto simp: released_between_def Let_def withdrawable_of_def)
  have "wallet_ledger k s' = wallet_ledger k s" for k
    using ledger_append(1)[OF t, of k] by (simp add: release_rows_def new_transaction_def cash_def)
  moreover have "publisher_ledger k s' = publisher_ledger k s
      + (if k = ?pid then (lf_paid f - lf_netted f) * CENT else 0)" for k
    using ledger_append(2)[OF t, of k] n
    by (auto simp: release_rows_def new_transaction_def LEDGER_TYPES_def left_diff_distrib)
  moreover have "available_of k s' = available_of k s" "reserved_of k s' = reserved_of k s" for k
    using w by (simp_all add: available_of_def reserved_of_def find_wallet_def)
  ultimately show ?thesis using b w p others by (auto simp: books_balanced_def)
qed

lemma payout_balanced:
  assumes b: "books_balanced s" and d: "payout_done i s s' \<or> payout_aside s s'"
  shows "books_balanced s'"
proof -
  have w: "withdrawable_of k s' = withdrawable_of k s" for k
    using d by (auto simp: payout_done_def withdrawable_of_def find_balance_def find_paid_balance_def payout_aside_same)
  have "payout_frame s s'" using d aside_payout_frame by (auto simp: payout_done_def)
  from payout_tables[OF this] show ?thesis
    using b w by (simp add: books_balanced_def available_of_def reserved_of_def find_wallet_def wallet_ledger_def
        publisher_ledger_def)
qed

section \<open>Settlements\<close>

lemma money_balanced:
  assumes b: "books_balanced s" and m: "money_released st paid netted s s'" and d: "0 \<le> netted"
  shows "books_balanced s'"
proof -
  let ?pid = "s_publisherId st"
  obtain ts where t: "transactions s' = transactions s @ ts" "map ledger_line ts = release_lines st paid netted"
    and w: "wallets s' = wallets s" and c: "publisher_credited ?pid paid netted s s'"
    using m by (auto simp: money_released_def)
  have lines: "x \<in> set ts \<Longrightarrow> ledger_line x \<in> set (release_lines st paid netted)" for x using t(2) by (metis image_eqI set_map)
  have row: "t_walletId x = None \<and> t_publisherId x = Some ?pid \<and> t_type x \<in> set LEDGER_TYPES" if "x \<in> set ts" for x
    using lines[OF that] by (auto simp: release_lines_def ledger_line_def LEDGER_TYPES_def split: if_splits)
  have "map (fst \<circ> snd) (map ledger_line ts) = map t_amount ts" by (simp add: ledger_line_def)
  then have sum: "sum_list (map t_amount ts) = paid - netted"
    using d unfolding t(2) by (auto simp: release_lines_def dest!: arg_cong[where f = sum_list] split: if_splits)
  have "wallet_ledger k s' = wallet_ledger k s" for k
  proof -
    have "filter (\<lambda>x. t_walletId x = Some k) ts = []" using row by (auto simp: filter_empty_conv)
    then show ?thesis using ledger_append(1)[OF t(1), of k] by (simp add: cash_def)
  qed
  moreover have "publisher_ledger k s' = publisher_ledger k s + (if k = ?pid then paid - netted else 0)" for k
  proof -
    have "filter (\<lambda>x. t_publisherId x = Some k \<and> t_type x \<in> set LEDGER_TYPES) ts = (if k = ?pid then ts else [])"
      using row by (auto intro!: filter_True filter_False)
    then show ?thesis using ledger_append(2)[OF t(1), of k] sum by simp
  qed
  moreover have "withdrawable_of k s' = withdrawable_of k s + (if k = ?pid then paid - netted else 0)" for k
    using c by (auto simp: publisher_credited_def withdrawable_of_def)
  moreover have "available_of k s' = available_of k s" "reserved_of k s' = reserved_of k s" for k
    using w by (simp_all add: available_of_def reserved_of_def find_wallet_def)
  ultimately show ?thesis using b w by (simp add: books_balanced_def)
qed

text \<open>A row of a settlement whose amount and publisher's debt are not negative, as the schema checks of debts.\<close>

definition payable :: "settlement_row \<Rightarrow> db \<Rightarrow> bool" where
  "payable st s \<longleftrightarrow> 0 \<le> s_publisherAmount st \<and> 0 \<le> debt_of (s_publisherId st) s"

lemma staff_release_keeps:
  assumes p: "payable st s" and r: "released_by_staff env st userId netted s s'"
  shows "books_balanced s \<longrightarrow> books_balanced s'"
proof
  assume b: "books_balanced s"
  have m: "money_released st (s_publisherAmount st) netted s s'" using r by (auto simp: released_by_staff_def)
  have "0 \<le> netted" using p m by (simp add: payable_def money_released_def)
  from money_balanced[OF b m this] show "books_balanced s'" .
qed

text \<open>What a transaction of the settlement service keeps, given what its gate and its rest do.\<close>

lemma gated_keeps:
  assumes wf: "store_wf s" and side: "side_tables s' = side_tables s"
    and gate: "gateSettlement env i f s = Inr (g, s')"
    and passed: "\<And>x. g = Passed x \<Longrightarrow> db_wf s' \<and> (books_balanced s \<longrightarrow> books_balanced s')"
  shows "store_wf s' \<and> (books_balanced s \<longrightarrow> books_balanced s')"
proof -
  have "db_wf s' \<and> (books_balanced s \<longrightarrow> books_balanced s')"
    using gate
  proof (cases rule: gateSettlement_Inr)
    case (refused reasons key)
    then have b: "same_books s s'" by blast
    then have "db_wf s'" using wf by (simp add: same_books_def store_wf_def db_wf_def)
    moreover have "books_balanced s \<longrightarrow> books_balanced s'" using b same_balanced[of s s'] by (simp add: same_books_def)
    ultimately show ?thesis by blast
  qed (use passed in blast)
  then show ?thesis using side_store_wf[OF wf side] by blast
qed

text \<open>The money-free transactions change settlements, approvals and the records beside them.\<close>

lemma framed_balanced:
  "s' = s\<lparr>settlements := a, approvals := b, order_events := c, audit_logs := d, id_supply := e\<rparr> \<Longrightarrow> books_balanced s \<longrightarrow> books_balanced s'"
  using same_balanced[of s s'] by simp

section \<open>Payments and withdrawals\<close>

lemma captured_keeps:
  assumes wf: "store_wf s" and c: "captured_between env ord w amount s s'"
  shows "store_wf s'" "books_balanced s \<Longrightarrow> books_balanced s'"
proof -
  have "side_tables s' = side_tables s" using c by (auto simp: captured_between_def side_tables_def)
  moreover have "db_wf s'" using wf captured_wf[OF _ c] by (simp add: store_wf_def)
  moreover have "map w_id (wallets s') = map w_id (wallets s)" using c by (simp add: captured_between_def wallet_moved_def)
  ultimately show "store_wf s'" using wf
    by (simp add: store_wf_def side_tables_def dispute_wf_def credit_wf_def payout_wf_def db_wf_def)
  assume b: "books_balanced s"
  have m: "wallet_moved (w_id w) (- amount) 0 s s'" and bal: "balances s' = balances s"
    and t: "transactions s' = transactions s @ [reservation_row env (id_supply s) (w_id w) amount (o_id ord),
               purchase_row env (id_supply s + 1) (w_id w) amount (o_id ord)]"
    using c by (auto simp: captured_between_def)
  show "books_balanced s'"
    by (rule wallet_step[OF b m t _ _ bal])
      (auto simp: cash_def reservation_row_def purchase_row_def spend_row_def new_transaction_def)
qed

lemma requoted_keeps:
  assumes wf: "store_wf s" and c: "s' = s\<lparr>order_items := is, orders := os\<rparr>" "map o_id os = map o_id (orders s)"
  shows "store_wf s'" "books_balanced s \<Longrightarrow> books_balanced s'"
  using wf c same_balanced[of s s'] by (simp_all add: store_wf_def dispute_wf_def credit_wf_def payout_wf_def db_wf_def)

lemma payment_keeps:
  assumes wf: "store_wf s" and v: "validateSubmitPaymentCommand (Some c) = Inr expected"
    and run: "submitPaymentTx to_number env comms orderId userId userOrgId actorRole c expected s = Inr (out, s')"
  shows "store_wf s' \<and> (books_balanced s \<longrightarrow> books_balanced s')"
proof -
  have db: "db_wf s" using wf by (simp add: store_wf_def)
  show ?thesis
  proof (rule submitPaymentTx_Inr[OF db v run])
    fix ord w items amount price
    assume c: "checked_out orderId userId userOrgId actorRole c ord w items amount price s"
      and d: "driftedItems price items \<noteq> [] \<and> (\<exists>d. out = Requote d \<and> requote orderId ord price items s = Inr (d, s'))
       \<or> driftedItems price items = [] \<and> (\<exists>row ids. out = Captured row ids
          \<and> capture to_number env comms ord w userId userOrgId s = Inr ((row, ids), s'))"
    from d show ?thesis
    proof (elim disjE conjE exE)
      fix d assume r: "requote orderId ord price items s = Inr (d, s')"
      have f: "find_order orderId s = Some ord" "items = filter (\<lambda>i. i_orderId i = orderId) (order_items s)"
          "list_all (priced ord) items" "0 < price"
        using c by (auto simp: checked_out_def on_offer_def)
      note R = requote_Inr[OF db f r]
      then obtain "is" os where e: "s' = s\<lparr>order_items := is, orders := os\<rparr>" by blast
      have "map o_id os = map o_id (orders s)" using R e by (auto simp: map_update_where)
      from requoted_keeps[OF wf e this] show ?thesis by blast
    next
      fix row ids assume k: "capture to_number env comms ord w userId userOrgId s = Inr ((row, ids), s')"
      have "find_order (o_id ord) s = Some ord" using c by (simp add: checked_out_def)
      from capture_Inr[OF db this k] captured_keeps[OF wf] show ?thesis by blast
    qed
  qed
qed

text \<open>A step that moves what one publisher can withdraw and books one row of a publisher type for him.\<close>

lemma publisher_step:
  assumes b: "books_balanced s" and t: "transactions s' = transactions s @ [t]" and w: "wallets s' = wallets s"
    and row: "t_walletId t = None" "t_publisherId t = Some pid" "t_type t \<in> set LEDGER_TYPES"
    and m: "\<And>k. withdrawable_of k s' = withdrawable_of k s + (if k = pid then t_amount t else 0)"
  shows "books_balanced s'"
proof -
  have "wallet_ledger k s' = wallet_ledger k s" "publisher_ledger k s' = publisher_ledger k s + (if k = pid then t_amount t else 0)" for k
    using ledger_append[OF t, of k] row by (simp_all add: cash_def)
  then show ?thesis using b w m
    by (simp add: books_balanced_def available_of_def reserved_of_def find_wallet_def)
qed

lemma request_keeps:
  assumes wf: "store_wf s" and a: "validRequest rq s = Inr (u, s)"
    and run: "requestWithdrawalTx to_number env comms rq ref s = Inr (w, s')"
  shows "store_wf s' \<and> (books_balanced s \<longrightarrow> books_balanced s')"
proof -
  have "0 < requested_amount rq" using validRequest_positive[OF a] by simp
  from requestWithdrawalTx_Inr[OF _ this run] wf consider "s' = s"
    | p b where "requestable env rq p b s" "requested_between to_number env rq ref p b w s s'" by (auto simp: store_wf_def)
  then show ?thesis
  proof cases
    case (2 p b)
    obtain new logs out where e: "s' = s\<lparr>withdrawals := withdrawals s @ [w], allocations := allocations s @ new,
             balances := update_where (\<lambda>r. b_publisherId r = wd_publisherId w)
               (\<lambda>r. r\<lparr>b_withdrawableBalance := b_withdrawableBalance r - wd_amount w,
                      b_allocationCarryForwardUsed := b_allocationCarryForwardUsed r + carry_used b (wd_amount w),
                      b_version := b_version r + 1\<rparr>) (balances s),
             transactions := transactions s @ [withdrawal_ledger_row env (id_supply s + 1 + length new) w],
             id_supply := id_supply s + 2 + length new, audit_logs := logs, outbox := out\<rparr>"
      and ids: "distinct (map al_id (allocations s @ new))" and fresh: "wd_id w \<notin> wd_id ` set (withdrawals s)"
      using 2(2) wf by (auto simp: requested_between_def Let_def store_wf_def)
    have "store_wf s'"
      using wf ids fresh unfolding e
      by (simp add: store_wf_def db_wf_def dispute_wf_def credit_wf_def payout_wf_def map_update_where)
    moreover have "find_balance (wd_publisherId w) s = Some b"
      using requestable_balance[OF 2(1)] requested_row_eq[OF 2(2)] by simp
    note m = requested_balances(1)[OF 2(2) this]
    have tw: "transactions s' = transactions s @ [withdrawal_ledger_row env (id_supply s + 1 + length new) w]"
      "wallets s' = wallets s" by (simp_all add: e)
    have "books_balanced s'" if "books_balanced s"
      by (rule publisher_step[OF that tw, where pid = "wd_publisherId w"])
        (simp_all add: m withdrawal_ledger_row_def new_transaction_def LEDGER_TYPES_def)
    ultimately show ?thesis by blast
  qed (use wf in simp)
qed

lemma rejection_keeps:
  assumes wf: "store_wf s" and run: "rejectOrAbandonTx env comms wid rejectedBy reason expected s = Inr (r, s')"
  shows "store_wf s' \<and> (books_balanced s \<longrightarrow> books_balanced s')"
proof -
  obtain w b where j: "rejects rejectedBy expected w b s" "rejected_between env rejectedBy w s s'"
    using rejectOrAbandonTx_Inr[OF _ _ run] wf unfolding store_wf_def by blast
  have t: "map wd_id (withdrawals s') = map wd_id (withdrawals s)" "map al_id (allocations s') = map al_id (allocations s)"
    "map b_publisherId (balances s') = map b_publisherId (balances s)" "orders s' = orders s" "wallets s' = wallets s"
    "settlements s' = settlements s" "executions s' = executions s" "payout_events s' = payout_events s"
    "deposits s' = deposits s" "provider_events s' = provider_events s" "recoveries s' = recoveries s"
    "payment_disputes s' = payment_disputes s"
    "transactions s' = transactions s @ [reversal_row env (id_supply s) w]"
    using j(2) by (auto simp: rejected_between_def map_update_where)
  have "find_balance (wd_publisherId w) s = Some b" using j(1) by (simp add: rejects_def)
  note m = rejected_balances(1)[OF j(2) this]
  have "books_balanced s'" if "books_balanced s"
    by (rule publisher_step[OF that t(13,5), where pid = "wd_publisherId w"])
      (simp_all add: m reversal_row_def new_transaction_def LEDGER_TYPES_def)
  then show ?thesis
    using wf t by (simp add: store_wf_def db_wf_def dispute_wf_def credit_wf_def payout_wf_def)
qed

lemma approval_keeps:
  assumes wf: "store_wf s" and run: "approveWithdrawalTx env comms wid approvedBy s = Inr (r, s')"
  shows "store_wf s' \<and> (books_balanced s \<longrightarrow> books_balanced s')"
proof -
  have "payout_wf s" using wf by (simp add: store_wf_def)
  from approveWithdrawalTx_Inr[OF this run] consider "reported s s'" | "withdrawal_approved env approvedBy wid s s'"
    by (cases r) auto
  then obtain ws logs out where e: "s' = s\<lparr>withdrawals := ws, audit_logs := logs, outbox := out\<rparr>" "map wd_id ws = map wd_id (withdrawals s)"
  proof cases
    case 1
    then have "s' = s\<lparr>withdrawals := withdrawals s, audit_logs := audit_logs s', outbox := outbox s'\<rparr>"
      by (simp add: reported_def)
    then show ?thesis by (rule that) simp
  next
    case 2
    then show ?thesis using that by (auto simp: withdrawal_approved_def map_update_where)
  qed
  have "books_balanced s \<longrightarrow> books_balanced s'" using same_balanced[of s s'] by (simp add: e(1))
  then show ?thesis
    using wf e by (simp add: store_wf_def db_wf_def dispute_wf_def credit_wf_def payout_wf_def)
qed

section \<open>The system\<close>

text \<open>
  One committed transaction of the money core, on whatever input and in whatever outside world:
  the hooks write beside the money only, and a dispute event is a normalized one.
\<close>

inductive finance_step :: "db \<Rightarrow> db \<Rightarrow> bool" where
  deposit: "credit_hooks_ok hooks \<Longrightarrow> finalizeDepositCredit env hooks calm authority facts s = (Inr oc, s') \<Longrightarrow>
     finance_step s s'"
| dispute: "hooks_ok dhooks \<Longrightarrow> normalized event \<Longrightarrow> desired \<in> {''OPEN'', ''WON'', ''LOST''} \<Longrightarrow>
     paymentDisputeTx env dhooks event desired s = Inr (doc, s') \<Longrightarrow> finance_step s s'"
| refund: "audit_writer writer \<Longrightarrow> refundUnacceptedPaidOrderInTransaction env writer ord i s = Inr (roc, s') \<Longrightarrow>
     finance_step s s'"
| approve: "autoApproveTx env st row s = Inr (aoc, s') \<Longrightarrow> finance_step s s'"
| release: "autoReleaseTx env now st row s = Inr (loc, s') \<Longrightarrow> finance_step s s'"
| payout: "finalizeInTransaction env pin s = Inr (poc, s') \<Longrightarrow> finance_step s s'"
| pay: "validateSubmitPaymentCommand (Some c) = Inr expected \<Longrightarrow>
     submitPaymentTx to_number env comms orderId userId userOrgId actorRole c expected s = Inr (out, s') \<Longrightarrow> finance_step s s'"
| withdraw: "validRequest rq s = Inr (u, s) \<Longrightarrow> requestWithdrawalTx to_number env comms rq ref s = Inr (w, s') \<Longrightarrow>
     finance_step s s'"
| decide: "approveWithdrawalTx env comms wid staffId s = Inr (ac, s') \<Longrightarrow> finance_step s s'"
| settle: "createSettlementTx to_number env orderId orgId userId ord s = Inr (sc, s') \<Longrightarrow> finance_step s s'"
| agree: "customerApproveTx env st ord userId org role s = Inr (gc, s') \<Longrightarrow> finance_step s s'"
| staff_release: "payable st s \<Longrightarrow> adminApproveTx to_number env comms st ord reason staffId role s = Inr (dc, s') \<Longrightarrow>
     finance_step s s'"
| force: "payable st s \<Longrightarrow> forceApproveTx to_number env comms st ord reason staffId role s = Inr (dc, s') \<Longrightarrow>
     finance_step s s'"
| call_off: "cancelSettlementTx env st ord staffId reason s = Inr (st', s') \<Longrightarrow> finance_step s s'"
| take_back: "returnToReviewTx env st ord staffId reason s = Inr (st', s') \<Longrightarrow> finance_step s s'"
| give_back: "rejectOrAbandonTx env comms wid staffId reason expected_status s = Inr (rc, s') \<Longrightarrow> finance_step s s'"

lemma finance_step_keeps:
  assumes "finance_step s s'" "store_wf s"
  shows "store_wf s' \<and> (books_balanced s \<longrightarrow> books_balanced s')"
  using assms
proof (induction rule: finance_step.induct)
  case (deposit hooks env authority facts s oc s')
  note W = deposit(3)[unfolded store_wf_def]
  have C: "credit_wf s'" "credit_done env facts s s' \<or> credit_idle s s'"
    using credit_step_calm[OF deposit(2,1)] W by (auto split: if_splits)
  then have "credit_frame s s'" by (auto simp: credit_done_def credit_idle_def)
  then show ?case using credit_keeps_wf[OF deposit(3) C(1)] credit_balanced[OF _ C(2)] by blast
next
  case (dispute dhooks event desired env s doc s')
  have wf: "dispute_wf s" using dispute.prems by (simp add: store_wf_def)
  note D = paymentDisputeTx_Inr[OF wf dispute(1,2,3,4)]
  have "(map da_id (deposits s'), recoveries s') = (map da_id (deposits s), recoveries s)"
    using preservesD[OF dispute_keeps[OF dispute(1)] refl dispute(4)] .
  then show ?case using dispute_keeps_wf[OF dispute.prems] D dispute_balanced[OF _ _ _ dispute(3)] by auto
next
  case (refund writer env ord i s roc s')
  have wf: "db_wf s" using refund.prems by (simp add: store_wf_def)
  obtain row tx where roc: "roc = (row, tx)" by (cases roc)
  note R = refund_Inr[OF wf refund(1) refund(2)[unfolded roc]]
  show ?case
    using R side_store_wf[OF refund.prems preservesD[OF refund_keeps[OF refund(1)] refl refund(2)]]
      refund_balanced[OF _ wf] by auto
next
  case (approve env st row s aoc s')
  have wf: "db_wf s" using approve.prems by (simp add: store_wf_def)
  note A = autoApproveTx_Inr[OF wf approve(1)]
  then have "transactions s' = transactions s \<and> balances s' = balances s \<and> wallets s' = wallets s"
    by (auto simp: approved_between_def split: if_splits)
  then show ?case
    using A side_store_wf[OF approve.prems preservesD[OF approve_keeps refl approve(1)]] same_balanced by blast
next
  case (release env now st row s loc s')
  have wf: "db_wf s" using release.prems by (simp add: store_wf_def)
  note L = autoReleaseTx_Inr[OF wf release(1)]
  have "books_balanced s \<longrightarrow> books_balanced s'"
    using L release_balanced same_balanced[of s s'] by (auto simp: same_books_def split: if_splits)
  then show ?case
    using L side_store_wf[OF release.prems preservesD[OF release_keeps refl release(1)]] by blast
next
  case (payout env pin s poc s')
  have wf: "payout_wf s" using payout.prems by (simp add: store_wf_def)
  have P: "payout_wf s'" "payout_done pin s s' \<or> payout_aside s s'"
    using finalize_keeps[OF wf payout(1)] by blast+
  then have "payout_frame s s'" using aside_payout_frame by (auto simp: payout_done_def)
  then show ?case using payout_keeps_wf[OF payout.prems P(1)] payout_balanced[OF _ P(2)] by blast
next
  case (pay c expected to_number env comms orderId userId userOrgId actorRole s out s')
  then show ?case by (intro payment_keeps)
next
  case (withdraw rq s u to_number env comms ref w s')
  then show ?case by (intro request_keeps)
next
  case (decide env comms wid staffId s ac s')
  then show ?case by (intro approval_keeps)
next
  case (settle to_number env orderId orgId userId ord s sc s')
  show ?case
  proof (rule gated_keeps[OF settle.prems preservesD[OF settlement_keeps(6) refl settle(1)] settle(1)[unfolded createSettlementTx_def]])
    fix x assume "sc = Passed x"
    then have c: "created_between env orderId x s s'" using createSettlementTx_Inr settle(1) by blast
    then have rows: "settlements s' = settlements s @ [x]" "s_id x \<notin> s_id ` set (settlements s)"
      and fr: "s' = s\<lparr>settlements := settlements s', order_events := order_events s', audit_logs := audit_logs s', id_supply := id_supply s'\<rparr>"
      unfolding created_between_def by blast+
    have e: "s' = s\<lparr>settlements := settlements s', approvals := approvals s, order_events := order_events s',
        audit_logs := audit_logs s', id_supply := id_supply s'\<rparr>"
      by (rule trans[OF fr]) simp
    have "db_wf s'" using settle.prems rows unfolding store_wf_def by (subst fr) (simp add: db_wf_def)
    then show "db_wf s' \<and> (books_balanced s \<longrightarrow> books_balanced s')" using framed_balanced[OF e] by blast
  qed
next
  case (agree env st ord userId org role s gc s')
  have wf: "db_wf s" using agree.prems by (simp add: store_wf_def)
  show ?case
  proof (rule gated_keeps[OF agree.prems preservesD[OF settlement_keeps(1) refl agree(1)] agree(1)[unfolded customerApproveTx_def]])
    fix x assume g: "gc = Passed x"
    show "db_wf s' \<and> (books_balanced s \<longrightarrow> books_balanced s')"
      by (rule customerApproveTx_Inr[OF wf agree(1)[unfolded g]]) (use framed_balanced in blast)
  qed
next
  case (staff_release st s to_number env comms ord reason staffId role dc s')
  have wf: "db_wf s" using staff_release.prems by (simp add: store_wf_def)
  have a: "0 \<le> s_publisherAmount st" using staff_release(1) by (simp add: payable_def)
  show ?case
  proof (rule gated_keeps[OF staff_release.prems preservesD[OF settlement_keeps(2) refl staff_release(2)]
        staff_release(2)[unfolded adminApproveTx_def]])
    fix x assume g: "dc = Passed x"
    show "db_wf s' \<and> (books_balanced s \<longrightarrow> books_balanced s')"
      by (rule adminApproveTx_Inr[OF wf a staff_release(2)[unfolded g]]) (use staff_release_keeps[OF staff_release(1)] in blast)
  qed
next
  case (force st s to_number env comms ord reason staffId role dc s')
  have wf: "db_wf s" using force.prems by (simp add: store_wf_def)
  have a: "0 \<le> s_publisherAmount st" using force(1) by (simp add: payable_def)
  show ?case
  proof (rule gated_keeps[OF force.prems preservesD[OF settlement_keeps(3) refl force(2)] force(2)[unfolded forceApproveTx_def Let_def]])
    fix x assume g: "dc = Passed x"
    from wf a force(2)[unfolded g] show "db_wf s' \<and> (books_balanced s \<longrightarrow> books_balanced s')"
    proof (cases rule: forceApproveTx_Inr)
      case (release netted)
      then show ?thesis using staff_release_keeps[OF force(1)] by blast
    next
      case customer
      then have e: "s' = s\<lparr>settlements := settlements s', approvals := approvals s', audit_logs := audit_logs s', id_supply := id_supply s'\<rparr>"
        unfolding forced_for_customer_def by blast
      have "transactions s' = transactions s \<and> balances s' = balances s \<and> wallets s' = wallets s"
        using arg_cong[OF e, of wallets] arg_cong[OF e, of transactions] arg_cong[OF e, of balances] by simp
      then show ?thesis using customer(3) same_balanced by blast
    qed
  qed
next
  case (call_off env st ord staffId reason s st' s')
  have wf: "db_wf s" using call_off.prems by (simp add: store_wf_def)
  obtain old where o: "s' = s\<lparr>settlements := settlements s', audit_logs := audit_logs s'\<rparr>" "db_wf s'"
    by (rule cancelSettlementTx_Inr[OF wf call_off(1)])
  have "books_balanced s \<longrightarrow> books_balanced s'"
    using arg_cong[OF o(1), of wallets] arg_cong[OF o(1), of transactions] arg_cong[OF o(1), of balances] same_balanced by simp
  then show ?case using side_store_wf[OF call_off.prems preservesD[OF settlement_keeps(4) refl call_off(1)] o(2)] by blast
next
  case (take_back env st ord staffId reason s st' s')
  have wf: "db_wf s" using take_back.prems by (simp add: store_wf_def)
  obtain e: "s' = s\<lparr>settlements := settlements s', approvals := approvals s', order_events := order_events s', audit_logs := audit_logs s'\<rparr>"
    and w: "db_wf s'" by (rule returnToReviewTx_Inr[OF wf take_back(1)]) blast
  have "books_balanced s \<longrightarrow> books_balanced s'"
    using arg_cong[OF e, of wallets] arg_cong[OF e, of transactions] arg_cong[OF e, of balances] same_balanced by simp
  then show ?case using side_store_wf[OF take_back.prems preservesD[OF settlement_keeps(5) refl take_back(1)] w] by blast
next
  case (give_back env comms wid staffId reason expected_status s rc s')
  then show ?case by (intro rejection_keeps)
qed

inductive_cases finance_stepE: "finance_step s s'"

text \<open>A run of the system: money transactions of any kind, committed one after the other.\<close>

abbreviation finance_run :: "db \<Rightarrow> db \<Rightarrow> bool" where
  "finance_run \<equiv> finance_step\<^sup>*\<^sup>*"

lemma finance_run_keeps:
  assumes "finance_run s s'" "store_wf s"
  shows "store_wf s' \<and> (books_balanced s \<longrightarrow> books_balanced s')"
  using assms by (induction rule: rtranclp_induct) (auto dest: finance_step_keeps)

lemma balanced_no_drift:
  assumes wf: "store_wf s" and b: "books_balanced s" and p: "plain_books s"
  shows "fst (checkWallets env s stats) = []" "fst (checkPublisherBalances env s stats) = []"
proof -
  have w: "w_availableBalance w + w_reservedBalance w = wallet_ledger (w_id w) s" if "w \<in> set (wallets s)" for w
  proof -
    have "find_wallet (w_id w) s = Some w"
      using find_wallet_in[OF _ that] wf by (simp add: store_wf_def db_wf_def)
    then show ?thesis using b that by (force simp: books_balanced_def available_of_def reserved_of_def)
  qed
  have q: "b_withdrawableBalance x = publisher_ledger (b_publisherId x) s" if "x \<in> set (balances s)" for x
  proof -
    have "find_balance (b_publisherId x) s = Some x"
      unfolding find_balance_def using wf that by (intro find_distinct) (simp_all add: store_wf_def db_wf_def)
    moreover have "withdrawable_of (b_publisherId x) s = publisher_ledger (b_publisherId x) s"
      using b by (simp add: books_balanced_def)
    ultimately show ?thesis by (simp add: withdrawable_of_def)
  qed
  show "fst (checkWallets env s stats) = []" "fst (checkPublisherBalances env s stats) = []"
    using balance_detectors[OF p, of env stats] w q by (auto simp: filter_empty_conv)
qed

section \<open>Properties\<close>

text \<open>C10: whatever money transactions run one after the other, the books stay balanced: every wallet holds the sum of its ledger
  rows, available and reserved together, and every publisher can withdraw the sum of his releases, compensations,
  repayments, clawbacks, withdrawals and reversals.\<close>
theorem finance_keeps_books:
  assumes "finance_run s s'" "store_wf s" "books_balanced s"
  shows "books_balanced s'"
  using finance_run_keeps[OF assms(1,2)] assms(3) by blast

text \<open>C9: the balance detectors of the reconciliation have nothing to report after any run of the money transactions that
  starts from balanced books: no such run can cause the drift they look for.\<close>
theorem finance_without_drift:
  assumes "finance_run s s'" "store_wf s" "books_balanced s" "plain_books s'"
  shows "fst (checkWallets env s' stats) = [] \<and> fst (checkPublisherBalances env s' stats) = []"
  using balanced_no_drift[OF _ _ assms(4)] finance_run_keeps[OF assms(1,2)] assms(3) by blast

text \<open>The publisher of the withdrawal example, who asks for a withdrawal that is then rejected.\<close>

lemma payable_books: "store_wf payable_db" "books_balanced payable_db"
proof -
  show "store_wf payable_db"
    by (simp add: store_wf_def db_wf_def dispute_wf_def credit_wf_def payout_wf_def payable_db_def example_defs)
  have "publisher_ledger k payable_db = (if k = ''p1'' then 200 * CENT else 0)"
    "withdrawable_of k payable_db = (if k = ''p1'' then 200 * CENT else 0)" for k
    by (simp_all add: publisher_ledger_def withdrawable_of_def find_balance_def payable_db_def example_defs
        new_transaction_def LEDGER_TYPES_def)
  moreover have "wallets payable_db = []" by (simp add: payable_db_def empty_db_def)
  ultimately show "books_balanced payable_db" by (simp add: books_balanced_def)
qed

lemma example_finance_run: "finance_run payable_db (snd example_requested)" "finance_run payable_db (snd example_rejected)"
proof -
  have "finance_step payable_db (snd example_requested)"
    by (rule finance_step.withdraw[OF example_request_valid example_requested_done(1)])
  moreover have "finance_step (snd example_requested) (snd example_rejected)"
    by (rule finance_step.give_back[OF example_requested_done(3)])
  ultimately show "finance_run payable_db (snd example_requested)" "finance_run payable_db (snd example_rejected)" by simp_all
qed

theorem finance_keeps_books_witness: "books_balanced (snd example_rejected)"
  by (rule finance_keeps_books[OF example_finance_run(2) payable_books])

lemma example_requested_plain_run:
  "case requestWithdrawalTx no_reading payout_env True example_request ''WD-1'' payable_db of
     Inl e \<Rightarrow> False | Inr (w, s) \<Rightarrow> plain_books s"
  by code_simp

lemma example_requested_plain: "plain_books (snd example_requested)"
  using run_done[OF example_requested_plain_run] by (simp add: example_requested_def)

theorem finance_without_drift_witness:
  "fst (checkWallets example_env (snd example_requested) initial_stats) = [] \<and> fst (checkPublisherBalances example_env (snd example_requested) initial_stats) = []"
  by (rule finance_without_drift[OF example_finance_run(1) payable_books example_requested_plain])

end
