(* ===== verification/Spec2Isabelle.thy ===== *)
theory Spec2Isabelle
  imports Settlement_Sweeps Settlement_Properties Settlement_History Order_Refund Dispute_Safety Payout_Safety Deposit_Retrieval Finance
begin

text \<open>
  GuestPost is a marketplace for guest posts: customers deposit money into wallets, buy placements
  on websites of publishers, and publishers are paid after delivery and settlement.  This
  development models the money and order cores of its TypeScript code, the packages under
  src/packages/shared/src and the services of src/apps/api/src that move money, and proves what
  makes them correct.

  The parts and their theories

  Prelude holds the lemma collections and the generic facts.  Money (money.ts) is text and Decimal
  arithmetic: a Decimal column is an integer in units of 10 to the minus MONEY_SCALE dollars, CENT
  of them a cent.  Store holds what every transaction shares: the rows of the tables as records
  named after the Prisma models, the database \<open>db\<close> as a record of tables, transactions
  \<open>'a tx\<close> as functions from a database to a failure or a result with the new database,
  conditional updates that return their count (\<open>updateMany\<close>), creations that
  check the unique constraints, the retry loop of prisma-transaction-retry.ts against a weather of
  interfering transactions and database aborts, and the outside world \<open>env\<close> (clock, generated ids,
  SHA-256, environment variables, communication outbox).

  Order_Policy, Publisher_Policy and Workflow are the pure policies: order lifecycle, priorities and
  cancellation; publisher tiers, payout method eligibility, finance runtime mode, fees, webhook
  freshness; workflow decisions and settlement risk.  Settlement_Gating is the settlement gate with
  the delivery URL claims it refreshes under lock.  Settlement_Sweeps holds the automatic approval
  and release of settlements, Release_Evidence the independent check of what a release has
  written, Order_Refund the refund of an unaccepted order.  Payment_Dispute, Payout_Finalization and
  Deposit_Credit with Deposit_Evidence are the provider cores (payment-dispute-core.ts,
  payout-finalization-core.ts, deposit-credit-core.ts, stripe-deposit-recovery.ts); Dispute_Safety,
  Payout_Safety, Deposit_Safety and Deposit_Retrieval hold their specifications and lemmas, over the
  notions of Books (wallet moves and ledger gains).

  Settlement_Service is the whole of settlements.service.ts: creation, blocking, cancellation, return
  to review, the approvals and overrides of staff, the release of funds they share
  (\<open>releaseFundsInternal\<close>) and the reversal of unpaid ones, each with the checks made outside its
  transaction and the retry loop around it (\<open>meanwhile\<close> is what others do between the
  check and the transaction).  Settlement_Safety proves what each of its transactions writes
  (\<open>released_by_staff\<close>, \<open>created_between\<close>); Settlement_System states the life of a settlement
  (\<open>lifecycle_step\<close>), proves by rely and guarantee that every mixture of service operations,
  sweeps and weather stays within it, and that no settlement is paid twice.  Settlement_History labels
  every committed transaction of the service and the sweeps with its move (a creation, an approval for the
  customer, a payment, a return, a cancellation), each after its checks on some earlier database, and
  proves that replaying the moves on the phases alone gives the phases of the database; every run
  of whole operations, with its retries and its weather, is such a history
  (\<open>settlement_run_happens\<close>).  Settlement_Properties holds the properties of the service and their examples.

  Billing and Order_Payment are the spending of a wallet: the reservation and payment of
  billing.service.ts and the whole of submitPayment of order-payment.service.ts.  Withdrawals is the
  withdrawal part of publisher-payouts.service.ts, Withdrawal_Safety and Withdrawal_System its
  lemmas, its step relation and its invariants.  Reconciliation holds detectors of
  reconciliation-core.ts.  Finance puts the money transactions together as the steps of one system;
  its releases by staff carry the premise \<open>payable\<close> (amount and debt are not negative), which the
  check constraints of the database keep and \<open>releaseFundsInternal\<close> does not test.

  How the parts interact

  All transactions run on the same database.  A deposit credits a wallet; a payment moves
  money out of it into an order; a dispute holds or takes wallet money; a refund returns it; a release
  turns a settled order into a publisher balance, less the debt it repays; a withdrawal reserves
  balance against the ledger rows that brought it in; a payout completes it.  Each theory proves the
  exact effect of its transactions as a relation between the databases before and after
  (\<open>credit_done\<close>, \<open>captured_between\<close>, \<open>dispute_done\<close>, \<open>refunded_between\<close>, \<open>released_between\<close>,
  \<open>requested_between\<close>, \<open>rejected_between\<close>, \<open>payout_done\<close>), and Finance uses only these relations to show
  that any run keeps the keys of the tables and the books balanced, and so that the balance
  detectors of the reconciliation stay silent.

  Conventions

  Exceptions are values of \<open>failure\<close>; a transaction that fails leaves nothing behind, which is what the
  database guarantees.  Serializable isolation is modelled by running each transaction as one
  function; what other clients do between the attempts of a retry loop is the weather.  Row locks
  and \<open>lockOrderAggregate\<close> are covered by that and have no effect of their own.  Retry loops have the
  number of attempts of the code as fuel (three, five or seven); every other loop is over a list.
  Numbers read from environment texts go through a parameter that stands for \<open>Number\<close>, exact as a
  rational.  Decimal arithmetic is exact, which decimal.js is up to twenty significant digits, and
  decimal texts have no exponent.  Hooks that callers pass in (audit writers, notifications) are
  parameters that may only write beside the money.  Locales state the interfaces: a versioned table with
  guarded updates, a comparator that sorting can rely on, and others, each interpreted on the
  definitions of the code.

  Not modelled

  The check constraints and triggers of the database; row level security; the generated Prisma
  client; HTTP controllers, Next.js applications, queues and the worker's schedule; calls of Stripe and of
  other providers; mail, documents and object storage; network verification of deliveries and websites;
  floating-point trust scores.  Of the reconciliation, the dispute, settlement, order payment,
  refund, stuck order and stuck payout detectors.  Refunds of accepted orders
  (refund.service.ts) and the other order services of the API.
\<close>

end
